(* ===== verification/Gar_Prelude.thy ===== *)
theory Gar_Prelude
  imports Main "HOL-Library.List_Lexorder" "HOL-Library.Char_ord" "HOL-Library.Sublist"
begin

text \<open>
  The prelude of the development: the parts of Go's language and standard library that the
  Guarded Agent Runner uses everywhere, and the generic facts the component theories share.

  \<^item> time: a \<open>time.Time\<close> is the number of nanoseconds since January 1, year 1, 00:00 UTC, so
    that Go's zero time is \<open>0\<close>; a \<open>time.Duration\<close> is a signed 64-bit number of
    nanoseconds, and \<open>Time.Sub\<close> saturates at the two ends of that range;
  \<^item> strings: Go strings are byte sequences, so \<open>string\<close> (a list of 8-bit characters) and
    \<open>length\<close> agree with Go's \<open>string\<close> and \<open>len\<close>; hexadecimal coding and ASCII lower case;
  \<^item> results: sequencing of fallible calls over the sum type (\<open>Inl\<close> is the error);
  \<^item> tables: a SQL table is the list of its rows in insertion order; the locale
    \<open>keyed_rows\<close> is the contract of a table with a unique column;
  \<^item> systems: the locales \<open>guarded_system\<close> (invariants of a step relation) and
    \<open>ranked_lifecycle\<close> (state machines whose transition table only goes forward).
\<close>

named_theorems store_defs \<open>definitions of the journal's transactions\<close>
named_theorems table_simps \<open>rewrite rules for row lists\<close>
named_theorems go_time \<open>definitions of the time package\<close>

section \<open>Time\<close>

type_synonym gotime = int
type_synonym duration = int

definition max_duration :: duration where
  "max_duration = 2 ^ 63 - 1"

definition min_duration :: duration where
  "min_duration = - (2 ^ 63)"

definition nanosecond :: duration where "nanosecond = 1"
definition millisecond :: duration where "millisecond = 1000000"
definition second :: duration where "second = 1000000000"
definition minute :: duration where "minute = 60 * second"

definition IsZero :: "gotime \<Rightarrow> bool" where
  "IsZero t \<longleftrightarrow> t = 0"

definition Before :: "gotime \<Rightarrow> gotime \<Rightarrow> bool" where
  "Before t u \<longleftrightarrow> t < u"

definition After :: "gotime \<Rightarrow> gotime \<Rightarrow> bool" where
  "After t u \<longleftrightarrow> u < t"

definition Add :: "gotime \<Rightarrow> duration \<Rightarrow> gotime" where
  "Add t d = t + d"

definition Sub :: "gotime \<Rightarrow> gotime \<Rightarrow> duration" where
  "Sub t u = max min_duration (min max_duration (t - u))"

text \<open>\<open>Time.UnixNano\<close>: nanoseconds since 1970 in an \<open>int64\<close>, wrapping outside its range.\<close>

definition unix_epoch :: gotime where
  "unix_epoch = 62135596800 * second"

definition UnixNano :: "gotime \<Rightarrow> int" where
  "UnixNano t = (t - unix_epoch + 2 ^ 63) mod 2 ^ 64 - 2 ^ 63"

lemmas duration_units = nanosecond_def millisecond_def second_def minute_def

declare IsZero_def [go_time] Before_def [go_time] After_def [go_time] Add_def [go_time]
  Sub_def [go_time] duration_units [go_time] max_duration_def [go_time] min_duration_def [go_time]

text \<open>
  For a bound inside the 64-bit range the saturation of \<open>Sub\<close> is invisible: comparing the
  saturated difference with such a bound is comparing the true difference.
\<close>

lemma Sub_le_iff:
  assumes "min_duration \<le> d" "d < max_duration"
  shows "Sub t u \<le> d \<longleftrightarrow> t - u \<le> d"
  using assms by (auto simp: Sub_def min_def max_def)

lemma Sub_gt_iff:
  assumes "min_duration \<le> d" "d < max_duration"
  shows "d < Sub t u \<longleftrightarrow> d < t - u"
  using Sub_le_iff [OF assms, of t u] by linarith

lemma Sub_range: "min_duration \<le> Sub t u \<and> Sub t u \<le> max_duration"
  by (auto simp: Sub_def max_def min_def max_duration_def min_duration_def)

section \<open>Strings\<close>

definition hex_digit :: "nat \<Rightarrow> char" where
  "hex_digit n = ''0123456789abcdef'' ! (n mod 16)"

definition hex_encode :: "nat list \<Rightarrow> string" where
  "hex_encode bs = concat (map (\<lambda>b. [hex_digit (b div 16), hex_digit b]) bs)"

definition hex_value :: "char \<Rightarrow> nat option" where
  "hex_value c =
     (let n = of_char c :: nat in
      if 48 \<le> n \<and> n \<le> 57 then Some (n - 48)
      else if 97 \<le> n \<and> n \<le> 102 then Some (n - 87)
      else if 65 \<le> n \<and> n \<le> 70 then Some (n - 55)
      else None)"

text \<open>\<open>hex.DecodeString\<close>: \<open>None\<close> for an odd length or a byte that is no hexadecimal digit.\<close>

fun hex_decode :: "string \<Rightarrow> nat list option" where
  "hex_decode [] = Some []"
| "hex_decode [c] = None"
| "hex_decode (c # d # cs) =
     (case (hex_value c, hex_value d) of
        (Some h, Some l) \<Rightarrow> map_option (\<lambda>bs. (16 * h + l) # bs) (hex_decode cs)
      | _ \<Rightarrow> None)"

definition lower_char :: "char \<Rightarrow> char" where
  "lower_char c = (let n = of_char c :: nat in if 65 \<le> n \<and> n \<le> 90 then char_of (n + 32) else c)"

text \<open>\<open>strings.ToLower\<close> on ASCII text.\<close>

definition to_lower :: "string \<Rightarrow> string" where
  "to_lower s = map lower_char s"

lemma length_to_lower [simp]: "length (to_lower s) = length s"
  by (simp add: to_lower_def)

lemma hex_value_range: "hex_value c = Some v \<Longrightarrow> v < 16"
  by (auto simp: hex_value_def Let_def split: if_splits)

lemma hex_decode_length: "hex_decode s = Some bs \<Longrightarrow> length s = 2 * length bs"
  by (induction s arbitrary: bs rule: hex_decode.induct) (auto split: option.splits)

lemma hex_decode_bytes: "hex_decode s = Some bs \<Longrightarrow> \<forall>b \<in> set bs. b < 256"
proof (induction s arbitrary: bs rule: hex_decode.induct)
  case (3 c d cs)
  then obtain h l bs' where
    d: "hex_value c = Some h" "hex_value d = Some l" "hex_decode cs = Some bs'"
       "bs = (16 * h + l) # bs'"
    by (auto split: option.splits)
  then have "\<forall>b \<in> set bs'. b < 256"
    by (intro "3.IH") auto
  with d(4) hex_value_range [OF d(1)] hex_value_range [OF d(2)] show ?case by auto
qed auto

lemma hex_digit_value: "hex_value (hex_digit n) = Some (n mod 16) \<and> lower_char (hex_digit n) = hex_digit n"
proof -
  have "\<forall>k \<in> set [0..<16]. hex_value (''0123456789abcdef'' ! k) = Some k \<and>
      lower_char (''0123456789abcdef'' ! k) = ''0123456789abcdef'' ! k"
    by code_simp
  then show ?thesis by (simp add: hex_digit_def)
qed

lemma hex_roundtrip: "\<forall>b \<in> set bs. b < 256 \<Longrightarrow> hex_decode (hex_encode bs) = Some bs"
proof (induction bs)
  case (Cons b bs)
  have "b < 256" using Cons.prems by simp
  then have "b div 16 < 16" by (simp add: less_mult_imp_div_less)
  then have "16 * (b div 16 mod 16) + b mod 16 = b" by simp
  with Cons show ?case by (simp add: hex_encode_def hex_digit_value)
qed (simp add: hex_encode_def)

lemma hex_encode_lower: "to_lower (hex_encode bs) = hex_encode bs"
  by (induction bs) (auto simp: hex_encode_def to_lower_def hex_digit_value)

lemma hex_value_lower:
  assumes "hex_value c = Some v" "lower_char c = c"
  shows "hex_digit v = c"
proof -
  define n :: nat where "n = of_char c"
  have c: "c = char_of n" by (simp add: n_def)
  have "\<not> (65 \<le> n \<and> n \<le> 70)"
  proof
    assume n: "65 \<le> n \<and> n \<le> 70"
    then have "lower_char c = char_of (n + 32)" by (simp add: lower_char_def n_def)
    then have "of_char (char_of (n + 32) :: char) = n" using assms(2) by (simp add: n_def)
    with n show False by (simp add: of_char_of)
  qed
  then have "n = v + 48 \<and> v < 10 \<or> n = v + 87 \<and> 10 \<le> v \<and> v < 16"
    using assms(1) by (auto simp: hex_value_def n_def [symmetric] split: if_splits)
  moreover have "\<forall>v \<in> set [0..<10]. hex_digit v = char_of (v + 48)" "\<forall>v \<in> set [10..<16]. hex_digit v = char_of (v + 87)"
    by code_simp+
  ultimately show ?thesis unfolding c set_upt by (metis add.commute atLeastLessThan_iff le0)
qed

lemma hex_encode_decode: "hex_decode s = Some bs \<Longrightarrow> to_lower s = s \<Longrightarrow> hex_encode bs = s"
proof (induction s arbitrary: bs rule: hex_decode.induct)
  case (3 c d cs)
  then obtain h l bs' where
    d: "hex_value c = Some h" "hex_value d = Some l" "hex_decode cs = Some bs'" "bs = (16 * h + l) # bs'"
    by (auto split: option.splits)
  have "hex_digit h = c" "hex_digit l = d"
    using 3(3) d(1,2) hex_value_lower by (auto simp: to_lower_def)
  moreover have "hex_digit ((16 * h + l) div 16) = hex_digit h" "hex_digit (16 * h + l) = hex_digit l"
    using hex_value_range [OF d(2)] by (simp_all add: hex_digit_def)
  moreover have "hex_encode bs' = cs" using 3 d by (auto simp: to_lower_def)
  ultimately show ?case using d(4) by (simp add: hex_encode_def)
qed (auto simp: hex_encode_def)

lemma length_hex_encode [simp]: "length (hex_encode bs) = 2 * length bs"
  by (induction bs) (auto simp: hex_encode_def)

text \<open>\<open>domain.contains\<close>, \<open>workflow.contains\<close> and \<open>host.containsString\<close> are one loop.\<close>

fun contains :: "string list \<Rightarrow> string \<Rightarrow> bool" where
  "contains [] expected = False"
| "contains (value # rest) expected = (if value = expected then True else contains rest expected)"

lemma contains_iff [simp]: "contains xs x \<longleftrightarrow> x \<in> set xs"
  by (induction xs) auto

definition SortedCopy :: "string list \<Rightarrow> string list" where
  "SortedCopy values = sort values"

lemma SortedCopy_spec:
  "sorted (SortedCopy xs)" "set (SortedCopy xs) = set xs" "length (SortedCopy xs) = length xs"
  by (simp_all add: SortedCopy_def)

text \<open>Go's comma-ok map reads with a zero value, over the association list of a map.\<close>

definition map_get :: "(string \<times> 'a) list \<Rightarrow> string \<Rightarrow> 'a option" where
  "map_get m k = map_of m k"

definition str_get :: "(string \<times> string) list \<Rightarrow> string \<Rightarrow> string" where
  "str_get m k = (case map_of m k of None \<Rightarrow> '''' | Some v \<Rightarrow> v)"

section \<open>Results\<close>

text \<open>
  Go's \<open>if err != nil { return err }\<close> after a call is \<open>and_then\<close>; a guard that returns an error
  unless a condition holds is \<open>check\<close>.
\<close>

fun and_then :: "'e + 'a \<Rightarrow> ('a \<Rightarrow> 'e + 'b) \<Rightarrow> 'e + 'b" where
  "and_then (Inl e) f = Inl e"
| "and_then (Inr x) f = f x"

definition check :: "bool \<Rightarrow> 'e \<Rightarrow> 'e + unit" where
  "check ok e = (if ok then Inr () else Inl e)"

definition unless_error :: "'e option \<Rightarrow> 'e + unit" where
  "unless_error err = (case err of None \<Rightarrow> Inr () | Some e \<Rightarrow> Inl e)"

lemma and_then_Inr_iff [simp]: "and_then m f = Inr y \<longleftrightarrow> (\<exists>x. m = Inr x \<and> f x = Inr y)"
  by (cases m) auto

lemma and_then_Inl_iff: "and_then m f = Inl e \<longleftrightarrow> m = Inl e \<or> (\<exists>x. m = Inr x \<and> f x = Inl e)"
  by (cases m) auto

lemma check_Inr_iff [simp]: "check ok e = Inr u \<longleftrightarrow> ok"
  by (auto simp: check_def)

lemma check_Inl_iff [simp]: "check ok e = Inl e' \<longleftrightarrow> \<not> ok \<and> e' = e"
  by (auto simp: check_def)

lemma unless_error_Inr_iff [simp]: "unless_error err = Inr u \<longleftrightarrow> err = None"
  by (auto simp: unless_error_def split: option.splits)

lemma unless_error_Inl_iff [simp]: "unless_error err = Inl e \<longleftrightarrow> err = Some e"
  by (auto simp: unless_error_def split: option.splits)

section \<open>Rows of a table with a unique column\<close>

definition rows_with :: "('r \<Rightarrow> 'k) \<Rightarrow> 'k \<Rightarrow> 'r list \<Rightarrow> 'r option" where
  "rows_with key k rs = List.find (\<lambda>r. key r = k) rs"

definition update_rows :: "('r \<Rightarrow> 'k) \<Rightarrow> 'k \<Rightarrow> ('r \<Rightarrow> 'r) \<Rightarrow> 'r list \<Rightarrow> 'r list" where
  "update_rows key k f rs = map (\<lambda>r. if key r = k then f r else r) rs"

lemma rows_with_SomeD: "rows_with key k rs = Some r \<Longrightarrow> r \<in> set rs \<and> key r = k"
  by (auto simp: rows_with_def find_Some_iff)

lemma rows_with_None_iff [table_simps]: "rows_with key k rs = None \<longleftrightarrow> k \<notin> key ` set rs"
  by (auto simp: rows_with_def find_None_iff)

lemma rows_with_append [table_simps]:
  "rows_with key k (rs @ [r]) =
     (case rows_with key k rs of Some x \<Rightarrow> Some x | None \<Rightarrow> if key r = k then Some r else None)"
  by (induction rs) (auto simp: rows_with_def)

lemma rows_with_exists: "r \<in> set rs \<Longrightarrow> \<exists>r'. rows_with (key :: 'r \<Rightarrow> 'k) (key r) rs = Some r'"
  by (cases "rows_with key (key r) rs") (auto simp: rows_with_None_iff)

lemma set_update_rows [table_simps]:
  "set (update_rows key k f rs) = (\<lambda>r. if key r = k then f r else r) ` set rs"
  by (simp add: update_rows_def)

text \<open>
  A table whose column \<open>key\<close> is unique. The client of the table reads one row per key and
  updates it in place; the laws say that lookups see exactly the inserted and updated rows.
\<close>

locale keyed_rows =
  fixes key :: "'r \<Rightarrow> 'k"
begin

definition unique :: "'r list \<Rightarrow> bool" where
  "unique rs \<longleftrightarrow> distinct (map key rs)"

lemma unique_empty: "unique []"
  by (simp add: unique_def)

lemma unique_insert: "unique rs \<Longrightarrow> rows_with key (key r) rs = None \<Longrightarrow> unique (rs @ [r])"
  by (auto simp: unique_def rows_with_None_iff)

lemma map_key_update:
  assumes "\<And>r. key (f r) = key r"
  shows "map key (update_rows g k f rs) = map key rs"
  using assms by (auto simp: update_rows_def)

lemma unique_update: "unique rs \<Longrightarrow> (\<And>r. key (f r) = key r) \<Longrightarrow> unique (update_rows g k f rs)"
  by (simp add: unique_def map_key_update)

lemma lookup_iff: "unique rs \<Longrightarrow> rows_with key k rs = Some r \<longleftrightarrow> r \<in> set rs \<and> key r = k"
  by (induction rs) (auto simp: unique_def rows_with_def image_iff)

lemma unique_eqD: "unique rs \<Longrightarrow> r \<in> set rs \<Longrightarrow> r' \<in> set rs \<Longrightarrow> key r = key r' \<Longrightarrow> r = r'"
  by (metis lookup_iff option.inject)

lemma lookup_only:
  "unique rs \<Longrightarrow> rows_with key k rs = Some r \<Longrightarrow> r' \<in> set rs \<Longrightarrow> key r' = k \<Longrightarrow> r' = r"
  using lookup_iff [of rs k] unique_eqD [of rs r r'] by blast

lemma lookup_member: "unique rs \<Longrightarrow> r \<in> set rs \<Longrightarrow> rows_with key (key r) rs = Some r"
  using lookup_iff [of rs "key r" r] by simp

lemma update_pred:
  assumes "unique rs" "rows_with key k rs = Some r" "\<forall>r \<in> set rs. P r" "P (f r)"
  shows "\<forall>r \<in> set (update_rows key k f rs). P r"
  using assms lookup_only [OF assms(1,2)] by (auto simp: set_update_rows)

lemma lookup_update:
  assumes "\<And>r. key (f r) = key r"
  shows "rows_with key k (update_rows key k' f rs) =
     (if k = k' then map_option f (rows_with key k rs) else rows_with key k rs)"
  using assms by (induction rs) (auto simp: rows_with_def update_rows_def)

end

section \<open>Systems and their invariants\<close>

text \<open>
  A system is an initial state and a step relation. A client shows that its invariant holds
  at the start and is kept by every step; the library gives it in every reachable state.
\<close>

inductive reachable_by :: "('s \<Rightarrow> 's \<Rightarrow> bool) \<Rightarrow> 's \<Rightarrow> 's \<Rightarrow> bool" for step s0 where
  start: "reachable_by step s0 s0"
| more: "reachable_by step s0 s \<Longrightarrow> step s t \<Longrightarrow> reachable_by step s0 t"

locale guarded_system =
  fixes init :: "'s \<Rightarrow> bool" and step :: "'s \<Rightarrow> 's \<Rightarrow> bool" and inv :: "'s \<Rightarrow> bool"
  assumes inv_init: "init s \<Longrightarrow> inv s"
    and inv_step: "inv s \<Longrightarrow> step s t \<Longrightarrow> inv t"
begin

lemma inv_from: "reachable_by step s t \<Longrightarrow> inv s \<Longrightarrow> inv t"
  by (induction rule: reachable_by.induct) (auto intro: inv_step)

lemma inv_reachable: "init s \<Longrightarrow> reachable_by step s t \<Longrightarrow> inv t"
  by (blast intro: inv_from inv_init)

end

text \<open>
  A lifecycle whose transition table strictly lowers a rank: it has no cycle, a run is at
  most as long as the rank of its first state, and a state of rank 0 is final.
\<close>

fun allowed_run :: "('s \<Rightarrow> 's \<Rightarrow> bool) \<Rightarrow> 's \<Rightarrow> 's list \<Rightarrow> bool" where
  "allowed_run allowed s [] = True"
| "allowed_run allowed s (t # ts) = (allowed s t \<and> allowed_run allowed t ts)"

locale ranked_lifecycle =
  fixes allowed :: "'s \<Rightarrow> 's \<Rightarrow> bool" and rank :: "'s \<Rightarrow> nat"
  assumes rank_decreases: "allowed s t \<Longrightarrow> rank t < rank s"
begin

lemma run_length: "allowed_run allowed s ts \<Longrightarrow> length ts + rank (last (s # ts)) \<le> rank s"
proof (induction ts arbitrary: s)
  case (Cons t ts)
  then have "rank t < rank s" "length ts + rank (last (t # ts)) \<le> rank t"
    by (auto intro: rank_decreases)
  then show ?case by simp
qed simp

lemma run_bounded: "allowed_run allowed s ts \<Longrightarrow> length ts \<le> rank s"
  using run_length by fastforce

lemma run_rank: "allowed_run allowed s ts \<Longrightarrow> t \<in> set ts \<Longrightarrow> rank t < rank s"
proof (induction ts arbitrary: s)
  case (Cons u us)
  then show ?case using rank_decreases [of s u] by (cases "t = u") fastforce+
qed simp

lemma run_no_return: "allowed_run allowed s ts \<Longrightarrow> s \<notin> set ts"
  using run_rank by blast

lemma run_distinct: "allowed_run allowed s ts \<Longrightarrow> distinct (s # ts)"
proof (induction ts arbitrary: s)
  case (Cons t ts)
  then show ?case using run_no_return [OF Cons.prems] by auto
qed simp

end

end
