(* ===== verification/Domain_Types.thy ===== *)
theory Domain_Types
  imports Gar_Prelude
begin

text \<open>
  The authority-bearing data of \<open>src/internal/domain\<close>: the status axes of \<open>types.go\<close> as
  datatypes, the error vocabulary of \<open>errors.go\<close>, and the structs as records. A field of a Go
  struct \<open>S\<close> carries a two-letter prefix of \<open>S\<close>, because several structs share field names
  (\<open>ci_IntentID\<close> is \<open>ChangeIntent.IntentID\<close>, \<open>op_IntentID\<close> is \<open>Operation.IntentID\<close>).

  Go's status types are strings. Where the value can come from a file or a caller outside the
  package, and the code has a default branch for it, the datatype has a constructor that
  carries the unknown text.
\<close>

section \<open>Status axes\<close>

datatype Availability = Available | Unavailable | Stale | Conflicting | AvailabilityOther string

datatype GateStatus = GateNotRun | GatePass | GateFail | GateOther string

datatype IntentStatus =
  IntentProposed | IntentAwaitingApproval | IntentApproved | IntentConsumed | IntentRejected
| IntentExpired | IntentRevoked | IntentCancelled | IntentStale

datatype OperationStatus =
  OperationQueued | OperationPreparing | OperationExecuting | OperationVerifying
| OperationSucceeded | OperationFailed | OperationAborted | OperationUnknown
| OperationRollbackRequired | OperationRollingBack | OperationRolledBack
| OperationRollbackFailed | OperationNeedsIntervention

datatype VerificationStatus =
  VerificationNotStarted | VerificationRunning | VerificationPass | VerificationFail
| VerificationInconclusive

datatype DispatchState = NotDispatched | DispatchPossible | Acknowledged | DispatchOther string

datatype EffectState =
  EffectProvenNotApplied | EffectExpectedObserved | EffectOtherObserved | EffectUnknown
| EffectInvalid string

datatype Attribution = AttributionCorrelated | AttributionUnattributed | AttributionConflicting

section \<open>Errors\<close>

text \<open>\<open>NoErrorCode\<close> is the empty string, the zero value of \<open>ErrorCode\<close>.\<close>

datatype ErrorCode =
  NoErrorCode
| ErrUnsupportedEnvironment | ErrUnsupportedTransition | ErrScopeDenied | ErrApprovalRequired
| ErrApprovalExpired | ErrApprovalRevoked | ErrIntentStale | ErrPreconditionUnavailable
| ErrTargetBusy | ErrTargetBlockedUnknown | ErrIdempotencyConflict | ErrBackupNotReady
| ErrDispatchOutcomeUnknown | ErrVerificationInconclusive | ErrRecoveryUnsafe
| ErrExternalIntervention | ErrJournalUnavailable | ErrClockUnsafe | ErrInvalidIntentDigest
| ErrNotFound | ErrInvalidRequest

fun code_text :: "ErrorCode \<Rightarrow> string" where
  "code_text NoErrorCode = ''''"
| "code_text ErrUnsupportedEnvironment = ''UNSUPPORTED_ENVIRONMENT''"
| "code_text ErrUnsupportedTransition = ''UNSUPPORTED_PLUGIN_TRANSITION''"
| "code_text ErrScopeDenied = ''SCOPE_DENIED''"
| "code_text ErrApprovalRequired = ''APPROVAL_REQUIRED''"
| "code_text ErrApprovalExpired = ''APPROVAL_EXPIRED''"
| "code_text ErrApprovalRevoked = ''APPROVAL_REVOKED''"
| "code_text ErrIntentStale = ''INTENT_STALE''"
| "code_text ErrPreconditionUnavailable = ''PRECONDITION_UNAVAILABLE''"
| "code_text ErrTargetBusy = ''TARGET_BUSY''"
| "code_text ErrTargetBlockedUnknown = ''TARGET_BLOCKED_UNKNOWN''"
| "code_text ErrIdempotencyConflict = ''IDEMPOTENCY_CONFLICT''"
| "code_text ErrBackupNotReady = ''BACKUP_NOT_READY''"
| "code_text ErrDispatchOutcomeUnknown = ''DISPATCH_OUTCOME_UNKNOWN''"
| "code_text ErrVerificationInconclusive = ''VERIFICATION_INCONCLUSIVE''"
| "code_text ErrRecoveryUnsafe = ''RECOVERY_UNSAFE''"
| "code_text ErrExternalIntervention = ''EXTERNAL_INTERVENTION''"
| "code_text ErrJournalUnavailable = ''JOURNAL_UNAVAILABLE''"
| "code_text ErrClockUnsafe = ''CLOCK_UNSAFE''"
| "code_text ErrInvalidIntentDigest = ''INVALID_INTENT_DIGEST''"
| "code_text ErrNotFound = ''NOT_FOUND''"
| "code_text ErrInvalidRequest = ''INVALID_REQUEST''"

text \<open>
  A Go \<open>error\<close> that is not nil: the typed \<open>GARException\<close>, the \<open>sql.ErrNoRows\<close> sentinel, an
  error that wraps \<open>os.ErrNotExist\<close>, and any other error with its text.
\<close>

datatype gar_error = GARException ErrorCode string | ErrNoRows | ErrNotExist string | OtherError string

type_synonym 'a result = "gar_error + 'a"

definition NewError :: "ErrorCode \<Rightarrow> string \<Rightarrow> gar_error" where
  "NewError code message = GARException code message"

fun error_text :: "gar_error \<Rightarrow> string" where
  "error_text (GARException code message) = code_text code @ '': '' @ message"
| "error_text ErrNoRows = ''sql: no rows in result set''"
| "error_text (ErrNotExist message) = message"
| "error_text (OtherError message) = message"

definition CodeOf :: "gar_error option \<Rightarrow> ErrorCode" where
  "CodeOf err =
     (case err of
        None \<Rightarrow> NoErrorCode
      | Some (GARException code message) \<Rightarrow> code
      | Some _ \<Rightarrow> ErrJournalUnavailable)"

lemma CodeOf_NewError [simp]: "CodeOf (Some (NewError c m)) = c"
  by (simp add: CodeOf_def NewError_def)

section \<open>Values under reflection\<close>

text \<open>
  A Go value as \<open>reflect\<close> and \<open>encoding/json\<close> see it. A struct is the list of its fields with
  their JSON name and whether they are exported; \<open>time.Time\<close> is a struct without exported
  fields that marshals as text, a leaf of its own here.
\<close>

datatype gvalue =
  GNil
| GBool bool
| GInt int
| GFloat string
| GString string
| GTime gotime
| GInterface gvalue
| GPointer gvalue
| GSlice "gvalue list"
| GMap "(string \<times> gvalue) list"
| GStruct "(string \<times> bool \<times> gvalue) list"

section \<open>Structs\<close>

record AgentSessionScope =
  sc_SchemaVersion :: string
  sc_PrincipalID :: string
  sc_SessionID :: string
  sc_EnrollmentID :: string
  sc_DeploymentGeneration :: int
  sc_Capabilities :: "string list"
  sc_PluginIDs :: "string list"
  sc_ArtifactProfileIDs :: "string list"
  sc_IssuedAt :: gotime
  sc_ExpiresAt :: gotime
  sc_RevocationEpoch :: int
  sc_ScopeDigest :: string

record Enrollment =
  en_TargetID :: string
  en_EnrollmentID :: string
  en_DeploymentGeneration :: int
  en_ContainerID :: string
  en_ImageDigest :: string
  en_DataRootIdentity :: string
  en_GameEndpoint :: string
  en_RuntimeGuardPairing :: string
  en_BootstrapFingerprint :: string
  en_PolicyID :: string
  en_PolicyRevision :: string
  en_PolicyDigest :: string
  en_SupportProfileID :: string
  en_PaperTuple :: string
  en_AllowedPlugins :: "string list"

record ArtifactRecord =
  ar_ArtifactID :: string
  ar_SHA256 :: string
  ar_Size :: int
  ar_SourceDescription :: string
  ar_AcquiredAt :: gotime
  ar_PluginID :: string
  ar_DescriptorDigest :: string
  ar_OwnerTrustConfirmed :: bool
  ar_CompatibilityEvidence :: string

record TransitionProfile =
  tp_ProfileID :: string
  tp_ProfileDigest :: string
  tp_PluginID :: string
  tp_FromArtifactID :: string
  tp_ToArtifactID :: string
  tp_PaperTuple :: string
  tp_DependencyInventory :: "string list"
  tp_WritableDataLocations :: "string list"
  tp_MigrationDeclared :: bool
  tp_VerificationProfileID :: string
  tp_VerificationDigest :: string
  tp_RecoveryContractID :: string
  tp_RecoveryDigest :: string
  tp_Eligibility :: string

record ObservationValue =
  ov_Availability :: Availability
  ov_Value :: gvalue
  ov_Unit :: string
  ov_Reason :: string
  ov_Source :: string
  ov_ObservedAt :: gotime
  ov_BootID :: string

record ObservationBundle =
  ob_BundleID :: string
  ob_EnrollmentID :: string
  ob_DeploymentGeneration :: int
  ob_ContainerID :: string
  ob_BootID :: string
  ob_InventoryDigest :: string
  ob_ConfigDigest :: string
  ob_ActiveArtifacts :: "(string \<times> string) list"
  ob_Readings :: "(string \<times> ObservationValue) list"
  ob_CreatedAt :: gotime

record Predicate =
  pr_Name :: string
  pr_Phase :: string
  pr_Expected :: string
  pr_FreshnessSeconds :: int
  pr_OnFailure :: ErrorCode

record ChangeIntent =
  ci_SchemaVersion :: string
  ci_IntentID :: string
  ci_ClientRequestID :: string
  ci_PrincipalID :: string
  ci_SessionID :: string
  ci_CreatedAt :: gotime
  ci_EnrollmentID :: string
  ci_DeploymentGeneration :: int
  ci_ContainerID :: string
  ci_PaperTuple :: string
  ci_ExpectedBootID :: string
  ci_WorkflowKind :: string
  ci_WorkflowVersion :: string
  ci_PluginID :: string
  ci_FromArtifactID :: string
  ci_FromSHA256 :: string
  ci_ToArtifactID :: string
  ci_ToSHA256 :: string
  ci_ProfileDigest :: string
  ci_ScopeDigest :: string
  ci_PolicyRevision :: string
  ci_PolicyDigest :: string
  ci_CapabilitySnapshot :: "string list"
  ci_ObservationBundleID :: string
  ci_InventoryDigest :: string
  ci_ConfigDigest :: string
  ci_EvidenceReferences :: "string list"
  ci_Predicates :: "Predicate list"
  ci_Steps :: "string list"
  ci_ReservedBackupID :: string
  ci_BackupRecipeDigest :: string
  ci_VerificationProfileID :: string
  ci_VerificationDigest :: string
  ci_RecoveryContractID :: string
  ci_RecoveryDigest :: string
  ci_ApprovalDeadline :: gotime
  ci_StartBefore :: gotime
  ci_ExecutionBudgetSeconds :: int
  ci_RecoveryBudgetSeconds :: int
  ci_Rationale :: string
  ci_IntentDigest :: string

record IntentRecord =
  ir_Intent :: ChangeIntent
  ir_Status :: IntentStatus
  ir_ProposalDigest :: string
  ir_UpdatedAt :: gotime

record Approval =
  ap_ApprovalID :: string
  ap_IntentID :: string
  ap_IntentDigest :: string
  ap_ApproverPrincipal :: string
  ap_ApproverOSUID :: int
  ap_Decision :: string
  ap_DecidedAt :: gotime

record StepAttempt =
  sa_StepID :: string
  sa_StepKind :: string
  sa_AttemptNo :: int
  sa_DispatchState :: DispatchState
  sa_EffectState :: EffectState
  sa_Attribution :: Attribution
  sa_PreparedAt :: gotime
  sa_UpdatedAt :: gotime
  sa_Evidence :: "string list"

record Operation =
  op_OperationID :: string
  op_IntentID :: string
  op_IntentDigest :: string
  op_EnrollmentID :: string
  op_ExecutionEpoch :: int
  op_Status :: OperationStatus
  op_Verification :: VerificationStatus
  op_OwnershipReleased :: bool
  op_CreatedAt :: gotime
  op_UpdatedAt :: gotime
  op_Attempts :: "StepAttempt list"
  op_LastError :: ErrorCode

record ProposalInput =
  pi_PluginID :: string
  pi_TargetArtifactID :: string
  pi_ClientRequestID :: string
  pi_Rationale :: string

record ToolDefinition =
  td_Name :: string
  td_Permission :: string

section \<open>Checks on single values\<close>

definition Allows :: "AgentSessionScope \<Rightarrow> string \<Rightarrow> string \<Rightarrow> string \<Rightarrow> bool" where
  "Allows scope capability pluginID artifactProfileID \<longleftrightarrow>
     contains (sc_Capabilities scope) capability \<and> contains (sc_PluginIDs scope) pluginID \<and>
     contains (sc_ArtifactProfileIDs scope) artifactProfileID"

definition validate_proposal :: "ProposalInput \<Rightarrow> gar_error option" where
  "validate_proposal input =
     (if pi_PluginID input = '''' \<or> pi_TargetArtifactID input = '''' \<or> pi_ClientRequestID input = ''''
      then Some (NewError ErrInvalidRequest
             ''plugin_id, target_artifact_id, and client_request_id are required'')
      else if length (pi_Rationale input) > 2000
      then Some (NewError ErrInvalidRequest ''rationale exceeds 2000 bytes'')
      else None)"

fun availability_text :: "Availability \<Rightarrow> string" where
  "availability_text Available = ''AVAILABLE''"
| "availability_text Unavailable = ''UNAVAILABLE''"
| "availability_text Stale = ''STALE''"
| "availability_text Conflicting = ''CONFLICTING''"
| "availability_text (AvailabilityOther s) = s"

definition RequireAvailable ::
  "string \<Rightarrow> ObservationValue \<Rightarrow> gotime \<Rightarrow> duration \<Rightarrow> string \<Rightarrow> gar_error option" where
  "RequireAvailable name v now maxAge bootID =
     (if ov_Availability v \<noteq> Available
      then Some (NewError ErrPreconditionUnavailable
             (name @ '' is '' @ availability_text (ov_Availability v) @ '': '' @ ov_Reason v))
      else if Sub now (ov_ObservedAt v) > maxAge \<or> (ov_BootID v \<noteq> '''' \<and> ov_BootID v \<noteq> bootID)
      then Some (NewError ErrPreconditionUnavailable
             (name @ '' is stale or belongs to another boot''))
      else None)"

definition tool :: "string \<Rightarrow> string \<Rightarrow> ToolDefinition" where
  "tool name permission = \<lparr>td_Name = name, td_Permission = permission\<rparr>"

definition AgentTools :: "ToolDefinition list" where
  "AgentTools =
     [tool ''inspect_server_identity'' ''read'',
      tool ''get_health'' ''read'',
      tool ''get_players'' ''read'',
      tool ''get_performance'' ''read'',
      tool ''get_recent_errors'' ''bounded-read'',
      tool ''list_plugins'' ''read'',
      tool ''get_recent_changes'' ''read'',
      tool ''get_backup_status'' ''read'',
      tool ''propose_plugin_change'' ''propose'',
      tool ''get_operation'' ''read-own'']"

definition FixedWorkflowSteps :: "string list" where
  "FixedWorkflowSteps =
     [''S00_CLAIM_OPERATION'',
      ''S01_REVALIDATE'',
      ''S02_ACQUIRE_MAINTENANCE'',
      ''S03_GRACEFUL_STOP'',
      ''S04_OFFLINE_REVALIDATION'',
      ''S05_CREATE_BACKUP'',
      ''S06_REPLACE_ARTIFACT'',
      ''S07_PREPARE_LAUNCH_AND_START'',
      ''S08_VERIFY_UNDER_MAINTENANCE'',
      ''S09_RELEASE_MAINTENANCE'',
      ''S10_FINALIZE'']"

lemma length_FixedWorkflowSteps [simp]: "length FixedWorkflowSteps = 11"
  by (simp add: FixedWorkflowSteps_def)

lemma distinct_FixedWorkflowSteps: "distinct FixedWorkflowSteps"
  by (simp add: FixedWorkflowSteps_def)

end
