(* ===== verification/Canonical.thy ===== *)
theory Canonical
  imports Domain_Types "HOL-Library.Multiset"
begin

text \<open>
  Digests over authority-bearing structs: \<open>src/internal/domain/canonical.go\<close> and the
  \<open>digestPayload\<close>, \<open>Seal\<close>, \<open>Validate\<close> and \<open>ValidateDigest\<close> methods of \<open>types.go\<close>.

  The canonical form of a value is JSON in the JCS form that the third-party
  \<open>jsoncanonicalizer\<close> package produces, and the digest is the SHA-256 of these bytes. Both are
  fields of the parameter \<open>crypto\<close>; no theorem assumes more of them than it names.
\<close>

section \<open>Text of a time\<close>

fun decimal :: "nat \<Rightarrow> string" where
  "decimal n = (if n < 10 then [char_of (48 + n)] else decimal (n div 10) @ [char_of (48 + n mod 10)])"

declare decimal.simps [simp del]

definition pad :: "nat \<Rightarrow> nat \<Rightarrow> string" where
  "pad width n = (let s = decimal n in replicate (width - length s) CHR ''0'' @ s)"

text \<open>Civil date of a day number, day 0 being January 1 of year 1 (proleptic Gregorian).\<close>

definition civil :: "int \<Rightarrow> int \<times> int \<times> int" where
  "civil days =
     (let z = days + 306;
          era = z div 146097;
          doe = z mod 146097;
          yoe = (doe - doe div 1460 + doe div 36524 - doe div 146096) div 365;
          doy = doe - (365 * yoe + yoe div 4 - yoe div 100);
          mp = (5 * doy + 2) div 153;
          d = doy - (153 * mp + 2) div 5 + 1;
          m = (if mp < 10 then mp + 3 else mp - 9);
          y = yoe + era * 400 + (if m \<le> 2 then 1 else 0)
      in (y, m, d))"

definition fraction :: "nat \<Rightarrow> string" where
  "fraction ns =
     (if ns = 0 then []
      else CHR ''.'' # rev (dropWhile (\<lambda>c. c = CHR ''0'') (rev (pad 9 ns))))"

text \<open>\<open>t.UTC().Format(time.RFC3339Nano)\<close>: the fraction loses its trailing zeros.\<close>

definition format_time :: "gotime \<Rightarrow> string" where
  "format_time t =
     (let secs = t div 1000000000;
          ns = t mod 1000000000;
          days = secs div 86400;
          sod = secs mod 86400;
          (y, m, d) = civil days
      in pad 4 (nat y) @ ''-'' @ pad 2 (nat m) @ ''-'' @ pad 2 (nat d) @ ''T'' @
         pad 2 (nat (sod div 3600)) @ '':'' @ pad 2 (nat (sod div 60 mod 60)) @ '':'' @
         pad 2 (nat (sod mod 60)) @ fraction (nat ns) @ ''Z'')"

section \<open>Canonical JSON and digests\<close>

text \<open>
  \<open>transform\<close> is \<open>json.Marshal\<close> followed by \<open>jsoncanonicalizer.Transform\<close>; \<open>sum256\<close> is SHA-256
  on bytes. A byte is a number below 256.
\<close>

record crypto =
  transform :: "gvalue \<Rightarrow> nat list result"
  sum256 :: "nat list \<Rightarrow> nat list"

fun rejectFloats :: "gvalue \<Rightarrow> gar_error option"
  and rejectFloats_elements :: "gvalue list \<Rightarrow> gar_error option"
  and rejectFloats_entries :: "(string \<times> gvalue) list \<Rightarrow> gar_error option"
  and rejectFloats_fields :: "(string \<times> bool \<times> gvalue) list \<Rightarrow> gar_error option" where
  "rejectFloats (GFloat _) =
     Some (OtherError ''authority payload cannot contain floating-point values'')"
| "rejectFloats (GInterface v) = rejectFloats v"
| "rejectFloats (GPointer v) = rejectFloats v"
| "rejectFloats (GMap entries) = rejectFloats_entries entries"
| "rejectFloats (GSlice elements) = rejectFloats_elements elements"
| "rejectFloats (GStruct flds) = rejectFloats_fields flds"
| "rejectFloats _ = None"
| "rejectFloats_elements [] = None"
| "rejectFloats_elements (v # vs) =
     (case rejectFloats v of Some e \<Rightarrow> Some e | None \<Rightarrow> rejectFloats_elements vs)"
| "rejectFloats_entries [] = None"
| "rejectFloats_entries ((k, v) # vs) =
     (case rejectFloats v of Some e \<Rightarrow> Some e | None \<Rightarrow> rejectFloats_entries vs)"
| "rejectFloats_fields [] = None"
| "rejectFloats_fields ((name, exported, v) # vs) =
     (if \<not> exported then rejectFloats_fields vs
      else case rejectFloats v of Some e \<Rightarrow> Some e | None \<Rightarrow> rejectFloats_fields vs)"

text \<open>
  What the check looks for: a floating-point value reachable through interfaces, pointers,
  elements, map values and exported fields.
\<close>

inductive float_in :: "gvalue \<Rightarrow> bool" where
  float: "float_in (GFloat x)"
| iface: "float_in v \<Longrightarrow> float_in (GInterface v)"
| pointer: "float_in v \<Longrightarrow> float_in (GPointer v)"
| element: "v \<in> set vs \<Longrightarrow> float_in v \<Longrightarrow> float_in (GSlice vs)"
| entry: "(k, v) \<in> set m \<Longrightarrow> float_in v \<Longrightarrow> float_in (GMap m)"
| field: "(name, True, v) \<in> set flds \<Longrightarrow> float_in v \<Longrightarrow> float_in (GStruct flds)"

inductive_simps float_in_simps [simp]:
  "float_in GNil" "float_in (GBool b)" "float_in (GInt i)" "float_in (GFloat x)"
  "float_in (GString s)" "float_in (GTime t)" "float_in (GInterface v)" "float_in (GPointer v)"
  "float_in (GSlice vs)" "float_in (GMap m)"

inductive_simps float_in_struct_iff: "float_in (GStruct flds)"

lemma float_in_struct_simps [simp]:
  "\<not> float_in (GStruct [])"
  "float_in (GStruct ((name, exported, v) # flds)) \<longleftrightarrow>
     exported \<and> float_in v \<or> float_in (GStruct flds)"
  by (auto simp: float_in_struct_iff)

lemma rejectFloats_iff:
  "(rejectFloats v = None) \<longleftrightarrow> \<not> float_in v"
  "(rejectFloats_elements vs = None) \<longleftrightarrow> \<not> (\<exists>v \<in> set vs. float_in v)"
  "(rejectFloats_entries m = None) \<longleftrightarrow> \<not> (\<exists>(k, v) \<in> set m. float_in v)"
  "(rejectFloats_fields flds = None) \<longleftrightarrow> \<not> (\<exists>(name, exported, v) \<in> set flds. exported \<and> float_in v)"
  by (induction v and vs and m and flds
      rule: rejectFloats_rejectFloats_elements_rejectFloats_entries_rejectFloats_fields.induct)
    (auto simp: float_in_struct_iff split: option.splits)

lemma rejectFloats_error_text:
  "rejectFloats v \<in> {None, Some (OtherError ''authority payload cannot contain floating-point values'')}"
  "rejectFloats_elements vs \<in> {None, Some (OtherError ''authority payload cannot contain floating-point values'')}"
  "rejectFloats_entries m \<in> {None, Some (OtherError ''authority payload cannot contain floating-point values'')}"
  "rejectFloats_fields flds \<in> {None, Some (OtherError ''authority payload cannot contain floating-point values'')}"
  by (induction v and vs and m and flds
      rule: rejectFloats_rejectFloats_elements_rejectFloats_entries_rejectFloats_fields.induct)
    (auto split: option.splits)

lemma rejectFloats_error:
  "float_in v \<Longrightarrow> rejectFloats v = Some (OtherError ''authority payload cannot contain floating-point values'')"
  using rejectFloats_error_text(1) [of v] rejectFloats_iff(1) [of v] by auto

definition CanonicalJSON :: "crypto \<Rightarrow> gvalue \<Rightarrow> nat list result" where
  "CanonicalJSON cr value =
     (case rejectFloats value of
        Some err \<Rightarrow> Inl err
      | None \<Rightarrow> transform cr value)"

definition Digest :: "crypto \<Rightarrow> gvalue \<Rightarrow> string result" where
  "Digest cr value =
     (case CanonicalJSON cr value of
        Inl err \<Rightarrow> Inl err
      | Inr payload \<Rightarrow> Inr (hex_encode (sum256 cr payload)))"

text \<open>\<open>NewID\<close>: the 16 bytes that \<open>crypto/rand\<close> returned are an argument.\<close>

definition NewID :: "string \<Rightarrow> nat list \<Rightarrow> string" where
  "NewID pfx random = pfx @ ''_'' @ hex_encode random"

section \<open>The structs under reflection\<close>

definition gstrings :: "string list \<Rightarrow> gvalue" where
  "gstrings xs = GSlice (map GString xs)"

definition gcode :: "ErrorCode \<Rightarrow> gvalue" where
  "gcode c = GString (code_text c)"

definition reflect_predicate :: "Predicate \<Rightarrow> gvalue" where
  "reflect_predicate p = GStruct
     [(''name'', True, GString (pr_Name p)),
      (''phase'', True, GString (pr_Phase p)),
      (''expected'', True, GString (pr_Expected p)),
      (''freshness_seconds'', True, GInt (pr_FreshnessSeconds p)),
      (''on_failure'', True, gcode (pr_OnFailure p))]"

definition gpreds :: "Predicate list \<Rightarrow> gvalue" where
  "gpreds ps = GSlice (map reflect_predicate ps)"

definition reflect_intent :: "ChangeIntent \<Rightarrow> gvalue" where
  "reflect_intent i = GStruct
     [(''schema_version'', True, GString (ci_SchemaVersion i)),
      (''intent_id'', True, GString (ci_IntentID i)),
      (''client_request_id'', True, GString (ci_ClientRequestID i)),
      (''principal_id'', True, GString (ci_PrincipalID i)),
      (''session_id'', True, GString (ci_SessionID i)),
      (''created_at'', True, GTime (ci_CreatedAt i)),
      (''enrollment_id'', True, GString (ci_EnrollmentID i)),
      (''deployment_generation'', True, GInt (ci_DeploymentGeneration i)),
      (''container_id'', True, GString (ci_ContainerID i)),
      (''paper_tuple'', True, GString (ci_PaperTuple i)),
      (''expected_boot_id'', True, GString (ci_ExpectedBootID i)),
      (''workflow_kind'', True, GString (ci_WorkflowKind i)),
      (''workflow_version'', True, GString (ci_WorkflowVersion i)),
      (''plugin_id'', True, GString (ci_PluginID i)),
      (''from_artifact_id'', True, GString (ci_FromArtifactID i)),
      (''from_sha256'', True, GString (ci_FromSHA256 i)),
      (''to_artifact_id'', True, GString (ci_ToArtifactID i)),
      (''to_sha256'', True, GString (ci_ToSHA256 i)),
      (''profile_digest'', True, GString (ci_ProfileDigest i)),
      (''scope_digest'', True, GString (ci_ScopeDigest i)),
      (''policy_revision'', True, GString (ci_PolicyRevision i)),
      (''policy_digest'', True, GString (ci_PolicyDigest i)),
      (''capability_snapshot'', True, gstrings (ci_CapabilitySnapshot i)),
      (''observation_bundle_id'', True, GString (ci_ObservationBundleID i)),
      (''inventory_digest'', True, GString (ci_InventoryDigest i)),
      (''config_digest'', True, GString (ci_ConfigDigest i)),
      (''evidence_references'', True, gstrings (ci_EvidenceReferences i)),
      (''predicates'', True, gpreds (ci_Predicates i)),
      (''steps'', True, gstrings (ci_Steps i)),
      (''reserved_backup_id'', True, GString (ci_ReservedBackupID i)),
      (''backup_recipe_digest'', True, GString (ci_BackupRecipeDigest i)),
      (''verification_profile_id'', True, GString (ci_VerificationProfileID i)),
      (''verification_digest'', True, GString (ci_VerificationDigest i)),
      (''recovery_contract_id'', True, GString (ci_RecoveryContractID i)),
      (''recovery_digest'', True, GString (ci_RecoveryDigest i)),
      (''approval_deadline'', True, GTime (ci_ApprovalDeadline i)),
      (''start_before'', True, GTime (ci_StartBefore i)),
      (''execution_budget_seconds'', True, GInt (ci_ExecutionBudgetSeconds i)),
      (''recovery_budget_seconds'', True, GInt (ci_RecoveryBudgetSeconds i)),
      (''rationale'', True, GString (ci_Rationale i)),
      (''intent_digest'', True, GString (ci_IntentDigest i))]"

definition reflect_enrollment :: "Enrollment \<Rightarrow> gvalue" where
  "reflect_enrollment e = GStruct
     [(''target_id'', True, GString (en_TargetID e)),
      (''enrollment_id'', True, GString (en_EnrollmentID e)),
      (''deployment_generation'', True, GInt (en_DeploymentGeneration e)),
      (''container_id'', True, GString (en_ContainerID e)),
      (''image_digest'', True, GString (en_ImageDigest e)),
      (''data_root_identity'', True, GString (en_DataRootIdentity e)),
      (''game_endpoint'', True, GString (en_GameEndpoint e)),
      (''runtime_guard_pairing'', True, GString (en_RuntimeGuardPairing e)),
      (''bootstrap_fingerprint'', True, GString (en_BootstrapFingerprint e)),
      (''policy_id'', True, GString (en_PolicyID e)),
      (''policy_revision'', True, GString (en_PolicyRevision e)),
      (''policy_digest'', True, GString (en_PolicyDigest e)),
      (''support_profile_id'', True, GString (en_SupportProfileID e)),
      (''paper_tuple'', True, GString (en_PaperTuple e)),
      (''allowed_plugins'', True, gstrings (en_AllowedPlugins e))]"

definition reflect_proposal :: "ProposalInput \<Rightarrow> gvalue" where
  "reflect_proposal p = GStruct
     [(''plugin_id'', True, GString (pi_PluginID p)),
      (''target_artifact_id'', True, GString (pi_TargetArtifactID p)),
      (''client_request_id'', True, GString (pi_ClientRequestID p)),
      (''rationale'', True, GString (pi_Rationale p))]"

lemma no_float_gstrings [simp]: "\<not> float_in (gstrings xs)"
  by (simp add: gstrings_def)

lemma no_float_gcode [simp]: "\<not> float_in (gcode c)"
  by (simp add: gcode_def)

lemma no_float_predicates [simp]: "\<not> float_in (gpreds ps)"
  by (simp add: gpreds_def reflect_predicate_def)

lemma no_float_intent [simp]: "\<not> float_in (reflect_intent i)"
  by (simp add: reflect_intent_def)

lemma no_float_enrollment [simp]: "\<not> float_in (reflect_enrollment e)"
  by (simp add: reflect_enrollment_def)

lemma no_float_proposal [simp]: "\<not> float_in (reflect_proposal p)"
  by (simp add: reflect_proposal_def)

lemma Digest_no_float:
  "\<not> float_in v \<Longrightarrow> Digest cr v =
     (case transform cr v of Inl e \<Rightarrow> Inl e | Inr p \<Rightarrow> Inr (hex_encode (sum256 cr p)))"
  by (simp add: Digest_def CanonicalJSON_def rejectFloats_iff(1) [symmetric])

section \<open>Sealing\<close>

definition scope_digestPayload :: "AgentSessionScope \<Rightarrow> gvalue" where
  "scope_digestPayload scope = GStruct
     [(''schema_version'', True, GString (sc_SchemaVersion scope)),
      (''principal_id'', True, GString (sc_PrincipalID scope)),
      (''session_id'', True, GString (sc_SessionID scope)),
      (''enrollment_id'', True, GString (sc_EnrollmentID scope)),
      (''deployment_generation'', True, GInt (sc_DeploymentGeneration scope)),
      (''capabilities'', True, gstrings (SortedCopy (sc_Capabilities scope))),
      (''plugin_ids'', True, gstrings (SortedCopy (sc_PluginIDs scope))),
      (''artifact_profile_ids'', True, gstrings (SortedCopy (sc_ArtifactProfileIDs scope))),
      (''issued_at'', True, GString (format_time (sc_IssuedAt scope))),
      (''expires_at'', True, GString (format_time (sc_ExpiresAt scope))),
      (''revocation_epoch'', True, GInt (sc_RevocationEpoch scope))]"

definition scope_Seal :: "crypto \<Rightarrow> AgentSessionScope \<Rightarrow> AgentSessionScope result" where
  "scope_Seal cr scope =
     (case Digest cr (scope_digestPayload scope) of
        Inl err \<Rightarrow> Inl err
      | Inr digest \<Rightarrow> Inr (scope\<lparr>sc_ScopeDigest := digest\<rparr>))"

definition scope_Validate :: "crypto \<Rightarrow> AgentSessionScope \<Rightarrow> gotime \<Rightarrow> gar_error option" where
  "scope_Validate cr scope now =
     (case Digest cr (scope_digestPayload scope) of
        Inl err \<Rightarrow> Some err
      | Inr digest \<Rightarrow>
          if digest \<noteq> sc_ScopeDigest scope
          then Some (NewError ErrScopeDenied ''session scope digest mismatch'')
          else if \<not> Before now (sc_ExpiresAt scope)
          then Some (NewError ErrScopeDenied ''agent session expired'')
          else None)"

definition intent_digestPayload :: "ChangeIntent \<Rightarrow> ChangeIntent" where
  "intent_digestPayload intent =
     intent\<lparr>ci_IntentDigest := '''',
        ci_CapabilitySnapshot := SortedCopy (ci_CapabilitySnapshot intent),
        ci_EvidenceReferences := SortedCopy (ci_EvidenceReferences intent)\<rparr>"

definition intent_Seal :: "crypto \<Rightarrow> ChangeIntent \<Rightarrow> ChangeIntent result" where
  "intent_Seal cr intent =
     (case Digest cr (reflect_intent (intent_digestPayload intent)) of
        Inl err \<Rightarrow> Inl err
      | Inr digest \<Rightarrow> Inr (intent\<lparr>ci_IntentDigest := digest\<rparr>))"

definition ValidateDigest :: "crypto \<Rightarrow> ChangeIntent \<Rightarrow> gar_error option" where
  "ValidateDigest cr intent =
     (case Digest cr (reflect_intent (intent_digestPayload intent)) of
        Inl err \<Rightarrow> Some err
      | Inr digest \<Rightarrow>
          if digest \<noteq> ci_IntentDigest intent
          then Some (NewError ErrInvalidIntentDigest ''change intent digest mismatch'')
          else None)"

section \<open>The contract of a sealed struct\<close>

text \<open>
  A struct that carries its own digest: the payload under the digest does not contain the
  digest field and no floating-point value. Both sealed structs of the domain, the session
  scope and the change intent, meet this contract.
\<close>

locale sealed_struct =
  fixes payload :: "'s \<Rightarrow> gvalue"
    and stored :: "'s \<Rightarrow> string"
    and put :: "string \<Rightarrow> 's \<Rightarrow> 's"
    and seal :: "crypto \<Rightarrow> 's \<Rightarrow> 's result"
    and sealed :: "crypto \<Rightarrow> 's \<Rightarrow> bool"
  assumes payload_put: "payload (put d x) = payload x"
    and stored_put: "stored (put d x) = d"
    and payload_no_float: "\<not> float_in (payload x)"
    and seal_law: "seal cr x =
      (case Digest cr (payload x) of Inl e \<Rightarrow> Inl e | Inr d \<Rightarrow> Inr (put d x))"
    and sealed_law: "sealed cr x \<longleftrightarrow> Digest cr (payload x) = Inr (stored x)"
begin

lemma seal_sealed: "seal cr x = Inr y \<Longrightarrow> sealed cr y"
  by (auto simp: seal_law sealed_law payload_put stored_put split: sum.splits)

lemma seal_put: "seal cr x = Inr y \<Longrightarrow> y = put (stored y) x"
  by (auto simp: seal_law stored_put split: sum.splits)

lemma seal_fails: "seal cr x = Inl e \<Longrightarrow> transform cr (payload x) = Inl e"
  by (auto simp: seal_law Digest_no_float payload_no_float split: sum.splits)

lemma sealed_same_digest:
  "sealed cr x \<Longrightarrow> sealed cr y \<Longrightarrow>
     stored x = stored y \<longleftrightarrow> Digest cr (payload x) = Digest cr (payload y)"
  by (auto simp: sealed_law)

end

definition sealed_scope :: "crypto \<Rightarrow> AgentSessionScope \<Rightarrow> bool" where
  "sealed_scope cr scope \<longleftrightarrow> Digest cr (scope_digestPayload scope) = Inr (sc_ScopeDigest scope)"

definition sealed_intent :: "crypto \<Rightarrow> ChangeIntent \<Rightarrow> bool" where
  "sealed_intent cr i \<longleftrightarrow> Digest cr (reflect_intent (intent_digestPayload i)) = Inr (ci_IntentDigest i)"

interpretation scope_seal: sealed_struct scope_digestPayload sc_ScopeDigest
  "\<lambda>d scope. scope\<lparr>sc_ScopeDigest := d\<rparr>" scope_Seal sealed_scope
  by unfold_locales (simp_all add: scope_digestPayload_def scope_Seal_def sealed_scope_def)

interpretation intent_seal: sealed_struct "\<lambda>i. reflect_intent (intent_digestPayload i)"
  ci_IntentDigest "\<lambda>d i. i\<lparr>ci_IntentDigest := d\<rparr>" intent_Seal sealed_intent
  by unfold_locales (simp_all add: intent_digestPayload_def intent_Seal_def sealed_intent_def)

lemma ValidateDigest_None_iff [simp]: "ValidateDigest cr i = None \<longleftrightarrow> sealed_intent cr i"
  by (auto simp: ValidateDigest_def sealed_intent_def split: sum.splits)

lemma scope_Validate_None_iff:
  "scope_Validate cr scope now = None \<longleftrightarrow> sealed_scope cr scope \<and> Before now (sc_ExpiresAt scope)"
  by (auto simp: scope_Validate_def sealed_scope_def split: sum.splits)

lemma sort_eq_iff: "sort xs = sort ys \<longleftrightarrow> mset xs = mset ys"
  by (metis mset_sort properties_for_sort sorted_sort)

lemma intent_digestPayload_eq_iff:
  "intent_digestPayload i = intent_digestPayload j \<longleftrightarrow>
     i\<lparr>ci_IntentDigest := '''', ci_CapabilitySnapshot := [], ci_EvidenceReferences := []\<rparr> =
     j\<lparr>ci_IntentDigest := '''', ci_CapabilitySnapshot := [], ci_EvidenceReferences := []\<rparr> \<and>
     mset (ci_CapabilitySnapshot i) = mset (ci_CapabilitySnapshot j) \<and>
     mset (ci_EvidenceReferences i) = mset (ci_EvidenceReferences j)"
  by (cases i; cases j) (auto simp: intent_digestPayload_def SortedCopy_def sort_eq_iff)

lemma code_text_inject [simp]: "code_text c = code_text d \<longleftrightarrow> c = d"
  by (cases c; cases d) simp_all

lemma gstrings_inject [simp]: "gstrings xs = gstrings ys \<longleftrightarrow> xs = ys"
  by (simp add: gstrings_def inj_map_eq_map inj_def)

lemma gcode_inject [simp]: "gcode c = gcode d \<longleftrightarrow> c = d"
  by (simp add: gcode_def)

lemma reflect_predicate_inject [simp]: "reflect_predicate p = reflect_predicate q \<longleftrightarrow> p = q"
  by (cases p; cases q) (auto simp: reflect_predicate_def)

lemma gpreds_inject [simp]: "gpreds ps = gpreds qs \<longleftrightarrow> ps = qs"
  by (simp add: gpreds_def inj_map_eq_map inj_def)

lemma reflect_intent_inject [simp]: "reflect_intent i = reflect_intent j \<longleftrightarrow> i = j"
  by (cases i; cases j) (auto simp: reflect_intent_def)

section \<open>Sample data\<close>

text \<open>
  A concrete hash parameter and a concrete intent, on which the theorems of the development
  are instantiated.
\<close>

definition sample_crypto :: crypto where
  "sample_crypto = \<lparr>transform = (\<lambda>v. Inr [length (case v of GStruct fs \<Rightarrow> fs | _ \<Rightarrow> [])]),
     sum256 = (\<lambda>p. p)\<rparr>"

definition sample_now :: gotime where
  "sample_now = 63900000000 * second"

definition sample_enrollment :: Enrollment where
  "sample_enrollment =
     \<lparr>en_TargetID = ''target'', en_EnrollmentID = ''enr'', en_DeploymentGeneration = 1,
      en_ContainerID = ''ctr'', en_ImageDigest = ''img'', en_DataRootIdentity = ''dev:1/inode:2'',
      en_GameEndpoint = ''ep'', en_RuntimeGuardPairing = ''pair'',
      en_BootstrapFingerprint = ''boot'', en_PolicyID = ''pol'', en_PolicyRevision = ''1'',
      en_PolicyDigest = ''pd'', en_SupportProfileID = ''sup'', en_PaperTuple = ''tuple'',
      en_AllowedPlugins = [''plug'']\<rparr>"

definition sample_intent :: ChangeIntent where
  "sample_intent =
     \<lparr>ci_SchemaVersion = ''gar.change-intent.v1'', ci_IntentID = ''intent_01'',
      ci_ClientRequestID = ''req'', ci_PrincipalID = ''agent'', ci_SessionID = ''sess'',
      ci_CreatedAt = sample_now, ci_EnrollmentID = ''enr'', ci_DeploymentGeneration = 1,
      ci_ContainerID = ''ctr'', ci_PaperTuple = ''tuple'', ci_ExpectedBootID = ''bootid'',
      ci_WorkflowKind = ''UPDATE_PLUGIN_ARTIFACT'',
      ci_WorkflowVersion = ''gar.paper-plugin-change.v1'', ci_PluginID = ''plug'',
      ci_FromArtifactID = ''a'', ci_FromSHA256 = ''sa'', ci_ToArtifactID = ''b'',
      ci_ToSHA256 = ''sb'', ci_ProfileDigest = ''prd'', ci_ScopeDigest = ''scd'',
      ci_PolicyRevision = ''1'', ci_PolicyDigest = ''pd'',
      ci_CapabilitySnapshot = [''propose_plugin_change'', ''get_operation''],
      ci_ObservationBundleID = ''bun'', ci_InventoryDigest = ''inv'', ci_ConfigDigest = ''cfg'',
      ci_EvidenceReferences = [''observation:bun''], ci_Predicates = [],
      ci_Steps = FixedWorkflowSteps, ci_ReservedBackupID = ''backup_01'',
      ci_BackupRecipeDigest = ''00'', ci_VerificationProfileID = ''vp'',
      ci_VerificationDigest = ''vd'', ci_RecoveryContractID = ''rc'', ci_RecoveryDigest = ''rd'',
      ci_ApprovalDeadline = sample_now + 15 * minute, ci_StartBefore = sample_now + 20 * minute,
      ci_ExecutionBudgetSeconds = 900, ci_RecoveryBudgetSeconds = 900, ci_Rationale = '''',
      ci_IntentDigest = ''29''\<rparr>"

definition sample_scope :: AgentSessionScope where
  "sample_scope =
     \<lparr>sc_SchemaVersion = ''gar.agent-session-scope.v1'', sc_PrincipalID = ''agent'',
      sc_SessionID = ''sess'', sc_EnrollmentID = ''enr'', sc_DeploymentGeneration = 1,
      sc_Capabilities = [''propose_plugin_change'', ''get_operation''],
      sc_PluginIDs = [''plug''], sc_ArtifactProfileIDs = [''prof''],
      sc_IssuedAt = sample_now, sc_ExpiresAt = sample_now + 60 * minute,
      sc_RevocationEpoch = 1, sc_ScopeDigest = ''0b''\<rparr>"

lemma Digest_sample [simp]:
  "Digest sample_crypto (GStruct fs) =
     (if float_in (GStruct fs)
      then Inl (OtherError ''authority payload cannot contain floating-point values'')
      else Inr (hex_encode [length fs]))"
  using rejectFloats_error [of "GStruct fs"] rejectFloats_iff(1) [of "GStruct fs"]
  by (auto simp: Digest_def CanonicalJSON_def sample_crypto_def split: option.splits)

lemma sample_intent_sealed [simp]: "sealed_intent sample_crypto sample_intent"
  by (simp add: sealed_intent_def reflect_intent_def sample_intent_def
      intent_digestPayload_def hex_encode_def hex_digit_def)

section \<open>Properties\<close>

text \<open>
  Sealing an intent and validating it is a round trip: a sealed intent passes
  \<open>ValidateDigest\<close>, differs from the original in the digest field only, and sealing fails only
  where the canonical JSON encoder fails, never for a floating-point value.
\<close>

lemma intent_seal_roundtrip:
  "(case intent_Seal cr intent of
      Inr sealed \<Rightarrow> ValidateDigest cr sealed = None \<and>
        sealed = intent\<lparr>ci_IntentDigest := ci_IntentDigest sealed\<rparr>
    | Inl e \<Rightarrow> transform cr (reflect_intent (intent_digestPayload intent)) = Inl e)"
  using intent_seal.seal_sealed [of cr intent] intent_seal.seal_put [of cr intent]
    intent_seal.seal_fails [of cr intent]
  by (cases "intent_Seal cr intent") auto

text \<open>
  A sealed session scope is valid exactly until it expires, and reordering its
  capabilities, plugins or profiles does not change the outcome of the validation.
\<close>

lemma scope_seal_roundtrip:
  assumes "scope_Seal cr scope = Inr sealed"
    and "mset caps = mset (sc_Capabilities sealed)"
    and "mset plugins = mset (sc_PluginIDs sealed)"
    and "mset profiles = mset (sc_ArtifactProfileIDs sealed)"
  shows "(scope_Validate cr sealed now = None) = (now < sc_ExpiresAt scope) \<and>
    scope_Validate cr (sealed\<lparr>sc_Capabilities := caps, sc_PluginIDs := plugins,
        sc_ArtifactProfileIDs := profiles\<rparr>) now = scope_Validate cr sealed now"
proof -
  let ?p = "sealed\<lparr>sc_Capabilities := caps, sc_PluginIDs := plugins,
      sc_ArtifactProfileIDs := profiles\<rparr>"
  have "sealed_scope cr sealed" using assms(1) by (rule scope_seal.seal_sealed)
  moreover have "sc_ExpiresAt sealed = sc_ExpiresAt scope"
    using scope_seal.seal_put [OF assms(1)] by (metis AgentSessionScope.select_convs(10)
        AgentSessionScope.surjective AgentSessionScope.update_convs(12))
  moreover have "scope_digestPayload ?p = scope_digestPayload sealed"
    using assms(2-4) by (simp add: scope_digestPayload_def SortedCopy_def sort_eq_iff)
  ultimately show ?thesis
    by (auto simp: Before_def scope_Validate_def sealed_scope_def)
qed

lemma scope_seal_roundtrip_sample:
  "scope_Validate sample_crypto (sample_scope\<lparr>sc_Capabilities := [''get_operation'', ''propose_plugin_change''],
     sc_PluginIDs := [''plug''], sc_ArtifactProfileIDs := [''prof'']\<rparr>) sample_now = None"
proof -
  have seal: "scope_Seal sample_crypto sample_scope = Inr sample_scope"
    by (simp add: scope_Seal_def scope_digestPayload_def sample_scope_def hex_encode_def
        hex_digit_def)
  have now: "sample_now < sc_ExpiresAt sample_scope"
    by (simp add: sample_scope_def duration_units)
  show ?thesis
    using scope_seal_roundtrip [OF seal, where now = sample_now and plugins = "[''plug'']"
        and profiles = "[''prof'']" and caps = "[''get_operation'', ''propose_plugin_change'']"] now
    by (simp add: sample_scope_def)
qed

text \<open>
  The intent digest covers every authority field: two intents have the same digest payload
  exactly when they agree in all fields except the digest itself and the order of the
  capability snapshot and of the evidence references.
\<close>

lemma digest_covers_intent:
  "reflect_intent (intent_digestPayload i) = reflect_intent (intent_digestPayload j) \<longleftrightarrow>
     i\<lparr>ci_IntentDigest := '''', ci_CapabilitySnapshot := [], ci_EvidenceReferences := []\<rparr> =
     j\<lparr>ci_IntentDigest := '''', ci_CapabilitySnapshot := [], ci_EvidenceReferences := []\<rparr> \<and>
     mset (ci_CapabilitySnapshot i) = mset (ci_CapabilitySnapshot j) \<and>
     mset (ci_EvidenceReferences i) = mset (ci_EvidenceReferences j)"
  by (simp add: intent_digestPayload_eq_iff)

text \<open>
  The canonical encoder rejects a value exactly when a floating-point number is reachable
  in it through interfaces, pointers, elements, map values and exported fields; otherwise
  the digest is the hash of the canonical JSON.
\<close>

lemma Digest_rejects_floats:
  "Digest cr v =
     (if float_in v
      then Inl (OtherError ''authority payload cannot contain floating-point values'')
      else case transform cr v of Inl e \<Rightarrow> Inl e | Inr p \<Rightarrow> Inr (hex_encode (sum256 cr p)))"
proof (cases "float_in v")
  case True
  then show ?thesis by (simp add: Digest_def CanonicalJSON_def rejectFloats_error)
next
  case False
  then show ?thesis by (simp add: Digest_no_float)
qed

end
