(* ===== verification/Operation_States.thy ===== *)
theory Operation_States
  imports Domain_Types
begin

text \<open>
  The operation state machine of \<open>src/internal/domain/state.go\<close> and the release gates of
  \<open>src/internal/policy/gates.go\<close>. The transition table is data, as in the source; the
  lifecycle facts come from the interpretation of \<open>ranked_lifecycle\<close> on it.
\<close>

section \<open>Enumerations\<close>

text \<open>
  The operation status is a finite type; with the \<open>enum\<close> instance, statements about all
  statuses are decided by running through them.
\<close>

instantiation OperationStatus :: enum
begin

definition enum_OperationStatus :: "OperationStatus list" where
  "enum_OperationStatus =
     [OperationQueued, OperationPreparing, OperationExecuting, OperationVerifying,
      OperationSucceeded, OperationFailed, OperationAborted, OperationUnknown,
      OperationRollbackRequired, OperationRollingBack, OperationRolledBack,
      OperationRollbackFailed, OperationNeedsIntervention]"

definition enum_all_OperationStatus :: "(OperationStatus \<Rightarrow> bool) \<Rightarrow> bool" where
  "enum_all_OperationStatus P \<longleftrightarrow> list_all P enum_class.enum"

definition enum_ex_OperationStatus :: "(OperationStatus \<Rightarrow> bool) \<Rightarrow> bool" where
  "enum_ex_OperationStatus P \<longleftrightarrow> list_ex P enum_class.enum"

instance
proof
  have univ: "(UNIV :: OperationStatus set) = set enum_class.enum"
  proof (rule set_eqI)
    fix s :: OperationStatus
    show "s \<in> UNIV \<longleftrightarrow> s \<in> set enum_class.enum"
      by (cases s) (simp_all add: enum_OperationStatus_def)
  qed
  then show "(UNIV :: OperationStatus set) = set enum_class.enum" .
  show "distinct (enum_class.enum :: OperationStatus list)"
    by (simp add: enum_OperationStatus_def)
  fix P :: "OperationStatus \<Rightarrow> bool"
  show "enum_class.enum_all P \<longleftrightarrow> Ball UNIV P"
    by (simp add: enum_all_OperationStatus_def list_all_iff univ)
  show "enum_class.enum_ex P \<longleftrightarrow> Bex UNIV P"
    by (simp add: enum_ex_OperationStatus_def list_ex_iff univ)
qed

end

section \<open>The transition table\<close>

definition operationTransitions :: "(OperationStatus \<times> OperationStatus list) list" where
  "operationTransitions =
     [(OperationQueued,
        [OperationPreparing, OperationAborted, OperationUnknown, OperationNeedsIntervention]),
      (OperationPreparing,
        [OperationExecuting, OperationAborted, OperationUnknown, OperationNeedsIntervention]),
      (OperationExecuting,
        [OperationVerifying, OperationFailed, OperationUnknown, OperationRollbackRequired,
         OperationNeedsIntervention]),
      (OperationVerifying,
        [OperationSucceeded, OperationFailed, OperationUnknown, OperationRollbackRequired,
         OperationNeedsIntervention]),
      (OperationRollbackRequired,
        [OperationRollingBack, OperationNeedsIntervention]),
      (OperationRollingBack,
        [OperationRolledBack, OperationRollbackFailed, OperationUnknown,
         OperationNeedsIntervention])]"

text \<open>A missing row of the outer Go map is a nil map, which reads \<open>false\<close> everywhere.\<close>

definition CanTransitionOperation :: "OperationStatus \<Rightarrow> OperationStatus \<Rightarrow> bool" where
  "CanTransitionOperation fr to =
     (case map_of operationTransitions fr of
        None \<Rightarrow> False
      | Some targets \<Rightarrow> List.member targets to)"

definition IsTerminalOperation :: "OperationStatus \<Rightarrow> bool" where
  "IsTerminalOperation status =
     (case status of
        OperationSucceeded \<Rightarrow> True | OperationFailed \<Rightarrow> True | OperationAborted \<Rightarrow> True
      | OperationRolledBack \<Rightarrow> True | OperationRollbackFailed \<Rightarrow> True
      | OperationNeedsIntervention \<Rightarrow> True | _ \<Rightarrow> False)"

definition VerificationAllowsSuccess :: "VerificationStatus \<Rightarrow> bool \<Rightarrow> bool" where
  "VerificationAllowsSuccess status maintenanceReleased \<longleftrightarrow>
     status = VerificationPass \<and> maintenanceReleased"

text \<open>
  How far a status is from the end of the lifecycle: the number of transitions that can
  still follow it.
\<close>

fun operation_rank :: "OperationStatus \<Rightarrow> nat" where
  "operation_rank OperationQueued = 6"
| "operation_rank OperationPreparing = 5"
| "operation_rank OperationExecuting = 4"
| "operation_rank OperationVerifying = 3"
| "operation_rank OperationRollbackRequired = 2"
| "operation_rank OperationRollingBack = 1"
| "operation_rank _ = 0"

lemma CanTransition_simps [simp]:
  "CanTransitionOperation OperationQueued t \<longleftrightarrow>
     t \<in> {OperationPreparing, OperationAborted, OperationUnknown, OperationNeedsIntervention}"
  "CanTransitionOperation OperationPreparing t \<longleftrightarrow>
     t \<in> {OperationExecuting, OperationAborted, OperationUnknown, OperationNeedsIntervention}"
  "CanTransitionOperation OperationExecuting t \<longleftrightarrow>
     t \<in> {OperationVerifying, OperationFailed, OperationUnknown, OperationRollbackRequired,
         OperationNeedsIntervention}"
  "CanTransitionOperation OperationVerifying t \<longleftrightarrow>
     t \<in> {OperationSucceeded, OperationFailed, OperationUnknown, OperationRollbackRequired,
         OperationNeedsIntervention}"
  "CanTransitionOperation OperationRollbackRequired t \<longleftrightarrow>
     t \<in> {OperationRollingBack, OperationNeedsIntervention}"
  "CanTransitionOperation OperationRollingBack t \<longleftrightarrow>
     t \<in> {OperationRolledBack, OperationRollbackFailed, OperationUnknown,
         OperationNeedsIntervention}"
  "\<not> CanTransitionOperation OperationSucceeded t"
  "\<not> CanTransitionOperation OperationFailed t"
  "\<not> CanTransitionOperation OperationAborted t"
  "\<not> CanTransitionOperation OperationUnknown t"
  "\<not> CanTransitionOperation OperationRolledBack t"
  "\<not> CanTransitionOperation OperationRollbackFailed t"
  "\<not> CanTransitionOperation OperationNeedsIntervention t"
  by (simp_all add: CanTransitionOperation_def operationTransitions_def)

interpretation operation_lifecycle: ranked_lifecycle CanTransitionOperation operation_rank
proof
  fix s t
  assume "CanTransitionOperation s t"
  then show "operation_rank t < operation_rank s" by (cases s) auto
qed

text \<open>Statuses from which an operation may still be driven forward.\<close>

definition live_operation :: "OperationStatus \<Rightarrow> bool" where
  "live_operation s \<longleftrightarrow> (\<exists>t. CanTransitionOperation s t)"

lemma live_operation_iff:
  "live_operation s \<longleftrightarrow> s \<in> {OperationQueued, OperationPreparing, OperationExecuting,
     OperationVerifying, OperationRollbackRequired, OperationRollingBack}"
  by (cases s) (auto simp: live_operation_def)

lemma terminal_not_live: "IsTerminalOperation s \<Longrightarrow> \<not> live_operation s"
  by (cases s) (auto simp: live_operation_iff IsTerminalOperation_def)

lemma not_live_iff: "\<not> live_operation s \<longleftrightarrow> IsTerminalOperation s \<or> s = OperationUnknown"
  by (cases s) (auto simp: live_operation_iff IsTerminalOperation_def)

text \<open>The only way on to success from a status, where there is one.\<close>

fun success_path :: "OperationStatus \<Rightarrow> OperationStatus list option" where
  "success_path OperationQueued = Some [OperationPreparing, OperationExecuting, OperationVerifying]"
| "success_path OperationPreparing = Some [OperationExecuting, OperationVerifying]"
| "success_path OperationExecuting = Some [OperationVerifying]"
| "success_path OperationVerifying = Some []"
| "success_path _ = None"

lemma success_path_unique:
  "allowed_run CanTransitionOperation s (ts @ [OperationSucceeded]) \<Longrightarrow> success_path s = Some ts"
proof (induction ts arbitrary: s)
  case Nil
  then show ?case by (cases s) auto
next
  case (Cons t ts)
  then have "CanTransitionOperation s t" "success_path t = Some ts" by auto
  then show ?case by (cases s) auto
qed

section \<open>Release gates\<close>

datatype ReleaseMode = ModeReadOnly | ModeShadow | ModeMutation

record SupportProfile =
  sp_ProfileID :: string
  sp_Mode :: ReleaseMode
  sp_Gates :: "(string \<times> GateStatus) list"

definition RequiredMutationGates :: "string list" where
  "RequiredMutationGates = [''G-01'', ''G-02'', ''G-03'', ''G-04'', ''G-05'', ''G-06'', ''G-07'']"

text \<open>A gate that is missing from the Go map reads as the empty status.\<close>

definition gate_status :: "SupportProfile \<Rightarrow> string \<Rightarrow> GateStatus" where
  "gate_status profile gate =
     (case map_of (sp_Gates profile) gate of None \<Rightarrow> GateOther '''' | Some s \<Rightarrow> s)"

definition DefaultM1Profile :: SupportProfile where
  "DefaultM1Profile =
     \<lparr>sp_ProfileID = ''gar-v0.1-m1-fake'', sp_Mode = ModeShadow,
      sp_Gates = map (\<lambda>gate. (gate, GateNotRun)) RequiredMutationGates\<rparr>"

fun all_gates_pass :: "SupportProfile \<Rightarrow> string list \<Rightarrow> bool" where
  "all_gates_pass profile [] = True"
| "all_gates_pass profile (gate # gates) =
     (if gate_status profile gate \<noteq> GatePass then False else all_gates_pass profile gates)"

definition MutationAllowed :: "SupportProfile \<Rightarrow> bool" where
  "MutationAllowed profile =
     (if sp_Mode profile \<noteq> ModeMutation then False
      else all_gates_pass profile RequiredMutationGates)"

lemma all_gates_pass_iff:
  "all_gates_pass p gs \<longleftrightarrow> (\<forall>g \<in> set gs. gate_status p g = GatePass)"
  by (induction gs) auto

section \<open>Properties\<close>

text \<open>
  C28. The lifecycle of an operation only moves forward: along any sequence of transitions the
  table allows, no status is visited twice and at most six transitions are made, and the
  statuses with no successor are exactly the terminal ones and UNKNOWN, so an UNKNOWN
  operation is never moved by a state transition again.
\<close>

theorem operation_lifecycle_forward:
  "(allowed_run CanTransitionOperation s ts \<longrightarrow> distinct (s # ts) \<and> length ts \<le> 6) \<and>
   ((\<forall>t. \<not> CanTransitionOperation s t) \<longleftrightarrow> IsTerminalOperation s \<or> s = OperationUnknown)"
proof (intro conjI impI)
  assume run: "allowed_run CanTransitionOperation s ts"
  then show "distinct (s # ts)" by (rule operation_lifecycle.run_distinct)
  from run have "length ts \<le> operation_rank s" by (rule operation_lifecycle.run_bounded)
  moreover have "operation_rank s \<le> 6" by (cases s) auto
  ultimately show "length ts \<le> 6" by linarith
next
  show "(\<forall>t. \<not> CanTransitionOperation s t) \<longleftrightarrow> IsTerminalOperation s \<or> s = OperationUnknown"
    using not_live_iff [of s] by (simp add: live_operation_def)
qed

theorem operation_lifecycle_forward_witness:
  "allowed_run CanTransitionOperation OperationQueued
     [OperationPreparing, OperationExecuting, OperationVerifying, OperationSucceeded] \<and>
   distinct [OperationQueued, OperationPreparing, OperationExecuting, OperationVerifying,
     OperationSucceeded]"
proof -
  let ?ts = "[OperationPreparing, OperationExecuting, OperationVerifying, OperationSucceeded]"
  have run: "allowed_run CanTransitionOperation OperationQueued ?ts" by simp
  with operation_lifecycle_forward [of OperationQueued ?ts]
  have "distinct (OperationQueued # ?ts)" by blast
  with run show ?thesis by blast
qed

text \<open>
  Success is only reached through verification: every allowed run from QUEUED that ends
  in SUCCEEDED is the run through PREPARING, EXECUTING and VERIFYING.
\<close>

lemma succeeded_only_through_verification:
  assumes "allowed_run CanTransitionOperation OperationQueued (ts @ [OperationSucceeded])"
  shows "ts = [OperationPreparing, OperationExecuting, OperationVerifying]"
  using success_path_unique [OF assms] by simp

theorem succeeded_only_through_verification_witness:
  "allowed_run CanTransitionOperation OperationQueued
     ([OperationPreparing, OperationExecuting, OperationVerifying] @ [OperationSucceeded]) \<and>
   [OperationPreparing, OperationExecuting, OperationVerifying] =
     [OperationPreparing, OperationExecuting, OperationVerifying]"
proof -
  have run: "allowed_run CanTransitionOperation OperationQueued
      ([OperationPreparing, OperationExecuting, OperationVerifying] @ [OperationSucceeded])"
    by simp
  show ?thesis using run succeeded_only_through_verification [OF run] by blast
qed

end
