(* ===== verification/Backup_Evidence.thy ===== *)
theory Backup_Evidence
  imports Canonical Operation_States
begin

text \<open>
  The evidence types and their checks in \<open>src/internal/domain/backup.go\<close>: how a stop is
  classified, what a safety observation must show before anything is dispatched, what must
  hold before a backup may be taken, and when a backup record counts as completed.
\<close>

section \<open>Stop evidence\<close>

text \<open>\<open>StopUnset\<close> is the empty string, the zero value.\<close>

datatype StopState =
  StopUnset | StopNotRequested | StopDispatchPossible | StopStopping | StopConfirmed | StopFailed | StopUnknown

record StopEvidence =
  se_State :: StopState
  se_OperationID :: string
  se_StepID :: string
  se_ContainerID :: string
  se_BootID :: string
  se_RequestedAt :: gotime
  se_ObservedAt :: gotime
  se_FinishedAt :: gotime
  se_LifecycleAvailable :: bool
  se_Running :: bool
  se_ExitCode :: int
  se_OOMKilled :: bool
  se_RuntimeTerminal :: bool
  se_GracefulTermination :: bool
  se_Attribution :: Attribution
  se_References :: "string list"

definition FreshEvidence :: "gotime \<Rightarrow> gotime \<Rightarrow> bool" where
  "FreshEvidence at now \<longleftrightarrow> \<not> IsZero at \<and> \<not> After at now \<and> Sub now at \<le> 5 * second"

lemma FreshEvidence_iff: "FreshEvidence at now \<longleftrightarrow> at \<noteq> 0 \<and> at \<le> now \<and> now - at \<le> 5000000000"
proof -
  have "Sub now at \<le> 5 * second \<longleftrightarrow> now - at \<le> 5 * second"
    by (rule Sub_le_iff) (simp_all add: go_time)
  then show ?thesis by (auto simp: FreshEvidence_def go_time)
qed

definition ClassifyStop :: "DispatchState \<Rightarrow> StopEvidence \<Rightarrow> gotime \<Rightarrow> StopState" where
  "ClassifyStop dispatch e now =
     (if dispatch = NotDispatched then StopNotRequested
      else if dispatch \<noteq> DispatchPossible \<and> dispatch \<noteq> Acknowledged then StopUnknown
      else if \<not> se_LifecycleAvailable e \<or> \<not> FreshEvidence (se_ObservedAt e) now then StopUnknown
      else if se_Running e then StopStopping
      else if se_OOMKilled e \<or> se_ExitCode e \<noteq> 0 then StopFailed
      else if IsZero (se_RequestedAt e) \<or> After (se_RequestedAt e) (se_FinishedAt e) \<or>
         After (se_FinishedAt e) (se_ObservedAt e) \<or> \<not> se_RuntimeTerminal e \<or>
         \<not> se_GracefulTermination e \<or> se_Attribution e \<noteq> AttributionCorrelated \<or>
         se_OperationID e = '''' \<or> se_StepID e = '''' \<or> se_ContainerID e = '''' \<or>
         se_BootID e = '''' \<or> se_References e = []
      then StopUnknown
      else StopConfirmed)"

section \<open>Safety observations\<close>

record SafetyObservation =
  so_Available :: bool
  so_ObservedAt :: gotime
  so_Enrollment :: Enrollment
  so_BootID :: string
  so_InventoryDigest :: string
  so_ConfigDigest :: string
  so_SourceArtifactID :: string
  so_SourceSHA256 :: string
  so_AdmissionClosed :: bool
  so_Maintenance :: bool
  so_Players :: int
  so_ProcessStopped :: bool
  so_FilesystemRootExists :: bool
  so_NoConflictingWriter :: bool
  so_References :: "string list"

text \<open>The Go code discards the error of \<open>Digest\<close> and keeps the empty string.\<close>

definition digest_or_empty :: "crypto \<Rightarrow> gvalue \<Rightarrow> string" where
  "digest_or_empty cr v = (case Digest cr v of Inl _ \<Rightarrow> '''' | Inr d \<Rightarrow> d)"

definition validate_safety ::
  "crypto \<Rightarrow> SafetyObservation \<Rightarrow> Enrollment \<Rightarrow> ChangeIntent \<Rightarrow> gotime \<Rightarrow> gar_error option" where
  "validate_safety cr ob enrollment intent now =
     (if \<not> so_Available ob \<or> \<not> FreshEvidence (so_ObservedAt ob) now \<or> so_References ob = [] \<or>
         so_InventoryDigest ob = '''' \<or> so_ConfigDigest ob = '''' \<or> so_SourceArtifactID ob = '''' \<or>
         so_SourceSHA256 ob = '''' \<or> so_BootID ob = '''' \<or>
         en_TargetID (so_Enrollment ob) = '''' \<or> en_EnrollmentID (so_Enrollment ob) = '''' \<or>
         en_ContainerID (so_Enrollment ob) = '''' \<or> en_DataRootIdentity (so_Enrollment ob) = ''''
      then Some (NewError ErrPreconditionUnavailable
             ''fresh authoritative safety evidence is incomplete'')
      else let expected = digest_or_empty cr (reflect_enrollment enrollment);
               actual = digest_or_empty cr (reflect_enrollment (so_Enrollment ob))
      in if actual \<noteq> expected \<or> ci_EnrollmentID intent \<noteq> en_EnrollmentID enrollment \<or>
         ci_DeploymentGeneration intent \<noteq> en_DeploymentGeneration enrollment \<or>
         ci_ContainerID intent \<noteq> en_ContainerID enrollment \<or>
         ci_PaperTuple intent \<noteq> en_PaperTuple enrollment \<or>
         ci_PolicyDigest intent \<noteq> en_PolicyDigest enrollment \<or>
         ci_PolicyRevision intent \<noteq> en_PolicyRevision enrollment \<or>
         so_BootID ob \<noteq> ci_ExpectedBootID intent \<or>
         so_InventoryDigest ob \<noteq> ci_InventoryDigest intent \<or>
         so_ConfigDigest ob \<noteq> ci_ConfigDigest intent \<or>
         so_SourceArtifactID ob \<noteq> ci_FromArtifactID intent \<or>
         so_SourceSHA256 ob \<noteq> ci_FromSHA256 intent
      then Some (NewError ErrIntentStale
             ''approved target, generation, policy or source state changed'')
      else if \<not> so_NoConflictingWriter ob
      then Some (NewError ErrTargetBusy ''conflicting writer observed'')
      else if \<not> so_FilesystemRootExists ob
      then Some (NewError ErrPreconditionUnavailable ''enrolled filesystem root is unavailable'')
      else None)"

section \<open>Readiness for a backup\<close>

record BackupReadyEvidence =
  br_BeforeStop :: SafetyObservation
  br_Offline :: SafetyObservation
  br_Stop :: StopEvidence

definition validate_ready ::
  "crypto \<Rightarrow> BackupReadyEvidence \<Rightarrow> Enrollment \<Rightarrow> ChangeIntent \<Rightarrow> Operation \<Rightarrow> gotime \<Rightarrow> gar_error option"
where
  "validate_ready cr e enrollment intent operation now =
     (case ValidateDigest cr intent of
        Some err \<Rightarrow> Some err
      | None \<Rightarrow>
     if op_IntentID operation \<noteq> ci_IntentID intent \<or>
        op_IntentDigest operation \<noteq> ci_IntentDigest intent \<or>
        op_EnrollmentID operation \<noteq> ci_EnrollmentID intent
     then Some (NewError ErrInvalidIntentDigest ''backup operation does not own this intent'')
     else if op_OwnershipReleased operation \<or> op_Status operation \<noteq> OperationExecuting
     then Some (NewError ErrTargetBlockedUnknown
            ''backup operation no longer owns an executable writer'')
     else if length (op_Attempts operation) < 4 \<or>
        sa_StepID (op_Attempts operation ! 3) \<noteq> se_StepID (br_Stop e) \<or>
        sa_StepKind (op_Attempts operation ! 3) \<noteq> ''S03_GRACEFUL_STOP'' \<or>
        sa_DispatchState (op_Attempts operation ! 3) \<noteq> Acknowledged \<or>
        sa_EffectState (op_Attempts operation ! 3) \<noteq> EffectExpectedObserved \<or>
        sa_Attribution (op_Attempts operation ! 3) \<noteq> AttributionCorrelated
     then Some (NewError ErrPreconditionUnavailable
            ''stop evidence does not match the durable acknowledged S03'')
     else case validate_safety cr (br_BeforeStop e) enrollment intent (se_RequestedAt (br_Stop e)) of
        Some err \<Rightarrow> Some err
      | None \<Rightarrow>
     case validate_safety cr (br_Offline e) enrollment intent now of
        Some err \<Rightarrow> Some err
      | None \<Rightarrow>
     if \<not> so_AdmissionClosed (br_BeforeStop e) \<or> \<not> so_Maintenance (br_BeforeStop e) \<or>
        so_Players (br_BeforeStop e) \<noteq> 0 \<or> so_ProcessStopped (br_BeforeStop e) \<or>
        \<not> so_AdmissionClosed (br_Offline e) \<or> \<not> so_ProcessStopped (br_Offline e)
     then Some (NewError ErrIntentStale ''isolation or offline predicate changed'')
     else if se_OperationID (br_Stop e) \<noteq> op_OperationID operation \<or>
        se_ContainerID (br_Stop e) \<noteq> ci_ContainerID intent \<or>
        se_BootID (br_Stop e) \<noteq> ci_ExpectedBootID intent \<or>
        se_State (br_Stop e) \<noteq> StopConfirmed \<or>
        ClassifyStop Acknowledged (br_Stop e) (se_ObservedAt (br_Stop e)) \<noteq> StopConfirmed
     then Some (NewError ErrPreconditionUnavailable
            ''correlated graceful stop evidence is unavailable'')
     else if Before (so_ObservedAt (br_Offline e)) (se_FinishedAt (br_Stop e))
     then Some (NewError ErrPreconditionUnavailable ''offline evidence predates stop'')
     else None)"

section \<open>Backup records\<close>

definition BackupRecipeID :: string where
  "BackupRecipeID = ''gar.offline-tar.v1''"

definition OfflineBackupRecipeDigest :: "crypto \<Rightarrow> string" where
  "OfflineBackupRecipeDigest cr = digest_or_empty cr
     (GMap [(''scope'', GInterface (GString ''enrolled-data-root'')),
            (''consistency'', GInterface (GString ''offline'')),
            (''exclude'', GInterface (gstrings [''logs'', ''cache'', ''temporary-sockets'']))])"

datatype BackupStatus =
  BackupReserved | BackupWriting | BackupFinalizing | BackupVerifying | BackupValid
| BackupFailed | BackupUnknown | BackupOrphaned

fun backup_status_text :: "BackupStatus \<Rightarrow> string" where
  "backup_status_text BackupReserved = ''RESERVED''"
| "backup_status_text BackupWriting = ''WRITING''"
| "backup_status_text BackupFinalizing = ''FINALIZING''"
| "backup_status_text BackupVerifying = ''VERIFYING''"
| "backup_status_text BackupValid = ''VALID''"
| "backup_status_text BackupFailed = ''FAILED''"
| "backup_status_text BackupUnknown = ''UNKNOWN''"
| "backup_status_text BackupOrphaned = ''ORPHANED''"

record BackupRecord =
  bk_EvidenceLevel :: string
  bk_BackupID :: string
  bk_SchemaVersion :: string
  bk_TargetID :: string
  bk_EnrollmentID :: string
  bk_DeploymentGeneration :: int
  bk_ContainerIdentity :: string
  bk_DataRootIdentity :: string
  bk_PaperTuple :: string
  bk_BootIDBeforeStop :: string
  bk_IntentID :: string
  bk_IntentDigest :: string
  bk_OperationID :: string
  bk_StepID :: string
  bk_SourceInventoryDigest :: string
  bk_SourceConfigDigest :: string
  bk_SourceArtifacts :: "ArtifactRecord list"
  bk_BackupRecipeID :: string
  bk_BackupRecipeDigest :: string
  bk_CreatedAt :: gotime
  bk_CompletedAt :: gotime
  bk_ConsistencyMode :: string
  bk_ArchiveSizeBytes :: int
  bk_ArchiveSHA256 :: string
  bk_DigestVerifiedAt :: gotime
  bk_Status :: BackupStatus
  bk_Ready :: BackupReadyEvidence

definition ValidateCompleted :: "BackupRecord \<Rightarrow> gar_error option" where
  "ValidateCompleted r =
     (if bk_Status r \<noteq> BackupValid \<or> bk_SchemaVersion r \<noteq> ''gar.backup.v1'' \<or>
         bk_ConsistencyMode r \<noteq> ''OFFLINE'' \<or> bk_ArchiveSizeBytes r \<le> 0 \<or>
         length (bk_ArchiveSHA256 r) \<noteq> 64 \<or> Before (bk_DigestVerifiedAt r) (bk_CreatedAt r) \<or>
         Before (bk_CompletedAt r) (bk_DigestVerifiedAt r) \<or> IsZero (bk_CompletedAt r)
      then Some (NewError ErrBackupNotReady
             (''backup '' @ bk_BackupID r @ '' is not a completed verified artifact''))
      else None)"

end
