(* ===== verification/Journal_Store.thy ===== *)
theory Journal_Store
  imports Backup_Evidence
begin

text \<open>
  The durable journal, \<open>src/internal/store/store.go\<close>: a SQLite database opened with one
  connection, foreign keys on and immediate transactions.

  The state \<open>db\<close> has one field per table of \<open>initialize\<close>, each the list of its rows in insertion
  order. A row keeps the columns of the schema; the \<open>payload\<close> column holds the struct whose JSON
  text the code stores there, since \<open>json.Unmarshal\<close> gives the marshalled struct back. A
  transaction is a function from the database at its begin to \<open>Inl\<close> an error, in which case the
  deferred \<open>Rollback\<close> leaves the database as it was, or to \<open>Inr\<close> the result and the database at
  its commit. Transactions are serialised by the write lock, so a history of the journal is a
  sequence of them, whatever processes issued them.

  What a call reads from the outside is in \<open>call_env\<close>: the hash functions, the readings of
  \<open>time.Now\<close> and of \<open>crypto/rand\<close> in the order the call makes them.
\<close>

record call_env =
  ce_crypto :: crypto
  ce_clock :: "nat \<Rightarrow> gotime"
  ce_random :: "nat \<Rightarrow> nat list"

section \<open>Tables\<close>

record session_row =
  ss_session_id :: string
  ss_principal_id :: string
  ss_enrollment_id :: string
  ss_scope_digest :: string
  ss_payload :: AgentSessionScope
  ss_created_at :: string

record intent_row =
  it_intent_id :: string
  it_principal_id :: string
  it_enrollment_id :: string
  it_client_request_id :: string
  it_proposal_digest :: string
  it_intent_digest :: string
  it_status :: IntentStatus
  it_payload :: IntentRecord
  it_updated_at :: string

record approval_row =
  av_approval_id :: string
  av_intent_id :: string
  av_intent_digest :: string
  av_payload :: Approval
  av_decided_at :: string

record operation_row =
  or_operation_id :: string
  or_intent_id :: string
  or_enrollment_id :: string
  or_status :: OperationStatus
  or_ownership_released :: int
  or_payload :: Operation
  or_updated_at :: string

record step_row =
  st_step_id :: string
  st_operation_id :: string
  st_attempt_no :: int
  st_payload :: StepAttempt
  st_updated_at :: string

record backup_row =
  bw_backup_id :: string
  bw_operation_id :: string
  bw_status :: BackupStatus
  bw_payload :: BackupRecord

datatype audit_payload =
  AuditMap "(string \<times> gvalue) list"
| AuditApproval Approval
| AuditAttempt StepAttempt
| AuditBackup BackupRecord

record audit_row =
  au_sequence :: nat
  au_entity_id :: string
  au_event_type :: string
  au_payload :: audit_payload
  au_created_at :: string

record db =
  v01_sessions :: "session_row list"
  v01_intents :: "intent_row list"
  v01_approvals :: "approval_row list"
  v01_operations :: "operation_row list"
  v01_steps :: "step_row list"
  v01_backups :: "backup_row list"
  v01_audit :: "audit_row list"

definition empty_db :: db where
  "empty_db = \<lparr>v01_sessions = [], v01_intents = [], v01_approvals = [], v01_operations = [],
     v01_steps = [], v01_backups = [], v01_audit = []\<rparr>"

section \<open>Statements\<close>

text \<open>
  \<open>INSERT\<close> fails where a primary key, a \<open>UNIQUE\<close> constraint or a foreign key of the schema is
  violated; the error is the driver's, here with its class only.
\<close>

definition unique_failed :: gar_error where
  "unique_failed = OtherError ''UNIQUE constraint failed''"

definition foreign_key_failed :: gar_error where
  "foreign_key_failed = OtherError ''FOREIGN KEY constraint failed''"

definition translateWriteError :: "'a result \<Rightarrow> 'a result" where
  "translateWriteError r =
     (case r of Inl err \<Rightarrow> Inl (NewError ErrJournalUnavailable (error_text err)) | Inr x \<Rightarrow> Inr x)"

lemma translateWriteError_Inr_iff [simp]: "translateWriteError r = Inr x \<longleftrightarrow> r = Inr x"
  by (cases r) (auto simp: translateWriteError_def)

definition query_row :: "('r \<Rightarrow> 'k) \<Rightarrow> 'k \<Rightarrow> 'r list \<Rightarrow> 'r result" where
  "query_row key k rs = (case rows_with key k rs of None \<Rightarrow> Inl ErrNoRows | Some r \<Rightarrow> Inr r)"

lemma query_row_Inr_iff [simp]: "query_row key k rs = Inr r \<longleftrightarrow> rows_with key k rs = Some r"
  by (auto simp: query_row_def split: option.splits)

lemma query_row_Inl_iff: "query_row key k rs = Inl e \<longleftrightarrow> rows_with key k rs = None \<and> e = ErrNoRows"
  by (auto simp: query_row_def split: option.splits)

definition intent_key :: "intent_row \<Rightarrow> string \<times> string \<times> string" where
  "intent_key r = (it_principal_id r, it_enrollment_id r, it_client_request_id r)"

definition insert_session :: "session_row \<Rightarrow> db \<Rightarrow> db result" where
  "insert_session r d =
     and_then (check (rows_with ss_session_id (ss_session_id r) (v01_sessions d) = None) unique_failed)
       (\<lambda>_. Inr (d\<lparr>v01_sessions := v01_sessions d @ [r]\<rparr>))"

definition insert_intent :: "intent_row \<Rightarrow> db \<Rightarrow> db result" where
  "insert_intent r d =
     and_then (check (rows_with it_intent_id (it_intent_id r) (v01_intents d) = None) unique_failed)
       (\<lambda>_. and_then (check (rows_with intent_key (intent_key r) (v01_intents d) = None) unique_failed)
       (\<lambda>_. Inr (d\<lparr>v01_intents := v01_intents d @ [r]\<rparr>)))"

definition insert_approval :: "approval_row \<Rightarrow> db \<Rightarrow> db result" where
  "insert_approval r d =
     and_then (check (rows_with av_approval_id (av_approval_id r) (v01_approvals d) = None) unique_failed)
       (\<lambda>_. and_then (check (rows_with av_intent_id (av_intent_id r) (v01_approvals d) = None) unique_failed)
       (\<lambda>_. and_then (check (rows_with it_intent_id (av_intent_id r) (v01_intents d) \<noteq> None) foreign_key_failed)
       (\<lambda>_. Inr (d\<lparr>v01_approvals := v01_approvals d @ [r]\<rparr>))))"

definition insert_operation :: "operation_row \<Rightarrow> db \<Rightarrow> db result" where
  "insert_operation r d =
     and_then (check (rows_with or_operation_id (or_operation_id r) (v01_operations d) = None) unique_failed)
       (\<lambda>_. and_then (check (rows_with or_intent_id (or_intent_id r) (v01_operations d) = None) unique_failed)
       (\<lambda>_. and_then (check (rows_with it_intent_id (or_intent_id r) (v01_intents d) \<noteq> None) foreign_key_failed)
       (\<lambda>_. Inr (d\<lparr>v01_operations := v01_operations d @ [r]\<rparr>))))"

definition insert_step :: "step_row \<Rightarrow> db \<Rightarrow> db result" where
  "insert_step r d =
     and_then (check (rows_with st_step_id (st_step_id r) (v01_steps d) = None) unique_failed)
       (\<lambda>_. and_then (check (rows_with or_operation_id (st_operation_id r) (v01_operations d) \<noteq> None) foreign_key_failed)
       (\<lambda>_. Inr (d\<lparr>v01_steps := v01_steps d @ [r]\<rparr>)))"

definition insert_backup :: "backup_row \<Rightarrow> db \<Rightarrow> db result" where
  "insert_backup r d =
     and_then (check (rows_with bw_backup_id (bw_backup_id r) (v01_backups d) = None) unique_failed)
       (\<lambda>_. and_then (check (rows_with bw_operation_id (bw_operation_id r) (v01_backups d) = None) unique_failed)
       (\<lambda>_. and_then (check (rows_with or_operation_id (bw_operation_id r) (v01_operations d) \<noteq> None) foreign_key_failed)
       (\<lambda>_. Inr (d\<lparr>v01_backups := v01_backups d @ [r]\<rparr>))))"

text \<open>\<open>AUTOINCREMENT\<close>: one more than the largest sequence number given out.\<close>

definition next_sequence :: "audit_row list \<Rightarrow> nat" where
  "next_sequence rs = Suc (fold max (map au_sequence rs) 0)"

definition appendAuditTx :: "gotime \<Rightarrow> string \<Rightarrow> string \<Rightarrow> audit_payload \<Rightarrow> db \<Rightarrow> db" where
  "appendAuditTx wall entityID eventType payload d =
     d\<lparr>v01_audit := v01_audit d @
         [\<lparr>au_sequence = next_sequence (v01_audit d), au_entity_id = entityID,
           au_event_type = eventType, au_payload = payload, au_created_at = format_time wall\<rparr>]\<rparr>"

section \<open>Sessions\<close>

definition new_session_row :: "AgentSessionScope \<Rightarrow> gotime \<Rightarrow> session_row" where
  "new_session_row scope created =
     \<lparr>ss_session_id = sc_SessionID scope, ss_principal_id = sc_PrincipalID scope,
      ss_enrollment_id = sc_EnrollmentID scope, ss_scope_digest = sc_ScopeDigest scope,
      ss_payload = scope, ss_created_at = format_time created\<rparr>"

definition SaveSession :: "call_env \<Rightarrow> AgentSessionScope \<Rightarrow> db \<Rightarrow> db result" where
  "SaveSession ce scope d =
     and_then (unless_error (scope_Validate (ce_crypto ce) scope (ce_clock ce 0))) (\<lambda>_.
     and_then (translateWriteError (insert_session (new_session_row scope (ce_clock ce 1)) d)) (\<lambda>d.
     Inr (appendAuditTx (ce_clock ce 2) (sc_SessionID scope) ''SESSION_CREATED''
        (AuditMap [(''principal_id'', GString (sc_PrincipalID scope)),
                   (''scope_digest'', GString (sc_ScopeDigest scope))]) d)))"

definition GetSession :: "string \<Rightarrow> db \<Rightarrow> AgentSessionScope result" where
  "GetSession sessionID d =
     (case rows_with ss_session_id sessionID (v01_sessions d) of
        None \<Rightarrow> Inl (NewError ErrScopeDenied ''agent session not found'')
      | Some r \<Rightarrow> Inr (ss_payload r))"

section \<open>Intents\<close>

definition scanIntent :: "intent_row option \<Rightarrow> IntentRecord result" where
  "scanIntent row =
     (case row of
        None \<Rightarrow> Inl (NewError ErrNotFound ''intent not found'')
      | Some r \<Rightarrow> Inr (it_payload r))"

definition GetIntent :: "string \<Rightarrow> db \<Rightarrow> IntentRecord result" where
  "GetIntent intentID d = scanIntent (rows_with it_intent_id intentID (v01_intents d))"

definition GetIntentByClientKey :: "string \<Rightarrow> string \<Rightarrow> string \<Rightarrow> db \<Rightarrow> IntentRecord result" where
  "GetIntentByClientKey principalID enrollmentID key d =
     scanIntent (rows_with intent_key (principalID, enrollmentID, key) (v01_intents d))"

definition new_intent_row :: "IntentRecord \<Rightarrow> intent_row" where
  "new_intent_row rec =
     \<lparr>it_intent_id = ci_IntentID (ir_Intent rec), it_principal_id = ci_PrincipalID (ir_Intent rec),
      it_enrollment_id = ci_EnrollmentID (ir_Intent rec),
      it_client_request_id = ci_ClientRequestID (ir_Intent rec),
      it_proposal_digest = ir_ProposalDigest rec, it_intent_digest = ci_IntentDigest (ir_Intent rec),
      it_status = ir_Status rec, it_payload = rec, it_updated_at = format_time (ir_UpdatedAt rec)\<rparr>"

text \<open>The idempotency rule on a stored intent that has the client key of the new one.\<close>

definition same_proposal :: "IntentRecord \<Rightarrow> IntentRecord \<Rightarrow> (IntentRecord \<times> bool) result" where
  "same_proposal existing rec =
     and_then (check (ir_ProposalDigest existing = ir_ProposalDigest rec)
        (NewError ErrIdempotencyConflict ''client_request_id already identifies different proposal bytes''))
     (\<lambda>_. Inr (existing, False))"

text \<open>
  \<open>PutIntent\<close> reads the client key before it begins its transaction: \<open>seen\<close> is the journal at
  that read, \<open>d\<close> the journal when the transaction begins, and other transactions may have
  committed in between.
\<close>

definition PutIntent ::
  "call_env \<Rightarrow> IntentRecord \<Rightarrow> db \<Rightarrow> db \<Rightarrow> ((IntentRecord \<times> bool) \<times> db) result" where
  "PutIntent ce rec seen d =
     (let lookup = GetIntentByClientKey (ci_PrincipalID (ir_Intent rec))
            (ci_EnrollmentID (ir_Intent rec)) (ci_ClientRequestID (ir_Intent rec))
      in case lookup seen of
        Inr existing \<Rightarrow> and_then (same_proposal existing rec) (\<lambda>r. Inr (r, d))
      | Inl err \<Rightarrow>
          if CodeOf (Some err) \<noteq> ErrNotFound then Inl err
          else case insert_intent (new_intent_row rec) d of
            Inl err \<Rightarrow>
              (case lookup d of
                 Inr existing \<Rightarrow> and_then (same_proposal existing rec) (\<lambda>r. Inr (r, d))
               | Inl _ \<Rightarrow> translateWriteError (Inl err))
          | Inr d' \<Rightarrow>
              Inr ((rec, True),
                   appendAuditTx (ce_clock ce 0) (ci_IntentID (ir_Intent rec)) ''INTENT_FROZEN''
                     (AuditMap [(''intent_digest'', GString (ci_IntentDigest (ir_Intent rec))),
                                (''scope_digest'', GString (ci_ScopeDigest (ir_Intent rec)))]) d'))"

definition intentForDecision :: "crypto \<Rightarrow> string \<Rightarrow> string \<Rightarrow> db \<Rightarrow> IntentRecord result" where
  "intentForDecision cr intentID expectedDigest d =
     and_then (scanIntent (rows_with it_intent_id intentID (v01_intents d))) (\<lambda>rec.
     and_then (check (ValidateDigest cr (ir_Intent rec) = None \<and>
                      ci_IntentDigest (ir_Intent rec) = expectedDigest)
        (NewError ErrInvalidIntentDigest ''operator supplied digest does not match frozen intent''))
     (\<lambda>_. Inr rec))"

definition set_intent_payload :: "IntentRecord \<Rightarrow> intent_row \<Rightarrow> intent_row" where
  "set_intent_payload rec r =
     r\<lparr>it_status := ir_Status rec, it_payload := rec, it_updated_at := format_time (ir_UpdatedAt rec)\<rparr>"

definition update_intent :: "string \<Rightarrow> IntentRecord \<Rightarrow> db \<Rightarrow> db" where
  "update_intent intentID rec d =
     d\<lparr>v01_intents := update_rows it_intent_id intentID (set_intent_payload rec) (v01_intents d)\<rparr>"

definition updateIntentTx :: "IntentRecord \<Rightarrow> db \<Rightarrow> db" where
  "updateIntentTx rec d = update_intent (ci_IntentID (ir_Intent rec)) rec d"

section \<open>Operations: reads and writes inside a transaction\<close>

definition boolInt :: "bool \<Rightarrow> int" where
  "boolInt b = (if b then 1 else 0)"

definition getOperationTx :: "string \<Rightarrow> db \<Rightarrow> Operation result" where
  "getOperationTx operationID d =
     (case rows_with or_operation_id operationID (v01_operations d) of
        None \<Rightarrow> Inl (NewError ErrNotFound ''operation not found'')
      | Some r \<Rightarrow> Inr (or_payload r))"

definition set_operation_payload :: "Operation \<Rightarrow> operation_row \<Rightarrow> operation_row" where
  "set_operation_payload op r =
     r\<lparr>or_status := op_Status op, or_ownership_released := boolInt (op_OwnershipReleased op),
       or_payload := op, or_updated_at := format_time (op_UpdatedAt op)\<rparr>"

definition saveOperationTx :: "Operation \<Rightarrow> db \<Rightarrow> db result" where
  "saveOperationTx op d =
     and_then (check (length (filter (\<lambda>r. or_operation_id r = op_OperationID op) (v01_operations d)) = 1)
        (NewError ErrNotFound ''operation not found''))
     (\<lambda>_. Inr (d\<lparr>v01_operations :=
        update_rows or_operation_id (op_OperationID op) (set_operation_payload op) (v01_operations d)\<rparr>))"

definition GetOperation :: "string \<Rightarrow> db \<Rightarrow> Operation result" where
  "GetOperation operationID d = getOperationTx operationID d"

definition OperationForIntent :: "string \<Rightarrow> db \<Rightarrow> Operation result" where
  "OperationForIntent intentID d =
     (case rows_with or_intent_id intentID (v01_operations d) of
        None \<Rightarrow> Inl (NewError ErrNotFound ''operation not found'')
      | Some r \<Rightarrow> Inr (or_payload r))"

definition OperationForStep :: "string \<Rightarrow> db \<Rightarrow> Operation result" where
  "OperationForStep stepID d =
     (case Option.bind (rows_with st_step_id stepID (v01_steps d))
             (\<lambda>s. rows_with or_operation_id (st_operation_id s) (v01_operations d)) of
        None \<Rightarrow> Inl (NewError ErrNotFound ''step not found'')
      | Some r \<Rightarrow> Inr (or_payload r))"

text \<open>The row \<open>SELECT ... LIMIT 1\<close> reads: the first unreleased operation of the enrollment.\<close>

definition activeOwner :: "string \<Rightarrow> db \<Rightarrow> ErrorCode" where
  "activeOwner enrollmentID d =
     (case List.find (\<lambda>r. or_enrollment_id r = enrollmentID \<and> or_ownership_released r = 0)
             (v01_operations d) of
        None \<Rightarrow> NoErrorCode
      | Some r \<Rightarrow>
          if or_status r = OperationUnknown \<or> or_status r = OperationNeedsIntervention
          then ErrTargetBlockedUnknown else ErrTargetBusy)"

section \<open>Operator decisions\<close>

definition lookupExistingApproval :: "string \<Rightarrow> db \<Rightarrow> (Approval \<times> Operation) option result" where
  "lookupExistingApproval intentID d =
     (case rows_with av_intent_id intentID (v01_approvals d) of
        None \<Rightarrow> Inr None
      | Some r \<Rightarrow>
          and_then (check (ap_Decision (av_payload r) = ''APPROVED'')
             (NewError ErrApprovalRevoked ''intent already has a non-approved operator decision''))
          (\<lambda>_. and_then (query_row or_intent_id intentID (v01_operations d))
          (\<lambda>o_row. Inr (Some (av_payload r, or_payload o_row)))))"

definition new_approval_row :: "Approval \<Rightarrow> string \<Rightarrow> string \<Rightarrow> approval_row" where
  "new_approval_row a intentID digest =
     \<lparr>av_approval_id = ap_ApprovalID a, av_intent_id = intentID, av_intent_digest = digest,
      av_payload = a, av_decided_at = format_time (ap_DecidedAt a)\<rparr>"

definition ApproveIntent ::
  "call_env \<Rightarrow> string \<Rightarrow> string \<Rightarrow> string \<Rightarrow> int \<Rightarrow> gotime \<Rightarrow> db \<Rightarrow> ((Approval \<times> Operation) \<times> db) result"
where
  "ApproveIntent ce intentID expectedDigest approver osUID now d =
     and_then (lookupExistingApproval intentID d) (\<lambda>existing.
     case existing of
       Some (approval, operation) \<Rightarrow>
         and_then (check (ap_IntentDigest approval = expectedDigest)
           (NewError ErrInvalidIntentDigest ''existing approval is bound to a different digest''))
         (\<lambda>_. Inr ((approval, operation), d))
     | None \<Rightarrow>
         and_then (scanIntent (rows_with it_intent_id intentID (v01_intents d))) (\<lambda>rec.
         and_then (check (ValidateDigest (ce_crypto ce) (ir_Intent rec) = None \<and>
                          ci_IntentDigest (ir_Intent rec) = expectedDigest)
           (NewError ErrInvalidIntentDigest ''operator supplied digest does not match frozen intent''))
         (\<lambda>_. and_then (check (Before now (ci_ApprovalDeadline (ir_Intent rec)) \<and>
                               Before now (ci_StartBefore (ir_Intent rec)))
           (NewError ErrApprovalExpired ''approval or start deadline has elapsed''))
         (\<lambda>_. and_then (check (ir_Status rec = IntentAwaitingApproval)
           (NewError ErrApprovalRevoked ''intent is not awaiting approval''))
         (\<lambda>_. and_then (check (activeOwner (ci_EnrollmentID (ir_Intent rec)) d = NoErrorCode)
           (NewError (activeOwner (ci_EnrollmentID (ir_Intent rec)) d)
              ''target ownership is held by another unresolved operation''))
         (\<lambda>_. let approval =
                 \<lparr>ap_ApprovalID = NewID ''approval'' (ce_random ce 0), ap_IntentID = intentID,
                  ap_IntentDigest = expectedDigest, ap_ApproverPrincipal = approver,
                  ap_ApproverOSUID = osUID, ap_Decision = ''APPROVED'', ap_DecidedAt = now\<rparr>;
               operation =
                 \<lparr>op_OperationID = NewID ''operation'' (ce_random ce 1), op_IntentID = intentID,
                  op_IntentDigest = expectedDigest, op_EnrollmentID = ci_EnrollmentID (ir_Intent rec),
                  op_ExecutionEpoch = UnixNano now, op_Status = OperationQueued,
                  op_Verification = VerificationNotStarted, op_OwnershipReleased = False,
                  op_CreatedAt = now, op_UpdatedAt = now, op_Attempts = [],
                  op_LastError = NoErrorCode\<rparr>;
               rec' = rec\<lparr>ir_Status := IntentConsumed, ir_UpdatedAt := now\<rparr>
           in and_then (translateWriteError (insert_approval
                (new_approval_row approval intentID expectedDigest) d))
           (\<lambda>d. and_then (translateWriteError (insert_operation
                \<lparr>or_operation_id = op_OperationID operation, or_intent_id = intentID,
                 or_enrollment_id = op_EnrollmentID operation, or_status = op_Status operation,
                 or_ownership_released = 0, or_payload = operation,
                 or_updated_at = format_time (op_UpdatedAt operation)\<rparr> d))
           (\<lambda>d. Inr ((approval, operation),
              appendAuditTx (ce_clock ce 1) (op_OperationID operation) ''WRITER_ACQUIRED''
                (AuditMap [(''intent_id'', GString intentID),
                           (''execution_epoch'', GInt (op_ExecutionEpoch operation))])
             (appendAuditTx (ce_clock ce 0) intentID ''APPROVAL_DECIDED'' (AuditApproval approval)
             (update_intent intentID rec' d)))))))))))"

definition RejectIntent ::
  "call_env \<Rightarrow> string \<Rightarrow> string \<Rightarrow> string \<Rightarrow> int \<Rightarrow> gotime \<Rightarrow> db \<Rightarrow> (Approval \<times> db) result"
where
  "RejectIntent ce intentID expectedDigest approver osUID now d =
     (case rows_with av_intent_id intentID (v01_approvals d) of
        Some r \<Rightarrow>
          and_then (check (ap_IntentDigest (av_payload r) = expectedDigest \<and>
                           ap_Decision (av_payload r) = ''REJECTED'')
            (NewError ErrApprovalRevoked ''intent already has a different operator decision''))
          (\<lambda>_. Inr (av_payload r, d))
      | None \<Rightarrow>
          and_then (intentForDecision (ce_crypto ce) intentID expectedDigest d) (\<lambda>rec.
          and_then (check (ir_Status rec = IntentAwaitingApproval)
            (NewError ErrApprovalRevoked ''intent is not awaiting approval''))
          (\<lambda>_. let approval =
                  \<lparr>ap_ApprovalID = NewID ''approval'' (ce_random ce 0), ap_IntentID = intentID,
                   ap_IntentDigest = expectedDigest, ap_ApproverPrincipal = approver,
                   ap_ApproverOSUID = osUID, ap_Decision = ''REJECTED'', ap_DecidedAt = now\<rparr>;
                rec' = rec\<lparr>ir_Status := IntentRejected, ir_UpdatedAt := now\<rparr>
            in and_then (translateWriteError (insert_approval
                 (new_approval_row approval intentID expectedDigest) d))
            (\<lambda>d. Inr (approval,
               appendAuditTx (ce_clock ce 0) intentID ''APPROVAL_DECIDED'' (AuditApproval approval)
                 (updateIntentTx rec' d))))))"

definition RevokeIntent ::
  "call_env \<Rightarrow> string \<Rightarrow> string \<Rightarrow> string \<Rightarrow> int \<Rightarrow> gotime \<Rightarrow> db \<Rightarrow> db result"
where
  "RevokeIntent ce intentID expectedDigest actor osUID now d =
     and_then (intentForDecision (ce_crypto ce) intentID expectedDigest d) (\<lambda>rec.
     and_then (check (\<not> (ir_Status rec = IntentRejected \<or> ir_Status rec = IntentExpired \<or>
                         ir_Status rec = IntentRevoked \<or> ir_Status rec = IntentCancelled))
       (NewError ErrApprovalRevoked ''intent is already terminal or revoked''))
     (\<lambda>_. let d1 = updateIntentTx (rec\<lparr>ir_Status := IntentRevoked, ir_UpdatedAt := now\<rparr>) d
       in and_then
         (case rows_with or_intent_id intentID (v01_operations d1) of
            None \<Rightarrow> Inr d1
          | Some r \<Rightarrow>
              if op_Status (or_payload r) = OperationQueued \<and> length (op_Attempts (or_payload r)) = 0
              then saveOperationTx ((or_payload r)\<lparr>op_Status := OperationAborted,
                     op_OwnershipReleased := True, op_UpdatedAt := now\<rparr>) d1
              else Inr d1)
       (\<lambda>d2. Inr (appendAuditTx (ce_clock ce 0) intentID ''APPROVAL_REVOKED''
          (AuditMap [(''actor'', GString actor), (''os_uid'', GInt osUID),
                     (''intent_digest'', GString expectedDigest)]) d2))))"

section \<open>Steps\<close>

definition disabled_steps :: "string list" where
  "disabled_steps = [''S06_REPLACE_ARTIFACT'', ''S07_PREPARE_LAUNCH_AND_START'',
     ''S08_VERIFY_UNDER_MAINTENANCE'', ''S09_RELEASE_MAINTENANCE'', ''S10_FINALIZE'']"

fun previous_acknowledged :: "StepAttempt list \<Rightarrow> bool" where
  "previous_acknowledged [] = True"
| "previous_acknowledged (previous # rest) =
     (if sa_EffectState previous \<noteq> EffectExpectedObserved \<or>
         sa_Attribution previous \<noteq> AttributionCorrelated \<or>
         sa_DispatchState previous \<noteq> Acknowledged
      then False else previous_acknowledged rest)"

fun next_attempt_no :: "string \<Rightarrow> StepAttempt list \<Rightarrow> int \<Rightarrow> int" where
  "next_attempt_no stepKind [] attemptNo = attemptNo"
| "next_attempt_no stepKind (attempt # rest) attemptNo =
     next_attempt_no stepKind rest
       (if sa_StepKind attempt = stepKind \<and> sa_AttemptNo attempt \<ge> attemptNo
        then sa_AttemptNo attempt + 1 else attemptNo)"

definition new_attempt :: "string \<Rightarrow> string \<Rightarrow> int \<Rightarrow> gotime \<Rightarrow> StepAttempt" where
  "new_attempt stepID stepKind attemptNo now =
     \<lparr>sa_StepID = stepID, sa_StepKind = stepKind, sa_AttemptNo = attemptNo,
      sa_DispatchState = NotDispatched, sa_EffectState = EffectProvenNotApplied,
      sa_Attribution = AttributionUnattributed, sa_PreparedAt = now, sa_UpdatedAt = now,
      sa_Evidence = []\<rparr>"

definition PrepareStep ::
  "call_env \<Rightarrow> string \<Rightarrow> string \<Rightarrow> gotime \<Rightarrow> db \<Rightarrow> (StepAttempt \<times> db) result" where
  "PrepareStep ce operationID stepKind now d =
     and_then (check (stepKind \<notin> set disabled_steps)
       (NewError ErrUnsupportedEnvironment
          ''S05 is the current review boundary; S06-S10 remain disabled'')) (\<lambda>_.
     and_then (getOperationTx operationID d) (\<lambda>op.
     and_then (check (\<not> (op_Status op = OperationUnknown \<or> op_Status op = OperationNeedsIntervention))
       (NewError ErrTargetBlockedUnknown ''unknown operation cannot prepare another forward step''))
     (\<lambda>_. and_then (query_row it_intent_id (op_IntentID op) (v01_intents d)) (\<lambda>row.
     let intent = it_payload row in
     and_then (unless_error (ValidateDigest (ce_crypto ce) (ir_Intent intent))) (\<lambda>_.
     and_then (check (\<not> (ir_Status intent \<noteq> IntentConsumed \<or> op_OwnershipReleased op \<or>
                         IsTerminalOperation (op_Status op) \<or>
                         op_IntentDigest op \<noteq> ci_IntentDigest (ir_Intent intent)))
       (NewError ErrApprovalRevoked ''operation no longer holds an executable approval''))
     (\<lambda>_. and_then (check (length (op_Attempts op) < length (ci_Steps (ir_Intent intent)) \<and>
                           ci_Steps (ir_Intent intent) ! length (op_Attempts op) = stepKind)
       (NewError ErrScopeDenied ''step kind is not the next step in the approved frozen workflow''))
     (\<lambda>_. and_then (check (previous_acknowledged (op_Attempts op))
       (NewError ErrDispatchOutcomeUnknown ''previous step effect is not correlated and acknowledged''))
     (\<lambda>_. let attempt = new_attempt (NewID ''step'' (ce_random ce 0)) stepKind
                 (next_attempt_no stepKind (op_Attempts op) 1) now;
              op' = op\<lparr>op_Attempts := op_Attempts op @ [attempt], op_UpdatedAt := now\<rparr>
       in and_then (translateWriteError (insert_step
            \<lparr>st_step_id = sa_StepID attempt, st_operation_id = op_OperationID op',
             st_attempt_no = sa_AttemptNo attempt, st_payload = attempt,
             st_updated_at = format_time (sa_UpdatedAt attempt)\<rparr> d)) (\<lambda>d.
          and_then (saveOperationTx op' d) (\<lambda>d.
          Inr (attempt, appendAuditTx (ce_clock ce 0) operationID ''STEP_PREPARED''
             (AuditAttempt attempt) d)))))))))))"

fun attempt_index :: "string \<Rightarrow> StepAttempt list \<Rightarrow> nat \<Rightarrow> nat option" where
  "attempt_index stepID [] candidate = None"
| "attempt_index stepID (attempt # rest) candidate =
     (if sa_StepID attempt = stepID then Some candidate
      else attempt_index stepID rest (Suc candidate))"

text \<open>What \<open>updateAttempt\<close> does to the operation once the attempt at \<open>index\<close> is mutated.\<close>

definition settle_operation :: "string \<Rightarrow> StepAttempt \<Rightarrow> Operation \<Rightarrow> Operation" where
  "settle_operation eventType attempt op =
     (let op1 = (if sa_EffectState attempt = EffectUnknown \<and> eventType = ''STEP_OBSERVED''
                 then op\<lparr>op_Status := OperationUnknown, op_LastError := ErrDispatchOutcomeUnknown\<rparr>
                 else op)
      in if sa_EffectState attempt = EffectOtherObserved
         then op1\<lparr>op_Status := OperationNeedsIntervention, op_LastError := ErrExternalIntervention\<rparr>
         else op1)"

definition update_step :: "string \<Rightarrow> string \<Rightarrow> StepAttempt \<Rightarrow> gotime \<Rightarrow> db \<Rightarrow> db" where
  "update_step stepID operationID attempt now d =
     d\<lparr>v01_steps := map (\<lambda>s. if st_step_id s = stepID \<and> st_operation_id s = operationID
                            then s\<lparr>st_payload := attempt, st_updated_at := format_time now\<rparr> else s)
                       (v01_steps d)\<rparr>"

definition updateAttempt ::
  "call_env \<Rightarrow> string \<Rightarrow> string \<Rightarrow> gotime \<Rightarrow> (StepAttempt \<Rightarrow> StepAttempt result) \<Rightarrow> string \<Rightarrow> db \<Rightarrow> db result"
where
  "updateAttempt ce operationID stepID now mutate eventType d =
     and_then (getOperationTx operationID d) (\<lambda>op.
     and_then
       (if eventType = ''STEP_DISPATCH_POSSIBLE''
        then and_then (check (\<not> (op_OwnershipReleased op \<or> IsTerminalOperation (op_Status op) \<or>
                                 op_Status op = OperationUnknown))
               (NewError ErrTargetBlockedUnknown ''operation cannot dispatch'')) (\<lambda>_.
             and_then (query_row it_intent_id (op_IntentID op) (v01_intents d)) (\<lambda>row.
             check (it_status row = IntentConsumed)
               (NewError ErrApprovalRevoked ''approval was revoked before dispatch'')))
        else Inr ()) (\<lambda>_.
     case attempt_index stepID (op_Attempts op) 0 of
       None \<Rightarrow> Inl (NewError ErrNotFound ''step attempt not found in operation'')
     | Some index \<Rightarrow>
         and_then (mutate (op_Attempts op ! index)) (\<lambda>mutated.
         let attempt = mutated\<lparr>sa_UpdatedAt := now\<rparr>;
             op' = settle_operation eventType attempt
                     (op\<lparr>op_Attempts := (op_Attempts op)[index := attempt], op_UpdatedAt := now\<rparr>)
         in and_then (saveOperationTx op' (update_step stepID operationID attempt now d)) (\<lambda>d.
            Inr (appendAuditTx (ce_clock ce 0) operationID eventType (AuditAttempt attempt) d)))))"

definition mark_dispatch :: "StepAttempt \<Rightarrow> StepAttempt result" where
  "mark_dispatch attempt =
     and_then (check (\<not> (sa_DispatchState attempt \<noteq> NotDispatched \<or>
                         sa_EffectState attempt \<noteq> EffectProvenNotApplied))
       (NewError ErrDispatchOutcomeUnknown ''step is not in a proven-not-dispatched state''))
     (\<lambda>_. Inr (attempt\<lparr>sa_DispatchState := DispatchPossible, sa_EffectState := EffectUnknown,
                        sa_Attribution := AttributionUnattributed\<rparr>))"

definition MarkDispatchPossible :: "call_env \<Rightarrow> string \<Rightarrow> string \<Rightarrow> gotime \<Rightarrow> db \<Rightarrow> db result" where
  "MarkDispatchPossible ce operationID stepID now d =
     updateAttempt ce operationID stepID now mark_dispatch ''STEP_DISPATCH_POSSIBLE'' d"

fun valid_effect :: "EffectState \<Rightarrow> bool" where
  "valid_effect (EffectInvalid s) = False"
| "valid_effect _ = True"

definition observe_attempt ::
  "EffectState \<Rightarrow> Attribution \<Rightarrow> string list \<Rightarrow> StepAttempt \<Rightarrow> StepAttempt result" where
  "observe_attempt effect attribution evidence attempt =
     and_then (check (\<not> (sa_DispatchState attempt \<noteq> DispatchPossible \<and>
                         sa_DispatchState attempt \<noteq> Acknowledged))
       (NewError ErrDispatchOutcomeUnknown
          ''step observation cannot be attributed before durable dispatch state'')) (\<lambda>_.
     and_then (check (valid_effect effect) (NewError ErrInvalidRequest ''invalid step effect state'')) (\<lambda>_.
     Inr (attempt\<lparr>sa_EffectState := effect, sa_Attribution := attribution, sa_Evidence := evidence,
            sa_DispatchState := (if attribution = AttributionCorrelated then Acknowledged
                                 else sa_DispatchState attempt)\<rparr>)))"

definition RecordStepObservation ::
  "call_env \<Rightarrow> string \<Rightarrow> string \<Rightarrow> EffectState \<Rightarrow> Attribution \<Rightarrow> string list \<Rightarrow> gotime \<Rightarrow> db \<Rightarrow> db result"
where
  "RecordStepObservation ce operationID stepID effect attribution evidence now d =
     updateAttempt ce operationID stepID now (observe_attempt effect attribution evidence)
       ''STEP_OBSERVED'' d"

section \<open>Operation status\<close>

definition MarkUnknown :: "call_env \<Rightarrow> string \<Rightarrow> gotime \<Rightarrow> db \<Rightarrow> db result" where
  "MarkUnknown ce operationID now d =
     and_then (getOperationTx operationID d) (\<lambda>op.
     and_then (check (CanTransitionOperation (op_Status op) OperationUnknown)
       (NewError ErrScopeDenied ''operation cannot transition to UNKNOWN'')) (\<lambda>_.
     and_then (saveOperationTx (op\<lparr>op_Status := OperationUnknown, op_OwnershipReleased := False,
         op_LastError := ErrDispatchOutcomeUnknown, op_UpdatedAt := now\<rparr>) d) (\<lambda>d.
     Inr (appendAuditTx (ce_clock ce 0) operationID ''OUTCOME_UNKNOWN''
        (AuditMap [(''code'', GString (code_text ErrDispatchOutcomeUnknown))]) d))))"

fun operation_status_text :: "OperationStatus \<Rightarrow> string" where
  "operation_status_text OperationQueued = ''QUEUED''"
| "operation_status_text OperationPreparing = ''PREPARING''"
| "operation_status_text OperationExecuting = ''EXECUTING''"
| "operation_status_text OperationVerifying = ''VERIFYING''"
| "operation_status_text OperationSucceeded = ''SUCCEEDED''"
| "operation_status_text OperationFailed = ''FAILED''"
| "operation_status_text OperationAborted = ''ABORTED''"
| "operation_status_text OperationUnknown = ''UNKNOWN''"
| "operation_status_text OperationRollbackRequired = ''ROLLBACK_REQUIRED''"
| "operation_status_text OperationRollingBack = ''ROLLING_BACK''"
| "operation_status_text OperationRolledBack = ''ROLLED_BACK''"
| "operation_status_text OperationRollbackFailed = ''ROLLBACK_FAILED''"
| "operation_status_text OperationNeedsIntervention = ''NEEDS_INTERVENTION''"

fun verification_text :: "VerificationStatus \<Rightarrow> string" where
  "verification_text VerificationNotStarted = ''NOT_STARTED''"
| "verification_text VerificationRunning = ''RUNNING''"
| "verification_text VerificationPass = ''PASS''"
| "verification_text VerificationFail = ''FAIL''"
| "verification_text VerificationInconclusive = ''INCONCLUSIVE''"

definition TransitionOperation ::
  "call_env \<Rightarrow> string \<Rightarrow> OperationStatus \<Rightarrow> VerificationStatus \<Rightarrow> bool \<Rightarrow> gotime \<Rightarrow> db \<Rightarrow> db result"
where
  "TransitionOperation ce operationID to verification maintenanceReleased now d =
     and_then (getOperationTx operationID d) (\<lambda>op.
     and_then (check (CanTransitionOperation (op_Status op) to)
       (NewError ErrScopeDenied ''operation state transition is not allowed'')) (\<lambda>_.
     and_then (check (\<not> (to = OperationSucceeded \<and>
                         \<not> VerificationAllowsSuccess verification maintenanceReleased))
       (NewError ErrVerificationInconclusive
          ''SUCCEEDED requires verification PASS and confirmed maintenance release'')) (\<lambda>_.
     and_then (saveOperationTx (op\<lparr>op_Status := to, op_Verification := verification,
         op_UpdatedAt := now,
         op_OwnershipReleased :=
           (if to = OperationSucceeded \<or> to = OperationFailed \<or> to = OperationAborted \<or>
               to = OperationRolledBack then True else op_OwnershipReleased op)\<rparr>) d) (\<lambda>d.
     Inr (appendAuditTx (ce_clock ce 0) operationID ''OPERATION_STATE_CHANGED''
        (AuditMap [(''status'', GString (operation_status_text to)),
                   (''verification'', GString (verification_text verification)),
                   (''maintenance_released'', GBool maintenanceReleased)]) d)))))"

end
