(* ===== verification/Backup_Store.thy ===== *)
theory Backup_Store
  imports Journal_Store
begin

text \<open>
  Backup metadata in the journal, \<open>src/internal/store/backup.go\<close>: a backup is reserved once for
  the S05 attempt of the active writer, moves through its filesystem phases, and becomes
  \<open>VALID\<close> only in the transaction that also acknowledges S05.
\<close>

definition GetBackup :: "string \<Rightarrow> db \<Rightarrow> BackupRecord result" where
  "GetBackup backupID d =
     (case rows_with bw_backup_id backupID (v01_backups d) of
        None \<Rightarrow> Inl (NewError ErrNotFound ''backup not found'')
      | Some r \<Rightarrow> Inr (bw_payload r))"

text \<open>The long condition of \<open>ReserveBackup\<close>, negated: the record is the approved one.\<close>

definition reservation_matches :: "crypto \<Rightarrow> BackupRecord \<Rightarrow> ChangeIntent \<Rightarrow> gotime \<Rightarrow> bool" where
  "reservation_matches cr r i now \<longleftrightarrow>
     (let e = so_Enrollment (br_Offline (bk_Ready r)) in
      \<not> ((bk_EvidenceLevel r \<noteq> ''FAKE_TARGET'' \<and> bk_EvidenceLevel r \<noteq> ''LOCAL_PAPER'') \<or>
         bk_BackupID r \<noteq> ci_ReservedBackupID i \<or> bk_IntentID r \<noteq> ci_IntentID i \<or>
         bk_IntentDigest r \<noteq> ci_IntentDigest i \<or> bk_EnrollmentID r \<noteq> ci_EnrollmentID i \<or>
         bk_ContainerIdentity r \<noteq> ci_ContainerID i \<or>
         bk_DeploymentGeneration r \<noteq> ci_DeploymentGeneration i \<or>
         bk_PaperTuple r \<noteq> ci_PaperTuple i \<or>
         bk_TargetID r \<noteq> en_TargetID e \<or> bk_DataRootIdentity r \<noteq> en_DataRootIdentity e \<or>
         bk_BootIDBeforeStop r \<noteq> ci_ExpectedBootID i \<or>
         bk_SourceInventoryDigest r \<noteq> ci_InventoryDigest i \<or>
         bk_SourceConfigDigest r \<noteq> ci_ConfigDigest i \<or>
         length (bk_SourceArtifacts r) \<noteq> 1 \<or>
         ar_ArtifactID (bk_SourceArtifacts r ! 0) \<noteq> ci_FromArtifactID i \<or>
         ar_SHA256 (bk_SourceArtifacts r ! 0) \<noteq> ci_FromSHA256 i \<or>
         ar_PluginID (bk_SourceArtifacts r ! 0) \<noteq> ci_PluginID i \<or>
         bk_BackupRecipeID r \<noteq> BackupRecipeID \<or>
         bk_BackupRecipeDigest r \<noteq> ci_BackupRecipeDigest i \<or>
         bk_BackupRecipeDigest r \<noteq> OfflineBackupRecipeDigest cr \<or>
         bk_Status r \<noteq> BackupReserved \<or> bk_ConsistencyMode r \<noteq> ''OFFLINE'' \<or>
         bk_SchemaVersion r \<noteq> ''gar.backup.v1'' \<or>
         \<not> IsZero (bk_CompletedAt r) \<or> \<not> IsZero (bk_DigestVerifiedAt r) \<or>
         bk_ArchiveSHA256 r \<noteq> '''' \<or> bk_ArchiveSizeBytes r \<noteq> 0 \<or>
         \<not> FreshEvidence (bk_CreatedAt r) now))"

definition ReserveBackup :: "call_env \<Rightarrow> BackupRecord \<Rightarrow> gotime \<Rightarrow> db \<Rightarrow> db result" where
  "ReserveBackup ce r now d =
     and_then (getOperationTx (bk_OperationID r) d) (\<lambda>op.
     and_then (check (\<not> (op_OwnershipReleased op \<or> op_Status op \<noteq> OperationExecuting \<or>
                         length (op_Attempts op) \<noteq> 6))
       (NewError ErrScopeDenied ''backup requires the active S05 writer'')) (\<lambda>_.
     and_then (check (\<not> (sa_StepID (op_Attempts op ! 5) \<noteq> bk_StepID r \<or>
                         sa_StepKind (op_Attempts op ! 5) \<noteq> ''S05_CREATE_BACKUP'' \<or>
                         sa_DispatchState (op_Attempts op ! 5) \<noteq> DispatchPossible))
       (NewError ErrDispatchOutcomeUnknown ''backup dispatch not durably prepared'')) (\<lambda>_.
     and_then (query_row it_intent_id (op_IntentID op) (v01_intents d)) (\<lambda>row.
     let i = ir_Intent (it_payload row) in
     and_then (unless_error (validate_ready (ce_crypto ce) (bk_Ready r)
        (so_Enrollment (br_Offline (bk_Ready r))) i op now)) (\<lambda>_.
     and_then (check (reservation_matches (ce_crypto ce) r i now)
       (NewError ErrInvalidRequest ''backup reservation differs from approved identity or recipe'')) (\<lambda>_.
     and_then (translateWriteError (insert_backup
        \<lparr>bw_backup_id = bk_BackupID r, bw_operation_id = bk_OperationID r,
         bw_status = bk_Status r, bw_payload = r\<rparr> d)) (\<lambda>d.
     Inr (appendAuditTx (ce_clock ce 0) (bk_OperationID r) ''BACKUP_RESERVED'' (AuditBackup r) d))))))))"

definition backupTransitions :: "(BackupStatus \<times> BackupStatus list) list" where
  "backupTransitions =
     [(BackupReserved, [BackupWriting, BackupFailed, BackupUnknown, BackupOrphaned]),
      (BackupWriting, [BackupFinalizing, BackupFailed, BackupUnknown, BackupOrphaned]),
      (BackupFinalizing, [BackupVerifying, BackupFailed, BackupUnknown, BackupOrphaned]),
      (BackupVerifying, [BackupFailed, BackupUnknown, BackupOrphaned])]"

definition backup_allowed :: "BackupStatus \<Rightarrow> BackupStatus \<Rightarrow> bool" where
  "backup_allowed fr to =
     (case map_of backupTransitions fr of
        None \<Rightarrow> False
      | Some targets \<Rightarrow> List.member targets to)"

definition set_backup_payload :: "BackupRecord \<Rightarrow> backup_row \<Rightarrow> backup_row" where
  "set_backup_payload rec r = r\<lparr>bw_status := bk_Status rec, bw_payload := rec\<rparr>"

definition update_backup :: "string \<Rightarrow> BackupRecord \<Rightarrow> db \<Rightarrow> db" where
  "update_backup backupID rec d =
     d\<lparr>v01_backups := update_rows bw_backup_id backupID (set_backup_payload rec) (v01_backups d)\<rparr>"

definition TransitionBackupStatus ::
  "call_env \<Rightarrow> string \<Rightarrow> BackupStatus \<Rightarrow> gotime \<Rightarrow> db \<Rightarrow> db result" where
  "TransitionBackupStatus ce backupID to now d =
     and_then (query_row bw_backup_id backupID (v01_backups d)) (\<lambda>row.
     let rec = bw_payload row in
     and_then (check (backup_allowed (bk_Status rec) to)
       (NewError ErrInvalidRequest ''invalid backup lifecycle transition'')) (\<lambda>_.
     Inr (appendAuditTx (ce_clock ce 0) (bk_OperationID rec)
        (''BACKUP_STATUS_'' @ backup_status_text to)
        (AuditMap [(''backup_id'', GString backupID), (''status'', GString (backup_status_text to)),
                   (''observed_at'', GTime now)])
        (update_backup backupID (rec\<lparr>bk_Status := to\<rparr>) d))))"

definition update_step_by_id :: "string \<Rightarrow> StepAttempt \<Rightarrow> gotime \<Rightarrow> db \<Rightarrow> db" where
  "update_step_by_id stepID attempt now d =
     d\<lparr>v01_steps := update_rows st_step_id stepID
         (\<lambda>s. s\<lparr>st_payload := attempt, st_updated_at := format_time now\<rparr>) (v01_steps d)\<rparr>"

definition archive_digest_ok :: "string \<Rightarrow> int \<Rightarrow> bool" where
  "archive_digest_ok digest sz \<longleftrightarrow>
     (case hex_decode digest of None \<Rightarrow> False | Some decoded \<Rightarrow> length decoded = 32 \<and> \<not> sz \<le> 0)"

definition CompleteBackup ::
  "call_env \<Rightarrow> string \<Rightarrow> string \<Rightarrow> int \<Rightarrow> BackupReadyEvidence \<Rightarrow> gotime \<Rightarrow> db \<Rightarrow> db result" where
  "CompleteBackup ce backupID digest sz ready now d =
     and_then (check (archive_digest_ok digest sz)
       (NewError ErrBackupNotReady ''invalid archive digest or size'')) (\<lambda>_.
     and_then (query_row bw_backup_id backupID (v01_backups d)) (\<lambda>row.
     let r = bw_payload row in
     and_then (check (bk_Status r = BackupVerifying)
       (NewError ErrScopeDenied ''completed backup metadata is immutable'')) (\<lambda>_.
     and_then (getOperationTx (bk_OperationID r) d) (\<lambda>op.
     and_then (check (\<not> (op_Status op \<noteq> OperationExecuting \<or> op_OwnershipReleased op \<or>
                         length (op_Attempts op) \<noteq> 6))
       (NewError ErrTargetBlockedUnknown ''backup writer is no longer executable'')) (\<lambda>_.
     let a = op_Attempts op ! 5 in
     and_then (check (\<not> (sa_StepID a \<noteq> bk_StepID r \<or> sa_DispatchState a \<noteq> DispatchPossible \<or>
                         sa_EffectState a \<noteq> EffectUnknown))
       (NewError ErrDispatchOutcomeUnknown ''backup attempt cannot complete'')) (\<lambda>_.
     and_then (query_row it_intent_id (op_IntentID op) (v01_intents d)) (\<lambda>irow.
     and_then (unless_error (validate_ready (ce_crypto ce) ready (so_Enrollment (br_Offline ready))
        (ir_Intent (it_payload irow)) op now)) (\<lambda>_.
     let r' = r\<lparr>bk_Ready := ready, bk_Status := BackupValid, bk_ArchiveSHA256 := digest,
               bk_ArchiveSizeBytes := sz, bk_DigestVerifiedAt := now, bk_CompletedAt := now\<rparr> in
     and_then (unless_error (ValidateCompleted r')) (\<lambda>_.
     let a' = a\<lparr>sa_DispatchState := Acknowledged, sa_EffectState := EffectExpectedObserved,
               sa_Attribution := AttributionCorrelated,
               sa_Evidence := [''backup:'' @ backupID, ''sha256:'' @ digest], sa_UpdatedAt := now\<rparr>;
         op' = op\<lparr>op_Attempts := (op_Attempts op)[5 := a'], op_UpdatedAt := now\<rparr>
     in and_then (saveOperationTx op'
          (update_step_by_id (sa_StepID a') a' now (update_backup backupID r' d))) (\<lambda>d.
        Inr (appendAuditTx (ce_clock ce 0) (bk_OperationID r') ''BACKUP_VERIFIED_S05_COMPLETE''
          (AuditBackup r') d)))))))))))"

end
