(* ===== verification/Journal_Tables.thy ===== *)
theory Journal_Tables
  imports Backup_Store
begin

text \<open>
  What the transactions of the journal do to its tables. The tables of intents and of operations
  each have a small step relation of their own: an intent is frozen once and then only decided,
  an operation is acquired once and then only saved with an allowed change. The lemmas
  \<open>..._effect\<close> say what a successful transaction does to every table; the transactions of the
  store are then shown to refine the table steps.
\<close>

section \<open>Unique columns\<close>

interpretation sessions_by_id: keyed_rows ss_session_id .
interpretation intents_by_id: keyed_rows it_intent_id .
interpretation intents_by_key: keyed_rows intent_key .
interpretation approvals_by_id: keyed_rows av_approval_id .
interpretation approvals_by_intent: keyed_rows av_intent_id .
interpretation operations_by_id: keyed_rows or_operation_id .
interpretation operations_by_intent: keyed_rows or_intent_id .
interpretation steps_by_id: keyed_rows st_step_id .
interpretation backups_by_id: keyed_rows bw_backup_id .
interpretation backups_by_operation: keyed_rows bw_operation_id .

section \<open>Steps of the table of intents\<close>

text \<open>The statuses an operator decision can take an intent to.\<close>

definition intent_decision :: "IntentStatus \<Rightarrow> IntentStatus \<Rightarrow> bool" where
  "intent_decision s t \<longleftrightarrow>
     (s = IntentAwaitingApproval \<and> t \<in> {IntentConsumed, IntentRejected}) \<or>
     (s \<notin> {IntentRejected, IntentExpired, IntentRevoked, IntentCancelled} \<and> t = IntentRevoked)"

definition decided :: "IntentStatus \<Rightarrow> gotime \<Rightarrow> IntentRecord \<Rightarrow> IntentRecord" where
  "decided s now rec = rec\<lparr>ir_Status := s, ir_UpdatedAt := now\<rparr>"

inductive intents_step :: "intent_row list \<Rightarrow> intent_row list \<Rightarrow> bool" where
  intents_same: "intents_step t t"
| intents_freeze:
    "rows_with it_intent_id (ci_IntentID (ir_Intent rec)) t = None \<Longrightarrow>
     rows_with intent_key (intent_key (new_intent_row rec)) t = None \<Longrightarrow>
     intents_step t (t @ [new_intent_row rec])"
| intents_decide:
    "rows_with it_intent_id k t = Some r \<Longrightarrow>
     intent_decision (ir_Status (it_payload r)) s \<Longrightarrow>
     intents_step t (update_rows it_intent_id k
       (set_intent_payload (decided s now (it_payload r))) t)"

inductive_cases intents_stepE: "intents_step t t'"

text \<open>Every column of an intent row is the one its payload was written with.\<close>

definition intent_row_ok :: "intent_row \<Rightarrow> bool" where
  "intent_row_ok r \<longleftrightarrow> r = new_intent_row (it_payload r)"

definition intents_ok :: "intent_row list \<Rightarrow> bool" where
  "intents_ok t \<longleftrightarrow> intents_by_id.unique t \<and> intents_by_key.unique t \<and> (\<forall>r \<in> set t. intent_row_ok r)"

lemma new_intent_row_simps [simp]:
  "it_intent_id (new_intent_row rec) = ci_IntentID (ir_Intent rec)"
  "it_principal_id (new_intent_row rec) = ci_PrincipalID (ir_Intent rec)"
  "it_enrollment_id (new_intent_row rec) = ci_EnrollmentID (ir_Intent rec)"
  "it_client_request_id (new_intent_row rec) = ci_ClientRequestID (ir_Intent rec)"
  "it_proposal_digest (new_intent_row rec) = ir_ProposalDigest rec"
  "it_intent_digest (new_intent_row rec) = ci_IntentDigest (ir_Intent rec)"
  "it_status (new_intent_row rec) = ir_Status rec"
  "it_payload (new_intent_row rec) = rec"
  "it_updated_at (new_intent_row rec) = format_time (ir_UpdatedAt rec)"
  by (simp_all add: new_intent_row_def)

lemma intent_row_okD:
  assumes "intent_row_ok r"
  shows "it_intent_id r = ci_IntentID (ir_Intent (it_payload r))"
    "intent_key r = intent_key (new_intent_row (it_payload r))"
    "it_status r = ir_Status (it_payload r)"
    "it_principal_id r = ci_PrincipalID (ir_Intent (it_payload r))"
    "it_enrollment_id r = ci_EnrollmentID (ir_Intent (it_payload r))"
    "it_intent_digest r = ci_IntentDigest (ir_Intent (it_payload r))"
    "it_proposal_digest r = ir_ProposalDigest (it_payload r)"
    "it_client_request_id r = ci_ClientRequestID (ir_Intent (it_payload r))"
  using assms new_intent_row_simps [of "it_payload r"]
  by (metis intent_row_ok_def)+

lemma intent_row_ok_new [simp]: "intent_row_ok (new_intent_row rec)"
  by (simp add: intent_row_ok_def)

lemma set_intent_payload_keys [simp]:
  "it_intent_id (set_intent_payload rec r) = it_intent_id r"
  "intent_key (set_intent_payload rec r) = intent_key r"
  "it_payload (set_intent_payload rec r) = rec"
  by (simp_all add: set_intent_payload_def intent_key_def)

lemma set_intent_payload_ok:
  assumes "intent_row_ok r"
  shows "intent_row_ok (set_intent_payload (decided s now (it_payload r)) r)"
proof -
  obtain rec where r: "r = new_intent_row rec" using assms by (auto simp: intent_row_ok_def)
  show ?thesis unfolding r
    by (simp add: intent_row_ok_def set_intent_payload_def decided_def new_intent_row_def)
qed

lemma decided_simps [simp]:
  "ir_Intent (decided s now rec) = ir_Intent rec" "ir_Status (decided s now rec) = s"
  "ir_ProposalDigest (decided s now rec) = ir_ProposalDigest rec"
  by (simp_all add: decided_def)

lemma intents_step_ok:
  assumes "intents_step t t'" "intents_ok t"
  shows "intents_ok t'"
  using assms
proof (cases rule: intents_step.cases)
  case (intents_freeze rec)
  with assms(2) show ?thesis
    by (auto simp: intents_ok_def intro!: intents_by_id.unique_insert intents_by_key.unique_insert)
next
  case (intents_decide k r s now)
  have "\<forall>r' \<in> set t'. intent_row_ok r'"
    unfolding intents_decide(1)
    using assms(2) intents_decide(2) rows_with_SomeD [OF intents_decide(2)]
    by (intro intents_by_id.update_pred) (auto simp: intents_ok_def intro: set_intent_payload_ok)
  with assms(2) show ?thesis
    by (simp add: intents_ok_def intents_decide(1) intents_by_id.unique_update
        intents_by_key.unique_update)
qed auto

text \<open>A frozen intent stays: same content under the same identity, a status that only decides.\<close>

definition intent_history :: "intent_row list \<Rightarrow> intent_row list \<Rightarrow> bool" where
  "intent_history t t' \<longleftrightarrow>
     (\<forall>k r. rows_with it_intent_id k t = Some r \<longrightarrow>
       (\<exists>r'. rows_with it_intent_id k t' = Some r' \<and>
             ir_Intent (it_payload r') = ir_Intent (it_payload r) \<and>
             ir_ProposalDigest (it_payload r') = ir_ProposalDigest (it_payload r) \<and>
             (ir_Status (it_payload r') = ir_Status (it_payload r) \<or>
              intent_decision (ir_Status (it_payload r)) (ir_Status (it_payload r')))))"

lemma intents_step_history:
  assumes "intents_step t t'"
  shows "intent_history t t'"
  using assms
proof (cases rule: intents_step.cases)
  case (intents_freeze rec)
  then show ?thesis by (auto simp: intent_history_def rows_with_append)
next
  case (intents_decide k r s now)
  then show ?thesis
    by (auto simp: intent_history_def intents_by_id.lookup_update)
qed (auto simp: intent_history_def)

lemma intent_decision_trans:
  "intent_decision a b \<Longrightarrow> intent_decision b c \<Longrightarrow> intent_decision a c"
  by (auto simp: intent_decision_def)

lemma intent_history_refl: "intent_history t t"
  by (auto simp: intent_history_def)

lemma intent_history_trans: "intent_history t u \<Longrightarrow> intent_history u v \<Longrightarrow> intent_history t v"
  unfolding intent_history_def by (fastforce intro: intent_decision_trans)

section \<open>Steps of the table of operations\<close>

definition same_identity :: "Operation \<Rightarrow> Operation \<Rightarrow> bool" where
  "same_identity op op' \<longleftrightarrow>
     op_OperationID op' = op_OperationID op \<and> op_IntentID op' = op_IntentID op \<and>
     op_IntentDigest op' = op_IntentDigest op \<and> op_EnrollmentID op' = op_EnrollmentID op \<and>
     op_ExecutionEpoch op' = op_ExecutionEpoch op \<and> op_CreatedAt op' = op_CreatedAt op"

definition releasing :: "OperationStatus set" where
  "releasing = {OperationSucceeded, OperationFailed, OperationAborted, OperationRolledBack}"

inductive operation_change :: "Operation \<Rightarrow> Operation \<Rightarrow> bool" where
  change_status:
    "same_identity op op' \<Longrightarrow> CanTransitionOperation (op_Status op) (op_Status op') \<Longrightarrow>
     op_Attempts op' = op_Attempts op \<Longrightarrow>
     (op_OwnershipReleased op' \<longleftrightarrow> op_Status op' \<in> releasing) \<Longrightarrow>
     (op_Status op' = OperationSucceeded \<longrightarrow> op_Verification op' = VerificationPass) \<Longrightarrow>
     operation_change op op'"
| change_prepare:
    "same_identity op op' \<Longrightarrow> live_operation (op_Status op) \<Longrightarrow> op_Status op' = op_Status op \<Longrightarrow>
     \<not> op_OwnershipReleased op \<Longrightarrow> \<not> op_OwnershipReleased op' \<Longrightarrow>
     op_Verification op' = op_Verification op \<Longrightarrow>
     op_Attempts op' = op_Attempts op @ [new_attempt stepID kind n now] \<Longrightarrow> operation_change op op'"
| change_attempt:
    "same_identity op op' \<Longrightarrow> index < length (op_Attempts op) \<Longrightarrow>
     op_Attempts op' = (op_Attempts op)[index := a] \<Longrightarrow>
     sa_StepID a = sa_StepID (op_Attempts op ! index) \<Longrightarrow>
     sa_StepKind a = sa_StepKind (op_Attempts op ! index) \<Longrightarrow>
     sa_AttemptNo a = sa_AttemptNo (op_Attempts op ! index) \<Longrightarrow>
     sa_DispatchState a \<noteq> NotDispatched \<Longrightarrow> op_Verification op' = op_Verification op \<Longrightarrow>
     op_OwnershipReleased op' = op_OwnershipReleased op \<Longrightarrow>
     op_Status op' \<in> {op_Status op, OperationUnknown, OperationNeedsIntervention} \<Longrightarrow>
     operation_change op op'"

definition operation_row_of :: "Operation \<Rightarrow> operation_row" where
  "operation_row_of op =
     \<lparr>or_operation_id = op_OperationID op, or_intent_id = op_IntentID op,
      or_enrollment_id = op_EnrollmentID op, or_status = op_Status op,
      or_ownership_released = boolInt (op_OwnershipReleased op), or_payload = op,
      or_updated_at = format_time (op_UpdatedAt op)\<rparr>"

definition unreleased :: "operation_row \<Rightarrow> bool" where
  "unreleased r \<longleftrightarrow> or_ownership_released r = 0"

inductive operations_step :: "operation_row list \<Rightarrow> operation_row list \<Rightarrow> bool" where
  operations_same: "operations_step t t"
| operations_acquire:
    "rows_with or_operation_id (op_OperationID op) t = None \<Longrightarrow>
     rows_with or_intent_id (op_IntentID op) t = None \<Longrightarrow>
     (\<forall>r \<in> set t. unreleased r \<longrightarrow> or_enrollment_id r \<noteq> op_EnrollmentID op) \<Longrightarrow>
     op_Status op = OperationQueued \<Longrightarrow> \<not> op_OwnershipReleased op \<Longrightarrow> op_Attempts op = [] \<Longrightarrow>
     operations_step t (t @ [operation_row_of op])"
| operations_save:
    "rows_with or_operation_id k t = Some r \<Longrightarrow> operation_change (or_payload r) op' \<Longrightarrow>
     operations_step t (update_rows or_operation_id k (set_operation_payload op') t)"

definition operation_row_ok :: "operation_row \<Rightarrow> bool" where
  "operation_row_ok r \<longleftrightarrow> r = operation_row_of (or_payload r) \<and>
     (live_operation (op_Status (or_payload r)) \<longrightarrow> \<not> op_OwnershipReleased (or_payload r)) \<and>
     (op_Status (or_payload r) = OperationSucceeded \<longrightarrow>
        op_Verification (or_payload r) = VerificationPass)"

definition single_writer :: "operation_row list \<Rightarrow> bool" where
  "single_writer t \<longleftrightarrow>
     (\<forall>r \<in> set t. \<forall>r' \<in> set t. unreleased r \<and> unreleased r' \<and>
        or_enrollment_id r = or_enrollment_id r' \<longrightarrow> or_operation_id r = or_operation_id r')"

definition operations_ok :: "operation_row list \<Rightarrow> bool" where
  "operations_ok t \<longleftrightarrow> operations_by_id.unique t \<and> operations_by_intent.unique t \<and>
     (\<forall>r \<in> set t. operation_row_ok r) \<and> single_writer t"

lemma operation_row_of_simps [simp]:
  "or_operation_id (operation_row_of op) = op_OperationID op"
  "or_intent_id (operation_row_of op) = op_IntentID op"
  "or_enrollment_id (operation_row_of op) = op_EnrollmentID op"
  "or_status (operation_row_of op) = op_Status op"
  "or_payload (operation_row_of op) = op"
  "unreleased (operation_row_of op) \<longleftrightarrow> \<not> op_OwnershipReleased op"
  by (simp_all add: operation_row_of_def unreleased_def boolInt_def)

lemma operation_row_ok_of [simp]:
  "operation_row_ok (operation_row_of op) \<longleftrightarrow>
     (live_operation (op_Status op) \<longrightarrow> \<not> op_OwnershipReleased op) \<and>
     (op_Status op = OperationSucceeded \<longrightarrow> op_Verification op = VerificationPass)"
  by (simp add: operation_row_ok_def)

lemma operation_row_okD:
  assumes "operation_row_ok r"
  shows "or_operation_id r = op_OperationID (or_payload r)"
    "or_intent_id r = op_IntentID (or_payload r)"
    "or_enrollment_id r = op_EnrollmentID (or_payload r)"
    "or_status r = op_Status (or_payload r)"
    "unreleased r \<longleftrightarrow> \<not> op_OwnershipReleased (or_payload r)"
    "live_operation (op_Status (or_payload r)) \<Longrightarrow> \<not> op_OwnershipReleased (or_payload r)"
    "op_Status (or_payload r) = OperationSucceeded \<Longrightarrow> op_Verification (or_payload r) = VerificationPass"
  using assms operation_row_of_simps [of "or_payload r"]
  by (metis operation_row_ok_def)+

lemma set_operation_payload_keys [simp]:
  "or_operation_id (set_operation_payload op r) = or_operation_id r"
  "or_intent_id (set_operation_payload op r) = or_intent_id r"
  "or_enrollment_id (set_operation_payload op r) = or_enrollment_id r"
  "or_payload (set_operation_payload op r) = op"
  "unreleased (set_operation_payload op r) \<longleftrightarrow> \<not> op_OwnershipReleased op"
  by (simp_all add: set_operation_payload_def unreleased_def boolInt_def)

lemma operation_change_identity: "operation_change op op' \<Longrightarrow> same_identity op op'"
  by (auto elim: operation_change.cases)

lemma releasing_not_live: "s \<in> releasing \<Longrightarrow> \<not> live_operation s"
  by (auto simp: releasing_def live_operation_iff)

lemma operation_change_release:
  assumes "operation_change op op'" "live_operation (op_Status op) \<longrightarrow> \<not> op_OwnershipReleased op"
  shows "(live_operation (op_Status op') \<longrightarrow> \<not> op_OwnershipReleased op') \<and>
         (op_OwnershipReleased op \<longrightarrow> op_OwnershipReleased op')"
  using assms
proof (cases rule: operation_change.cases)
  case change_status
  then show ?thesis
    using assms(2) releasing_not_live by (auto simp: live_operation_def)
next
  case (change_attempt index a)
  then show ?thesis using assms(2) by (auto simp: live_operation_iff)
qed auto

lemma operation_change_success:
  assumes "operation_change op op'"
    "op_Status op = OperationSucceeded \<longrightarrow> op_Verification op = VerificationPass"
  shows "op_Status op' = OperationSucceeded \<longrightarrow> op_Verification op' = VerificationPass"
  using assms by (cases rule: operation_change.cases) auto

lemma set_operation_payload_ok:
  assumes "operation_row_ok r" "operation_change (or_payload r) op'"
  shows "operation_row_ok (set_operation_payload op' r)"
proof -
  have "set_operation_payload op' r = operation_row_of op'"
    using operation_change_identity [OF assms(2)] operation_row_okD(1-3) [OF assms(1)]
    by (cases r) (simp add: set_operation_payload_def operation_row_of_def same_identity_def)
  then show ?thesis
    using operation_change_release [OF assms(2)] operation_row_okD(6,7) [OF assms(1)]
      operation_change_success [OF assms(2)]
    by simp
qed

lemma single_writerD:
  "single_writer t \<Longrightarrow> r \<in> set t \<Longrightarrow> r' \<in> set t \<Longrightarrow> unreleased r \<Longrightarrow> unreleased r' \<Longrightarrow>
     or_enrollment_id r = or_enrollment_id r' \<Longrightarrow> or_operation_id r = or_operation_id r'"
  unfolding single_writer_def by blast

lemma operations_step_ok:
  assumes "operations_step t t'" "operations_ok t"
  shows "operations_ok t'"
  using assms
proof (cases rule: operations_step.cases)
  case (operations_acquire op)
  have t: "operations_by_id.unique t" "operations_by_intent.unique t"
      "\<forall>r \<in> set t. operation_row_ok r" "single_writer t"
    using assms(2) by (simp_all add: operations_ok_def)
  have "single_writer t'"
    unfolding single_writer_def
  proof (intro ballI impI)
    fix r r'
    assume r: "r \<in> set t'" "r' \<in> set t'"
      "unreleased r \<and> unreleased r' \<and> or_enrollment_id r = or_enrollment_id r'"
    then consider "r \<in> set t" "r' \<in> set t" | "r = operation_row_of op" "r' = operation_row_of op"
      | "r \<in> set t" "r' = operation_row_of op" | "r = operation_row_of op" "r' \<in> set t"
      unfolding operations_acquire(1) by auto
    then show "or_operation_id r = or_operation_id r'"
      using r(3) operations_acquire(4) by cases (auto intro: single_writerD [OF t(4)])
  qed
  then show ?thesis
    using t operations_acquire
    by (simp add: operations_ok_def operations_by_id.unique_insert operations_by_intent.unique_insert)
next
  case (operations_save k r op')
  note r = rows_with_SomeD [OF operations_save(2)]
  have ok: "operation_row_ok r" using r assms(2) by (auto simp: operations_ok_def)
  have rows: "\<forall>r' \<in> set t'. operation_row_ok r'"
    unfolding operations_save(1) using assms(2) operations_save(2,3) ok
    by (intro operations_by_id.update_pred)
       (auto simp: operations_ok_def intro: set_operation_payload_ok)
  have grow: "unreleased (set_operation_payload op' r') \<longrightarrow> unreleased r'"
    if "r' \<in> set t" "or_operation_id r' = k" for r'
  proof -
    have "r' = r"
      using that assms(2) operations_save(2) by (auto simp: operations_ok_def dest: operations_by_id.lookup_only)
    then show ?thesis
      using operation_change_release [OF operations_save(3)] operation_row_okD(5,6) [OF ok] by auto
  qed
  have origin: "\<exists>q \<in> set t. unreleased q \<and> or_enrollment_id q = or_enrollment_id r' \<and>
      or_operation_id q = or_operation_id r'"
    if "r' \<in> set t'" "unreleased r'" for r'
    using that grow unfolding operations_save(1) set_update_rows by (fastforce split: if_splits)
  have "single_writer t'"
    unfolding single_writer_def
  proof (intro ballI impI)
    fix r r'
    assume r: "r \<in> set t'" "r' \<in> set t'"
      "unreleased r \<and> unreleased r' \<and> or_enrollment_id r = or_enrollment_id r'"
    then show "or_operation_id r = or_operation_id r'"
      using origin [of r] origin [of r'] assms(2) single_writerD [of t] by (metis operations_ok_def)
  qed
  with rows show ?thesis
    using assms(2)
    by (simp add: operations_ok_def operations_save(1) operations_by_id.unique_update
        operations_by_intent.unique_update)
qed auto

text \<open>An attempt that may have been dispatched is never again recorded as not dispatched.\<close>

definition dispatched_kept :: "StepAttempt list \<Rightarrow> StepAttempt list \<Rightarrow> bool" where
  "dispatched_kept xs ys \<longleftrightarrow> length xs \<le> length ys \<and>
     (\<forall>i < length xs. sa_DispatchState (xs ! i) \<noteq> NotDispatched \<longrightarrow>
        sa_DispatchState (ys ! i) \<noteq> NotDispatched)"

lemma dispatched_kept_refl [simp]: "dispatched_kept xs xs"
  by (simp add: dispatched_kept_def)

lemma dispatched_kept_trans:
  "dispatched_kept xs ys \<Longrightarrow> dispatched_kept ys zs \<Longrightarrow> dispatched_kept xs zs"
  by (auto simp: dispatched_kept_def)

lemma operation_change_dispatched:
  "operation_change op op' \<Longrightarrow> dispatched_kept (op_Attempts op) (op_Attempts op')"
  by (erule operation_change.cases)
     (auto simp: dispatched_kept_def nth_append nth_list_update)

text \<open>What a later journal still says of an operation that exists now.\<close>

definition operation_kept :: "Operation \<Rightarrow> Operation \<Rightarrow> bool" where
  "operation_kept op op' \<longleftrightarrow> same_identity op op' \<and> dispatched_kept (op_Attempts op) (op_Attempts op') \<and>
     map sa_StepID (op_Attempts op) = take (length (op_Attempts op)) (map sa_StepID (op_Attempts op'))"

definition operation_history :: "operation_row list \<Rightarrow> operation_row list \<Rightarrow> bool" where
  "operation_history t t' \<longleftrightarrow>
     (\<forall>k r. rows_with or_operation_id k t = Some r \<longrightarrow>
       (\<exists>r'. rows_with or_operation_id k t' = Some r' \<and> operation_kept (or_payload r) (or_payload r')))"

lemma same_identity_refl [simp]: "same_identity op op"
  by (simp add: same_identity_def)

lemma same_identity_trans: "same_identity a b \<Longrightarrow> same_identity b c \<Longrightarrow> same_identity a c"
  by (simp add: same_identity_def)

lemma map_update_same: "f a = f (xs ! i) \<Longrightarrow> map f (xs[i := a]) = map f xs"
  by (cases "i < length xs") (simp_all add: map_update list_update_same_conv list_update_beyond)

lemma operation_change_steps:
  "operation_change op op' \<Longrightarrow> map sa_StepID (op_Attempts op) =
     take (length (op_Attempts op)) (map sa_StepID (op_Attempts op'))"
  by (auto elim!: operation_change.cases simp: map_update_same)

lemma operation_change_kept: "operation_change op op' \<Longrightarrow> operation_kept op op'"
  by (simp add: operation_kept_def operation_change_identity operation_change_steps
      operation_change_dispatched)

lemma operation_kept_refl [simp]: "operation_kept op op"
  by (simp add: operation_kept_def)

lemma operation_kept_trans:
  assumes "operation_kept a b" "operation_kept b c"
  shows "operation_kept a c"
proof -
  have "map sa_StepID (op_Attempts a) = take (length (op_Attempts a)) (map sa_StepID (op_Attempts c))"
    using assms unfolding operation_kept_def by (metis dispatched_kept_def min_absorb1 take_take)
  with assms show ?thesis
    using same_identity_trans dispatched_kept_trans unfolding operation_kept_def by blast
qed

lemma operation_history_trans:
  "operation_history t u \<Longrightarrow> operation_history u v \<Longrightarrow> operation_history t v"
  unfolding operation_history_def by (meson operation_kept_trans)

lemma operations_step_history:
  assumes "operations_step t t'"
  shows "operation_history t t'"
  using assms
proof (cases rule: operations_step.cases)
  case (operations_acquire op)
  then show ?thesis by (auto simp: operation_history_def rows_with_append)
next
  case (operations_save k r op')
  then show ?thesis
    using operation_change_kept
    by (auto simp: operation_history_def operations_by_id.lookup_update)
qed (auto simp: operation_history_def)

end
