(* ===== verification/Journal_Effects.thy ===== *)
theory Journal_Effects
  imports Journal_Tables
begin

text \<open>
  The journal's transactions one by one: for each, the guards that hold when it succeeds and
  the database it commits, as an edit of the database it began with. The invariants of the
  journal and the error behaviour are read off these facts.
\<close>

section \<open>Audit rows\<close>

lemma appendAuditTx_simps [simp]:
  "v01_sessions (appendAuditTx w e t p d) = v01_sessions d"
  "v01_intents (appendAuditTx w e t p d) = v01_intents d"
  "v01_approvals (appendAuditTx w e t p d) = v01_approvals d"
  "v01_operations (appendAuditTx w e t p d) = v01_operations d"
  "v01_steps (appendAuditTx w e t p d) = v01_steps d"
  "v01_backups (appendAuditTx w e t p d) = v01_backups d"
  by (simp_all add: appendAuditTx_def)

text \<open>\<open>audited d d'\<close>: \<open>d'\<close> is \<open>d\<close> with one or more audit rows appended.\<close>

inductive audited :: "db \<Rightarrow> db \<Rightarrow> bool" where
  audited_one [simp]: "audited d (appendAuditTx w e t p d)"
| audited_more [simp]: "audited d d' \<Longrightarrow> audited d (appendAuditTx w e t p d')"

lemma audited_tables:
  assumes "audited d d'"
  shows "v01_sessions d' = v01_sessions d" "v01_intents d' = v01_intents d"
    "v01_approvals d' = v01_approvals d" "v01_operations d' = v01_operations d"
    "v01_steps d' = v01_steps d" "v01_backups d' = v01_backups d"
  using assms by (induction) simp_all

text \<open>The audit log grows at its end and numbers its rows without a gap.\<close>

definition audit_ok :: "audit_row list \<Rightarrow> bool" where
  "audit_ok t \<longleftrightarrow> map au_sequence t = [1..<Suc (length t)]"

lemma fold_max_upt: "fold max [1..<Suc n] (0::nat) = n"
  by (induction n) auto

lemma append_audit_ok:
  assumes "audit_ok (v01_audit d)"
  shows "audit_ok (v01_audit (appendAuditTx w e t p d))"
proof -
  let ?n = "length (v01_audit d)"
  have m: "map au_sequence (v01_audit d) = [1..<Suc ?n]"
    using assms unfolding audit_ok_def .
  have "next_sequence (v01_audit d) = Suc ?n"
    unfolding next_sequence_def m fold_max_upt ..
  then have "map au_sequence (v01_audit (appendAuditTx w e t p d)) = [1..<Suc ?n] @ [Suc ?n]"
    by (simp add: appendAuditTx_def m del: upt_Suc)
  then show ?thesis
    unfolding audit_ok_def by (simp add: appendAuditTx_def)
qed

lemma append_audit_prefix: "strict_prefix (v01_audit d) (v01_audit (appendAuditTx w e t p d))"
  by (simp add: appendAuditTx_def strict_prefix_def)

lemma audited_prefix: "audited d d' \<Longrightarrow> strict_prefix (v01_audit d) (v01_audit d')"
  by (induction rule: audited.induct) (blast intro: append_audit_prefix prefix_order.less_trans)+

lemma audited_ok: "audited d d' \<Longrightarrow> audit_ok (v01_audit d) \<Longrightarrow> audit_ok (v01_audit d')"
  by (induction rule: audited.induct) (blast intro: append_audit_ok)+

section \<open>Sessions and intents\<close>

lemma SaveSession_effect:
  assumes "SaveSession ce scope d = Inr d'"
  shows "rows_with ss_session_id (sc_SessionID scope) (v01_sessions d) = None \<and>
     scope_Validate (ce_crypto ce) scope (ce_clock ce 0) = None \<and>
     audited (d\<lparr>v01_sessions := v01_sessions d @ [new_session_row scope (ce_clock ce 1)]\<rparr>) d'"
  using assms by (auto simp: SaveSession_def insert_session_def new_session_row_def)

lemma GetIntentByClientKey_cases:
  "GetIntentByClientKey p e k d = Inr rec \<longleftrightarrow>
     (\<exists>r. rows_with intent_key (p, e, k) (v01_intents d) = Some r \<and> rec = it_payload r)"
  "GetIntentByClientKey p e k d = Inl err \<longleftrightarrow>
     rows_with intent_key (p, e, k) (v01_intents d) = None \<and>
     err = NewError ErrNotFound ''intent not found''"
  by (auto simp: GetIntentByClientKey_def scanIntent_def split: option.splits)

lemma intent_key_new:
  "intent_key (new_intent_row rec) = (ci_PrincipalID (ir_Intent rec), ci_EnrollmentID (ir_Intent rec),
     ci_ClientRequestID (ir_Intent rec))"
  by (simp add: intent_key_def)

lemma same_proposal_iff [simp]:
  "same_proposal existing rec = Inr x \<longleftrightarrow>
     ir_ProposalDigest existing = ir_ProposalDigest rec \<and> x = (existing, False)"
  by (auto simp: same_proposal_def)

lemma insert_intent_iff:
  "insert_intent r d = Inr d' \<longleftrightarrow>
     rows_with it_intent_id (it_intent_id r) (v01_intents d) = None \<and>
     rows_with intent_key (intent_key r) (v01_intents d) = None \<and>
     d' = d\<lparr>v01_intents := v01_intents d @ [r]\<rparr>"
  by (auto simp: insert_intent_def)

lemma PutIntent_effect:
  assumes "PutIntent ce rec seen d = Inr ((stored, created), d')"
  shows "(\<not> created \<and> d' = d \<and> ir_ProposalDigest stored = ir_ProposalDigest rec) \<or>
    (created \<and> stored = rec \<and>
     rows_with it_intent_id (ci_IntentID (ir_Intent rec)) (v01_intents d) = None \<and>
     rows_with intent_key (intent_key (new_intent_row rec)) (v01_intents d) = None \<and>
     audited (d\<lparr>v01_intents := v01_intents d @ [new_intent_row rec]\<rparr>) d')"
  using assms
  by (auto simp: PutIntent_def Let_def GetIntentByClientKey_cases insert_intent_iff
      translateWriteError_def split: sum.splits if_splits)

lemma intentForDecision_iff:
  "intentForDecision cr intentID digest d = Inr rec \<longleftrightarrow>
     (\<exists>r. rows_with it_intent_id intentID (v01_intents d) = Some r \<and> rec = it_payload r \<and>
          sealed_intent cr (ir_Intent rec) \<and> ci_IntentDigest (ir_Intent rec) = digest)"
  by (auto simp: intentForDecision_def scanIntent_def split: option.splits)

section \<open>Operator decisions\<close>

lemma activeOwner_free_iff:
  "activeOwner enrollmentID d = NoErrorCode \<longleftrightarrow>
     (\<forall>r \<in> set (v01_operations d). unreleased r \<longrightarrow> or_enrollment_id r \<noteq> enrollmentID)"
proof (cases "List.find (\<lambda>r. or_enrollment_id r = enrollmentID \<and> or_ownership_released r = 0) (v01_operations d)")
  case None
  then have "activeOwner enrollmentID d = NoErrorCode" by (simp add: activeOwner_def)
  with None show ?thesis by (auto simp: unreleased_def find_None_iff)
next
  case (Some r)
  then have "r \<in> set (v01_operations d)" "or_enrollment_id r = enrollmentID" "unreleased r"
    by (auto simp: find_Some_iff unreleased_def)
  with Some show ?thesis by (auto simp: activeOwner_def)
qed

lemma insert_approval_iff:
  "insert_approval r d = Inr d' \<longleftrightarrow>
     rows_with av_approval_id (av_approval_id r) (v01_approvals d) = None \<and>
     rows_with av_intent_id (av_intent_id r) (v01_approvals d) = None \<and>
     rows_with it_intent_id (av_intent_id r) (v01_intents d) \<noteq> None \<and>
     d' = d\<lparr>v01_approvals := v01_approvals d @ [r]\<rparr>"
  by (auto simp: insert_approval_def)

lemma insert_operation_iff:
  "insert_operation r d = Inr d' \<longleftrightarrow>
     rows_with or_operation_id (or_operation_id r) (v01_operations d) = None \<and>
     rows_with or_intent_id (or_intent_id r) (v01_operations d) = None \<and>
     rows_with it_intent_id (or_intent_id r) (v01_intents d) \<noteq> None \<and>
     d' = d\<lparr>v01_operations := v01_operations d @ [r]\<rparr>"
  by (auto simp: insert_operation_def)

text \<open>What a first, successful approval of an intent commits.\<close>

definition approved_operation :: "call_env \<Rightarrow> string \<Rightarrow> string \<Rightarrow> gotime \<Rightarrow> ChangeIntent \<Rightarrow> Operation" where
  "approved_operation ce intentID digest now i =
     \<lparr>op_OperationID = NewID ''operation'' (ce_random ce 1), op_IntentID = intentID,
      op_IntentDigest = digest, op_EnrollmentID = ci_EnrollmentID i,
      op_ExecutionEpoch = UnixNano now, op_Status = OperationQueued,
      op_Verification = VerificationNotStarted, op_OwnershipReleased = False,
      op_CreatedAt = now, op_UpdatedAt = now, op_Attempts = [], op_LastError = NoErrorCode\<rparr>"

definition decision_approval ::
  "call_env \<Rightarrow> string \<Rightarrow> string \<Rightarrow> string \<Rightarrow> int \<Rightarrow> string \<Rightarrow> gotime \<Rightarrow> Approval" where
  "decision_approval ce intentID digest approver osUID decision now =
     \<lparr>ap_ApprovalID = NewID ''approval'' (ce_random ce 0), ap_IntentID = intentID,
      ap_IntentDigest = digest, ap_ApproverPrincipal = approver, ap_ApproverOSUID = osUID,
      ap_Decision = decision, ap_DecidedAt = now\<rparr>"

lemma lookupExistingApproval_None_iff:
  "lookupExistingApproval intentID d = Inr None \<longleftrightarrow>
     rows_with av_intent_id intentID (v01_approvals d) = None"
  by (auto simp: lookupExistingApproval_def split: option.splits)

lemma lookupExistingApproval_Some_iff:
  "lookupExistingApproval intentID d = Inr (Some (a, op)) \<longleftrightarrow>
     (\<exists>r q. rows_with av_intent_id intentID (v01_approvals d) = Some r \<and> av_payload r = a \<and>
        ap_Decision a = ''APPROVED'' \<and> rows_with or_intent_id intentID (v01_operations d) = Some q \<and>
        or_payload q = op)"
  by (auto simp: lookupExistingApproval_def split: option.splits)

lemma ApproveIntent_effect:
  assumes "ApproveIntent ce intentID digest approver osUID now d = Inr ((a, op), d')"
  shows "(d' = d \<and> lookupExistingApproval intentID d = Inr (Some (a, op)) \<and> ap_IntentDigest a = digest) \<or>
    (\<exists>r. rows_with av_intent_id intentID (v01_approvals d) = None \<and>
       rows_with it_intent_id intentID (v01_intents d) = Some r \<and>
       sealed_intent (ce_crypto ce) (ir_Intent (it_payload r)) \<and>
       ci_IntentDigest (ir_Intent (it_payload r)) = digest \<and>
       now < ci_ApprovalDeadline (ir_Intent (it_payload r)) \<and>
       now < ci_StartBefore (ir_Intent (it_payload r)) \<and>
       ir_Status (it_payload r) = IntentAwaitingApproval \<and>
       activeOwner (ci_EnrollmentID (ir_Intent (it_payload r))) d = NoErrorCode \<and>
       a = decision_approval ce intentID digest approver osUID ''APPROVED'' now \<and>
       op = approved_operation ce intentID digest now (ir_Intent (it_payload r)) \<and>
       rows_with av_approval_id (ap_ApprovalID a) (v01_approvals d) = None \<and>
       rows_with or_operation_id (op_OperationID op) (v01_operations d) = None \<and>
       rows_with or_intent_id intentID (v01_operations d) = None \<and>
       audited (d\<lparr>v01_approvals := v01_approvals d @ [new_approval_row a intentID digest],
             v01_operations := v01_operations d @ [operation_row_of op],
             v01_intents := update_rows it_intent_id intentID
               (set_intent_payload (decided IntentConsumed now (it_payload r))) (v01_intents d)\<rparr>) d')"
proof -
  note unfold = ApproveIntent_def lookupExistingApproval_None_iff scanIntent_def
  consider (old) q where "lookupExistingApproval intentID d = Inr (Some q)"
    | (new) "lookupExistingApproval intentID d = Inr None"
    using assms unfolding ApproveIntent_def by (cases "lookupExistingApproval intentID d") force+
  then show ?thesis
  proof cases
    case old
    with assms show ?thesis by (auto simp: ApproveIntent_def split: prod.splits)
  next
    case new
    with assms obtain r where
      "rows_with it_intent_id intentID (v01_intents d) = Some r"
      by (cases "rows_with it_intent_id intentID (v01_intents d)") (auto simp: ApproveIntent_def scanIntent_def)
    with assms new show ?thesis
      by (auto simp: unfold Let_def insert_approval_iff insert_operation_iff update_intent_def
          new_approval_row_def decision_approval_def approved_operation_def operation_row_of_def
          decided_def go_time boolInt_def)
  qed
qed

lemma RejectIntent_effect:
  assumes "RejectIntent ce intentID digest approver osUID now d = Inr (a, d')"
  shows "(d' = d \<and> (\<exists>r. rows_with av_intent_id intentID (v01_approvals d) = Some r \<and>
             a = av_payload r \<and> ap_Decision a = ''REJECTED'' \<and> ap_IntentDigest a = digest)) \<or>
    (\<exists>r. rows_with av_intent_id intentID (v01_approvals d) = None \<and>
       rows_with it_intent_id intentID (v01_intents d) = Some r \<and>
       sealed_intent (ce_crypto ce) (ir_Intent (it_payload r)) \<and>
       ci_IntentDigest (ir_Intent (it_payload r)) = digest \<and>
       ir_Status (it_payload r) = IntentAwaitingApproval \<and>
       a = decision_approval ce intentID digest approver osUID ''REJECTED'' now \<and>
       rows_with av_approval_id (ap_ApprovalID a) (v01_approvals d) = None \<and>
       audited (d\<lparr>v01_approvals := v01_approvals d @ [new_approval_row a intentID digest],
             v01_intents := update_rows it_intent_id (ci_IntentID (ir_Intent (it_payload r)))
               (set_intent_payload (decided IntentRejected now (it_payload r))) (v01_intents d)\<rparr>) d')"
  using assms
  by (auto simp: RejectIntent_def intentForDecision_iff Let_def insert_approval_iff
      updateIntentTx_def update_intent_def new_approval_row_def decision_approval_def decided_def
      split: option.splits)

lemma saveOperationTx_iff:
  "saveOperationTx op d = Inr d' \<longleftrightarrow>
     length (filter (\<lambda>r. or_operation_id r = op_OperationID op) (v01_operations d)) = 1 \<and>
     d' = d\<lparr>v01_operations := update_rows or_operation_id (op_OperationID op)
        (set_operation_payload op) (v01_operations d)\<rparr>"
  by (auto simp: saveOperationTx_def)

lemma getOperationTx_iff:
  "getOperationTx operationID d = Inr op \<longleftrightarrow>
     (\<exists>r. rows_with or_operation_id operationID (v01_operations d) = Some r \<and> op = or_payload r)"
  by (auto simp: getOperationTx_def split: option.splits)

definition aborted_operation :: "gotime \<Rightarrow> Operation \<Rightarrow> Operation" where
  "aborted_operation now op =
     op\<lparr>op_Status := OperationAborted, op_OwnershipReleased := True, op_UpdatedAt := now\<rparr>"

lemma RevokeIntent_effect:
  assumes "RevokeIntent ce intentID digest actor osUID now d = Inr d'"
  shows "\<exists>r. rows_with it_intent_id intentID (v01_intents d) = Some r \<and>
     sealed_intent (ce_crypto ce) (ir_Intent (it_payload r)) \<and>
     ci_IntentDigest (ir_Intent (it_payload r)) = digest \<and>
     intent_decision (ir_Status (it_payload r)) IntentRevoked \<and>
     audited (d\<lparr>v01_intents := update_rows it_intent_id (ci_IntentID (ir_Intent (it_payload r)))
               (set_intent_payload (decided IntentRevoked now (it_payload r))) (v01_intents d),
        v01_operations :=
          (case rows_with or_intent_id intentID (v01_operations d) of
             None \<Rightarrow> v01_operations d
           | Some q \<Rightarrow>
               if op_Status (or_payload q) = OperationQueued \<and> op_Attempts (or_payload q) = []
               then update_rows or_operation_id (op_OperationID (or_payload q))
                      (set_operation_payload (aborted_operation now (or_payload q))) (v01_operations d)
               else v01_operations d)\<rparr>) d'"
proof -
  obtain r where r: "rows_with it_intent_id intentID (v01_intents d) = Some r"
      "sealed_intent (ce_crypto ce) (ir_Intent (it_payload r))"
      "ci_IntentDigest (ir_Intent (it_payload r)) = digest"
    and decide: "intentForDecision (ce_crypto ce) intentID digest d = Inr (it_payload r)"
    using assms by (auto simp: RevokeIntent_def intentForDecision_iff)
  have decision: "intent_decision (ir_Status (it_payload r)) IntentRevoked"
    using assms by (simp add: RevokeIntent_def decide intent_decision_def)
  show ?thesis
  proof (cases "rows_with or_intent_id intentID (v01_operations d)")
    case None
    with assms show ?thesis
      by (intro exI [of _ r])
         (auto simp add: r decision RevokeIntent_def decide Let_def updateIntentTx_def update_intent_def decided_def)
  next
    case (Some q)
    with assms show ?thesis
      by (intro exI [of _ r])
         (auto simp add: r decision RevokeIntent_def decide Let_def updateIntentTx_def update_intent_def
           decided_def saveOperationTx_iff aborted_operation_def)
  qed
qed

section \<open>Steps\<close>

lemma live_iff: "live_operation s \<longleftrightarrow> \<not> IsTerminalOperation s \<and> s \<noteq> OperationUnknown"
  using not_live_iff by blast

lemma previous_acknowledged_iff:
  "previous_acknowledged xs \<longleftrightarrow> (\<forall>a \<in> set xs. sa_EffectState a = EffectExpectedObserved \<and>
     sa_Attribution a = AttributionCorrelated \<and> sa_DispatchState a = Acknowledged)"
  by (induction xs) auto

lemma insert_step_iff:
  "insert_step r d = Inr d' \<longleftrightarrow>
     rows_with st_step_id (st_step_id r) (v01_steps d) = None \<and>
     rows_with or_operation_id (st_operation_id r) (v01_operations d) \<noteq> None \<and>
     d' = d\<lparr>v01_steps := v01_steps d @ [r]\<rparr>"
  by (auto simp: insert_step_def)

definition step_row_of :: "string \<Rightarrow> StepAttempt \<Rightarrow> step_row" where
  "step_row_of operationID a =
     \<lparr>st_step_id = sa_StepID a, st_operation_id = operationID, st_attempt_no = sa_AttemptNo a,
      st_payload = a, st_updated_at = format_time (sa_UpdatedAt a)\<rparr>"

lemma new_attempt_simps [simp]:
  "sa_StepID (new_attempt stepID kind n now) = stepID"
  "sa_StepKind (new_attempt stepID kind n now) = kind"
  "sa_AttemptNo (new_attempt stepID kind n now) = n"
  "sa_DispatchState (new_attempt stepID kind n now) = NotDispatched"
  "sa_EffectState (new_attempt stepID kind n now) = EffectProvenNotApplied"
  "sa_UpdatedAt (new_attempt stepID kind n now) = now"
  by (simp_all add: new_attempt_def)

lemma PrepareStep_effect:
  assumes "PrepareStep ce operationID stepKind now d = Inr (a, d')"
  shows "\<exists>q r op'. rows_with or_operation_id operationID (v01_operations d) = Some q \<and>
     rows_with it_intent_id (op_IntentID (or_payload q)) (v01_intents d) = Some r \<and>
     stepKind \<notin> set disabled_steps \<and>
     op_Status (or_payload q) \<noteq> OperationUnknown \<and> \<not> IsTerminalOperation (op_Status (or_payload q)) \<and>
     \<not> op_OwnershipReleased (or_payload q) \<and>
     sealed_intent (ce_crypto ce) (ir_Intent (it_payload r)) \<and>
     ir_Status (it_payload r) = IntentConsumed \<and>
     op_IntentDigest (or_payload q) = ci_IntentDigest (ir_Intent (it_payload r)) \<and>
     length (op_Attempts (or_payload q)) < length (ci_Steps (ir_Intent (it_payload r))) \<and>
     ci_Steps (ir_Intent (it_payload r)) ! length (op_Attempts (or_payload q)) = stepKind \<and>
     previous_acknowledged (op_Attempts (or_payload q)) \<and>
     a = new_attempt (NewID ''step'' (ce_random ce 0)) stepKind
           (next_attempt_no stepKind (op_Attempts (or_payload q)) 1) now \<and>
     op' = (or_payload q)\<lparr>op_Attempts := op_Attempts (or_payload q) @ [a], op_UpdatedAt := now\<rparr> \<and>
     rows_with st_step_id (sa_StepID a) (v01_steps d) = None \<and>
     audited (d\<lparr>v01_steps := v01_steps d @ [step_row_of (op_OperationID (or_payload q)) a],
        v01_operations := update_rows or_operation_id (op_OperationID (or_payload q))
           (set_operation_payload op') (v01_operations d)\<rparr>) d'"
  using assms
  by (auto simp: PrepareStep_def getOperationTx_iff Let_def insert_step_iff saveOperationTx_iff
      step_row_of_def)

lemma attempt_index_SomeD:
  "attempt_index stepID xs n = Some i \<Longrightarrow>
     n \<le> i \<and> i - n < length xs \<and> sa_StepID (xs ! (i - n)) = stepID"
  by (induction stepID xs n rule: attempt_index.induct)
     (auto split: if_splits nat.splits simp: nth_Cons' Suc_le_eq diff_Suc)

lemma updateAttempt_effect:
  assumes "updateAttempt ce operationID stepID now mutate eventType d = Inr d'"
  shows "\<exists>q index mutated a op'. rows_with or_operation_id operationID (v01_operations d) = Some q \<and>
     (eventType = ''STEP_DISPATCH_POSSIBLE'' \<longrightarrow>
        \<not> op_OwnershipReleased (or_payload q) \<and> live_operation (op_Status (or_payload q)) \<and>
        (\<exists>r. rows_with it_intent_id (op_IntentID (or_payload q)) (v01_intents d) = Some r \<and>
             it_status r = IntentConsumed)) \<and>
     attempt_index stepID (op_Attempts (or_payload q)) 0 = Some index \<and>
     index < length (op_Attempts (or_payload q)) \<and>
     sa_StepID (op_Attempts (or_payload q) ! index) = stepID \<and>
     mutate (op_Attempts (or_payload q) ! index) = Inr mutated \<and>
     a = mutated\<lparr>sa_UpdatedAt := now\<rparr> \<and>
     op' = settle_operation eventType a ((or_payload q)\<lparr>
             op_Attempts := (op_Attempts (or_payload q))[index := a], op_UpdatedAt := now\<rparr>) \<and>
     audited ((update_step stepID operationID a now d)\<lparr>
        v01_operations := update_rows or_operation_id (op_OperationID op')
           (set_operation_payload op') (v01_operations d)\<rparr>) d'"
proof -
  obtain q where q: "rows_with or_operation_id operationID (v01_operations d) = Some q"
    using assms by (auto simp: updateAttempt_def getOperationTx_iff)
  then obtain index where i: "attempt_index stepID (op_Attempts (or_payload q)) 0 = Some index"
    using assms by (auto simp: updateAttempt_def getOperationTx_def split: option.splits)
  show ?thesis
    using assms q i attempt_index_SomeD [OF i]
    by (auto simp: updateAttempt_def getOperationTx_iff Let_def saveOperationTx_iff
        update_step_def live_iff split: if_splits)
qed

lemma mark_dispatch_iff:
  "mark_dispatch a = Inr b \<longleftrightarrow>
     sa_DispatchState a = NotDispatched \<and> sa_EffectState a = EffectProvenNotApplied \<and>
     b = a\<lparr>sa_DispatchState := DispatchPossible, sa_EffectState := EffectUnknown,
            sa_Attribution := AttributionUnattributed\<rparr>"
  by (auto simp: mark_dispatch_def)

lemma observe_attempt_iff:
  "observe_attempt effect attribution evidence a = Inr b \<longleftrightarrow>
     sa_DispatchState a \<in> {DispatchPossible, Acknowledged} \<and> valid_effect effect \<and>
     b = a\<lparr>sa_EffectState := effect, sa_Attribution := attribution, sa_Evidence := evidence,
            sa_DispatchState := (if attribution = AttributionCorrelated then Acknowledged
                                 else sa_DispatchState a)\<rparr>"
  by (auto simp: observe_attempt_def)

lemma settle_operation_simps [simp]:
  "same_identity op (settle_operation t a op)"
  "op_OperationID (settle_operation t a op) = op_OperationID op"
  "op_Attempts (settle_operation t a op) = op_Attempts op"
  "op_OwnershipReleased (settle_operation t a op) = op_OwnershipReleased op"
  "op_Verification (settle_operation t a op) = op_Verification op"
  by (simp_all add: settle_operation_def Let_def same_identity_def)

lemma settle_operation_status:
  "op_Status (settle_operation t a op) =
     (if sa_EffectState a = EffectOtherObserved then OperationNeedsIntervention
      else if sa_EffectState a = EffectUnknown \<and> t = ''STEP_OBSERVED'' then OperationUnknown
      else op_Status op)"
  by (simp add: settle_operation_def Let_def)

section \<open>Status of an operation\<close>

lemma MarkUnknown_effect:
  assumes "MarkUnknown ce operationID now d = Inr d'"
  shows "\<exists>q op'. rows_with or_operation_id operationID (v01_operations d) = Some q \<and>
     CanTransitionOperation (op_Status (or_payload q)) OperationUnknown \<and>
     op' = (or_payload q)\<lparr>op_Status := OperationUnknown, op_OwnershipReleased := False,
              op_LastError := ErrDispatchOutcomeUnknown, op_UpdatedAt := now\<rparr> \<and>
     audited (d\<lparr>v01_operations := update_rows or_operation_id (op_OperationID (or_payload q))
        (set_operation_payload op') (v01_operations d)\<rparr>) d'"
  using assms by (auto simp: MarkUnknown_def getOperationTx_iff saveOperationTx_iff)

lemma TransitionOperation_effect:
  assumes "TransitionOperation ce operationID to verification released now d = Inr d'"
  shows "\<exists>q op'. rows_with or_operation_id operationID (v01_operations d) = Some q \<and>
     CanTransitionOperation (op_Status (or_payload q)) to \<and>
     (to = OperationSucceeded \<longrightarrow> verification = VerificationPass \<and> released) \<and>
     op' = (or_payload q)\<lparr>op_Status := to, op_Verification := verification, op_UpdatedAt := now,
        op_OwnershipReleased := (to \<in> releasing \<or> op_OwnershipReleased (or_payload q))\<rparr> \<and>
     audited (d\<lparr>v01_operations := update_rows or_operation_id (op_OperationID (or_payload q))
        (set_operation_payload op') (v01_operations d)\<rparr>) d'"
proof -
  obtain q where q: "rows_with or_operation_id operationID (v01_operations d) = Some q"
    using assms by (auto simp: TransitionOperation_def getOperationTx_iff)
  have rel: "(if to = OperationSucceeded \<or> to = OperationFailed \<or> to = OperationAborted \<or>
      to = OperationRolledBack then True else x) = (to \<in> releasing \<or> x)" for x
    by (simp add: releasing_def)
  show ?thesis
    using assms q
    by (auto simp: TransitionOperation_def getOperationTx_iff saveOperationTx_iff rel
        VerificationAllowsSuccess_def)
qed

section \<open>Backups\<close>

lemma insert_backup_iff:
  "insert_backup r d = Inr d' \<longleftrightarrow>
     rows_with bw_backup_id (bw_backup_id r) (v01_backups d) = None \<and>
     rows_with bw_operation_id (bw_operation_id r) (v01_backups d) = None \<and>
     rows_with or_operation_id (bw_operation_id r) (v01_operations d) \<noteq> None \<and>
     d' = d\<lparr>v01_backups := v01_backups d @ [r]\<rparr>"
  by (auto simp: insert_backup_def)

definition backup_row_of :: "BackupRecord \<Rightarrow> backup_row" where
  "backup_row_of rec = \<lparr>bw_backup_id = bk_BackupID rec, bw_operation_id = bk_OperationID rec,
     bw_status = bk_Status rec, bw_payload = rec\<rparr>"

lemma ReserveBackup_effect:
  assumes "ReserveBackup ce rec now d = Inr d'"
  shows "\<exists>q r. rows_with or_operation_id (bk_OperationID rec) (v01_operations d) = Some q \<and>
     \<not> op_OwnershipReleased (or_payload q) \<and> op_Status (or_payload q) = OperationExecuting \<and>
     length (op_Attempts (or_payload q)) = 6 \<and>
     sa_StepID (op_Attempts (or_payload q) ! 5) = bk_StepID rec \<and>
     sa_StepKind (op_Attempts (or_payload q) ! 5) = ''S05_CREATE_BACKUP'' \<and>
     sa_DispatchState (op_Attempts (or_payload q) ! 5) = DispatchPossible \<and>
     rows_with it_intent_id (op_IntentID (or_payload q)) (v01_intents d) = Some r \<and>
     validate_ready (ce_crypto ce) (bk_Ready rec) (so_Enrollment (br_Offline (bk_Ready rec)))
       (ir_Intent (it_payload r)) (or_payload q) now = None \<and>
     reservation_matches (ce_crypto ce) rec (ir_Intent (it_payload r)) now \<and>
     rows_with bw_backup_id (bk_BackupID rec) (v01_backups d) = None \<and>
     rows_with bw_operation_id (bk_OperationID rec) (v01_backups d) = None \<and>
     audited (d\<lparr>v01_backups := v01_backups d @ [backup_row_of rec]\<rparr>) d'"
  using assms
  by (auto simp: ReserveBackup_def getOperationTx_iff Let_def insert_backup_iff backup_row_of_def)

lemma TransitionBackupStatus_effect:
  assumes "TransitionBackupStatus ce backupID to now d = Inr d'"
  shows "\<exists>r. rows_with bw_backup_id backupID (v01_backups d) = Some r \<and>
     backup_allowed (bk_Status (bw_payload r)) to \<and>
     audited (d\<lparr>v01_backups := update_rows bw_backup_id backupID
        (set_backup_payload ((bw_payload r)\<lparr>bk_Status := to\<rparr>)) (v01_backups d)\<rparr>) d'"
  using assms by (auto simp: TransitionBackupStatus_def Let_def update_backup_def)

definition completed_record ::
  "BackupRecord \<Rightarrow> string \<Rightarrow> int \<Rightarrow> BackupReadyEvidence \<Rightarrow> gotime \<Rightarrow> BackupRecord" where
  "completed_record rec digest sz ready now =
     rec\<lparr>bk_Ready := ready, bk_Status := BackupValid, bk_ArchiveSHA256 := digest,
         bk_ArchiveSizeBytes := sz, bk_DigestVerifiedAt := now, bk_CompletedAt := now\<rparr>"

definition acknowledged_attempt :: "string \<Rightarrow> string \<Rightarrow> gotime \<Rightarrow> StepAttempt \<Rightarrow> StepAttempt" where
  "acknowledged_attempt backupID digest now a =
     a\<lparr>sa_DispatchState := Acknowledged, sa_EffectState := EffectExpectedObserved,
       sa_Attribution := AttributionCorrelated,
       sa_Evidence := [''backup:'' @ backupID, ''sha256:'' @ digest], sa_UpdatedAt := now\<rparr>"

lemma CompleteBackup_effect:
  assumes "CompleteBackup ce backupID digest sz ready now d = Inr d'"
  shows "\<exists>b q r a op'. archive_digest_ok digest sz \<and>
     rows_with bw_backup_id backupID (v01_backups d) = Some b \<and>
     bk_Status (bw_payload b) = BackupVerifying \<and>
     rows_with or_operation_id (bk_OperationID (bw_payload b)) (v01_operations d) = Some q \<and>
     op_Status (or_payload q) = OperationExecuting \<and> \<not> op_OwnershipReleased (or_payload q) \<and>
     length (op_Attempts (or_payload q)) = 6 \<and>
     sa_StepID (op_Attempts (or_payload q) ! 5) = bk_StepID (bw_payload b) \<and>
     sa_DispatchState (op_Attempts (or_payload q) ! 5) = DispatchPossible \<and>
     sa_EffectState (op_Attempts (or_payload q) ! 5) = EffectUnknown \<and>
     rows_with it_intent_id (op_IntentID (or_payload q)) (v01_intents d) = Some r \<and>
     validate_ready (ce_crypto ce) ready (so_Enrollment (br_Offline ready))
       (ir_Intent (it_payload r)) (or_payload q) now = None \<and>
     ValidateCompleted (completed_record (bw_payload b) digest sz ready now) = None \<and>
     a = acknowledged_attempt backupID digest now (op_Attempts (or_payload q) ! 5) \<and>
     op' = (or_payload q)\<lparr>op_Attempts := (op_Attempts (or_payload q))[5 := a], op_UpdatedAt := now\<rparr> \<and>
     audited (d\<lparr>v01_backups := update_rows bw_backup_id backupID
          (set_backup_payload (completed_record (bw_payload b) digest sz ready now)) (v01_backups d),
        v01_steps := update_rows st_step_id (sa_StepID a)
          (\<lambda>s. s\<lparr>st_payload := a, st_updated_at := format_time now\<rparr>) (v01_steps d),
        v01_operations := update_rows or_operation_id (op_OperationID (or_payload q))
          (set_operation_payload op') (v01_operations d)\<rparr>) d'"
  using assms
  by (auto simp: CompleteBackup_def getOperationTx_iff Let_def saveOperationTx_iff update_backup_def
      update_step_by_id_def completed_record_def acknowledged_attempt_def)

end
