(* ===== verification/Journal_Invariants.thy ===== *)
theory Journal_Invariants
  imports Journal_Effects
begin

text \<open>
  The journal as a state machine: \<open>journal_step\<close> has one rule per transaction of the store, a
  history is a sequence of such steps from the empty database, and the invariant \<open>journal_ok\<close>
  holds in every state of every history.
\<close>

section \<open>The step relation\<close>

inductive journal_step :: "crypto \<Rightarrow> db \<Rightarrow> db \<Rightarrow> bool" for cr where
  SaveSession: "ce_crypto ce = cr \<Longrightarrow> SaveSession ce scope d = Inr d' \<Longrightarrow> journal_step cr d d'"
| PutIntent: "ce_crypto ce = cr \<Longrightarrow> PutIntent ce rec seen d = Inr (x, d') \<Longrightarrow> journal_step cr d d'"
| ApproveIntent: "ce_crypto ce = cr \<Longrightarrow>
    ApproveIntent ce intentID digest approver osUID now d = Inr (x, d') \<Longrightarrow> journal_step cr d d'"
| RejectIntent: "ce_crypto ce = cr \<Longrightarrow>
    RejectIntent ce intentID digest approver osUID now d = Inr (a, d') \<Longrightarrow> journal_step cr d d'"
| RevokeIntent: "ce_crypto ce = cr \<Longrightarrow>
    RevokeIntent ce intentID digest actor osUID now d = Inr d' \<Longrightarrow> journal_step cr d d'"
| PrepareStep: "ce_crypto ce = cr \<Longrightarrow>
    PrepareStep ce operationID stepKind now d = Inr (sa, d') \<Longrightarrow> journal_step cr d d'"
| MarkDispatchPossible: "ce_crypto ce = cr \<Longrightarrow>
    MarkDispatchPossible ce operationID stepID now d = Inr d' \<Longrightarrow> journal_step cr d d'"
| RecordStepObservation: "ce_crypto ce = cr \<Longrightarrow>
    RecordStepObservation ce operationID stepID effect attribution evidence now d = Inr d' \<Longrightarrow>
    journal_step cr d d'"
| MarkUnknown: "ce_crypto ce = cr \<Longrightarrow> MarkUnknown ce operationID now d = Inr d' \<Longrightarrow> journal_step cr d d'"
| TransitionOperation: "ce_crypto ce = cr \<Longrightarrow>
    TransitionOperation ce operationID to verification released now d = Inr d' \<Longrightarrow> journal_step cr d d'"
| ReserveBackup: "ce_crypto ce = cr \<Longrightarrow> ReserveBackup ce bk now d = Inr d' \<Longrightarrow> journal_step cr d d'"
| TransitionBackupStatus: "ce_crypto ce = cr \<Longrightarrow>
    TransitionBackupStatus ce backupID status now d = Inr d' \<Longrightarrow> journal_step cr d d'"
| CompleteBackup: "ce_crypto ce = cr \<Longrightarrow>
    CompleteBackup ce backupID digest sz ready now d = Inr d' \<Longrightarrow> journal_step cr d d'"

text \<open>A history of the journal, from the database that \<open>initialize\<close> creates.\<close>

definition journal_history :: "crypto \<Rightarrow> db \<Rightarrow> bool" where
  "journal_history cr d \<longleftrightarrow> reachable_by (journal_step cr) empty_db d"

section \<open>Five kinds of change\<close>

text \<open>
  The thirteen transactions change the tables of intents, approvals, operations and steps in
  five ways. \<open>journal_change\<close> forgets everything else; the invariants are shown for it.
\<close>

definition attempt_kept :: "StepAttempt \<Rightarrow> StepAttempt \<Rightarrow> bool" where
  "attempt_kept a b \<longleftrightarrow> sa_StepID b = sa_StepID a \<and> sa_StepKind b = sa_StepKind a \<and>
     sa_AttemptNo b = sa_AttemptNo a"

inductive journal_change :: "crypto \<Rightarrow> db \<Rightarrow> db \<Rightarrow> bool" for cr where
  intents_only:
    "intents_step (v01_intents d) (v01_intents d') \<Longrightarrow> v01_approvals d' = v01_approvals d \<Longrightarrow>
     v01_operations d' = v01_operations d \<Longrightarrow> v01_steps d' = v01_steps d \<Longrightarrow> journal_change cr d d'"
| rejected:
    "intents_step (v01_intents d) (v01_intents d') \<Longrightarrow>
     v01_approvals d' = v01_approvals d @ [new_approval_row a (ap_IntentID a) (ap_IntentDigest a)] \<Longrightarrow>
     rows_with av_approval_id (ap_ApprovalID a) (v01_approvals d) = None \<Longrightarrow>
     rows_with av_intent_id (ap_IntentID a) (v01_approvals d) = None \<Longrightarrow>
     v01_operations d' = v01_operations d \<Longrightarrow> v01_steps d' = v01_steps d \<Longrightarrow> journal_change cr d d'"
| approved:
    "intents_step (v01_intents d) (v01_intents d') \<Longrightarrow>
     v01_approvals d' = v01_approvals d @ [new_approval_row a (ap_IntentID a) (ap_IntentDigest a)] \<Longrightarrow>
     rows_with av_approval_id (ap_ApprovalID a) (v01_approvals d) = None \<Longrightarrow>
     rows_with av_intent_id (ap_IntentID a) (v01_approvals d) = None \<Longrightarrow>
     ap_Decision a = ''APPROVED'' \<Longrightarrow>
     rows_with it_intent_id (ap_IntentID a) (v01_intents d) = Some r \<Longrightarrow>
     sealed_intent cr (ir_Intent (it_payload r)) \<Longrightarrow>
     ci_IntentDigest (ir_Intent (it_payload r)) = ap_IntentDigest a \<Longrightarrow>
     op_IntentID op = ap_IntentID a \<Longrightarrow> op_IntentDigest op = ap_IntentDigest a \<Longrightarrow>
     op_EnrollmentID op = ci_EnrollmentID (ir_Intent (it_payload r)) \<Longrightarrow>
     op_Attempts op = [] \<Longrightarrow> op_Status op = OperationQueued \<Longrightarrow>
     v01_operations d' = v01_operations d @ [operation_row_of op] \<Longrightarrow>
     operations_step (v01_operations d) (v01_operations d') \<Longrightarrow>
     rows_with or_operation_id (op_OperationID op) (v01_operations d) = None \<Longrightarrow>
     v01_steps d' = v01_steps d \<Longrightarrow> journal_change cr d d'"
| status_changed:
    "intents_step (v01_intents d) (v01_intents d') \<Longrightarrow> v01_approvals d' = v01_approvals d \<Longrightarrow>
     rows_with or_operation_id k (v01_operations d) = Some q \<Longrightarrow>
     operation_change (or_payload q) op' \<Longrightarrow> op_Attempts op' = op_Attempts (or_payload q) \<Longrightarrow>
     v01_operations d' = update_rows or_operation_id k (set_operation_payload op') (v01_operations d) \<Longrightarrow>
     v01_steps d' = v01_steps d \<Longrightarrow> journal_change cr d d'"
| step_prepared:
    "v01_intents d' = v01_intents d \<Longrightarrow> v01_approvals d' = v01_approvals d \<Longrightarrow>
     rows_with or_operation_id k (v01_operations d) = Some q \<Longrightarrow>
     operation_change (or_payload q) op' \<Longrightarrow>
     op_Attempts op' = op_Attempts (or_payload q) @ [a] \<Longrightarrow>
     rows_with it_intent_id (op_IntentID (or_payload q)) (v01_intents d) = Some r \<Longrightarrow>
     length (op_Attempts (or_payload q)) < length (ci_Steps (ir_Intent (it_payload r))) \<Longrightarrow>
     ci_Steps (ir_Intent (it_payload r)) ! length (op_Attempts (or_payload q)) = sa_StepKind a \<Longrightarrow>
     sa_StepKind a \<notin> set disabled_steps \<Longrightarrow>
     rows_with st_step_id (sa_StepID a) (v01_steps d) = None \<Longrightarrow>
     v01_operations d' = update_rows or_operation_id k (set_operation_payload op') (v01_operations d) \<Longrightarrow>
     v01_steps d' = v01_steps d @ [step_row_of k a] \<Longrightarrow> journal_change cr d d'"
| attempt_changed:
    "v01_intents d' = v01_intents d \<Longrightarrow> v01_approvals d' = v01_approvals d \<Longrightarrow>
     rows_with or_operation_id k (v01_operations d) = Some q \<Longrightarrow>
     operation_change (or_payload q) op' \<Longrightarrow>
     i < length (op_Attempts (or_payload q)) \<Longrightarrow>
     op_Attempts op' = (op_Attempts (or_payload q))[i := a] \<Longrightarrow>
     attempt_kept (op_Attempts (or_payload q) ! i) a \<Longrightarrow>
     v01_operations d' = update_rows or_operation_id k (set_operation_payload op') (v01_operations d) \<Longrightarrow>
     g = (\<lambda>s. st_step_id s = sa_StepID a \<and> st_operation_id s = k) \<or> g = (\<lambda>s. st_step_id s = sa_StepID a) \<Longrightarrow>
     v01_steps d' = map (\<lambda>s. if g s then s\<lparr>st_payload := a, st_updated_at := format_time now\<rparr> else s)
        (v01_steps d) \<Longrightarrow> journal_change cr d d'"

section \<open>The invariant\<close>

definition approvals_ok :: "approval_row list \<Rightarrow> bool" where
  "approvals_ok t \<longleftrightarrow> approvals_by_id.unique t \<and> approvals_by_intent.unique t \<and>
     (\<forall>r \<in> set t. r = new_approval_row (av_payload r) (ap_IntentID (av_payload r))
                       (ap_IntentDigest (av_payload r)))"

text \<open>Every operation stands on an approval of exactly its frozen, sealed intent.\<close>

definition approved_by :: "crypto \<Rightarrow> db \<Rightarrow> Operation \<Rightarrow> bool" where
  "approved_by cr d op \<longleftrightarrow>
     (\<exists>a r. rows_with av_intent_id (op_IntentID op) (v01_approvals d) = Some a \<and>
        ap_Decision (av_payload a) = ''APPROVED'' \<and>
        ap_IntentDigest (av_payload a) = op_IntentDigest op \<and>
        rows_with it_intent_id (op_IntentID op) (v01_intents d) = Some r \<and>
        sealed_intent cr (ir_Intent (it_payload r)) \<and>
        ci_IntentDigest (ir_Intent (it_payload r)) = op_IntentDigest op \<and>
        ci_EnrollmentID (ir_Intent (it_payload r)) = op_EnrollmentID op \<and>
        map sa_StepKind (op_Attempts op) =
          take (length (op_Attempts op)) (ci_Steps (ir_Intent (it_payload r))) \<and>
        length (op_Attempts op) \<le> length (ci_Steps (ir_Intent (it_payload r))) \<and>
        (\<forall>s \<in> set (op_Attempts op). sa_StepKind s \<notin> set disabled_steps))"

text \<open>The table of steps holds exactly the attempts of the operations, in order.\<close>

definition steps_of :: "step_row list \<Rightarrow> string \<Rightarrow> StepAttempt list" where
  "steps_of t operationID = map st_payload (filter (\<lambda>s. st_operation_id s = operationID) t)"

definition steps_ok :: "operation_row list \<Rightarrow> step_row list \<Rightarrow> bool" where
  "steps_ok ops t \<longleftrightarrow> steps_by_id.unique t \<and>
     (\<forall>s \<in> set t. st_step_id s = sa_StepID (st_payload s) \<and> st_operation_id s \<in> or_operation_id ` set ops) \<and>
     (\<forall>q \<in> set ops. steps_of t (or_operation_id q) = op_Attempts (or_payload q))"

definition journal_ok :: "crypto \<Rightarrow> db \<Rightarrow> bool" where
  "journal_ok cr d \<longleftrightarrow> intents_ok (v01_intents d) \<and> operations_ok (v01_operations d) \<and>
     approvals_ok (v01_approvals d) \<and>
     (\<forall>q \<in> set (v01_operations d). approved_by cr d (or_payload q)) \<and>
     steps_ok (v01_operations d) (v01_steps d)"

section \<open>Changes keep the invariant\<close>

lemma change_intents: "journal_change cr d d' \<Longrightarrow> intents_step (v01_intents d) (v01_intents d')"
  by (auto elim!: journal_change.cases intro: intents_same)

lemma change_operations: "journal_change cr d d' \<Longrightarrow> operations_step (v01_operations d) (v01_operations d')"
  by (erule journal_change.cases) (auto intro: operations_same operations_save)

lemma new_approval_row_simps [simp]:
  "av_approval_id (new_approval_row a i g) = ap_ApprovalID a"
  "av_intent_id (new_approval_row a i g) = i" "av_payload (new_approval_row a i g) = a"
  by (simp_all add: new_approval_row_def)

lemma approvals_ok_insert:
  assumes "approvals_ok t" "rows_with av_approval_id (ap_ApprovalID a) t = None"
    "rows_with av_intent_id (ap_IntentID a) t = None"
  shows "approvals_ok (t @ [new_approval_row a (ap_IntentID a) (ap_IntentDigest a)])"
proof -
  note t = assms(1) [unfolded approvals_ok_def]
  then have "\<forall>r \<in> set (t @ [new_approval_row a (ap_IntentID a) (ap_IntentDigest a)]).
      r = new_approval_row (av_payload r) (ap_IntentID (av_payload r)) (ap_IntentDigest (av_payload r))"
    by simp
  with t assms(2,3) show ?thesis
    unfolding approvals_ok_def
    by (simp del: set_append add: approvals_by_id.unique_insert approvals_by_intent.unique_insert)
qed

lemma change_approvals:
  "journal_change cr d d' \<Longrightarrow> approvals_ok (v01_approvals d) \<Longrightarrow> approvals_ok (v01_approvals d')"
  by (erule journal_change.cases) (simp_all add: approvals_ok_insert)

definition lookups_kept :: "approval_row list \<Rightarrow> approval_row list \<Rightarrow> bool" where
  "lookups_kept t t' \<longleftrightarrow>
     (\<forall>k a. rows_with av_intent_id k t = Some a \<longrightarrow> rows_with av_intent_id k t' = Some a)"

lemma change_lookups: "journal_change cr d d' \<Longrightarrow> lookups_kept (v01_approvals d) (v01_approvals d')"
  by (erule journal_change.cases) (auto simp: lookups_kept_def rows_with_append)

lemma approved_by_kept:
  assumes "approved_by cr d op" "lookups_kept (v01_approvals d) (v01_approvals d')"
    "intent_history (v01_intents d) (v01_intents d')" "same_identity op op'"
    "map sa_StepKind (op_Attempts op') = map sa_StepKind (op_Attempts op)"
  shows "approved_by cr d' op'"
proof -
  obtain a r where ar: "rows_with av_intent_id (op_IntentID op) (v01_approvals d) = Some a"
      "rows_with it_intent_id (op_IntentID op) (v01_intents d) = Some r"
      "ap_Decision (av_payload a) = ''APPROVED''" "ap_IntentDigest (av_payload a) = op_IntentDigest op"
      "sealed_intent cr (ir_Intent (it_payload r))"
      "ci_IntentDigest (ir_Intent (it_payload r)) = op_IntentDigest op"
      "ci_EnrollmentID (ir_Intent (it_payload r)) = op_EnrollmentID op"
      "map sa_StepKind (op_Attempts op) = take (length (op_Attempts op)) (ci_Steps (ir_Intent (it_payload r)))"
      "length (op_Attempts op) \<le> length (ci_Steps (ir_Intent (it_payload r)))"
      "\<forall>s \<in> set (op_Attempts op). sa_StepKind s \<notin> set disabled_steps"
    using assms(1) by (auto simp: approved_by_def)
  obtain r' where r': "rows_with it_intent_id (op_IntentID op) (v01_intents d') = Some r'"
      "ir_Intent (it_payload r') = ir_Intent (it_payload r)"
    using assms(3) ar(2) by (auto simp: intent_history_def)
  have a': "rows_with av_intent_id (op_IntentID op) (v01_approvals d') = Some a"
    using assms(2) ar(1) by (auto simp: lookups_kept_def)
  have len: "length (op_Attempts op') = length (op_Attempts op)"
    using map_eq_imp_length_eq [OF assms(5)] .
  have "sa_StepKind ` set (op_Attempts op') = sa_StepKind ` set (op_Attempts op)"
    using assms(5) by (metis list.set_map)
  then have "\<forall>s \<in> set (op_Attempts op'). sa_StepKind s \<notin> set disabled_steps"
    using ar(10) by (metis image_iff)
  then show ?thesis
    unfolding approved_by_def using a' r' ar assms(4,5) len
    by (intro exI [of _ a] exI [of _ r']) (simp add: same_identity_def)
qed

lemma approved_by_prepared:
  assumes "approved_by cr d op" "same_identity op op'"
    "op_Attempts op' = op_Attempts op @ [a]"
    "rows_with it_intent_id (op_IntentID op) (v01_intents d) = Some r"
    "length (op_Attempts op) < length (ci_Steps (ir_Intent (it_payload r)))"
    "ci_Steps (ir_Intent (it_payload r)) ! length (op_Attempts op) = sa_StepKind a"
    "sa_StepKind a \<notin> set disabled_steps"
    "v01_approvals d' = v01_approvals d" "v01_intents d' = v01_intents d"
  shows "approved_by cr d' op'"
  using assms by (auto simp: approved_by_def same_identity_def take_Suc_conv_app_nth)

lemma approved_by_same_tables:
  "v01_approvals d' = v01_approvals d \<Longrightarrow> v01_intents d' = v01_intents d \<Longrightarrow>
     approved_by cr d' op = approved_by cr d op"
  by (simp add: approved_by_def)

lemma change_approved:
  assumes "journal_change cr d d'" "\<forall>q \<in> set (v01_operations d). approved_by cr d (or_payload q)"
    "operations_ok (v01_operations d)"
  shows "\<forall>q \<in> set (v01_operations d'). approved_by cr d' (or_payload q)"
proof -
  note kept = approved_by_kept [OF _ change_lookups [OF assms(1)]
      intents_step_history [OF change_intents [OF assms(1)]]]
  have old: "\<forall>q \<in> set (v01_operations d). approved_by cr d' (or_payload q)"
    using assms(2) by (auto intro!: kept)
  have u: "operations_by_id.unique (v01_operations d)"
    using assms(3) by (simp add: operations_ok_def)
  have save: ?thesis
    if "rows_with or_operation_id k (v01_operations d) = Some q"
       "v01_operations d' = update_rows or_operation_id k (set_operation_payload op') (v01_operations d)"
       "approved_by cr d' op'" for k q op'
    unfolding that(2) using that(3) by (intro operations_by_id.update_pred [OF u that(1) old]) simp
  from assms(1) show ?thesis
  proof (cases rule: journal_change.cases)
    case (approved a r op)
    obtain r' where r': "rows_with it_intent_id (ap_IntentID a) (v01_intents d') = Some r'"
        "ir_Intent (it_payload r') = ir_Intent (it_payload r)"
      using intents_step_history [OF approved(1)] approved(6) unfolding intent_history_def by blast
    from approved r' have "approved_by cr d' (or_payload (operation_row_of op))"
      by (simp add: approved_by_def rows_with_append)
    with old approved show ?thesis by simp
  next
    case (status_changed k q op')
    then show ?thesis
      using assms(2) rows_with_SomeD [OF status_changed(3)]
      by (intro save [OF status_changed(3,6)] kept) (auto dest: operation_change_identity)
  next
    case (step_prepared k q op' a r)
    then show ?thesis
      using assms(2) rows_with_SomeD [OF step_prepared(3)]
      by (intro save [OF step_prepared(3,11)] approved_by_prepared [of cr d "or_payload q" op' a r])
         (auto dest: operation_change_identity)
  next
    case (attempt_changed k q op' i a g now)
    then show ?thesis
      using assms(2) rows_with_SomeD [OF attempt_changed(3)]
      by (intro save [OF attempt_changed(3,8)] kept)
         (auto dest: operation_change_identity simp: attempt_kept_def map_update_same)
  qed (use old in auto)
qed

lemma map_replace_unique:
  assumes "distinct (map f xs)" "i < length xs" "f (xs ! i) = k"
  shows "map (\<lambda>x. if f x = k then a else g x) xs = (map g xs)[i := a]"
proof (rule nth_equalityI)
  fix j
  assume "j < length (map (\<lambda>x. if f x = k then a else g x) xs)"
  then show "map (\<lambda>x. if f x = k then a else g x) xs ! j = (map g xs)[i := a] ! j"
    using assms nth_eq_iff_index_eq [OF assms(1), of i j] by (auto simp: nth_list_update)
qed simp

lemma distinct_map_filter: "distinct (map f xs) \<Longrightarrow> distinct (map f (filter P xs))"
  by (induction xs) auto

lemma steps_ok_rewrite:
  assumes "steps_ok ops t" "q \<in> set ops" "i < length (op_Attempts (or_payload q))"
    "sa_StepID (op_Attempts (or_payload q) ! i) = sa_StepID a"
    "g = (\<lambda>s. st_step_id s = sa_StepID a \<and> st_operation_id s = or_operation_id q) \<or>
     g = (\<lambda>s. st_step_id s = sa_StepID a)"
    "t' = map (\<lambda>s. if g s then s\<lparr>st_payload := a, st_updated_at := u\<rparr> else s) t"
  shows "steps_of t' (or_operation_id q) = (op_Attempts (or_payload q))[i := a]"
    and "o_id \<noteq> or_operation_id q \<Longrightarrow> steps_of t' o_id = steps_of t o_id"
    and "\<forall>s \<in> set t'. st_step_id s = sa_StepID (st_payload s) \<and> st_operation_id s \<in> or_operation_id ` set ops"
    and "steps_by_id.unique t'"
proof -
  let ?L = "filter (\<lambda>s. st_operation_id s = or_operation_id q) t"
  have u: "steps_by_id.unique t" and mirror: "\<forall>s \<in> set t. st_step_id s = sa_StepID (st_payload s)"
    and att: "map st_payload ?L = op_Attempts (or_payload q)"
    using assms(1,2) by (auto simp: steps_ok_def steps_of_def)
  have len: "i < length ?L" using assms(3) att by (metis length_map)
  have mem: "?L ! i \<in> set t" "st_operation_id (?L ! i) = or_operation_id q"
    using nth_mem [OF len] by auto
  have idx: "st_step_id (?L ! i) = sa_StepID a"
    using mirror mem(1) assms(4) att len by (metis nth_map)
  have commute: "steps_of t' o_id = map (\<lambda>s. if g s then a else st_payload s)
      (filter (\<lambda>s. st_operation_id s = o_id) t)" for o_id
    unfolding assms(6) steps_of_def by (induction t) auto
  have same: "map (\<lambda>s. if g s then a else st_payload s) ?L =
      map (\<lambda>s. if st_step_id s = sa_StepID a then a else st_payload s) ?L"
    using assms(5) by auto
  show "steps_of t' (or_operation_id q) = (op_Attempts (or_payload q))[i := a]"
    unfolding commute same att [symmetric]
    by (rule map_replace_unique [of st_step_id ?L i, OF _ len idx])
       (use u in \<open>simp add: steps_by_id.unique_def distinct_map_filter\<close>)
  have other: "\<not> g s" if "s \<in> set t" "st_operation_id s \<noteq> or_operation_id q" for s
    using assms(5) that mem idx steps_by_id.unique_eqD [OF u that(1) mem(1)] by auto
  show "steps_of t' o_id = steps_of t o_id" if "o_id \<noteq> or_operation_id q" for o_id
  proof -
    have "steps_of t' o_id = map st_payload (filter (\<lambda>s. st_operation_id s = o_id) t)"
      unfolding commute [of o_id] using that other by (intro map_cong) auto
    then show ?thesis by (simp add: steps_of_def)
  qed
  show "\<forall>s \<in> set t'. st_step_id s = sa_StepID (st_payload s) \<and> st_operation_id s \<in> or_operation_id ` set ops"
    using assms(1,2,5) unfolding assms(6) steps_ok_def by auto
  have "map st_step_id t' = map st_step_id t"
    unfolding assms(6) by (induction t) auto
  then show "steps_by_id.unique t'"
    using u unfolding steps_by_id.unique_def by simp
qed

lemma steps_ok_save:
  assumes "operations_by_id.unique ops" "rows_with or_operation_id k ops = Some q"
    "ops' = update_rows or_operation_id k (set_operation_payload op') ops"
    "steps_by_id.unique t'"
    "\<forall>s \<in> set t'. st_step_id s = sa_StepID (st_payload s) \<and> st_operation_id s \<in> or_operation_id ` set ops"
    "steps_of t' k = op_Attempts op'" "\<forall>p \<in> set ops. or_operation_id p \<noteq> k \<longrightarrow>
       steps_of t' (or_operation_id p) = op_Attempts (or_payload p)"
  shows "steps_ok ops' t'"
proof -
  have ids: "or_operation_id ` set ops' = or_operation_id ` set ops"
    using operations_by_id.map_key_update [of "set_operation_payload op'" or_operation_id k ops]
    unfolding assms(3) by (metis list.set_map set_operation_payload_keys(1))
  have "\<forall>p \<in> set ops'. steps_of t' (or_operation_id p) = op_Attempts (or_payload p)"
    unfolding assms(3) set_update_rows using assms(6,7) by auto
  then show ?thesis
    using assms(4,5) ids by (simp add: steps_ok_def)
qed

lemma steps_of_append [simp]:
  "steps_of (t @ [step_row_of k a]) o_id = steps_of t o_id @ (if o_id = k then [a] else [])"
  by (simp add: steps_of_def step_row_of_def)

lemma step_row_of_simps [simp]:
  "st_step_id (step_row_of k a) = sa_StepID a" "st_operation_id (step_row_of k a) = k"
  "st_payload (step_row_of k a) = a"
  by (simp_all add: step_row_of_def)

lemma change_steps:
  assumes "journal_change cr d d'" "steps_ok (v01_operations d) (v01_steps d)"
    "operations_ok (v01_operations d)"
  shows "steps_ok (v01_operations d') (v01_steps d')"
proof -
  have u: "operations_by_id.unique (v01_operations d)"
    using assms(3) by (simp add: operations_ok_def)
  note s = assms(2) [unfolded steps_ok_def]
  from assms(1) show ?thesis
  proof (cases rule: journal_change.cases)
    case (approved a r op)
    have "op_OperationID op \<notin> or_operation_id ` set (v01_operations d)"
      using approved(16) by (simp add: rows_with_None_iff)
    then have "filter (\<lambda>s. st_operation_id s = op_OperationID op) (v01_steps d) = []"
      using s unfolding filter_empty_conv by metis
    with s approved show ?thesis by (simp add: steps_ok_def steps_of_def)
  next
    case (status_changed k q op')
    then show ?thesis
      using s rows_with_SomeD [OF status_changed(3)]
      by (intro steps_ok_save [OF u status_changed(3,6)]) auto
  next
    case (step_prepared k q op' a r)
    then show ?thesis
      using s rows_with_SomeD [OF step_prepared(3)] operation_change_identity [OF step_prepared(4)]
      by (intro steps_ok_save [OF u step_prepared(3,11)])
         (auto intro!: steps_by_id.unique_insert)
  next
    case (attempt_changed k q op' i a g now)
    note q = rows_with_SomeD [OF attempt_changed(3)]
    have id: "sa_StepID (op_Attempts (or_payload q) ! i) = sa_StepID a"
      using attempt_changed(7) by (simp add: attempt_kept_def)
    have g: "g = (\<lambda>s. st_step_id s = sa_StepID a \<and> st_operation_id s = or_operation_id q) \<or>
        g = (\<lambda>s. st_step_id s = sa_StepID a)"
      using attempt_changed(9) q by simp
    note rw = steps_ok_rewrite [OF assms(2) conjunct1 [OF q] attempt_changed(5) id g attempt_changed(10)]
    show ?thesis
    proof (rule steps_ok_save [OF u attempt_changed(3,8) rw(4,3)])
      show "steps_of (v01_steps d') k = op_Attempts op'"
        using rw(1) q attempt_changed(6) by simp
      show "\<forall>p \<in> set (v01_operations d). or_operation_id p \<noteq> k \<longrightarrow>
          steps_of (v01_steps d') (or_operation_id p) = op_Attempts (or_payload p)"
        using rw(2) q s by metis
    qed
  qed (use assms(2) in auto)
qed

lemma journal_change_ok:
  assumes "journal_change cr d d'" "journal_ok cr d"
  shows "journal_ok cr d'"
  using assms change_intents [OF assms(1)] change_operations [OF assms(1)]
    change_approvals [OF assms(1)] change_approved [OF assms(1)] change_steps [OF assms(1)]
  by (simp add: journal_ok_def intents_step_ok operations_step_ok)

section \<open>The transactions are changes\<close>

lemma journal_ok_operation:
  assumes "journal_ok cr d" "rows_with or_operation_id k (v01_operations d) = Some q"
  shows "op_OperationID (or_payload q) = k"
    "live_operation (op_Status (or_payload q)) \<Longrightarrow> \<not> op_OwnershipReleased (or_payload q)"
proof -
  have "operation_row_ok q" "or_operation_id q = k"
    using assms rows_with_SomeD [OF assms(2)] by (auto simp: journal_ok_def operations_ok_def)
  then show "op_OperationID (or_payload q) = k"
    "live_operation (op_Status (or_payload q)) \<Longrightarrow> \<not> op_OwnershipReleased (or_payload q)"
    using operation_row_okD(1,6) by auto
qed

lemma journal_ok_intent:
  assumes "journal_ok cr d" "rows_with it_intent_id k (v01_intents d) = Some r"
  shows "ci_IntentID (ir_Intent (it_payload r)) = k" "it_status r = ir_Status (it_payload r)"
proof -
  have "intent_row_ok r" "it_intent_id r = k"
    using assms rows_with_SomeD [OF assms(2)] by (auto simp: journal_ok_def intents_ok_def)
  then show "ci_IntentID (ir_Intent (it_payload r)) = k" "it_status r = ir_Status (it_payload r)"
    using intent_row_okD(1,3) by auto
qed

lemma unchanged_change:
  "v01_intents d' = v01_intents d \<Longrightarrow> v01_approvals d' = v01_approvals d \<Longrightarrow>
   v01_operations d' = v01_operations d \<Longrightarrow> v01_steps d' = v01_steps d \<Longrightarrow> journal_change cr d d'"
  by (rule intents_only) (simp_all add: intents_same)

lemma SaveSession_change:
  assumes "SaveSession ce scope d = Inr d'"
  shows "journal_change cr d d'"
  using audited_tables [OF conjunct2 [OF conjunct2 [OF SaveSession_effect [OF assms]]]]
  by (simp add: unchanged_change)

lemma PutIntent_change:
  assumes "PutIntent ce rec seen d = Inr (x, d')"
  shows "journal_change cr d d'"
proof -
  obtain stored created where x: "x = (stored, created)" by (cases x)
  note e = PutIntent_effect [OF assms [unfolded x]]
  show ?thesis
  proof (cases created)
    case True
    with e audited_tables [of "d\<lparr>v01_intents := v01_intents d @ [new_intent_row rec]\<rparr>" d']
    show ?thesis by (intro intents_only) (auto intro: intents_freeze)
  qed (use e in \<open>auto intro: unchanged_change\<close>)
qed

lemma ApproveIntent_change:
  assumes "ApproveIntent ce intentID digest approver osUID now d = Inr (x, d')"
    "ce_crypto ce = cr" "journal_ok cr d"
  shows "journal_change cr d d'"
proof -
  obtain a op where x: "x = (a, op)" by (cases x)
  from ApproveIntent_effect [OF assms(1) [unfolded x]] show ?thesis
  proof (elim disjE conjE exE)
    fix r
    assume r: "rows_with it_intent_id intentID (v01_intents d) = Some r"
      "ir_Status (it_payload r) = IntentAwaitingApproval"
      and free: "activeOwner (ci_EnrollmentID (ir_Intent (it_payload r))) d = NoErrorCode"
      and a: "a = decision_approval ce intentID digest approver osUID ''APPROVED'' now"
      and op: "op = approved_operation ce intentID digest now (ir_Intent (it_payload r))"
      and fresh: "rows_with or_operation_id (op_OperationID op) (v01_operations d) = None"
        "rows_with or_intent_id intentID (v01_operations d) = None"
        "rows_with av_approval_id (ap_ApprovalID a) (v01_approvals d) = None"
        "rows_with av_intent_id intentID (v01_approvals d) = None"
      and s: "sealed_intent (ce_crypto ce) (ir_Intent (it_payload r))"
        "ci_IntentDigest (ir_Intent (it_payload r)) = digest"
      and aud: "audited (d\<lparr>v01_approvals := v01_approvals d @ [new_approval_row a intentID digest],
             v01_operations := v01_operations d @ [operation_row_of op],
             v01_intents := update_rows it_intent_id intentID
               (set_intent_payload (decided IntentConsumed now (it_payload r))) (v01_intents d)\<rparr>) d'"
    note t = audited_tables [OF aud, simplified]
    have ids: "ap_IntentID a = intentID" "ap_IntentDigest a = digest" "ap_Decision a = ''APPROVED''"
        "op_IntentID op = intentID" "op_IntentDigest op = digest" "op_Attempts op = []"
        "op_Status op = OperationQueued" "\<not> op_OwnershipReleased op"
        "op_EnrollmentID op = ci_EnrollmentID (ir_Intent (it_payload r))"
      by (simp_all add: a op decision_approval_def approved_operation_def)
    have "intents_step (v01_intents d) (v01_intents d')"
      unfolding t using r by (auto intro!: intents_decide simp: intent_decision_def)
    moreover have "operations_step (v01_operations d) (v01_operations d')"
      unfolding t using fresh free ids by (intro operations_acquire) (auto simp: activeOwner_free_iff)
    ultimately show ?thesis
      using fresh r s ids assms(2) by (intro approved [of d d' a r cr op]) (simp_all add: t)
  qed (auto intro: unchanged_change)
qed

lemma RejectIntent_change:
  assumes "RejectIntent ce intentID digest approver osUID now d = Inr (a, d')" "journal_ok cr d"
  shows "journal_change cr d d'"
  using RejectIntent_effect [OF assms(1)]
proof (elim disjE conjE exE)
  fix r
  assume r: "rows_with it_intent_id intentID (v01_intents d) = Some r"
    "ir_Status (it_payload r) = IntentAwaitingApproval"
    and a: "a = decision_approval ce intentID digest approver osUID ''REJECTED'' now"
    and fresh: "rows_with av_approval_id (ap_ApprovalID a) (v01_approvals d) = None"
      "rows_with av_intent_id intentID (v01_approvals d) = None"
    and aud: "audited (d\<lparr>v01_approvals := v01_approvals d @ [new_approval_row a intentID digest],
             v01_intents := update_rows it_intent_id (ci_IntentID (ir_Intent (it_payload r)))
               (set_intent_payload (decided IntentRejected now (it_payload r))) (v01_intents d)\<rparr>) d'"
  note t = audited_tables [OF aud, simplified]
  have ids: "ap_IntentID a = intentID" "ap_IntentDigest a = digest"
    by (simp_all add: a decision_approval_def)
  have "intents_step (v01_intents d) (v01_intents d')"
    unfolding t using r journal_ok_intent(1) [OF assms(2) r(1)]
    by (auto intro!: intents_decide simp: intent_decision_def)
  with fresh ids show ?thesis
    by (intro rejected [of d d' a]) (simp_all add: t)
qed (auto intro: unchanged_change)

lemma RevokeIntent_change:
  assumes "RevokeIntent ce intentID digest actor osUID now d = Inr d'" "journal_ok cr d"
  shows "journal_change cr d d'"
proof -
  obtain r where r: "rows_with it_intent_id intentID (v01_intents d) = Some r"
      "intent_decision (ir_Status (it_payload r)) IntentRevoked"
    and aud: "audited (d\<lparr>v01_intents := update_rows it_intent_id (ci_IntentID (ir_Intent (it_payload r)))
               (set_intent_payload (decided IntentRevoked now (it_payload r))) (v01_intents d),
        v01_operations :=
          (case rows_with or_intent_id intentID (v01_operations d) of
             None \<Rightarrow> v01_operations d
           | Some q \<Rightarrow>
               if op_Status (or_payload q) = OperationQueued \<and> op_Attempts (or_payload q) = []
               then update_rows or_operation_id (op_OperationID (or_payload q))
                      (set_operation_payload (aborted_operation now (or_payload q))) (v01_operations d)
               else v01_operations d)\<rparr>) d'"
    using RevokeIntent_effect [OF assms(1)] by blast
  note t = audited_tables [OF aud, simplified]
  have i: "intents_step (v01_intents d) (v01_intents d')"
    unfolding t using r journal_ok_intent(1) [OF assms(2) r(1)] by (auto intro!: intents_decide)
  show ?thesis
  proof (cases "v01_operations d' = v01_operations d")
    case True
    with i t show ?thesis by (intro intents_only) simp_all
  next
    case False
    then obtain q where q: "rows_with or_intent_id intentID (v01_operations d) = Some q"
        "op_Status (or_payload q) = OperationQueued"
        "v01_operations d' = update_rows or_operation_id (op_OperationID (or_payload q))
           (set_operation_payload (aborted_operation now (or_payload q))) (v01_operations d)"
      unfolding t by (auto split: option.splits if_splits)
    have "q \<in> set (v01_operations d)" "operation_row_ok q"
      using rows_with_SomeD [OF q(1)] assms(2) by (auto simp: journal_ok_def operations_ok_def)
    then have "rows_with or_operation_id (op_OperationID (or_payload q)) (v01_operations d) = Some q"
      using assms(2) operation_row_okD(1) operations_by_id.lookup_member
      by (metis journal_ok_def operations_ok_def)
    then show ?thesis
      using i t(3,5) q(2,3)
      by (intro status_changed [of d d' _ q] change_status)
         (simp_all add: same_identity_def aborted_operation_def releasing_def)
  qed
qed

lemma operation_statusI:
  assumes "journal_ok cr d" "rows_with or_operation_id operationID (v01_operations d) = Some q"
    "same_identity (or_payload q) op'" "CanTransitionOperation (op_Status (or_payload q)) (op_Status op')"
    "op_Attempts op' = op_Attempts (or_payload q)" "op_OwnershipReleased op' \<longleftrightarrow> op_Status op' \<in> releasing"
    "op_Status op' = OperationSucceeded \<longrightarrow> op_Verification op' = VerificationPass"
    "audited (d\<lparr>v01_operations := update_rows or_operation_id (op_OperationID (or_payload q))
        (set_operation_payload op') (v01_operations d)\<rparr>) d'"
  shows "journal_change cr d d'"
  using assms(2-7) audited_tables [OF assms(8), simplified] journal_ok_operation(1) [OF assms(1,2)]
  by (intro status_changed [of d d' operationID q op'] change_status) (simp_all add: intents_same)

lemma MarkUnknown_change:
  assumes "MarkUnknown ce operationID now d = Inr d'" "journal_ok cr d"
  shows "journal_change cr d d'"
proof -
  obtain q op' where "rows_with or_operation_id operationID (v01_operations d) = Some q"
      "CanTransitionOperation (op_Status (or_payload q)) OperationUnknown"
      "op' = (or_payload q)\<lparr>op_Status := OperationUnknown, op_OwnershipReleased := False,
              op_LastError := ErrDispatchOutcomeUnknown, op_UpdatedAt := now\<rparr>"
      "audited (d\<lparr>v01_operations := update_rows or_operation_id (op_OperationID (or_payload q))
        (set_operation_payload op') (v01_operations d)\<rparr>) d'"
    using MarkUnknown_effect [OF assms(1)] by blast
  then show ?thesis
    by (intro operation_statusI [OF assms(2), of operationID q op'])
       (simp_all add: same_identity_def releasing_def)
qed

lemma TransitionOperation_change:
  assumes "TransitionOperation ce operationID to verification released now d = Inr d'" "journal_ok cr d"
  shows "journal_change cr d d'"
proof -
  obtain q op' where q: "rows_with or_operation_id operationID (v01_operations d) = Some q"
      "CanTransitionOperation (op_Status (or_payload q)) to"
      "to = OperationSucceeded \<longrightarrow> verification = VerificationPass \<and> released"
      "op' = (or_payload q)\<lparr>op_Status := to, op_Verification := verification, op_UpdatedAt := now,
        op_OwnershipReleased := (to \<in> releasing \<or> op_OwnershipReleased (or_payload q))\<rparr>"
      "audited (d\<lparr>v01_operations := update_rows or_operation_id (op_OperationID (or_payload q))
        (set_operation_payload op') (v01_operations d)\<rparr>) d'"
    using TransitionOperation_effect [OF assms(1)] by blast
  have "live_operation (op_Status (or_payload q))"
    using q(2) by (auto simp: live_operation_def)
  then have "\<not> op_OwnershipReleased (or_payload q)"
    using journal_ok_operation(2) [OF assms(2) q(1)] by simp
  with q show ?thesis
    by (intro operation_statusI [OF assms(2), of operationID q op']) (simp_all add: same_identity_def)
qed

lemma PrepareStep_change:
  assumes "PrepareStep ce operationID stepKind now d = Inr (a, d')" "journal_ok cr d"
  shows "journal_change cr d d'"
proof -
  obtain q r op' where q: "rows_with or_operation_id operationID (v01_operations d) = Some q"
     "rows_with it_intent_id (op_IntentID (or_payload q)) (v01_intents d) = Some r"
     "stepKind \<notin> set disabled_steps"
     "op_Status (or_payload q) \<noteq> OperationUnknown" "\<not> IsTerminalOperation (op_Status (or_payload q))"
     "\<not> op_OwnershipReleased (or_payload q)"
     "length (op_Attempts (or_payload q)) < length (ci_Steps (ir_Intent (it_payload r)))"
     "ci_Steps (ir_Intent (it_payload r)) ! length (op_Attempts (or_payload q)) = stepKind"
     "rows_with st_step_id (sa_StepID a) (v01_steps d) = None"
    and a: "a = new_attempt (NewID ''step'' (ce_random ce 0)) stepKind
           (next_attempt_no stepKind (op_Attempts (or_payload q)) 1) now"
    and op': "op' = (or_payload q)\<lparr>op_Attempts := op_Attempts (or_payload q) @ [a], op_UpdatedAt := now\<rparr>"
    and aud: "audited (d\<lparr>v01_steps := v01_steps d @ [step_row_of (op_OperationID (or_payload q)) a],
        v01_operations := update_rows or_operation_id (op_OperationID (or_payload q))
           (set_operation_payload op') (v01_operations d)\<rparr>) d'"
    using PrepareStep_effect [OF assms(1)] by blast
  note t = audited_tables [OF aud, simplified]
  have id: "op_OperationID (or_payload q) = operationID"
    by (rule journal_ok_operation(1) [OF assms(2) q(1)])
  have kind: "sa_StepKind a = stepKind" by (simp add: a)
  have "operation_change (or_payload q) op'"
    using q(4-6) by (intro change_prepare) (simp_all add: op' a same_identity_def live_iff)
  then show ?thesis
    using q by (intro step_prepared [of d' d operationID q op' a r])
      (simp_all add: t id kind op')
qed

lemma updateAttempt_change:
  assumes "updateAttempt ce operationID stepID now mutate eventType d = Inr d'" "journal_ok cr d"
    "\<And>a b. mutate a = Inr b \<Longrightarrow> attempt_kept a b \<and> sa_DispatchState b \<noteq> NotDispatched"
  shows "journal_change cr d d'"
proof -
  obtain q index mutated a op' where q: "rows_with or_operation_id operationID (v01_operations d) = Some q"
      "index < length (op_Attempts (or_payload q))"
      "sa_StepID (op_Attempts (or_payload q) ! index) = stepID"
      "mutate (op_Attempts (or_payload q) ! index) = Inr mutated" "a = mutated\<lparr>sa_UpdatedAt := now\<rparr>"
    and op': "op' = settle_operation eventType a ((or_payload q)\<lparr>
             op_Attempts := (op_Attempts (or_payload q))[index := a], op_UpdatedAt := now\<rparr>)"
    and aud: "audited ((update_step stepID operationID a now d)\<lparr>
        v01_operations := update_rows or_operation_id (op_OperationID op')
           (set_operation_payload op') (v01_operations d)\<rparr>) d'"
    using updateAttempt_effect [OF assms(1)] by blast
  note t = audited_tables [OF aud, unfolded update_step_def, simplified]
  have kept: "attempt_kept (op_Attempts (or_payload q) ! index) a"
    using assms(3) [OF q(4)] q(5) by (simp add: attempt_kept_def)
  have sent: "sa_DispatchState a \<noteq> NotDispatched"
    using assms(3) [OF q(4)] q(5) by simp
  have id: "sa_StepID a = stepID" using kept q(3) by (simp add: attempt_kept_def)
  have oid: "op_OperationID op' = operationID"
    using journal_ok_operation(1) [OF assms(2) q(1)] by (simp add: op')
  have "same_identity (or_payload q) op'"
    using settle_operation_simps(1) [of _ eventType a] unfolding op'
    by (rule same_identity_trans [rotated]) (simp add: same_identity_def)
  then have "operation_change (or_payload q) op'"
    using q(2) kept sent by (intro change_attempt [of _ _ index a])
      (auto simp: op' attempt_kept_def settle_operation_status)
  then show ?thesis
    using q(1,2) kept t id oid
    by (intro attempt_changed [of d' d operationID q op' index a
          "\<lambda>s. st_step_id s = sa_StepID a \<and> st_operation_id s = operationID" now])
       (simp_all add: op')
qed

lemma CompleteBackup_change:
  assumes "CompleteBackup ce backupID digest sz ready now d = Inr d'" "journal_ok cr d"
  shows "journal_change cr d d'"
proof -
  obtain b :: backup_row and q a op' where q:
      "rows_with or_operation_id (bk_OperationID (bw_payload b)) (v01_operations d) = Some q"
      "length (op_Attempts (or_payload q)) = 6"
    and a: "a = acknowledged_attempt backupID digest now (op_Attempts (or_payload q) ! 5)"
    and op': "op' = (or_payload q)\<lparr>op_Attempts := (op_Attempts (or_payload q))[5 := a], op_UpdatedAt := now\<rparr>"
    and aud: "audited (d\<lparr>v01_backups := update_rows bw_backup_id backupID
          (set_backup_payload (completed_record (bw_payload b) digest sz ready now)) (v01_backups d),
        v01_steps := update_rows st_step_id (sa_StepID a)
          (\<lambda>s. s\<lparr>st_payload := a, st_updated_at := format_time now\<rparr>) (v01_steps d),
        v01_operations := update_rows or_operation_id (op_OperationID (or_payload q))
          (set_operation_payload op') (v01_operations d)\<rparr>) d'"
    using CompleteBackup_effect [OF assms(1)] by blast
  note t = audited_tables [OF aud, unfolded update_rows_def [of st_step_id], simplified]
  note id = journal_ok_operation(1) [OF assms(2) q(1)]
  have kept: "attempt_kept (op_Attempts (or_payload q) ! 5) a"
    by (simp add: a acknowledged_attempt_def attempt_kept_def)
  moreover have "sa_DispatchState a \<noteq> NotDispatched"
    by (simp add: a acknowledged_attempt_def)
  ultimately have "operation_change (or_payload q) op'"
    using q(2) by (intro change_attempt [of _ _ 5 a]) (auto simp: op' attempt_kept_def same_identity_def)
  then show ?thesis
    using q kept t id
    by (intro attempt_changed [of d' d "bk_OperationID (bw_payload b)" q op' 5 a
          "\<lambda>s. st_step_id s = sa_StepID a" now]) (simp_all add: op')
qed

lemma mark_dispatch_kept:
  "mark_dispatch a = Inr b \<Longrightarrow> attempt_kept a b \<and> sa_DispatchState b \<noteq> NotDispatched"
  by (auto simp: mark_dispatch_iff attempt_kept_def)

lemma observe_attempt_kept:
  "observe_attempt e t ev a = Inr b \<Longrightarrow> attempt_kept a b \<and> sa_DispatchState b \<noteq> NotDispatched"
  by (auto simp: observe_attempt_iff attempt_kept_def)

lemma journal_step_change:
  assumes "journal_step cr d d'" "journal_ok cr d"
  shows "journal_change cr d d'"
  using assms(1)
proof (cases rule: journal_step.cases)
  case SaveSession
  then show ?thesis by (intro SaveSession_change)
next
  case PutIntent
  then show ?thesis by (intro PutIntent_change)
next
  case ApproveIntent
  with assms(2) show ?thesis by (intro ApproveIntent_change)
next
  case RejectIntent
  with assms(2) show ?thesis by (intro RejectIntent_change)
next
  case RevokeIntent
  with assms(2) show ?thesis by (intro RevokeIntent_change)
next
  case PrepareStep
  with assms(2) show ?thesis by (intro PrepareStep_change)
next
  case MarkDispatchPossible
  with assms(2) show ?thesis
    unfolding MarkDispatchPossible_def by (intro updateAttempt_change [OF _ _ mark_dispatch_kept])
next
  case RecordStepObservation
  with assms(2) show ?thesis
    unfolding RecordStepObservation_def by (intro updateAttempt_change [OF _ _ observe_attempt_kept])
next
  case MarkUnknown
  with assms(2) show ?thesis by (intro MarkUnknown_change)
next
  case TransitionOperation
  with assms(2) show ?thesis by (intro TransitionOperation_change)
next
  case (ReserveBackup ce bk now)
  then show ?thesis
    by (auto dest!: ReserveBackup_effect simp: audited_tables intro!: unchanged_change)
next
  case (TransitionBackupStatus ce backupID status now)
  then show ?thesis
    by (auto dest!: TransitionBackupStatus_effect simp: audited_tables intro!: unchanged_change)
next
  case CompleteBackup
  with assms(2) show ?thesis by (intro CompleteBackup_change)
qed

interpretation journal: guarded_system "\<lambda>d. d = empty_db" "journal_step cr" "journal_ok cr"
proof
  show "journal_ok cr d" if "d = empty_db" for d
    using that
    by (simp add: journal_ok_def empty_db_def intents_ok_def operations_ok_def approvals_ok_def
        steps_ok_def single_writer_def intents_by_id.unique_empty intents_by_key.unique_empty
        operations_by_id.unique_empty operations_by_intent.unique_empty approvals_by_id.unique_empty
        approvals_by_intent.unique_empty steps_by_id.unique_empty)
  show "journal_ok cr d'" if "journal_ok cr d" "journal_step cr d d'" for d d'
    using journal_change_ok [OF journal_step_change [OF that(2,1)] that(1)] .
qed

lemma journal_history_ok: "journal_history cr d \<Longrightarrow> journal_ok cr d"
  unfolding journal_history_def by (rule journal.inv_reachable) simp_all

end
