(* ===== verification/Backup_Invariants.thy ===== *)
theory Backup_Invariants
  imports Journal_Invariants
begin

text \<open>
  The audit log and the backup table over the histories of the journal: the log is append-only,
  a backup moves forward through its lifecycle, and one that is \<open>VALID\<close> is complete and never
  changes again.
\<close>

section \<open>The audit log\<close>

lemma journal_step_audited:
  assumes "journal_step cr d d'"
  shows "d' = d \<or> (\<exists>e. v01_audit e = v01_audit d \<and> audited e d')"
proof -
  have grow: ?thesis if "audited e d'" "v01_audit e = v01_audit d" for e
    using that by blast
  from assms show ?thesis
  proof (cases rule: journal_step.cases)
    case (PutIntent ce rec seen x)
    then show ?thesis by (cases x) (auto dest!: PutIntent_effect intro: grow)
  next
    case (ApproveIntent ce intentID digest approver osUID now x)
    then show ?thesis by (cases x) (auto dest!: ApproveIntent_effect intro: grow)
  next
    case (MarkDispatchPossible ce operationID stepID now)
    then show ?thesis
      unfolding MarkDispatchPossible_def
      by (auto dest!: updateAttempt_effect intro: grow simp: update_step_def)
  next
    case (RecordStepObservation ce operationID stepID effect attribution evidence now)
    then show ?thesis
      unfolding RecordStepObservation_def
      by (auto dest!: updateAttempt_effect intro: grow simp: update_step_def)
  qed (auto dest!: SaveSession_effect RejectIntent_effect RevokeIntent_effect PrepareStep_effect
      MarkUnknown_effect TransitionOperation_effect ReserveBackup_effect
      TransitionBackupStatus_effect CompleteBackup_effect intro: grow)
qed

lemma journal_step_log:
  assumes "journal_step cr d d'"
  shows "d' = d \<or> strict_prefix (v01_audit d) (v01_audit d')"
    "audit_ok (v01_audit d) \<Longrightarrow> audit_ok (v01_audit d')"
  using journal_step_audited [OF assms] audited_prefix audited_ok by metis+

interpretation audit_log: guarded_system "\<lambda>d. d = empty_db" "journal_step cr" "\<lambda>d. audit_ok (v01_audit d)"
  by unfold_locales (auto simp: empty_db_def audit_ok_def dest: journal_step_log(2))

lemma history_prefix:
  "reachable_by (journal_step cr) d d' \<Longrightarrow> prefix (v01_audit d) (v01_audit d')"
proof (induction rule: reachable_by.induct)
  case (more s t)
  then show ?case
    using journal_step_log(1) [OF more(2)] by (auto simp: strict_prefix_def)
qed simp

section \<open>The lifecycle of a backup\<close>

fun backup_rank :: "BackupStatus \<Rightarrow> nat" where
  "backup_rank BackupReserved = 4"
| "backup_rank BackupWriting = 3"
| "backup_rank BackupFinalizing = 2"
| "backup_rank BackupVerifying = 1"
| "backup_rank _ = 0"

lemma backup_allowed_simps [simp]:
  "backup_allowed BackupReserved t \<longleftrightarrow> t \<in> {BackupWriting, BackupFailed, BackupUnknown, BackupOrphaned}"
  "backup_allowed BackupWriting t \<longleftrightarrow> t \<in> {BackupFinalizing, BackupFailed, BackupUnknown, BackupOrphaned}"
  "backup_allowed BackupFinalizing t \<longleftrightarrow> t \<in> {BackupVerifying, BackupFailed, BackupUnknown, BackupOrphaned}"
  "backup_allowed BackupVerifying t \<longleftrightarrow> t \<in> {BackupFailed, BackupUnknown, BackupOrphaned}"
  "\<not> backup_allowed BackupValid t" "\<not> backup_allowed BackupFailed t"
  "\<not> backup_allowed BackupUnknown t" "\<not> backup_allowed BackupOrphaned t"
  by (simp_all add: backup_allowed_def backupTransitions_def)

text \<open>Completion is the one way to \<open>VALID\<close>; with it the lifecycle still only goes forward.\<close>

definition backup_moves :: "BackupStatus \<Rightarrow> BackupStatus \<Rightarrow> bool" where
  "backup_moves s t \<longleftrightarrow> backup_allowed s t \<or> (s = BackupVerifying \<and> t = BackupValid)"

interpretation backup_lifecycle: ranked_lifecycle backup_moves backup_rank
proof
  fix s t
  assume "backup_moves s t"
  then show "backup_rank t < backup_rank s" by (cases s) (auto simp: backup_moves_def)
qed

section \<open>Steps of the backup table\<close>

definition backup_identity :: "BackupRecord \<Rightarrow> BackupRecord \<Rightarrow> bool" where
  "backup_identity r r' \<longleftrightarrow> bk_BackupID r' = bk_BackupID r \<and> bk_OperationID r' = bk_OperationID r \<and>
     bk_IntentID r' = bk_IntentID r \<and> bk_IntentDigest r' = bk_IntentDigest r \<and>
     bk_EnrollmentID r' = bk_EnrollmentID r \<and> bk_StepID r' = bk_StepID r \<and>
     bk_EvidenceLevel r' = bk_EvidenceLevel r \<and> bk_BackupRecipeDigest r' = bk_BackupRecipeDigest r"

inductive backups_step :: "backup_row list \<Rightarrow> backup_row list \<Rightarrow> bool" where
  backups_same: "backups_step t t"
| backups_reserve:
    "rows_with bw_backup_id (bk_BackupID rec) t = None \<Longrightarrow>
     rows_with bw_operation_id (bk_OperationID rec) t = None \<Longrightarrow>
     bk_Status rec = BackupReserved \<Longrightarrow> backups_step t (t @ [backup_row_of rec])"
| backups_move:
    "rows_with bw_backup_id k t = Some r \<Longrightarrow>
     backup_moves (bk_Status (bw_payload r)) (bk_Status rec) \<Longrightarrow>
     backup_identity (bw_payload r) rec \<Longrightarrow>
     (bk_Status rec = BackupValid \<longrightarrow> ValidateCompleted rec = None) \<Longrightarrow>
     backups_step t (update_rows bw_backup_id k (set_backup_payload rec) t)"

definition backup_row_ok :: "backup_row \<Rightarrow> bool" where
  "backup_row_ok r \<longleftrightarrow> r = backup_row_of (bw_payload r) \<and>
     (bk_Status (bw_payload r) = BackupValid \<longrightarrow> ValidateCompleted (bw_payload r) = None)"

definition backups_ok :: "backup_row list \<Rightarrow> bool" where
  "backups_ok t \<longleftrightarrow> backups_by_id.unique t \<and> backups_by_operation.unique t \<and>
     (\<forall>r \<in> set t. backup_row_ok r)"

definition backup_history :: "backup_row list \<Rightarrow> backup_row list \<Rightarrow> bool" where
  "backup_history t t' \<longleftrightarrow>
     (\<forall>k r. rows_with bw_backup_id k t = Some r \<longrightarrow>
       (\<exists>r'. rows_with bw_backup_id k t' = Some r' \<and> backup_identity (bw_payload r) (bw_payload r') \<and>
          (bk_Status (bw_payload r) = BackupValid \<longrightarrow> bw_payload r' = bw_payload r)))"

lemma backup_row_of_simps [simp]:
  "bw_backup_id (backup_row_of rec) = bk_BackupID rec"
  "bw_operation_id (backup_row_of rec) = bk_OperationID rec"
  "bw_payload (backup_row_of rec) = rec"
  by (simp_all add: backup_row_of_def)

lemma backup_row_ok_of [simp]:
  "backup_row_ok (backup_row_of rec) \<longleftrightarrow>
     (bk_Status rec = BackupValid \<longrightarrow> ValidateCompleted rec = None)"
  by (simp add: backup_row_ok_def)

lemma backup_row_okD:
  assumes "backup_row_ok r"
  shows "bw_backup_id r = bk_BackupID (bw_payload r)" "bw_operation_id r = bk_OperationID (bw_payload r)"
  using assms backup_row_of_simps [of "bw_payload r"] by (metis backup_row_ok_def)+

lemma set_backup_payload_simps [simp]:
  "bw_backup_id (set_backup_payload rec r) = bw_backup_id r"
  "bw_operation_id (set_backup_payload rec r) = bw_operation_id r"
  "bw_payload (set_backup_payload rec r) = rec"
  by (simp_all add: set_backup_payload_def)

lemma set_backup_payload_ok:
  assumes "backup_row_ok r" "backup_identity (bw_payload r) rec"
    "bk_Status rec = BackupValid \<longrightarrow> ValidateCompleted rec = None"
  shows "backup_row_ok (set_backup_payload rec r)"
proof -
  have "set_backup_payload rec r = backup_row_of rec"
    using assms(2) backup_row_okD [OF assms(1)]
    by (cases r) (simp add: set_backup_payload_def backup_row_of_def backup_identity_def)
  with assms(3) show ?thesis by simp
qed

lemma backups_step_ok:
  assumes "backups_step t t'" "backups_ok t"
  shows "backups_ok t'"
  using assms(1)
proof (cases rule: backups_step.cases)
  case (backups_reserve rec)
  with assms(2) show ?thesis
    by (auto simp: backups_ok_def intro!: backups_by_id.unique_insert backups_by_operation.unique_insert)
next
  case (backups_move k r rec)
  have "\<forall>r' \<in> set t'. backup_row_ok r'"
    unfolding backups_move(1)
    using assms(2) backups_move rows_with_SomeD [OF backups_move(2)]
    by (intro backups_by_id.update_pred [of t k r])
       (auto simp: backups_ok_def intro: set_backup_payload_ok)
  with assms(2) show ?thesis
    by (simp add: backups_ok_def backups_move(1) backups_by_id.unique_update
        backups_by_operation.unique_update)
qed (use assms(2) in simp)

lemma backup_identity_refl [simp]: "backup_identity r r"
  by (simp add: backup_identity_def)

lemma backup_identity_trans: "backup_identity a b \<Longrightarrow> backup_identity b c \<Longrightarrow> backup_identity a c"
  by (simp add: backup_identity_def)

lemma backups_step_history:
  assumes "backups_step t t'"
  shows "backup_history t t'"
  using assms
proof (cases rule: backups_step.cases)
  case (backups_reserve rec)
  then show ?thesis by (auto simp: backup_history_def rows_with_append)
next
  case (backups_move k r rec)
  then show ?thesis
    by (auto simp: backup_history_def backups_by_id.lookup_update backup_moves_def)
qed (auto simp: backup_history_def)

lemma backup_history_trans: "backup_history t u \<Longrightarrow> backup_history u v \<Longrightarrow> backup_history t v"
  unfolding backup_history_def by (fastforce intro: backup_identity_trans)

lemma journal_step_backups:
  assumes "journal_step cr d d'"
  shows "backups_step (v01_backups d) (v01_backups d')"
proof -
  have same: ?thesis if "audited e d'" "v01_backups e = v01_backups d" for e
    using audited_tables(6) [OF that(1)] that(2) by (simp add: backups_same)
  from assms show ?thesis
  proof (cases rule: journal_step.cases)
    case (PutIntent ce rec seen x)
    then show ?thesis by (cases x) (auto dest!: PutIntent_effect intro: same backups_same)
  next
    case (ApproveIntent ce intentID digest approver osUID now x)
    then show ?thesis by (cases x) (auto dest!: ApproveIntent_effect intro: same backups_same)
  next
    case (MarkDispatchPossible ce operationID stepID now)
    then show ?thesis
      unfolding MarkDispatchPossible_def
      by (auto dest!: updateAttempt_effect intro: same simp: update_step_def)
  next
    case (RecordStepObservation ce operationID stepID effect attribution evidence now)
    then show ?thesis
      unfolding RecordStepObservation_def
      by (auto dest!: updateAttempt_effect intro: same simp: update_step_def)
  next
    case (ReserveBackup ce bk now)
    then show ?thesis
      by (auto dest!: ReserveBackup_effect simp: audited_tables reservation_matches_def Let_def
          intro!: backups_reserve)
  next
    case (TransitionBackupStatus ce backupID status now)
    then obtain r where r: "rows_with bw_backup_id backupID (v01_backups d) = Some r"
        "backup_allowed (bk_Status (bw_payload r)) status"
        "audited (d\<lparr>v01_backups := update_rows bw_backup_id backupID
           (set_backup_payload ((bw_payload r)\<lparr>bk_Status := status\<rparr>)) (v01_backups d)\<rparr>) d'"
      by (auto dest!: TransitionBackupStatus_effect)
    then have "status \<noteq> BackupValid" by (cases "bk_Status (bw_payload r)") auto
    with r show ?thesis
      by (auto simp: audited_tables backup_moves_def backup_identity_def intro!: backups_move)
  next
    case (CompleteBackup ce backupID digest sz ready now)
    then show ?thesis
      by (auto dest!: CompleteBackup_effect simp: audited_tables backup_moves_def backup_identity_def
          completed_record_def intro!: backups_move)
  qed (auto dest!: SaveSession_effect RejectIntent_effect RevokeIntent_effect PrepareStep_effect
      MarkUnknown_effect TransitionOperation_effect intro: same backups_same)
qed

interpretation backups: guarded_system "\<lambda>d. d = empty_db" "journal_step cr" "\<lambda>d. backups_ok (v01_backups d)"
proof
  show "backups_ok (v01_backups d)" if "d = empty_db" for d
    using that by (simp add: empty_db_def backups_ok_def backups_by_id.unique_empty
        backups_by_operation.unique_empty)
qed (blast intro: journal_step_backups backups_step_ok)

lemma history_backups:
  "reachable_by (journal_step cr) d d' \<Longrightarrow> backup_history (v01_backups d) (v01_backups d')"
proof (induction rule: reachable_by.induct)
  case (more s t)
  then show ?case using backups_step_history [OF journal_step_backups] backup_history_trans by blast
qed (auto simp: backup_history_def)

end
