(* ===== verification/Journal_Samples.thy ===== *)
theory Journal_Samples
  imports Backup_Invariants
begin

text \<open>
  A concrete history of the journal on which its theorems are instantiated: an intent is
  frozen and approved, its operation is taken to \<open>PREPARING\<close>, the first step is prepared and
  durably marked as possibly dispatched; from there one branch revokes the intent and another
  one aborts the operation and then records that the effect of the step is unknown.
\<close>

definition sample_env :: "nat \<Rightarrow> call_env" where
  "sample_env n = \<lparr>ce_crypto = sample_crypto, ce_clock = (\<lambda>k. sample_now), ce_random = (\<lambda>k. [n, k])\<rparr>"

definition sample_record :: IntentRecord where
  "sample_record = \<lparr>ir_Intent = sample_intent, ir_Status = IntentAwaitingApproval,
     ir_ProposalDigest = ''pp'', ir_UpdatedAt = sample_now\<rparr>"

definition committed :: "('a \<times> db) result \<Rightarrow> db" where
  "committed r = (case r of Inl _ \<Rightarrow> empty_db | Inr (_, d) \<Rightarrow> d)"

definition committed_db :: "db result \<Rightarrow> db" where
  "committed_db r = (case r of Inl _ \<Rightarrow> empty_db | Inr d \<Rightarrow> d)"

definition sample_operation_id :: string where
  "sample_operation_id = NewID ''operation'' [2, 1]"

definition sample_step_id :: string where
  "sample_step_id = NewID ''step'' [4, 0]"

definition sample_frozen :: db where
  "sample_frozen = committed (PutIntent (sample_env 1) sample_record empty_db empty_db)"

definition sample_approved :: db where
  "sample_approved =
     committed (ApproveIntent (sample_env 2) ''intent_01'' ''29'' ''owner'' 1000 sample_now sample_frozen)"

definition sample_preparing :: db where
  "sample_preparing = committed_db (TransitionOperation (sample_env 3) sample_operation_id
     OperationPreparing VerificationNotStarted False sample_now sample_approved)"

definition sample_prepared :: db where
  "sample_prepared = committed (PrepareStep (sample_env 4) sample_operation_id ''S00_CLAIM_OPERATION''
     sample_now sample_preparing)"

definition sample_dispatched :: db where
  "sample_dispatched = committed_db (MarkDispatchPossible (sample_env 5) sample_operation_id
     sample_step_id sample_now sample_prepared)"

definition sample_revoked :: db where
  "sample_revoked = committed_db (RevokeIntent (sample_env 6) ''intent_01'' ''29'' ''owner'' 1000
     sample_now sample_dispatched)"

definition sample_aborted :: db where
  "sample_aborted = committed_db (TransitionOperation (sample_env 7) sample_operation_id
     OperationAborted VerificationNotStarted False sample_now sample_dispatched)"

definition sample_released_unknown :: db where
  "sample_released_unknown = committed_db (RecordStepObservation (sample_env 8) sample_operation_id
     sample_step_id EffectUnknown AttributionUnattributed [] sample_now sample_aborted)"

section \<open>Evaluation of the samples\<close>

lemma committedI: "\<exists>x d. r = Inr (x, d) \<Longrightarrow> \<exists>x. r = Inr (x, committed r)"
  by (auto simp: committed_def)

lemma committed_dbI: "\<exists>d. r = Inr d \<Longrightarrow> r = Inr (committed_db r)"
  by (auto simp: committed_db_def)

lemma sample_record_simps [simp]:
  "ir_Intent sample_record = sample_intent" "ir_Status sample_record = IntentAwaitingApproval"
  "ir_ProposalDigest sample_record = ''pp''"
  by (simp_all add: sample_record_def)

lemma sample_intent_simps [simp]:
  "ci_IntentID sample_intent = ''intent_01''" "ci_IntentDigest sample_intent = ''29''"
  "ci_ApprovalDeadline sample_intent = sample_now + 900000000000"
  "ci_StartBefore sample_intent = sample_now + 1200000000000"
  "ci_EnrollmentID sample_intent = ''enr''" "ci_PrincipalID sample_intent = ''agent''"
  "ci_ClientRequestID sample_intent = ''req''" "ci_Steps sample_intent = FixedWorkflowSteps"
  by (simp_all add: sample_intent_def duration_units)

lemma sample_intent_valid [simp]: "ValidateDigest sample_crypto sample_intent = None"
  by simp

lemma sample_env_simps [simp]:
  "ce_crypto (sample_env n) = sample_crypto" "ce_random (sample_env n) k = [n, k]"
  by (simp_all add: sample_env_def)

lemma empty_db_simps [simp]:
  "v01_sessions empty_db = []" "v01_intents empty_db = []" "v01_approvals empty_db = []"
  "v01_operations empty_db = []" "v01_steps empty_db = []" "v01_backups empty_db = []"
  by (simp_all add: empty_db_def)

lemma rows_with_simps [simp]:
  "rows_with key k [] = None"
  "rows_with key k (r # rs) = (if key r = k then Some r else rows_with key k rs)"
  by (simp_all add: rows_with_def)

lemma update_rows_simps [simp]:
  "update_rows key k f [] = []"
  "update_rows key k f (r # rs) = (if key r = k then f r else r) # update_rows key k f rs"
  by (simp_all add: update_rows_def)

lemma translateWriteError_Inr [simp]: "translateWriteError (Inr x) = Inr x"
  by (simp add: translateWriteError_def)

lemmas run_defs = Let_def check_def unless_error_def scanIntent_def query_row_def
  GetIntentByClientKey_def insert_intent_def lookupExistingApproval_def insert_approval_def
  insert_operation_def insert_step_def activeOwner_def new_approval_row_def update_intent_def
  updateIntentTx_def set_intent_payload_def getOperationTx_def saveOperationTx_def
  set_operation_payload_def update_step_def intentForDecision_def new_attempt_def
  settle_operation_def mark_dispatch_def observe_attempt_def boolInt_def go_time

lemma sample_frozen_run:
  "PutIntent (sample_env 1) sample_record empty_db empty_db = Inr ((sample_record, True), sample_frozen)"
  by (simp add: sample_frozen_def committed_def PutIntent_def run_defs CodeOf_def NewError_def)

lemma sample_frozen_tables:
  "v01_intents sample_frozen = [new_intent_row sample_record]" "v01_approvals sample_frozen = []"
  "v01_operations sample_frozen = []" "v01_steps sample_frozen = []"
  by (simp_all add: sample_frozen_def committed_def PutIntent_def run_defs CodeOf_def NewError_def)

definition sample_queued :: Operation where
  "sample_queued = approved_operation (sample_env 2) ''intent_01'' ''29'' sample_now sample_intent"

definition sample_approval :: Approval where
  "sample_approval = decision_approval (sample_env 2) ''intent_01'' ''29'' ''owner'' 1000 ''APPROVED'' sample_now"

definition sample_consumed :: IntentRecord where
  "sample_consumed = decided IntentConsumed sample_now sample_record"

lemma sample_consumed_simps [simp]:
  "ir_Intent sample_consumed = sample_intent" "ir_Status sample_consumed = IntentConsumed"
  by (simp_all add: sample_consumed_def)

lemma sample_approved_run:
  "ApproveIntent (sample_env 2) ''intent_01'' ''29'' ''owner'' 1000 sample_now sample_frozen =
     Inr ((sample_approval, sample_queued), sample_approved)"
  by (simp add: sample_approved_def committed_def ApproveIntent_def run_defs sample_frozen_tables
      sample_approval_def sample_queued_def decision_approval_def approved_operation_def)

lemma sample_approved_tables:
  "v01_intents sample_approved = [new_intent_row sample_consumed]"
  "v01_approvals sample_approved = [new_approval_row sample_approval ''intent_01'' ''29'']"
  "v01_operations sample_approved = [operation_row_of sample_queued]"
  "v01_steps sample_approved = []"
  using audited_tables ApproveIntent_effect [OF sample_approved_run]
  by (auto simp: sample_frozen_tables lookupExistingApproval_def sample_queued_def sample_consumed_def
      set_intent_payload_def new_intent_row_def)

definition sample_moved :: Operation where
  "sample_moved = sample_queued\<lparr>op_Status := OperationPreparing\<rparr>"

definition sample_attempt :: StepAttempt where
  "sample_attempt = new_attempt sample_step_id ''S00_CLAIM_OPERATION'' 1 sample_now"

definition sample_sent :: StepAttempt where
  "sample_sent = sample_attempt\<lparr>sa_DispatchState := DispatchPossible, sa_EffectState := EffectUnknown\<rparr>"

lemma sample_queued_simps [simp]:
  "op_OperationID sample_queued = sample_operation_id" "op_IntentID sample_queued = ''intent_01''"
  "op_IntentDigest sample_queued = ''29''" "op_EnrollmentID sample_queued = ''enr''"
  "op_Status sample_queued = OperationQueued" "op_Attempts sample_queued = []"
  "\<not> op_OwnershipReleased sample_queued" "op_Verification sample_queued = VerificationNotStarted"
  "op_UpdatedAt sample_queued = sample_now"
  by (simp_all add: sample_queued_def approved_operation_def sample_operation_id_def)

lemma sample_moved_simps [simp]:
  "op_OperationID sample_moved = sample_operation_id" "op_IntentID sample_moved = ''intent_01''"
  "op_IntentDigest sample_moved = ''29''" "op_Status sample_moved = OperationPreparing"
  "op_Attempts sample_moved = []" "\<not> op_OwnershipReleased sample_moved"
  "op_UpdatedAt sample_moved = sample_now" "op_Verification sample_moved = VerificationNotStarted"
  by (simp_all add: sample_moved_def)

lemma sample_moved_eq:
  "sample_queued\<lparr>op_Status := OperationPreparing, op_Verification := VerificationNotStarted,
     op_UpdatedAt := sample_now\<rparr> = sample_moved"
  "sample_moved\<lparr>op_Attempts := xs, op_UpdatedAt := sample_now\<rparr> = sample_moved\<lparr>op_Attempts := xs\<rparr>"
  by (simp_all add: sample_moved_def sample_queued_def approved_operation_def)

lemma sample_preparing_run:
  "TransitionOperation (sample_env 3) sample_operation_id OperationPreparing VerificationNotStarted
     False sample_now sample_approved = Inr sample_preparing"
  unfolding sample_preparing_def
  by (rule committed_dbI)
     (simp add: TransitionOperation_def getOperationTx_def saveOperationTx_def check_def sample_approved_tables)

lemma set_operation_same_identity:
  "same_identity op op' \<Longrightarrow> set_operation_payload op' (operation_row_of op) = operation_row_of op'"
  by (simp add: set_operation_payload_def operation_row_of_def same_identity_def)

lemma sample_preparing_tables:
  "v01_intents sample_preparing = [new_intent_row sample_consumed]"
  "v01_approvals sample_preparing = [new_approval_row sample_approval ''intent_01'' ''29'']"
  "v01_operations sample_preparing = [operation_row_of sample_moved]"
  "v01_steps sample_preparing = []"
proof -
  have "audited (sample_approved\<lparr>v01_operations := [operation_row_of sample_moved]\<rparr>) sample_preparing"
    using TransitionOperation_effect [OF sample_preparing_run]
    by (auto simp: sample_approved_tables sample_moved_eq releasing_def set_operation_same_identity
        same_identity_def sample_moved_def)
  from audited_tables [OF this] show
    "v01_intents sample_preparing = [new_intent_row sample_consumed]"
    "v01_approvals sample_preparing = [new_approval_row sample_approval ''intent_01'' ''29'']"
    "v01_operations sample_preparing = [operation_row_of sample_moved]"
    "v01_steps sample_preparing = []"
    by (simp_all add: sample_approved_tables)
qed

lemma sample_prepared_run:
  "PrepareStep (sample_env 4) sample_operation_id ''S00_CLAIM_OPERATION'' sample_now sample_preparing =
     Inr (sample_attempt, sample_prepared)"
  by (simp add: sample_prepared_def committed_def PrepareStep_def sample_preparing_tables
      getOperationTx_def query_row_def Let_def check_def unless_error_def insert_step_def
      saveOperationTx_def disabled_steps_def IsTerminalOperation_def FixedWorkflowSteps_def
      sample_attempt_def sample_step_id_def)

lemma sample_prepared_tables:
  "v01_intents sample_prepared = [new_intent_row sample_consumed]"
  "v01_approvals sample_prepared = [new_approval_row sample_approval ''intent_01'' ''29'']"
  "v01_operations sample_prepared = [operation_row_of (sample_moved\<lparr>op_Attempts := [sample_attempt]\<rparr>)]"
  "v01_steps sample_prepared = [step_row_of sample_operation_id sample_attempt]"
proof -
  have "audited (sample_preparing\<lparr>
      v01_steps := [step_row_of sample_operation_id sample_attempt],
      v01_operations := [operation_row_of (sample_moved\<lparr>op_Attempts := [sample_attempt]\<rparr>)]\<rparr>) sample_prepared"
    using PrepareStep_effect [OF sample_prepared_run]
    by (auto simp: sample_preparing_tables sample_moved_eq set_operation_same_identity same_identity_def)
  from audited_tables [OF this] show
    "v01_intents sample_prepared = [new_intent_row sample_consumed]"
    "v01_approvals sample_prepared = [new_approval_row sample_approval ''intent_01'' ''29'']"
    "v01_operations sample_prepared = [operation_row_of (sample_moved\<lparr>op_Attempts := [sample_attempt]\<rparr>)]"
    "v01_steps sample_prepared = [step_row_of sample_operation_id sample_attempt]"
    by (simp_all add: sample_preparing_tables)
qed

lemma sample_attempt_simps [simp]:
  "sa_StepID sample_attempt = sample_step_id" "sa_DispatchState sample_attempt = NotDispatched"
  "sa_EffectState sample_attempt = EffectProvenNotApplied" "sa_UpdatedAt sample_attempt = sample_now"
  "sa_Attribution sample_attempt = AttributionUnattributed"
  by (simp_all add: sample_attempt_def new_attempt_def)

lemma sample_sent_simps [simp]:
  "sa_StepID sample_sent = sample_step_id" "sa_DispatchState sample_sent = DispatchPossible"
  "sa_EffectState sample_sent = EffectUnknown" "sa_AttemptNo sample_sent = sa_AttemptNo sample_attempt"
  "sa_UpdatedAt sample_sent = sample_now"
  by (simp_all add: sample_sent_def)

lemma sample_dispatched_run:
  "MarkDispatchPossible (sample_env 5) sample_operation_id sample_step_id sample_now sample_prepared =
     Inr sample_dispatched"
  unfolding sample_dispatched_def
  by (rule committed_dbI)
     (simp add: MarkDispatchPossible_def updateAttempt_def sample_prepared_tables getOperationTx_def
       query_row_def Let_def check_def saveOperationTx_def IsTerminalOperation_def mark_dispatch_def
       update_step_def)

lemma sample_dispatched_tables:
  "v01_intents sample_dispatched = [new_intent_row sample_consumed]"
  "v01_approvals sample_dispatched = [new_approval_row sample_approval ''intent_01'' ''29'']"
  "v01_operations sample_dispatched = [operation_row_of (sample_moved\<lparr>op_Attempts := [sample_sent]\<rparr>)]"
  "v01_steps sample_dispatched = [step_row_of sample_operation_id sample_sent]"
proof -
  have sent: "sample_attempt\<lparr>sa_DispatchState := DispatchPossible, sa_EffectState := EffectUnknown,
      sa_Attribution := AttributionUnattributed, sa_UpdatedAt := sample_now\<rparr> = sample_sent"
    by (simp add: sample_sent_def sample_attempt_def new_attempt_def)
  have "audited (sample_prepared\<lparr>
      v01_steps := [step_row_of sample_operation_id sample_sent],
      v01_operations := [operation_row_of (sample_moved\<lparr>op_Attempts := [sample_sent]\<rparr>)]\<rparr>) sample_dispatched"
    using updateAttempt_effect [OF sample_dispatched_run [unfolded MarkDispatchPossible_def]]
    by (auto simp: sample_prepared_tables mark_dispatch_iff sent sample_moved_eq settle_operation_def
        set_operation_same_identity same_identity_def update_step_def step_row_of_def)
  from audited_tables [OF this] show
    "v01_intents sample_dispatched = [new_intent_row sample_consumed]"
    "v01_approvals sample_dispatched = [new_approval_row sample_approval ''intent_01'' ''29'']"
    "v01_operations sample_dispatched = [operation_row_of (sample_moved\<lparr>op_Attempts := [sample_sent]\<rparr>)]"
    "v01_steps sample_dispatched = [step_row_of sample_operation_id sample_sent]"
    by (simp_all add: sample_prepared_tables)
qed

lemma sample_revoked_run:
  "RevokeIntent (sample_env 6) ''intent_01'' ''29'' ''owner'' 1000 sample_now sample_dispatched =
     Inr sample_revoked"
  unfolding sample_revoked_def
  by (rule committed_dbI)
     (simp add: RevokeIntent_def intentForDecision_def scanIntent_def check_def Let_def
       sample_dispatched_tables updateIntentTx_def update_intent_def)

lemma sample_revoked_tables:
  "v01_intents sample_revoked = [new_intent_row (decided IntentRevoked sample_now sample_consumed)]"
  "v01_operations sample_revoked = [operation_row_of (sample_moved\<lparr>op_Attempts := [sample_sent]\<rparr>)]"
proof -
  have "audited (sample_dispatched\<lparr>
      v01_intents := [new_intent_row (decided IntentRevoked sample_now sample_consumed)],
      v01_operations := [operation_row_of (sample_moved\<lparr>op_Attempts := [sample_sent]\<rparr>)]\<rparr>) sample_revoked"
    using RevokeIntent_effect [OF sample_revoked_run]
    by (auto simp: sample_dispatched_tables set_intent_payload_def new_intent_row_def)
  from audited_tables [OF this] show
    "v01_intents sample_revoked = [new_intent_row (decided IntentRevoked sample_now sample_consumed)]"
    "v01_operations sample_revoked = [operation_row_of (sample_moved\<lparr>op_Attempts := [sample_sent]\<rparr>)]"
    by (simp_all add: sample_dispatched_tables)
qed

lemma sample_aborted_run:
  "TransitionOperation (sample_env 7) sample_operation_id OperationAborted VerificationNotStarted False
     sample_now sample_dispatched = Inr sample_aborted"
  unfolding sample_aborted_def
  by (rule committed_dbI)
     (simp add: TransitionOperation_def getOperationTx_def saveOperationTx_def check_def
       sample_dispatched_tables)

definition sample_dropped :: Operation where
  "sample_dropped = sample_moved\<lparr>op_Status := OperationAborted, op_OwnershipReleased := True,
     op_Attempts := [sample_sent]\<rparr>"

lemma sample_dropped_simps [simp]:
  "op_OperationID sample_dropped = sample_operation_id" "op_Status sample_dropped = OperationAborted"
  "op_Attempts sample_dropped = [sample_sent]" "op_OwnershipReleased sample_dropped"
  "op_IntentID sample_dropped = ''intent_01''"
  by (simp_all add: sample_dropped_def)

lemma sample_aborted_tables: "v01_operations sample_aborted = [operation_row_of sample_dropped]"
    "v01_steps sample_aborted = [step_row_of sample_operation_id sample_sent]"
proof -
  have eq: "sample_moved\<lparr>op_Attempts := [sample_sent], op_Status := OperationAborted,
      op_Verification := VerificationNotStarted, op_UpdatedAt := sample_now,
      op_OwnershipReleased := True\<rparr> = sample_dropped"
    by (simp add: sample_dropped_def sample_moved_def sample_queued_def approved_operation_def)
  have row: "set_operation_payload sample_dropped (operation_row_of (sample_moved\<lparr>op_Attempts := [sample_sent]\<rparr>)) =
      operation_row_of sample_dropped"
    by (rule set_operation_same_identity) (simp add: same_identity_def sample_dropped_def)
  have "audited (sample_dispatched\<lparr>v01_operations := [operation_row_of sample_dropped]\<rparr>) sample_aborted"
    using TransitionOperation_effect [OF sample_aborted_run]
    by (auto simp: sample_dispatched_tables releasing_def eq row)
  from audited_tables [OF this] show "v01_operations sample_aborted = [operation_row_of sample_dropped]"
    "v01_steps sample_aborted = [step_row_of sample_operation_id sample_sent]"
    by (simp_all add: sample_dispatched_tables)
qed

lemma sample_released_unknown_run:
  "RecordStepObservation (sample_env 8) sample_operation_id sample_step_id EffectUnknown
     AttributionUnattributed [] sample_now sample_aborted = Inr sample_released_unknown"
  unfolding sample_released_unknown_def
  by (rule committed_dbI)
     (simp add: RecordStepObservation_def updateAttempt_def sample_aborted_tables getOperationTx_def
       check_def Let_def observe_attempt_def saveOperationTx_def update_step_def)

lemma sample_released_unknown_operation:
  "\<exists>op. v01_operations sample_released_unknown = [operation_row_of op] \<and>
     op_Status op = OperationUnknown \<and> op_OwnershipReleased op \<and> op_OperationID op = sample_operation_id"
proof -
  obtain q index mutated a op' where u:
      "rows_with or_operation_id sample_operation_id (v01_operations sample_aborted) = Some q"
      "observe_attempt EffectUnknown AttributionUnattributed [] (op_Attempts (or_payload q) ! index) = Inr mutated"
      "a = mutated\<lparr>sa_UpdatedAt := sample_now\<rparr>"
      "op' = settle_operation ''STEP_OBSERVED'' a ((or_payload q)\<lparr>
             op_Attempts := (op_Attempts (or_payload q))[index := a], op_UpdatedAt := sample_now\<rparr>)"
      "audited ((update_step sample_step_id sample_operation_id a sample_now sample_aborted)\<lparr>
        v01_operations := update_rows or_operation_id (op_OperationID op')
           (set_operation_payload op') (v01_operations sample_aborted)\<rparr>) sample_released_unknown"
    using updateAttempt_effect [OF sample_released_unknown_run [unfolded RecordStepObservation_def]]
    by blast
  have q: "q = operation_row_of sample_dropped"
    using u(1) by (simp add: sample_aborted_tables)
  have eff: "sa_EffectState a = EffectUnknown"
    using u(2,3) by (simp add: observe_attempt_iff)
  have op': "op_Status op' = OperationUnknown" "op_OwnershipReleased op'"
      "op_OperationID op' = sample_operation_id" "same_identity sample_dropped op'"
    using eff q
    by (simp_all add: u(4) settle_operation_status)
       (simp add: settle_operation_def same_identity_def)
  show ?thesis
    using audited_tables(4) [OF u(5)] op'
    by (intro exI [of _ op']) (simp add: sample_aborted_tables set_operation_same_identity)
qed

section \<open>The samples are histories\<close>

lemma history_start: "journal_history cr empty_db"
  by (simp add: journal_history_def reachable_by.start)

lemma history_more: "journal_history cr d \<Longrightarrow> journal_step cr d d' \<Longrightarrow> journal_history cr d'"
  unfolding journal_history_def by (rule reachable_by.more)

lemma sample_histories:
  "journal_history sample_crypto sample_frozen" "journal_history sample_crypto sample_approved"
  "journal_history sample_crypto sample_preparing" "journal_history sample_crypto sample_prepared"
  "journal_history sample_crypto sample_dispatched" "journal_history sample_crypto sample_revoked"
  "journal_history sample_crypto sample_aborted" "journal_history sample_crypto sample_released_unknown"
proof -
  show f: "journal_history sample_crypto sample_frozen"
    by (rule history_more [OF history_start journal_step.PutIntent [OF _ sample_frozen_run]]) simp
  show a: "journal_history sample_crypto sample_approved"
    by (rule history_more [OF f journal_step.ApproveIntent [OF _ sample_approved_run]]) simp
  show g: "journal_history sample_crypto sample_preparing"
    by (rule history_more [OF a journal_step.TransitionOperation [OF _ sample_preparing_run]]) simp
  show p: "journal_history sample_crypto sample_prepared"
    by (rule history_more [OF g journal_step.PrepareStep [OF _ sample_prepared_run]]) simp
  show s: "journal_history sample_crypto sample_dispatched"
    by (rule history_more [OF p journal_step.MarkDispatchPossible [OF _ sample_dispatched_run]]) simp
  show "journal_history sample_crypto sample_revoked"
    by (rule history_more [OF s journal_step.RevokeIntent [OF _ sample_revoked_run]]) simp
  show b: "journal_history sample_crypto sample_aborted"
    by (rule history_more [OF s journal_step.TransitionOperation [OF _ sample_aborted_run]]) simp
  show "journal_history sample_crypto sample_released_unknown"
    by (rule history_more [OF b journal_step.RecordStepObservation [OF _ sample_released_unknown_run]]) simp
qed

text \<open>One more branch: from \<open>PREPARING\<close> through \<open>EXECUTING\<close> and \<open>VERIFYING\<close> to success.\<close>

lemma transition_run:
  assumes "journal_history sample_crypto d" "v01_operations d = [operation_row_of op]"
    "CanTransitionOperation (op_Status op) to" "to = OperationSucceeded \<longrightarrow> v = VerificationPass \<and> rel"
  shows "\<exists>d' op'. journal_history sample_crypto d' \<and> v01_operations d' = [operation_row_of op'] \<and>
     op_OperationID op' = op_OperationID op \<and> op_Status op' = to"
proof -
  obtain d' where run: "TransitionOperation (sample_env 0) (op_OperationID op) to v rel sample_now d = Inr d'"
    using assms
    by (auto simp: TransitionOperation_def getOperationTx_def check_def saveOperationTx_def
        VerificationAllowsSuccess_def)
  obtain op' where "audited (d\<lparr>v01_operations := [set_operation_payload op' (operation_row_of op)]\<rparr>) d'"
      "same_identity op op'" "op_Status op' = to"
    using TransitionOperation_effect [OF run] by (auto simp: assms(2) same_identity_def)
  then have "v01_operations d' = [operation_row_of op']"
    by (simp add: audited_tables set_operation_same_identity)
  moreover have "journal_history sample_crypto d'"
    by (rule history_more [OF assms(1) journal_step.TransitionOperation [OF _ run]]) simp
  ultimately show ?thesis
    using \<open>same_identity op op'\<close> \<open>op_Status op' = to\<close> by (auto simp: same_identity_def)
qed

lemma sample_success:
  "\<exists>d op. journal_history sample_crypto d \<and> GetOperation sample_operation_id d = Inr op \<and>
     op_Status op = OperationSucceeded"
proof -
  obtain d1 o1 where 1: "journal_history sample_crypto d1" "v01_operations d1 = [operation_row_of o1]"
      "op_OperationID o1 = sample_operation_id" "op_Status o1 = OperationExecuting"
    using transition_run [OF sample_histories(3) sample_preparing_tables(3), of OperationExecuting] by auto
  obtain d2 o2 where 2: "journal_history sample_crypto d2" "v01_operations d2 = [operation_row_of o2]"
      "op_OperationID o2 = sample_operation_id" "op_Status o2 = OperationVerifying"
    using transition_run [OF 1(1,2), of OperationVerifying] 1(3,4) by auto
  obtain d3 o3 where 3: "journal_history sample_crypto d3" "v01_operations d3 = [operation_row_of o3]"
      "op_OperationID o3 = sample_operation_id" "op_Status o3 = OperationSucceeded"
    using transition_run [OF 2(1,2), of OperationSucceeded VerificationPass True] 2(3,4) by auto
  then show ?thesis by (auto simp: GetOperation_def getOperationTx_def)
qed

end
