(* ===== verification/Journal_Properties.thy ===== *)
theory Journal_Properties
  imports Journal_Samples
begin

text \<open>
  The properties of the durable journal, each over every history of it: who may write, what an
  approval covers, what can no longer be dispatched, what is never changed again.
\<close>

section \<open>Later states\<close>

abbreviation later :: "crypto \<Rightarrow> db \<Rightarrow> db \<Rightarrow> bool" where
  "later cr \<equiv> reachable_by (journal_step cr)"

lemma later_ok: "journal_ok cr d \<Longrightarrow> later cr d d' \<Longrightarrow> journal_ok cr d'"
  by (rule journal.inv_from)

lemma later_intents:
  assumes "later cr d d'" "journal_ok cr d"
  shows "intent_history (v01_intents d) (v01_intents d')"
  using assms(1)
proof (induction rule: reachable_by.induct)
  case (more s t)
  have "journal_ok cr s" using later_ok [OF assms(2) more(1)] .
  then have "intents_step (v01_intents s) (v01_intents t)"
    by (intro change_intents [OF journal_step_change [OF more(2)]])
  with more show ?case using intent_history_trans intents_step_history by blast
qed (rule intent_history_refl)

lemma later_operations:
  assumes "later cr d d'" "journal_ok cr d"
  shows "operation_history (v01_operations d) (v01_operations d')"
  using assms(1)
proof (induction rule: reachable_by.induct)
  case (more s t)
  have "journal_ok cr s" using later_ok [OF assms(2) more(1)] .
  then have "operations_step (v01_operations s) (v01_operations t)"
    by (intro change_operations [OF journal_step_change [OF more(2)]])
  with more show ?case using operation_history_trans operations_step_history by blast
qed (simp add: operation_history_def)

lemma sample_later: "later sample_crypto sample_frozen sample_approved"
    "later sample_crypto sample_approved sample_preparing"
  using journal_step.ApproveIntent [OF _ sample_approved_run, of sample_crypto]
    journal_step.TransitionOperation [OF _ sample_preparing_run, of sample_crypto]
    reachable_by.start reachable_by.more
  by (metis sample_env_simps(1))+

section \<open>Ownership\<close>

text \<open>
  C1. One writer per target: in every history of the journal at most one operation of an
  enrollment holds its ownership unreleased, and every operation that may still move is one
  that holds it.
\<close>

theorem single_writer_per_enrollment:
  assumes "journal_history cr d"
  shows "card {r \<in> set (v01_operations d). or_enrollment_id r = e \<and> or_ownership_released r = 0} \<le> 1 \<and>
    (\<forall>r \<in> set (v01_operations d). live_operation (op_Status (or_payload r)) \<longrightarrow>
        or_ownership_released r = 0)"
proof -
  have ok: "operations_ok (v01_operations d)"
    using journal_history_ok [OF assms] by (simp add: journal_ok_def)
  let ?S = "{r \<in> set (v01_operations d). or_enrollment_id r = e \<and> or_ownership_released r = 0}"
  have "r = r'" if "r \<in> ?S" "r' \<in> ?S" for r r'
    using that ok single_writerD [of "v01_operations d" r r']
    by (auto simp: operations_ok_def unreleased_def intro: operations_by_id.unique_eqD)
  then have "card ?S \<le> 1" by (simp add: card_le_Suc0_iff_eq)
  moreover have "\<forall>r \<in> set (v01_operations d). live_operation (op_Status (or_payload r)) \<longrightarrow>
        or_ownership_released r = 0"
    using ok operation_row_okD(5,6) by (auto simp: operations_ok_def unreleased_def)
  ultimately show ?thesis by blast
qed

theorem single_writer_per_enrollment_witness:
  "card {r \<in> set (v01_operations sample_approved). or_enrollment_id r = ''enr'' \<and> or_ownership_released r = 0} \<le> 1 \<and>
   v01_operations sample_approved = [operation_row_of sample_queued]"
  using single_writer_per_enrollment [OF sample_histories(2), of "''enr''"] sample_approved_tables(3) by blast

section \<open>Approval\<close>

lemma GetOperation_iff:
  "GetOperation k d = Inr op \<longleftrightarrow>
     (\<exists>r. rows_with or_operation_id k (v01_operations d) = Some r \<and> op = or_payload r)"
  by (simp add: GetOperation_def getOperationTx_iff)

lemma GetIntent_iff:
  "GetIntent k d = Inr rec \<longleftrightarrow>
     (\<exists>r. rows_with it_intent_id k (v01_intents d) = Some r \<and> rec = it_payload r)"
  by (auto simp: GetIntent_def scanIntent_def split: option.splits)

lemma history_approved_by:
  assumes "journal_history cr d" "GetOperation k d = Inr op"
  shows "approved_by cr d op" "op_OperationID op = k"
proof -
  have ok: "journal_ok cr d" by (rule journal_history_ok [OF assms(1)])
  obtain q where q: "rows_with or_operation_id k (v01_operations d) = Some q" "op = or_payload q"
    using assms(2) by (auto simp: GetOperation_iff)
  show "approved_by cr d op"
    using ok rows_with_SomeD [OF q(1)] q(2) by (auto simp: journal_ok_def)
  show "op_OperationID op = k" using journal_ok_operation(1) [OF ok q(1)] q(2) by simp
qed

text \<open>
  C14. No operation without its approval: in every history each operation has exactly the
  approval of its intent with decision APPROVED and the same digest, and the stored intent
  is sealed under that digest and names the operation's enrollment.
\<close>

theorem operation_has_matching_approval:
  assumes "journal_history cr d" "GetOperation operationID d = Inr op"
  shows "\<exists>approval rec. lookupExistingApproval (op_IntentID op) d = Inr (Some (approval, op)) \<and>
    ap_IntentDigest approval = op_IntentDigest op \<and> GetIntent (op_IntentID op) d = Inr rec \<and>
    ValidateDigest cr (ir_Intent rec) = None \<and> ci_IntentDigest (ir_Intent rec) = op_IntentDigest op \<and>
    ci_EnrollmentID (ir_Intent rec) = op_EnrollmentID op"
proof -
  obtain a r where ar: "rows_with av_intent_id (op_IntentID op) (v01_approvals d) = Some a"
      "ap_Decision (av_payload a) = ''APPROVED''" "ap_IntentDigest (av_payload a) = op_IntentDigest op"
      "rows_with it_intent_id (op_IntentID op) (v01_intents d) = Some r"
      "sealed_intent cr (ir_Intent (it_payload r))"
      "ci_IntentDigest (ir_Intent (it_payload r)) = op_IntentDigest op"
      "ci_EnrollmentID (ir_Intent (it_payload r)) = op_EnrollmentID op"
    using history_approved_by [OF assms] by (auto simp: approved_by_def)
  obtain q where q: "rows_with or_operation_id operationID (v01_operations d) = Some q" "op = or_payload q"
    using assms(2) by (auto simp: GetOperation_iff)
  have ok: "operations_ok (v01_operations d)"
    using journal_history_ok [OF assms(1)] by (simp add: journal_ok_def)
  then have "or_intent_id q = op_IntentID op" "q \<in> set (v01_operations d)"
    using rows_with_SomeD [OF q(1)] q(2) operation_row_okD(2) by (auto simp: operations_ok_def)
  then have "rows_with or_intent_id (op_IntentID op) (v01_operations d) = Some q"
    using ok operations_by_intent.lookup_member by (metis operations_ok_def)
  with ar q(2) show ?thesis
    by (intro exI [of _ "av_payload a"] exI [of _ "it_payload r"])
       (simp add: lookupExistingApproval_Some_iff GetIntent_iff)
qed

theorem operation_has_matching_approval_witness:
  "\<exists>approval rec. lookupExistingApproval ''intent_01'' sample_approved = Inr (Some (approval, sample_queued)) \<and>
     ap_IntentDigest approval = ''29'' \<and> GetIntent ''intent_01'' sample_approved = Inr rec"
proof -
  have "GetOperation sample_operation_id sample_approved = Inr sample_queued"
    by (simp add: GetOperation_iff sample_approved_tables)
  from operation_has_matching_approval [OF sample_histories(2) this] show ?thesis by auto
qed

text \<open>
  C17. Approving twice is approving once: after a successful approval, a second approval of the
  intent with the same digest, by anyone and at any time, returns the stored approval and
  operation and changes nothing, and one with another digest is refused.
\<close>

theorem approve_replay:
  assumes "ApproveIntent ce intentID digest approver osUID now d = Inr ((a, op), d')"
  shows "ApproveIntent ce2 intentID digest approver2 osUID2 now2 d' = Inr ((a, op), d') \<and>
    (digest2 \<noteq> digest \<longrightarrow> ApproveIntent ce2 intentID digest2 approver2 osUID2 now2 d' =
       Inl (NewError ErrInvalidIntentDigest ''existing approval is bound to a different digest''))"
proof -
  have "lookupExistingApproval intentID d' = Inr (Some (a, op)) \<and> ap_IntentDigest a = digest"
    using ApproveIntent_effect [OF assms]
  proof (elim disjE exE conjE)
    fix r
    assume "rows_with av_intent_id intentID (v01_approvals d) = None"
      and a: "a = decision_approval ce intentID digest approver osUID ''APPROVED'' now"
      and op: "op = approved_operation ce intentID digest now (ir_Intent (it_payload r))"
      and "rows_with or_intent_id intentID (v01_operations d) = None"
      and aud: "audited (d\<lparr>v01_approvals := v01_approvals d @ [new_approval_row a intentID digest],
             v01_operations := v01_operations d @ [operation_row_of op],
             v01_intents := update_rows it_intent_id intentID
               (set_intent_payload (decided IntentConsumed now (it_payload r))) (v01_intents d)\<rparr>) d'"
    then show ?thesis
      using audited_tables(3,4) [OF aud]
      by (simp add: lookupExistingApproval_Some_iff rows_with_append)
         (simp add: decision_approval_def approved_operation_def)
  qed simp
  then show ?thesis by (auto simp: ApproveIntent_def check_def)
qed

theorem approve_replay_witness:
  "ApproveIntent (sample_env 9) ''intent_01'' ''29'' ''other'' 7 0 sample_approved =
     Inr ((sample_approval, sample_queued), sample_approved)"
  using approve_replay [OF sample_approved_run] by blast



section \<open>Intents\<close>

text \<open>
  C18. A frozen intent stays what it is: whatever transactions follow, the intent of an
  identifier keeps its content, its digest and its proposal digest, and its status moves only
  from AWAITING_APPROVAL to CONSUMED or REJECTED, or to REVOKED from a status that is not
  final, so a rejected or revoked intent is final.
\<close>

theorem frozen_intent_immutable:
  assumes "journal_history cr d" "GetIntent intentID d = Inr rec" "later cr d d'"
  shows "\<exists>rec'. GetIntent intentID d' = Inr rec' \<and> ir_Intent rec' = ir_Intent rec \<and>
    ir_ProposalDigest rec' = ir_ProposalDigest rec \<and>
    (ir_Status rec' = ir_Status rec \<or>
     ir_Status rec = IntentAwaitingApproval \<and> ir_Status rec' \<in> {IntentConsumed, IntentRejected} \<or>
     ir_Status rec \<notin> {IntentRejected, IntentExpired, IntentRevoked, IntentCancelled} \<and>
       ir_Status rec' = IntentRevoked)"
proof -
  obtain r where "rows_with it_intent_id intentID (v01_intents d) = Some r" "rec = it_payload r"
    using assms(2) by (auto simp: GetIntent_iff)
  then show ?thesis
    using later_intents [OF assms(3) journal_history_ok [OF assms(1)]]
    unfolding intent_history_def intent_decision_def GetIntent_iff by blast
qed

theorem frozen_intent_immutable_witness:
  "\<exists>rec'. GetIntent ''intent_01'' sample_approved = Inr rec' \<and> ir_Intent rec' = sample_intent"
proof -
  have "GetIntent ''intent_01'' sample_frozen = Inr sample_record"
    by (simp add: GetIntent_iff sample_frozen_tables)
  from frozen_intent_immutable [OF sample_histories(1) this sample_later(1)] show ?thesis by auto
qed

text \<open>
  C3. Revocation holds: once an intent is revoked, no later step of its operation is prepared
  and no prepared step is marked as possibly dispatched, whatever happens in between.
\<close>

theorem revoked_intent_never_dispatches:
  assumes "journal_history cr d" "GetIntent intentID d = Inr rec" "ir_Status rec = IntentRevoked"
    "later cr d d'" "GetOperation operationID d' = Inr op" "op_IntentID op = intentID"
  shows "isl (PrepareStep ce operationID stepKind now d') \<and>
    isl (MarkDispatchPossible ce operationID stepID now d')"
proof -
  have ok: "journal_ok cr d'" using later_ok journal_history_ok assms(1,4) by blast
  obtain r where r: "rows_with it_intent_id intentID (v01_intents d) = Some r" "rec = it_payload r"
    using assms(2) by (auto simp: GetIntent_iff)
  obtain r' where r1: "rows_with it_intent_id intentID (v01_intents d') = Some r'"
      and st: "ir_Status (it_payload r') = ir_Status (it_payload r) \<or>
        intent_decision (ir_Status (it_payload r)) (ir_Status (it_payload r'))"
    using later_intents [OF assms(4) journal_history_ok [OF assms(1)]] r(1)
    unfolding intent_history_def by blast
  from st have "ir_Status (it_payload r') = IntentRevoked"
    using r(2) assms(3) by (simp add: intent_decision_def)
  note r' = r1 this
  obtain q where q: "rows_with or_operation_id operationID (v01_operations d') = Some q" "op = or_payload q"
    using assms(5) by (auto simp: GetOperation_iff)
  have "PrepareStep ce operationID stepKind now d' \<noteq> Inr (a, e)" for a e
    using PrepareStep_effect [of ce operationID stepKind now d' a e] q r' assms(6) by fastforce
  moreover have "MarkDispatchPossible ce operationID stepID now d' \<noteq> Inr e" for e
    using updateAttempt_effect [of ce operationID stepID now mark_dispatch "''STEP_DISPATCH_POSSIBLE''" d' e]
      q r' assms(6) journal_ok_intent(2) [OF ok r'(1)]
    unfolding MarkDispatchPossible_def by fastforce
  ultimately show ?thesis by (metis prod.exhaust sum.exhaust_sel isl_def)
qed

theorem revoked_intent_never_dispatches_witness:
  "isl (PrepareStep (sample_env 9) sample_operation_id ''S01_REVALIDATE'' sample_now sample_revoked) \<and>
   isl (MarkDispatchPossible (sample_env 9) sample_operation_id sample_step_id sample_now sample_revoked)"
proof -
  have g: "GetIntent ''intent_01'' sample_revoked = Inr (decided IntentRevoked sample_now sample_consumed)"
    by (simp add: GetIntent_iff sample_revoked_tables)
  have o: "GetOperation sample_operation_id sample_revoked = Inr (sample_moved\<lparr>op_Attempts := [sample_sent]\<rparr>)"
    by (simp add: GetOperation_iff sample_revoked_tables)
  show ?thesis
    by (rule revoked_intent_never_dispatches [OF sample_histories(6) g _ reachable_by.start o]) simp_all
qed

lemma later_client_key:
  assumes "rows_with intent_key key (v01_intents b) = Some r" "later cr b e" "journal_ok cr b"
  shows "\<exists>q. rows_with intent_key key (v01_intents e) = Some q \<and>
      ir_Intent (it_payload q) = ir_Intent (it_payload r) \<and>
      ir_ProposalDigest (it_payload q) = ir_ProposalDigest (it_payload r)"
proof -
  note ib = assms(3) [unfolded journal_ok_def intents_ok_def]
  note ie = later_ok [OF assms(3,2), unfolded journal_ok_def intents_ok_def]
  have r: "r \<in> set (v01_intents b)" "intent_key r = key"
    using rows_with_SomeD [OF assms(1)] by auto
  then have "rows_with it_intent_id (it_intent_id r) (v01_intents b) = Some r"
    using ib intents_by_id.lookup_member by blast
  then obtain q where q: "rows_with it_intent_id (it_intent_id r) (v01_intents e) = Some q"
      "ir_Intent (it_payload q) = ir_Intent (it_payload r)"
      "ir_ProposalDigest (it_payload q) = ir_ProposalDigest (it_payload r)"
    using later_intents [OF assms(2,3)] unfolding intent_history_def by blast
  have mem: "q \<in> set (v01_intents e)" "intent_row_ok q" "intent_row_ok r"
    using rows_with_SomeD [OF q(1)] ib ie r by auto
  then have "intent_key q = key"
    using intent_row_okD(2) [of q] intent_row_okD(2) [of r] q(2) r(2) by (simp add: intent_key_new)
  then have "rows_with intent_key key (v01_intents e) = Some q"
    using ie mem(1) intents_by_key.lookup_member by blast
  with q show ?thesis by blast
qed

lemma PutIntent_stored:
  assumes "PutIntent ce rec seen d = Inr ((stored, created), d')"
  defines "key \<equiv> intent_key (new_intent_row rec)"
  shows "ir_ProposalDigest stored = ir_ProposalDigest rec \<and>
    ((d' = d \<and> (\<exists>r. rows_with intent_key key (v01_intents seen) = Some r \<and> stored = it_payload r)) \<or>
     (\<exists>r. rows_with intent_key key (v01_intents d') = Some r \<and> stored = it_payload r))"
proof (cases "rows_with intent_key key (v01_intents seen)")
  case (Some r)
  with assms show ?thesis
    by (auto simp: PutIntent_def GetIntentByClientKey_def scanIntent_def intent_key_new)
next
  case None
  then have none: "GetIntentByClientKey (ci_PrincipalID (ir_Intent rec)) (ci_EnrollmentID (ir_Intent rec))
      (ci_ClientRequestID (ir_Intent rec)) seen = Inl (NewError ErrNotFound ''intent not found'')"
    by (simp add: GetIntentByClientKey_cases key_def intent_key_new)
  show ?thesis
  proof (cases "insert_intent (new_intent_row rec) d")
    case (Inl err)
    then show ?thesis
      using assms(1) none
      by (auto simp: PutIntent_def GetIntentByClientKey_cases key_def intent_key_new
          translateWriteError_def split: sum.splits)
  next
    case (Inr e)
    with assms(1) none have "stored = rec \<and> d' = appendAuditTx (ce_clock ce 0) (ci_IntentID (ir_Intent rec))
        ''INTENT_FROZEN'' (AuditMap [(''intent_digest'', GString (ci_IntentDigest (ir_Intent rec))),
          (''scope_digest'', GString (ci_ScopeDigest (ir_Intent rec)))]) e"
      by (auto simp: PutIntent_def)
    moreover from Inr have "rows_with intent_key key (v01_intents e) = Some (new_intent_row rec)"
      by (auto simp: insert_intent_iff key_def rows_with_append)
    ultimately show ?thesis by simp
  qed
qed

text \<open>
  C19. A proposal is frozen once: when a first \<open>PutIntent\<close> returned an intent, every later
  \<open>PutIntent\<close> of the same principal, enrollment and client request, whose own lookup was made
  at any point after the first, returns that same intent and writes nothing if the proposal
  digest is the same, and fails with IDEMPOTENCY_CONFLICT if it is another. Other transactions
  may commit between the lookup and the write of either call.
\<close>

theorem put_intent_once:
  assumes "journal_history cr d0" "later cr d0 d1"
    "PutIntent ce rec d0 d1 = Inr ((stored, created), d2)" "ce_crypto ce = cr"
    "later cr d2 seen" "later cr seen d3"
    "ci_PrincipalID (ir_Intent rec') = ci_PrincipalID (ir_Intent rec)"
    "ci_EnrollmentID (ir_Intent rec') = ci_EnrollmentID (ir_Intent rec)"
    "ci_ClientRequestID (ir_Intent rec') = ci_ClientRequestID (ir_Intent rec)"
  shows "if ir_ProposalDigest rec' = ir_ProposalDigest rec
    then \<exists>again. PutIntent ce' rec' seen d3 = Inr ((again, False), d3) \<and> ir_Intent again = ir_Intent stored
    else PutIntent ce' rec' seen d3 = Inl (NewError ErrIdempotencyConflict
           ''client_request_id already identifies different proposal bytes'')"
proof -
  let ?key = "intent_key (new_intent_row rec)"
  have ok0: "journal_ok cr d0" and ok1: "journal_ok cr d1"
    using journal_history_ok later_ok assms(1,2) by blast+
  have ok2: "journal_ok cr d2"
    using journal.inv_step [OF ok1 journal_step.PutIntent [OF assms(4,3)]] .
  have digest: "ir_ProposalDigest stored = ir_ProposalDigest rec"
    using PutIntent_stored [OF assms(3)] by blast
  obtain r where r: "rows_with intent_key ?key (v01_intents d2) = Some r"
      "ir_Intent (it_payload r) = ir_Intent stored"
      "ir_ProposalDigest (it_payload r) = ir_ProposalDigest stored"
    using PutIntent_stored [OF assms(3)] later_client_key [OF _ assms(2) ok0] by blast
  obtain q where "rows_with intent_key ?key (v01_intents seen) = Some q"
      "ir_Intent (it_payload q) = ir_Intent stored" "ir_ProposalDigest (it_payload q) = ir_ProposalDigest rec"
    using later_client_key [OF r(1) assms(5) ok2] r digest by auto
  then show ?thesis
    using assms(7-9)
    by (auto simp: PutIntent_def Let_def GetIntentByClientKey_def scanIntent_def intent_key_new
        same_proposal_def check_def)
qed

theorem put_intent_once_witness:
  "\<exists>again. PutIntent (sample_env 9) sample_record sample_approved sample_approved =
     Inr ((again, False), sample_approved) \<and> ir_Intent again = sample_intent"
  using put_intent_once [OF history_start reachable_by.start sample_frozen_run _ sample_later(1)
      reachable_by.start, of sample_record] by simp

section \<open>Steps\<close>

text \<open>
  C4. The review boundary: in every history the attempts of an operation are the first steps
  of its approved intent in order, none is one of the disabled steps S06 to S10, and with the
  fixed workflow there are at most the six attempts up to S05.
\<close>

theorem workflow_stops_before_S06:
  assumes "journal_history cr d" "GetOperation operationID d = Inr op"
  shows "\<exists>rec. GetIntent (op_IntentID op) d = Inr rec \<and>
    map sa_StepKind (op_Attempts op) = take (length (op_Attempts op)) (ci_Steps (ir_Intent rec)) \<and>
    set (map sa_StepKind (op_Attempts op)) \<inter>
      {''S06_REPLACE_ARTIFACT'', ''S07_PREPARE_LAUNCH_AND_START'', ''S08_VERIFY_UNDER_MAINTENANCE'',
       ''S09_RELEASE_MAINTENANCE'', ''S10_FINALIZE''} = {} \<and>
    (ci_Steps (ir_Intent rec) = FixedWorkflowSteps \<longrightarrow> length (op_Attempts op) \<le> 6)"
proof -
  obtain r where r: "rows_with it_intent_id (op_IntentID op) (v01_intents d) = Some r"
      "map sa_StepKind (op_Attempts op) = take (length (op_Attempts op)) (ci_Steps (ir_Intent (it_payload r)))"
      "length (op_Attempts op) \<le> length (ci_Steps (ir_Intent (it_payload r)))"
      "\<forall>s \<in> set (op_Attempts op). sa_StepKind s \<notin> set disabled_steps"
    using history_approved_by [OF assms] by (auto simp: approved_by_def)
  have "length (op_Attempts op) \<le> 6" if fixed: "ci_Steps (ir_Intent (it_payload r)) = FixedWorkflowSteps"
  proof (rule ccontr)
    assume long: "\<not> length (op_Attempts op) \<le> 6"
    then have "map sa_StepKind (op_Attempts op) ! 6 = FixedWorkflowSteps ! 6"
      unfolding r(2) fixed by simp
    then have "sa_StepKind (op_Attempts op ! 6) = ''S06_REPLACE_ARTIFACT''"
      using long by (simp add: FixedWorkflowSteps_def)
    moreover have "op_Attempts op ! 6 \<in> set (op_Attempts op)" using long by simp
    ultimately show False using r(4) by (auto simp: disabled_steps_def)
  qed
  moreover have "set (map sa_StepKind (op_Attempts op)) \<inter>
      {''S06_REPLACE_ARTIFACT'', ''S07_PREPARE_LAUNCH_AND_START'', ''S08_VERIFY_UNDER_MAINTENANCE'',
       ''S09_RELEASE_MAINTENANCE'', ''S10_FINALIZE''} = {}"
    using r(4) by (auto simp: disabled_steps_def)
  moreover have "GetIntent (op_IntentID op) d = Inr (it_payload r)"
    using r(1) by (simp add: GetIntent_iff)
  ultimately show ?thesis using r(2) by blast
qed

theorem workflow_stops_before_S06_witness:
  "length (op_Attempts (sample_moved\<lparr>op_Attempts := [sample_sent]\<rparr>)) \<le> 6 \<and>
   GetOperation sample_operation_id sample_dispatched = Inr (sample_moved\<lparr>op_Attempts := [sample_sent]\<rparr>)"
proof -
  have o: "GetOperation sample_operation_id sample_dispatched = Inr (sample_moved\<lparr>op_Attempts := [sample_sent]\<rparr>)"
    by (simp add: GetOperation_iff sample_dispatched_tables)
  from workflow_stops_before_S06 [OF sample_histories(5) o] o show ?thesis
    by (auto simp: GetIntent_iff sample_dispatched_tables)
qed

lemma attempt_index_map:
  "attempt_index stepID xs n = Some i \<Longrightarrow> j < i - n \<Longrightarrow> sa_StepID (xs ! j) \<noteq> stepID"
proof (induction stepID xs n arbitrary: j rule: attempt_index.induct)
  case (2 stepID a rest n)
  then show ?case
    using attempt_index_SomeD [of stepID rest "Suc n" i]
    by (cases j) (auto split: if_splits)
qed simp

lemma attempt_index_prefix:
  assumes "attempt_index stepID xs 0 = Some i"
    "map sa_StepID xs = take (length xs) (map sa_StepID ys)"
    "attempt_index stepID ys 0 = Some j"
  shows "j = i"
proof -
  have i: "i < length xs" "sa_StepID (xs ! i) = stepID"
    using attempt_index_SomeD [OF assms(1)] by auto
  have j: "j < length ys" "sa_StepID (ys ! j) = stepID"
    using attempt_index_SomeD [OF assms(3)] by auto
  have len: "length xs \<le> length ys"
    using arg_cong [OF assms(2), of length] by simp
  have same: "sa_StepID (ys ! k) = sa_StepID (xs ! k)" if "k < length xs" for k
    using arg_cong [OF assms(2), of "\<lambda>l. l ! k"] that len by simp
  show ?thesis
  proof (rule ccontr)
    assume "j \<noteq> i"
    then consider "j < i" | "i < j" by linarith
    then show False
      using attempt_index_map [OF assms(1), of j] attempt_index_map [OF assms(3), of i] i j same
      by cases (simp_all add: same)
  qed
qed

text \<open>What \<open>MarkDispatchPossible\<close> needs of the attempt and leaves behind.\<close>

lemma MarkDispatchPossible_effect:
  assumes "MarkDispatchPossible ce operationID stepID now d = Inr d'"
  shows "\<exists>q i. rows_with or_operation_id operationID (v01_operations d) = Some q \<and>
    attempt_index stepID (op_Attempts (or_payload q)) 0 = Some i \<and>
    sa_DispatchState (op_Attempts (or_payload q) ! i) = NotDispatched"
  using assms
  by (auto simp: MarkDispatchPossible_def updateAttempt_def getOperationTx_iff mark_dispatch_iff
      split: option.splits if_splits)

lemma attempt_index_cong:
  "map sa_StepID xs = map sa_StepID ys \<Longrightarrow> attempt_index stepID xs n = attempt_index stepID ys n"
proof (induction xs arbitrary: ys n)
  case (Cons x xs)
  then show ?case by (cases ys) auto
qed simp

lemma MarkDispatchPossible_leaves:
  assumes "MarkDispatchPossible ce operationID stepID now d = Inr d'" "journal_ok cr d"
  shows "\<exists>q i. rows_with or_operation_id operationID (v01_operations d') = Some q \<and>
    attempt_index stepID (op_Attempts (or_payload q)) 0 = Some i \<and>
    sa_DispatchState (op_Attempts (or_payload q) ! i) \<noteq> NotDispatched"
proof -
  obtain q i mutated a op' where q: "rows_with or_operation_id operationID (v01_operations d) = Some q"
      and i: "attempt_index stepID (op_Attempts (or_payload q)) 0 = Some i"
      and len: "i < length (op_Attempts (or_payload q))"
      and mutated: "mark_dispatch (op_Attempts (or_payload q) ! i) = Inr mutated"
      "a = mutated\<lparr>sa_UpdatedAt := now\<rparr>"
      and settled: "op' = settle_operation ''STEP_DISPATCH_POSSIBLE'' a ((or_payload q)\<lparr>
             op_Attempts := (op_Attempts (or_payload q))[i := a], op_UpdatedAt := now\<rparr>)"
      and aud: "audited ((update_step stepID operationID a now d)\<lparr>
        v01_operations := update_rows or_operation_id (op_OperationID op')
           (set_operation_payload op') (v01_operations d)\<rparr>) d'"
    using updateAttempt_effect [OF assms(1) [unfolded MarkDispatchPossible_def]] by blast
  have a: "sa_StepID a = sa_StepID (op_Attempts (or_payload q) ! i)" "sa_DispatchState a = DispatchPossible"
    using mutated by (auto simp: mark_dispatch_iff)
  have op': "op_Attempts op' = (op_Attempts (or_payload q))[i := a]"
      "v01_operations d' = update_rows or_operation_id operationID (set_operation_payload op') (v01_operations d)"
    using journal_ok_operation(1) [OF assms(2) q] audited_tables(4) [OF aud] by (simp_all add: settled)
  have "rows_with or_operation_id operationID (v01_operations d') = Some (set_operation_payload op' q)"
    unfolding op'(2) by (simp add: operations_by_id.lookup_update q)
  moreover have "attempt_index stepID (op_Attempts op') 0 = Some i"
    using attempt_index_cong [of "op_Attempts op'" "op_Attempts (or_payload q)" stepID 0] i a(1)
    by (simp add: op'(1) map_update_same)
  ultimately show ?thesis using a(2) op'(1) len by (intro exI) auto
qed

text \<open>A step that may have been dispatched, by the journal.\<close>

definition dispatched :: "db \<Rightarrow> string \<Rightarrow> string \<Rightarrow> bool" where
  "dispatched d operationID stepID \<longleftrightarrow>
     (\<exists>q i. rows_with or_operation_id operationID (v01_operations d) = Some q \<and>
        attempt_index stepID (op_Attempts (or_payload q)) 0 = Some i \<and>
        sa_DispatchState (op_Attempts (or_payload q) ! i) \<noteq> NotDispatched)"

lemma dispatched_not_marked:
  "dispatched d operationID stepID \<Longrightarrow> isl (MarkDispatchPossible ce operationID stepID now d)"
  using MarkDispatchPossible_effect unfolding dispatched_def isl_def
  by (metis option.inject sum.exhaust)

lemma attempt_index_None: "attempt_index stepID xs n = None \<longleftrightarrow> stepID \<notin> set (map sa_StepID xs)"
  by (induction stepID xs n rule: attempt_index.induct) auto

lemma attempt_index_longer:
  assumes "attempt_index stepID xs 0 = Some i"
    "map sa_StepID xs = take (length xs) (map sa_StepID ys)"
  shows "attempt_index stepID ys 0 = Some i"
proof -
  have "\<exists>j. attempt_index stepID ys 0 = Some j"
  proof (rule ccontr)
    assume "\<nexists>j. attempt_index stepID ys 0 = Some j"
    then have "stepID \<notin> set (map sa_StepID ys)"
      using attempt_index_None [of stepID ys 0] by (cases "attempt_index stepID ys 0") auto
    moreover have "stepID \<in> set (map sa_StepID xs)"
      using attempt_index_SomeD [OF assms(1)] by (metis diff_zero imageI list.set_map nth_mem)
    ultimately show False using assms(2) by (metis in_set_takeD)
  qed
  then show ?thesis using attempt_index_prefix [OF assms] by blast
qed

lemma dispatched_later:
  assumes "dispatched d operationID stepID" "later cr d d'" "journal_ok cr d"
  shows "dispatched d' operationID stepID"
proof -
  obtain q i where q: "rows_with or_operation_id operationID (v01_operations d) = Some q"
      "attempt_index stepID (op_Attempts (or_payload q)) 0 = Some i"
      "sa_DispatchState (op_Attempts (or_payload q) ! i) \<noteq> NotDispatched"
    using assms(1) by (auto simp: dispatched_def)
  obtain q' where q': "rows_with or_operation_id operationID (v01_operations d') = Some q'"
      "operation_kept (or_payload q) (or_payload q')"
    using later_operations [OF assms(2,3)] q(1) unfolding operation_history_def by blast
  have "i < length (op_Attempts (or_payload q))" using attempt_index_SomeD [OF q(2)] by simp
  then have "sa_DispatchState (op_Attempts (or_payload q') ! i) \<noteq> NotDispatched"
    using q(3) q'(2) by (simp add: operation_kept_def dispatched_kept_def)
  moreover have "attempt_index stepID (op_Attempts (or_payload q')) 0 = Some i"
    using attempt_index_longer [OF q(2)] q'(2) by (simp add: operation_kept_def)
  ultimately show ?thesis using q'(1) by (auto simp: dispatched_def)
qed

text \<open>
  C2. A step is dispatched at most once: after \<open>MarkDispatchPossible\<close> succeeded for a step, it
  never succeeds again for that step, in whatever later state it is tried.
\<close>

theorem dispatch_at_most_once:
  assumes "journal_history cr d" "MarkDispatchPossible ce operationID stepID now d = Inr d'"
    "ce_crypto ce = cr" "later cr d' d''"
  shows "isl (MarkDispatchPossible ce' operationID stepID now' d'')"
proof -
  have ok: "journal_ok cr d'"
    using journal.inv_step [OF journal_history_ok [OF assms(1)] journal_step.MarkDispatchPossible [OF assms(3,2)]] .
  have "dispatched d' operationID stepID"
    using MarkDispatchPossible_leaves [OF assms(2) journal_history_ok [OF assms(1)]]
    by (simp add: dispatched_def)
  then show ?thesis
    using dispatched_later [OF _ assms(4) ok] dispatched_not_marked by blast
qed

theorem dispatch_at_most_once_witness:
  "isl (MarkDispatchPossible (sample_env 9) sample_operation_id sample_step_id sample_now sample_dispatched)"
  by (rule dispatch_at_most_once [OF sample_histories(4) sample_dispatched_run _ reachable_by.start]) simp

text \<open>
  C20. The table of steps and the attempts inside the operations are two copies of one list:
  in every history the rows of an operation in \<open>v01_steps\<close>, in insertion order, hold exactly
  the attempts its payload lists, and every step leads back to its operation.
\<close>

theorem steps_table_mirrors_attempts:
  assumes "journal_history cr d"
  shows "(GetOperation operationID d = Inr op \<longrightarrow> steps_of (v01_steps d) operationID = op_Attempts op) \<and>
    (s \<in> set (v01_steps d) \<longrightarrow>
       (\<exists>op. OperationForStep (st_step_id s) d = Inr op \<and> op_OperationID op = st_operation_id s \<and>
             st_payload s \<in> set (op_Attempts op)))"
proof (intro conjI impI)
  have ok: "journal_ok cr d" by (rule journal_history_ok [OF assms])
  then have s: "steps_ok (v01_operations d) (v01_steps d)" by (simp add: journal_ok_def)
  show "steps_of (v01_steps d) operationID = op_Attempts op" if "GetOperation operationID d = Inr op"
    using that s rows_with_SomeD [of or_operation_id operationID "v01_operations d"]
    by (auto simp: GetOperation_iff steps_ok_def)
  assume mem: "s \<in> set (v01_steps d)"
  then obtain q where q: "rows_with or_operation_id (st_operation_id s) (v01_operations d) = Some q"
    using s rows_with_exists [of _ "v01_operations d" or_operation_id] unfolding steps_ok_def
    by (metis imageE)
  have lookup: "rows_with st_step_id (st_step_id s) (v01_steps d) = Some s"
    using s mem steps_by_id.lookup_member unfolding steps_ok_def by blast
  have "st_payload s \<in> set (steps_of (v01_steps d) (st_operation_id s))"
    using mem by (auto simp: steps_of_def)
  then have "st_payload s \<in> set (op_Attempts (or_payload q))"
    using s rows_with_SomeD [OF q] unfolding steps_ok_def by metis
  with q lookup show "\<exists>op. OperationForStep (st_step_id s) d = Inr op \<and>
      op_OperationID op = st_operation_id s \<and> st_payload s \<in> set (op_Attempts op)"
    using journal_ok_operation(1) [OF ok q] by (simp add: OperationForStep_def)
qed

theorem steps_table_mirrors_attempts_witness:
  "steps_of (v01_steps sample_dispatched) sample_operation_id = [sample_sent] \<and>
   (\<exists>op. OperationForStep sample_step_id sample_dispatched = Inr op \<and> op_OperationID op = sample_operation_id)"
proof -
  have o: "GetOperation sample_operation_id sample_dispatched = Inr (sample_moved\<lparr>op_Attempts := [sample_sent]\<rparr>)"
    by (simp add: GetOperation_iff sample_dispatched_tables)
  show ?thesis
    using steps_table_mirrors_attempts [OF sample_histories(5), of sample_operation_id _
        "step_row_of sample_operation_id sample_sent"] o
    by (auto simp: sample_dispatched_tables)
qed

section \<open>The end of an operation\<close>



section \<open>The audit log\<close>



section \<open>Unresolved operations\<close>

definition unresolved :: "OperationStatus \<Rightarrow> bool" where
  "unresolved s \<longleftrightarrow> s = OperationUnknown \<or> s = OperationNeedsIntervention"

lemma operation_change_unresolved:
  assumes "operation_change op op'" "unresolved (op_Status op)"
  shows "unresolved (op_Status op') \<and> op_OwnershipReleased op' = op_OwnershipReleased op"
  using assms by (cases rule: operation_change.cases) (auto simp: unresolved_def live_operation_iff)

lemma operations_step_unresolved:
  assumes "operations_step t t'" "rows_with or_operation_id k t = Some q" "unresolved (op_Status (or_payload q))"
  shows "\<exists>q'. rows_with or_operation_id k t' = Some q' \<and> unresolved (op_Status (or_payload q')) \<and>
    op_OwnershipReleased (or_payload q') = op_OwnershipReleased (or_payload q) \<and>
    op_EnrollmentID (or_payload q') = op_EnrollmentID (or_payload q)"
  using assms(1)
proof (cases rule: operations_step.cases)
  case (operations_acquire op)
  with assms(2,3) show ?thesis by (simp add: rows_with_append)
next
  case (operations_save j r op')
  with assms(2,3) show ?thesis
    using operation_change_unresolved [OF operations_save(3)]
      operation_change_identity [OF operations_save(3)]
    by (auto simp: operations_by_id.lookup_update same_identity_def)
qed (use assms in auto)

lemma later_unresolved:
  assumes "later cr d d'" "journal_ok cr d" "rows_with or_operation_id k (v01_operations d) = Some q"
    "unresolved (op_Status (or_payload q))"
  shows "\<exists>q'. rows_with or_operation_id k (v01_operations d') = Some q' \<and>
    unresolved (op_Status (or_payload q')) \<and>
    op_OwnershipReleased (or_payload q') = op_OwnershipReleased (or_payload q) \<and>
    op_EnrollmentID (or_payload q') = op_EnrollmentID (or_payload q)"
  using assms(1)
proof (induction rule: reachable_by.induct)
  case (more s t)
  then obtain p where p: "rows_with or_operation_id k (v01_operations s) = Some p"
      "unresolved (op_Status (or_payload p))"
      "op_OwnershipReleased (or_payload p) = op_OwnershipReleased (or_payload q)"
      "op_EnrollmentID (or_payload p) = op_EnrollmentID (or_payload q)" by blast
  have "journal_ok cr s" using later_ok [OF assms(2) more(1)] .
  then have "operations_step (v01_operations s) (v01_operations t)"
    by (intro change_operations [OF journal_step_change [OF more(2)]])
  from operations_step_unresolved [OF this p(1,2)] p(3,4) show ?case by auto
qed (use assms in auto)




section \<open>Backups\<close>

text \<open>
  A completed backup is final: after \<open>CompleteBackup\<close> succeeded, the record is VALID with the
  given archive digest and size, passes \<open>ValidateCompleted\<close>, and no later transaction changes
  any field of it; the S05 attempt is acknowledged with that digest in the same transaction.
\<close>

theorem complete_backup_final:
  assumes "journal_history cr d" "CompleteBackup ce backupID digest sz ready now d = Inr d'"
    "later cr d' d''"
  shows "\<exists>r op. GetBackup backupID d'' = Inr r \<and> bk_Status r = BackupValid \<and>
    ValidateCompleted r = None \<and> bk_ArchiveSHA256 r = digest \<and> bk_ArchiveSizeBytes r = sz \<and>
    bk_CompletedAt r = now \<and> length digest = 64 \<and> 0 < sz \<and>
    GetOperation (bk_OperationID r) d = Inr op \<and> op_Status op = OperationExecuting \<and>
    GetOperation (bk_OperationID r) d' = Inr (op\<lparr>op_Attempts := (op_Attempts op)[5 :=
      acknowledged_attempt backupID digest now (op_Attempts op ! 5)], op_UpdatedAt := now\<rparr>)"
proof -
  obtain b :: backup_row and q a op' where b: "archive_digest_ok digest sz"
      "rows_with bw_backup_id backupID (v01_backups d) = Some b"
      "rows_with or_operation_id (bk_OperationID (bw_payload b)) (v01_operations d) = Some q"
      "op_Status (or_payload q) = OperationExecuting"
      "ValidateCompleted (completed_record (bw_payload b) digest sz ready now) = None"
      "a = acknowledged_attempt backupID digest now (op_Attempts (or_payload q) ! 5)"
      "op' = (or_payload q)\<lparr>op_Attempts := (op_Attempts (or_payload q))[5 := a], op_UpdatedAt := now\<rparr>"
    and aud: "audited (d\<lparr>v01_backups := update_rows bw_backup_id backupID
          (set_backup_payload (completed_record (bw_payload b) digest sz ready now)) (v01_backups d),
        v01_steps := update_rows st_step_id (sa_StepID a)
          (\<lambda>s. s\<lparr>st_payload := a, st_updated_at := format_time now\<rparr>) (v01_steps d),
        v01_operations := update_rows or_operation_id (op_OperationID (or_payload q))
          (set_operation_payload op') (v01_operations d)\<rparr>) d'"
    using CompleteBackup_effect [OF assms(2)] by blast
  let ?r = "completed_record (bw_payload b) digest sz ready now"
  have r: "bk_Status ?r = BackupValid" "bk_ArchiveSHA256 ?r = digest" "bk_ArchiveSizeBytes ?r = sz"
      "bk_CompletedAt ?r = now" "bk_OperationID ?r = bk_OperationID (bw_payload b)"
    by (simp_all add: completed_record_def)
  have "rows_with bw_backup_id backupID (v01_backups d') = Some (set_backup_payload ?r b)"
    using audited_tables(6) [OF aud] b(2) by (simp add: backups_by_id.lookup_update)
  then obtain b'' where b'': "rows_with bw_backup_id backupID (v01_backups d'') = Some b''" "bw_payload b'' = ?r"
    using history_backups [OF assms(3)] r(1) unfolding backup_history_def
    by (metis set_backup_payload_simps(3))
  have "op_OperationID (or_payload q) = bk_OperationID (bw_payload b)"
    by (rule journal_ok_operation(1) [OF journal_history_ok [OF assms(1)] b(3)])
  then have "GetOperation (bk_OperationID (bw_payload b)) d' = Inr op'"
    using audited_tables(4) [OF aud] b(3) by (simp add: GetOperation_iff operations_by_id.lookup_update)
  moreover have "GetOperation (bk_OperationID (bw_payload b)) d = Inr (or_payload q)"
    using b(3) by (simp add: GetOperation_iff)
  moreover have "length digest = 64" "0 < sz"
    using b(1) hex_decode_length by (auto simp: archive_digest_ok_def split: option.splits)
  ultimately show ?thesis
    using b'' b r by (intro exI [of _ ?r] exI [of _ "or_payload q"]) (simp add: GetBackup_def)
qed

end
