(* ===== verification/Go_Text.thy ===== *)
theory Go_Text
  imports Canonical
begin

text \<open>
  The parts of Go's \<open>strings\<close>, \<open>path/filepath\<close> and \<open>strconv\<close> packages that the adapters and the
  configuration loaders use, on Unix. A path is handled through its elements between slashes;
  \<open>Clean\<close> normalizes them, and \<open>path_within\<close> (which \<open>host/observer.go\<close> and \<open>backup/offline.go\<close> both
  define over \<open>filepath.Rel\<close>) is shown to compare the elements of clean absolute paths.
\<close>

section \<open>strings\<close>

definition char_range :: "char \<Rightarrow> char \<Rightarrow> char \<Rightarrow> bool" where
  "char_range lo hi c \<longleftrightarrow> lo \<le> c \<and> c \<le> hi"

definition ascii_digit :: "char \<Rightarrow> bool" where
  "ascii_digit = char_range CHR ''0'' CHR ''9''"

definition ascii_letter :: "char \<Rightarrow> bool" where
  "ascii_letter c \<longleftrightarrow> char_range CHR ''a'' CHR ''z'' c \<or> char_range CHR ''A'' CHR ''Z'' c"

definition HasPrefix :: "string \<Rightarrow> string \<Rightarrow> bool" where
  "HasPrefix s p \<longleftrightarrow> take (length p) s = p"

definition HasSuffix :: "string \<Rightarrow> string \<Rightarrow> bool" where
  "HasSuffix s p \<longleftrightarrow> HasPrefix (rev s) (rev p)"

definition TrimPrefix :: "string \<Rightarrow> string \<Rightarrow> string" where
  "TrimPrefix s p = (if HasPrefix s p then drop (length p) s else s)"

fun Contains :: "string \<Rightarrow> string \<Rightarrow> bool" where
  "Contains [] sub \<longleftrightarrow> sub = []"
| "Contains (c # cs) sub \<longleftrightarrow> HasPrefix (c # cs) sub \<or> Contains cs sub"

fun split_on :: "char \<Rightarrow> string \<Rightarrow> string list" where
  "split_on sep [] = [[]]"
| "split_on sep (c # cs) =
     (if c = sep then [] # split_on sep cs
      else case split_on sep cs of [] \<Rightarrow> [[c]] | w # ws \<Rightarrow> (c # w) # ws)"

text \<open>\<open>strings.Cut\<close>: the text before and after the first separator, and whether there is one.\<close>

definition Cut :: "string \<Rightarrow> char \<Rightarrow> string \<times> string \<times> bool" where
  "Cut s sep =
     (let before = takeWhile (\<lambda>c. c \<noteq> sep) s
      in (before, drop (Suc (length before)) s, sep \<in> set s))"

text \<open>\<open>strings.IndexByte\<close> and \<open>strings.LastIndexByte\<close>, \<open>None\<close> for Go's \<open>-1\<close>.\<close>

definition IndexByte :: "string \<Rightarrow> char \<Rightarrow> nat option" where
  "IndexByte s c = (if c \<in> set s then Some (length (takeWhile (\<lambda>x. x \<noteq> c) s)) else None)"

fun LastIndexByte :: "string \<Rightarrow> char \<Rightarrow> nat option" where
  "LastIndexByte [] c = None"
| "LastIndexByte (x # xs) c =
     (case LastIndexByte xs c of
        Some i \<Rightarrow> Some (Suc i)
      | None \<Rightarrow> if x = c then Some 0 else None)"

text \<open>White space: the ASCII characters of \<open>unicode.IsSpace\<close>.\<close>

definition ascii_space :: "char \<Rightarrow> bool" where
  "ascii_space c \<longleftrightarrow> (of_char c :: nat) \<in> {9, 10, 11, 12, 13, 32}"

definition TrimSpace :: "string \<Rightarrow> string" where
  "TrimSpace s = rev (dropWhile ascii_space (rev (dropWhile ascii_space s)))"

fun fields_from :: "string \<Rightarrow> string \<Rightarrow> string list" where
  "fields_from word [] = (if word = [] then [] else [word])"
| "fields_from word (c # cs) =
     (if ascii_space c then (if word = [] then fields_from [] cs else word # fields_from [] cs)
      else fields_from (word @ [c]) cs)"

definition Fields :: "string \<Rightarrow> string list" where
  "Fields s = fields_from [] s"

text \<open>
  \<open>strings.EqualFold\<close> against an ASCII text: besides the two cases of a letter, the long s
  (bytes C5 BF) folds to \<open>s\<close> and the Kelvin sign (bytes E2 84 AA) to \<open>k\<close>.
\<close>

fun fold_ascii :: "string \<Rightarrow> string" where
  "fold_ascii (a # b # c # cs) =
     (if a = CHR 0xE2 \<and> b = CHR 0x84 \<and> c = CHR 0xAA then CHR ''k'' # fold_ascii cs
      else if a = CHR 0xC5 \<and> b = CHR 0xBF then CHR ''s'' # fold_ascii (c # cs)
      else lower_char a # fold_ascii (b # c # cs))"
| "fold_ascii [a, b] =
     (if a = CHR 0xC5 \<and> b = CHR 0xBF then ''s'' else [lower_char a, lower_char b])"
| "fold_ascii [a] = [lower_char a]"
| "fold_ascii [] = []"

definition EqualFold :: "string \<Rightarrow> string \<Rightarrow> bool" where
  "EqualFold s t \<longleftrightarrow> fold_ascii s = fold_ascii t"

definition upper_char :: "char \<Rightarrow> char" where
  "upper_char c = (let n = of_char c :: nat in if 97 \<le> n \<and> n \<le> 122 then char_of (n - 32) else c)"

section \<open>strconv\<close>

definition digit_value :: "char \<Rightarrow> int" where
  "digit_value c = int (of_char c) - 48"

definition digits_value :: "string \<Rightarrow> int" where
  "digits_value s = foldl (\<lambda>n c. 10 * n + digit_value c) 0 s"

text \<open>\<open>strconv.Atoi\<close>: an optional sign and decimal digits within 64 bits.\<close>

definition Atoi :: "string \<Rightarrow> int option" where
  "Atoi s =
     (let signed = s \<noteq> [] \<and> (hd s = CHR ''-'' \<or> hd s = CHR ''+'');
          ds = (if signed then tl s else s);
          n = (if signed \<and> hd s = CHR ''-'' then - digits_value ds else digits_value ds)
      in if ds = [] \<or> \<not> list_all ascii_digit ds \<or> n < - (2 ^ 63) \<or> 2 ^ 63 - 1 < n then None else Some n)"

definition format_int :: "int \<Rightarrow> string" where
  "format_int n = (if n < 0 then CHR ''-'' # decimal (nat (- n)) else decimal (nat n))"

section \<open>path/filepath\<close>

definition IsAbs :: "string \<Rightarrow> bool" where
  "IsAbs p \<longleftrightarrow> HasPrefix p ''/''"

fun join_slash :: "string list \<Rightarrow> string" where
  "join_slash [] = ''''"
| "join_slash [e] = e"
| "join_slash (e # es) = e @ ''/'' @ join_slash es"

fun clean_elems :: "bool \<Rightarrow> string list \<Rightarrow> string list \<Rightarrow> string list" where
  "clean_elems rooted st [] = rev st"
| "clean_elems rooted st (e # es) =
     (if e = '''' \<or> e = ''.'' then clean_elems rooted st es
      else if e = ''..''
      then (case st of
              [] \<Rightarrow> clean_elems rooted (if rooted then [] else [''..'']) es
            | t # ts \<Rightarrow> clean_elems rooted (if t = ''..'' then ''..'' # st else ts) es)
      else clean_elems rooted (e # st) es)"

definition elems :: "string \<Rightarrow> string list" where
  "elems p = clean_elems (IsAbs p) [] (split_on CHR ''/'' p)"

definition Clean :: "string \<Rightarrow> string" where
  "Clean p =
     (if IsAbs p then ''/'' @ join_slash (elems p)
      else if elems p = [] then ''.'' else join_slash (elems p))"

definition clean_absolute :: "string \<Rightarrow> bool" where
  "clean_absolute p \<longleftrightarrow> \<not> (p = '''' \<or> \<not> IsAbs p \<or> Clean p \<noteq> p)"

fun strip_common :: "string list \<Rightarrow> string list \<Rightarrow> string list \<times> string list" where
  "strip_common (x # xs) (y # ys) = (if x = y then strip_common xs ys else (x # xs, y # ys))"
| "strip_common xs ys = (xs, ys)"

definition Rel :: "string \<Rightarrow> string \<Rightarrow> string option" where
  "Rel base targ =
     (if Clean base = Clean targ then Some ''.''
      else if IsAbs base \<noteq> IsAbs targ then None
      else case strip_common (elems base) (elems targ) of (b, t) \<Rightarrow>
        if b \<noteq> [] \<and> hd b = ''..'' then None
        else Some (join_slash (replicate (length b) ''..'' @ t)))"

definition path_within :: "string \<Rightarrow> string \<Rightarrow> bool" where
  "path_within p root \<longleftrightarrow>
     (case Rel root p of None \<Rightarrow> False | Some rel \<Rightarrow> rel \<noteq> ''..'' \<and> \<not> HasPrefix rel ''../'')"

definition Dir :: "string \<Rightarrow> string" where
  "Dir p = (case LastIndexByte p CHR ''/'' of None \<Rightarrow> Clean '''' | Some i \<Rightarrow> Clean (take (Suc i) p))"

definition Base :: "string \<Rightarrow> string" where
  "Base p =
     (if p = '''' then ''.''
      else let q = rev (dropWhile (\<lambda>c. c = CHR ''/'') (rev p)) in
        if q = '''' then ''/'' else last (split_on CHR ''/'' q))"

text \<open>\<open>filepath.Ext\<close>: from the last dot of the last element.\<close>

definition Ext :: "string \<Rightarrow> string" where
  "Ext p = (let e = last (split_on CHR ''/'' p) in
     case LastIndexByte e CHR ''.'' of None \<Rightarrow> '''' | Some i \<Rightarrow> drop i e)"

section \<open>Digests in text\<close>

text \<open>\<open>validSHA256\<close>, \<open>validSnapshotDigest\<close> and the same test written out in the loaders.\<close>

definition validSHA256 :: "string \<Rightarrow> bool" where
  "validSHA256 value \<longleftrightarrow>
     (case hex_decode value of None \<Rightarrow> False | Some decoded \<Rightarrow> length decoded = 32 \<and> value = to_lower value)"

lemma validSHA256_length: "validSHA256 s \<Longrightarrow> length s = 64"
  by (auto simp: validSHA256_def dest!: hex_decode_length split: option.splits)

section \<open>Facts\<close>

lemma split_on_ne [simp]: "split_on sep s \<noteq> []"
  by (cases s) (auto split: list.splits)

lemma split_on_no_sep: "w \<in> set (split_on sep s) \<Longrightarrow> sep \<notin> set w"
  by (induction s arbitrary: w) (auto split: if_splits list.splits)

lemma split_on_word: "sep \<notin> set w \<Longrightarrow> split_on sep w = [w]"
  by (induction w) auto

lemma split_on_append: "sep \<notin> set w \<Longrightarrow> split_on sep (w @ sep # s) = w # split_on sep s"
  by (induction w) auto

lemma split_join:
  "es \<noteq> [] \<Longrightarrow> \<forall>e \<in> set es. CHR ''/'' \<notin> set e \<Longrightarrow> split_on CHR ''/'' (join_slash es) = es"
  by (induction es rule: join_slash.induct) (auto simp: split_on_word split_on_append)

lemma HasPrefix_append [simp]: "HasPrefix (p @ s) p"
  by (simp add: HasPrefix_def)

lemma HasPrefix_iff: "HasPrefix s p \<longleftrightarrow> (\<exists>r. s = p @ r)"
  by (auto simp: HasPrefix_def) (metis append_take_drop_id)

lemma IsAbs_iff: "IsAbs p \<longleftrightarrow> (\<exists>q. p = CHR ''/'' # q)"
  by (auto simp: IsAbs_def HasPrefix_iff)

lemma Contains_iff: "Contains s sub \<longleftrightarrow> (\<exists>a b. s = a @ sub @ b)"
proof (induction s)
  case (Cons c cs)
  note IH = Cons
  show ?case
  proof
    assume "Contains (c # cs) sub"
    then consider r where "c # cs = sub @ r" | a b where "cs = a @ sub @ b"
      using Cons by (auto simp: HasPrefix_iff)
    then show "\<exists>a b. c # cs = a @ sub @ b"
      by cases (metis append_Nil, metis append_Cons)
  next
    assume "\<exists>a b. c # cs = a @ sub @ b"
    then obtain a b where ab: "c # cs = a @ sub @ b" by blast
    show "Contains (c # cs) sub"
    proof (cases a)
      case Nil
      with ab have "HasPrefix (c # cs) sub" unfolding HasPrefix_iff by simp
      then show ?thesis by simp
    next
      case (Cons x xs)
      with ab have "cs = xs @ sub @ b" by simp
      then show ?thesis using IH by auto
    qed
  qed
qed auto

text \<open>An element that \<open>Clean\<close> keeps.\<close>

definition proper :: "string \<Rightarrow> bool" where
  "proper e \<longleftrightarrow> e \<noteq> '''' \<and> e \<noteq> ''.'' \<and> CHR ''/'' \<notin> set e"

lemma properI: "e \<noteq> '''' \<Longrightarrow> e \<noteq> ''.'' \<Longrightarrow> CHR ''/'' \<notin> set e \<Longrightarrow> proper e"
  by (simp add: proper_def)

lemma clean_elems_proper:
  assumes "\<forall>e \<in> set st. proper e" "\<forall>e \<in> set es. CHR ''/'' \<notin> set e"
  shows "\<forall>e \<in> set (clean_elems rooted st es). proper e"
  using assms
proof (induction es arbitrary: st)
  case (Cons e es)
  have keep: "proper ''..''" by (simp add: proper_def)
  have ok: "proper e" if "\<not> (e = '''' \<or> e = ''.'')" using that Cons.prems(2) by (intro properI) auto
  have rest: "\<forall>e \<in> set (clean_elems rooted st' es). proper e" if "\<forall>e \<in> set st'. proper e" for st'
    using Cons.IH [OF that] Cons.prems(2) by simp
  consider "e = '''' \<or> e = ''.''" | "e = ''..''" "st = []" | t ts where "e = ''..''" "st = t # ts"
    | "proper e" "e \<noteq> ''..''" using ok by (cases st) blast+
  then show ?case
  proof cases
    case 1
    then show ?thesis using rest [OF Cons.prems(1)] by auto
  next
    case 2
    then show ?thesis using rest [of "[]"] rest [of "[''..'']"] keep by simp
  next
    case (3 t ts)
    then show ?thesis using rest [of "''..'' # st"] rest [of ts] Cons.prems(1) keep by simp
  next
    case 4
    then have "\<not> (e = '''' \<or> e = ''.'')" unfolding proper_def by blast
    with 4(2) have step: "clean_elems rooted st (e # es) = clean_elems rooted (e # st) es"
      by (subst clean_elems.simps) (simp only: if_False)
    have "\<forall>e' \<in> set (e # st). proper e'" using 4(1) Cons.prems(1) by simp
    then show ?thesis unfolding step by (rule rest)
  qed
qed simp

lemma clean_elems_rooted:
  "''..'' \<notin> set st \<Longrightarrow> ''..'' \<notin> set (clean_elems True st es)"
proof (induction es arbitrary: st)
  case (Cons e es)
  then show ?case by (cases st) auto
qed simp

lemma elems_proper: "e \<in> set (elems p) \<Longrightarrow> proper e"
  using clean_elems_proper [of "[]" "split_on CHR ''/'' p" "IsAbs p"] split_on_no_sep
  unfolding elems_def by (metis empty_iff empty_set)

lemma elems_absolute: "IsAbs p \<Longrightarrow> ''..'' \<notin> set (elems p)"
  using clean_elems_rooted [of "[]"] by (simp add: elems_def)

lemma clean_elems_keep:
  "\<forall>e \<in> set es. proper e \<and> e \<noteq> ''..'' \<Longrightarrow> clean_elems rooted st es = rev st @ es"
  by (induction es arbitrary: st) (auto simp: proper_def)

lemma elems_Clean_absolute:
  assumes "IsAbs p"
  shows "elems (Clean p) = elems p"
proof -
  have ok: "\<forall>e \<in> set (elems p). proper e \<and> e \<noteq> ''..''"
    using elems_proper elems_absolute [OF assms] by blast
  have "split_on CHR ''/'' (Clean p) = '''' # (if elems p = [] then [''''] else elems p)"
    using assms ok by (cases "elems p") (auto simp: Clean_def proper_def split_join)
  moreover have "IsAbs (Clean p)" using assms by (simp add: Clean_def IsAbs_iff)
  ultimately show ?thesis using clean_elems_keep [OF ok] by (auto simp: elems_def [of "Clean p"])
qed

lemma Clean_idem_absolute: "IsAbs p \<Longrightarrow> Clean (Clean p) = Clean p"
proof -
  assume p: "IsAbs p"
  then have "IsAbs (Clean p)" by (simp add: Clean_def IsAbs_iff)
  with p show ?thesis using elems_Clean_absolute [OF p] unfolding Clean_def [of "Clean p"] by (simp add: Clean_def)
qed

lemma strip_common_spec: "strip_common xs ys = (b, t) \<Longrightarrow> \<exists>c. xs = c @ b \<and> ys = c @ t \<and> (b = [] \<or> t = [] \<or> hd b \<noteq> hd t)"
  by (induction xs ys rule: strip_common.induct) (auto split: if_splits intro: exI [of _ "_ # _"])

lemma join_slash_inj:
  assumes "\<forall>e \<in> set xs. proper e" "\<forall>e \<in> set ys. proper e" "join_slash xs = join_slash ys"
  shows "xs = ys"
proof (cases "xs = [] \<or> ys = []")
  case True
  have "join_slash zs = '''' \<longleftrightarrow> zs = []" if "\<forall>e \<in> set zs. proper e" for zs
    using that by (cases zs rule: join_slash.cases; auto simp: proper_def)+
  with True assms show ?thesis by metis
next
  case False
  have "\<forall>e \<in> set zs. CHR ''/'' \<notin> set e" if "\<forall>e \<in> set zs. proper e" for zs
    using that unfolding proper_def by blast
  with False assms split_join [of xs] split_join [of ys] show ?thesis by metis
qed

lemma Clean_eq_iff_absolute:
  assumes "IsAbs p" "IsAbs q"
  shows "Clean p = Clean q \<longleftrightarrow> elems p = elems q"
proof -
  have "join_slash (elems p) = join_slash (elems q) \<Longrightarrow> elems p = elems q"
    by (rule join_slash_inj) (simp_all add: elems_proper)
  with assms show ?thesis by (auto simp: Clean_def)
qed


section \<open>Containment of paths\<close>

lemma join_slash_up:
  assumes "t = [] \<or> hd t \<noteq> ''..''" "\<forall>e \<in> set t. proper e" "n = 0 \<longrightarrow> t \<noteq> []"
  shows "(join_slash (replicate n ''..'' @ t) = ''..'' \<or> HasPrefix (join_slash (replicate n ''..'' @ t)) ''../'') \<longleftrightarrow> 0 < n"
proof (cases n)
  case 0
  then obtain e es where t: "t = e # es" "proper e" "e \<noteq> ''..''" using assms by (cases t) auto
  have eq: "e = ''..''" if "join_slash (e # es) = ''..'' @ r" "r = '''' \<or> hd r = CHR ''/''" for r
  proof -
    have "split_on CHR ''/'' (join_slash (e # es)) = e # es"
      using assms(2) t(1) by (intro split_join) (auto simp: proper_def)
    moreover have "hd (split_on CHR ''/'' (''..'' @ r)) = ''..''" using that(2) by (cases r) auto
    ultimately show ?thesis using that(1) by (metis list.sel(1))
  qed
  have "\<not> HasPrefix (join_slash (e # es)) ''../''"
  proof
    assume "HasPrefix (join_slash (e # es)) ''../''"
    then obtain r where "join_slash (e # es) = ''..'' @ (''/'' @ r)" by (auto simp: HasPrefix_iff)
    then show False using eq t(3) by fastforce
  qed
  moreover have "join_slash (e # es) \<noteq> ''..''" using eq [of "''''"] t(3) by auto
  ultimately show ?thesis using 0 t(1) by simp
next
  case (Suc m)
  then show ?thesis by (cases "replicate m ''..'' @ t") (auto simp: HasPrefix_iff)
qed

text \<open>
  A clean absolute path is \<open>path_within\<close> another exactly when the elements of the other are a prefix of
  its own, so the relative path that \<open>filepath.Rel\<close> builds never decides otherwise.
\<close>

lemma within_iff_prefix:
  assumes "clean_absolute p" "clean_absolute root"
  shows "path_within p root \<longleftrightarrow> (\<exists>rest. elems p = elems root @ rest)"
proof -
  have abs: "IsAbs p" "IsAbs root" using assms by (auto simp: clean_absolute_def)
  obtain b t where bt: "strip_common (elems root) (elems p) = (b, t)" by fastforce
  obtain c where c: "elems root = c @ b" "elems p = c @ t" "b = [] \<or> t = [] \<or> hd b \<noteq> hd t"
    using strip_common_spec [OF bt] by blast
  have nodd: "''..'' \<notin> set (c @ b)" "''..'' \<notin> set (c @ t)" "\<forall>e \<in> set t. proper e"
    using elems_absolute [OF abs(1)] elems_absolute [OF abs(2)] elems_proper [of _ p] c by auto
  show ?thesis
  proof (cases "elems p = elems root")
    case True
    then show ?thesis using Clean_eq_iff_absolute [OF abs] by (simp add: path_within_def Rel_def HasPrefix_def)
  next
    case False
    then have ne: "Clean root \<noteq> Clean p" "b = [] \<longrightarrow> t \<noteq> []" using Clean_eq_iff_absolute [OF abs] c by auto
    have "hd b \<noteq> ''..''" if "b \<noteq> []" using nodd(1) that by (metis hd_in_set in_set_conv_decomp set_append UnI2)
    then have "Rel root p = Some (join_slash (replicate (length b) ''..'' @ t))"
      using ne(1) abs bt by (auto simp: Rel_def)
    moreover have "t = [] \<or> hd t \<noteq> ''..''" using nodd(2) by (cases t) auto
    ultimately have "path_within p root \<longleftrightarrow> b = []"
      using join_slash_up [of t "length b"] nodd(3) ne(2) by (auto simp: path_within_def)
    also have "\<dots> \<longleftrightarrow> (\<exists>rest. elems p = elems root @ rest)"
    proof (cases b)
      case (Cons x xs)
      then show ?thesis using c by (cases t) auto
    qed (use c in simp)
    finally show ?thesis .
  qed
qed

end
