(* ===== verification/Journal_Listing.thy ===== *)
theory Journal_Listing
  imports Journal_Properties Go_Text "HOL-Library.Product_Lexorder"
begin

text \<open>
  The paged listing of intents, \<open>ListIntentSummaries\<close> of \<open>src/internal/store/store.go\<close>: the newest
  first, in pages that continue at a cursor. \<open>time.Parse\<close> with the RFC 3339 layout is the
  argument \<open>parse\<close> of the model; what the listing needs of it is that it reads back what
  \<open>Format\<close> wrote, the hypothesis of the theorem on pages.
\<close>

record IntentSummary =
  is_IntentID :: string
  is_ClientRequestID :: string
  is_Status :: IntentStatus
  is_IntentDigest :: string
  is_UpdatedAt :: gotime

definition bad_cursor :: gar_error where
  "bad_cursor = NewError ErrInvalidRequest ''recent-changes cursor is invalid''"

definition split_cursor :: "(string \<Rightarrow> gotime option) \<Rightarrow> string \<Rightarrow> (string \<times> string) result" where
  "split_cursor parse cursor =
     (if cursor = '''' then Inr ('''', '''')
      else case LastIndexByte cursor CHR ''|'' of
        None \<Rightarrow> Inl bad_cursor
      | Some separator \<Rightarrow>
          if separator < 1 \<or> separator = length cursor - 1 then Inl bad_cursor
          else let cursorTime = take separator cursor; cursorID = drop (separator + 1) cursor in
            (case parse cursorTime of None \<Rightarrow> Inl bad_cursor | Some _ \<Rightarrow> Inr (cursorTime, cursorID)))"

text \<open>The \<open>WHERE\<close> and \<open>ORDER BY\<close> clauses; text compares bytewise.\<close>

definition listing_key :: "intent_row \<Rightarrow> string \<times> string" where
  "listing_key r = (it_updated_at r, it_intent_id r)"

definition listed :: "string \<Rightarrow> string \<Rightarrow> string \<Rightarrow> string \<Rightarrow> intent_row \<Rightarrow> bool" where
  "listed principalID enrollmentID cursorTime cursorID r \<longleftrightarrow>
     it_principal_id r = principalID \<and> it_enrollment_id r = enrollmentID \<and>
     (cursorTime = '''' \<or> it_updated_at r < cursorTime \<or>
      (it_updated_at r = cursorTime \<and> it_intent_id r < cursorID))"

definition ordered_rows :: "string \<Rightarrow> string \<Rightarrow> string \<Rightarrow> string \<Rightarrow> db \<Rightarrow> intent_row list" where
  "ordered_rows principalID enrollmentID cursorTime cursorID d =
     rev (sort_key listing_key (filter (listed principalID enrollmentID cursorTime cursorID) (v01_intents d)))"

fun scan_summaries :: "(string \<Rightarrow> gotime option) \<Rightarrow> intent_row list \<Rightarrow> IntentSummary list result" where
  "scan_summaries parse [] = Inr []"
| "scan_summaries parse (r # rows) =
     (case parse (it_updated_at r) of
        None \<Rightarrow> Inl (OtherError ''parsing time'')
      | Some t \<Rightarrow> and_then (scan_summaries parse rows) (\<lambda>rest.
          Inr (\<lparr>is_IntentID = it_intent_id r, is_ClientRequestID = it_client_request_id r,
                is_Status = it_status r, is_IntentDigest = it_intent_digest r,
                is_UpdatedAt = t\<rparr> # rest)))"

definition ListIntentSummaries ::
  "(string \<Rightarrow> gotime option) \<Rightarrow> string \<Rightarrow> string \<Rightarrow> string \<Rightarrow> int \<Rightarrow> db \<Rightarrow> (IntentSummary list \<times> string) result"
where
  "ListIntentSummaries parse principalID enrollmentID cursor limit d =
     and_then (check (\<not> (limit < 1 \<or> limit > 200))
       (NewError ErrInvalidRequest ''intent summary limit must be from 1 through 200'')) (\<lambda>_.
     and_then (split_cursor parse cursor) (\<lambda>(cursorTime, cursorID).
     and_then (scan_summaries parse
        (take (nat limit) (ordered_rows principalID enrollmentID cursorTime cursorID d))) (\<lambda>results.
     Inr (results,
       if int (length results) = limit
       then format_time (is_UpdatedAt (last results)) @ ''|'' @ is_IntentID (last results)
       else ''''))))"

section \<open>Pages\<close>

lemma LastIndexByte_append:
  "c \<notin> set ys \<Longrightarrow> LastIndexByte (xs @ c # ys) c = Some (length xs)"
proof (induction xs)
  case Nil
  then have "LastIndexByte ys c = None"
    by (induction ys) auto
  then show ?case by simp
qed auto

lemma split_cursor_next:
  assumes "parse t = Some x" "t \<noteq> ''''" "ident \<noteq> ''''" "CHR ''|'' \<notin> set ident"
  shows "split_cursor parse (t @ ''|'' @ ident) = Inr (t, ident)"
  using assms LastIndexByte_append [of "CHR ''|''" ident t]
  by (auto simp: split_cursor_def Let_def Suc_le_eq)

lemma sorted_key_rev_nth:
  assumes "distinct (map f (rev (sort_key f xs)))" "i < j" "j < length xs"
  shows "f (rev (sort_key f xs) ! j) < f (rev (sort_key f xs) ! i)"
proof -
  let ?ys = "sort_key f xs"
  have "f (?ys ! (length xs - 1 - j)) \<le> f (?ys ! (length xs - 1 - i))"
    using sorted_sort_key [of f xs] assms(2,3)
    by (auto simp: sorted_map intro: sorted_wrt_nth_less)
  moreover have "f (rev ?ys ! j) \<noteq> f (rev ?ys ! i)"
    using nth_eq_iff_index_eq [OF assms(1), of j i] assms(2,3) by auto
  ultimately show ?thesis using assms(2,3) by (auto simp: rev_nth)
qed

lemma ordered_rows_filter:
  "ordered_rows p e t i d = filter (listed p e t i) (ordered_rows p e '''' '''' d)"
proof -
  have "filter (listed p e t i) (v01_intents d) =
      filter (listed p e t i) (filter (listed p e '''' '''') (v01_intents d))"
    by (induction "v01_intents d" arbitrary: d rule: list.induct)
       (auto simp: listed_def intro: filter_cong)
  then show ?thesis
    by (simp add: ordered_rows_def rev_filter [symmetric] filter_sort)
qed

lemma set_ordered_rows:
  "set (ordered_rows p e '''' '''' d) =
     {r \<in> set (v01_intents d). it_principal_id r = p \<and> it_enrollment_id r = e}"
  by (auto simp: ordered_rows_def listed_def)

lemma filter_below_nth:
  assumes "\<And>i j. i < j \<Longrightarrow> j < length ys \<Longrightarrow> f (ys ! j) < (f (ys ! i) :: 'b :: linorder)"
    and "0 < n" "n \<le> length ys"
  shows "filter (\<lambda>y. f y < f (ys ! (n - 1))) ys = drop n ys"
proof -
  have "filter (\<lambda>y. f y < f (ys ! (n - 1))) (take n ys) = []"
  proof -
    have "\<not> f (ys ! i) < f (ys ! (n - 1))" if "i < n" for i
    proof (cases "i = n - 1")
      case False
      then have "i < n - 1" "n - 1 < length ys" using that assms(3) by linarith+
      from assms(1) [OF this] show ?thesis by simp
    qed simp
    then show ?thesis by (auto simp: filter_empty_conv in_set_conv_nth)
  qed
  moreover have "filter (\<lambda>y. f y < f (ys ! (n - 1))) (drop n ys) = drop n ys"
  proof -
    have "f (ys ! (n + i)) < f (ys ! (n - 1))" if "n + i < length ys" for i
      using assms(1) [of "n - 1" "n + i"] assms(2) that by simp
    then show ?thesis by (auto simp: filter_id_conv in_set_conv_nth)
  qed
  ultimately show ?thesis
    by (metis append_self_conv2 append_take_drop_id filter_append)
qed

lemma ordered_rows_descending:
  assumes "intents_by_id.unique (v01_intents d)" "i < j" "j < length (ordered_rows p e t s d)"
  shows "listing_key (ordered_rows p e t s d ! j) < listing_key (ordered_rows p e t s d ! i)"
proof -
  let ?xs = "filter (listed p e t s) (v01_intents d)"
  have "distinct (map it_intent_id ?xs)"
    using assms(1) by (simp add: intents_by_id.unique_def distinct_map_filter)
  then have "distinct (map listing_key ?xs)"
    by (auto simp: distinct_map listing_key_def inj_on_def)
  then have "distinct (map listing_key (rev (sort_key listing_key ?xs)))"
    by (simp add: distinct_map rev_map [symmetric])
  with assms(2,3) show ?thesis
    unfolding ordered_rows_def by (intro sorted_key_rev_nth) auto
qed

lemma next_page:
  assumes "intents_by_id.unique (v01_intents d)" "0 < n" "n \<le> length (ordered_rows p e '''' '''' d)"
    "(t, i) = listing_key (ordered_rows p e '''' '''' d ! (n - 1))" "t \<noteq> ''''"
  shows "ordered_rows p e t i d = drop n (ordered_rows p e '''' '''' d)"
proof -
  let ?full = "ordered_rows p e '''' '''' d"
  have "filter (listed p e t i) ?full =
      filter (\<lambda>r. listing_key r < listing_key (?full ! (n - 1))) ?full"
    unfolding assms(4) [symmetric] using assms(5)
    by (intro filter_cong) (auto simp: set_ordered_rows listed_def listing_key_def less_prod_def)
  then show ?thesis
    using ordered_rows_filter [of p e t i d] filter_below_nth [OF _ assms(2,3), of listing_key]
      ordered_rows_descending [OF assms(1)] by metis
qed

lemma scan_summaries_total:
  assumes "\<forall>r \<in> set rows. parse (it_updated_at r) = Some (stamp r)"
  shows "\<exists>ss. scan_summaries parse rows = Inr ss \<and> map is_IntentID ss = map it_intent_id rows \<and>
    map is_UpdatedAt ss = map stamp rows"
  using assms by (induction rows) auto

lemma decimal_not_empty: "decimal n \<noteq> ''''"
  by (subst decimal.simps) simp

lemma format_time_not_empty: "format_time t \<noteq> ''''"
  by (simp add: format_time_def Let_def pad_def decimal_not_empty split: prod.splits)

lemma list_page:
  fixes p e :: string
  assumes "1 \<le> n" "n \<le> 200" "split_cursor parse cursor = Inr (t, i)"
    "\<forall>r \<in> set (v01_intents d). parse (it_updated_at r) = Some (stamp r)"
  defines "rows \<equiv> ordered_rows p e t i d"
  shows "\<exists>page. map is_IntentID page = map it_intent_id (take (nat n) rows) \<and>
    ListIntentSummaries parse p e cursor n d = Inr (page,
      if nat n \<le> length rows
      then format_time (stamp (rows ! (nat n - 1))) @ ''|'' @ it_intent_id (rows ! (nat n - 1)) else '''')"
proof -
  have "set (take (nat n) rows) \<subseteq> set rows" by (rule set_take_subset)
  also have "set rows \<subseteq> set (v01_intents d)" by (auto simp: rows_def ordered_rows_def)
  finally obtain page where page: "scan_summaries parse (take (nat n) rows) = Inr page"
      "map is_IntentID page = map it_intent_id (take (nat n) rows)"
      "map is_UpdatedAt page = map stamp (take (nat n) rows)"
    using scan_summaries_total [of "take (nat n) rows" parse stamp] assms(4) by blast
  have len: "length page = min (length rows) (nat n)"
    using arg_cong [OF page(2), of length] by simp
  have lst: "is_IntentID (last page) = it_intent_id (rows ! (nat n - 1)) \<and>
      is_UpdatedAt (last page) = stamp (rows ! (nat n - 1))" if "nat n \<le> length rows"
  proof -
    have "length page = nat n" "nat n - 1 < nat n" using len that assms(1) by simp_all
    then have "last page = page ! (nat n - 1)" using last_conv_nth [of page] by fastforce
    with \<open>length page = nat n\<close> \<open>nat n - 1 < nat n\<close> that show ?thesis
      using arg_cong [OF page(2), of "\<lambda>l. l ! (nat n - 1)"] arg_cong [OF page(3), of "\<lambda>l. l ! (nat n - 1)"]
      by simp
  qed
  have full: "int (length page) = n \<longleftrightarrow> nat n \<le> length rows" using len assms(1) by linarith
  show ?thesis
    using assms(1-3) page(1,2) lst full
    by (intro exI [of _ page]) (simp add: ListIntentSummaries_def check_def rows_def)
qed



end
