(* ===== verification/Agent_Service.thy ===== *)
theory Agent_Service
  imports Journal_Listing
begin

text \<open>
  The services over the journal: \<open>service.go\<close>, \<open>registry.go\<close> and \<open>operator.go\<close> of
  \<open>src/internal/workflow\<close>. The agent's service checks the session scope, answers read tools,
  freezes proposals and shows an agent its own operations; the operator's service decides.

  The target is an interface in the code (\<open>TargetReader\<close>), here the record \<open>target_reader\<close> of
  its two functions. A Go map is an association list; where the code ranges over a map, the
  list gives the order of that iteration.
\<close>

section \<open>Registry and target\<close>

record Registry =
  rg_Enrollment :: Enrollment
  rg_Artifacts :: "(string \<times> ArtifactRecord) list"
  rg_Profiles :: "(string \<times> TransitionProfile) list"

fun profile_for :: "string \<Rightarrow> string \<Rightarrow> string \<Rightarrow> (string \<times> TransitionProfile) list \<Rightarrow> TransitionProfile option" where
  "profile_for eligibility pluginID targetArtifactID [] = None"
| "profile_for eligibility pluginID targetArtifactID ((k, profile) # rest) =
     (if tp_PluginID profile = pluginID \<and> tp_ToArtifactID profile = targetArtifactID \<and>
         tp_Eligibility profile = eligibility
      then Some profile else profile_for eligibility pluginID targetArtifactID rest)"

definition ProfileFor :: "Registry \<Rightarrow> string \<Rightarrow> string \<Rightarrow> TransitionProfile result" where
  "ProfileFor registry pluginID targetArtifactID =
     (case profile_for ''VERIFIED_TRANSITION'' pluginID targetArtifactID (rg_Profiles registry) of
        Some profile \<Rightarrow> Inr profile
      | None \<Rightarrow> Inl (NewError ErrUnsupportedTransition
          ''no owner-registered VERIFIED_TRANSITION matches plugin and artifact IDs''))"

definition ProfileForG03Acceptance :: "Registry \<Rightarrow> string \<Rightarrow> string \<Rightarrow> TransitionProfile result" where
  "ProfileForG03Acceptance registry pluginID targetArtifactID =
     (case profile_for ''G03_BACKUP_ONLY'' pluginID targetArtifactID (rg_Profiles registry) of
        Some profile \<Rightarrow> Inr profile
      | None \<Rightarrow> Inl (NewError ErrUnsupportedTransition
          ''no owner-registered G03_BACKUP_ONLY profile matches plugin and artifact IDs''))"

type_synonym arguments = "(string \<times> gvalue) list"

record target_reader =
  tr_Observe :: "Enrollment \<Rightarrow> ObservationBundle result"
  tr_ReadTool :: "string \<Rightarrow> arguments \<Rightarrow> gvalue result"

definition target_reason :: "string \<Rightarrow> string" where
  "target_reason reason =
     (if reason = '''' then ''Paper/itzg observation adapter is not configured'' else reason)"

definition UnavailableTarget :: "string \<Rightarrow> gotime \<Rightarrow> target_reader" where
  "UnavailableTarget reason wall =
     \<lparr>tr_Observe = (\<lambda>_. Inl (OtherError (target_reason reason))),
      tr_ReadTool = (\<lambda>_ _. Inr (GMap
        [(''availability'', GString (availability_text Unavailable)),
         (''reason'', GString (target_reason reason)),
         (''source'', GString ''gar-m2-transport''), (''observed_at'', GTime wall)]))\<rparr>"

definition FakeTarget :: "ObservationBundle \<Rightarrow> (string \<times> gvalue) list \<Rightarrow> gotime \<Rightarrow> target_reader" where
  "FakeTarget observation responses wall =
     \<lparr>tr_Observe = (\<lambda>_. Inr observation),
      tr_ReadTool = (\<lambda>name _. case map_of responses name of
          Some response \<Rightarrow> Inr response
        | None \<Rightarrow> Inr (GMap
            [(''availability'', GString (availability_text Unavailable)),
             (''reason'', GString ''M1 fake target has no configured observation for this tool''),
             (''observed_at'', GTime wall)]))\<rparr>"

record Service =
  sv_Registry :: Registry
  sv_Target :: target_reader
  sv_Support :: SupportProfile
  sv_CurrentRevocationEpoch :: int
  sv_MutationExecutorEnabled :: bool

section \<open>Authorization\<close>

definition authorize ::
  "crypto \<Rightarrow> Service \<Rightarrow> gotime \<Rightarrow> AgentSessionScope \<Rightarrow> string \<Rightarrow> string \<Rightarrow> string \<Rightarrow> gar_error option"
where
  "authorize cr sv now scope capability pluginID artifactProfileID =
     (case scope_Validate cr scope now of
        Some err \<Rightarrow> Some err
      | None \<Rightarrow>
     let enrollment = rg_Enrollment (sv_Registry sv) in
     if sc_EnrollmentID scope \<noteq> en_EnrollmentID enrollment \<or>
        sc_DeploymentGeneration scope \<noteq> en_DeploymentGeneration enrollment
     then Some (NewError ErrScopeDenied ''session target identity does not match enrollment'')
     else if sc_RevocationEpoch scope \<noteq> sv_CurrentRevocationEpoch sv
     then Some (NewError ErrScopeDenied ''session was revoked or predates current revocation epoch'')
     else if \<not> contains (sc_Capabilities scope) capability
     then Some (NewError ErrScopeDenied ''capability is outside fixed session scope'')
     else if pluginID \<noteq> '''' \<and> \<not> Allows scope capability pluginID artifactProfileID
     then Some (NewError ErrScopeDenied ''plugin or transition profile is outside fixed session scope'')
     else None)"

section \<open>Observations\<close>

definition validateObservation ::
  "Service \<Rightarrow> ObservationBundle \<Rightarrow> gotime \<Rightarrow> string \<Rightarrow> gar_error option" where
  "validateObservation sv bundle now pluginID =
     (let enrollment = rg_Enrollment (sv_Registry sv) in
      if ob_EnrollmentID bundle \<noteq> en_EnrollmentID enrollment \<or>
         ob_DeploymentGeneration bundle \<noteq> en_DeploymentGeneration enrollment \<or>
         ob_ContainerID bundle \<noteq> en_ContainerID enrollment
      then Some (NewError ErrIntentStale ''authoritative target identity differs from enrollment'')
      else if str_get (ob_ActiveArtifacts bundle) pluginID = '''' \<or>
         ob_InventoryDigest bundle = '''' \<or> ob_ConfigDigest bundle = ''''
      then Some (NewError ErrPreconditionUnavailable
             ''artifact inventory or configuration evidence is missing'')
      else case map_get (ob_Readings bundle) ''players'' of
        None \<Rightarrow> Some (NewError ErrPreconditionUnavailable ''players observation is missing'')
      | Some players \<Rightarrow> RequireAvailable ''players'' players now (5 * second) (ob_BootID bundle))"

section \<open>Proposals\<close>

definition reflect_proposal_identity :: "AgentSessionScope \<Rightarrow> ProposalInput \<Rightarrow> gvalue" where
  "reflect_proposal_identity scope input = GStruct
     [(''principal_id'', True, GString (sc_PrincipalID scope)),
      (''enrollment_id'', True, GString (sc_EnrollmentID scope)),
      (''scope_digest'', True, GString (sc_ScopeDigest scope)),
      (''input'', True, reflect_proposal input)]"

definition intent_predicates :: "Enrollment \<Rightarrow> ArtifactRecord \<Rightarrow> Predicate list" where
  "intent_predicates enrollment fromArtifact =
     [\<lparr>pr_Name = ''target_identity'', pr_Phase = ''PREPARE'',
       pr_Expected = en_ContainerID enrollment, pr_FreshnessSeconds = 30, pr_OnFailure = ErrIntentStale\<rparr>,
      \<lparr>pr_Name = ''active_artifact'', pr_Phase = ''OFFLINE_BEFORE_REPLACE'',
       pr_Expected = ar_SHA256 fromArtifact, pr_FreshnessSeconds = 0, pr_OnFailure = ErrIntentStale\<rparr>,
      \<lparr>pr_Name = ''players_zero'', pr_Phase = ''MAINTENANCE_BARRIER'',
       pr_Expected = ''0'', pr_FreshnessSeconds = 5, pr_OnFailure = ErrIntentStale\<rparr>]"

definition new_intent ::
  "call_env \<Rightarrow> Enrollment \<Rightarrow> AgentSessionScope \<Rightarrow> ProposalInput \<Rightarrow> TransitionProfile \<Rightarrow>
   ObservationBundle \<Rightarrow> ArtifactRecord \<Rightarrow> ArtifactRecord \<Rightarrow> gotime \<Rightarrow> ChangeIntent" where
  "new_intent ce enrollment scope input profile observation fromArtifact toArtifact now =
     \<lparr>ci_SchemaVersion = ''gar.change-intent.v1'', ci_IntentID = NewID ''intent'' (ce_random ce 0),
      ci_ClientRequestID = pi_ClientRequestID input, ci_PrincipalID = sc_PrincipalID scope,
      ci_SessionID = sc_SessionID scope, ci_CreatedAt = now,
      ci_EnrollmentID = en_EnrollmentID enrollment,
      ci_DeploymentGeneration = en_DeploymentGeneration enrollment,
      ci_ContainerID = en_ContainerID enrollment, ci_PaperTuple = en_PaperTuple enrollment,
      ci_ExpectedBootID = ob_BootID observation, ci_WorkflowKind = ''UPDATE_PLUGIN_ARTIFACT'',
      ci_WorkflowVersion = ''gar.paper-plugin-change.v1'', ci_PluginID = pi_PluginID input,
      ci_FromArtifactID = ar_ArtifactID fromArtifact, ci_FromSHA256 = ar_SHA256 fromArtifact,
      ci_ToArtifactID = ar_ArtifactID toArtifact, ci_ToSHA256 = ar_SHA256 toArtifact,
      ci_ProfileDigest = tp_ProfileDigest profile, ci_ScopeDigest = sc_ScopeDigest scope,
      ci_PolicyRevision = en_PolicyRevision enrollment, ci_PolicyDigest = en_PolicyDigest enrollment,
      ci_CapabilitySnapshot = sc_Capabilities scope,
      ci_ObservationBundleID = ob_BundleID observation,
      ci_InventoryDigest = ob_InventoryDigest observation, ci_ConfigDigest = ob_ConfigDigest observation,
      ci_EvidenceReferences = [''observation:'' @ ob_BundleID observation],
      ci_Predicates = intent_predicates enrollment fromArtifact, ci_Steps = FixedWorkflowSteps,
      ci_ReservedBackupID = NewID ''backup'' (ce_random ce 1),
      ci_BackupRecipeDigest = OfflineBackupRecipeDigest (ce_crypto ce),
      ci_VerificationProfileID = tp_VerificationProfileID profile,
      ci_VerificationDigest = tp_VerificationDigest profile,
      ci_RecoveryContractID = tp_RecoveryContractID profile, ci_RecoveryDigest = tp_RecoveryDigest profile,
      ci_ApprovalDeadline = Add now (15 * minute), ci_StartBefore = Add now (20 * minute),
      ci_ExecutionBudgetSeconds = 900, ci_RecoveryBudgetSeconds = 900,
      ci_Rationale = pi_Rationale input, ci_IntentDigest = ''''\<rparr>"

text \<open>The readings of the clock that are left after the first \<open>k\<close>.\<close>

definition later_env :: "nat \<Rightarrow> call_env \<Rightarrow> call_env" where
  "later_env k ce = ce\<lparr>ce_clock := (\<lambda>n. ce_clock ce (n + k))\<rparr>"

text \<open>
  \<open>propose\<close> reads the journal twice before it writes: \<open>looked\<close> is the journal at its own lookup
  of the client request, \<open>seen\<close> the one at the lookup inside \<open>PutIntent\<close>, \<open>d\<close> the one the
  write transaction begins with.
\<close>

definition propose ::
  "call_env \<Rightarrow> Service \<Rightarrow> AgentSessionScope \<Rightarrow> ProposalInput \<Rightarrow> bool \<Rightarrow> db \<Rightarrow> db \<Rightarrow> db \<Rightarrow> (IntentRecord \<times> db) result"
where
  "propose ce sv scope input g03Only looked seen d =
     (let cr = ce_crypto ce; registry = sv_Registry sv; enrollment = rg_Enrollment registry in
     and_then (unless_error (validate_proposal input)) (\<lambda>_.
     and_then (unless_error (authorize cr sv (ce_clock ce 0) scope ''propose_plugin_change'' '''' '''')) (\<lambda>_.
     and_then (check (contains (sc_PluginIDs scope) (pi_PluginID input))
       (NewError ErrScopeDenied ''plugin is outside fixed session scope'')) (\<lambda>_.
     and_then (if g03Only then ProfileForG03Acceptance registry (pi_PluginID input) (pi_TargetArtifactID input)
               else ProfileFor registry (pi_PluginID input) (pi_TargetArtifactID input)) (\<lambda>profile.
     and_then (unless_error (authorize cr sv (ce_clock ce 1) scope ''propose_plugin_change''
                 (pi_PluginID input) (tp_ProfileID profile))) (\<lambda>_.
     let now = ce_clock ce 2 in
     and_then (case tr_Observe (sv_Target sv) enrollment of
         Inl err \<Rightarrow> Inl (NewError ErrPreconditionUnavailable (error_text err))
       | Inr observation \<Rightarrow> Inr observation) (\<lambda>observation.
     and_then (unless_error (validateObservation sv observation now (pi_PluginID input))) (\<lambda>_.
     let fromArtifactID = str_get (ob_ActiveArtifacts observation) (pi_PluginID input) in
     and_then (case map_get (rg_Artifacts registry) fromArtifactID of
         None \<Rightarrow> Inl (NewError ErrPreconditionUnavailable ''active artifact is not in owner catalog'')
       | Some a \<Rightarrow> Inr a) (\<lambda>fromArtifact.
     and_then (case map_get (rg_Artifacts registry) (pi_TargetArtifactID input) of
         None \<Rightarrow> Inl (NewError ErrUnsupportedTransition
           ''target artifact is absent from owner catalog or lacks trust confirmation'')
       | Some a \<Rightarrow> if \<not> ar_OwnerTrustConfirmed a
           then Inl (NewError ErrUnsupportedTransition
             ''target artifact is absent from owner catalog or lacks trust confirmation'')
           else Inr a) (\<lambda>toArtifact.
     and_then (check (\<not> (tp_FromArtifactID profile \<noteq> fromArtifactID \<or>
                         tp_PaperTuple profile \<noteq> en_PaperTuple enrollment))
       (NewError ErrUnsupportedTransition
          ''transition profile does not match current A artifact and Paper tuple'')) (\<lambda>_.
     and_then (Digest cr (reflect_proposal_identity scope input)) (\<lambda>proposalDigest.
     case GetIntentByClientKey (sc_PrincipalID scope) (sc_EnrollmentID scope) (pi_ClientRequestID input) looked of
       Inr existing \<Rightarrow>
         and_then (check (ir_ProposalDigest existing = proposalDigest)
           (NewError ErrIdempotencyConflict ''client_request_id already identifies different proposal bytes''))
         (\<lambda>_. Inr (existing, d))
     | Inl lookupErr \<Rightarrow>
         if CodeOf (Some lookupErr) \<noteq> ErrNotFound then Inl lookupErr
         else and_then (intent_Seal cr
              (new_intent ce enrollment scope input profile observation fromArtifact toArtifact now)) (\<lambda>intent.
         and_then (PutIntent (later_env 3 ce) \<lparr>ir_Intent = intent, ir_Status = IntentAwaitingApproval,
             ir_ProposalDigest = proposalDigest, ir_UpdatedAt = now\<rparr> seen d) (\<lambda>((stored, _), d').
         Inr (stored, d')))))))))))))))"

definition Propose where
  "Propose ce sv scope input looked seen d = propose ce sv scope input False looked seen d"

definition ProposeG03Acceptance where
  "ProposeG03Acceptance ce sv scope input looked seen d = propose ce sv scope input True looked seen d"

section \<open>An agent's own operations\<close>

text \<open>The answer \<open>{"intent": ..., "operation": ...}\<close>; \<open>None\<close> is the null operation.\<close>

record own_result =
  ow_intent :: IntentRecord
  ow_operation :: "Operation option"

definition foreign_reference :: gar_error where
  "foreign_reference = NewError ErrScopeDenied ''reference belongs to another principal or target''"

definition own_record :: "AgentSessionScope \<Rightarrow> IntentRecord \<Rightarrow> bool" where
  "own_record scope rec \<longleftrightarrow>
     \<not> (ci_PrincipalID (ir_Intent rec) \<noteq> sc_PrincipalID scope \<or>
        ci_EnrollmentID (ir_Intent rec) \<noteq> sc_EnrollmentID scope)"

definition with_operation :: "IntentRecord \<Rightarrow> db \<Rightarrow> own_result result" where
  "with_operation rec d =
     (case OperationForIntent (ci_IntentID (ir_Intent rec)) d of
        Inl err \<Rightarrow>
          if CodeOf (Some err) = ErrNotFound then Inr \<lparr>ow_intent = rec, ow_operation = None\<rparr> else Inl err
      | Inr operation \<Rightarrow> Inr \<lparr>ow_intent = rec, ow_operation = Some operation\<rparr>)"

definition ownOperationResult :: "AgentSessionScope \<Rightarrow> Operation \<Rightarrow> db \<Rightarrow> own_result result" where
  "ownOperationResult scope operation d =
     and_then (GetIntent (op_IntentID operation) d) (\<lambda>rec.
     and_then (check (own_record scope rec) foreign_reference) (\<lambda>_.
     Inr \<lparr>ow_intent = rec, ow_operation = Some operation\<rparr>))"

definition GetOwnOperation ::
  "call_env \<Rightarrow> Service \<Rightarrow> AgentSessionScope \<Rightarrow> string \<Rightarrow> db \<Rightarrow> own_result result" where
  "GetOwnOperation ce sv scope reference d =
     and_then (unless_error (authorize (ce_crypto ce) sv (ce_clock ce 0) scope ''get_operation'' '''' '''')) (\<lambda>_.
     case GetIntent reference d of
       Inr rec \<Rightarrow>
         and_then (check (own_record scope rec) foreign_reference) (\<lambda>_. with_operation rec d)
     | Inl _ \<Rightarrow>
     case GetOperation reference d of
       Inr operation \<Rightarrow> ownOperationResult scope operation d
     | Inl _ \<Rightarrow>
     case OperationForStep reference d of
       Inr operation \<Rightarrow> ownOperationResult scope operation d
     | Inl _ \<Rightarrow>
         and_then (GetIntentByClientKey (sc_PrincipalID scope) (sc_EnrollmentID scope) reference d)
           (\<lambda>rec. with_operation rec d))"

section \<open>Shadow revalidation and the mutation gate\<close>

record ShadowRevalidation =
  sh_IntentID :: string
  sh_Status :: string
  sh_Code :: ErrorCode
  sh_MutationDispatched :: bool
  sh_CheckedAt :: gotime

text \<open>\<open>fmt.Sprint(value) == "0"\<close>: an integer zero, a float that prints so, or that text.\<close>

fun prints_zero :: "gvalue \<Rightarrow> bool" where
  "prints_zero (GInt n) = (n = 0)"
| "prints_zero (GFloat s) = (s = ''0'')"
| "prints_zero (GString s) = (s = ''0'')"
| "prints_zero (GInterface v) = prints_zero v"
| "prints_zero _ = False"

text \<open>A missing reading is the zero \<open>ObservationValue\<close>, whose value is nil.\<close>

definition reading_value :: "ObservationBundle \<Rightarrow> string \<Rightarrow> gvalue" where
  "reading_value bundle name = (case map_get (ob_Readings bundle) name of None \<Rightarrow> GNil | Some r \<Rightarrow> ov_Value r)"

definition shadow_checks ::
  "call_env \<Rightarrow> Service \<Rightarrow> AgentSessionScope \<Rightarrow> string \<Rightarrow> gotime \<Rightarrow> db \<Rightarrow> unit result" where
  "shadow_checks ce sv scope intentID now d =
     (let enrollment = rg_Enrollment (sv_Registry sv) in
     and_then (unless_error (authorize (ce_crypto ce) sv (ce_clock ce 1) scope ''get_operation'' '''' '''')) (\<lambda>_.
     and_then (GetIntent intentID d) (\<lambda>rec.
     let i = ir_Intent rec in
     and_then (check (own_record scope rec)
       (NewError ErrScopeDenied ''intent belongs to another principal or target'')) (\<lambda>_.
     and_then (unless_error (ValidateDigest (ce_crypto ce) i)) (\<lambda>_.
     and_then (check (\<not> (ci_PolicyRevision i \<noteq> en_PolicyRevision enrollment \<or>
                         ci_PolicyDigest i \<noteq> en_PolicyDigest enrollment))
       (NewError ErrIntentStale ''policy revision or digest changed'')) (\<lambda>_.
     and_then (check (Before now (ci_StartBefore i))
       (NewError ErrApprovalExpired ''start_before elapsed'')) (\<lambda>_.
     and_then (case tr_Observe (sv_Target sv) enrollment of
         Inl err \<Rightarrow> Inl (NewError ErrPreconditionUnavailable (error_text err))
       | Inr observation \<Rightarrow> Inr observation) (\<lambda>observation.
     and_then (unless_error (validateObservation sv observation now (ci_PluginID i))) (\<lambda>_.
     and_then (check (\<not> (ob_BootID observation \<noteq> ci_ExpectedBootID i \<or>
                         ob_InventoryDigest observation \<noteq> ci_InventoryDigest i \<or>
                         ob_ConfigDigest observation \<noteq> ci_ConfigDigest i \<or>
                         str_get (ob_ActiveArtifacts observation) (ci_PluginID i) \<noteq> ci_FromArtifactID i))
       (NewError ErrIntentStale ''one or more approved identity/artifact predicates changed'')) (\<lambda>_.
     check (prints_zero (reading_value observation ''players''))
       (NewError ErrIntentStale ''players_zero predicate is false'')))))))))))"

definition ShadowRevalidate ::
  "call_env \<Rightarrow> Service \<Rightarrow> AgentSessionScope \<Rightarrow> string \<Rightarrow> db \<Rightarrow> ShadowRevalidation \<times> gar_error option" where
  "ShadowRevalidate ce sv scope intentID d =
     (let now = ce_clock ce 0;
          result = \<lparr>sh_IntentID = intentID, sh_Status = ''SHADOW_ONLY'', sh_Code = NoErrorCode,
                    sh_MutationDispatched = False, sh_CheckedAt = now\<rparr>
      in case shadow_checks ce sv scope intentID now d of
           Inl err \<Rightarrow> (result\<lparr>sh_Code := CodeOf (Some err)\<rparr>, Some err)
         | Inr _ \<Rightarrow> (result, None))"

definition StartMutation :: "Service \<Rightarrow> string \<Rightarrow> gar_error" where
  "StartMutation sv intentID =
     (if \<not> MutationAllowed (sv_Support sv) \<or> \<not> sv_MutationExecutorEnabled sv
      then NewError ErrUnsupportedEnvironment
             ''live mutation is disabled until G-01 through G-07 and the M4 executor are verified''
      else NewError ErrUnsupportedEnvironment ''M4 executor is not implemented'')"

section \<open>Read tools\<close>

definition no_argument_tools :: "string list" where
  "no_argument_tools = [''inspect_server_identity'', ''get_health'', ''get_players'', ''get_performance'',
     ''list_plugins'', ''get_backup_status'']"

definition bounded_read_tools :: "string list" where
  "bounded_read_tools = [''get_recent_errors'', ''get_recent_changes'']"

text \<open>The keys of the map are visited in some order; the first unknown one is reported.\<close>

fun unknown_key :: "arguments \<Rightarrow> string option" where
  "unknown_key [] = None"
| "unknown_key ((key, v) # rest) =
     (if key \<noteq> ''cursor'' \<and> key \<noteq> ''limit'' then Some key else unknown_key rest)"

definition validateReadArguments :: "string \<Rightarrow> arguments \<Rightarrow> gar_error option" where
  "validateReadArguments name args =
     (if contains no_argument_tools name
      then (if length args \<noteq> 0
            then Some (NewError ErrInvalidRequest (name @ '' accepts no arguments'')) else None)
      else if contains bounded_read_tools name
      then (case unknown_key args of
          Some key \<Rightarrow> Some (NewError ErrInvalidRequest (''unknown bounded-read argument: '' @ key))
        | None \<Rightarrow>
        if (case map_of args ''cursor'' of
              None \<Rightarrow> False | Some (GString s) \<Rightarrow> length s > 256 | Some _ \<Rightarrow> True)
        then Some (NewError ErrInvalidRequest ''cursor must be a string of at most 256 bytes'')
        else if (case map_of args ''limit'' of
              None \<Rightarrow> False | Some (GInt n) \<Rightarrow> n < 1 \<or> n > 200 | Some _ \<Rightarrow> True)
        then Some (NewError ErrInvalidRequest ''limit must be an integer from 1 through 200'')
        else None)
      else Some (NewError ErrScopeDenied ''unknown or non-read agent tool''))"

text \<open>Writing a key of a Go map.\<close>

fun map_put :: "(string \<times> 'a) list \<Rightarrow> string \<Rightarrow> 'a \<Rightarrow> (string \<times> 'a) list" where
  "map_put [] k v = [(k, v)]"
| "map_put ((k', v') # rest) k v = (if k' = k then (k, v) # rest else (k', v') # map_put rest k v)"

fun mode_text :: "ReleaseMode \<Rightarrow> string" where
  "mode_text ModeReadOnly = ''READ_ONLY''"
| "mode_text ModeShadow = ''SHADOW_ONLY''"
| "mode_text ModeMutation = ''MUTATION''"

fun gate_text :: "GateStatus \<Rightarrow> string" where
  "gate_text GateNotRun = ''NOT_RUN''"
| "gate_text GatePass = ''PASS''"
| "gate_text GateFail = ''FAIL''"
| "gate_text (GateOther s) = s"

definition reflect_support :: "SupportProfile \<Rightarrow> gvalue" where
  "reflect_support p = GStruct
     [(''profile_id'', True, GString (sp_ProfileID p)), (''mode'', True, GString (mode_text (sp_Mode p))),
      (''gates'', True, GMap (map (\<lambda>(g, s). (g, GString (gate_text s))) (sp_Gates p)))]"

definition catalog_entry :: "ArtifactRecord \<Rightarrow> gvalue" where
  "catalog_entry a = GMap
     [(''artifact_id'', GString (ar_ArtifactID a)), (''plugin_id'', GString (ar_PluginID a)),
      (''sha256'', GString (ar_SHA256 a)), (''size'', GInt (ar_Size a)),
      (''owner_trust_confirmed'', GBool (ar_OwnerTrustConfirmed a))]"

definition transition_entry :: "TransitionProfile \<Rightarrow> gvalue" where
  "transition_entry p = GMap
     [(''profile_id'', GString (tp_ProfileID p)), (''plugin_id'', GString (tp_PluginID p)),
      (''from_artifact_id'', GString (tp_FromArtifactID p)), (''to_artifact_id'', GString (tp_ToArtifactID p)),
      (''eligibility'', GString (tp_Eligibility p))]"

fun catalog_artifacts :: "AgentSessionScope \<Rightarrow> (string \<times> ArtifactRecord) list \<Rightarrow> string list \<Rightarrow> gvalue list" where
  "catalog_artifacts scope artifacts [] = []"
| "catalog_artifacts scope artifacts (artifactID # rest) =
     (case map_of artifacts artifactID of
        Some a \<Rightarrow>
          (if contains (sc_PluginIDs scope) (ar_PluginID a)
           then catalog_entry a # catalog_artifacts scope artifacts rest
           else catalog_artifacts scope artifacts rest)
      | None \<Rightarrow> catalog_artifacts scope artifacts rest)"

fun verified_transitions :: "AgentSessionScope \<Rightarrow> (string \<times> TransitionProfile) list \<Rightarrow> string list \<Rightarrow> gvalue list" where
  "verified_transitions scope profiles [] = []"
| "verified_transitions scope profiles (profileID # rest) =
     (case map_of profiles profileID of
        None \<Rightarrow> verified_transitions scope profiles rest
      | Some p \<Rightarrow>
          if \<not> contains (sc_PluginIDs scope) (tp_PluginID p)
          then verified_transitions scope profiles rest
          else transition_entry p # verified_transitions scope profiles rest)"

definition listPlugins :: "Service \<Rightarrow> arguments \<Rightarrow> AgentSessionScope \<Rightarrow> gvalue result" where
  "listPlugins sv args scope =
     and_then (tr_ReadTool (sv_Target sv) ''list_plugins'' args) (\<lambda>evidence.
     let registry = sv_Registry sv;
         artifacts = catalog_artifacts scope (rg_Artifacts registry) (SortedCopy (map fst (rg_Artifacts registry)));
         transitions = verified_transitions scope (rg_Profiles registry) (SortedCopy (sc_ArtifactProfileIDs scope));
         result = (case evidence of
             GMap m \<Rightarrow> m
           | _ \<Rightarrow> [(''availability'', GString (availability_text Unavailable)), (''target_evidence'', evidence)])
     in Inr (GMap (map_put (map_put result ''catalog_artifacts'' (GSlice artifacts))
                     ''verified_transitions'' (GSlice transitions))))"

fun intent_status_text :: "IntentStatus \<Rightarrow> string" where
  "intent_status_text IntentProposed = ''PROPOSED''"
| "intent_status_text IntentAwaitingApproval = ''AWAITING_APPROVAL''"
| "intent_status_text IntentApproved = ''APPROVED''"
| "intent_status_text IntentConsumed = ''CONSUMED''"
| "intent_status_text IntentRejected = ''REJECTED''"
| "intent_status_text IntentExpired = ''EXPIRED''"
| "intent_status_text IntentRevoked = ''REVOKED''"
| "intent_status_text IntentCancelled = ''CANCELLED''"
| "intent_status_text IntentStale = ''STALE''"

definition reflect_summary :: "IntentSummary \<Rightarrow> gvalue" where
  "reflect_summary s = GStruct
     [(''intent_id'', True, GString (is_IntentID s)), (''client_request_id'', True, GString (is_ClientRequestID s)),
      (''status'', True, GString (intent_status_text (is_Status s))),
      (''intent_digest'', True, GString (is_IntentDigest s)), (''updated_at'', True, GTime (is_UpdatedAt s))]"

definition recentChanges ::
  "(string \<Rightarrow> gotime option) \<Rightarrow> gotime \<Rightarrow> arguments \<Rightarrow> AgentSessionScope \<Rightarrow> db \<Rightarrow> gvalue result" where
  "recentChanges parse now args scope d =
     (let limit = (case map_of args ''limit'' of Some (GInt n) \<Rightarrow> n | _ \<Rightarrow> 50);
          cursor = (case map_of args ''cursor'' of Some (GString s) \<Rightarrow> s | _ \<Rightarrow> '''')
      in and_then (ListIntentSummaries parse (sc_PrincipalID scope) (sc_EnrollmentID scope) cursor limit d)
         (\<lambda>(changes, nextCursor). Inr (GMap
           [(''availability'', GString (availability_text Available)), (''source'', GString ''gar-journal''),
            (''observed_at'', GTime now), (''changes'', GSlice (map reflect_summary changes)),
            (''next_cursor'', GString nextCursor),
            (''history_scope'', GString ''GAR intents visible to this principal and enrollment only'')])))"

definition server_identity :: "Service \<Rightarrow> gvalue" where
  "server_identity sv =
     (let e = rg_Enrollment (sv_Registry sv) in GMap
       [(''target_id'', GString (en_TargetID e)), (''enrollment_id'', GString (en_EnrollmentID e)),
        (''deployment_generation'', GInt (en_DeploymentGeneration e)),
        (''container_id'', GString (en_ContainerID e)), (''image_digest'', GString (en_ImageDigest e)),
        (''paper_tuple'', GString (en_PaperTuple e)), (''support_profile'', reflect_support (sv_Support sv)),
        (''mutation_enabled'', GBool (MutationAllowed (sv_Support sv)))])"

definition CallReadTool ::
  "(string \<Rightarrow> gotime option) \<Rightarrow> call_env \<Rightarrow> Service \<Rightarrow> AgentSessionScope \<Rightarrow> string \<Rightarrow> arguments \<Rightarrow> db \<Rightarrow> gvalue result"
where
  "CallReadTool parse ce sv scope name args d =
     and_then (unless_error (authorize (ce_crypto ce) sv (ce_clock ce 0) scope name '''' '''')) (\<lambda>_.
     and_then (unless_error (validateReadArguments name args)) (\<lambda>_.
     if name = ''inspect_server_identity'' then Inr (server_identity sv)
     else if name = ''list_plugins'' then listPlugins sv args scope
     else if name = ''get_recent_changes'' then recentChanges parse (ce_clock ce 1) args scope d
     else if contains [''get_health'', ''get_players'', ''get_performance'', ''get_recent_errors'',
                      ''get_backup_status''] name
     then tr_ReadTool (sv_Target sv) name args
     else Inl (NewError ErrScopeDenied ''unknown or non-read agent tool'')))"

section \<open>The operator\<close>

definition operator_Approve where
  "operator_Approve ce intentID exactDigest approver osUID now d =
     ApproveIntent ce intentID exactDigest approver osUID now d"

definition operator_Reject where
  "operator_Reject ce intentID exactDigest approver osUID now d =
     RejectIntent ce intentID exactDigest approver osUID now d"

definition operator_Revoke where
  "operator_Revoke ce intentID exactDigest actor osUID now d =
     RevokeIntent ce intentID exactDigest actor osUID now d"

end
