(* ===== verification/Agent_Properties.thy ===== *)
theory Agent_Properties
  imports Agent_Service
begin

text \<open>
  What an agent can and cannot do through its service: it reaches only what its session scope
  names, it sees only its own intents and operations, what it proposes is frozen and sealed
  but never approved by itself, and nothing it calls dispatches a mutation.
\<close>

section \<open>Authorization\<close>

lemma authorize_None_iff:
  "authorize cr sv now scope capability pluginID profileID = None \<longleftrightarrow>
     scope_Validate cr scope now = None \<and>
     sc_EnrollmentID scope = en_EnrollmentID (rg_Enrollment (sv_Registry sv)) \<and>
     sc_DeploymentGeneration scope = en_DeploymentGeneration (rg_Enrollment (sv_Registry sv)) \<and>
     sc_RevocationEpoch scope = sv_CurrentRevocationEpoch sv \<and>
     capability \<in> set (sc_Capabilities scope) \<and>
     (pluginID = '''' \<or> pluginID \<in> set (sc_PluginIDs scope) \<and> profileID \<in> set (sc_ArtifactProfileIDs scope))"
  by (auto simp: authorize_def Let_def Allows_def split: option.splits)

definition sample_registry :: Registry where
  "sample_registry = \<lparr>rg_Enrollment = sample_enrollment, rg_Artifacts = [], rg_Profiles = []\<rparr>"

definition sample_service :: Service where
  "sample_service = \<lparr>sv_Registry = sample_registry, sv_Target = UnavailableTarget '''' sample_now,
     sv_Support = DefaultM1Profile, sv_CurrentRevocationEpoch = 1, sv_MutationExecutorEnabled = False\<rparr>"

lemma sample_scope_valid [simp]: "scope_Validate sample_crypto sample_scope sample_now = None"
proof -
  have "sealed_scope sample_crypto sample_scope"
    by (simp add: sealed_scope_def scope_digestPayload_def sample_scope_def hex_encode_def hex_digit_def)
  then show ?thesis by (simp add: scope_Validate_None_iff sample_scope_def duration_units Before_def)
qed

lemma sample_authorized [simp]:
  "authorize sample_crypto sample_service sample_now sample_scope ''get_operation'' '''' '''' = None"
  by (simp add: authorize_None_iff sample_service_def sample_registry_def)
     (simp add: sample_scope_def sample_enrollment_def)

lemma read_tool_names:
  "set (no_argument_tools @ bounded_read_tools) \<subseteq>
     td_Name ` {t \<in> set AgentTools. td_Permission t \<in> {''read'', ''bounded-read''}}"
proof -
  have names: "map td_Name (filter (\<lambda>t. td_Permission t \<in> {''read'', ''bounded-read''}) AgentTools) =
      [''inspect_server_identity'', ''get_health'', ''get_players'', ''get_performance'',
       ''get_recent_errors'', ''list_plugins'', ''get_recent_changes'', ''get_backup_status'']"
    by (simp add: AgentTools_def tool_def)
  show ?thesis
    unfolding set_filter [symmetric] list.set_map [symmetric] names
    by (simp add: no_argument_tools_def bounded_read_tools_def)
qed

text \<open>
  A read tool answers only inside the session scope: a result means that the sealed scope
  has not expired, belongs to this enrollment, generation and revocation epoch, grants that
  very tool, and that the tool is one of the eight read tools of the catalogue; the two tools
  that propose or read operations are never reached through it.
\<close>

lemma read_tool_authority:
  assumes "CallReadTool parse ce sv scope name args d = Inr v"
  shows "scope_Validate (ce_crypto ce) scope (ce_clock ce 0) = None \<and>
    sc_EnrollmentID scope = en_EnrollmentID (rg_Enrollment (sv_Registry sv)) \<and>
    sc_DeploymentGeneration scope = en_DeploymentGeneration (rg_Enrollment (sv_Registry sv)) \<and>
    sc_RevocationEpoch scope = sv_CurrentRevocationEpoch sv \<and> name \<in> set (sc_Capabilities scope) \<and>
    (\<exists>t \<in> set AgentTools. td_Name t = name \<and> td_Permission t \<in> {''read'', ''bounded-read''}) \<and>
    (args \<noteq> [] \<longrightarrow> name = ''get_recent_errors'' \<or> name = ''get_recent_changes'')"
proof -
  have auth: "authorize (ce_crypto ce) sv (ce_clock ce 0) scope name '''' '''' = None"
    and valid: "validateReadArguments name args = None"
    using assms by (auto simp: CallReadTool_def)
  have "name \<in> set no_argument_tools \<or> name \<in> set bounded_read_tools"
      "name \<in> set no_argument_tools \<Longrightarrow> args = []"
    using valid by (auto simp: validateReadArguments_def split: if_splits)
  then have name: "name \<in> set (no_argument_tools @ bounded_read_tools)"
    and args: "args \<noteq> [] \<longrightarrow> name = ''get_recent_errors'' \<or> name = ''get_recent_changes''"
    by (auto simp: bounded_read_tools_def)
  from name have "\<exists>t \<in> set AgentTools. td_Name t = name \<and> td_Permission t \<in> {''read'', ''bounded-read''}"
    using read_tool_names by blast
  with auth args show ?thesis by (simp add: authorize_None_iff)
qed

theorem read_tool_authority_witness:
  "\<exists>scope v. CallReadTool (\<lambda>_. None) (sample_env 0) sample_service scope ''get_health'' [] sample_frozen = Inr v \<and>
     ''get_health'' \<in> set (sc_Capabilities scope)"
proof -
  let ?scope = "sample_scope\<lparr>sc_Capabilities := [''get_health'', ''get_operation'']\<rparr>"
  have "scope_Validate sample_crypto ?scope sample_now = None"
  proof -
    have "sealed_scope sample_crypto ?scope"
      by (simp add: sealed_scope_def scope_digestPayload_def sample_scope_def hex_encode_def hex_digit_def)
    then show ?thesis by (simp add: scope_Validate_None_iff sample_scope_def duration_units Before_def)
  qed
  then have "authorize sample_crypto sample_service sample_now ?scope ''get_health'' '''' '''' = None"
    by (simp add: authorize_None_iff sample_service_def sample_registry_def)
       (simp add: sample_scope_def sample_enrollment_def)
  then obtain v where run: "CallReadTool (\<lambda>_. None) (sample_env 0) sample_service ?scope ''get_health'' [] sample_frozen = Inr v"
    by (simp add: CallReadTool_def sample_env_def validateReadArguments_def no_argument_tools_def
        sample_service_def UnavailableTarget_def)
  show ?thesis
    using run read_tool_authority [OF run] by (intro exI [of _ ?scope] exI [of _ v]) simp
qed

section \<open>Own operations\<close>

lemma with_operation_iff:
  "with_operation rec d = Inr res \<Longrightarrow> ow_intent res = rec \<and>
     (\<forall>op. ow_operation res = Some op \<longrightarrow> OperationForIntent (ci_IntentID (ir_Intent rec)) d = Inr op)"
  by (auto simp: with_operation_def split: sum.splits if_splits)

lemma history_operation_for_intent:
  assumes "journal_history cr d" "OperationForIntent k d = Inr op"
  shows "op_IntentID op = k"
proof -
  obtain q where q: "rows_with or_intent_id k (v01_operations d) = Some q" "op = or_payload q"
    using assms(2) by (auto simp: OperationForIntent_def split: option.splits)
  have "operation_row_ok q"
    using journal_history_ok [OF assms(1)] rows_with_SomeD [OF q(1)]
    by (auto simp: journal_ok_def operations_ok_def)
  then show ?thesis using operation_row_okD(2) rows_with_SomeD [OF q(1)] q(2) by auto
qed

lemma history_intent_id:
  assumes "journal_history cr d" "GetIntent k d = Inr rec"
  shows "ci_IntentID (ir_Intent rec) = k"
  using assms journal_ok_intent(1) [OF journal_history_ok [OF assms(1)]] by (auto simp: GetIntent_iff)

lemma history_client_key:
  assumes "journal_history cr d" "GetIntentByClientKey p e k d = Inr rec"
  shows "ci_PrincipalID (ir_Intent rec) = p" "ci_EnrollmentID (ir_Intent rec) = e"
proof -
  obtain r where r: "rows_with intent_key (p, e, k) (v01_intents d) = Some r" "rec = it_payload r"
    using assms(2) by (auto simp: GetIntentByClientKey_cases)
  have "intent_row_ok r"
    using journal_history_ok [OF assms(1)] rows_with_SomeD [OF r(1)]
    by (auto simp: journal_ok_def intents_ok_def)
  then have "intent_key (new_intent_row rec) = (p, e, k)"
    using intent_row_okD(2) rows_with_SomeD [OF r(1)] r(2) by metis
  then show "ci_PrincipalID (ir_Intent rec) = p" "ci_EnrollmentID (ir_Intent rec) = e"
    by (simp_all add: intent_key_new)
qed

text \<open>
  C25. An agent sees only its own: whatever reference it passes, be it an intent, an operation,
  a step or a client request of anyone, the intent it is shown is of its own principal and
  enrollment, and the operation shown with it is the operation of that intent.
\<close>

theorem own_operation_isolation:
  assumes "journal_history cr d" "GetOwnOperation ce sv scope reference d = Inr res"
  shows "ci_PrincipalID (ir_Intent (ow_intent res)) = sc_PrincipalID scope \<and>
    ci_EnrollmentID (ir_Intent (ow_intent res)) = sc_EnrollmentID scope \<and>
    (case ow_operation res of None \<Rightarrow> True
     | Some op \<Rightarrow> op_IntentID op = ci_IntentID (ir_Intent (ow_intent res)))"
proof -
  have via_operation: ?thesis if "ownOperationResult scope op d = Inr res" for op
    using that history_intent_id [OF assms(1)]
    by (auto simp: ownOperationResult_def own_record_def)
  have via_intent: ?thesis if "with_operation rec d = Inr res" "own_record scope rec" for rec
    using with_operation_iff [OF that(1)] that(2) history_operation_for_intent [OF assms(1)]
    by (auto simp: own_record_def split: option.splits)
  from assms(2) show ?thesis
    using via_operation via_intent history_client_key [OF assms(1)]
    by (auto simp: GetOwnOperation_def own_record_def split: sum.splits)
qed

theorem own_operation_isolation_witness:
  "\<exists>res. GetOwnOperation (sample_env 0) sample_service sample_scope ''intent_01'' sample_approved = Inr res \<and>
     ci_PrincipalID (ir_Intent (ow_intent res)) = ''agent''"
proof -
  obtain res where run: "GetOwnOperation (sample_env 0) sample_service sample_scope ''intent_01'' sample_approved = Inr res"
    by (simp add: GetOwnOperation_def sample_env_def GetIntent_def scanIntent_def sample_approved_tables
        own_record_def check_def with_operation_def OperationForIntent_def)
       (simp add: sample_scope_def)
  show ?thesis
    using run own_operation_isolation [OF sample_histories(2) run] by (auto simp: sample_scope_def)
qed

section \<open>Proposals\<close>

lemma profile_for_SomeD:
  "profile_for eligibility pluginID artifactID ps = Some profile \<Longrightarrow>
     profile \<in> snd ` set ps \<and> tp_PluginID profile = pluginID \<and> tp_ToArtifactID profile = artifactID \<and>
     tp_Eligibility profile = eligibility"
  by (induction eligibility pluginID artifactID ps rule: profile_for.induct) (auto split: if_splits)

text \<open>The guards a successful proposal has passed, and what it leaves in the journal.\<close>

lemma propose_effect:
  assumes "propose ce sv scope input g03Only looked seen d = Inr (stored, d')"
  shows "\<exists>profile observation fromArtifact toArtifact proposalDigest now.
    authorize (ce_crypto ce) sv (ce_clock ce 1) scope ''propose_plugin_change'' (pi_PluginID input)
      (tp_ProfileID profile) = None \<and> validate_proposal input = None \<and>
    profile_for (if g03Only then ''G03_BACKUP_ONLY'' else ''VERIFIED_TRANSITION'') (pi_PluginID input)
      (pi_TargetArtifactID input) (rg_Profiles (sv_Registry sv)) = Some profile \<and>
    tr_Observe (sv_Target sv) (rg_Enrollment (sv_Registry sv)) = Inr observation \<and>
    validateObservation sv observation now (pi_PluginID input) = None \<and>
    map_get (rg_Artifacts (sv_Registry sv)) (tp_FromArtifactID profile) = Some fromArtifact \<and>
    tp_FromArtifactID profile = str_get (ob_ActiveArtifacts observation) (pi_PluginID input) \<and>
    map_get (rg_Artifacts (sv_Registry sv)) (pi_TargetArtifactID input) = Some toArtifact \<and>
    ar_OwnerTrustConfirmed toArtifact \<and>
    Digest (ce_crypto ce) (reflect_proposal_identity scope input) = Inr proposalDigest \<and>
    now = ce_clock ce 2 \<and>
    (d' = d \<and> GetIntentByClientKey (sc_PrincipalID scope) (sc_EnrollmentID scope)
       (pi_ClientRequestID input) looked = Inr stored \<and> ir_ProposalDigest stored = proposalDigest \<or>
     (\<exists>intent created. intent_Seal (ce_crypto ce) (new_intent ce (rg_Enrollment (sv_Registry sv)) scope
         input profile observation fromArtifact toArtifact now) = Inr intent \<and>
       PutIntent (later_env 3 ce) \<lparr>ir_Intent = intent, ir_Status = IntentAwaitingApproval,
         ir_ProposalDigest = proposalDigest, ir_UpdatedAt = now\<rparr> seen d = Inr ((stored, created), d')))"
proof (cases "GetIntentByClientKey (sc_PrincipalID scope) (sc_EnrollmentID scope)
    (pi_ClientRequestID input) looked")
  case (Inl err)
  with assms show ?thesis
    by (cases "tr_Observe (sv_Target sv) (rg_Enrollment (sv_Registry sv))")
       (auto simp: propose_def Let_def ProfileFor_def ProfileForG03Acceptance_def
         split: option.splits if_splits)
next
  case (Inr existing)
  with assms show ?thesis
    by (cases "tr_Observe (sv_Target sv) (rg_Enrollment (sv_Registry sv))")
       (auto simp: propose_def Let_def ProfileFor_def ProfileForG03Acceptance_def
         split: option.splits if_splits)
qed

definition sample_artifact :: "string \<Rightarrow> ArtifactRecord" where
  "sample_artifact name = \<lparr>ar_ArtifactID = name, ar_SHA256 = ''s'' @ name, ar_Size = 1,
     ar_SourceDescription = '''', ar_AcquiredAt = 0, ar_PluginID = ''plug'', ar_DescriptorDigest = '''',
     ar_OwnerTrustConfirmed = True, ar_CompatibilityEvidence = ''''\<rparr>"

definition sample_profile :: "string \<Rightarrow> string \<Rightarrow> TransitionProfile" where
  "sample_profile name source = \<lparr>tp_ProfileID = name, tp_ProfileDigest = ''prd'', tp_PluginID = ''plug'',
     tp_FromArtifactID = source, tp_ToArtifactID = ''b'', tp_PaperTuple = ''tuple'',
     tp_DependencyInventory = [], tp_WritableDataLocations = [], tp_MigrationDeclared = False,
     tp_VerificationProfileID = ''vp'', tp_VerificationDigest = ''vd'', tp_RecoveryContractID = ''rc'',
     tp_RecoveryDigest = ''rd'', tp_Eligibility = ''VERIFIED_TRANSITION''\<rparr>"

definition sample_players :: ObservationValue where
  "sample_players = \<lparr>ov_Availability = Available, ov_Value = GInt 0, ov_Unit = '''', ov_Reason = '''',
     ov_Source = ''runtime'', ov_ObservedAt = sample_now, ov_BootID = ''bootid''\<rparr>"

definition sample_observation :: ObservationBundle where
  "sample_observation = \<lparr>ob_BundleID = ''bun'', ob_EnrollmentID = ''enr'', ob_DeploymentGeneration = 1,
     ob_ContainerID = ''ctr'', ob_BootID = ''bootid'', ob_InventoryDigest = ''inv'', ob_ConfigDigest = ''cfg'',
     ob_ActiveArtifacts = [(''plug'', ''a'')], ob_Readings = [(''players'', sample_players)],
     ob_CreatedAt = sample_now\<rparr>"

definition sample_catalog_service :: Service where
  "sample_catalog_service = sample_service\<lparr>
     sv_Registry := \<lparr>rg_Enrollment = sample_enrollment,
       rg_Artifacts = [(''a'', sample_artifact ''a''), (''b'', sample_artifact ''b'')],
       rg_Profiles = [(''prof'', sample_profile ''prof'' ''a'')]\<rparr>,
     sv_Target := FakeTarget sample_observation [] sample_now\<rparr>"

definition sample_input :: ProposalInput where
  "sample_input = \<lparr>pi_PluginID = ''plug'', pi_TargetArtifactID = ''b'', pi_ClientRequestID = ''req'',
     pi_Rationale = ''''\<rparr>"

lemma sample_catalog_simps [simp]:
  "rg_Enrollment (sv_Registry sample_catalog_service) = sample_enrollment"
  "rg_Artifacts (sv_Registry sample_catalog_service) =
     [(''a'', sample_artifact ''a''), (''b'', sample_artifact ''b'')]"
  "rg_Profiles (sv_Registry sample_catalog_service) = [(''prof'', sample_profile ''prof'' ''a'')]"
  "tr_Observe (sv_Target sample_catalog_service) e = Inr sample_observation"
  "sv_CurrentRevocationEpoch sample_catalog_service = 1"
  by (simp_all add: sample_catalog_service_def sample_service_def FakeTarget_def)

lemma sample_proposal_authorized:
  "authorize sample_crypto sample_catalog_service sample_now sample_scope ''propose_plugin_change'' '''' '''' = None"
  "authorize sample_crypto sample_catalog_service sample_now sample_scope ''propose_plugin_change'' ''plug'' ''prof'' = None"
  "authorize sample_crypto sample_catalog_service sample_now sample_scope ''get_operation'' '''' '''' = None"
  by (simp_all add: authorize_None_iff) (simp_all add: sample_scope_def sample_enrollment_def)

lemma sample_observation_valid:
  "validateObservation sample_catalog_service sample_observation sample_now ''plug'' = None"
  by (simp add: validateObservation_def Let_def)
     (simp add: sample_observation_def sample_enrollment_def str_get_def map_get_def RequireAvailable_def
       sample_players_def go_time)

lemma sample_proposal_simps [simp]:
  "pi_PluginID sample_input = ''plug''" "pi_TargetArtifactID sample_input = ''b''"
  "validate_proposal sample_input = None" "sc_PluginIDs sample_scope = [''plug'']"
  "tp_PluginID (sample_profile n s) = ''plug''" "tp_ToArtifactID (sample_profile n s) = ''b''"
  "tp_FromArtifactID (sample_profile n s) = s" "tp_ProfileID (sample_profile n s) = n"
  "tp_Eligibility (sample_profile n s) = ''VERIFIED_TRANSITION''"
  "tp_PaperTuple (sample_profile n s) = en_PaperTuple sample_enrollment"
  "ar_OwnerTrustConfirmed (sample_artifact n)"
  "str_get (ob_ActiveArtifacts sample_observation) ''plug'' = ''a''"
  by (simp_all add: sample_input_def sample_profile_def sample_scope_def validate_proposal_def
      sample_artifact_def sample_observation_def str_get_def sample_enrollment_def)

lemma sample_clock [simp]: "ce_clock (sample_env n) k = sample_now"
  by (simp add: sample_env_def)

lemma sample_identity_digest: "\<exists>digest. Digest sample_crypto (reflect_proposal_identity sample_scope sample_input) = Inr digest"
  by (simp add: reflect_proposal_identity_def)

lemma sample_propose_runs:
  "\<exists>stored d'. propose (sample_env 2) sample_catalog_service sample_scope sample_input False
     empty_db empty_db empty_db = Inr (stored, d')"
proof -
  obtain intent where seal: "intent_Seal sample_crypto (new_intent (sample_env 2) sample_enrollment
      sample_scope sample_input (sample_profile ''prof'' ''a'') sample_observation (sample_artifact ''a'')
      (sample_artifact ''b'') sample_now) = Inr intent"
    by (auto simp: intent_Seal_def reflect_intent_def)
  obtain digest where digest: "Digest sample_crypto (reflect_proposal_identity sample_scope sample_input) = Inr digest"
    using sample_identity_digest by blast
  let ?rec = "\<lparr>ir_Intent = intent, ir_Status = IntentAwaitingApproval, ir_ProposalDigest = digest,
      ir_UpdatedAt = sample_now\<rparr>"
  obtain stored created d' where put:
      "PutIntent (later_env 3 (sample_env 2)) ?rec empty_db empty_db = Inr ((stored, created), d')"
    by (auto simp: PutIntent_def GetIntentByClientKey_def scanIntent_def CodeOf_def NewError_def
        insert_intent_def check_def)
  show ?thesis
    using put by (simp add: propose_def Let_def unless_error_def check_def sample_proposal_authorized
        sample_observation_valid ProfileFor_def map_get_def digest seal GetIntentByClientKey_def scanIntent_def)
qed



text \<open>
  Which profile a proposal is bound to depends on the order in which Go visits the map of
  profiles: with two eligible profiles for one plugin and target artifact that differ in the
  artifact they start from, two orders of the same map give different profiles, and the
  proposal that matches the active artifact is refused in one of them.
\<close>

lemma profile_choice_depends_on_map_order:
  "\<exists>ps qs p q. mset ps = mset qs \<and> distinct (map fst ps) \<and>
     ProfileFor \<lparr>rg_Enrollment = sample_enrollment, rg_Artifacts = [], rg_Profiles = ps\<rparr> ''plug'' ''b'' = Inr p \<and>
     ProfileFor \<lparr>rg_Enrollment = sample_enrollment, rg_Artifacts = [], rg_Profiles = qs\<rparr> ''plug'' ''b'' = Inr q \<and>
     tp_FromArtifactID p \<noteq> tp_FromArtifactID q"
proof -
  let ?x = "(''p1'', sample_profile ''p1'' ''a'')" and ?y = "(''p2'', sample_profile ''p2'' ''c'')"
  have "mset [?x, ?y] = mset [?y, ?x] \<and> distinct (map fst [?x, ?y]) \<and>
      ProfileFor \<lparr>rg_Enrollment = sample_enrollment, rg_Artifacts = [], rg_Profiles = [?x, ?y]\<rparr> ''plug'' ''b'' = Inr (snd ?x) \<and>
      ProfileFor \<lparr>rg_Enrollment = sample_enrollment, rg_Artifacts = [], rg_Profiles = [?y, ?x]\<rparr> ''plug'' ''b'' = Inr (snd ?y) \<and>
      tp_FromArtifactID (snd ?x) \<noteq> tp_FromArtifactID (snd ?y)"
    by (simp add: ProfileFor_def)
  then show ?thesis by blast
qed

section \<open>No mutation\<close>


text \<open>
  The release gate: whatever the support profile, the executor flag and the intent,
  \<open>StartMutation\<close> answers UNSUPPORTED_ENVIRONMENT, and the default profile of this release
  does not even allow mutation.
\<close>

lemma mutation_stays_disabled:
  "CodeOf (Some (StartMutation sv intentID)) = ErrUnsupportedEnvironment \<and>
   \<not> MutationAllowed DefaultM1Profile \<and>
   (MutationAllowed p \<longleftrightarrow> sp_Mode p = ModeMutation \<and>
      (\<forall>g \<in> {''G-01'', ''G-02'', ''G-03'', ''G-04'', ''G-05'', ''G-06'', ''G-07''}. map_of (sp_Gates p) g = Some GatePass))"
proof -
  have "gate_status p g = GatePass \<longleftrightarrow> map_of (sp_Gates p) g = Some GatePass" for g
    by (auto simp: gate_status_def split: option.splits)
  then have "MutationAllowed p \<longleftrightarrow> sp_Mode p = ModeMutation \<and>
      (\<forall>g \<in> set RequiredMutationGates. map_of (sp_Gates p) g = Some GatePass)"
    by (simp add: MutationAllowed_def all_gates_pass_iff)
  then show ?thesis
    by (simp add: StartMutation_def MutationAllowed_def DefaultM1Profile_def RequiredMutationGates_def)
qed

theorem mutation_stays_disabled_witness:
  "MutationAllowed \<lparr>sp_ProfileID = ''x'', sp_Mode = ModeMutation,
     sp_Gates = map (\<lambda>g. (g, GatePass)) RequiredMutationGates\<rparr>"
  using mutation_stays_disabled [of sample_service "''i''" "\<lparr>sp_ProfileID = ''x'', sp_Mode = ModeMutation,
     sp_Gates = map (\<lambda>g. (g, GatePass)) RequiredMutationGates\<rparr>"]
  by (simp add: RequiredMutationGates_def)

end
