(* ===== verification/Run_Actions.thy ===== *)
theory Run_Actions
  imports Journal_Properties
begin

text \<open>
  Code that drives a target beside the journal: the executor of \<open>workflow/foundation.go\<close> and
  the archive engine of \<open>backup/offline.go\<close>. Such code is an action on a run state: the journal,
  the world outside and the calls made to the target so far. An action ends with a result or an
  error; what it has committed or dispatched before an error stays.

  The world has a type of its own and is only reached through the functions of \<open>outside\<close>: the
  clock, the readings a store call makes, the timer of the context, the file descriptors' errors
  and so on. Two of them make the journal what it is in production. \<open>ou_others\<close> is what other
  processes commit between two transactions of this one, and \<open>ou_fault\<close> says whether a call of
  the store fails before its transaction, works, or loses its response after the commit; a
  cancelled context is a fault of the first kind.
\<close>

record StopRequest =
  sr_OperationID :: string
  sr_StepID :: string
  sr_ContainerID :: string
  sr_BootID :: string
  sr_RequestedAt :: gotime

text \<open>
  The calls to the target that a claim can be about: an observation with what it showed, the
  request to close admission, the request to stop.
\<close>

datatype target_call =
  SawSafety bool SafetyObservation
| CallCloseAdmission string string
| CallStop StopRequest

record 'w run =
  rn_db :: db
  rn_world :: 'w
  rn_calls :: "(target_call \<times> db) list"

type_synonym ('w, 'a) action = "'w run \<Rightarrow> 'a result \<times> 'w run"

datatype journal_fault = Works | FailsBefore gar_error | FailsAfter gar_error

record 'w outside =
  ou_crypto :: crypto
  ou_now :: "'w \<Rightarrow> gotime \<times> 'w"
  ou_readings :: "'w \<Rightarrow> ((nat \<Rightarrow> gotime) \<times> (nat \<Rightarrow> nat list)) \<times> 'w"
  ou_others :: "'w \<Rightarrow> db \<Rightarrow> db \<times> 'w"
  ou_fault :: "'w \<Rightarrow> journal_fault \<times> 'w"
  ou_deadline :: "duration \<Rightarrow> 'w \<Rightarrow> unit \<times> 'w"
  ou_ticks :: "duration \<Rightarrow> 'w \<Rightarrow> nat \<times> 'w"
  ou_ctx_err :: "'w \<Rightarrow> gar_error \<times> 'w"

section \<open>Actions\<close>

definition run_return :: "'a \<Rightarrow> ('w, 'a) action" where
  "run_return x s = (Inr x, s)"

definition run_raise :: "gar_error \<Rightarrow> ('w, 'a) action" where
  "run_raise err s = (Inl err, s)"

definition run_then :: "('w, 'a) action \<Rightarrow> ('a \<Rightarrow> ('w, 'b) action) \<Rightarrow> ('w, 'b) action" where
  "run_then m k s = (case m s of (Inl err, s') \<Rightarrow> (Inl err, s') | (Inr x, s') \<Rightarrow> k x s')"

definition run_check :: "bool \<Rightarrow> gar_error \<Rightarrow> ('w, unit) action" where
  "run_check b err = (if b then run_return () else run_raise err)"

definition run_result :: "'a result \<Rightarrow> ('w, 'a) action" where
  "run_result r s = (r, s)"

text \<open>The error of a call as a value, for code that looks at it before it returns.\<close>

definition run_catch :: "('w, 'a) action \<Rightarrow> ('w, 'a result) action" where
  "run_catch m s = (case m s of (r, s') \<Rightarrow> (Inr r, s'))"

definition outside_call :: "('w \<Rightarrow> 'a \<times> 'w) \<Rightarrow> ('w, 'a) action" where
  "outside_call f s = (case f (rn_world s) of (x, w) \<Rightarrow> (Inr x, s\<lparr>rn_world := w\<rparr>))"

definition outside_try :: "('w \<Rightarrow> 'a result \<times> 'w) \<Rightarrow> ('w, 'a) action" where
  "outside_try f s = (case f (rn_world s) of (r, w) \<Rightarrow> (r, s\<lparr>rn_world := w\<rparr>))"

definition record_call :: "target_call \<Rightarrow> ('w, unit) action" where
  "record_call c s = (Inr (), s\<lparr>rn_calls := rn_calls s @ [(c, rn_db s)]\<rparr>)"

definition now :: "'w outside \<Rightarrow> ('w, gotime) action" where
  "now ou = outside_call (ou_now ou)"

text \<open>One call of the store: the transaction runs on what the others have left.\<close>

definition journal_tx :: "'w outside \<Rightarrow> (call_env \<Rightarrow> db \<Rightarrow> ('a \<times> db) result) \<Rightarrow> ('w, 'a) action" where
  "journal_tx ou tx s =
     (case ou_others ou (rn_world s) (rn_db s) of (d, w1) \<Rightarrow>
      case ou_readings ou w1 of ((clock, random), w2) \<Rightarrow>
      case ou_fault ou w2 of (fault, w3) \<Rightarrow>
      let ce = \<lparr>ce_crypto = ou_crypto ou, ce_clock = clock, ce_random = random\<rparr>;
          s1 = s\<lparr>rn_world := w3, rn_db := d\<rparr>
      in case fault of
           FailsBefore err \<Rightarrow> (Inl err, s1)
         | _ \<Rightarrow>
             (case tx ce d of
                Inl err \<Rightarrow> (Inl err, s1)
              | Inr (x, d') \<Rightarrow>
                  (case fault of FailsAfter err \<Rightarrow> Inl err | _ \<Rightarrow> Inr x, s1\<lparr>rn_db := d'\<rparr>)))"

definition with_unit :: "db result \<Rightarrow> (unit \<times> db) result" where
  "with_unit r = and_then r (\<lambda>d. Inr ((), d))"

definition journal_do :: "'w outside \<Rightarrow> (call_env \<Rightarrow> db \<Rightarrow> db result) \<Rightarrow> ('w, unit) action" where
  "journal_do ou tx = journal_tx ou (\<lambda>ce d. with_unit (tx ce d))"

definition journal_read :: "'w outside \<Rightarrow> (db \<Rightarrow> 'a result) \<Rightarrow> ('w, 'a) action" where
  "journal_read ou q = journal_tx ou (\<lambda>ce d. and_then (q d) (\<lambda>x. Inr (x, d)))"

lemma with_unit_Inr_iff [simp]: "with_unit r = Inr (u, d) \<longleftrightarrow> r = Inr d"
  by (cases r) (auto simp: with_unit_def)

lemma run_then_Inr:
  "run_then m k s = (Inr y, s') \<longleftrightarrow> (\<exists>x s1. m s = (Inr x, s1) \<and> k x s1 = (Inr y, s'))"
  by (auto simp: run_then_def split: prod.splits sum.splits)

section \<open>Triples\<close>

text \<open>
  \<open>triple P m Q E\<close>: from a state that satisfies \<open>P\<close>, \<open>m\<close> ends with a value and a state that
  satisfy \<open>Q\<close>, or with an error and a state that satisfies \<open>E\<close>.
\<close>

definition triple ::
  "('w run \<Rightarrow> bool) \<Rightarrow> ('w, 'a) action \<Rightarrow> ('a \<Rightarrow> 'w run \<Rightarrow> bool) \<Rightarrow> ('w run \<Rightarrow> bool) \<Rightarrow> bool" where
  "triple P m Q E \<longleftrightarrow> (\<forall>s. P s \<longrightarrow> (case m s of (Inl err, s') \<Rightarrow> E s' | (Inr x, s') \<Rightarrow> Q x s'))"

named_theorems run_rule

lemma triple_return: "triple (Q x) (run_return x) Q E"
  by (simp add: triple_def run_return_def)

lemma triple_raise: "triple E (run_raise err) Q E"
  by (simp add: triple_def run_raise_def)

lemma triple_pre: "triple P m Q E \<Longrightarrow> (\<And>s. P' s \<Longrightarrow> P s) \<Longrightarrow> triple P' m Q E"
  by (simp add: triple_def)

lemma triple_post: "triple P m Q E \<Longrightarrow> (\<And>x s. Q x s \<Longrightarrow> Q' x s) \<Longrightarrow> triple P m Q' E"
  by (fastforce simp: triple_def split: prod.splits sum.splits)

lemma triple_error: "triple P m Q E \<Longrightarrow> (\<And>s. E s \<Longrightarrow> E' s) \<Longrightarrow> triple P m Q E'"
  by (fastforce simp: triple_def split: prod.splits sum.splits)

lemma triple_then:
  assumes "triple P m Q E" "\<And>x. triple (Q x) (k x) R E"
  shows "triple P (run_then m k) R E"
  using assms by (fastforce simp: triple_def run_then_def split: prod.splits sum.splits)

lemma triple_keep:
  "triple I m (\<lambda>_. I) I \<Longrightarrow> (\<And>x. triple I (k x) (\<lambda>_. I) I) \<Longrightarrow> triple I (run_then m k) (\<lambda>_. I) I"
  by (rule triple_then)

lemma triple_return_pre: "(\<And>s. P s \<Longrightarrow> Q x s) \<Longrightarrow> triple P (run_return x) Q E"
  by (rule triple_pre [OF triple_return])

lemma triple_raise_pre: "(\<And>s. P s \<Longrightarrow> E s) \<Longrightarrow> triple P (run_raise err) Q E"
  by (rule triple_pre [OF triple_raise])

lemma triple_check:
  "triple (\<lambda>s. P s) (run_check b err) (\<lambda>_ s. b \<and> P s) P"
  by (simp add: triple_def run_check_def run_return_def run_raise_def)

lemma triple_result: "triple P (run_result r) (\<lambda>x s. r = Inr x \<and> P s) P"
  by (cases r) (simp_all add: triple_def run_result_def)

lemma triple_catch:
  "triple P m Q E \<Longrightarrow>
   triple P (run_catch m) (\<lambda>r s. case r of Inl err \<Rightarrow> E s | Inr x \<Rightarrow> Q x s) E'"
  by (fastforce simp: triple_def run_catch_def split: prod.splits sum.splits)

lemma triple_if:
  "(b \<Longrightarrow> triple P m Q E) \<Longrightarrow> (\<not> b \<Longrightarrow> triple P m' Q E) \<Longrightarrow> triple P (if b then m else m') Q E"
  by simp

lemma triple_assume: "(\<And>s. P s \<Longrightarrow> b) \<Longrightarrow> (b \<Longrightarrow> triple P m Q E) \<Longrightarrow> triple P m Q E"
  by (fastforce simp: triple_def)

section \<open>Conditions that outlast other processes\<close>

text \<open>
  A condition is \<open>durable\<close> when neither the world nor a later transaction of anybody breaks it;
  it is \<open>stable\<close> when observing the target does not break it either.
\<close>

definition durable :: "crypto \<Rightarrow> ('w run \<Rightarrow> bool) \<Rightarrow> bool" where
  "durable cr P \<longleftrightarrow> (\<forall>s. P s \<longrightarrow> journal_history cr (rn_db s)) \<and>
     (\<forall>s w. P s \<longrightarrow> P (s\<lparr>rn_world := w\<rparr>)) \<and>
     (\<forall>s d. P s \<longrightarrow> later cr (rn_db s) d \<longrightarrow> P (s\<lparr>rn_db := d\<rparr>))"

definition stable :: "crypto \<Rightarrow> ('w run \<Rightarrow> bool) \<Rightarrow> bool" where
  "stable cr P \<longleftrightarrow> durable cr P \<and>
     (\<forall>s b ob. P s \<longrightarrow> P (s\<lparr>rn_calls := rn_calls s @ [(SawSafety b ob, rn_db s)]\<rparr>))"

definition others_commit :: "'w outside \<Rightarrow> bool" where
  "others_commit ou \<longleftrightarrow> (\<forall>w d. later (ou_crypto ou) d (fst (ou_others ou w d)))"

definition transaction :: "crypto \<Rightarrow> (call_env \<Rightarrow> db \<Rightarrow> ('a \<times> db) result) \<Rightarrow> bool" where
  "transaction cr tx \<longleftrightarrow>
     (\<forall>ce d x d'. ce_crypto ce = cr \<longrightarrow> tx ce d = Inr (x, d') \<longrightarrow> d' = d \<or> journal_step cr d d')"

lemma durable_world: "durable cr P \<Longrightarrow> P s \<Longrightarrow> P (s\<lparr>rn_world := w\<rparr>)"
  by (simp add: durable_def)

lemma durable_later: "durable cr P \<Longrightarrow> P s \<Longrightarrow> later cr (rn_db s) d \<Longrightarrow> P (s\<lparr>rn_db := d\<rparr>)"
  by (simp add: durable_def)

lemma durable_history: "durable cr P \<Longrightarrow> P s \<Longrightarrow> journal_history cr (rn_db s)"
  by (simp add: durable_def)

lemma durable_conj_calls: "durable cr P \<Longrightarrow> durable cr (\<lambda>s. P s \<and> C (rn_calls s))"
  by (simp add: durable_def)

text \<open>A fact of the journal that later transactions keep can be added to either.\<close>

lemma durable_conj_db:
  assumes "durable cr P" "\<And>d d'. F d \<Longrightarrow> journal_history cr d \<Longrightarrow> later cr d d' \<Longrightarrow> F d'"
  shows "durable cr (\<lambda>s. P s \<and> F (rn_db s))"
  unfolding durable_def
proof (intro conjI allI impI)
  fix s d
  assume "P s \<and> F (rn_db s)" "later cr (rn_db s) d"
  then show "P (s\<lparr>rn_db := d\<rparr>)" "F (rn_db (s\<lparr>rn_db := d\<rparr>))"
    using durable_later [OF assms(1)] assms(2) durable_history [OF assms(1)] by auto
qed (use assms(1) in \<open>simp_all add: durable_def\<close>)

lemma stable_conj_db:
  assumes "stable cr P" "\<And>d d'. F d \<Longrightarrow> journal_history cr d \<Longrightarrow> later cr d d' \<Longrightarrow> F d'"
  shows "stable cr (\<lambda>s. P s \<and> F (rn_db s))"
proof -
  have "durable cr (\<lambda>s. P s \<and> F (rn_db s))"
    using assms by (intro durable_conj_db) (simp_all add: stable_def)
  with assms(1) show ?thesis by (simp add: stable_def)
qed

lemma stable_durable: "stable cr P \<Longrightarrow> durable cr P"
  by (simp add: stable_def)

lemma triple_outside_call: "durable cr P \<Longrightarrow> triple P (outside_call f) (\<lambda>_. P) P"
  by (auto simp: triple_def outside_call_def durable_world split: prod.splits)

lemma triple_outside_try: "durable cr P \<Longrightarrow> triple P (outside_try f) (\<lambda>_. P) P"
  by (auto simp: triple_def outside_try_def durable_world split: prod.splits sum.splits)

lemma triple_now: "durable cr P \<Longrightarrow> triple P (now ou) (\<lambda>_. P) P"
  unfolding now_def by (rule triple_outside_call)

text \<open>
  A transaction works on a journal \<open>d\<close> that still satisfies the condition, and leaves the
  condition as it is.
\<close>

lemma triple_journal_tx:
  assumes "durable (ou_crypto ou) P" "others_commit ou" "transaction (ou_crypto ou) tx"
  shows "triple P (journal_tx ou tx)
    (\<lambda>x s. P s \<and> (\<exists>ce d. ce_crypto ce = ou_crypto ou \<and> P (s\<lparr>rn_db := d\<rparr>) \<and> tx ce d = Inr (x, rn_db s))) P"
  unfolding triple_def
proof (intro allI impI)
  fix s
  assume P: "P s"
  obtain d w1 where d: "ou_others ou (rn_world s) (rn_db s) = (d, w1)" by fastforce
  obtain clock random w2 where r: "ou_readings ou w1 = ((clock, random), w2)" by (metis surj_pair)
  obtain fault w3 where f: "ou_fault ou w2 = (fault, w3)" by fastforce
  let ?ce = "\<lparr>ce_crypto = ou_crypto ou, ce_clock = clock, ce_random = random\<rparr>"
  let ?s = "s\<lparr>rn_world := w3, rn_db := d\<rparr>"
  have "later (ou_crypto ou) (rn_db s) d"
    using assms(2) d unfolding others_commit_def by (metis fst_conv)
  then have s1: "P ?s"
    using durable_later [OF assms(1) durable_world [OF assms(1) P, of w3], of d] by simp
  have commit: "P (?s\<lparr>rn_db := d'\<rparr>)" if "tx ?ce d = Inr (x, d')" for x d'
  proof -
    have "d' = d \<or> journal_step (ou_crypto ou) d d'"
      using assms(3) [unfolded transaction_def, rule_format, OF _ that] by simp
    then have "later (ou_crypto ou) (rn_db ?s) d'"
      by (auto intro: reachable_by.intros)
    then show ?thesis by (rule durable_later [OF assms(1) s1])
  qed
  show "case journal_tx ou tx s of (Inl err, s') \<Rightarrow> P s'
    | (Inr x, s') \<Rightarrow> P s' \<and> (\<exists>ce d. ce_crypto ce = ou_crypto ou \<and> P (s'\<lparr>rn_db := d\<rparr>) \<and>
        tx ce d = Inr (x, rn_db s'))"
  proof (cases "tx ?ce d")
    case (Inl err)
    then show ?thesis
      using s1 by (cases fault) (simp_all add: journal_tx_def d r f Let_def)
  next
    case (Inr y)
    obtain x d' where y: "y = (x, d')" by fastforce
    have "\<exists>ce d. ce_crypto ce = ou_crypto ou \<and> P (?s\<lparr>rn_db := d', rn_db := d\<rparr>) \<and> tx ce d = Inr (x, d')"
      using Inr y s1 by (intro exI [of _ ?ce] exI [of _ d]) simp
    then show ?thesis
      using Inr y s1 commit [OF Inr [unfolded y]]
      by (cases fault) (simp_all add: journal_tx_def d r f Let_def)
  qed
qed

section \<open>Quiet actions\<close>

text \<open>An action is quiet when it asks the target for nothing but observations.\<close>

definition quiet :: "crypto \<Rightarrow> ('w, 'a) action \<Rightarrow> bool" where
  "quiet cr m \<longleftrightarrow> (\<forall>P. stable cr P \<longrightarrow> triple P m (\<lambda>_. P) P)"

named_theorems quiet_rule

lemma quietD: "quiet cr m \<Longrightarrow> stable cr P \<Longrightarrow> triple P m (\<lambda>_. P) P"
  by (simp add: quiet_def)

lemma quiet_return [quiet_rule]: "quiet cr (run_return x)"
  by (simp add: quiet_def triple_def run_return_def)

lemma quiet_raise [quiet_rule]: "quiet cr (run_raise err)"
  by (simp add: quiet_def triple_raise)

lemma quiet_then [quiet_rule]: "quiet cr m \<Longrightarrow> (\<And>x. quiet cr (k x)) \<Longrightarrow> quiet cr (run_then m k)"
  unfolding quiet_def by (blast intro: triple_then)

lemma quiet_check [quiet_rule]: "quiet cr (run_check b err)"
  unfolding run_check_def by (simp add: quiet_return quiet_raise)

lemma quiet_result [quiet_rule]: "quiet cr (run_result r)"
  by (cases r) (simp_all add: quiet_def triple_def run_result_def)

lemma quiet_catch [quiet_rule]: "quiet cr m \<Longrightarrow> quiet cr (run_catch m)"
  by (fastforce simp: quiet_def triple_def run_catch_def split: prod.splits sum.splits)

lemma quiet_outside [quiet_rule]: "quiet cr (outside_call f)" "quiet cr (outside_try g)"
  unfolding quiet_def using triple_outside_call triple_outside_try stable_durable by blast+

lemma quiet_now [quiet_rule]: "quiet cr (now ou)"
  unfolding now_def by (rule quiet_outside)

lemma quiet_saw [quiet_rule]: "quiet cr (record_call (SawSafety b ob))"
  by (simp add: quiet_def triple_def record_call_def stable_def)

lemma quiet_if [quiet_rule]:
  "(b \<Longrightarrow> quiet cr m) \<Longrightarrow> (\<not> b \<Longrightarrow> quiet cr m') \<Longrightarrow> quiet cr (if b then m else m')"
  by simp

lemma quiet_option [quiet_rule]:
  "quiet cr m \<Longrightarrow> (\<And>x. quiet cr (k x)) \<Longrightarrow> quiet cr (case v of None \<Rightarrow> m | Some x \<Rightarrow> k x)"
  by (cases v) simp_all

lemma quiet_sum [quiet_rule]:
  "(\<And>err. quiet cr (m err)) \<Longrightarrow> (\<And>x. quiet cr (k x)) \<Longrightarrow> quiet cr (case v of Inl err \<Rightarrow> m err | Inr x \<Rightarrow> k x)"
  by (cases v) simp_all

lemma quiet_prod [quiet_rule]:
  "(\<And>x y. quiet cr (k x y)) \<Longrightarrow> quiet cr (case v of (x, y) \<Rightarrow> k x y)"
  by (cases v) simp

lemma quiet_journal:
  assumes "others_commit ou" "transaction (ou_crypto ou) tx"
  shows "quiet (ou_crypto ou) (journal_tx ou tx)"
  unfolding quiet_def
proof (intro allI impI)
  fix P :: "'a run \<Rightarrow> bool"
  assume "stable (ou_crypto ou) P"
  then show "triple P (journal_tx ou tx) (\<lambda>_. P) P"
    by (intro triple_post [OF triple_journal_tx [OF stable_durable assms]]) simp_all
qed

lemma transaction_read: "transaction cr (\<lambda>ce d. and_then (q d) (\<lambda>x. Inr (x, d)))"
  by (simp add: transaction_def)

lemma quiet_read [quiet_rule]: "others_commit ou \<Longrightarrow> quiet (ou_crypto ou) (journal_read ou q)"
  unfolding journal_read_def by (rule quiet_journal [OF _ transaction_read])

text \<open>The calls of the store that the executor and the archive engine make.\<close>

lemma transactions:
  "transaction cr (\<lambda>ce. PrepareStep ce k kind t)"
  "transaction cr (\<lambda>ce d. with_unit (MarkDispatchPossible ce k stepID t d))"
  "transaction cr (\<lambda>ce d. with_unit (RecordStepObservation ce k stepID effect attribution evidence t d))"
  "transaction cr (\<lambda>ce d. with_unit (MarkUnknown ce k t d))"
  "transaction cr (\<lambda>ce d. with_unit (TransitionOperation ce k to verification released t d))"
  "transaction cr (\<lambda>ce d. with_unit (ReserveBackup ce bk t d))"
  "transaction cr (\<lambda>ce d. with_unit (TransitionBackupStatus ce backupID status t d))"
  "transaction cr (\<lambda>ce d. with_unit (CompleteBackup ce backupID digest sz ready t d))"
  by (simp_all add: transaction_def,
      (intro allI impI disjI2; erule (1) journal_step.intros)+)

lemmas quiet_transactions [quiet_rule] =
  quiet_journal [OF _ transactions(1)]
  transactions(2-8) [THEN quiet_journal [rotated], folded journal_do_def]

end
