(* ===== verification/Foundation_Run.thy ===== *)
theory Foundation_Run
  imports Run_Actions
begin

text \<open>
  The executor of the steps S00 to S05, \<open>src/internal/workflow/foundation.go\<close>. The target and the
  archive engine are interfaces in the code (\<open>FoundationTarget\<close>, \<open>OfflineBackup\<close>), here records of
  their functions; the archive engine of the repository is the theory \<open>Backup_Engine\<close>.

  The two waiting loops poll with a ticker until the context ends: \<open>ou_ticks\<close> is the number of
  ticks that come first, so the loops are structural recursions on it. The step evidence is JSON
  text in the journal; \<open>evidence_codec\<close> has the two functions of \<open>encoding/json\<close> that are used.
\<close>

text \<open>Zero values of structs the code leaves unset.\<close>

definition no_enrollment :: Enrollment where
  "no_enrollment = \<lparr>en_TargetID = '''', en_EnrollmentID = '''', en_DeploymentGeneration = 0,
     en_ContainerID = '''', en_ImageDigest = '''', en_DataRootIdentity = '''', en_GameEndpoint = '''',
     en_RuntimeGuardPairing = '''', en_BootstrapFingerprint = '''', en_PolicyID = '''',
     en_PolicyRevision = '''', en_PolicyDigest = '''', en_SupportProfileID = '''', en_PaperTuple = '''',
     en_AllowedPlugins = []\<rparr>"

definition no_observation :: SafetyObservation where
  "no_observation = \<lparr>so_Available = False, so_ObservedAt = 0, so_Enrollment = no_enrollment,
     so_BootID = '''', so_InventoryDigest = '''', so_ConfigDigest = '''', so_SourceArtifactID = '''',
     so_SourceSHA256 = '''', so_AdmissionClosed = False, so_Maintenance = False, so_Players = 0,
     so_ProcessStopped = False, so_FilesystemRootExists = False, so_NoConflictingWriter = False,
     so_References = []\<rparr>"

definition source_artifact :: "ChangeIntent \<Rightarrow> ArtifactRecord" where
  "source_artifact i = \<lparr>ar_ArtifactID = ci_FromArtifactID i, ar_SHA256 = ci_FromSHA256 i, ar_Size = 0,
     ar_SourceDescription = '''', ar_AcquiredAt = 0, ar_PluginID = ci_PluginID i,
     ar_DescriptorDigest = '''', ar_OwnerTrustConfirmed = False, ar_CompatibilityEvidence = ''''\<rparr>"

record MaintenanceReceipt =
  mr_OperationID :: string
  mr_StepID :: string
  mr_ClosedAt :: gotime
  mr_References :: "string list"

record 'w FoundationTarget =
  ft_ObserveSafety :: "bool \<Rightarrow> 'w \<Rightarrow> SafetyObservation result \<times> 'w"
  ft_CloseAdmission :: "string \<Rightarrow> string \<Rightarrow> 'w \<Rightarrow> MaintenanceReceipt result \<times> 'w"
  ft_DispatchGracefulStop :: "StopRequest \<Rightarrow> 'w \<Rightarrow> unit result \<times> 'w"
  ft_ObserveStop :: "StopRequest \<Rightarrow> 'w \<Rightarrow> (StopEvidence \<times> gar_error option) \<times> 'w"

record 'w OfflineBackup =
  of_Create :: "BackupRecord \<Rightarrow> ('w, BackupReadyEvidence) action \<Rightarrow> ('w, unit) action"
  of_Inspect :: "string \<Rightarrow> ('w, BackupRecord) action"

datatype step_evidence =
  IdentityEvidence string string int
| SafetyEvidence SafetyObservation
| MaintenanceEvidence MaintenanceReceipt SafetyObservation
| ReadyEvidence BackupReadyEvidence

record evidence_codec =
  ec_Marshal :: "step_evidence \<Rightarrow> string result"
  ec_Unmarshal :: "string \<Rightarrow> BackupReadyEvidence result"

record 'w Foundation =
  fd_Enrollment :: Enrollment
  fd_Target :: "'w FoundationTarget option"
  fd_Backup :: "'w OfflineBackup option"
  fd_EvidenceLevel :: string
  fd_StopTimeout :: duration
  fd_boundary :: "(string \<Rightarrow> 'w \<Rightarrow> unit result \<times> 'w) option"
  fd_codec :: evidence_codec

definition evidenceLevel :: "'w Foundation \<Rightarrow> string" where
  "evidenceLevel f = (if fd_EvidenceLevel f = '''' then ''FAKE_TARGET'' else fd_EvidenceLevel f)"

definition checkpoint :: "'w Foundation \<Rightarrow> string \<Rightarrow> ('w, unit) action" where
  "checkpoint f name =
     (case fd_boundary f of None \<Rightarrow> run_return () | Some boundary \<Rightarrow> outside_try (boundary name))"

definition timeout :: "'w Foundation \<Rightarrow> duration" where
  "timeout f =
     (if fd_StopTimeout f > 0 \<and> fd_StopTimeout f \<le> 2 * minute then fd_StopTimeout f else 2 * minute)"

section \<open>Observations\<close>

definition observe ::
  "'w outside \<Rightarrow> 'w Foundation \<Rightarrow> 'w FoundationTarget \<Rightarrow> ChangeIntent \<Rightarrow> bool \<Rightarrow> ('w, SafetyObservation) action"
where
  "observe ou f tg i offline =
     run_then (run_catch (outside_try (ft_ObserveSafety tg offline))) (\<lambda>r.
     case r of
       Inl err \<Rightarrow> run_raise (NewError ErrPreconditionUnavailable (error_text err))
     | Inr ob \<Rightarrow>
         run_then (record_call (SawSafety offline ob)) (\<lambda>_.
         run_then (now ou) (\<lambda>t.
         run_then (run_result (unless_error (validate_safety (ou_crypto ou) ob (fd_Enrollment f) i t))) (\<lambda>_.
         run_return ob))))"

definition offline ::
  "'w outside \<Rightarrow> 'w Foundation \<Rightarrow> 'w FoundationTarget \<Rightarrow> ChangeIntent \<Rightarrow> Operation \<Rightarrow>
   ('w, BackupReadyEvidence) action"
where
  "offline ou f tg i op =
     (if length (op_Attempts op) < 4 \<or> sa_Attribution (op_Attempts op ! 3) \<noteq> AttributionCorrelated \<or>
         length (sa_Evidence (op_Attempts op ! 3)) \<noteq> 1
      then run_raise (NewError ErrPreconditionUnavailable ''durable stop evidence is absent'')
      else
        run_then (run_result (ec_Unmarshal (fd_codec f) (sa_Evidence (op_Attempts op ! 3) ! 0))) (\<lambda>ready.
        run_then (run_check (se_StepID (br_Stop ready) = sa_StepID (op_Attempts op ! 3))
          (NewError ErrPreconditionUnavailable ''stop step attribution mismatch'')) (\<lambda>_.
        run_then (observe ou f tg i True) (\<lambda>ob.
        let ready = ready\<lparr>br_Offline := ob\<rparr> in
        run_then (now ou) (\<lambda>t.
        run_then (run_result (unless_error
          (validate_ready (ou_crypto ou) ready (fd_Enrollment f) i op t))) (\<lambda>_.
        run_return ready))))))"

text \<open>\<open>unknown\<close> records the uncertainty; it never returns without an error.\<close>

definition unknown ::
  "'w outside \<Rightarrow> Operation \<Rightarrow> StepAttempt \<Rightarrow> string \<Rightarrow> ('w, 'a) action" where
  "unknown ou op a reason =
     run_then (now ou) (\<lambda>t.
     run_then (journal_do ou (\<lambda>ce. RecordStepObservation ce (op_OperationID op) (sa_StepID a)
        EffectUnknown AttributionUnattributed [reason] t)) (\<lambda>_.
     run_raise (NewError ErrDispatchOutcomeUnknown reason)))"

section \<open>Waiting loops\<close>

fun waitMaintenance_loop ::
  "'w outside \<Rightarrow> 'w Foundation \<Rightarrow> 'w FoundationTarget \<Rightarrow> ChangeIntent \<Rightarrow> nat \<Rightarrow> ('w, SafetyObservation) action"
where
  "waitMaintenance_loop ou f tg i ticks =
     run_then (run_catch (observe ou f tg i False)) (\<lambda>r.
     case r of
       Inr ob \<Rightarrow>
         if so_AdmissionClosed ob \<and> so_Maintenance ob \<and> so_Players ob = 0 then run_return ob
         else (case ticks of
                 0 \<Rightarrow> run_then (outside_call (ou_ctx_err ou)) run_raise
               | Suc ticks \<Rightarrow> waitMaintenance_loop ou f tg i ticks)
     | Inl err \<Rightarrow>
         if CodeOf (Some err) = ErrIntentStale then run_raise err
         else (case ticks of
                 0 \<Rightarrow> run_then (outside_call (ou_ctx_err ou)) run_raise
               | Suc ticks \<Rightarrow> waitMaintenance_loop ou f tg i ticks))"

declare waitMaintenance_loop.simps [simp del]

definition waitMaintenance ::
  "'w outside \<Rightarrow> 'w Foundation \<Rightarrow> 'w FoundationTarget \<Rightarrow> ChangeIntent \<Rightarrow> ('w, SafetyObservation) action" where
  "waitMaintenance ou f tg i =
     run_then (outside_call (ou_ticks ou (timeout f))) (waitMaintenance_loop ou f tg i)"

definition same_dispatch :: "StopEvidence \<Rightarrow> StopRequest \<Rightarrow> bool" where
  "same_dispatch e r \<longleftrightarrow> se_OperationID e = sr_OperationID r \<and> se_StepID e = sr_StepID r \<and>
     se_ContainerID e = sr_ContainerID r \<and> se_BootID e = sr_BootID r \<and>
     se_RequestedAt e = sr_RequestedAt r"

fun waitStopped_loop ::
  "'w outside \<Rightarrow> 'w FoundationTarget \<Rightarrow> StopRequest \<Rightarrow> nat \<Rightarrow> ('w, StopEvidence \<times> gar_error option) action"
where
  "waitStopped_loop ou tg r ticks =
     run_then (outside_call (ft_ObserveStop tg r)) (\<lambda>(e, err).
     let poll = (\<lambda>e. case ticks of
             0 \<Rightarrow> run_then (outside_call (ou_ctx_err ou)) (\<lambda>err. run_return (e, Some err))
           | Suc ticks \<Rightarrow> waitStopped_loop ou tg r ticks)
     in if err \<noteq> None then poll e
        else if \<not> same_dispatch e r
        then run_return (e\<lparr>se_State := StopUnknown\<rparr>,
               Some (OtherError ''stop observation belongs to another dispatch or target''))
        else run_then (now ou) (\<lambda>t.
          let e = e\<lparr>se_State := ClassifyStop DispatchPossible e t\<rparr> in
          if se_State e = StopConfirmed \<and> same_dispatch e r then run_return (e, None)
          else if se_State e = StopFailed
          then run_return (e, Some (OtherError ''graceful termination failed; backup forbidden''))
          else if se_State e = StopUnknown
          then run_return (e, Some (OtherError ''stop completion or attribution is unknown''))
          else poll e))"

declare waitStopped_loop.simps [simp del]

definition waitStopped ::
  "'w outside \<Rightarrow> 'w Foundation \<Rightarrow> 'w FoundationTarget \<Rightarrow> StopRequest \<Rightarrow>
   ('w, StopEvidence \<times> gar_error option) action"
where
  "waitStopped ou f tg r =
     run_then (outside_call (ou_ticks ou (timeout f))) (waitStopped_loop ou tg r)"

section \<open>Dispatch of one step\<close>

definition close_admission ::
  "'w outside \<Rightarrow> 'w Foundation \<Rightarrow> 'w FoundationTarget \<Rightarrow> ChangeIntent \<Rightarrow> string \<Rightarrow> Operation \<Rightarrow> StepAttempt \<Rightarrow>
   gotime \<Rightarrow> ('w, step_evidence) action"
where
  "close_admission ou f tg i operationID op a at =
     run_then (record_call (CallCloseAdmission operationID (sa_StepID a))) (\<lambda>_.
     run_then (run_catch (outside_try (ft_CloseAdmission tg operationID (sa_StepID a)))) (\<lambda>r.
     case r of
       Inl err \<Rightarrow> unknown ou op a (error_text err)
     | Inr receipt \<Rightarrow>
         run_then
           (if mr_OperationID receipt \<noteq> operationID \<or> mr_StepID receipt \<noteq> sa_StepID a \<or>
               Before (mr_ClosedAt receipt) at
            then run_return True
            else run_then (now ou) (\<lambda>t. run_return (\<not> FreshEvidence (mr_ClosedAt receipt) t \<or>
                   mr_References receipt = []))) (\<lambda>uncorrelated.
         if uncorrelated
         then unknown ou op a ''maintenance receipt is not correlated''
         else run_then (run_catch (waitMaintenance ou f tg i)) (\<lambda>closed.
           case closed of
             Inl err \<Rightarrow> unknown ou op a (error_text err)
           | Inr ob \<Rightarrow> run_return (MaintenanceEvidence receipt ob)))))"

text \<open>What \<open>Run\<close> does when \<open>waitStopped\<close> returns an error.\<close>

definition stop_failed ::
  "'w outside \<Rightarrow> string \<Rightarrow> Operation \<Rightarrow> StepAttempt \<Rightarrow> StopRequest \<Rightarrow> StopEvidence \<Rightarrow> gar_error \<Rightarrow>
   ('w, 'a) action"
where
  "stop_failed ou operationID op a request stop err =
     (if se_State stop = StopFailed
      then run_then (now ou) (\<lambda>t.
        run_then (journal_do ou (\<lambda>ce. RecordStepObservation ce operationID (sa_StepID a)
          EffectOtherObserved (se_Attribution stop) (se_References stop) t)) (\<lambda>_.
        run_raise (NewError ErrExternalIntervention (error_text err))))
      else run_then
        (if se_ContainerID stop = sr_ContainerID request \<and> se_BootID stop = sr_BootID request \<and>
            se_LifecycleAvailable stop \<and> \<not> se_Running stop
         then run_then (now ou) (\<lambda>t. run_return (FreshEvidence (se_ObservedAt stop) t \<and>
                se_Attribution stop \<noteq> AttributionCorrelated))
         else run_return False) (\<lambda>unattributed.
        if unattributed
        then run_then (now ou) (\<lambda>t.
          run_then (journal_do ou (\<lambda>ce. RecordStepObservation ce operationID (sa_StepID a)
            EffectExpectedObserved AttributionUnattributed (se_References stop) t)) (\<lambda>_.
          run_then (now ou) (\<lambda>t.
          run_then (journal_do ou (\<lambda>ce. MarkUnknown ce operationID t)) (\<lambda>_.
          run_raise (NewError ErrDispatchOutcomeUnknown (error_text err))))))
        else unknown ou op a (error_text err)))"

definition graceful_stop ::
  "'w outside \<Rightarrow> 'w Foundation \<Rightarrow> 'w FoundationTarget \<Rightarrow> ChangeIntent \<Rightarrow> string \<Rightarrow> Operation \<Rightarrow> StepAttempt \<Rightarrow>
   SafetyObservation \<Rightarrow> gotime \<Rightarrow> ('w, step_evidence) action"
where
  "graceful_stop ou f tg i operationID op a before at =
     (let request = \<lparr>sr_OperationID = operationID, sr_StepID = sa_StepID a,
            sr_ContainerID = ci_ContainerID i, sr_BootID = ci_ExpectedBootID i, sr_RequestedAt = at\<rparr>
      in run_then (record_call (CallStop request)) (\<lambda>_.
         run_then (run_catch (outside_try (ft_DispatchGracefulStop tg request))) (\<lambda>r.
         case r of
           Inl err \<Rightarrow> unknown ou op a (error_text err)
         | Inr _ \<Rightarrow>
             run_then (waitStopped ou f tg request) (\<lambda>(stop, err).
             case err of
               Some err \<Rightarrow> stop_failed ou operationID op a request stop err
             | None \<Rightarrow> run_return (ReadyEvidence
                 \<lparr>br_BeforeStop = before, br_Offline = no_observation, br_Stop = stop\<rparr>)))))"

definition backup_request ::
  "'w Foundation \<Rightarrow> ChangeIntent \<Rightarrow> string \<Rightarrow> StepAttempt \<Rightarrow> BackupReadyEvidence \<Rightarrow> gotime \<Rightarrow> BackupRecord" where
  "backup_request f i operationID a ready created =
     \<lparr>bk_EvidenceLevel = evidenceLevel f, bk_BackupID = ci_ReservedBackupID i,
      bk_SchemaVersion = ''gar.backup.v1'', bk_TargetID = en_TargetID (fd_Enrollment f),
      bk_EnrollmentID = ci_EnrollmentID i, bk_DeploymentGeneration = ci_DeploymentGeneration i,
      bk_ContainerIdentity = ci_ContainerID i,
      bk_DataRootIdentity = en_DataRootIdentity (fd_Enrollment f), bk_PaperTuple = ci_PaperTuple i,
      bk_BootIDBeforeStop = ci_ExpectedBootID i, bk_IntentID = ci_IntentID i,
      bk_IntentDigest = ci_IntentDigest i, bk_OperationID = operationID, bk_StepID = sa_StepID a,
      bk_SourceInventoryDigest = ci_InventoryDigest i, bk_SourceConfigDigest = ci_ConfigDigest i,
      bk_SourceArtifacts = [source_artifact i], bk_BackupRecipeID = BackupRecipeID,
      bk_BackupRecipeDigest = ci_BackupRecipeDigest i, bk_CreatedAt = created, bk_CompletedAt = 0,
      bk_ConsistencyMode = ''OFFLINE'', bk_ArchiveSizeBytes = 0, bk_ArchiveSHA256 = '''',
      bk_DigestVerifiedAt = 0, bk_Status = BackupReserved, bk_Ready = ready\<rparr>"

definition create_backup ::
  "'w outside \<Rightarrow> 'w Foundation \<Rightarrow> 'w FoundationTarget \<Rightarrow> 'w OfflineBackup \<Rightarrow> ChangeIntent \<Rightarrow> string \<Rightarrow>
   Operation \<Rightarrow> StepAttempt \<Rightarrow> BackupReadyEvidence \<Rightarrow> ('w, unit) action"
where
  "create_backup ou f tg bu i operationID op a ready =
     run_then (now ou) (\<lambda>t.
     run_then (run_catch (of_Create bu (backup_request f i operationID a ready t)
       (offline ou f tg i op))) (\<lambda>r.
     case r of
       Inr _ \<Rightarrow> run_return ()
     | Inl err \<Rightarrow>
         run_then (run_catch (journal_read ou (GetOperation operationID))) (\<lambda>fresh.
         if (case fresh of Inl _ \<Rightarrow> False
             | Inr fresh \<Rightarrow> length (op_Attempts fresh) = 6 \<and>
                 sa_EffectState (op_Attempts fresh ! 5) = EffectExpectedObserved \<and>
                 sa_Attribution (op_Attempts fresh ! 5) = AttributionCorrelated)
         then run_raise err
         else unknown ou op a (error_text err))))"

section \<open>One step of the workflow\<close>

text \<open>
  The read-only checks come before the dispatch: S01 to S03 look at the running server, S04 and
  S05 at the stopped one, S00 at nothing.
\<close>

datatype step_check =
  NoCheck
| CheckedBefore SafetyObservation
| CheckedReady BackupReadyEvidence

definition check_before ::
  "'w outside \<Rightarrow> 'w Foundation \<Rightarrow> 'w FoundationTarget \<Rightarrow> ChangeIntent \<Rightarrow> nat \<Rightarrow> ('w, SafetyObservation) action"
where
  "check_before ou f tg i n =
     run_then (observe ou f tg i False) (\<lambda>before.
     run_then (run_check (\<not> so_ProcessStopped before)
       (NewError ErrIntentStale
          (''Paper is already stopped without this operation'' @ [CHR 39] @ ''s stop evidence''))) (\<lambda>_.
     run_then (run_check (\<not> (2 \<le> n \<and> so_Players before \<noteq> 0))
       (NewError ErrIntentStale ''players_zero predicate is false'')) (\<lambda>_.
     run_then (run_check (\<not> (n = 3 \<and> (\<not> so_AdmissionClosed before \<or> \<not> so_Maintenance before)))
       (NewError ErrPreconditionUnavailable ''maintenance acknowledgement is unavailable'')) (\<lambda>_.
     run_return before))))"

definition check_step ::
  "'w outside \<Rightarrow> 'w Foundation \<Rightarrow> 'w FoundationTarget \<Rightarrow> ChangeIntent \<Rightarrow> Operation \<Rightarrow> nat \<Rightarrow>
   ('w, step_check) action"
where
  "check_step ou f tg i op n =
     (if 1 \<le> n \<and> n \<le> 3
      then run_then (check_before ou f tg i n) (\<lambda>before. run_return (CheckedBefore before))
      else if 4 \<le> n
      then run_then (offline ou f tg i op) (\<lambda>ready. run_return (CheckedReady ready))
      else run_return NoCheck)"

text \<open>The dispatch of step \<open>n\<close>: its evidence, or \<open>None\<close> when the step is completed elsewhere.\<close>

definition dispatch_step ::
  "'w outside \<Rightarrow> 'w Foundation \<Rightarrow> 'w FoundationTarget \<Rightarrow> 'w OfflineBackup \<Rightarrow> ChangeIntent \<Rightarrow> string \<Rightarrow>
   Operation \<Rightarrow> StepAttempt \<Rightarrow> nat \<Rightarrow> step_check \<Rightarrow> gotime \<Rightarrow> ('w, step_evidence option) action"
where
  "dispatch_step ou f tg bu i operationID op a n checked at =
     (case checked of
        NoCheck \<Rightarrow> run_return (Some (IdentityEvidence (op_OperationID op) (ci_IntentDigest i)
          (op_ExecutionEpoch op)))
      | CheckedBefore before \<Rightarrow>
          if n = 1 then run_return (Some (SafetyEvidence before))
          else if n = 2
          then run_then (close_admission ou f tg i operationID op a at) (\<lambda>ev. run_return (Some ev))
          else run_then (graceful_stop ou f tg i operationID op a before at) (\<lambda>ev. run_return (Some ev))
      | CheckedReady ready \<Rightarrow>
          if n = 4 then run_return (Some (ReadyEvidence ready))
          else run_then (create_backup ou f tg bu i operationID op a ready) (\<lambda>_. run_return None))"

definition complete_step ::
  "'w outside \<Rightarrow> 'w Foundation \<Rightarrow> string \<Rightarrow> Operation \<Rightarrow> StepAttempt \<Rightarrow> step_evidence \<Rightarrow> ('w, unit) action"
where
  "complete_step ou f operationID op a evidence =
     (case ec_Marshal (fd_codec f) evidence of
        Inl err \<Rightarrow> unknown ou op a (error_text err)
      | Inr encoded \<Rightarrow>
          run_then (now ou) (\<lambda>t.
          run_then (journal_do ou (\<lambda>ce. RecordStepObservation ce operationID (sa_StepID a)
            EffectExpectedObserved AttributionCorrelated [encoded] t)) (\<lambda>_.
          checkpoint f (''completed:'' @ sa_StepKind a))))"

definition perform_step ::
  "'w outside \<Rightarrow> 'w Foundation \<Rightarrow> 'w FoundationTarget \<Rightarrow> 'w OfflineBackup \<Rightarrow> ChangeIntent \<Rightarrow> string \<Rightarrow>
   Operation \<Rightarrow> StepAttempt \<Rightarrow> nat \<Rightarrow> ('w, unit) action"
where
  "perform_step ou f tg bu i operationID op a n =
     run_then
       (if n = 3 \<and> op_Status op = OperationPreparing
        then run_then (now ou) (\<lambda>t. journal_do ou (\<lambda>ce. TransitionOperation ce operationID
               OperationExecuting VerificationNotStarted False t))
        else run_return ()) (\<lambda>_.
     run_then (check_step ou f tg i op n) (\<lambda>checked.
     run_then (now ou) (\<lambda>at.
     run_then (journal_do ou (\<lambda>ce. MarkDispatchPossible ce operationID (sa_StepID a) at)) (\<lambda>_.
     run_then (checkpoint f (''dispatch_possible:'' @ sa_StepKind a)) (\<lambda>_.
     run_then (dispatch_step ou f tg bu i operationID op a n checked at) (\<lambda>evidence.
     case evidence of
       None \<Rightarrow> run_return ()
     | Some ev \<Rightarrow> complete_step ou f operationID op a ev))))))"

definition completed_attempt :: "StepAttempt \<Rightarrow> bool" where
  "completed_attempt a \<longleftrightarrow> sa_DispatchState a = Acknowledged \<and>
     sa_EffectState a = EffectExpectedObserved \<and> sa_Attribution a = AttributionCorrelated"

text \<open>What the loop does with the operation as it has just read it.\<close>

definition continue_step ::
  "'w outside \<Rightarrow> 'w Foundation \<Rightarrow> 'w FoundationTarget \<Rightarrow> 'w OfflineBackup \<Rightarrow> ChangeIntent \<Rightarrow> string \<Rightarrow>
   nat \<Rightarrow> Operation \<Rightarrow> ('w, unit) action"
where
  "continue_step ou f tg bu i operationID n op =
     run_then (run_check (\<not> (op_Status op = OperationUnknown \<or> op_Status op = OperationNeedsIntervention))
       (NewError ErrTargetBlockedUnknown ''operation is unresolved'')) (\<lambda>_.
     if n < length (op_Attempts op)
     then let a = op_Attempts op ! n in
       if completed_attempt a then run_return ()
       else if sa_DispatchState a \<noteq> NotDispatched \<or> sa_EffectState a \<noteq> EffectProvenNotApplied
       then unknown ou op a ''interrupted dispatch cannot be repeated''
       else perform_step ou f tg bu i operationID op a n
     else run_then (now ou) (\<lambda>t.
       run_then (journal_tx ou (\<lambda>ce. PrepareStep ce operationID (FixedWorkflowSteps ! n) t)) (\<lambda>a.
       run_then (checkpoint f (''prepared:'' @ sa_StepKind a)) (\<lambda>_.
       perform_step ou f tg bu i operationID op a n))))"

definition run_step ::
  "'w outside \<Rightarrow> 'w Foundation \<Rightarrow> 'w FoundationTarget \<Rightarrow> 'w OfflineBackup \<Rightarrow> ChangeIntent \<Rightarrow> string \<Rightarrow>
   nat \<Rightarrow> ('w, unit) action"
where
  "run_step ou f tg bu i operationID n =
     run_then (journal_read ou (GetOperation operationID)) (continue_step ou f tg bu i operationID n)"

fun run_steps ::
  "'w outside \<Rightarrow> 'w Foundation \<Rightarrow> 'w FoundationTarget \<Rightarrow> 'w OfflineBackup \<Rightarrow> ChangeIntent \<Rightarrow> string \<Rightarrow>
   nat list \<Rightarrow> ('w, unit) action"
where
  "run_steps ou f tg bu i operationID [] = run_return ()"
| "run_steps ou f tg bu i operationID (n # ns) =
     run_then (run_step ou f tg bu i operationID n) (\<lambda>_. run_steps ou f tg bu i operationID ns)"

section \<open>Run\<close>

text \<open>The guards on the operation and its intent that read no clock.\<close>

definition check_admissible ::
  "crypto \<Rightarrow> 'w Foundation \<Rightarrow> Operation \<Rightarrow> IntentRecord \<Rightarrow> unit result" where
  "check_admissible cr f op rec =
     (let i = ir_Intent rec in
      and_then (unless_error (ValidateDigest cr i)) (\<lambda>_.
      and_then (check (op_IntentDigest op = ci_IntentDigest i \<and> ir_Status rec = IntentConsumed \<and>
                       op_EnrollmentID op = en_EnrollmentID (fd_Enrollment f))
        (NewError ErrApprovalRequired ''foundation requires an independently approved exact intent'')) (\<lambda>_.
      and_then (check (ci_Steps i = FixedWorkflowSteps)
        (NewError ErrScopeDenied ''unrecognized workflow'')) (\<lambda>_.
      and_then (check (\<not> op_OwnershipReleased op \<and> (op_Status op = OperationQueued \<or>
                       op_Status op = OperationPreparing \<or> op_Status op = OperationExecuting))
        (NewError ErrTargetBlockedUnknown ''operation cannot continue'')) (\<lambda>_.
      check (0 < ci_ExecutionBudgetSeconds i \<and> ci_ExecutionBudgetSeconds i \<le> 900)
        (NewError ErrInvalidRequest ''foundation requires a bounded approved execution budget''))))))"

definition budget_end :: "ChangeIntent \<Rightarrow> gotime \<Rightarrow> gotime" where
  "budget_end i started = Add started (ci_ExecutionBudgetSeconds i * second)"

definition check_budget :: "'w outside \<Rightarrow> ChangeIntent \<Rightarrow> gotime \<Rightarrow> ('w, unit) action" where
  "check_budget ou i started =
     run_then (now ou) (\<lambda>t.
     run_then (if After started t then run_return True
               else run_then (now ou) (\<lambda>t. run_return (\<not> Before t (budget_end i started)))) (\<lambda>unsafe.
     run_then (run_check (\<not> unsafe)
       (NewError ErrClockUnsafe ''execution budget elapsed or clock moved backwards'')) (\<lambda>_.
     run_then (now ou) (\<lambda>t. outside_call (ou_deadline ou (Sub (budget_end i started) t))))))"

definition check_start :: "'w outside \<Rightarrow> ChangeIntent \<Rightarrow> string \<Rightarrow> ('w, unit) action" where
  "check_start ou i message =
     run_then (now ou) (\<lambda>t. run_check (Before t (ci_StartBefore i)) (NewError ErrApprovalExpired message))"

definition Run :: "'w outside \<Rightarrow> 'w Foundation \<Rightarrow> string \<Rightarrow> ('w, unit) action" where
  "Run ou f operationID =
     (case (fd_Target f, fd_Backup f) of
        (Some tg, Some bu) \<Rightarrow>
          run_then (journal_read ou (GetOperation operationID)) (\<lambda>op.
          run_then (journal_read ou (GetIntent (op_IntentID op))) (\<lambda>rec.
          let i = ir_Intent rec in
          run_then (run_result (check_admissible (ou_crypto ou) f op rec)) (\<lambda>_.
          run_then (now ou) (\<lambda>t.
          run_then (check_budget ou i (if op_Attempts op \<noteq> [] then sa_PreparedAt (op_Attempts op ! 0) else t)) (\<lambda>_.
          run_then (if op_Attempts op = [] \<or> sa_DispatchState (op_Attempts op ! 0) = NotDispatched
                    then check_start ou i ''start deadline elapsed before first durable step''
                    else run_return ()) (\<lambda>_.
          run_then (if op_Status op = OperationQueued
                    then run_then (check_start ou i ''start deadline elapsed'') (\<lambda>_.
                      run_then (now ou) (\<lambda>t. journal_do ou (\<lambda>ce. TransitionOperation ce operationID
                        OperationPreparing VerificationNotStarted False t)))
                    else run_return ()) (\<lambda>_.
          run_then (run_steps ou f tg bu i operationID [0..<6]) (\<lambda>_.
          run_then (of_Inspect bu (ci_ReservedBackupID i)) (\<lambda>_. run_return ())))))))))
      | _ \<Rightarrow> run_raise (NewError ErrPreconditionUnavailable ''foundation adapters are not configured''))"

end
