(* ===== verification/Foundation_Safety.thy ===== *)
theory Foundation_Safety
  imports Foundation_Run
begin

text \<open>
  What the executor may ask of the target. The trace of a run keeps every request to close
  admission and to stop, with the journal at that moment; the invariant \<open>dispatches_ok\<close> says that
  no request is repeated, that each was recorded in the journal before it was made, and that a
  stop was preceded by an observation of an empty server in maintenance.
\<close>

section \<open>The trace invariant\<close>

definition dispatch_keys :: "(target_call \<times> db) list \<Rightarrow> (string \<times> string) list" where
  "dispatch_keys calls = concat (map (\<lambda>(c, d). case c of
      SawSafety b ob \<Rightarrow> []
    | CallCloseAdmission operationID stepID \<Rightarrow> [(operationID, stepID)]
    | CallStop r \<Rightarrow> [(sr_OperationID r, sr_StepID r)]) calls)"

text \<open>The operation stands on this intent.\<close>

definition executes :: "db \<Rightarrow> string \<Rightarrow> ChangeIntent \<Rightarrow> bool" where
  "executes d operationID i \<longleftrightarrow>
     (\<exists>op rec. GetOperation operationID d = Inr op \<and> GetIntent (op_IntentID op) d = Inr rec \<and>
        ir_Intent rec = i)"

definition stop_allowed ::
  "crypto \<Rightarrow> Enrollment \<Rightarrow> (target_call \<times> db) list \<Rightarrow> StopRequest \<Rightarrow> db \<Rightarrow> bool" where
  "stop_allowed cr en earlier r d \<longleftrightarrow>
     (\<exists>i ob t. executes d (sr_OperationID r) i \<and> sr_ContainerID r = ci_ContainerID i \<and>
        sr_BootID r = ci_ExpectedBootID i \<and>
        earlier \<noteq> [] \<and> fst (last earlier) = SawSafety False ob \<and>
        validate_safety cr ob en i t = None \<and> so_Players ob = 0 \<and> so_AdmissionClosed ob \<and>
        so_Maintenance ob \<and> \<not> so_ProcessStopped ob)"

definition call_ok :: "crypto \<Rightarrow> Enrollment \<Rightarrow> (target_call \<times> db) list \<Rightarrow> target_call \<times> db \<Rightarrow> bool" where
  "call_ok cr en earlier c =
     (case fst c of
        SawSafety b ob \<Rightarrow> True
      | CallCloseAdmission operationID stepID \<Rightarrow> dispatched (snd c) operationID stepID
      | CallStop r \<Rightarrow> dispatched (snd c) (sr_OperationID r) (sr_StepID r) \<and>
          stop_allowed cr en earlier r (snd c))"

definition calls_ok :: "crypto \<Rightarrow> Enrollment \<Rightarrow> (target_call \<times> db) list \<Rightarrow> bool" where
  "calls_ok cr en calls \<longleftrightarrow> (\<forall>j < length calls. call_ok cr en (take j calls) (calls ! j))"

definition dispatches_ok :: "crypto \<Rightarrow> Enrollment \<Rightarrow> 'w run \<Rightarrow> bool" where
  "dispatches_ok cr en s \<longleftrightarrow> journal_history cr (rn_db s) \<and> distinct (dispatch_keys (rn_calls s)) \<and>
     (\<forall>(operationID, stepID) \<in> set (dispatch_keys (rn_calls s)). dispatched (rn_db s) operationID stepID) \<and>
     calls_ok cr en (rn_calls s)"

lemma dispatch_keys_append: "dispatch_keys (xs @ ys) = dispatch_keys xs @ dispatch_keys ys"
  by (simp add: dispatch_keys_def)

lemma dispatch_keys_single [simp]:
  "dispatch_keys [] = []"
  "dispatch_keys [(SawSafety b ob, d)] = []"
  "dispatch_keys [(CallCloseAdmission k stepID, d)] = [(k, stepID)]"
  "dispatch_keys [(CallStop r, d)] = [(sr_OperationID r, sr_StepID r)]"
  by (simp_all add: dispatch_keys_def)

lemma calls_ok_snoc [simp]: "calls_ok cr en (cs @ [c]) \<longleftrightarrow> calls_ok cr en cs \<and> call_ok cr en cs c"
  by (auto simp: calls_ok_def nth_append less_Suc_eq)

lemma call_ok_saw [simp]: "call_ok cr en cs (SawSafety b ob, d)"
  by (simp add: call_ok_def)

lemma later_trans: "later cr d d' \<Longrightarrow> later cr d' d'' \<Longrightarrow> later cr d d''"
  by (rotate_tac, induction rule: reachable_by.induct) (auto intro: reachable_by.intros)

lemma history_later: "journal_history cr d \<Longrightarrow> later cr d d' \<Longrightarrow> journal_history cr d'"
  unfolding journal_history_def by (rule later_trans)

lemma stable_dispatches_ok: "stable cr (dispatches_ok cr en :: 'w run \<Rightarrow> bool)"
proof -
  have "dispatches_ok cr en (s\<lparr>rn_db := d\<rparr>)"
    if "dispatches_ok cr en s" "later cr (rn_db s) d" for s :: "'w run" and d
  proof -
    have h: "journal_history cr (rn_db s)" using that(1) by (simp add: dispatches_ok_def)
    have "dispatched d k stepID" if "dispatched (rn_db s) k stepID" for k stepID
      using dispatched_later [OF that \<open>later cr (rn_db s) d\<close> journal_history_ok [OF h]] .
    then show ?thesis
      using that(1) history_later [OF h that(2)] unfolding dispatches_ok_def by auto
  qed
  moreover have "dispatches_ok cr en (s\<lparr>rn_world := w\<rparr>) = dispatches_ok cr en s" for s :: "'w run" and w
    by (simp add: dispatches_ok_def)
  moreover have "dispatches_ok cr en (s\<lparr>rn_calls := rn_calls s @ [(SawSafety b ob, rn_db s)]\<rparr>) =
      dispatches_ok cr en s" for s :: "'w run" and b ob
    by (simp add: dispatches_ok_def dispatch_keys_append)
  moreover have "dispatches_ok cr en s \<Longrightarrow> journal_history cr (rn_db s)" for s :: "'w run"
    by (simp add: dispatches_ok_def)
  ultimately show ?thesis unfolding stable_def durable_def by simp
qed

lemma executes_later:
  assumes "executes d operationID i" "later cr d d'" "journal_ok cr d"
  shows "executes d' operationID i"
proof -
  obtain q r where q: "rows_with or_operation_id operationID (v01_operations d) = Some q"
      "rows_with it_intent_id (op_IntentID (or_payload q)) (v01_intents d) = Some r"
      "ir_Intent (it_payload r) = i"
    using assms(1) by (auto simp: executes_def GetOperation_iff GetIntent_iff)
  obtain q' where q': "rows_with or_operation_id operationID (v01_operations d') = Some q'"
      "operation_kept (or_payload q) (or_payload q')"
    using later_operations [OF assms(2,3)] q(1) unfolding operation_history_def by blast
  obtain r' where r': "rows_with it_intent_id (op_IntentID (or_payload q)) (v01_intents d') = Some r'"
      "ir_Intent (it_payload r') = ir_Intent (it_payload r)"
    using later_intents [OF assms(2,3)] q(2) unfolding intent_history_def by blast
  have "op_IntentID (or_payload q') = op_IntentID (or_payload q)"
    using q'(2) by (simp add: operation_kept_def same_identity_def)
  then show ?thesis
    using q' r' q(3) by (auto simp: executes_def GetOperation_iff GetIntent_iff)
qed

text \<open>The invariant of a run once it has read its operation and intent.\<close>

definition running :: "crypto \<Rightarrow> Enrollment \<Rightarrow> string \<Rightarrow> ChangeIntent \<Rightarrow> 'w run \<Rightarrow> bool" where
  "running cr en operationID i s \<longleftrightarrow> dispatches_ok cr en s \<and> executes (rn_db s) operationID i"

lemma stable_running: "stable cr (running cr en operationID i :: 'w run \<Rightarrow> bool)"
  unfolding running_def
  by (intro stable_conj_db stable_dispatches_ok) (rule executes_later [OF _ _ journal_history_ok])

section \<open>Quiet parts of the executor\<close>

lemma quiet_checkpoint [quiet_rule]: "quiet cr (checkpoint f name)"
  unfolding checkpoint_def by (intro quiet_rule)

lemma triple_checkpoint: "durable cr P \<Longrightarrow> triple P (checkpoint f name) (\<lambda>_. P) P"
  by (auto simp: checkpoint_def intro: triple_outside_try triple_return_pre split: option.split)

lemma quiet_observe [quiet_rule]: "quiet cr (observe ou f tg i stopped)"
  unfolding observe_def by (intro quiet_rule)

lemma quiet_offline [quiet_rule]: "quiet cr (offline ou f tg i op)"
  unfolding offline_def Let_def by (intro quiet_rule)

lemma quiet_unknown [quiet_rule]: "others_commit ou \<Longrightarrow> quiet (ou_crypto ou) (unknown ou op a reason)"
  unfolding unknown_def by (intro quiet_rule)

lemma quiet_waitMaintenance_loop: "quiet cr (waitMaintenance_loop ou f tg i ticks)"
  by (induction ticks) (subst waitMaintenance_loop.simps; simp only: nat.case; intro quiet_rule; assumption)+

lemma quiet_waitStopped_loop: "quiet cr (waitStopped_loop ou tg r ticks)"
  by (induction ticks)
     (subst waitStopped_loop.simps; simp only: nat.case Let_def; intro quiet_rule; assumption)+

lemma quiet_waits [quiet_rule]:
  "quiet cr (waitMaintenance ou f tg i)" "quiet cr (waitStopped ou f tg r)"
  unfolding waitMaintenance_def waitStopped_def
  by (intro quiet_rule quiet_waitMaintenance_loop quiet_waitStopped_loop)+

lemma quiet_stop_failed [quiet_rule]:
  "others_commit ou \<Longrightarrow> quiet (ou_crypto ou) (stop_failed ou operationID op a request stop err)"
  unfolding stop_failed_def by (intro quiet_rule)

lemma quiet_check_step [quiet_rule]: "quiet cr (check_step ou f tg i op n)"
  unfolding check_step_def check_before_def by (intro quiet_rule)

lemma quiet_complete_step [quiet_rule]:
  "others_commit ou \<Longrightarrow> quiet (ou_crypto ou) (complete_step ou f operationID op a ev)"
  unfolding complete_step_def by (intro quiet_rule)

lemma quiet_check_budget [quiet_rule]: "quiet cr (check_budget ou i started)"
  unfolding check_budget_def by (intro quiet_rule)

lemma quiet_check_start [quiet_rule]: "quiet cr (check_start ou i message)"
  unfolding check_start_def by (intro quiet_rule)

section \<open>Dispatching steps\<close>

text \<open>After the mark, and only then, the step may be dispatched: it is on record and not yet done.\<close>

definition cleared :: "crypto \<Rightarrow> Enrollment \<Rightarrow> string \<Rightarrow> ChangeIntent \<Rightarrow> string \<Rightarrow> 'w run \<Rightarrow> bool" where
  "cleared cr en operationID i stepID s \<longleftrightarrow> running cr en operationID i s \<and>
     dispatched (rn_db s) operationID stepID \<and> (operationID, stepID) \<notin> set (dispatch_keys (rn_calls s))"

lemma durable_cleared: "durable cr (cleared cr en operationID i stepID :: 'w run \<Rightarrow> bool)"
proof -
  have "durable cr (\<lambda>s :: 'w run. (running cr en operationID i s \<and> dispatched (rn_db s) operationID stepID) \<and>
      (operationID, stepID) \<notin> set (dispatch_keys (rn_calls s)))"
    by (intro durable_conj_calls durable_conj_db stable_durable stable_running)
       (rule dispatched_later [OF _ _ journal_history_ok])
  then show ?thesis by (simp add: cleared_def [abs_def] conj_assoc)
qed

lemma triple_mark:
  assumes "others_commit ou"
  shows "triple (\<lambda>s. running (ou_crypto ou) en operationID i s \<and> C (rn_calls s))
    (journal_do ou (\<lambda>ce. MarkDispatchPossible ce operationID stepID at))
    (\<lambda>_ s. cleared (ou_crypto ou) en operationID i stepID s \<and> C (rn_calls s))
    (running (ou_crypto ou) en operationID i)"
proof -
  let ?cr = "ou_crypto ou"
  let ?P = "\<lambda>s. running ?cr en operationID i s \<and> C (rn_calls s)"
  have "triple ?P (journal_do ou (\<lambda>ce. MarkDispatchPossible ce operationID stepID at))
    (\<lambda>x s. ?P s \<and> (\<exists>ce d. ce_crypto ce = ?cr \<and> ?P (s\<lparr>rn_db := d\<rparr>) \<and>
       with_unit (MarkDispatchPossible ce operationID stepID at d) = Inr (x, rn_db s))) ?P"
    unfolding journal_do_def
    by (rule triple_journal_tx [OF durable_conj_calls [OF stable_durable [OF stable_running]] assms transactions(2)])
  then show ?thesis
  proof (rule triple_error [OF triple_post])
    fix x and s
    assume s: "?P s \<and> (\<exists>ce d. ce_crypto ce = ?cr \<and> ?P (s\<lparr>rn_db := d\<rparr>) \<and>
       with_unit (MarkDispatchPossible ce operationID stepID at d) = Inr (x, rn_db s))"
    then obtain ce d where d: "?P (s\<lparr>rn_db := d\<rparr>)"
        "MarkDispatchPossible ce operationID stepID at d = Inr (rn_db s)" by auto
    have ok: "journal_ok ?cr d"
      using d(1) journal_history_ok by (auto simp: running_def dispatches_ok_def)
    have "dispatched (rn_db s) operationID stepID"
      using MarkDispatchPossible_leaves [OF d(2) ok] by (simp add: dispatched_def)
    moreover have "\<not> dispatched d operationID stepID"
      using dispatched_not_marked [of d operationID stepID ce at] d(2) by auto
    then have "(operationID, stepID) \<notin> set (dispatch_keys (rn_calls s))"
      using d(1) by (auto simp: running_def dispatches_ok_def)
    ultimately show "cleared ?cr en operationID i stepID s \<and> C (rn_calls s)"
      using s by (simp add: cleared_def)
  qed simp
qed

lemma cleared_record:
  assumes "cleared cr en operationID i stepID s" "call_ok cr en (rn_calls s) (c, rn_db s)"
    "dispatch_keys [(c, rn_db s)] = [(operationID, stepID)]"
  shows "running cr en operationID i (s\<lparr>rn_calls := rn_calls s @ [(c, rn_db s)]\<rparr>)"
  using assms by (simp add: cleared_def running_def dispatches_ok_def dispatch_keys_append)

lemma triple_quiet_after:
  assumes "\<And>s. P s \<Longrightarrow> running cr en operationID i (s\<lparr>rn_calls := rn_calls s @ [(c, rn_db s)]\<rparr>)"
    "\<And>x. quiet cr (m x)"
  shows "triple P (run_then (record_call c) m) (\<lambda>_. running cr en operationID i) (running cr en operationID i)"
proof (rule triple_then)
  show "triple P (record_call c) (\<lambda>_. running cr en operationID i) (running cr en operationID i)"
    using assms(1) by (simp add: triple_def record_call_def)
  show "triple (running cr en operationID i) (m x) (\<lambda>_. running cr en operationID i) (running cr en operationID i)" for x
    by (rule quietD [OF assms(2) stable_running])
qed

lemma triple_close_admission:
  assumes "others_commit ou"
  shows "triple (cleared (ou_crypto ou) en operationID i (sa_StepID a))
    (close_admission ou f tg i operationID op a at)
    (\<lambda>_. running (ou_crypto ou) en operationID i) (running (ou_crypto ou) en operationID i)"
  unfolding close_admission_def
proof (rule triple_quiet_after)
  fix s
  assume c: "cleared (ou_crypto ou) en operationID i (sa_StepID a) s"
  then show "running (ou_crypto ou) en operationID i (s\<lparr>rn_calls := rn_calls s @
      [(CallCloseAdmission operationID (sa_StepID a), rn_db s)]\<rparr>)"
    by (intro cleared_record) (simp_all add: call_ok_def cleared_def)
qed (intro quiet_rule assms)

text \<open>What the last observation before a stop has shown.\<close>

definition saw_empty ::
  "crypto \<Rightarrow> Enrollment \<Rightarrow> ChangeIntent \<Rightarrow> (target_call \<times> db) list \<Rightarrow> bool" where
  "saw_empty cr en i calls \<longleftrightarrow> (\<exists>ob t. calls \<noteq> [] \<and> fst (last calls) = SawSafety False ob \<and>
     validate_safety cr ob en i t = None \<and> so_Players ob = 0 \<and> so_AdmissionClosed ob \<and>
     so_Maintenance ob \<and> \<not> so_ProcessStopped ob)"

lemma triple_graceful_stop:
  assumes "others_commit ou"
  shows "triple (\<lambda>s. cleared (ou_crypto ou) en operationID i (sa_StepID a) s \<and>
      saw_empty (ou_crypto ou) en i (rn_calls s))
    (graceful_stop ou f tg i operationID op a before at)
    (\<lambda>_. running (ou_crypto ou) en operationID i) (running (ou_crypto ou) en operationID i)"
  unfolding graceful_stop_def Let_def
proof (rule triple_quiet_after)
  fix s
  assume c: "cleared (ou_crypto ou) en operationID i (sa_StepID a) s \<and>
      saw_empty (ou_crypto ou) en i (rn_calls s)"
  let ?r = "\<lparr>sr_OperationID = operationID, sr_StepID = sa_StepID a, sr_ContainerID = ci_ContainerID i,
     sr_BootID = ci_ExpectedBootID i, sr_RequestedAt = at\<rparr>"
  have "stop_allowed (ou_crypto ou) en (rn_calls s) ?r (rn_db s)"
    using c unfolding stop_allowed_def saw_empty_def cleared_def running_def by auto
  with c show "running (ou_crypto ou) en operationID i (s\<lparr>rn_calls := rn_calls s @ [(CallStop ?r, rn_db s)]\<rparr>)"
    by (intro cleared_record) (simp_all add: call_ok_def cleared_def)
qed (intro quiet_rule assms)

lemma triple_observe:
  assumes "stable (ou_crypto ou) P"
  shows "triple P (observe ou f tg i stopped)
    (\<lambda>ob s. P s \<and> rn_calls s \<noteq> [] \<and> fst (last (rn_calls s)) = SawSafety stopped ob \<and>
       (\<exists>t. validate_safety (ou_crypto ou) ob (fd_Enrollment f) i t = None)) P"
  using assms
  by (auto simp: triple_def observe_def run_then_def run_catch_def outside_try_def record_call_def
      run_raise_def now_def outside_call_def run_result_def run_return_def stable_def durable_def
      split: prod.splits sum.splits)

lemma triple_check_before:
  assumes "stable (ou_crypto ou) P"
  shows "triple P (check_before ou f tg i n)
    (\<lambda>ob s. P s \<and> (n = 3 \<longrightarrow> saw_empty (ou_crypto ou) (fd_Enrollment f) i (rn_calls s))) P"
  unfolding check_before_def
proof (rule triple_then [OF triple_error [OF triple_observe [OF assms]]], simp)
  fix ob
  show "triple (\<lambda>s. P s \<and> rn_calls s \<noteq> [] \<and> fst (last (rn_calls s)) = SawSafety False ob \<and>
       (\<exists>t. validate_safety (ou_crypto ou) ob (fd_Enrollment f) i t = None))
    (run_then (run_check (\<not> so_ProcessStopped ob) (NewError ErrIntentStale
          (''Paper is already stopped without this operation'' @ [CHR 39] @ ''s stop evidence''))) (\<lambda>_.
     run_then (run_check (\<not> (2 \<le> n \<and> so_Players ob \<noteq> 0))
       (NewError ErrIntentStale ''players_zero predicate is false'')) (\<lambda>_.
     run_then (run_check (\<not> (n = 3 \<and> (\<not> so_AdmissionClosed ob \<or> \<not> so_Maintenance ob)))
       (NewError ErrPreconditionUnavailable ''maintenance acknowledgement is unavailable'')) (\<lambda>_.
     run_return ob))))
    (\<lambda>ob s. P s \<and> (n = 3 \<longrightarrow> saw_empty (ou_crypto ou) (fd_Enrollment f) i (rn_calls s))) P"
    by (simp add: triple_def run_then_def run_check_def run_return_def run_raise_def saw_empty_def)
qed

lemma triple_read:
  assumes "durable (ou_crypto ou) P" "others_commit ou"
  shows "triple P (journal_read ou q) (\<lambda>x s. P s \<and> q (rn_db s) = Inr x) P"
  unfolding journal_read_def
  by (rule triple_post [OF triple_journal_tx [OF assms transaction_read]]) auto

text \<open>Reading an operation and its intent pins both for the rest of the run.\<close>

definition names_intent :: "string \<Rightarrow> string \<Rightarrow> db \<Rightarrow> bool" where
  "names_intent operationID intentID d \<longleftrightarrow>
     (\<exists>op. GetOperation operationID d = Inr op \<and> op_IntentID op = intentID)"

lemma names_intent_later:
  assumes "names_intent operationID intentID d" "journal_history cr d" "later cr d d'"
  shows "names_intent operationID intentID d'"
proof -
  obtain q where q: "rows_with or_operation_id operationID (v01_operations d) = Some q"
      "op_IntentID (or_payload q) = intentID"
    using assms(1) by (auto simp: names_intent_def GetOperation_iff)
  obtain q' where "rows_with or_operation_id operationID (v01_operations d') = Some q'"
      "operation_kept (or_payload q) (or_payload q')"
    using later_operations [OF assms(3) journal_history_ok [OF assms(2)]] q(1)
    unfolding operation_history_def by blast
  then show ?thesis
    using q(2) by (auto simp: names_intent_def GetOperation_iff operation_kept_def same_identity_def)
qed

lemma triple_read_both:
  assumes "others_commit ou"
    "\<And>op rec. triple (running (ou_crypto ou) en operationID (ir_Intent rec)) (m op rec) Q (dispatches_ok (ou_crypto ou) en)"
  shows "triple (dispatches_ok (ou_crypto ou) en)
    (run_then (journal_read ou (GetOperation operationID)) (\<lambda>op.
     run_then (journal_read ou (GetIntent (op_IntentID op))) (m op))) Q (dispatches_ok (ou_crypto ou) en)"
proof (rule triple_then [OF triple_read [OF stable_durable [OF stable_dispatches_ok] assms(1)]])
  fix op :: Operation
  let ?P = "\<lambda>s. dispatches_ok (ou_crypto ou) en s \<and> names_intent operationID (op_IntentID op) (rn_db s)"
  have durable: "durable (ou_crypto ou) ?P"
    by (intro durable_conj_db stable_durable stable_dispatches_ok) (rule names_intent_later)
  have "triple ?P (run_then (journal_read ou (GetIntent (op_IntentID op))) (m op)) Q (dispatches_ok (ou_crypto ou) en)"
  proof (rule triple_then)
    show "triple ?P (journal_read ou (GetIntent (op_IntentID op)))
        (\<lambda>rec s. ?P s \<and> GetIntent (op_IntentID op) (rn_db s) = Inr rec) (dispatches_ok (ou_crypto ou) en)"
      by (rule triple_error [OF triple_read [OF durable assms(1)]]) simp
    show "triple (\<lambda>s. ?P s \<and> GetIntent (op_IntentID op) (rn_db s) = Inr rec) (m op rec) Q
        (dispatches_ok (ou_crypto ou) en)" for rec
      by (rule triple_pre [OF assms(2)]) (auto simp: running_def executes_def names_intent_def)
  qed
  then show "triple (\<lambda>s. dispatches_ok (ou_crypto ou) en s \<and> GetOperation operationID (rn_db s) = Inr op)
      (run_then (journal_read ou (GetIntent (op_IntentID op))) (m op)) Q (dispatches_ok (ou_crypto ou) en)"
    by (rule triple_pre) (auto simp: names_intent_def)
qed

section \<open>The executor over any archive engine\<close>

text \<open>
  What the executor relies on: an engine commits nothing but transactions of the journal and asks
  the target for nothing but what the revalidation it is given asks for.
\<close>

locale archive_engine =
  fixes engine :: "'w outside \<Rightarrow> 'w OfflineBackup"
  assumes create_quiet: "others_commit ou \<Longrightarrow> quiet (ou_crypto ou) revalidate \<Longrightarrow>
      quiet (ou_crypto ou) (of_Create (engine ou) bk revalidate)"
    and inspect_quiet: "others_commit ou \<Longrightarrow> quiet (ou_crypto ou) (of_Inspect (engine ou) backupID)"
begin

lemma quiet_create_backup:
  "others_commit ou \<Longrightarrow>
   quiet (ou_crypto ou) (create_backup ou f tg (engine ou) i operationID op a ready)"
  unfolding create_backup_def by (intro quiet_rule create_quiet)

lemma dispatch_step_keeps:
  assumes "others_commit ou" "checked = NoCheck \<or> (\<exists>ready. checked = CheckedReady ready) \<or>
      (\<exists>before. checked = CheckedBefore before \<and> (n = 1 \<or> n = 2 \<or> n = 3))"
  shows "triple (\<lambda>s. cleared (ou_crypto ou) en operationID i (sa_StepID a) s \<and>
      (n = 3 \<longrightarrow> saw_empty (ou_crypto ou) en i (rn_calls s)))
    (dispatch_step ou f tg (engine ou) i operationID op a n checked at)
    (\<lambda>_. running (ou_crypto ou) en operationID i) (running (ou_crypto ou) en operationID i)"
proof -
  let ?I = "running (ou_crypto ou) en operationID i"
  let ?P = "\<lambda>s. cleared (ou_crypto ou) en operationID i (sa_StepID a) s \<and>
      (n = 3 \<longrightarrow> saw_empty (ou_crypto ou) en i (rn_calls s))"
  have weak: "triple ?P m (\<lambda>_. ?I) ?I" if "quiet (ou_crypto ou) m" for m :: "('w, step_evidence option) action"
    by (rule triple_pre [OF quietD [OF that stable_running]]) (simp add: cleared_def)
  have some: "triple ?P (run_then m (\<lambda>ev. run_return (Some ev))) (\<lambda>_. ?I) ?I"
    if "triple ?P m (\<lambda>_. ?I) ?I" for m :: "('w, step_evidence) action"
    by (rule triple_then [OF that]) (rule triple_return)
  from assms(2) consider "checked = NoCheck" | ready where "checked = CheckedReady ready"
    | before where "checked = CheckedBefore before" "n = 1"
    | before where "checked = CheckedBefore before" "n = 2"
    | before where "checked = CheckedBefore before" "n = 3" by blast
  then show ?thesis
  proof cases
    case 4
    then show ?thesis
      unfolding dispatch_step_def
      by (simp, intro some [simplified \<open>n = 2\<close>, simplified] triple_close_admission assms(1))
  next
    case (5 before)
    then show ?thesis
      unfolding dispatch_step_def
      by (simp, intro some [simplified \<open>n = 3\<close>, simplified] triple_graceful_stop assms(1))
  qed (rule weak, simp only: dispatch_step_def step_check.case if_True simp_thms,
       intro quiet_rule quiet_create_backup assms(1))+
qed

lemma perform_step_keeps:
  assumes "others_commit ou" "n < 6"
  shows "triple (running (ou_crypto ou) (fd_Enrollment f) operationID i)
    (perform_step ou f tg (engine ou) i operationID op a n)
    (\<lambda>_. running (ou_crypto ou) (fd_Enrollment f) operationID i)
    (running (ou_crypto ou) (fd_Enrollment f) operationID i)"
proof -
  let ?cr = "ou_crypto ou"
  let ?I = "running ?cr (fd_Enrollment f) operationID i :: 'w run \<Rightarrow> bool"
  let ?C = "\<lambda>calls. n = 3 \<longrightarrow> saw_empty ?cr (fd_Enrollment f) i calls"
  let ?ok = "\<lambda>checked. checked = NoCheck \<or> (\<exists>ready. checked = CheckedReady ready) \<or>
      (\<exists>before. checked = CheckedBefore before \<and> (n = 1 \<or> n = 2 \<or> n = 3))"
  have check: "triple ?I (check_step ou f tg i op n) (\<lambda>checked s. (?I s \<and> ?C (rn_calls s)) \<and> ?ok checked) ?I"
    unfolding check_step_def
  proof (intro triple_if)
    assume "1 \<le> n \<and> n \<le> 3"
    then have n: "n = 1 \<or> n = 2 \<or> n = 3" by linarith
    show "triple ?I (run_then (check_before ou f tg i n) (\<lambda>before. run_return (CheckedBefore before)))
        (\<lambda>checked s. (?I s \<and> ?C (rn_calls s)) \<and> ?ok checked) ?I"
      using n by (intro triple_then [OF triple_check_before [OF stable_running]] triple_return_pre) simp
  next
    assume "4 \<le> n"
    then show "triple ?I (run_then (offline ou f tg i op) (\<lambda>ready. run_return (CheckedReady ready)))
        (\<lambda>checked s. (?I s \<and> ?C (rn_calls s)) \<and> ?ok checked) ?I"
      by (intro triple_then [OF quietD [OF quiet_offline stable_running]] triple_return_pre) simp
  qed (intro triple_return_pre, simp)
  have "triple (\<lambda>s. (?I s \<and> ?C (rn_calls s)) \<and> ?ok checked)
     (run_then (now ou) (\<lambda>at.
      run_then (journal_do ou (\<lambda>ce. MarkDispatchPossible ce operationID (sa_StepID a) at)) (\<lambda>_.
      run_then (checkpoint f (''dispatch_possible:'' @ sa_StepKind a)) (\<lambda>_.
      run_then (dispatch_step ou f tg (engine ou) i operationID op a n checked at) (\<lambda>evidence.
      case evidence of None \<Rightarrow> run_return () | Some ev \<Rightarrow> complete_step ou f operationID op a ev)))))
     (\<lambda>_. ?I) ?I" for checked
  proof (rule triple_assume [of _ "?ok checked"], simp, rule triple_then [where Q = "\<lambda>_ s. ?I s \<and> ?C (rn_calls s)"])
    show "triple (\<lambda>s. (?I s \<and> ?C (rn_calls s)) \<and> ?ok checked) (now ou) (\<lambda>_ s. ?I s \<and> ?C (rn_calls s)) ?I"
      by (rule triple_pre [OF triple_error [OF triple_now
            [OF durable_conj_calls [OF stable_durable [OF stable_running]]]]]) auto
  next
    fix at
    assume ok: "?ok checked"
    let ?K = "\<lambda>s. cleared ?cr (fd_Enrollment f) operationID i (sa_StepID a) s \<and> ?C (rn_calls s)"
    have durable: "durable ?cr ?K" by (rule durable_conj_calls [OF durable_cleared])
    have "triple ?K (checkpoint f name) (\<lambda>_. ?K) ?I" for name
      by (rule triple_error [OF triple_checkpoint [OF durable]]) (simp add: cleared_def)
    moreover have "triple ?I (case ev of None \<Rightarrow> run_return () | Some ev \<Rightarrow> complete_step ou f operationID op a ev)
        (\<lambda>_. ?I) ?I" for ev
      by (rule quietD [OF _ stable_running]) (intro quiet_rule assms(1))
    ultimately show "triple (\<lambda>s. ?I s \<and> ?C (rn_calls s))
     (run_then (journal_do ou (\<lambda>ce. MarkDispatchPossible ce operationID (sa_StepID a) at)) (\<lambda>_.
      run_then (checkpoint f (''dispatch_possible:'' @ sa_StepKind a)) (\<lambda>_.
      run_then (dispatch_step ou f tg (engine ou) i operationID op a n checked at) (\<lambda>evidence.
      case evidence of None \<Rightarrow> run_return () | Some ev \<Rightarrow> complete_step ou f operationID op a ev))))
     (\<lambda>_. ?I) ?I"
      by (intro triple_then [OF triple_mark [OF assms(1)]] triple_then [OF dispatch_step_keeps [OF assms(1) ok]]
          triple_then [where Q = "\<lambda>_. ?K"])
  qed
  moreover have "triple ?I (if n = 3 \<and> op_Status op = OperationPreparing
        then run_then (now ou) (\<lambda>t. journal_do ou (\<lambda>ce. TransitionOperation ce operationID
               OperationExecuting VerificationNotStarted False t))
        else run_return ()) (\<lambda>_. ?I) ?I"
    by (rule quietD [OF _ stable_running]) (intro quiet_rule assms(1))
  ultimately show ?thesis
    unfolding perform_step_def by (intro triple_then [OF _ triple_then [OF check]])
qed

lemma run_step_keeps:
  assumes "others_commit ou" "n < 6"
  shows "triple (running (ou_crypto ou) (fd_Enrollment f) operationID i)
    (run_step ou f tg (engine ou) i operationID n)
    (\<lambda>_. running (ou_crypto ou) (fd_Enrollment f) operationID i)
    (running (ou_crypto ou) (fd_Enrollment f) operationID i)"
proof -
  note quiet_keeps = quietD [OF _ stable_running, of "ou_crypto ou"]
  show ?thesis
    unfolding run_step_def continue_step_def Let_def
    by (intro triple_keep triple_if quiet_keeps perform_step_keeps
        quiet_rule assms)
qed

lemma run_steps_keeps:
  assumes "others_commit ou" "\<forall>n \<in> set ns. n < 6"
  shows "triple (running (ou_crypto ou) (fd_Enrollment f) operationID i)
    (run_steps ou f tg (engine ou) i operationID ns)
    (\<lambda>_. running (ou_crypto ou) (fd_Enrollment f) operationID i)
    (running (ou_crypto ou) (fd_Enrollment f) operationID i)"
  using assms(2)
proof (induction ns)
  case (Cons n ns)
  then show ?case
    by (simp, intro triple_then [OF run_step_keeps [OF assms(1)]]) simp_all
qed (simp add: triple_return_pre)

lemma run_keeps:
  assumes "others_commit ou" "fd_Backup f = Some (engine ou)"
  shows "triple (dispatches_ok (ou_crypto ou) (fd_Enrollment f)) (Run ou f operationID)
    (\<lambda>_. dispatches_ok (ou_crypto ou) (fd_Enrollment f)) (dispatches_ok (ou_crypto ou) (fd_Enrollment f))"
proof (cases "fd_Target f")
  case None
  then show ?thesis by (simp add: Run_def triple_raise)
next
  case (Some tg)
  let ?D = "dispatches_ok (ou_crypto ou) (fd_Enrollment f) :: 'w run \<Rightarrow> bool"
  let ?I = "running (ou_crypto ou) (fd_Enrollment f) operationID :: ChangeIntent \<Rightarrow> 'w run \<Rightarrow> bool"
  have final: "triple (?I i) m (\<lambda>_. ?D) ?D" if "triple (?I i) m (\<lambda>_. ?I i) (?I i)" for i and m :: "('w, unit) action"
    by (rule triple_error [OF triple_post [OF that]]) (simp_all add: running_def)
  note quiet_keeps = quietD [OF _ stable_running, of "ou_crypto ou"]
  show ?thesis
    unfolding Run_def Let_def
    by (simp only: Some assms(2) prod.case option.case,
        intro triple_read_both [OF assms(1)] final triple_keep run_steps_keeps [OF assms(1)]
          quiet_keeps inspect_quiet quiet_rule assms(1))
       simp
qed

end

end
