(* ===== verification/Backup_Engine.thy ===== *)
theory Backup_Engine
  imports Foundation_Safety Go_Text
begin

text \<open>
  The archive engine, \<open>src/internal/backup/offline.go\<close>: it revalidates that the server is
  offline, reserves the backup in the journal, writes a bounded tar archive of the data root,
  renames it into place, rereads it, revalidates again and only then completes the backup.

  The operating system is the record \<open>filesystem\<close> of the calls the code makes; a descriptor is a
  number. \<open>fs.WalkDir\<close> visits the tree of names that \<open>fs_Tree\<close> returns, while the status and the
  bytes of every file are read when it is visited. \<open>fs_Header\<close> is the block that \<open>archive/tar\<close>
  writes for an entry; its padding and its trailer are written out here. Deferred closes are not
  modelled.
\<close>

section \<open>The operating system\<close>

datatype file_kind = RegularFile | DirectoryFile | OtherFile

record file_info =
  fi_kind :: file_kind
  fi_dev :: nat
  fi_ino :: nat
  fi_nlink :: nat
  fi_size :: int
  fi_mtime :: gotime

definition SameFile :: "file_info \<Rightarrow> file_info \<Rightarrow> bool" where
  "SameFile a b \<longleftrightarrow> fi_dev a = fi_dev b \<and> fi_ino a = fi_ino b"

datatype tree_node = FileNode string | DirNode string "tree_node list" "gar_error option"

record 'w filesystem =
  fs_OpenRoot :: "string \<Rightarrow> 'w \<Rightarrow> unit result \<times> 'w"
  fs_StatRoot :: "string \<Rightarrow> 'w \<Rightarrow> file_info result \<times> 'w"
  fs_Lstat :: "string \<Rightarrow> string \<Rightarrow> 'w \<Rightarrow> file_info option result \<times> 'w"
  fs_OpenFile :: "string \<Rightarrow> string \<Rightarrow> 'w \<Rightarrow> nat result \<times> 'w"
  fs_OpenHost :: "string \<Rightarrow> 'w \<Rightarrow> nat result \<times> 'w"
  fs_Fstat :: "nat \<Rightarrow> 'w \<Rightarrow> file_info result \<times> 'w"
  fs_Read :: "nat \<Rightarrow> int \<Rightarrow> 'w \<Rightarrow> (nat list list \<times> gar_error option) \<times> 'w"
  fs_CreateExcl :: "string \<Rightarrow> string \<Rightarrow> 'w \<Rightarrow> nat result \<times> 'w"
  fs_Write :: "nat \<Rightarrow> nat list \<Rightarrow> 'w \<Rightarrow> unit result \<times> 'w"
  fs_Sync :: "nat \<Rightarrow> 'w \<Rightarrow> unit result \<times> 'w"
  fs_Close :: "nat \<Rightarrow> 'w \<Rightarrow> unit result \<times> 'w"
  fs_OpenDir :: "string \<Rightarrow> 'w \<Rightarrow> nat result \<times> 'w"
  fs_RenameNoReplace :: "nat \<Rightarrow> string \<Rightarrow> string \<Rightarrow> 'w \<Rightarrow> unit result \<times> 'w"
  fs_Tree :: "string \<Rightarrow> 'w \<Rightarrow> tree_node list result \<times> 'w"
  fs_CtxErr :: "'w \<Rightarrow> gar_error option \<times> 'w"
  fs_Checkpoint :: "string \<Rightarrow> 'w \<Rightarrow> unit result \<times> 'w"
  fs_Header :: "string \<Rightarrow> file_info \<Rightarrow> nat list result"
  fs_valid_utf8 :: "string \<Rightarrow> bool"

record Config =
  cf_DataRoot :: string
  cf_Destination :: string
  cf_SourceArtifactPath :: string
  cf_SourceArtifactFile :: string
  cf_Enrollment :: Enrollment
  cf_MaxBytes :: int
  cf_MaxFiles :: int

record Engine =
  eg_config :: Config
  eg_destinationIdentity :: file_info

section \<open>Names\<close>

definition ValidPath :: "(string \<Rightarrow> bool) \<Rightarrow> string \<Rightarrow> bool" where
  "ValidPath valid_utf8 name \<longleftrightarrow> valid_utf8 name \<and>
     (name = ''.'' \<or> (\<forall>elem \<in> set (split_on CHR ''/'' name). elem \<noteq> '''' \<and> elem \<noteq> ''.'' \<and> elem \<noteq> ''..''))"

definition archiveName :: "string \<Rightarrow> string result" where
  "archiveName backupID =
     (if backupID = '''' \<or> 128 < length backupID then Inl (OtherError ''invalid backup ID'')
      else if \<exists>c \<in> set backupID. \<not> (ascii_letter c \<or> ascii_digit c \<or> c = CHR ''-'' \<or> c = CHR ''_'')
      then Inl (OtherError ''invalid backup ID'')
      else Inr (backupID @ ''.tar''))"

definition excluded_tops :: "string list" where
  "excluded_tops = [''logs'', ''cache'', ''temporary-sockets'']"

definition excluded :: "string \<Rightarrow> bool" where
  "excluded name \<longleftrightarrow> split_on CHR ''/'' name ! 0 \<in> set excluded_tops"

definition under_artifact :: "Config \<Rightarrow> string \<Rightarrow> bool" where
  "under_artifact cf name \<longleftrightarrow> cf_SourceArtifactFile cf \<noteq> '''' \<and>
     (name = cf_SourceArtifactPath cf \<or>
      take (length (cf_SourceArtifactPath cf) + 1) name = cf_SourceArtifactPath cf @ ''/'')"

section \<open>Writing the archive\<close>

record archive_state =
  as_count :: int
  as_written :: "nat list"
  as_remaining :: int
  as_padding :: nat
  as_names :: "string list"

definition boundedWrite ::
  "'w filesystem \<Rightarrow> nat \<Rightarrow> nat list \<Rightarrow> archive_state \<Rightarrow> ('w, archive_state) action" where
  "boundedWrite fs file p st =
     run_then (run_check (int (length p) \<le> as_remaining st)
       (OtherError ''archive size limit exceeded'')) (\<lambda>_.
     run_then (outside_try (fs_Write fs file p)) (\<lambda>_.
     run_return (st\<lparr>as_written := as_written st @ p, as_remaining := as_remaining st - int (length p)\<rparr>)))"

definition flush_padding :: "'w filesystem \<Rightarrow> nat \<Rightarrow> archive_state \<Rightarrow> ('w, archive_state) action" where
  "flush_padding fs file st =
     run_then (boundedWrite fs file (replicate (as_padding st) 0) st) (\<lambda>st.
     run_return (st\<lparr>as_padding := 0\<rparr>))"

definition write_header ::
  "'w filesystem \<Rightarrow> nat \<Rightarrow> string \<Rightarrow> file_info \<Rightarrow> archive_state \<Rightarrow> ('w, archive_state) action" where
  "write_header fs file name info st =
     run_then (run_result (fs_Header fs name info)) (\<lambda>header.
     run_then (flush_padding fs file st) (\<lambda>st.
     run_then (boundedWrite fs file header st) (\<lambda>st.
     run_return (st\<lparr>as_padding := nat ((- fi_size info) mod 512) * (if fi_kind info = RegularFile then 1 else 0),
                   as_names := as_names st @ [name]\<rparr>))))"

fun write_chunks ::
  "'w filesystem \<Rightarrow> nat \<Rightarrow> nat list list \<Rightarrow> archive_state \<Rightarrow> ('w, archive_state) action" where
  "write_chunks fs file [] st = run_return st"
| "write_chunks fs file (p # ps) st =
     run_then (boundedWrite fs file p st) (write_chunks fs file ps)"

definition copyN ::
  "'w filesystem \<Rightarrow> nat \<Rightarrow> nat \<Rightarrow> int \<Rightarrow> archive_state \<Rightarrow> ('w, archive_state) action" where
  "copyN fs file source n st =
     run_then (outside_call (fs_Read fs source n)) (\<lambda>(chunks, err).
     run_then (write_chunks fs file chunks st) (\<lambda>st.
     if int (length (concat chunks)) = n then run_return st
     else run_raise (case err of Some e \<Rightarrow> e | None \<Rightarrow> OtherError ''EOF'')))"

definition ctx_alive :: "'w filesystem \<Rightarrow> ('w, unit) action" where
  "ctx_alive fs =
     run_then (outside_call (fs_CtxErr fs)) (\<lambda>err.
     case err of Some e \<Rightarrow> run_raise e | None \<Rightarrow> run_return ())"

text \<open>The regular-file branch of the callback.\<close>

definition archive_file ::
  "'w filesystem \<Rightarrow> Config \<Rightarrow> nat \<Rightarrow> string \<Rightarrow> file_info \<Rightarrow> archive_state \<Rightarrow> ('w, archive_state) action" where
  "archive_file fs cf file name info st =
     run_then (outside_try (fs_OpenFile fs (cf_DataRoot cf) name)) (\<lambda>f.
     run_then (outside_try (fs_Fstat fs f)) (\<lambda>before.
     run_then (run_check (fi_kind before = RegularFile \<and> SameFile info before \<and> fi_nlink before = 1)
       (OtherError ''archive source is linked or changed'')) (\<lambda>_.
     run_then (write_header fs file name before st) (\<lambda>st.
     run_then (copyN fs file f (fi_size before) st) (\<lambda>st.
     run_then (outside_try (fs_Fstat fs f)) (\<lambda>after.
     run_then (run_check (fi_size before = fi_size after \<and> fi_mtime before = fi_mtime after)
       (OtherError ''offline source changed during backup'')) (\<lambda>_.
     run_return st)))))))"

text \<open>The callback of \<open>WalkDir\<close>; the flag says \<open>fs.SkipDir\<close>.\<close>

definition visit ::
  "'w filesystem \<Rightarrow> Config \<Rightarrow> nat \<Rightarrow> string \<Rightarrow> bool \<Rightarrow> archive_state \<Rightarrow> ('w, bool \<times> archive_state) action" where
  "visit fs cf file name is_dir st =
     run_then (ctx_alive fs) (\<lambda>_.
     run_then (run_check (ValidPath (fs_valid_utf8 fs) name \<and> take 1 name \<noteq> ''/'' \<and>
         CHR 0x5C \<notin> set name) (OtherError ''unsafe archive path'')) (\<lambda>_.
     if under_artifact cf name then run_return (is_dir, st)
     else if excluded name then run_return (is_dir, st)
     else let st = st\<lparr>as_count := as_count st + 1\<rparr> in
       run_then (run_check (as_count st \<le> cf_MaxFiles cf)
         (OtherError ''archive file count limit exceeded'')) (\<lambda>_.
       run_then (outside_try (fs_Lstat fs (cf_DataRoot cf) name)) (\<lambda>found.
       case found of
         None \<Rightarrow> run_raise (OtherError ''no such file or directory'')
       | Some info \<Rightarrow>
           if fi_kind info = DirectoryFile
           then run_then (write_header fs file (name @ ''/'') info st) (\<lambda>st. run_return (False, st))
           else if fi_kind info \<noteq> RegularFile
           then run_raise (OtherError ''archive rejects symlinks, sockets and special files'')
           else run_then (archive_file fs cf file name info st) (\<lambda>st. run_return (False, st))))))"

definition join :: "string \<Rightarrow> string \<Rightarrow> string" where
  "join dir name = (if dir = '''' then name else dir @ ''/'' @ name)"

fun walk :: "'w filesystem \<Rightarrow> Config \<Rightarrow> nat \<Rightarrow> string \<Rightarrow> tree_node \<Rightarrow> archive_state \<Rightarrow> ('w, archive_state) action"
  and walk_all :: "'w filesystem \<Rightarrow> Config \<Rightarrow> nat \<Rightarrow> string \<Rightarrow> tree_node list \<Rightarrow> archive_state \<Rightarrow> ('w, archive_state) action"
where
  "walk fs cf file dir (FileNode name) st =
     run_then (visit fs cf file (join dir name) False st) (\<lambda>(_, st). run_return st)"
| "walk fs cf file dir (DirNode name children err) st =
     run_then (visit fs cf file (join dir name) True st) (\<lambda>(skip, st).
     if skip then run_return st
     else case err of
         Some e \<Rightarrow> run_raise e
       | None \<Rightarrow> walk_all fs cf file (join dir name) children st)"
| "walk_all fs cf file dir [] st = run_return st"
| "walk_all fs cf file dir (node # nodes) st =
     run_then (walk fs cf file dir node st) (walk_all fs cf file dir nodes)"

definition openNoFollowRegular :: "'w filesystem \<Rightarrow> string \<Rightarrow> ('w, nat) action" where
  "openNoFollowRegular fs name =
     run_then (outside_try (fs_OpenHost fs name)) (\<lambda>f.
     run_then (run_catch (outside_try (fs_Fstat fs f))) (\<lambda>info.
     run_then (run_check (case info of Inl _ \<Rightarrow> False | Inr info \<Rightarrow> fi_kind info = RegularFile)
       (OtherError ''source artifact is not a regular file'')) (\<lambda>_.
     run_return f)))"

definition archiveMountedArtifact ::
  "'w filesystem \<Rightarrow> Config \<Rightarrow> nat \<Rightarrow> string \<Rightarrow> archive_state \<Rightarrow> ('w, archive_state) action" where
  "archiveMountedArtifact fs cf file name st =
     run_then (openNoFollowRegular fs (cf_SourceArtifactFile cf)) (\<lambda>f.
     run_then (outside_try (fs_Fstat fs f)) (\<lambda>before.
     run_then (run_check (fi_nlink before = 1)
       (OtherError ''mounted source artifact has unsafe link count'')) (\<lambda>_.
     run_then (write_header fs file name before st) (\<lambda>st.
     run_then (copyN fs file f (fi_size before) st) (\<lambda>st.
     run_then (run_catch (outside_try (fs_Fstat fs f))) (\<lambda>after.
     run_then (run_check (case after of Inl _ \<Rightarrow> False
         | Inr after \<Rightarrow> SameFile before after \<and> fi_size before = fi_size after \<and>
             fi_mtime before = fi_mtime after)
       (OtherError ''mounted source artifact changed during backup'')) (\<lambda>_.
     run_return st)))))))"

definition archive :: "'w filesystem \<Rightarrow> Config \<Rightarrow> nat \<Rightarrow> archive_state \<Rightarrow> ('w, archive_state) action" where
  "archive fs cf file st =
     run_then (outside_try (fs_Tree fs (cf_DataRoot cf))) (\<lambda>nodes.
     run_then (ctx_alive fs) (\<lambda>_.
     run_then (walk_all fs cf file '''' nodes st) (\<lambda>st.
     run_then
       (if cf_SourceArtifactFile cf \<noteq> ''''
        then let st = st\<lparr>as_count := as_count st + 1\<rparr> in
          run_then (run_check (as_count st \<le> cf_MaxFiles cf)
            (OtherError ''archive file count limit exceeded'')) (\<lambda>_.
          archiveMountedArtifact fs cf file (cf_SourceArtifactPath cf) st)
        else run_return st) (\<lambda>st.
     run_then (flush_padding fs file st) (\<lambda>st.
     boundedWrite fs file (replicate 1024 0) st)))))"

section \<open>Reading back\<close>

definition read_digest ::
  "crypto \<Rightarrow> 'w filesystem \<Rightarrow> nat \<Rightarrow> int \<Rightarrow> ('w, (nat list \<times> gar_error option)) action" where
  "read_digest cr fs f limit =
     run_then (outside_call (fs_Read fs f (limit + 1))) (\<lambda>(chunks, err).
     run_return (concat chunks, err))"

definition verifyFile ::
  "crypto \<Rightarrow> 'w filesystem \<Rightarrow> nat \<Rightarrow> int \<Rightarrow> ('w, string \<times> int) action" where
  "verifyFile cr fs f limit =
     run_then (outside_try (fs_Fstat fs f)) (\<lambda>info.
     run_then (run_check (\<not> (fi_kind info \<noteq> RegularFile \<or> fi_size info < 1 \<or> fi_size info > limit))
       (OtherError ''invalid source artifact file'')) (\<lambda>_.
     run_then (read_digest cr fs f limit) (\<lambda>(bytes, err).
     run_then (run_check (err = None \<and> int (length bytes) = fi_size info)
       (OtherError ''source artifact changed during verification'')) (\<lambda>_.
     run_return (hex_encode (sum256 cr bytes), int (length bytes))))))"

definition verify ::
  "crypto \<Rightarrow> 'w filesystem \<Rightarrow> string \<Rightarrow> string \<Rightarrow> int \<Rightarrow> ('w, string \<times> int) action" where
  "verify cr fs root name limit =
     run_then (outside_try (fs_OpenFile fs root name)) (\<lambda>f.
     run_then (outside_try (fs_Fstat fs f)) (\<lambda>info.
     run_then (run_check (\<not> (fi_kind info \<noteq> RegularFile \<or> fi_size info > limit))
       (OtherError ''invalid archive file'')) (\<lambda>_.
     run_then (read_digest cr fs f limit) (\<lambda>(bytes, err).
     case err of
       Some e \<Rightarrow> run_raise e
     | None \<Rightarrow>
         run_then (run_check (int (length bytes) = fi_size info)
           (OtherError ''archive changed during verification'')) (\<lambda>_.
         run_return (hex_encode (sum256 cr bytes), int (length bytes)))))))"

definition verifySourceArtifact :: "crypto \<Rightarrow> 'w filesystem \<Rightarrow> Config \<Rightarrow> ('w, string \<times> int) action" where
  "verifySourceArtifact cr fs cf =
     (if cf_SourceArtifactFile cf = ''''
      then verify cr fs (cf_DataRoot cf) (cf_SourceArtifactPath cf) (cf_MaxBytes cf)
      else run_then (openNoFollowRegular fs (cf_SourceArtifactFile cf)) (\<lambda>f.
        verifyFile cr fs f (cf_MaxBytes cf)))"

section \<open>Create\<close>

definition identity_text :: "file_info \<Rightarrow> string" where
  "identity_text info = ''dev:'' @ decimal (fi_dev info) @ ''/inode:'' @ decimal (fi_ino info)"

text \<open>The checks that come before anything is reserved.\<close>

definition check_source ::
  "crypto \<Rightarrow> 'w filesystem \<Rightarrow> Engine \<Rightarrow> BackupRecord \<Rightarrow> ('w, string) action" where
  "check_source cr fs e r =
     run_then (run_check (bk_TargetID r = en_TargetID (cf_Enrollment (eg_config e)) \<and>
         bk_DataRootIdentity r = en_DataRootIdentity (cf_Enrollment (eg_config e)))
       (NewError ErrIntentStale ''backup engine enrollment changed'')) (\<lambda>_.
     run_then (run_result (archiveName (bk_BackupID r))) (\<lambda>name.
     run_then (outside_try (fs_OpenRoot fs (cf_DataRoot (eg_config e)))) (\<lambda>_.
     run_then (outside_try (fs_StatRoot fs (cf_DataRoot (eg_config e)))) (\<lambda>info.
     run_then (run_check (identity_text info = en_DataRootIdentity (cf_Enrollment (eg_config e)))
       (NewError ErrIntentStale ''source filesystem identity changed'')) (\<lambda>_.
     run_then (outside_try (fs_OpenRoot fs (cf_Destination (eg_config e)))) (\<lambda>_.
     run_then (run_catch (outside_try (fs_StatRoot fs (cf_Destination (eg_config e))))) (\<lambda>destInfo.
     run_then (run_check (case destInfo of Inl _ \<Rightarrow> False
         | Inr info \<Rightarrow> SameFile (eg_destinationIdentity e) info)
       (NewError ErrIntentStale ''backup destination identity changed'')) (\<lambda>_.
     run_then (run_check (length (bk_SourceArtifacts r) = 1)
       (NewError ErrPreconditionUnavailable ''source artifact evidence missing'')) (\<lambda>_.
     run_then (verifySourceArtifact cr fs (eg_config e)) (\<lambda>(artifactDigest, _).
     run_then (run_check (artifactDigest = ar_SHA256 (bk_SourceArtifacts r ! 0))
       (NewError ErrIntentStale ''offline source artifact bytes changed'')) (\<lambda>_.
     run_then (run_catch (outside_try (fs_Lstat fs (cf_Destination (eg_config e)) name))) (\<lambda>found.
     run_then (run_check (found = Inr None)
       (NewError ErrBackupNotReady ''archive exists or cannot be inspected; manual reconciliation required''))
     (\<lambda>_. run_return name)))))))))))))"

definition transition_to :: "'w outside \<Rightarrow> string \<Rightarrow> BackupStatus \<Rightarrow> ('w, unit) action" where
  "transition_to ou backupID status =
     run_then (now ou) (\<lambda>t. journal_do ou (\<lambda>ce. TransitionBackupStatus ce backupID status t))"

definition empty_archive :: "Config \<Rightarrow> archive_state" where
  "empty_archive cf =
     \<lparr>as_count = 0, as_written = [], as_remaining = cf_MaxBytes cf, as_padding = 0, as_names = []\<rparr>"

text \<open>Writing phase: the partial file, its bytes, the sync. The result is what was written.\<close>

definition write_archive ::
  "'w outside \<Rightarrow> 'w filesystem \<Rightarrow> Engine \<Rightarrow> string \<Rightarrow> ('w, archive_state) action" where
  "write_archive ou fs e name =
     run_then (outside_try (fs_CreateExcl fs (cf_Destination (eg_config e)) (name @ ''.partial''))) (\<lambda>file.
     run_then (outside_try (fs_Checkpoint fs ''temp_created'')) (\<lambda>_.
     run_then (archive fs (eg_config e) file (empty_archive (eg_config e))) (\<lambda>st.
     run_then (outside_try (fs_Sync fs file)) (\<lambda>_.
     run_then (outside_try (fs_Close fs file)) (\<lambda>_.
     run_return st)))))"

definition rename_archive :: "'w filesystem \<Rightarrow> Engine \<Rightarrow> string \<Rightarrow> ('w, unit) action" where
  "rename_archive fs e name =
     run_then (outside_try (fs_OpenDir fs (cf_Destination (eg_config e)))) (\<lambda>directory.
     run_then (outside_try (fs_RenameNoReplace fs directory (name @ ''.partial'') name)) (\<lambda>_.
     run_then (outside_try (fs_Sync fs directory)) (\<lambda>_.
     outside_try (fs_Checkpoint fs ''archive_renamed''))))"

definition Create ::
  "'w filesystem \<Rightarrow> Engine \<Rightarrow> 'w outside \<Rightarrow> BackupRecord \<Rightarrow> ('w, BackupReadyEvidence) action \<Rightarrow> ('w, unit) action"
where
  "Create fs e ou r revalidate =
     run_then revalidate (\<lambda>ready.
     let r = r\<lparr>bk_Ready := ready\<rparr>; cr = ou_crypto ou in
     run_then (check_source cr fs e r) (\<lambda>name.
     run_then (now ou) (\<lambda>t.
     run_then (journal_do ou (\<lambda>ce. ReserveBackup ce r t)) (\<lambda>_.
     run_then (transition_to ou (bk_BackupID r) BackupWriting) (\<lambda>_.
     run_then (write_archive ou fs e name) (\<lambda>st.
     run_then (transition_to ou (bk_BackupID r) BackupFinalizing) (\<lambda>_.
     run_then (rename_archive fs e name) (\<lambda>_.
     run_then (transition_to ou (bk_BackupID r) BackupVerifying) (\<lambda>_.
     run_then (verify cr fs (cf_Destination (eg_config e)) name (cf_MaxBytes (eg_config e))) (\<lambda>(digest, sz).
     run_then (run_check (digest = hex_encode (sum256 cr (as_written st)))
       (NewError ErrBackupNotReady ''archive reread digest mismatch'')) (\<lambda>_.
     run_then revalidate (\<lambda>ready.
     run_then (verifySourceArtifact cr fs (eg_config e)) (\<lambda>(artifactDigest, _).
     run_then (run_check (artifactDigest = ar_SHA256 (bk_SourceArtifacts r ! 0))
       (NewError ErrIntentStale ''source artifact changed during backup'')) (\<lambda>_.
     run_then (now ou) (\<lambda>t.
     run_then (journal_do ou (\<lambda>ce. CompleteBackup ce (bk_BackupID r) digest sz ready t)) (\<lambda>_.
     outside_try (fs_Checkpoint fs ''metadata_committed'')))))))))))))))))"

section \<open>Inspect\<close>

text \<open>
  An incomplete backup whose archive exists is marked as an orphan; the error of
  \<open>ValidateCompleted\<close> is returned in any case.
\<close>

definition mark_orphan ::
  "'w filesystem \<Rightarrow> Engine \<Rightarrow> 'w outside \<Rightarrow> string \<Rightarrow> BackupRecord \<Rightarrow> ('w, unit) action" where
  "mark_orphan fs e ou backupID r =
     (case archiveName backupID of
        Inr name \<Rightarrow>
          if bk_Status r \<noteq> BackupOrphaned
          then run_then (run_catch (outside_try (fs_OpenRoot fs (cf_Destination (eg_config e))))) (\<lambda>opened.
            case opened of
              Inl _ \<Rightarrow> run_return ()
            | Inr _ \<Rightarrow>
                run_then (run_catch (outside_try (fs_Lstat fs (cf_Destination (eg_config e)) name))) (\<lambda>found.
                case found of
                  Inr (Some _) \<Rightarrow>
                    run_then (run_catch (transition_to ou backupID BackupOrphaned)) (\<lambda>moved.
                    case moved of
                      Inl _ \<Rightarrow> run_return ()
                    | Inr _ \<Rightarrow> run_then (run_catch (journal_read ou (GetBackup backupID))) (\<lambda>_. run_return ()))
                | _ \<Rightarrow> run_return ()))
          else run_return ()
      | Inl _ \<Rightarrow> run_return ())"

definition same_target :: "BackupRecord \<Rightarrow> Enrollment \<Rightarrow> bool" where
  "same_target r en \<longleftrightarrow> bk_TargetID r = en_TargetID en \<and> bk_EnrollmentID r = en_EnrollmentID en \<and>
     bk_DeploymentGeneration r = en_DeploymentGeneration en \<and>
     bk_ContainerIdentity r = en_ContainerID en \<and> bk_DataRootIdentity r = en_DataRootIdentity en \<and>
     bk_PaperTuple r = en_PaperTuple en"

definition Inspect ::
  "'w filesystem \<Rightarrow> Engine \<Rightarrow> 'w outside \<Rightarrow> string \<Rightarrow> ('w, BackupRecord) action" where
  "Inspect fs e ou backupID =
     run_then (journal_read ou (GetBackup backupID)) (\<lambda>r.
     case ValidateCompleted r of
       Some err \<Rightarrow> run_then (mark_orphan fs e ou backupID r) (\<lambda>_. run_raise err)
     | None \<Rightarrow>
         run_then (run_check (same_target r (cf_Enrollment (eg_config e)))
           (NewError ErrIntentStale ''backup belongs to another enrolled target'')) (\<lambda>_.
         run_then (run_result (archiveName backupID)) (\<lambda>name.
         run_then (outside_try (fs_OpenRoot fs (cf_Destination (eg_config e)))) (\<lambda>_.
         run_then (run_catch (outside_try (fs_StatRoot fs (cf_Destination (eg_config e))))) (\<lambda>info.
         run_then (run_check (case info of Inl _ \<Rightarrow> False
             | Inr info \<Rightarrow> SameFile (eg_destinationIdentity e) info)
           (NewError ErrIntentStale ''backup destination identity changed'')) (\<lambda>_.
         run_then (verify (ou_crypto ou) fs (cf_Destination (eg_config e)) name
           (cf_MaxBytes (eg_config e))) (\<lambda>(digest, sz).
         run_then (run_check (digest = bk_ArchiveSHA256 r \<and> sz = bk_ArchiveSizeBytes r)
           (NewError ErrBackupNotReady ''backup integrity verification failed'')) (\<lambda>_.
         run_return r))))))))"

definition offline_engine :: "'w filesystem \<Rightarrow> Engine \<Rightarrow> 'w outside \<Rightarrow> 'w OfflineBackup" where
  "offline_engine fs e ou = \<lparr>of_Create = Create fs e ou, of_Inspect = Inspect fs e ou\<rparr>"

section \<open>The engine keeps the contract\<close>

lemma quiet_boundedWrite [quiet_rule]: "quiet cr (boundedWrite fs file p st)"
  unfolding boundedWrite_def by (intro quiet_rule)

lemma quiet_flush_padding [quiet_rule]: "quiet cr (flush_padding fs file st)"
  unfolding flush_padding_def by (intro quiet_rule)

lemma quiet_write_header [quiet_rule]: "quiet cr (write_header fs file name info st)"
  unfolding write_header_def by (intro quiet_rule)

lemma quiet_write_chunks [quiet_rule]: "quiet cr (write_chunks fs file ps st)"
  by (induction ps arbitrary: st) (auto intro!: quiet_rule)

lemma quiet_copyN [quiet_rule]: "quiet cr (copyN fs file source n st)"
  unfolding copyN_def by (intro quiet_rule)

lemma quiet_ctx_alive [quiet_rule]: "quiet cr (ctx_alive fs)"
  unfolding ctx_alive_def by (intro quiet_rule)

lemma quiet_visit [quiet_rule]: "quiet cr (visit fs cf file name is_dir st)"
  unfolding visit_def archive_file_def Let_def by (intro quiet_rule)

lemma quiet_walk:
  "quiet cr (walk fs cf fd dir node st)" "quiet cr (walk_all fs cf fd dir nodes st)"
proof (induction fs cf fd dir node st and fs cf fd dir nodes st rule: walk_walk_all.induct)
  case (2 fs cf fd dir name children err st)
  then show ?case
    by (cases err) (auto intro!: quiet_then quiet_prod quiet_if quiet_visit quiet_return quiet_raise)
qed (auto intro!: quiet_rule)

lemmas quiet_walk_rules [quiet_rule] = quiet_walk

lemma quiet_archive [quiet_rule]: "quiet cr (archive fs cf file st)"
  unfolding archive_def archiveMountedArtifact_def openNoFollowRegular_def Let_def by (intro quiet_rule)

lemma quiet_verify [quiet_rule]: "quiet cr (verify cr' fs root name limit)"
  unfolding verify_def read_digest_def by (intro quiet_rule)

lemma quiet_verifySourceArtifact [quiet_rule]: "quiet cr (verifySourceArtifact cr' fs cf)"
  unfolding verifySourceArtifact_def verifyFile_def read_digest_def openNoFollowRegular_def
  by (intro quiet_rule)

lemma quiet_check_source [quiet_rule]: "quiet cr (check_source cr' fs e r)"
  unfolding check_source_def by (intro quiet_rule)

lemma quiet_transition_to [quiet_rule]:
  "others_commit ou \<Longrightarrow> quiet (ou_crypto ou) (transition_to ou backupID status)"
  unfolding transition_to_def by (intro quiet_rule)

lemma quiet_write_archive [quiet_rule]: "quiet cr (write_archive ou fs e name)"
  unfolding write_archive_def by (intro quiet_rule)

lemma quiet_rename_archive [quiet_rule]: "quiet cr (rename_archive fs e name)"
  unfolding rename_archive_def by (intro quiet_rule)

lemma quiet_Create:
  "others_commit ou \<Longrightarrow> quiet (ou_crypto ou) revalidate \<Longrightarrow>
   quiet (ou_crypto ou) (Create fs e ou r revalidate)"
  unfolding Create_def Let_def by (intro quiet_rule)

lemma quiet_Inspect: "others_commit ou \<Longrightarrow> quiet (ou_crypto ou) (Inspect fs e ou backupID)"
  unfolding Inspect_def mark_orphan_def by (intro quiet_rule)

interpretation offline: archive_engine "offline_engine fs e" for fs :: "'w filesystem" and e
  by unfold_locales (simp_all add: offline_engine_def quiet_Create quiet_Inspect)

end
