(* ===== verification/Foundation_Properties.thy ===== *)
theory Foundation_Properties
  imports Backup_Engine
begin

text \<open>
  The properties of the executor with the repository's archive engine behind it: what it may ask
  of the target, what an interrupted run leaves, what a successful run means, and how far an
  archive can go.
\<close>

section \<open>What a successful action has done\<close>

lemma run_basic_Inr [simp]:
  "run_return x s = (Inr y, s') \<longleftrightarrow> y = x \<and> s' = s"
  "\<not> run_raise err s = (Inr y, s')"
  "run_check b err s = (Inr u, s') \<longleftrightarrow> b \<and> s' = s"
  "run_result r s = (Inr y, s') \<longleftrightarrow> r = Inr y \<and> s' = s"
  by (auto simp: run_return_def run_raise_def run_check_def run_result_def)

text \<open>Actions that touch neither the journal nor the target.\<close>

definition silent :: "('w, 'a) action \<Rightarrow> bool" where
  "silent m \<longleftrightarrow> (\<forall>s. rn_db (snd (m s)) = rn_db s \<and> rn_calls (snd (m s)) = rn_calls s)"

named_theorems silent_rule

lemma silentD: "silent m \<Longrightarrow> m s = (r, s') \<Longrightarrow> rn_db s' = rn_db s \<and> rn_calls s' = rn_calls s"
  unfolding silent_def by (metis snd_conv)

lemma silent_then [silent_rule]: "silent m \<Longrightarrow> (\<And>x. silent (k x)) \<Longrightarrow> silent (run_then m k)"
  by (auto simp: silent_def run_then_def split: prod.splits sum.splits) (metis snd_conv)+

lemma silent_basic [silent_rule]:
  "silent (run_return x)" "silent (run_raise err)" "silent (run_check b err)" "silent (run_result r)"
  "silent (outside_call g)" "silent (outside_try h)" "silent (now ou)"
  by (auto simp: silent_def run_return_def run_raise_def run_check_def run_result_def
      outside_call_def outside_try_def now_def split: prod.splits)

lemma silent_catch [silent_rule]: "silent m \<Longrightarrow> silent (run_catch m)"
  by (auto simp: silent_def run_catch_def split: prod.splits) (metis snd_conv)+

lemma silent_cases [silent_rule]:
  "(b \<Longrightarrow> silent m) \<Longrightarrow> (\<not> b \<Longrightarrow> silent m') \<Longrightarrow> silent (if b then m else m')"
  "silent m0 \<Longrightarrow> (\<And>x. silent (k x)) \<Longrightarrow> silent (case v of None \<Rightarrow> m0 | Some x \<Rightarrow> k x)"
  "(\<And>x y. silent (h x y)) \<Longrightarrow> silent (case w of (x, y) \<Rightarrow> h x y)"
  by (simp, cases v, simp_all, cases w, simp)

lemma silent_checks [silent_rule]:
  "silent (check_budget ou i started)" "silent (check_start ou i message)"
  unfolding check_budget_def check_start_def by (intro silent_rule)+

lemma silent_verify [silent_rule]: "silent (verify cr fs root name limit)"
  unfolding verify_def read_digest_def by (intro silent_rule)

section \<open>A concrete world\<close>

text \<open>
  The theorems are instantiated on a world that is a counter: the clock stands still, nobody else
  writes and nothing fails, the target reports an empty server in maintenance and confirms the
  stop, and the file system holds one artifact.
\<close>

definition sample_outside :: "nat outside" where
  "sample_outside =
     \<lparr>ou_crypto = sample_crypto, ou_now = (\<lambda>w. (sample_now, w)),
      ou_readings = (\<lambda>w. ((\<lambda>k. sample_now, \<lambda>k. [w, k]), Suc w)),
      ou_others = (\<lambda>w d. (d, w)), ou_fault = (\<lambda>w. (Works, w)),
      ou_deadline = (\<lambda>t w. ((), w)), ou_ticks = (\<lambda>t w. (0, w)),
      ou_ctx_err = (\<lambda>w. (OtherError ''context deadline exceeded'', w))\<rparr>"

definition sample_safety :: "bool \<Rightarrow> SafetyObservation" where
  "sample_safety stopped =
     \<lparr>so_Available = True, so_ObservedAt = sample_now, so_Enrollment = sample_enrollment,
      so_BootID = ''bootid'', so_InventoryDigest = ''inv'', so_ConfigDigest = ''cfg'',
      so_SourceArtifactID = ''a'', so_SourceSHA256 = ''sa'', so_AdmissionClosed = True,
      so_Maintenance = True, so_Players = 0, so_ProcessStopped = stopped,
      so_FilesystemRootExists = True, so_NoConflictingWriter = True, so_References = [''ref'']\<rparr>"

definition sample_stop :: "StopRequest \<Rightarrow> StopEvidence" where
  "sample_stop r =
     \<lparr>se_State = StopUnknown, se_OperationID = sr_OperationID r, se_StepID = sr_StepID r,
      se_ContainerID = sr_ContainerID r, se_BootID = sr_BootID r, se_RequestedAt = sr_RequestedAt r,
      se_ObservedAt = sample_now, se_FinishedAt = sample_now, se_LifecycleAvailable = True,
      se_Running = False, se_ExitCode = 0, se_OOMKilled = False, se_RuntimeTerminal = True,
      se_GracefulTermination = True, se_Attribution = AttributionCorrelated, se_References = [''ref'']\<rparr>"

definition sample_target :: "nat FoundationTarget" where
  "sample_target =
     \<lparr>ft_ObserveSafety = (\<lambda>stopped w. (Inr (sample_safety stopped), w)),
      ft_CloseAdmission = (\<lambda>operationID stepID w.
        (Inr \<lparr>mr_OperationID = operationID, mr_StepID = stepID, mr_ClosedAt = sample_now,
              mr_References = [''ref'']\<rparr>, w)),
      ft_DispatchGracefulStop = (\<lambda>r w. (Inr (), w)),
      ft_ObserveStop = (\<lambda>r w. ((sample_stop r, None), w))\<rparr>"

definition sample_root :: file_info where
  "sample_root = \<lparr>fi_kind = DirectoryFile, fi_dev = 1, fi_ino = 2, fi_nlink = 1, fi_size = 0, fi_mtime = sample_now\<rparr>"

definition sample_file :: file_info where
  "sample_file = \<lparr>fi_kind = RegularFile, fi_dev = 1, fi_ino = 9, fi_nlink = 1, fi_size = 1, fi_mtime = sample_now\<rparr>"

definition sample_fs :: "nat filesystem" where
  "sample_fs =
     \<lparr>fs_OpenRoot = (\<lambda>root w. (Inr (), w)), fs_StatRoot = (\<lambda>root w. (Inr sample_root, w)),
      fs_Lstat = (\<lambda>root name w. (Inr (if root = ''/data'' then Some sample_file else None), w)),
      fs_OpenFile = (\<lambda>root name w. (Inr 1, w)), fs_OpenHost = (\<lambda>name w. (Inr 1, w)),
      fs_Fstat = (\<lambda>f w. (Inr sample_file, w)), fs_Read = (\<lambda>f n w. (([[7]], None), w)),
      fs_CreateExcl = (\<lambda>root name w. (Inr 2, w)), fs_Write = (\<lambda>f p w. (Inr (), w)),
      fs_Sync = (\<lambda>f w. (Inr (), w)), fs_Close = (\<lambda>f w. (Inr (), w)),
      fs_OpenDir = (\<lambda>root w. (Inr 3, w)), fs_RenameNoReplace = (\<lambda>d from to w. (Inr (), w)),
      fs_Tree = (\<lambda>root w. (Inr [DirNode ''logs'' [] None, FileNode ''a.jar''], w)),
      fs_CtxErr = (\<lambda>w. (None, w)), fs_Checkpoint = (\<lambda>name w. (Inr (), w)),
      fs_Header = (\<lambda>name info. Inr [5]), fs_valid_utf8 = (\<lambda>name. True)\<rparr>"

definition sample_engine :: Engine where
  "sample_engine =
     \<lparr>eg_config = \<lparr>cf_DataRoot = ''/data'', cf_Destination = ''/backups'', cf_SourceArtifactPath = ''a.jar'',
        cf_SourceArtifactFile = '''', cf_Enrollment = sample_enrollment, cf_MaxBytes = 4096, cf_MaxFiles = 10\<rparr>,
      eg_destinationIdentity = sample_root\<rparr>"

definition sample_codec :: evidence_codec where
  "sample_codec = \<lparr>ec_Marshal = (\<lambda>ev. Inr ''evidence''),
     ec_Unmarshal = (\<lambda>text. Inl (OtherError ''unexpected end of JSON input''))\<rparr>"

definition sample_foundation :: "nat Foundation" where
  "sample_foundation =
     \<lparr>fd_Enrollment = sample_enrollment, fd_Target = Some sample_target,
      fd_Backup = Some (offline_engine sample_fs sample_engine sample_outside),
      fd_EvidenceLevel = '''', fd_StopTimeout = 0, fd_boundary = None, fd_codec = sample_codec\<rparr>"

lemma sample_outside_simps [simp]:
  "ou_crypto sample_outside = sample_crypto" "ou_others sample_outside w d = (d, w)"
  "ou_now sample_outside w = (sample_now, w)" "ou_fault sample_outside w = (Works, w)"
  "ou_readings sample_outside w = ((\<lambda>k. sample_now, \<lambda>k. [w, k]), Suc w)"
  "ou_deadline sample_outside t w = ((), w)"
  by (simp_all add: sample_outside_def)

lemma sample_others [simp]: "others_commit sample_outside"
  by (simp add: others_commit_def reachable_by.start)

lemma sample_foundation_simps [simp]:
  "fd_Enrollment sample_foundation = sample_enrollment" "fd_Target sample_foundation = Some sample_target"
  "fd_Backup sample_foundation = Some (offline_engine sample_fs sample_engine sample_outside)"
  "fd_boundary sample_foundation = None"
  by (simp_all add: sample_foundation_def)

section \<open>Dispatch\<close>

text \<open>Runs of the executor one after the other, whatever each of them returned.\<close>

primrec runs :: "'w outside \<Rightarrow> 'w Foundation \<Rightarrow> string list \<Rightarrow> 'w run \<Rightarrow> 'w run" where
  "runs ou f [] s = s"
| "runs ou f (operationID # rest) s = runs ou f rest (snd (Run ou f operationID s))"

lemma triple_snd:
  assumes "triple P m (\<lambda>_. P) P" "P s"
  shows "P (snd (m s))"
proof -
  obtain r s' where "m s = (r, s')" by fastforce
  with assms show ?thesis unfolding triple_def by (cases r) fastforce+
qed

lemma calls_ok_split: "calls_ok cr en (xs @ c # ys) \<Longrightarrow> call_ok cr en xs c"
  by (drule calls_ok_def [THEN iffD1, THEN spec, of _ _ _ "length xs"]) simp

lemma runs_dispatches_ok:
  assumes "others_commit ou" "fd_Backup f = Some (offline_engine fs e ou)"
    "dispatches_ok (ou_crypto ou) (fd_Enrollment f) s"
  shows "dispatches_ok (ou_crypto ou) (fd_Enrollment f) (runs ou f operations s)"
  using assms(3)
proof (induction operations arbitrary: s)
  case (Cons k ks)
  then show ?case using triple_snd [OF offline.run_keeps [OF assms(1,2)]] by simp
qed simp

lemma dispatches_ok_start: "journal_history cr (rn_db s) \<Longrightarrow> rn_calls s = [] \<Longrightarrow> dispatches_ok cr en s"
  by (simp add: dispatches_ok_def calls_ok_def)

text \<open>
  C5. A request to the target is made at most once and only on record: over any number of runs of
  the executor, for whatever operations, with other processes committing in between and the store
  failing at any call, no step is dispatched twice, every request to close admission or to stop
  was durably marked in the journal before it was made, and the journal stays a history.
\<close>

theorem foundation_dispatches_once:
  assumes "others_commit ou" "fd_Backup f = Some (offline_engine fs e ou)"
    "journal_history (ou_crypto ou) (rn_db s)" "rn_calls s = []"
  shows "distinct (dispatch_keys (rn_calls (runs ou f operations s))) \<and>
    (\<forall>(c, d) \<in> set (rn_calls (runs ou f operations s)). case c of
       SawSafety b ob \<Rightarrow> True
     | CallCloseAdmission operationID stepID \<Rightarrow> dispatched d operationID stepID
     | CallStop r \<Rightarrow> dispatched d (sr_OperationID r) (sr_StepID r)) \<and>
    journal_history (ou_crypto ou) (rn_db (runs ou f operations s))"
proof -
  have ok: "dispatches_ok (ou_crypto ou) (fd_Enrollment f) (runs ou f operations s)"
    by (rule runs_dispatches_ok [OF assms(1,2) dispatches_ok_start [OF assms(3,4)]])
  have "case c of SawSafety b ob \<Rightarrow> True
     | CallCloseAdmission operationID stepID \<Rightarrow> dispatched d operationID stepID
     | CallStop r \<Rightarrow> dispatched d (sr_OperationID r) (sr_StepID r)"
    if cd: "(c, d) \<in> set (rn_calls (runs ou f operations s))" for c d
  proof -
    obtain j where "j < length (rn_calls (runs ou f operations s))"
        "rn_calls (runs ou f operations s) ! j = (c, d)"
      using cd by (auto simp: in_set_conv_nth)
    then have "\<exists>cs. call_ok (ou_crypto ou) (fd_Enrollment f) cs (c, d)"
      using ok unfolding dispatches_ok_def calls_ok_def by metis
    then show ?thesis by (auto simp: call_ok_def split: target_call.splits)
  qed
  with ok show ?thesis by (auto simp: dispatches_ok_def)
qed

theorem foundation_dispatches_once_witness:
  "distinct (dispatch_keys (rn_calls (runs sample_outside sample_foundation
     [sample_operation_id, sample_operation_id] \<lparr>rn_db = sample_approved, rn_world = 0, rn_calls = []\<rparr>)))"
  using foundation_dispatches_once [of sample_outside sample_foundation sample_fs sample_engine
      "\<lparr>rn_db = sample_approved, rn_world = 0, rn_calls = []\<rparr>" "[sample_operation_id, sample_operation_id]"]
    sample_histories by simp

text \<open>
  A stop is requested only of an empty server in maintenance: the last thing the executor
  asked of the target before a stop request was an observation that passed the safety validation
  for the approved intent of that operation and showed no player, closed admission, maintenance
  and a running process, and the request names the container and the boot of that intent.
\<close>

theorem foundation_stop_guarded:
  assumes "others_commit ou" "fd_Backup f = Some (offline_engine fs e ou)"
    "journal_history (ou_crypto ou) (rn_db s)" "rn_calls s = []"
    "rn_calls (runs ou f operations s) = earlier @ (CallStop r, d) # later_calls"
  shows "\<exists>op rec ob t. GetOperation (sr_OperationID r) d = Inr op \<and>
    GetIntent (op_IntentID op) d = Inr rec \<and>
    sr_ContainerID r = ci_ContainerID (ir_Intent rec) \<and>
    sr_BootID r = ci_ExpectedBootID (ir_Intent rec) \<and>
    earlier \<noteq> [] \<and> fst (last earlier) = SawSafety False ob \<and>
    validate_safety (ou_crypto ou) ob (fd_Enrollment f) (ir_Intent rec) t = None \<and>
    so_Players ob = 0 \<and> so_AdmissionClosed ob \<and> so_Maintenance ob \<and> \<not> so_ProcessStopped ob"
proof -
  have "dispatches_ok (ou_crypto ou) (fd_Enrollment f) (runs ou f operations s)"
    by (rule runs_dispatches_ok [OF assms(1,2) dispatches_ok_start [OF assms(3,4)]])
  then have "call_ok (ou_crypto ou) (fd_Enrollment f) earlier (CallStop r, d)"
    unfolding dispatches_ok_def assms(5) using calls_ok_split by blast
  then have "stop_allowed (ou_crypto ou) (fd_Enrollment f) earlier r d"
    by (simp add: call_ok_def)
  then show ?thesis unfolding stop_allowed_def executes_def by blast
qed

section \<open>Interruption\<close>

text \<open>While nobody else writes, a call of the store works on the journal of this run.\<close>

lemma triple_alone:
  assumes "\<And>w d. ou_others ou w d = (d, w)"
  shows "triple (\<lambda>s. F (rn_db s) \<and> C (rn_calls s)) (journal_tx ou tx)
    (\<lambda>x s. C (rn_calls s) \<and> (\<exists>ce d. F d \<and> tx ce d = Inr (x, rn_db s))) (\<lambda>s. C (rn_calls s))"
  unfolding triple_def
proof (intro allI impI)
  fix s :: "'a run"
  assume s: "F (rn_db s) \<and> C (rn_calls s)"
  obtain clock random w2 where r: "ou_readings ou (rn_world s) = ((clock, random), w2)" by (metis surj_pair)
  obtain fault w3 where f: "ou_fault ou w2 = (fault, w3)" by fastforce
  show "case journal_tx ou tx s of (Inl err, s') \<Rightarrow> C (rn_calls s')
    | (Inr x, s') \<Rightarrow> C (rn_calls s') \<and> (\<exists>ce d. F d \<and> tx ce d = Inr (x, rn_db s'))"
    using s by (cases fault) (auto simp: journal_tx_def assms r f Let_def split: sum.splits)
qed

lemma triple_silent: "silent m \<Longrightarrow> triple (\<lambda>s. F (rn_db s) \<and> C (rn_calls s)) m
    (\<lambda>_ s. F (rn_db s) \<and> C (rn_calls s)) (\<lambda>s. C (rn_calls s))"
  unfolding triple_def silent_def by (auto split: prod.splits sum.splits) (metis snd_conv)+

definition has_attempts :: "string \<Rightarrow> StepAttempt list \<Rightarrow> db \<Rightarrow> bool" where
  "has_attempts operationID attempts d \<longleftrightarrow>
     (\<exists>op. GetOperation operationID d = Inr op \<and> op_Attempts op = attempts \<and> op_OperationID op = operationID)"

definition resting :: "string \<Rightarrow> StepAttempt list \<Rightarrow> (target_call \<times> db) list \<Rightarrow> 'w run \<Rightarrow> bool" where
  "resting operationID attempts c s \<longleftrightarrow> has_attempts operationID attempts (rn_db s) \<and> rn_calls s = c"

lemma silent_resting:
  "silent m \<Longrightarrow> triple (resting operationID attempts c) m (\<lambda>_. resting operationID attempts c) (\<lambda>s. rn_calls s = c)"
  unfolding resting_def by (rule triple_silent)

lemma read_attempts:
  assumes "\<And>w d. ou_others ou w d = (d, w)"
    "\<And>x. triple (\<lambda>s. resting operationID attempts c s \<and> q (rn_db s) = Inr x) (k x) Q (\<lambda>s. rn_calls s = c)"
  shows "triple (resting operationID attempts c)
    (run_then (journal_read ou q) k) Q (\<lambda>s. rn_calls s = c)"
proof (rule triple_then)
  show "triple (resting operationID attempts c) (journal_read ou q)
      (\<lambda>x s. resting operationID attempts c s \<and> q (rn_db s) = Inr x) (\<lambda>s. rn_calls s = c)"
    unfolding journal_read_def resting_def
    by (rule triple_post [OF triple_alone [OF assms(1)]]) auto
qed (rule assms(2))

lemma triple_transition_attempts:
  assumes "\<And>w d. ou_others ou w d = (d, w)"
  shows "triple (resting operationID attempts c)
    (journal_do ou (\<lambda>ce. TransitionOperation ce operationID to verification released t))
    (\<lambda>_. resting operationID attempts c) (\<lambda>s. rn_calls s = c)"
  unfolding journal_do_def resting_def
proof (rule triple_post [OF triple_alone [OF assms]])
  fix x and s :: "'a run"
  assume "rn_calls s = c \<and> (\<exists>ce d. has_attempts operationID attempts d \<and>
     with_unit (TransitionOperation ce operationID to verification released t d) = Inr (x, rn_db s))"
  then obtain ce d where d: "rn_calls s = c" "has_attempts operationID attempts d"
      "TransitionOperation ce operationID to verification released t d = Inr (rn_db s)" by auto
  obtain q op' where q: "rows_with or_operation_id operationID (v01_operations d) = Some q"
      and op': "op' = (or_payload q)\<lparr>op_Status := to, op_Verification := verification, op_UpdatedAt := t,
        op_OwnershipReleased := (to \<in> releasing \<or> op_OwnershipReleased (or_payload q))\<rparr>"
      and aud: "audited (d\<lparr>v01_operations := update_rows or_operation_id (op_OperationID (or_payload q))
        (set_operation_payload op') (v01_operations d)\<rparr>) (rn_db s)"
    using TransitionOperation_effect [OF d(3)] by blast
  have "op_OperationID (or_payload q) = operationID" "op_Attempts (or_payload q) = attempts"
    using d(2) q by (auto simp: has_attempts_def GetOperation_iff)
  then show "has_attempts operationID attempts (rn_db s) \<and> rn_calls s = c"
    using d(1) q audited_tables(4) [OF aud]
    by (simp add: op' has_attempts_def GetOperation_iff operations_by_id.lookup_update)
qed

lemma run_step_completed:
  assumes "\<And>w d. ou_others ou w d = (d, w)" "n < length attempts" "completed_attempt (attempts ! n)"
  shows "triple (resting operationID attempts c)
    (run_step ou f tg bu i operationID n)
    (\<lambda>_. resting operationID attempts c) (\<lambda>s. rn_calls s = c)"
  unfolding run_step_def
proof (rule read_attempts [OF assms(1)])
  fix op
  show "triple (\<lambda>s. resting operationID attempts c s \<and> GetOperation operationID (rn_db s) = Inr op)
    (continue_step ou f tg bu i operationID n op)
    (\<lambda>_. resting operationID attempts c) (\<lambda>s. rn_calls s = c)"
    using assms(2,3)
    by (auto simp: triple_def continue_step_def resting_def has_attempts_def run_then_def run_check_def run_return_def run_raise_def Let_def)
qed


lemma journal_tx_calls: "rn_calls (snd (journal_tx ou tx s)) = rn_calls s"
  by (auto simp: journal_tx_def Let_def split: prod.splits journal_fault.splits sum.splits)

lemma triple_calls:
  "triple (\<lambda>s. rn_calls s = c) (journal_tx ou tx) (\<lambda>_ s. rn_calls s = c) (\<lambda>s. rn_calls s = c)"
  using journal_tx_calls [of ou tx] unfolding triple_def
  by (auto split: prod.splits sum.splits) (metis snd_conv)+

lemma unknown_raises:
  "triple (\<lambda>s. rn_calls s = c) (unknown ou op a reason) (\<lambda>_ s. False) (\<lambda>s. rn_calls s = c)"
  unfolding unknown_def journal_do_def
  by (rule triple_then [OF triple_silent [where F = "\<lambda>_. True" and C = "\<lambda>c'. c' = c", simplified]],
      rule silent_rule, rule triple_then [OF triple_calls], rule triple_raise)

lemma tripleD_fails:
  assumes "triple P m (\<lambda>_ s. False) E" "P s"
  shows "\<exists>err s'. m s = (Inl err, s') \<and> E s'"
proof -
  obtain r s' where "m s = (r, s')" by fastforce
  with assms show ?thesis unfolding triple_def by (cases r) fastforce+
qed

lemmas unknown_outcome = tripleD_fails [OF unknown_raises refl]

lemma run_step_interrupted:
  assumes "\<And>w d. ou_others ou w d = (d, w)" "n < length attempts" "\<not> completed_attempt (attempts ! n)"
    "sa_DispatchState (attempts ! n) \<noteq> NotDispatched"
  shows "triple (resting operationID attempts c)
    (run_step ou f tg bu i operationID n) (\<lambda>_ s. False) (\<lambda>s. rn_calls s = c)"
  unfolding run_step_def
proof (rule read_attempts [OF assms(1)])
  fix op
  show "triple (\<lambda>s. resting operationID attempts c s \<and> GetOperation operationID (rn_db s) = Inr op)
    (continue_step ou f tg bu i operationID n op)
    (\<lambda>_ s. False) (\<lambda>s. rn_calls s = c)"
    unfolding triple_def
  proof (intro allI impI)
    fix s :: "'a run"
    assume s: "resting operationID attempts c s \<and> GetOperation operationID (rn_db s) = Inr op"
    obtain err s' where "unknown ou op (op_Attempts op ! n) ''interrupted dispatch cannot be repeated'' s =
        (Inl err :: unit result, s')" "rn_calls s' = rn_calls s"
      using unknown_outcome by blast
    with s assms(2-4) show "case continue_step ou f tg bu i operationID n op s of (Inl err, s') \<Rightarrow> rn_calls s' = c | (Inr x, s') \<Rightarrow> False"
      by (auto simp: continue_step_def resting_def has_attempts_def run_then_def run_check_def run_return_def run_raise_def Let_def)
  qed
qed

lemma run_steps_interrupted:
  assumes "\<And>w d. ou_others ou w d = (d, w)" "n < length attempts" "\<not> completed_attempt (attempts ! n)"
    "sa_DispatchState (attempts ! n) \<noteq> NotDispatched" "\<forall>m < n. completed_attempt (attempts ! m)"
    "k \<le> n"
  shows "triple (resting operationID attempts c)
    (run_steps ou f tg bu i operationID ([k..<n] @ n # rest)) (\<lambda>_ s. False) (\<lambda>s. rn_calls s = c)"
  using assms(6)
proof (induction rule: inc_induct)
  case base
  show ?case
    by (simp, rule triple_then [OF run_step_interrupted [OF assms(1-4)]]) (simp add: triple_def)
next
  case (step k)
  have "triple (resting operationID attempts c)
      (run_step ou f tg bu i operationID k)
      (\<lambda>_. resting operationID attempts c) (\<lambda>s. rn_calls s = c)"
    using step(2) assms(2,5) by (intro run_step_completed assms(1)) auto
  then show ?case
    using triple_then [OF _ step.IH] step(2) by (simp add: upt_rec [of k])
qed



end
