(* ===== verification/Journal_Progress.thy ===== *)
theory Journal_Progress
  imports Journal_Properties
begin

text \<open>
  The journal lets an approved writer proceed: from every history in which an operation holds its
  target and its approval stands, the next step can be prepared, marked and completed. These
  lemmas are the other side of the safety properties: the guards of the transactions do not
  exclude the workflow they guard.
\<close>

definition writer :: "crypto \<Rightarrow> db \<Rightarrow> Operation \<Rightarrow> IntentRecord \<Rightarrow> bool" where
  "writer cr d op rec \<longleftrightarrow> journal_history cr d \<and> GetOperation (op_OperationID op) d = Inr op \<and>
     GetIntent (op_IntentID op) d = Inr rec \<and> ir_Status rec = IntentConsumed \<and>
     \<not> op_OwnershipReleased op \<and> live_operation (op_Status op)"

lemma writerE:
  assumes "writer cr d op rec"
  obtains q r where "rows_with or_operation_id (op_OperationID op) (v01_operations d) = Some q"
    "or_payload q = op" "rows_with it_intent_id (op_IntentID op) (v01_intents d) = Some r"
    "it_payload r = rec" "it_status r = IntentConsumed" "ValidateDigest cr (ir_Intent rec) = None"
    "op_IntentDigest op = ci_IntentDigest (ir_Intent rec)" "journal_ok cr d"
proof -
  obtain q r where qr: "rows_with or_operation_id (op_OperationID op) (v01_operations d) = Some q" "or_payload q = op"
      "rows_with it_intent_id (op_IntentID op) (v01_intents d) = Some r" "it_payload r = rec"
    using assms by (auto simp: writer_def GetOperation_iff GetIntent_iff)
  have ok: "journal_ok cr d" using assms journal_history_ok by (simp add: writer_def)
  have "it_status r = IntentConsumed"
    using journal_ok_intent(2) [OF ok qr(3)] qr(4) assms by (simp add: writer_def)
  moreover have "approved_by cr d op"
    using ok rows_with_SomeD [OF qr(1)] qr(2) by (auto simp: journal_ok_def)
  then have "sealed_intent cr (ir_Intent rec)" "op_IntentDigest op = ci_IntentDigest (ir_Intent rec)"
    using qr(3,4) by (auto simp: approved_by_def)
  ultimately show thesis using that qr ok by simp
qed

lemma live_status [simp]:
  "live_operation s \<Longrightarrow> s \<noteq> OperationUnknown" "live_operation s \<Longrightarrow> s \<noteq> OperationNeedsIntervention"
  "live_operation s \<Longrightarrow> \<not> IsTerminalOperation s"
  using terminal_not_live by (auto simp: live_operation_iff)

lemma filter_unique_key:
  "distinct (map key rs) \<Longrightarrow> rows_with key k rs = Some r \<Longrightarrow> filter (\<lambda>r. key r = k) rs = [r]"
  by (induction rs) (auto simp: rows_with_def image_iff filter_empty_conv split: if_splits)

lemma save_runs:
  assumes "journal_ok cr d" "rows_with or_operation_id (op_OperationID op) (v01_operations d) = Some q"
    "v01_operations d' = v01_operations d"
  shows "saveOperationTx op d' = Inr (d'\<lparr>v01_operations :=
     update_rows or_operation_id (op_OperationID op) (set_operation_payload op) (v01_operations d)\<rparr>)"
proof -
  have "filter (\<lambda>r. or_operation_id r = op_OperationID op) (v01_operations d) = [q]"
    using assms(1,2) by (intro filter_unique_key)
      (simp_all add: journal_ok_def operations_ok_def operations_by_id.unique_def)
  then show ?thesis using assms(3) by (simp add: saveOperationTx_def check_def)
qed

text \<open>A writer after a transaction that stored a new version of its operation.\<close>

lemma writer_step:
  assumes "writer cr d op rec" "journal_step cr d d'" "v01_intents d' = v01_intents d"
    "v01_operations d' = update_rows or_operation_id (op_OperationID op) (set_operation_payload op') (v01_operations d)"
    "same_identity op op'" "\<not> op_OwnershipReleased op'" "live_operation (op_Status op')"
  shows "writer cr d' op' rec"
proof -
  obtain q where q: "rows_with or_operation_id (op_OperationID op) (v01_operations d) = Some q"
    using writerE [OF assms(1)] by metis
  have h: "journal_history cr d'"
    using assms(1,2) unfolding writer_def journal_history_def by (metis reachable_by.more)
  have "rows_with or_operation_id (op_OperationID op') (v01_operations d') = Some (set_operation_payload op' q)"
    using q assms(4,5) by (simp add: operations_by_id.lookup_update same_identity_def)
  then have "GetOperation (op_OperationID op') d' = Inr op'" by (simp add: GetOperation_iff)
  with h assms show ?thesis by (simp add: writer_def GetIntent_def same_identity_def)
qed

section \<open>Steps\<close>

lemma prepare_runs:
  assumes "writer cr d op rec" "ce_crypto ce = cr" "previous_acknowledged (op_Attempts op)"
    "length (op_Attempts op) < length (ci_Steps (ir_Intent rec))"
    "ci_Steps (ir_Intent rec) ! length (op_Attempts op) = kind" "kind \<notin> set disabled_steps"
    "rows_with st_step_id (NewID ''step'' (ce_random ce 0)) (v01_steps d) = None"
    "a = new_attempt (NewID ''step'' (ce_random ce 0)) kind (next_attempt_no kind (op_Attempts op) 1) t"
    "op' = op\<lparr>op_Attempts := op_Attempts op @ [a], op_UpdatedAt := t\<rparr>"
  shows "\<exists>d'. PrepareStep ce (op_OperationID op) kind t d = Inr (a, d') \<and> writer cr d' op' rec \<and>
    v01_backups d' = v01_backups d \<and>
    v01_steps d' = v01_steps d @ [step_row_of (op_OperationID op) a]"
proof -
  obtain q r where q: "rows_with or_operation_id (op_OperationID op) (v01_operations d) = Some q" "or_payload q = op"
      and r: "rows_with it_intent_id (op_IntentID op) (v01_intents d) = Some r" "it_payload r = rec"
        "ValidateDigest cr (ir_Intent rec) = None" "op_IntentDigest op = ci_IntentDigest (ir_Intent rec)"
      and ok: "journal_ok cr d"
    using writerE [OF assms(1)] by metis
  have w: "ir_Status rec = IntentConsumed" "\<not> op_OwnershipReleased op" "live_operation (op_Status op)"
    using assms(1) by (simp_all add: writer_def)
  let ?row = "step_row_of (op_OperationID op) a"
  let ?d1 = "d\<lparr>v01_steps := v01_steps d @ [?row]\<rparr>"
  have insert: "insert_step \<lparr>st_step_id = NewID ''step'' (ce_random ce 0), st_operation_id = op_OperationID op,
      st_attempt_no = next_attempt_no kind (op_Attempts op) 1, st_payload = a,
      st_updated_at = format_time t\<rparr> d = Inr ?d1"
    using q assms(7,8) by (simp add: insert_step_def check_def step_row_of_def new_attempt_def)
  have save: "saveOperationTx op' ?d1 = Inr (?d1\<lparr>v01_operations :=
      update_rows or_operation_id (op_OperationID op) (set_operation_payload op') (v01_operations d)\<rparr>)"
    using save_runs [OF ok, of op' q ?d1] q assms(9) by simp
  let ?d = "appendAuditTx (ce_clock ce 0) (op_OperationID op) ''STEP_PREPARED'' (AuditAttempt a)
      (?d1\<lparr>v01_operations := update_rows or_operation_id (op_OperationID op) (set_operation_payload op') (v01_operations d)\<rparr>)"
  have run: "PrepareStep ce (op_OperationID op) kind t d = Inr (a, ?d)"
    using q r w assms(2-6) insert save
    by (simp add: PrepareStep_def getOperationTx_def check_def query_row_def Let_def
        assms(8,9) [symmetric])
  have tables: "v01_intents ?d = v01_intents d" "v01_backups ?d = v01_backups d"
      "v01_steps ?d = v01_steps d @ [?row]" "v01_operations ?d =
         update_rows or_operation_id (op_OperationID op) (set_operation_payload op') (v01_operations d)"
    by (simp_all add: appendAuditTx_def)
  have "writer cr ?d op' rec"
    using assms(9) w
    by (intro writer_step [OF assms(1) journal_step.PrepareStep [OF assms(2) run] tables(1,4)])
       (simp_all add: same_identity_def)
  with run tables show ?thesis by blast
qed

text \<open>The attempt at the end of the list is found by its identifier.\<close>

lemma attempt_index_last:
  assumes "journal_ok cr d" "rows_with or_operation_id k (v01_operations d) = Some q"
    "op_Attempts (or_payload q) = as @ [a]"
  shows "attempt_index (sa_StepID a) (as @ [a]) 0 = Some (length as)"
proof -
  have mirror: "steps_of (v01_steps d) k = as @ [a]" "steps_by_id.unique (v01_steps d)"
      "\<forall>s \<in> set (v01_steps d). st_step_id s = sa_StepID (st_payload s)"
    using assms rows_with_SomeD [OF assms(2)] by (auto simp: journal_ok_def steps_ok_def)
  have "map sa_StepID (as @ [a]) = map st_step_id (filter (\<lambda>s. st_operation_id s = k) (v01_steps d))"
    using mirror(3) unfolding mirror(1) [symmetric] steps_of_def by simp
  then have "distinct (map sa_StepID (as @ [a]))"
    using mirror(2) distinct_map_filter by (metis steps_by_id.unique_def)
  then obtain i where i: "attempt_index (sa_StepID a) (as @ [a]) 0 = Some i"
    using attempt_index_None [of "sa_StepID a" "as @ [a]" 0] by auto
  with \<open>distinct _\<close> attempt_index_SomeD [OF i] show ?thesis
    by (auto simp: nth_append less_Suc_eq image_iff split: if_splits) (metis nth_mem)
qed

lemma attempt_runs:
  assumes "writer cr d op rec" "ce_crypto ce = cr" "op_Attempts op = as @ [a]"
    "mutate a = Inr m" "sa_StepID m = sa_StepID a"
    "sa_EffectState m \<noteq> EffectOtherObserved"
    "sa_EffectState m = EffectUnknown \<longrightarrow> event \<noteq> ''STEP_OBSERVED''"
    "a' = m\<lparr>sa_UpdatedAt := t\<rparr>" "op' = op\<lparr>op_Attempts := as @ [a'], op_UpdatedAt := t\<rparr>"
  shows "\<exists>d'. updateAttempt ce (op_OperationID op) (sa_StepID a) t mutate event d = Inr d' \<and>
    v01_intents d' = v01_intents d \<and> v01_backups d' = v01_backups d \<and>
    v01_operations d' = update_rows or_operation_id (op_OperationID op) (set_operation_payload op') (v01_operations d) \<and>
    map st_step_id (v01_steps d') = map st_step_id (v01_steps d)"
proof -
  obtain q r where q: "rows_with or_operation_id (op_OperationID op) (v01_operations d) = Some q" "or_payload q = op"
      and r: "rows_with it_intent_id (op_IntentID op) (v01_intents d) = Some r" "it_status r = IntentConsumed"
      and ok: "journal_ok cr d"
    using writerE [OF assms(1)] by metis
  have w: "\<not> op_OwnershipReleased op" "live_operation (op_Status op)"
    using assms(1) by (simp_all add: writer_def)
  have index: "attempt_index (sa_StepID a) (op_Attempts op) 0 = Some (length as)"
    using attempt_index_last [OF ok q(1)] q(2) assms(3) by simp
  let ?d1 = "update_step (sa_StepID a) (op_OperationID op) a' t d"
  have save: "saveOperationTx op' ?d1 = Inr (?d1\<lparr>v01_operations :=
      update_rows or_operation_id (op_OperationID op) (set_operation_payload op') (v01_operations d)\<rparr>)"
    using save_runs [OF ok, of op' q ?d1] q assms(9) by (simp add: update_step_def)
  have settle: "settle_operation event a' op' = op'"
    using assms(6-8) by (auto simp: settle_operation_def)
  let ?d = "appendAuditTx (ce_clock ce 0) (op_OperationID op) event (AuditAttempt a')
      (?d1\<lparr>v01_operations := update_rows or_operation_id (op_OperationID op) (set_operation_payload op') (v01_operations d)\<rparr>)"
  have "updateAttempt ce (op_OperationID op) (sa_StepID a) t mutate event d = Inr ?d"
    using q r w index assms(3,4) save settle
    by (simp add: updateAttempt_def getOperationTx_def query_row_def check_def Let_def nth_append
        assms(8,9) [symmetric])
  moreover have "map st_step_id (v01_steps ?d) = map st_step_id (v01_steps d)"
    by (simp add: appendAuditTx_def update_step_def)
  ultimately show ?thesis by (intro exI [of _ ?d]) (simp add: appendAuditTx_def update_step_def)
qed

lemma mark_runs:
  assumes "writer cr d op rec" "ce_crypto ce = cr" "op_Attempts op = as @ [a]"
    "sa_DispatchState a = NotDispatched" "sa_EffectState a = EffectProvenNotApplied"
    "op' = op\<lparr>op_Attempts := as @ [a\<lparr>sa_DispatchState := DispatchPossible, sa_EffectState := EffectUnknown,
        sa_Attribution := AttributionUnattributed, sa_UpdatedAt := t\<rparr>], op_UpdatedAt := t\<rparr>"
  shows "\<exists>d'. MarkDispatchPossible ce (op_OperationID op) (sa_StepID a) t d = Inr d' \<and> writer cr d' op' rec \<and>
    v01_backups d' = v01_backups d \<and> map st_step_id (v01_steps d') = map st_step_id (v01_steps d)"
proof -
  let ?m = "a\<lparr>sa_DispatchState := DispatchPossible, sa_EffectState := EffectUnknown,
      sa_Attribution := AttributionUnattributed\<rparr>"
  have m: "mark_dispatch a = Inr ?m" using assms(4,5) by (simp add: mark_dispatch_def check_def)
  obtain d' where d': "updateAttempt ce (op_OperationID op) (sa_StepID a) t mark_dispatch ''STEP_DISPATCH_POSSIBLE'' d = Inr d'"
      "v01_intents d' = v01_intents d" "v01_backups d' = v01_backups d"
      "v01_operations d' = update_rows or_operation_id (op_OperationID op) (set_operation_payload op') (v01_operations d)"
      "map st_step_id (v01_steps d') = map st_step_id (v01_steps d)"
    using attempt_runs [where mutate = mark_dispatch and m = ?m and event = "''STEP_DISPATCH_POSSIBLE''" and t = t
      and op' = op', OF assms(1-3) m] assms(6) by auto
  have run: "MarkDispatchPossible ce (op_OperationID op) (sa_StepID a) t d = Inr d'"
    using d'(1) by (simp add: MarkDispatchPossible_def)
  have "writer cr d' op' rec"
    using assms(1,6)
    by (intro writer_step [OF assms(1) journal_step.MarkDispatchPossible [OF assms(2) run] d'(2,4)])
       (simp_all add: same_identity_def writer_def)
  with run d' show ?thesis by blast
qed

lemma complete_runs:
  assumes "writer cr d op rec" "ce_crypto ce = cr" "op_Attempts op = as @ [a]"
    "sa_DispatchState a = DispatchPossible"
    "op' = op\<lparr>op_Attempts := as @ [a\<lparr>sa_EffectState := EffectExpectedObserved,
        sa_Attribution := AttributionCorrelated, sa_Evidence := evidence, sa_DispatchState := Acknowledged,
        sa_UpdatedAt := t\<rparr>], op_UpdatedAt := t\<rparr>"
  shows "\<exists>d'. RecordStepObservation ce (op_OperationID op) (sa_StepID a) EffectExpectedObserved
      AttributionCorrelated evidence t d = Inr d' \<and> writer cr d' op' rec \<and>
    v01_backups d' = v01_backups d \<and> map st_step_id (v01_steps d') = map st_step_id (v01_steps d)"
proof -
  let ?m = "a\<lparr>sa_EffectState := EffectExpectedObserved, sa_Attribution := AttributionCorrelated,
      sa_Evidence := evidence, sa_DispatchState := Acknowledged\<rparr>"
  let ?f = "observe_attempt EffectExpectedObserved AttributionCorrelated evidence"
  have m: "?f a = Inr ?m" using assms(4) by (simp add: observe_attempt_def check_def)
  obtain d' where d': "updateAttempt ce (op_OperationID op) (sa_StepID a) t ?f ''STEP_OBSERVED'' d = Inr d'"
      "v01_intents d' = v01_intents d" "v01_backups d' = v01_backups d"
      "v01_operations d' = update_rows or_operation_id (op_OperationID op) (set_operation_payload op') (v01_operations d)"
      "map st_step_id (v01_steps d') = map st_step_id (v01_steps d)"
    using attempt_runs [where mutate = ?f and m = ?m and event = "''STEP_OBSERVED''" and t = t
      and op' = op', OF assms(1-3) m] assms(5) by auto
  have run: "RecordStepObservation ce (op_OperationID op) (sa_StepID a) EffectExpectedObserved
      AttributionCorrelated evidence t d = Inr d'"
    using d'(1) by (simp add: RecordStepObservation_def)
  have "writer cr d' op' rec"
    using assms(1,5)
    by (intro writer_step [OF assms(1) journal_step.RecordStepObservation [OF assms(2) run] d'(2,4)])
       (simp_all add: same_identity_def writer_def)
  with run d' show ?thesis by blast
qed

lemma transition_runs:
  assumes "writer cr d op rec" "ce_crypto ce = cr" "CanTransitionOperation (op_Status op) to"
    "live_operation to"
    "op' = op\<lparr>op_Status := to, op_Verification := v, op_UpdatedAt := t\<rparr>"
  shows "\<exists>d'. TransitionOperation ce (op_OperationID op) to v released t d = Inr d' \<and> writer cr d' op' rec \<and>
    v01_backups d' = v01_backups d \<and> v01_steps d' = v01_steps d"
proof -
  obtain q where q: "rows_with or_operation_id (op_OperationID op) (v01_operations d) = Some q" "or_payload q = op"
      and ok: "journal_ok cr d"
    using writerE [OF assms(1)] by metis
  have to: "to \<noteq> OperationSucceeded" "to \<noteq> OperationFailed" "to \<noteq> OperationAborted" "to \<noteq> OperationRolledBack"
    using assms(4) by (auto simp: live_operation_iff)
  have rel: "\<not> op_OwnershipReleased op" using assms(1) by (simp add: writer_def)
  have save: "saveOperationTx op' d = Inr (d\<lparr>v01_operations :=
      update_rows or_operation_id (op_OperationID op) (set_operation_payload op') (v01_operations d)\<rparr>)"
    using save_runs [OF ok, of op' q d] q assms(5) by simp
  let ?d = "appendAuditTx (ce_clock ce 0) (op_OperationID op) ''OPERATION_STATE_CHANGED''
      (AuditMap [(''status'', GString (operation_status_text to)),
                 (''verification'', GString (verification_text v)), (''maintenance_released'', GBool released)])
      (d\<lparr>v01_operations := update_rows or_operation_id (op_OperationID op) (set_operation_payload op') (v01_operations d)\<rparr>)"
  have run: "TransitionOperation ce (op_OperationID op) to v released t d = Inr ?d"
    using q to assms(3) save
    by (simp add: TransitionOperation_def getOperationTx_def check_def assms(5))
  have "writer cr ?d op' rec"
    using assms(4,5) rel
    by (intro writer_step [OF assms(1) journal_step.TransitionOperation [OF assms(2) run]])
       (simp_all add: same_identity_def appendAuditTx_def)
  with run show ?thesis by (intro exI [of _ ?d]) (simp add: appendAuditTx_def)
qed


section \<open>Driving the workflow\<close>

lemma FixedWorkflowSteps_length: "length FixedWorkflowSteps = 11"
  by (simp add: FixedWorkflowSteps_def)

text \<open>
  The transactions of one step whose effect the executor sees as expected, in the order the executor commits them, and a sequence of
  steps; \<open>ces k\<close> is what transaction number \<open>k\<close> sees of the clock and of the random source.
\<close>

definition drive_step :: "call_env \<Rightarrow> string \<Rightarrow> string \<Rightarrow> string list \<Rightarrow> gotime \<Rightarrow> db \<Rightarrow> db result" where
  "drive_step ce operationID kind evidence t d =
     and_then (PrepareStep ce operationID kind t d) (\<lambda>(a, d).
     and_then (MarkDispatchPossible ce operationID (sa_StepID a) t d) (\<lambda>d.
     RecordStepObservation ce operationID (sa_StepID a) EffectExpectedObserved AttributionCorrelated evidence t d))"

fun drive_steps :: "(nat \<Rightarrow> call_env) \<Rightarrow> string \<Rightarrow> string list \<Rightarrow> string list \<Rightarrow> gotime \<Rightarrow> nat \<Rightarrow> db \<Rightarrow> db result" where
  "drive_steps ces operationID [] evidence t k d = Inr d"
| "drive_steps ces operationID (kind # kinds) evidence t k d =
     and_then (drive_step (ces k) operationID kind evidence t d) (drive_steps ces operationID kinds evidence t (Suc k))"

lemma previous_acknowledged_append:
  "previous_acknowledged (as @ [a]) \<longleftrightarrow> previous_acknowledged as \<and> sa_EffectState a = EffectExpectedObserved \<and>
     sa_Attribution a = AttributionCorrelated \<and> sa_DispatchState a = Acknowledged"
  by (induction as rule: previous_acknowledged.induct) auto

lemma drive_step_runs:
  assumes "writer cr d op rec" "ce_crypto ce = cr" "previous_acknowledged (op_Attempts op)"
    "length (op_Attempts op) < length (ci_Steps (ir_Intent rec))"
    "ci_Steps (ir_Intent rec) ! length (op_Attempts op) = kind" "kind \<notin> set disabled_steps"
    "NewID ''step'' (ce_random ce 0) \<notin> st_step_id ` set (v01_steps d)"
  shows "\<exists>d' op' a. drive_step ce (op_OperationID op) kind evidence t d = Inr d' \<and> writer cr d' op' rec \<and>
    op_OperationID op' = op_OperationID op \<and> op_Attempts op' = op_Attempts op @ [a] \<and> sa_StepKind a = kind \<and>
    previous_acknowledged (op_Attempts op') \<and>
    map st_step_id (v01_steps d') = map st_step_id (v01_steps d) @ [NewID ''step'' (ce_random ce 0)]"
proof -
  have fresh: "rows_with st_step_id (NewID ''step'' (ce_random ce 0)) (v01_steps d) = None"
    using assms(7) by (force simp: rows_with_def find_None_iff)
  define a where "a = new_attempt (NewID ''step'' (ce_random ce 0)) kind (next_attempt_no kind (op_Attempts op) 1) t"
  obtain d1 op1 where p: "PrepareStep ce (op_OperationID op) kind t d = Inr (a, d1)" "writer cr d1 op1 rec"
      "v01_steps d1 = v01_steps d @ [step_row_of (op_OperationID op) a]" "op1 = op\<lparr>op_Attempts := op_Attempts op @ [a], op_UpdatedAt := t\<rparr>"
    using prepare_runs [OF assms(1-6) fresh a_def refl] by blast
  define b where "b = a\<lparr>sa_DispatchState := DispatchPossible, sa_EffectState := EffectUnknown,
      sa_Attribution := AttributionUnattributed, sa_UpdatedAt := t\<rparr>"
  have "op_Attempts op1 = op_Attempts op @ [a]" "sa_DispatchState a = NotDispatched" "sa_EffectState a = EffectProvenNotApplied"
    using p(4) by (simp_all add: a_def new_attempt_def)
  from mark_runs [OF p(2) assms(2) this refl, of t] obtain d2 op2 where
    m: "MarkDispatchPossible ce (op_OperationID op1) (sa_StepID a) t d1 = Inr d2" "writer cr d2 op2 rec"
       "map st_step_id (v01_steps d2) = map st_step_id (v01_steps d1)"
       "op2 = op1\<lparr>op_Attempts := op_Attempts op @ [b], op_UpdatedAt := t\<rparr>"
    unfolding b_def by blast
  have "op_Attempts op2 = op_Attempts op @ [b]" "sa_DispatchState b = DispatchPossible" using m(4) by (simp_all add: b_def)
  from complete_runs [OF m(2) assms(2) this refl, of evidence t] obtain d3 op3 c where
    c: "RecordStepObservation ce (op_OperationID op2) (sa_StepID b) EffectExpectedObserved AttributionCorrelated evidence t d2 = Inr d3"
       "writer cr d3 op3 rec" "map st_step_id (v01_steps d3) = map st_step_id (v01_steps d2)"
       "op3 = op2\<lparr>op_Attempts := op_Attempts op @ [c], op_UpdatedAt := t\<rparr>"
       "c = b\<lparr>sa_EffectState := EffectExpectedObserved, sa_Attribution := AttributionCorrelated, sa_Evidence := evidence,
          sa_DispatchState := Acknowledged, sa_UpdatedAt := t\<rparr>"
    by blast
  have "drive_step ce (op_OperationID op) kind evidence t d = Inr d3"
    using p(1,4) m(1,4) c(1) by (simp add: drive_step_def b_def)
  moreover have "op_OperationID op3 = op_OperationID op" "op_Attempts op3 = op_Attempts op @ [c]" "sa_StepKind c = kind"
      "previous_acknowledged (op_Attempts op3)"
    using p(4) m(4) c(4,5) assms(3) by (simp_all add: previous_acknowledged_append b_def a_def new_attempt_def)
  moreover have "map st_step_id (v01_steps d3) = map st_step_id (v01_steps d) @ [NewID ''step'' (ce_random ce 0)]"
    using p(3) m(3) c(3) by (simp add: step_row_of_def a_def new_attempt_def)
  ultimately show ?thesis using c(2) by blast
qed

lemma drive_steps_runs:
  assumes "writer cr d op rec" "\<forall>j. ce_crypto (ces j) = cr" "previous_acknowledged (op_Attempts op)"
    "drop (length (op_Attempts op)) (ci_Steps (ir_Intent rec)) = kinds @ rest" "set kinds \<inter> set disabled_steps = {}"
    "inj_on (\<lambda>j. NewID ''step'' (ce_random (ces j) 0)) {k..<k + length kinds}"
    "\<forall>j \<in> {k..<k + length kinds}. NewID ''step'' (ce_random (ces j) 0) \<notin> st_step_id ` set (v01_steps d)"
  shows "\<exists>d' op'. drive_steps ces (op_OperationID op) kinds evidence t k d = Inr d' \<and> writer cr d' op' rec \<and>
    op_OperationID op' = op_OperationID op \<and> previous_acknowledged (op_Attempts op') \<and>
    map sa_StepKind (op_Attempts op') = map sa_StepKind (op_Attempts op) @ kinds"
  using assms
proof (induction kinds arbitrary: d op k)
  case (Cons kind kinds)
  let ?n = "length (op_Attempts op)" and ?new = "NewID ''step'' (ce_random (ces k) 0)"
  have len: "?n < length (ci_Steps (ir_Intent rec))" using Cons.prems(4) by (cases "?n < length (ci_Steps (ir_Intent rec))") auto
  have split: "ci_Steps (ir_Intent rec) ! ?n = kind" "drop (Suc ?n) (ci_Steps (ir_Intent rec)) = kinds @ rest"
    using Cons.prems(4) Cons_nth_drop_Suc [OF len] by auto
  obtain d1 op1 a where s: "drive_step (ces k) (op_OperationID op) kind evidence t d = Inr d1" "writer cr d1 op1 rec"
      "op_OperationID op1 = op_OperationID op" "op_Attempts op1 = op_Attempts op @ [a]" "sa_StepKind a = kind"
      "previous_acknowledged (op_Attempts op1)" "map st_step_id (v01_steps d1) = map st_step_id (v01_steps d) @ [?new]"
    using drive_step_runs [OF Cons.prems(1) _ Cons.prems(3) len split(1), of "ces k" evidence t] Cons.prems(2,5,7) by auto
  have ids: "st_step_id ` set (v01_steps d1) = insert ?new (st_step_id ` set (v01_steps d))"
    using arg_cong [OF s(7), of set] by simp
  have fresh: "\<forall>j \<in> {Suc k..<Suc k + length kinds}. NewID ''step'' (ce_random (ces j) 0) \<notin> st_step_id ` set (v01_steps d1)"
  proof
    fix j assume j: "j \<in> {Suc k..<Suc k + length kinds}"
    then have "NewID ''step'' (ce_random (ces j) 0) \<noteq> ?new" using inj_onD [OF Cons.prems(6), of j k] by auto
    with j Cons.prems(7) show "NewID ''step'' (ce_random (ces j) 0) \<notin> st_step_id ` set (v01_steps d1)"
      unfolding ids by auto
  qed
  have "\<exists>d' op'. drive_steps ces (op_OperationID op1) kinds evidence t (Suc k) d1 = Inr d' \<and> writer cr d' op' rec \<and>
    op_OperationID op' = op_OperationID op1 \<and> previous_acknowledged (op_Attempts op') \<and>
    map sa_StepKind (op_Attempts op') = map sa_StepKind (op_Attempts op1) @ kinds"
    using Cons.prems(2,5) inj_on_subset [OF Cons.prems(6)] split(2) s fresh by (intro Cons.IH) auto
  then show ?case using s by auto
qed auto





end
