(* ===== verification/Strict_Json.thy ===== *)
theory Strict_Json
  imports Go_Text
begin

text \<open>
  The duplicate-key check that every configuration and snapshot file passes before it is decoded,
  \<open>src/internal/strictjson/duplicate.go\<close>, over the token reader of \<open>encoding/json\<close> (\<open>Decoder.Token\<close>
  and \<open>Decoder.More\<close>) with its grammar state. The text is given as its lexemes: the six
  structural characters, strings (decoded, as \<open>Token\<close> returns them), other scalars, and a place
  where no value can be scanned.
\<close>

datatype lexeme =
  LBraceOpen | LBraceClose | LBracketOpen | LBracketClose | LColon | LComma
| LString string | LScalar | LInvalid

section \<open>The token reader\<close>

datatype token_state =
  TopValue | ArrayStart | ArrayValue | ArrayComma | ObjectStart | ObjectKey | ObjectColon | ObjectValue | ObjectComma

datatype token = Delim lexeme | StringToken string | ScalarToken

type_synonym decoder = "token_state \<times> token_state list \<times> lexeme list"

definition tokenValueAllowed :: "token_state \<Rightarrow> bool" where
  "tokenValueAllowed st \<longleftrightarrow> st \<in> {TopValue, ArrayStart, ArrayValue, ObjectValue}"

definition tokenValueEnd :: "token_state \<Rightarrow> token_state" where
  "tokenValueEnd st =
     (if st = ArrayStart \<or> st = ArrayValue then ArrayComma
      else if st = ObjectValue then ObjectComma else st)"

definition io_EOF :: gar_error where "io_EOF = OtherError ''EOF''"

definition token_error :: gar_error where "token_error = OtherError ''invalid character''"

fun open_delim :: "lexeme \<Rightarrow> token_state \<Rightarrow> decoder \<Rightarrow> (token \<times> decoder) result" where
  "open_delim l start (st, stack, ls) =
     (if tokenValueAllowed st then Inr (Delim l, start, st # stack, ls) else Inl token_error)"

fun close_delim :: "lexeme \<Rightarrow> token_state set \<Rightarrow> decoder \<Rightarrow> (token \<times> decoder) result" where
  "close_delim l allowed (st, stack, ls) =
     (case stack of
        outer # rest \<Rightarrow>
          if st \<in> allowed then Inr (Delim l, tokenValueEnd outer, rest, ls) else Inl token_error
      | [] \<Rightarrow> Inl token_error)"

fun scalar_token :: "token \<Rightarrow> decoder \<Rightarrow> (token \<times> decoder) result" where
  "scalar_token tok (st, stack, ls) =
     (if tokenValueAllowed st then Inr (tok, tokenValueEnd st, stack, ls) else Inl token_error)"

fun Token :: "decoder \<Rightarrow> (token \<times> decoder) result" where
  "Token (st, stack, []) = Inl io_EOF"
| "Token (st, stack, LBracketOpen # ls) = open_delim LBracketOpen ArrayStart (st, stack, ls)"
| "Token (st, stack, LBracketClose # ls) = close_delim LBracketClose {ArrayStart, ArrayComma} (st, stack, ls)"
| "Token (st, stack, LBraceOpen # ls) = open_delim LBraceOpen ObjectStart (st, stack, ls)"
| "Token (st, stack, LBraceClose # ls) = close_delim LBraceClose {ObjectStart, ObjectComma} (st, stack, ls)"
| "Token (st, stack, LColon # ls) =
     (if st = ObjectColon then Token (ObjectValue, stack, ls) else Inl token_error)"
| "Token (st, stack, LComma # ls) =
     (if st = ArrayComma then Token (ArrayValue, stack, ls)
      else if st = ObjectComma then Token (ObjectKey, stack, ls) else Inl token_error)"
| "Token (st, stack, LString s # ls) =
     (if st = ObjectStart \<or> st = ObjectKey then Inr (StringToken s, ObjectColon, stack, ls)
      else scalar_token (StringToken s) (st, stack, ls))"
| "Token (st, stack, LScalar # ls) = scalar_token ScalarToken (st, stack, ls)"
| "Token (st, stack, LInvalid # ls) = Inl token_error"

definition More :: "decoder \<Rightarrow> bool" where
  "More d = (case d of (st, stack, ls) \<Rightarrow>
     (case ls of [] \<Rightarrow> False | l # _ \<Rightarrow> l \<noteq> LBracketClose \<and> l \<noteq> LBraceClose))"

section \<open>The check\<close>

text \<open>
  The recursion is bounded by fuel; \<open>None\<close> means that the fuel ran out, which
  \<open>RejectDuplicateKeys_returns\<close> excludes for the fuel that \<open>RejectDuplicateKeys\<close> gives: every
  second call consumes a lexeme.
\<close>

definition wrap_error :: "string \<Rightarrow> gar_error \<Rightarrow> gar_error" where
  "wrap_error context err = OtherError (context @ error_text err)"

definition close_value :: "decoder \<Rightarrow> decoder result option" where
  "close_value d =
     (case Token d of
        Inl err \<Rightarrow> Some (Inl (wrap_error ''invalid JSON closing delimiter: '' err))
      | Inr (_, d) \<Rightarrow> Some (Inr d))"

fun consumeValue :: "nat \<Rightarrow> decoder \<Rightarrow> decoder result option"
  and consumeObject :: "nat \<Rightarrow> string list \<Rightarrow> decoder \<Rightarrow> decoder result option"
  and consumeArray :: "nat \<Rightarrow> decoder \<Rightarrow> decoder result option"
where
  "consumeValue 0 d = None"
| "consumeValue (Suc n) d =
     (case Token d of
        Inl err \<Rightarrow> Some (Inl (wrap_error ''invalid JSON: '' err))
      | Inr (Delim l, d) \<Rightarrow>
          if l = LBraceOpen then consumeObject n [] d
          else if l = LBracketOpen then consumeArray n d
          else Some (Inl (OtherError ''invalid JSON delimiter''))
      | Inr (_, d) \<Rightarrow> Some (Inr d))"
| "consumeObject 0 seen d = None"
| "consumeObject (Suc n) seen d =
     (if \<not> More d then close_value d
      else case Token d of
          Inl err \<Rightarrow> Some (Inl (wrap_error ''invalid JSON object key: '' err))
        | Inr (StringToken key, d) \<Rightarrow>
            if key \<in> set seen then Some (Inl (OtherError (''JSON contains duplicate key '' @ key)))
            else (case consumeValue n d of
                None \<Rightarrow> None
              | Some (Inl err) \<Rightarrow> Some (Inl err)
              | Some (Inr d) \<Rightarrow> consumeObject n (key # seen) d)
        | Inr (_, d) \<Rightarrow> Some (Inl (OtherError ''JSON object key is not a string'')))"
| "consumeArray 0 d = None"
| "consumeArray (Suc n) d =
     (if \<not> More d then close_value d
      else case consumeValue n d of
          None \<Rightarrow> None
        | Some (Inl err) \<Rightarrow> Some (Inl err)
        | Some (Inr d) \<Rightarrow> consumeArray n d)"

definition RejectDuplicateKeys :: "lexeme list \<Rightarrow> unit result option" where
  "RejectDuplicateKeys payload =
     (case consumeValue (2 * length payload + 1) (TopValue, [], payload) of
        None \<Rightarrow> None
      | Some (Inl err) \<Rightarrow> Some (Inl err)
      | Some (Inr d) \<Rightarrow>
          (case Token d of
             Inr _ \<Rightarrow> Some (Inl (OtherError ''JSON contains trailing data''))
           | Inl err \<Rightarrow> if err = io_EOF then Some (Inr ())
                       else Some (Inl (wrap_error ''invalid trailing JSON: '' err))))"

section \<open>Termination\<close>

abbreviation left :: "decoder \<Rightarrow> nat" where
  "left d \<equiv> length (snd (snd d))"

lemma Token_left: "Token d = Inr (tok, d') \<Longrightarrow> left d' < left d"
  by (induction d rule: Token.induct) (auto split: if_splits list.splits)

lemma consumeValue_cases:
  assumes "consumeValue (Suc n) d = Some (Inr d')"
  obtains (brace) d1 where "Token d = Inr (Delim LBraceOpen, d1)" "consumeObject n [] d1 = Some (Inr d')"
  | (bracket) d1 where "Token d = Inr (Delim LBracketOpen, d1)" "consumeArray n d1 = Some (Inr d')"
  | (string) s where "Token d = Inr (StringToken s, d')"
  | (scalar) "Token d = Inr (ScalarToken, d')"
  using assms by (auto split: sum.splits token.splits if_splits)

lemma close_value_Inr: "close_value d = Some (Inr d') \<longleftrightarrow> (\<exists>tok. Token d = Inr (tok, d'))"
  by (auto simp: close_value_def split: sum.splits)

lemma consumeObject_cases:
  assumes "consumeObject (Suc n) seen d = Some (Inr d')"
  obtains (close) tok where "\<not> More d" "Token d = Inr (tok, d')"
  | (member) key d1 d2 where "More d" "Token d = Inr (StringToken key, d1)" "key \<notin> set seen"
      "consumeValue n d1 = Some (Inr d2)" "consumeObject n (key # seen) d2 = Some (Inr d')"
  using assms by (auto simp: close_value_Inr split: sum.splits token.splits if_splits option.splits)

lemma consumeArray_cases:
  assumes "consumeArray (Suc n) d = Some (Inr d')"
  obtains (close) tok where "\<not> More d" "Token d = Inr (tok, d')"
  | (element) d1 where "More d" "consumeValue n d = Some (Inr d1)" "consumeArray n d1 = Some (Inr d')"
  using assms by (auto simp: close_value_Inr split: sum.splits if_splits option.splits)

lemma consume_left:
  "consumeValue n d = Some (Inr d') \<Longrightarrow> left d' < left d"
  "consumeObject n seen d = Some (Inr d') \<Longrightarrow> left d' < left d"
  "consumeArray n d = Some (Inr d') \<Longrightarrow> left d' < left d"
proof (induction n arbitrary: seen d d')
  case (Suc n)
  case 1
  then show ?case
  proof (cases rule: consumeValue_cases)
    case (brace d1)
    then show ?thesis using Token_left [OF brace(1)] Suc(2) [OF brace(2)] by simp
  next
    case (bracket d1)
    then show ?thesis using Token_left [OF bracket(1)] Suc(3) [OF bracket(2)] by simp
  qed (simp_all add: Token_left)
next
  case (Suc n)
  case 2
  then show ?case
  proof (cases rule: consumeObject_cases)
    case (member key d1 d2)
    then show ?thesis
      using Token_left [OF member(2)] Suc(1) [OF member(4)] Suc(2) [OF member(5)] by simp
  qed (simp_all add: Token_left)
next
  case (Suc n)
  case 3
  then show ?case
  proof (cases rule: consumeArray_cases)
    case (element d1)
    then show ?thesis using Suc(1) [OF element(2)] Suc(3) [OF element(3)] by simp
  qed (simp_all add: Token_left)
qed simp_all

lemma consume_returns:
  "2 * left d < n \<Longrightarrow> consumeValue n d \<noteq> None"
  "2 * left d + 1 < n \<Longrightarrow> consumeObject n seen d \<noteq> None"
  "2 * left d + 1 < n \<Longrightarrow> consumeArray n d \<noteq> None"
proof (induction n arbitrary: seen d)
  case (Suc n)
  case 1
  have "consumeObject n [] d1 \<noteq> None \<and> consumeArray n d1 \<noteq> None" if "Token d = Inr (tok, d1)" for tok d1
    using Suc(2) [of d1 "[]"] Suc(3) [of d1] Token_left [OF that] 1 by simp
  then show ?case by (auto split: sum.split token.split)
next
  case (Suc n)
  case 2
  have "consumeValue n d1 \<noteq> None \<and> (\<forall>d2 keys. consumeValue n d1 = Some (Inr d2) \<longrightarrow> consumeObject n keys d2 \<noteq> None)"
    if "Token d = Inr (tok, d1)" for tok d1
  proof -
    have "consumeObject n keys d2 \<noteq> None" if "consumeValue n d1 = Some (Inr d2)" for d2 keys
      using Suc(2) [of d2 keys] consume_left(1) [OF that] Token_left [OF \<open>Token d = Inr (tok, d1)\<close>] 2 by simp
    moreover have "consumeValue n d1 \<noteq> None" using Suc(1) [of d1] Token_left [OF that] 2 by simp
    ultimately show ?thesis by blast
  qed
  then show ?case
    by (auto simp: close_value_def split: sum.split token.split option.split)
next
  case (Suc n)
  case 3
  have "consumeArray n d2 \<noteq> None" if "consumeValue n d = Some (Inr d2)" for d2
    using Suc(3) [of d2] consume_left(1) [OF that] 3 by simp
  moreover have "consumeValue n d \<noteq> None" using Suc(1) [of d] 3 by simp
  ultimately show ?case by (auto simp: close_value_def split: sum.split option.split)
qed simp_all

lemma RejectDuplicateKeys_returns: "\<exists>r. RejectDuplicateKeys payload = Some r"
  using consume_returns(1) [of "(TopValue, [], payload)" "2 * length payload + 1"]
  by (auto simp: RejectDuplicateKeys_def split: option.split sum.split)


section \<open>What the check accepts\<close>

datatype json = JString string | JScalar | JArray "json list" | JObject "(string \<times> json) list"

fun print :: "json \<Rightarrow> lexeme list"
  and print_elements :: "json list \<Rightarrow> lexeme list"
  and print_members :: "(string \<times> json) list \<Rightarrow> lexeme list"
where
  "print (JString s) = [LString s]"
| "print JScalar = [LScalar]"
| "print (JArray js) = LBracketOpen # drop 1 (print_elements js) @ [LBracketClose]"
| "print (JObject ms) = LBraceOpen # drop 1 (print_members ms) @ [LBraceClose]"
| "print_elements [] = []"
| "print_elements (j # js) = LComma # print j @ print_elements js"
| "print_members [] = []"
| "print_members ((k, j) # ms) = LComma # LString k # LColon # print j @ print_members ms"

fun unique_keys :: "json \<Rightarrow> bool" where
  "unique_keys (JString s) = True"
| "unique_keys JScalar = True"
| "unique_keys (JArray js) = (\<forall>j \<in> set js. unique_keys j)"
| "unique_keys (JObject ms) = (distinct (map fst ms) \<and> (\<forall>(k, j) \<in> set ms. unique_keys j))"

text \<open>The states in which a value is read, what comes before it, and the state it leaves.\<close>

definition lead :: "token_state \<Rightarrow> lexeme list" where
  "lead st = (if st = ArrayComma \<or> st = ObjectComma then [LComma] else if st = ObjectColon then [LColon] else [])"

definition value_state :: "token_state \<Rightarrow> token_state" where
  "value_state st = (if st = ArrayComma then ArrayValue else if st = ObjectColon then ObjectValue else st)"

definition reads_value :: "token_state \<Rightarrow> bool" where
  "reads_value st \<longleftrightarrow> st \<in> {TopValue, ArrayStart, ArrayComma, ObjectColon}"

lemmas state_defs = lead_def value_state_def reads_value_def tokenValueAllowed_def tokenValueEnd_def

lemma Token_value:
  assumes "reads_value st"
  shows "Token (st, stack, lead st @ LBraceOpen # ls) = Inr (Delim LBraceOpen, ObjectStart, value_state st # stack, ls)"
    "Token (st, stack, lead st @ LBracketOpen # ls) = Inr (Delim LBracketOpen, ArrayStart, value_state st # stack, ls)"
    "Token (st, stack, lead st @ LString s # ls) = Inr (StringToken s, tokenValueEnd (value_state st), stack, ls)"
    "Token (st, stack, lead st @ LScalar # ls) = Inr (ScalarToken, tokenValueEnd (value_state st), stack, ls)"
  using assms by (auto simp: state_defs)

lemma Token_value_cases:
  assumes "reads_value st" "Token (st, stack, ls) = Inr (tok, d)"
  obtains (brace) r where "tok = Delim LBraceOpen" "ls = lead st @ LBraceOpen # r" "d = (ObjectStart, value_state st # stack, r)"
  | (bracket) r where "tok = Delim LBracketOpen" "ls = lead st @ LBracketOpen # r" "d = (ArrayStart, value_state st # stack, r)"
  | (string) s r where "tok = StringToken s" "ls = lead st @ LString s # r" "d = (tokenValueEnd (value_state st), stack, r)"
  | (scalar) r where "tok = ScalarToken" "ls = lead st @ LScalar # r" "d = (tokenValueEnd (value_state st), stack, r)"
  | (close) l where "tok = Delim l" "l = LBracketClose \<or> l = LBraceClose"
proof -
  note shape = that
  have at_value: thesis if v: "tokenValueAllowed st'" "value_state st = st'" "ls = lead st @ ls'"
      "Token (st', stack, ls') = Inr (tok, d)" for st' ls'
  proof (cases ls')
    case (Cons l r)
    with v shape show thesis
      by (cases l) (auto simp: tokenValueAllowed_def split: if_splits list.splits)
  qed (use v in simp)
  show thesis
  proof (cases "st = TopValue \<or> st = ArrayStart")
    case True
    then show thesis using at_value [of st ls] assms by (auto simp: state_defs)
  next
    case False
    then have st: "st = ArrayComma \<or> st = ObjectColon" using assms(1) by (auto simp: reads_value_def)
    show thesis
    proof (cases ls)
      case (Cons l r)
      show thesis
        using assms st Cons at_value [of "value_state st" r] shape(5)
        by (cases l) (auto simp: state_defs split: if_splits list.splits)
    qed (use assms in simp)
  qed
qed


definition body :: "token_state \<Rightarrow> lexeme list \<Rightarrow> lexeme list" where
  "body st ls = (if st = ArrayStart \<or> st = ObjectStart then drop 1 ls else ls)"

lemma Token_close:
  assumes "\<not> More (st, outer # stack, ls)" "Token (st, outer # stack, ls) = Inr (tok, d)"
  shows "st \<in> {ArrayStart, ArrayComma} \<Longrightarrow> \<exists>r. ls = LBracketClose # r \<and> d = (tokenValueEnd outer, stack, r)"
    "st \<in> {ObjectStart, ObjectComma} \<Longrightarrow> \<exists>r. ls = LBraceClose # r \<and> d = (tokenValueEnd outer, stack, r)"
proof -
  obtain l r where "ls = l # r" "l = LBracketClose \<or> l = LBraceClose"
    using assms by (cases ls) (auto simp: More_def)
  with assms(2) show "st \<in> {ArrayStart, ArrayComma} \<Longrightarrow> \<exists>r. ls = LBracketClose # r \<and> d = (tokenValueEnd outer, stack, r)"
    "st \<in> {ObjectStart, ObjectComma} \<Longrightarrow> \<exists>r. ls = LBraceClose # r \<and> d = (tokenValueEnd outer, stack, r)"
    by (auto split: if_splits)
qed

lemma Token_key:
  assumes "st \<in> {ObjectStart, ObjectComma}" "Token (st, stack, ls) = Inr (StringToken key, d)"
  shows "\<exists>r. ls = lead st @ LString key # r \<and> d = (ObjectColon, stack, r)"
proof (cases ls)
  case (Cons l r)
  show ?thesis
  proof (cases "st = ObjectStart")
    case True
    with assms(2) Cons show ?thesis
      by (cases l) (auto simp: lead_def tokenValueAllowed_def split: if_splits list.splits)
  next
    case False
    then have st: "st = ObjectComma" using assms(1) by simp
    show ?thesis
    proof (cases r)
      case Nil
      with assms(2) Cons st show ?thesis by (cases l) (auto simp: tokenValueAllowed_def split: if_splits list.splits)
    next
      case (Cons l' r')
      with assms(2) \<open>ls = l # r\<close> st show ?thesis
        by (cases l; cases l') (auto simp: lead_def tokenValueAllowed_def split: if_splits list.splits)
    qed
  qed
qed (use assms in simp)

lemma consume_sound:
  "consumeValue n (st, stack, ls) = Some (Inr d) \<Longrightarrow> reads_value st \<Longrightarrow>
     \<exists>j r. ls = lead st @ print j @ r \<and> unique_keys j \<and> d = (tokenValueEnd (value_state st), stack, r)"
  "consumeObject n seen (st, outer # stack, ls) = Some (Inr d) \<Longrightarrow> st \<in> {ObjectStart, ObjectComma} \<Longrightarrow>
     \<exists>ms r. ls = body st (print_members ms) @ LBraceClose # r \<and> unique_keys (JObject ms) \<and>
       set seen \<inter> fst ` set ms = {} \<and> d = (tokenValueEnd outer, stack, r)"
  "consumeArray n (st, outer # stack, ls) = Some (Inr d) \<Longrightarrow> st \<in> {ArrayStart, ArrayComma} \<Longrightarrow>
     \<exists>js r. ls = body st (print_elements js) @ LBracketClose # r \<and> unique_keys (JArray js) \<and>
       d = (tokenValueEnd outer, stack, r)"
proof (induction n arbitrary: st stack ls d seen outer)
  case (Suc n)
  case 1
  from 1(1) show ?case
  proof (cases rule: consumeValue_cases)
    case (brace d1)
    obtain r where r: "ls = lead st @ LBraceOpen # r" "d1 = (ObjectStart, value_state st # stack, r)"
      using Token_value_cases [OF 1(2) brace(1)] by blast
    obtain ms r' where "r = body ObjectStart (print_members ms) @ LBraceClose # r'" "unique_keys (JObject ms)"
        "d = (tokenValueEnd (value_state st), stack, r')"
      using Suc(2) brace(2) unfolding r(2) by blast
    with r(1) show ?thesis by (intro exI [of _ "JObject ms"] exI [of _ r']) (simp add: body_def)
  next
    case (bracket d1)
    obtain r where r: "ls = lead st @ LBracketOpen # r" "d1 = (ArrayStart, value_state st # stack, r)"
      using Token_value_cases [OF 1(2) bracket(1)] by blast
    obtain js r' where "r = body ArrayStart (print_elements js) @ LBracketClose # r'" "unique_keys (JArray js)"
        "d = (tokenValueEnd (value_state st), stack, r')"
      using Suc(3) bracket(2) unfolding r(2) by blast
    with r(1) show ?thesis by (intro exI [of _ "JArray js"] exI [of _ r']) (simp add: body_def)
  next
    case (string s)
    obtain r where "ls = lead st @ LString s # r" "d = (tokenValueEnd (value_state st), stack, r)"
      using Token_value_cases [OF 1(2) string] by blast
    then show ?thesis by (intro exI [of _ "JString s"] exI [of _ r]) simp
  next
    case scalar
    obtain r where "ls = lead st @ LScalar # r" "d = (tokenValueEnd (value_state st), stack, r)"
      using Token_value_cases [OF 1(2) scalar] by blast
    then show ?thesis by (intro exI [of _ JScalar] exI [of _ r]) simp
  qed
next
  case (Suc n)
  case 2
  from 2(1) show ?case
  proof (cases rule: consumeObject_cases)
    case (close tok)
    then obtain r where "ls = LBraceClose # r" "d = (tokenValueEnd outer, stack, r)"
      using Token_close(2) 2(2) by blast
    then show ?thesis by (intro exI [of _ "[]"] exI [of _ r]) (simp add: body_def)
  next
    case (member key d1 d2)
    obtain r where r: "ls = lead st @ LString key # r" "d1 = (ObjectColon, outer # stack, r)"
      using Token_key [OF 2(2) member(2)] by blast
    obtain j r1 where j: "r = LColon # print j @ r1" "unique_keys j" "d2 = (ObjectComma, outer # stack, r1)"
      using Suc(1) [of ObjectColon "outer # stack" r d2] member(4) unfolding r(2) by (auto simp: state_defs)
    obtain ms r2 where ms: "r1 = print_members ms @ LBraceClose # r2" "unique_keys (JObject ms)"
        "set (key # seen) \<inter> fst ` set ms = {}" "d = (tokenValueEnd outer, stack, r2)"
      using Suc(2) [of "key # seen" ObjectComma outer stack r1 d] member(5) unfolding j(3) by (auto simp: body_def)
    show ?thesis
      using r(1) j ms 2(2) member(3)
      by (intro exI [of _ "(key, j) # ms"] exI [of _ r2]) (auto simp: body_def lead_def)
  qed
next
  case (Suc n)
  case 3
  from 3(1) show ?case
  proof (cases rule: consumeArray_cases)
    case (close tok)
    then obtain r where "ls = LBracketClose # r" "d = (tokenValueEnd outer, stack, r)"
      using Token_close(1) 3(2) by blast
    then show ?thesis by (intro exI [of _ "[]"] exI [of _ r]) (simp add: body_def)
  next
    case (element d1)
    obtain j r where j: "ls = lead st @ print j @ r" "unique_keys j" "d1 = (ArrayComma, outer # stack, r)"
      using Suc(1) [of st "outer # stack" ls d1] element(2) 3(2) by (auto simp: state_defs)
    obtain js r1 where js: "r = print_elements js @ LBracketClose # r1" "unique_keys (JArray js)"
        "d = (tokenValueEnd outer, stack, r1)"
      using Suc(3) [of ArrayComma outer stack r d] element(3) unfolding j(3) by (auto simp: body_def)
    show ?thesis
      using j js 3(2) by (intro exI [of _ "j # js"] exI [of _ r1]) (auto simp: body_def lead_def)
  qed
qed simp_all


text \<open>A printed value is read to its end, or refused for a repeated key.\<close>

definition outcome :: "bool \<Rightarrow> decoder \<Rightarrow> decoder result option \<Rightarrow> bool" where
  "outcome ok d r \<longleftrightarrow> (if ok then r = Some (Inr d) else \<exists>err. r = Some (Inl err))"

lemma More_body:
  "More (st, stack, l # ls) \<longleftrightarrow> l \<noteq> LBracketClose \<and> l \<noteq> LBraceClose"
  by (simp add: More_def)

lemma print_first: "\<exists>l ls. print j = l # ls \<and> l \<noteq> LBracketClose \<and> l \<noteq> LBraceClose"
  by (cases j) auto

lemma More_value: "reads_value st \<Longrightarrow> More (st, stack, lead st @ print j @ r)"
  using print_first [of j] by (auto simp: More_def lead_def)

lemma Token_end:
  "st \<in> {ArrayStart, ArrayComma} \<Longrightarrow> Token (st, outer # stack, LBracketClose # r) = Inr (Delim LBracketClose, tokenValueEnd outer, stack, r)"
  "st \<in> {ObjectStart, ObjectComma} \<Longrightarrow> Token (st, outer # stack, LBraceClose # r) = Inr (Delim LBraceClose, tokenValueEnd outer, stack, r)"
  by auto

lemma Token_member:
  "st \<in> {ObjectStart, ObjectComma} \<Longrightarrow>
   Token (st, stack, lead st @ LString key # r) = Inr (StringToken key, ObjectColon, stack, r)"
  by (auto simp: lead_def)

lemma consume_complete:
  "2 * length (print j) \<le> n \<Longrightarrow> reads_value st \<Longrightarrow>
     outcome (unique_keys j) (tokenValueEnd (value_state st), stack, r)
       (consumeValue n (st, stack, lead st @ print j @ r))"
  "2 * length (print_elements js) < n \<Longrightarrow> st \<in> {ArrayStart, ArrayComma} \<Longrightarrow>
     outcome (unique_keys (JArray js)) (tokenValueEnd outer, stack, r)
       (consumeArray n (st, outer # stack, body st (print_elements js) @ LBracketClose # r))"
  "2 * length (print_members ms) < n \<Longrightarrow> st \<in> {ObjectStart, ObjectComma} \<Longrightarrow>
     outcome (unique_keys (JObject ms) \<and> set seen \<inter> fst ` set ms = {}) (tokenValueEnd outer, stack, r)
       (consumeObject n seen (st, outer # stack, body st (print_members ms) @ LBraceClose # r))"
proof (induction j and js and ms arbitrary: n st stack r and n st stack r outer and n st stack r outer seen
    rule: print_print_elements_print_members.induct)
  case (3 js)
  then obtain m where m: "n = Suc m" by (cases n) auto
  have "outcome (unique_keys (JArray js)) (tokenValueEnd (value_state st), stack, r)
      (consumeArray m (ArrayStart, value_state st # stack, body ArrayStart (print_elements js) @ LBracketClose # r))"
    using 3(2) m by (intro 3(1)) (cases js; auto)+
  then show ?case using m Token_value(2) [OF 3(3)] by (simp add: body_def)
next
  case (4 ms)
  then obtain m where m: "n = Suc m" by (cases n) auto
  have "outcome (unique_keys (JObject ms) \<and> set [] \<inter> fst ` set ms = {}) (tokenValueEnd (value_state st), stack, r)
      (consumeObject m [] (ObjectStart, value_state st # stack, body ObjectStart (print_members ms) @ LBraceClose # r))"
    using 4(2) m by (intro 4(1)) (cases ms; auto)+
  then show ?case using m Token_value(1) [OF 4(3)] by (simp add: body_def)
next
  case 5
  then obtain m where "n = Suc m" by (cases n) auto
  then show ?case using 5(2) Token_end(1) by (auto simp: body_def outcome_def More_body close_value_def)
next
  case (6 j js)
  then obtain m where m: "n = Suc m" by (cases n) auto
  have st: "reads_value st" "tokenValueEnd (value_state st) = ArrayComma" using 6(4) by (auto simp: state_defs)
  have shown: "body st (print_elements (j # js)) @ LBracketClose # r = lead st @ print j @ print_elements js @ LBracketClose # r"
    using 6(4) by (auto simp: body_def lead_def)
  let ?r = "print_elements js @ LBracketClose # r"
  have v: "outcome (unique_keys j) (ArrayComma, outer # stack, ?r) (consumeValue m (st, outer # stack, lead st @ print j @ ?r))"
    using 6(1) [OF _ st(1), of m] 6(3) m st(2) by simp
  have e: "outcome (unique_keys (JArray js)) (tokenValueEnd outer, stack, r) (consumeArray m (ArrayComma, outer # stack, ?r))"
    using 6(2) [of m ArrayComma] 6(3) m print_first [of j] by (auto simp: body_def)
  show ?case unfolding m shown using v e More_value [OF st(1)] by (auto simp: outcome_def split: if_splits)
next
  case 7
  then obtain m where "n = Suc m" by (cases n) auto
  then show ?case using 7(2) Token_end(2) by (auto simp: body_def outcome_def More_body close_value_def)
next
  case (8 k j ms)
  then obtain m where m: "n = Suc m" by (cases n) auto
  have shown: "body st (print_members ((k, j) # ms)) @ LBraceClose # r =
      lead st @ LString k # LColon # print j @ print_members ms @ LBraceClose # r"
    using 8(4) by (auto simp: body_def lead_def)
  let ?r = "print_members ms @ LBraceClose # r"
  have more: "More (st, outer # stack, lead st @ LString k # LColon # print j @ ?r)"
    using 8(4) by (auto simp: More_def lead_def)
  have v: "outcome (unique_keys j) (ObjectComma, outer # stack, ?r)
      (consumeValue m (ObjectColon, outer # stack, LColon # print j @ ?r))"
    using 8(1) [of m ObjectColon "outer # stack" ?r] 8(3) m by (simp add: state_defs)
  have e: "outcome (unique_keys (JObject ms) \<and> set (k # seen) \<inter> fst ` set ms = {}) (tokenValueEnd outer, stack, r)
      (consumeObject m (k # seen) (ObjectComma, outer # stack, ?r))"
    using 8(2) [of m ObjectComma "k # seen" outer stack r] 8(3) m by (simp add: body_def)
  show ?case
    unfolding m shown using v e more Token_member [OF 8(4), of "outer # stack" k "LColon # print j @ ?r"]
    by (auto simp: outcome_def split: if_splits)
next
  case (1 s)
  then obtain m where "n = Suc m" by (cases n) auto
  then show ?case using Token_value(3) [OF 1(2)] by (simp add: outcome_def)
next
  case 2
  then obtain m where "n = Suc m" by (cases n) auto
  then show ?case using Token_value(4) [OF 2(2)] by (simp add: outcome_def)
qed

lemma Token_top: "Token (TopValue, [], ls) = Inl io_EOF \<longleftrightarrow> ls = []"
  by (cases ls rule: list.exhaust; cases "hd ls") (auto simp: tokenValueAllowed_def io_EOF_def token_error_def)

lemma RejectDuplicateKeys_print:
  "RejectDuplicateKeys (print j) = Some (Inr ()) \<longleftrightarrow> unique_keys j"
proof -
  have "outcome (unique_keys j) (TopValue, [], []) (consumeValue (2 * length (print j) + 1) (TopValue, [], print j))"
    using consume_complete(1) [of j "2 * length (print j) + 1" TopValue "[]" "[]"]
    by (simp add: state_defs del: consumeValue.simps)
  then show ?thesis
    by (auto simp: RejectDuplicateKeys_def outcome_def io_EOF_def split: if_splits)
qed

lemma strict_json_exact_iff:
  "RejectDuplicateKeys payload = Some (Inr ()) \<longleftrightarrow> (\<exists>j. payload = print j \<and> unique_keys j)"
proof
  assume "RejectDuplicateKeys payload = Some (Inr ())"
  then obtain d err where d: "consumeValue (2 * length payload + 1) (TopValue, [], payload) = Some (Inr d)"
      "Token d = Inl io_EOF"
    unfolding RejectDuplicateKeys_def by (auto split: option.splits sum.splits if_splits)
  obtain j r where j: "payload = print j @ r" "unique_keys j" "d = (TopValue, [], r)"
    using consume_sound(1) [OF d(1)] by (auto simp: state_defs)
  then show "\<exists>j. payload = print j \<and> unique_keys j" using d(2) Token_top by auto
qed (auto simp: RejectDuplicateKeys_print)

text \<open>
  C33. The duplicate-key check accepts exactly the texts of JSON values in which no object, at any
  depth, repeats a member name: an accepted text is such a value and nothing after it, and every
  printed value is accepted or refused by that criterion alone. The check always returns.
\<close>

theorem strict_json_exact:
  "(RejectDuplicateKeys payload = Some (Inr ()) \<longleftrightarrow> (\<exists>j. payload = print j \<and> unique_keys j)) \<and>
   (RejectDuplicateKeys (print j) = Some (Inr ()) \<longleftrightarrow> unique_keys j) \<and>
   RejectDuplicateKeys payload \<noteq> None"
  using strict_json_exact_iff RejectDuplicateKeys_print RejectDuplicateKeys_returns by auto

end
