(* ===== verification/Local_Files.thy ===== *)
theory Local_Files
  imports Strict_Json "HOL-Library.Word"
begin

text \<open>
  Files that the owner controls: the ownership checks of \<open>src/internal/localfile/security.go\<close> and
  of \<open>admission/state.go\<close>, and the strict decoding that the four configuration loaders share.

  The operating system is the record \<open>file_access\<close>. Its fields are unrelated functions, so that
  what \<open>Lstat\<close> saw and what is read later need not agree: no theorem rests on the file staying
  the same. A mode is Go's \<open>os.FileMode\<close>, 32 bits; the
  octal masks 0777 and 077 are \<open>mask 9\<close> and \<open>mask 6\<close>. The reflective decoding of \<open>encoding/json\<close> into
  a struct, with unknown fields refused, is the record \<open>json_reader\<close>.
\<close>

unbundle bit_operations_syntax

section \<open>Modes\<close>

type_synonym file_mode = "32 word"

definition ModeDir :: file_mode where "ModeDir = push_bit 31 1"
definition ModeSymlink :: file_mode where "ModeSymlink = push_bit 27 1"
definition ModeSocket :: file_mode where "ModeSocket = push_bit 24 1"

text \<open>Directory, symbolic link, device, named pipe, socket, character device, irregular.\<close>

definition ModeType :: file_mode where
  "ModeType = ModeDir OR ModeSymlink OR push_bit 26 1 OR push_bit 25 1 OR ModeSocket OR push_bit 21 1 OR push_bit 19 1"

definition IsRegular :: "file_mode \<Rightarrow> bool" where
  "IsRegular m \<longleftrightarrow> m AND ModeType = 0"

definition IsDir :: "file_mode \<Rightarrow> bool" where
  "IsDir m \<longleftrightarrow> m AND ModeDir \<noteq> 0"

definition Perm :: "file_mode \<Rightarrow> file_mode" where
  "Perm m = m AND mask 9"

record file_status =
  st_mode :: file_mode
  st_uid :: int
  st_size :: int
  st_dev :: nat
  st_ino :: nat

record file_access =
  fa_Lstat :: "string \<Rightarrow> file_status result"
  fa_Stat :: "string \<Rightarrow> file_status result"
  fa_Fstat :: "string \<Rightarrow> file_status result"
  fa_OpenNoFollow :: "string \<Rightarrow> unit result"
  fa_ReadFile :: "string \<Rightarrow> nat list result"
  fa_EvalSymlinks :: "string \<Rightarrow> string result"
  fa_Geteuid :: int

section \<open>Ownership\<close>

definition ValidateOwnerOnlyRegular :: "file_access \<Rightarrow> string \<Rightarrow> unit result" where
  "ValidateOwnerOnlyRegular fa path =
     and_then (fa_Lstat fa path) (\<lambda>info.
     and_then (check (\<not> (st_mode info AND ModeSymlink \<noteq> 0 \<or> \<not> IsRegular (st_mode info)))
       (OtherError (path @ '' must be a regular non-symlink file''))) (\<lambda>_.
     and_then (check (Perm (st_mode info) AND mask 6 = 0)
       (OtherError (path @ '' must not grant group or other access''))) (\<lambda>_.
     check (st_uid info = fa_Geteuid fa)
       (OtherError (path @ '' must be owned by the current OS user'')))))"

definition validateOwnerDirectory :: "file_access \<Rightarrow> string \<Rightarrow> unit result" where
  "validateOwnerDirectory fa path =
     and_then (fa_Lstat fa path) (\<lambda>info.
     and_then (check (\<not> (st_mode info AND ModeSymlink \<noteq> 0 \<or> \<not> IsDir (st_mode info)))
       (OtherError (path @ '' must be a non-symlink directory''))) (\<lambda>_.
     and_then (check (Perm (st_mode info) AND mask 6 = 0)
       (OtherError (path @ '' must not grant group or other access''))) (\<lambda>_.
     check (st_uid info = fa_Geteuid fa)
       (OtherError (path @ '' must be owned by current OS user'')))))"

text \<open>Group and other have no permission bit: bits 0 to 5 of the mode are clear.\<close>

lemma group_other_clear: "Perm m AND mask 6 = 0 \<longleftrightarrow> (\<forall>n < 6. \<not> bit m n)"
proof -
  have "Perm m AND mask 6 = take_bit 6 m"
    by (rule bit_word_eqI) (auto simp: Perm_def bit_simps)
  then show ?thesis by (auto simp: bit_eq_iff bit_take_bit_iff)
qed

lemma regular_no_link: "IsRegular m \<Longrightarrow> m AND ModeSymlink = 0"
proof -
  assume "IsRegular m"
  then have "\<not> bit (m AND ModeType) 27" by (simp add: IsRegular_def)
  then have "\<not> bit m 27" by (simp add: ModeType_def ModeSymlink_def ModeDir_def ModeSocket_def bit_simps)
  then have "\<not> bit (m AND ModeSymlink) n" for n
    by (simp only: ModeSymlink_def bit_and_iff bit_push_bit_iff bit_1_iff) (metis diff_is_0_eq le_antisym)
  then show ?thesis by (intro bit_word_eqI) simp
qed

section \<open>Strict decoding\<close>

record 'a json_reader =
  jr_lexemes :: "nat list \<Rightarrow> lexeme list"
  jr_Decode :: "nat list \<Rightarrow> 'a result"
  jr_trailing :: "nat list \<Rightarrow> bool"

definition reject_duplicates :: "lexeme list \<Rightarrow> unit result" where
  "reject_duplicates ls = (case RejectDuplicateKeys ls of Some r \<Rightarrow> r | None \<Rightarrow> Inl io_EOF)"

definition wrap :: "string \<Rightarrow> 'a result \<Rightarrow> 'a result" where
  "wrap context r = (case r of Inl err \<Rightarrow> Inl (wrap_error context err) | Inr x \<Rightarrow> Inr x)"

lemma wrap_Inr_iff [simp]: "wrap context r = Inr x \<longleftrightarrow> r = Inr x"
  by (cases r) (auto simp: wrap_def)

definition decode_payload :: "string \<Rightarrow> 'a json_reader \<Rightarrow> nat list \<Rightarrow> 'a result" where
  "decode_payload name jr payload =
     and_then (wrap (''decode '' @ name @ '': '') (reject_duplicates (jr_lexemes jr payload))) (\<lambda>_.
     and_then (wrap (''decode '' @ name @ '': '') (jr_Decode jr payload)) (\<lambda>config.
     and_then (check (\<not> jr_trailing jr payload) (OtherError (name @ '' contains trailing JSON''))) (\<lambda>_.
     Inr config)))"

definition MiB :: nat where "MiB = 2 ^ 20"

text \<open>
  What an accepted file was: a regular file of the owner that nobody else can open, at most
  1 MiB, whose text is one JSON value without repeated keys.
\<close>

definition owner_file :: "file_access \<Rightarrow> 'a json_reader \<Rightarrow> string \<Rightarrow> 'a \<Rightarrow> bool" where
  "owner_file fa jr path c \<longleftrightarrow>
     (\<exists>info payload j. fa_Lstat fa path = Inr info \<and> IsRegular (st_mode info) \<and>
        (\<forall>n < 6. \<not> bit (st_mode info) n) \<and> st_uid info = fa_Geteuid fa \<and>
        fa_ReadFile fa path = Inr payload \<and> length payload \<le> MiB \<and>
        jr_lexemes jr payload = print j \<and> unique_keys j \<and> jr_Decode jr payload = Inr c \<and>
        \<not> jr_trailing jr payload)"

lemma ValidateOwnerOnlyRegular_iff:
  "ValidateOwnerOnlyRegular fa path = Inr u \<longleftrightarrow>
   (\<exists>info. fa_Lstat fa path = Inr info \<and> IsRegular (st_mode info) \<and>
      (\<forall>n < 6. \<not> bit (st_mode info) n) \<and> st_uid info = fa_Geteuid fa)"
  using regular_no_link by (auto simp: ValidateOwnerOnlyRegular_def group_other_clear)

lemma reject_duplicates_iff: "reject_duplicates ls = Inr u \<longleftrightarrow> (\<exists>j. ls = print j \<and> unique_keys j)"
  using strict_json_exact_iff [of ls] RejectDuplicateKeys_returns [of ls]
  by (auto simp: reject_duplicates_def)

lemma decode_payload_Inr:
  "decode_payload name jr payload = Inr c \<longleftrightarrow>
   (\<exists>j. jr_lexemes jr payload = print j \<and> unique_keys j) \<and> jr_Decode jr payload = Inr c \<and> \<not> jr_trailing jr payload"
  by (auto simp: decode_payload_def reject_duplicates_iff)

end
