(* ===== verification/Go_Net.thy ===== *)
theory Go_Net
  imports Go_Text
begin

text \<open>
  The parts of Go's \<open>net\<close> package that the address checks use: \<open>SplitHostPort\<close>, \<open>ParseIP\<close> (an
  address is its 16 bytes, an IPv4 address in the mapped form), \<open>To4\<close> and \<open>IsLoopback\<close>. The checks
  themselves are \<open>validateLiteralAddress\<close> and \<open>networkFor\<close> of \<open>src/internal/admission\<close> and
  \<open>ValidateListenAddress\<close> of \<open>src/internal/mcpserver/server.go\<close>.
\<close>

section \<open>Host and port\<close>

definition addr_error :: "string \<Rightarrow> string \<Rightarrow> 'a result" where
  "addr_error why hostport = Inl (OtherError (''address '' @ hostport @ '': '' @ why))"

definition SplitHostPort :: "string \<Rightarrow> (string \<times> string) result" where
  "SplitHostPort hostport =
     (case LastIndexByte hostport CHR '':'' of
        None \<Rightarrow> addr_error ''missing port in address'' hostport
      | Some i \<Rightarrow>
          and_then
            (if hd hostport = CHR ''['' then
               (case IndexByte hostport CHR '']'' of
                  None \<Rightarrow> addr_error ''missing bracket in address'' hostport
                | Some e \<Rightarrow>
                    if e + 1 = length hostport then addr_error ''missing port in address'' hostport
                    else if e + 1 = i then Inr (take (e - 1) (drop 1 hostport), 1, e + 1)
                    else if hostport ! (e + 1) = CHR '':'' then addr_error ''too many colons in address'' hostport
                    else addr_error ''missing port in address'' hostport)
             else if CHR '':'' \<in> set (take i hostport) then addr_error ''too many colons in address'' hostport
             else Inr (take i hostport, 0, 0)) (\<lambda>(host, j, k).
          if CHR ''['' \<in> set (drop j hostport) then addr_error ''unexpected opening bracket in address'' hostport
          else if CHR '']'' \<in> set (drop k hostport) then addr_error ''unexpected closing bracket in address'' hostport
          else Inr (host, drop (i + 1) hostport)))"

section \<open>Addresses\<close>

definition octet :: "string \<Rightarrow> nat option" where
  "octet s =
     (if s = '''' \<or> \<not> list_all ascii_digit s \<or> (hd s = CHR ''0'' \<and> 1 < length s) \<or> 255 < digits_value s
      then None else Some (nat (digits_value s)))"

definition parse_ipv4 :: "string \<Rightarrow> nat list option" where
  "parse_ipv4 s =
     (let os = map octet (split_on CHR ''.'' s)
      in if length os = 4 \<and> None \<notin> set os then Some (map the os) else None)"

definition hex_number :: "string \<Rightarrow> nat" where
  "hex_number s = foldl (\<lambda>n c. 16 * n + the (hex_value c)) 0 s"

text \<open>The loop over the groups; every round but the last adds two of the 16 bytes.\<close>

fun ipv6_loop :: "nat \<Rightarrow> nat list \<Rightarrow> nat option \<Rightarrow> string \<Rightarrow> (nat list \<times> nat option \<times> string) option" where
  "ipv6_loop 0 ip ellipsis s = Some (ip, ellipsis, s)"
| "ipv6_loop (Suc k) ip ellipsis s =
     (let h = takeWhile (\<lambda>c. hex_value c \<noteq> None) s; rest = drop (length h) s;
          ip' = ip @ [hex_number h div 256, hex_number h mod 256]
      in if h = '''' \<or> 4 < length h then None
         else if rest \<noteq> '''' \<and> hd rest = CHR ''.''
         then if (ellipsis = None \<and> length ip \<noteq> 12) \<or> 12 < length ip then None
              else map_option (\<lambda>v4. (ip @ v4, ellipsis, '''')) (parse_ipv4 s)
         else if rest = '''' then Some (ip', ellipsis, '''')
         else if hd rest \<noteq> CHR '':'' \<or> length rest = 1 then None
         else if rest ! 1 = CHR '':''
         then if ellipsis \<noteq> None then None
              else if length rest = 2 then Some (ip', Some (length ip'), '''')
              else ipv6_loop k ip' (Some (length ip')) (drop 2 rest)
         else ipv6_loop k ip' ellipsis (drop 1 rest))"

definition parse_ipv6 :: "string \<Rightarrow> nat list option" where
  "parse_ipv6 s =
     (if s = ''::'' then Some (replicate 16 0)
      else case (if HasPrefix s ''::'' then ipv6_loop 8 [] (Some 0) (drop 2 s) else ipv6_loop 8 [] None s) of
          None \<Rightarrow> None
        | Some (ip, ellipsis, rest) \<Rightarrow>
            if rest \<noteq> '''' then None
            else if length ip < 16
            then map_option (\<lambda>e. take e ip @ replicate (16 - length ip) 0 @ drop e ip) ellipsis
            else if ellipsis \<noteq> None then None else Some ip)"

text \<open>An address with a zone has a percent sign and is no literal IP for \<open>ParseIP\<close>.\<close>

definition ParseIP :: "string \<Rightarrow> nat list option" where
  "ParseIP s =
     (if CHR ''%'' \<in> set s then None
      else case find (\<lambda>c. c = CHR ''.'' \<or> c = CHR '':'') s of
          None \<Rightarrow> None
        | Some c \<Rightarrow>
            if c = CHR ''.'' then map_option (\<lambda>v4. replicate 10 0 @ [255, 255] @ v4) (parse_ipv4 s)
            else parse_ipv6 s)"

definition To4 :: "nat list \<Rightarrow> nat list option" where
  "To4 ip = (if length ip = 16 \<and> take 12 ip = replicate 10 0 @ [255, 255] then Some (drop 12 ip) else None)"

definition IsLoopback :: "nat list \<Rightarrow> bool" where
  "IsLoopback ip = (case To4 ip of Some v4 \<Rightarrow> v4 ! 0 = 127 | None \<Rightarrow> ip = replicate 15 0 @ [1])"

section \<open>The checks of the program\<close>

definition validateLiteralAddress :: "string \<Rightarrow> bool \<Rightarrow> unit result" where
  "validateLiteralAddress address requireLoopback =
     and_then (check (TrimSpace address = address)
       (OtherError ''address must not contain surrounding whitespace'')) (\<lambda>_.
     and_then (SplitHostPort address) (\<lambda>(host, port).
     case ParseIP host of
       None \<Rightarrow> Inl (OtherError ''host must be a literal IP'')
     | Some ip \<Rightarrow>
         and_then (check (\<not> (requireLoopback \<and> \<not> IsLoopback ip))
           (OtherError ''upstream must be literal loopback in the shared Paper network namespace'')) (\<lambda>_.
         check (\<not> (port = '''' \<or> port = ''0'')) (OtherError ''port must be fixed and non-zero''))))"

definition networkFor :: "string \<Rightarrow> string" where
  "networkFor address =
     (let host = (case SplitHostPort address of Inr (host, port) \<Rightarrow> host | Inl _ \<Rightarrow> '''')
      in case ParseIP host of
           Some ip \<Rightarrow> if To4 ip = None then ''tcp6'' else ''tcp4''
         | None \<Rightarrow> ''tcp4'')"

definition ValidateListenAddress :: "string \<Rightarrow> unit result" where
  "ValidateListenAddress address =
     (case SplitHostPort address of
        Inl _ \<Rightarrow> Inl (OtherError ''listen address must include a literal loopback IP and port'')
      | Inr (host, port) \<Rightarrow>
          and_then (check (port \<noteq> '''') (OtherError ''listen address must include a literal loopback IP and port'')) (\<lambda>_.
          check (case ParseIP host of None \<Rightarrow> False | Some ip \<Rightarrow> IsLoopback ip)
            (OtherError ''listen address must use a literal loopback IP'')))"

lemma address_examples:
  "ParseIP ''127.0.0.1'' = Some (replicate 10 0 @ [255, 255, 127, 0, 0, 1])"
  "ParseIP ''::1'' = Some (replicate 15 0 @ [1])" "ParseIP ''1.2.3'' = None" "ParseIP ''1.02.3.4'' = None"
  "ParseIP ''fe80::1%eth0'' = None" "ParseIP ''2001:db8::7:8'' = Some [32, 1, 13, 184, 0, 0, 0, 0, 0, 0, 0, 0, 0, 7, 0, 8]"
  "SplitHostPort ''[::1]:80'' = Inr (''::1'', ''80'')" "isl (SplitHostPort ''::1:80'')"
  by code_simp+

end
