(* ===== verification/Admission_State.thy ===== *)
theory Admission_State
  imports Local_Files Go_Net
begin

text \<open>
  The admission barrier's configuration, its state file and its decisions:
  \<open>src/internal/admission/config.go\<close>, \<open>state.go\<close> and \<open>runtime.go\<close>. A decision is a function of
  the two files and the clock; only an owner-only state file that grants a lease of at most
  30 seconds, confirmed by a fresh runtime snapshot, opens the gate.

  \<open>WriteState\<close> replaces the state file: it writes a temporary file, renames it and syncs the
  directory. Its file system is a map from paths to files, and \<open>write_env\<close> says which of its
  calls fails.
\<close>

section \<open>Configuration\<close>

record AdmissionConfig =
  ac_SchemaVersion :: string
  ac_PairingID :: string
  ac_DeploymentGeneration :: int
  ac_ListenAddresses :: "string list"
  ac_UpstreamAddress :: string
  ac_StatePath :: string
  ac_RuntimeSnapshotPath :: string
  ac_PollIntervalMilliseconds :: int
  ac_DialTimeoutMilliseconds :: int
  ac_MaxConnections :: int

fun validate_listeners :: "string list \<Rightarrow> string list \<Rightarrow> unit result" where
  "validate_listeners seen [] = Inr ()"
| "validate_listeners seen (address # rest) =
     and_then (wrap (''invalid admission listener '' @ address @ '': '') (validateLiteralAddress address False)) (\<lambda>_.
     and_then (check (address \<notin> set seen) (OtherError (''duplicate admission listener '' @ address))) (\<lambda>_.
     validate_listeners (address # seen) rest))"

text \<open>The two paths are checked in the order of a Go map; the model takes one of the two orders.\<close>

definition validate_admission :: "AdmissionConfig \<Rightarrow> unit result" where
  "validate_admission c =
     and_then (check (\<not> (ac_SchemaVersion c \<noteq> ''gar.admission-config.v1'' \<or> ac_PairingID c = '''' \<or>
         128 < length (ac_PairingID c) \<or> ac_DeploymentGeneration c < 1))
       (OtherError ''admission schema and fixed deployment identity are required'')) (\<lambda>_.
     and_then (check (\<not> (length (ac_ListenAddresses c) < 1 \<or> 4 < length (ac_ListenAddresses c)))
       (OtherError ''admission requires one through four fixed listeners'')) (\<lambda>_.
     and_then (validate_listeners [] (ac_ListenAddresses c)) (\<lambda>_.
     and_then (wrap ''invalid admission upstream: '' (validateLiteralAddress (ac_UpstreamAddress c) True)) (\<lambda>_.
     and_then (check (clean_absolute (ac_StatePath c))
       (OtherError ''admission state_path must be a clean absolute path'')) (\<lambda>_.
     and_then (check (clean_absolute (ac_RuntimeSnapshotPath c))
       (OtherError ''admission runtime_snapshot_path must be a clean absolute path'')) (\<lambda>_.
     and_then (check (\<not> (ac_PollIntervalMilliseconds c < 25 \<or> 1000 < ac_PollIntervalMilliseconds c))
       (OtherError ''poll_interval_milliseconds must be from 25 through 1000'')) (\<lambda>_.
     and_then (check (\<not> (ac_DialTimeoutMilliseconds c < 100 \<or> 5000 < ac_DialTimeoutMilliseconds c))
       (OtherError ''dial_timeout_milliseconds must be from 100 through 5000'')) (\<lambda>_.
     check (\<not> (ac_MaxConnections c < 1 \<or> 4096 < ac_MaxConnections c))
       (OtherError ''max_connections must be from 1 through 4096'')))))))))"

definition PollInterval :: "AdmissionConfig \<Rightarrow> duration" where
  "PollInterval c = ac_PollIntervalMilliseconds c * millisecond"

definition DialTimeout :: "AdmissionConfig \<Rightarrow> duration" where
  "DialTimeout c = ac_DialTimeoutMilliseconds c * millisecond"

definition load_admission :: "file_access \<Rightarrow> AdmissionConfig json_reader \<Rightarrow> string \<Rightarrow> AdmissionConfig result" where
  "load_admission fa jr path =
     and_then (wrap ''admission config security check: '' (ValidateOwnerOnlyRegular fa path)) (\<lambda>_.
     and_then (fa_ReadFile fa path) (\<lambda>payload.
     and_then (check (length payload \<le> MiB) (OtherError ''admission config exceeds 1 MiB'')) (\<lambda>_.
     and_then (decode_payload ''admission config'' jr payload) (\<lambda>config.
     and_then (validate_admission config) (\<lambda>_. Inr config)))))"

section \<open>State\<close>

datatype Mode = ModeClosed | ModeOpen | OtherMode string

definition MaxOpenLease :: duration where "MaxOpenLease = 30 * second"

record AdmissionState =
  as_SchemaVersion :: string
  as_PairingID :: string
  as_DeploymentGeneration :: int
  as_Mode :: Mode
  as_Reason :: string
  as_IssuedAt :: gotime
  as_ExpiresAt :: gotime

definition no_state :: AdmissionState where
  "no_state = \<lparr>as_SchemaVersion = '''', as_PairingID = '''', as_DeploymentGeneration = 0,
     as_Mode = OtherMode '''', as_Reason = '''', as_IssuedAt = 0, as_ExpiresAt = 0\<rparr>"

record Decision =
  dn_Open :: bool
  dn_ReasonCode :: string
  dn_State :: AdmissionState

definition refuse :: "string \<Rightarrow> AdmissionState \<Rightarrow> Decision" where
  "refuse reason state = \<lparr>dn_Open = False, dn_ReasonCode = reason, dn_State = state\<rparr>"

definition readState :: "file_access \<Rightarrow> AdmissionState json_reader \<Rightarrow> string \<Rightarrow> AdmissionState result" where
  "readState fa jr path =
     and_then (ValidateOwnerOnlyRegular fa path) (\<lambda>_.
     and_then (fa_ReadFile fa path) (\<lambda>payload.
     and_then (check (length payload \<le> 64 * 1024) (OtherError ''admission state exceeds 64 KiB'')) (\<lambda>_.
     and_then (reject_duplicates (jr_lexemes jr payload)) (\<lambda>_.
     and_then (jr_Decode jr payload) (\<lambda>state.
     and_then (check (\<not> (jr_trailing jr payload \<or> as_SchemaVersion state \<noteq> ''gar.admission-state.v1''))
       (OtherError ''invalid admission state schema or trailing JSON'')) (\<lambda>_. Inr state))))))"

definition is_not_exist :: "gar_error \<Rightarrow> bool" where
  "is_not_exist err \<longleftrightarrow> (case err of ErrNotExist _ \<Rightarrow> True | _ \<Rightarrow> False)"

definition EvaluateState ::
  "file_access \<Rightarrow> AdmissionState json_reader \<Rightarrow> AdmissionConfig \<Rightarrow> gotime \<Rightarrow> Decision" where
  "EvaluateState fa jr config now =
     (case readState fa jr (ac_StatePath config) of
        Inl err \<Rightarrow>
          if is_not_exist err then refuse ''ADMISSION_STATE_MISSING'' no_state
          else refuse ''ADMISSION_STATE_INVALID'' no_state
      | Inr state \<Rightarrow>
          if as_PairingID state \<noteq> ac_PairingID config \<or>
             as_DeploymentGeneration state \<noteq> ac_DeploymentGeneration config
          then refuse ''ADMISSION_IDENTITY_MISMATCH'' state
          else if IsZero (as_IssuedAt state) \<or> After (as_IssuedAt state) (Add now (2 * second)) \<or>
             256 < length (as_Reason state)
          then refuse ''ADMISSION_STATE_INVALID'' state
          else case as_Mode state of
            ModeClosed \<Rightarrow> refuse ''ADMISSION_CLOSED'' state
          | ModeOpen \<Rightarrow>
              if IsZero (as_ExpiresAt state) \<or> \<not> Before now (as_ExpiresAt state)
              then refuse ''ADMISSION_LEASE_EXPIRED'' state
              else if MaxOpenLease < Sub (as_ExpiresAt state) (as_IssuedAt state) \<or>
                 \<not> After (as_ExpiresAt state) (as_IssuedAt state)
              then refuse ''ADMISSION_LEASE_INVALID'' state
              else \<lparr>dn_Open = True, dn_ReasonCode = ''ADMISSION_OPEN'', dn_State = state\<rparr>
          | OtherMode _ \<Rightarrow> refuse ''ADMISSION_STATE_INVALID'' state)"

section \<open>Runtime confirmation\<close>

record runtime_snapshot =
  ra_SchemaVersion :: string
  ra_PairingID :: string
  ra_BootID :: string
  ra_ObservedAt :: gotime
  ra_Ready :: bool
  ra_AdmissionState :: string
  ra_PlayerCount :: int
  ra_TPS :: "nat list list"
  ra_MSPT :: "nat list"
  ra_HeapUsedBytes :: int
  ra_HeapMaxBytes :: int
  ra_Plugins :: "nat list list"

definition readNoFollow :: "file_access \<Rightarrow> string \<Rightarrow> nat \<Rightarrow> nat list result" where
  "readNoFollow fa path maximum =
     and_then (fa_OpenNoFollow fa path) (\<lambda>_.
     and_then (fa_Fstat fa path) (\<lambda>stat.
     and_then (check (\<not> (\<not> IsRegular (st_mode stat) \<or> int maximum < st_size stat))
       (OtherError ''runtime snapshot must be a bounded regular file'')) (\<lambda>_.
     case fa_ReadFile fa path of
       Inl _ \<Rightarrow> Inl (OtherError ''runtime snapshot exceeds limit'')
     | Inr payload \<Rightarrow>
         if maximum < length (take (maximum + 1) payload)
         then Inl (OtherError ''runtime snapshot exceeds limit'') else Inr (take (maximum + 1) payload))))"

definition readRuntimeSnapshot :: "file_access \<Rightarrow> runtime_snapshot json_reader \<Rightarrow> string \<Rightarrow> runtime_snapshot result" where
  "readRuntimeSnapshot fa jr path =
     and_then (readNoFollow fa path (256 * 1024)) (\<lambda>payload.
     and_then (reject_duplicates (jr_lexemes jr payload)) (\<lambda>_.
     and_then (jr_Decode jr payload) (\<lambda>snapshot.
     and_then (check (\<not> jr_trailing jr payload) (OtherError ''runtime snapshot contains trailing JSON'')) (\<lambda>_.
     Inr snapshot))))"

definition EvaluateAccess ::
  "file_access \<Rightarrow> AdmissionState json_reader \<Rightarrow> runtime_snapshot json_reader \<Rightarrow> AdmissionConfig \<Rightarrow> gotime \<Rightarrow> Decision"
where
  "EvaluateAccess fa jr jr' config now =
     (let decision = EvaluateState fa jr config now in
      if \<not> dn_Open decision then decision
      else case readRuntimeSnapshot fa jr' (ac_RuntimeSnapshotPath config) of
          Inl _ \<Rightarrow> decision\<lparr>dn_Open := False, dn_ReasonCode := ''RUNTIME_GUARD_UNAVAILABLE''\<rparr>
        | Inr rt \<Rightarrow>
            if ra_SchemaVersion rt \<noteq> ''gar.paper-runtime-observation.v1'' \<or>
               ra_PairingID rt \<noteq> ac_PairingID config \<or> ra_BootID rt = '''' \<or> \<not> ra_Ready rt \<or>
               IsZero (ra_ObservedAt rt) \<or> After (ra_ObservedAt rt) (Add now (2 * second)) \<or>
               3 * second < Sub now (ra_ObservedAt rt)
            then decision\<lparr>dn_Open := False, dn_ReasonCode := ''RUNTIME_GUARD_NOT_READY''\<rparr>
            else if ra_AdmissionState rt \<noteq> ''OPEN_READ_ONLY_ALPHA''
            then decision\<lparr>dn_Open := False, dn_ReasonCode := ''RUNTIME_GUARD_NOT_OPEN''\<rparr>
            else decision\<lparr>dn_ReasonCode := ''ADMISSION_OPEN_GUARD_CONFIRMED''\<rparr>)"


section \<open>Replacing a file\<close>

record stored_file =
  sf_bytes :: "nat list"
  sf_mode :: file_mode
  sf_uid :: int

type_synonym files = "string \<Rightarrow> stored_file option"

record write_env =
  we_Directory :: "string \<Rightarrow> file_status result"
  we_Euid :: int
  we_TempName :: string
  we_CreateTemp :: "gar_error option"
  we_Chmod :: "gar_error option"
  we_Write :: "(gar_error \<times> nat) option"
  we_Sync :: "gar_error option"
  we_Close :: "gar_error option"
  we_Rename :: "gar_error option"
  we_OpenDir :: "gar_error option"
  we_SyncDir :: "gar_error option"

text \<open>
  The result is the error, if any, and the files as everybody else can see them after each call
  that changes one, the last of them after the deferred removal of the temporary file.
\<close>

definition replace_file ::
  "write_env \<Rightarrow> file_mode \<Rightarrow> string \<Rightarrow> nat list \<Rightarrow> files \<Rightarrow> gar_error option \<times> files list" where
  "replace_file we mode path bytes files =
     (case we_CreateTemp we of
        Some err \<Rightarrow> (Some err, [files])
      | None \<Rightarrow>
          let tmp = we_TempName we;
              created = files(tmp \<mapsto> \<lparr>sf_bytes = [], sf_mode = 384, sf_uid = we_Euid we\<rparr>);
              changed = files(tmp \<mapsto> \<lparr>sf_bytes = [], sf_mode = mode, sf_uid = we_Euid we\<rparr>);
              written = (\<lambda>bs. files(tmp \<mapsto> \<lparr>sf_bytes = bs, sf_mode = mode, sf_uid = we_Euid we\<rparr>));
              renamed = files(tmp := None, path \<mapsto> \<lparr>sf_bytes = bytes, sf_mode = mode, sf_uid = we_Euid we\<rparr>)
          in case we_Chmod we of
               Some err \<Rightarrow> (Some err, [created, files(tmp := None)])
             | None \<Rightarrow>
                 (case we_Write we of
                    Some (err, n) \<Rightarrow> (Some err, [created, changed, written (take n bytes), files(tmp := None)])
                  | None \<Rightarrow>
                      if we_Sync we \<noteq> None
                      then (we_Sync we, [created, changed, written bytes, files(tmp := None)])
                      else if we_Close we \<noteq> None
                      then (we_Close we, [created, changed, written bytes, files(tmp := None)])
                      else if we_Rename we \<noteq> None
                      then (we_Rename we, [created, changed, written bytes, files(tmp := None)])
                      else if we_OpenDir we \<noteq> None
                      then (we_OpenDir we, [created, changed, written bytes, renamed, renamed(tmp := None)])
                      else (we_SyncDir we, [created, changed, written bytes, renamed, renamed(tmp := None)])))"

definition new_state :: "AdmissionConfig \<Rightarrow> Mode \<Rightarrow> string \<Rightarrow> gotime \<Rightarrow> AdmissionState" where
  "new_state config mode reason now =
     \<lparr>as_SchemaVersion = ''gar.admission-state.v1'', as_PairingID = ac_PairingID config,
      as_DeploymentGeneration = ac_DeploymentGeneration config, as_Mode = mode, as_Reason = reason,
      as_IssuedAt = now, as_ExpiresAt = 0\<rparr>"

definition lease_state :: "AdmissionConfig \<Rightarrow> Mode \<Rightarrow> string \<Rightarrow> duration \<Rightarrow> gotime \<Rightarrow> AdmissionState result" where
  "lease_state config mode reason lease now =
     (if 256 < length reason then Inl (OtherError ''admission reason exceeds 256 characters'')
      else let state = new_state config mode reason now in
        case mode of
          ModeClosed \<Rightarrow>
            if lease \<noteq> 0 then Inl (OtherError ''closed admission state cannot have a lease'') else Inr state
        | ModeOpen \<Rightarrow>
            if lease \<le> 0 \<or> MaxOpenLease < lease
            then Inl (OtherError ''open admission lease must be greater than zero and at most 30s'')
            else Inr (state\<lparr>as_ExpiresAt := Add now lease\<rparr>)
        | OtherMode m \<Rightarrow> Inl (OtherError (''unsupported admission mode '' @ m)))"

definition directory_access :: "write_env \<Rightarrow> file_access" where
  "directory_access we =
     \<lparr>fa_Lstat = we_Directory we, fa_Stat = we_Directory we, fa_Fstat = we_Directory we,
      fa_OpenNoFollow = (\<lambda>_. Inr ()), fa_ReadFile = (\<lambda>_. Inr []), fa_EvalSymlinks = Inr,
      fa_Geteuid = we_Euid we\<rparr>"

definition WriteState ::
  "(AdmissionState \<Rightarrow> nat list result) \<Rightarrow> write_env \<Rightarrow> AdmissionConfig \<Rightarrow> Mode \<Rightarrow> string \<Rightarrow> duration \<Rightarrow> gotime \<Rightarrow>
   files \<Rightarrow> AdmissionState result \<times> files list"
where
  "WriteState marshal we config mode reason lease now files =
     (case and_then (lease_state config mode reason lease now) (\<lambda>state.
           and_then (validateOwnerDirectory (directory_access we) (Dir (ac_StatePath config))) (\<lambda>_.
           and_then (marshal state) (\<lambda>payload. Inr (state, payload)))) of
        Inl err \<Rightarrow> (Inl err, [files])
      | Inr (state, payload) \<Rightarrow>
          (case replace_file we 384 (ac_StatePath config) (payload @ [10]) files of
             (Some err, seen) \<Rightarrow> (Inl err, seen)
           | (None, seen) \<Rightarrow> (Inr state, seen)))"

section \<open>Decisions\<close>

lemma refuse_simps [simp]:
  "\<not> dn_Open (refuse reason state)" "dn_ReasonCode (refuse reason state) = reason" "dn_State (refuse reason state) = state"
  by (simp_all add: refuse_def)

lemma EvaluateState_open_iff:
  "dn_Open (EvaluateState fa jr config now) \<longleftrightarrow>
   (\<exists>state. readState fa jr (ac_StatePath config) = Inr state \<and> as_PairingID state = ac_PairingID config \<and>
      as_DeploymentGeneration state = ac_DeploymentGeneration config \<and> as_IssuedAt state \<noteq> 0 \<and>
      as_IssuedAt state \<le> now + 2 * second \<and> length (as_Reason state) \<le> 256 \<and> as_Mode state = ModeOpen \<and>
      as_ExpiresAt state \<noteq> 0 \<and> now < as_ExpiresAt state \<and> as_IssuedAt state < as_ExpiresAt state \<and>
      as_ExpiresAt state \<le> as_IssuedAt state + 30 * second)"
  using Sub_gt_iff [of MaxOpenLease]
  by (auto simp: EvaluateState_def MaxOpenLease_def go_time split: sum.splits Mode.splits)

lemma EvaluateAccess_open_iff:
  "dn_Open (EvaluateAccess fa jr jr' config now) \<longleftrightarrow> dn_Open (EvaluateState fa jr config now) \<and>
   (\<exists>rt. readRuntimeSnapshot fa jr' (ac_RuntimeSnapshotPath config) = Inr rt \<and>
      ra_SchemaVersion rt = ''gar.paper-runtime-observation.v1'' \<and> ra_PairingID rt = ac_PairingID config \<and>
      ra_BootID rt \<noteq> '''' \<and> ra_Ready rt \<and> ra_ObservedAt rt \<noteq> 0 \<and> ra_ObservedAt rt \<le> now + 2 * second \<and>
      now - ra_ObservedAt rt \<le> 3 * second \<and> ra_AdmissionState rt = ''OPEN_READ_ONLY_ALPHA'')"
  using Sub_gt_iff [of "3 * second"]
  by (auto simp: EvaluateAccess_def Let_def go_time split: sum.splits)


text \<open>
  C29. The gate fails closed and opens only for a short time: a decision is open only when the state
  file belongs to the owner alone and grants this deployment a lease of at most 30 seconds that has not
  run out, and a runtime snapshot of the paired, ready server at most 3 seconds old confirms it.
\<close>

theorem admission_open_bounded:
  assumes "dn_Open (EvaluateAccess fa jr jr' config now)"
  shows "\<exists>state rt info payload j. fa_Lstat fa (ac_StatePath config) = Inr info \<and> IsRegular (st_mode info) \<and>
    (\<forall>n < 6. \<not> bit (st_mode info) n) \<and> st_uid info = fa_Geteuid fa \<and>
    fa_ReadFile fa (ac_StatePath config) = Inr payload \<and> jr_lexemes jr payload = print j \<and> unique_keys j \<and>
    jr_Decode jr payload = Inr state \<and> as_PairingID state = ac_PairingID config \<and>
    as_DeploymentGeneration state = ac_DeploymentGeneration config \<and> as_Mode state = ModeOpen \<and>
    now < as_ExpiresAt state \<and> now < as_IssuedAt state + 30 * second \<and> as_IssuedAt state \<le> now + 2 * second \<and>
    readRuntimeSnapshot fa jr' (ac_RuntimeSnapshotPath config) = Inr rt \<and>
    ra_PairingID rt = ac_PairingID config \<and> ra_Ready rt \<and> now - 3 * second \<le> ra_ObservedAt rt \<and>
    ra_AdmissionState rt = ''OPEN_READ_ONLY_ALPHA''"
proof -
  obtain state where s: "readState fa jr (ac_StatePath config) = Inr state" "as_PairingID state = ac_PairingID config"
      "as_DeploymentGeneration state = ac_DeploymentGeneration config" "as_Mode state = ModeOpen"
      "now < as_ExpiresAt state" "as_ExpiresAt state \<le> as_IssuedAt state + 30 * second"
      "as_IssuedAt state \<le> now + 2 * second"
    using assms unfolding EvaluateAccess_open_iff EvaluateState_open_iff by blast
  obtain rt where rt: "readRuntimeSnapshot fa jr' (ac_RuntimeSnapshotPath config) = Inr rt"
      "ra_PairingID rt = ac_PairingID config" "ra_Ready rt" "now - ra_ObservedAt rt \<le> 3 * second"
      "ra_AdmissionState rt = ''OPEN_READ_ONLY_ALPHA''"
    using assms unfolding EvaluateAccess_open_iff by blast
  obtain info payload j where "fa_Lstat fa (ac_StatePath config) = Inr info" "IsRegular (st_mode info)"
      "\<forall>n < 6. \<not> bit (st_mode info) n" "st_uid info = fa_Geteuid fa"
      "fa_ReadFile fa (ac_StatePath config) = Inr payload" "jr_lexemes jr payload = print j" "unique_keys j"
      "jr_Decode jr payload = Inr state"
    using s(1) unfolding readState_def
    by (auto simp: ValidateOwnerOnlyRegular_iff reject_duplicates_iff)
  with s rt show ?thesis
    by (intro exI [of _ state] exI [of _ rt] exI [of _ info] exI [of _ payload] exI [of _ j]) simp
qed

section \<open>A concrete deployment\<close>

definition sample_admission :: AdmissionConfig where
  "sample_admission =
     \<lparr>ac_SchemaVersion = ''gar.admission-config.v1'', ac_PairingID = ''pair'', ac_DeploymentGeneration = 1,
      ac_ListenAddresses = [''127.0.0.1:25565''], ac_UpstreamAddress = ''127.0.0.1:25566'',
      ac_StatePath = ''/srv/gar/state'', ac_RuntimeSnapshotPath = ''/srv/gar/runtime'',
      ac_PollIntervalMilliseconds = 100, ac_DialTimeoutMilliseconds = 500, ac_MaxConnections = 2\<rparr>"

definition sample_lease :: AdmissionState where
  "sample_lease = (new_state sample_admission ModeOpen ''drill'' (100 * second))\<lparr>as_ExpiresAt := 120 * second\<rparr>"

definition sample_runtime :: runtime_snapshot where
  "sample_runtime =
     \<lparr>ra_SchemaVersion = ''gar.paper-runtime-observation.v1'', ra_PairingID = ''pair'', ra_BootID = ''boot'',
      ra_ObservedAt = 109 * second, ra_Ready = True, ra_AdmissionState = ''OPEN_READ_ONLY_ALPHA'',
      ra_PlayerCount = 0, ra_TPS = [], ra_MSPT = [], ra_HeapUsedBytes = 0, ra_HeapMaxBytes = 1, ra_Plugins = []\<rparr>"

definition sample_reader :: "'a \<Rightarrow> 'a json_reader" where
  "sample_reader x = \<lparr>jr_lexemes = (\<lambda>_. [LBraceOpen, LBraceClose]), jr_Decode = (\<lambda>_. Inr x), jr_trailing = (\<lambda>_. False)\<rparr>"

definition sample_access :: file_access where
  "sample_access =
     \<lparr>fa_Lstat = (\<lambda>_. Inr \<lparr>st_mode = 384, st_uid = 7, st_size = 3, st_dev = 1, st_ino = 2\<rparr>),
      fa_Stat = (\<lambda>_. Inr \<lparr>st_mode = 384, st_uid = 7, st_size = 3, st_dev = 1, st_ino = 2\<rparr>),
      fa_Fstat = (\<lambda>_. Inr \<lparr>st_mode = 384, st_uid = 7, st_size = 3, st_dev = 1, st_ino = 2\<rparr>),
      fa_OpenNoFollow = (\<lambda>_. Inr ()), fa_ReadFile = (\<lambda>_. Inr [123, 125, 10]), fa_EvalSymlinks = Inr, fa_Geteuid = 7\<rparr>"

lemma sample_reader_simps [simp]:
  "jr_Decode (sample_reader x) payload = Inr x" "\<not> jr_trailing (sample_reader x) payload"
  "jr_lexemes (sample_reader x) payload = [LBraceOpen, LBraceClose]"
  by (simp_all add: sample_reader_def)

lemma empty_object [simp]: "reject_duplicates [LBraceOpen, LBraceClose] = Inr ()"
  unfolding reject_duplicates_iff by (intro exI [of _ "JObject []"]) simp

lemma sample_mode: "(384 :: file_mode) AND ModeSymlink = 0" "IsRegular 384" "Perm 384 AND mask 6 = 0"
  by code_simp+

lemma sample_readState: "readState sample_access (sample_reader sample_lease) path = Inr sample_lease"
  by (simp add: readState_def ValidateOwnerOnlyRegular_def sample_access_def sample_mode sample_lease_def new_state_def)

lemma sample_readRuntime: "readRuntimeSnapshot sample_access (sample_reader sample_runtime) path = Inr sample_runtime"
  by (simp add: readRuntimeSnapshot_def readNoFollow_def sample_access_def sample_mode)

lemma sample_open:
  "dn_Open (EvaluateAccess sample_access (sample_reader sample_lease) (sample_reader sample_runtime) sample_admission (110 * second))"
  unfolding EvaluateAccess_open_iff EvaluateState_open_iff
  by (simp add: sample_readState sample_readRuntime)
     (simp add: sample_lease_def sample_runtime_def sample_admission_def new_state_def second_def)

theorem admission_open_bounded_witness:
  "dn_Open (EvaluateAccess sample_access (sample_reader sample_lease) (sample_reader sample_runtime) sample_admission (110 * second)) \<and>
   (\<exists>state. 110 * second < as_IssuedAt state + 30 * second \<and> as_Mode state = ModeOpen \<and>
     jr_Decode (sample_reader sample_lease) [123, 125, 10] = Inr state)"
  using admission_open_bounded [OF sample_open] sample_open by auto


section \<open>Writing the state\<close>

text \<open>The reads of a process of user \<open>euid\<close> on stored files.\<close>

definition status_of :: "stored_file \<Rightarrow> file_status" where
  "status_of f = \<lparr>st_mode = sf_mode f, st_uid = sf_uid f, st_size = int (length (sf_bytes f)), st_dev = 0, st_ino = 0\<rparr>"

definition on_file :: "files \<Rightarrow> string \<Rightarrow> (stored_file \<Rightarrow> 'a) \<Rightarrow> 'a result" where
  "on_file files path g =
     (case files path of None \<Rightarrow> Inl (ErrNotExist (path @ '': no such file or directory'')) | Some f \<Rightarrow> Inr (g f))"

definition access_of :: "files \<Rightarrow> int \<Rightarrow> file_access" where
  "access_of files euid =
     \<lparr>fa_Lstat = (\<lambda>p. on_file files p status_of), fa_Stat = (\<lambda>p. on_file files p status_of),
      fa_Fstat = (\<lambda>p. on_file files p status_of), fa_OpenNoFollow = (\<lambda>p. on_file files p (\<lambda>_. ())),
      fa_ReadFile = (\<lambda>p. on_file files p sf_bytes), fa_EvalSymlinks = Inr, fa_Geteuid = euid\<rparr>"

lemma replace_file_atomic:
  assumes "replace_file we mode path bytes files = (err, seen)" "we_TempName we \<noteq> path" "s \<in> set seen"
  shows "s path = files path \<or> s path = Some \<lparr>sf_bytes = bytes, sf_mode = mode, sf_uid = we_Euid we\<rparr>"
  using assms by (auto simp: replace_file_def Let_def split: option.splits if_splits prod.splits)

lemma replace_file_done:
  assumes "replace_file we mode path bytes files = (None, seen)" "we_TempName we \<noteq> path"
  shows "last seen path = Some \<lparr>sf_bytes = bytes, sf_mode = mode, sf_uid = we_Euid we\<rparr>"
  using assms by (auto simp: replace_file_def Let_def split: option.splits if_splits prod.splits)

text \<open>
  What the round trip needs of \<open>encoding/json\<close>: the bytes of a state, with the newline after them,
  are one JSON value that decodes to the state.
\<close>

definition reads_back :: "(AdmissionState \<Rightarrow> nat list result) \<Rightarrow> AdmissionState json_reader \<Rightarrow> AdmissionState \<Rightarrow> bool" where
  "reads_back marshal jr state \<longleftrightarrow>
     (\<exists>bytes j. marshal state = Inr bytes \<and> length bytes < 64 * 1024 \<and>
        jr_Decode jr (bytes @ [10]) = Inr state \<and> \<not> jr_trailing jr (bytes @ [10]) \<and>
        jr_lexemes jr (bytes @ [10]) = print j \<and> unique_keys j)"

lemma stored_readState:
  assumes "files path = Some \<lparr>sf_bytes = bytes @ [10], sf_mode = 384, sf_uid = euid\<rparr>" "marshal state = Inr bytes"
    "reads_back marshal jr state" "as_SchemaVersion state = ''gar.admission-state.v1''"
  shows "readState (access_of files euid) jr path = Inr state"
proof -
  have "jr_Decode jr (bytes @ [10]) = Inr state" "\<not> jr_trailing jr (bytes @ [10])" "length bytes < 64 * 1024"
      "reject_duplicates (jr_lexemes jr (bytes @ [10])) = Inr ()"
    using assms(2,3) unfolding reads_back_def reject_duplicates_iff by auto
  then show ?thesis
    using assms(1,4) by (simp add: readState_def access_of_def on_file_def status_of_def
        ValidateOwnerOnlyRegular_def sample_mode check_def)
qed

lemma lease_state_Inr:
  "lease_state config mode reason lease now = Inr state \<longleftrightarrow> length reason \<le> 256 \<and>
     (mode = ModeClosed \<and> lease = 0 \<and> state = new_state config ModeClosed reason now \<or>
      mode = ModeOpen \<and> 0 < lease \<and> lease \<le> 30 * second \<and>
        state = (new_state config ModeOpen reason now)\<lparr>as_ExpiresAt := now + lease\<rparr>)"
  by (cases mode) (auto simp: lease_state_def Let_def MaxOpenLease_def Add_def)

text \<open>
  C30. Writing the admission state is atomic and reads back as intended: whatever call fails, every
  other process sees the old state file or the whole new one; and after a success the gate's decision at
  any time from then on is CLOSED for a closed state, and open exactly until the lease ends for an open
  state.
\<close>

theorem write_state_atomic_roundtrip:
  assumes "WriteState marshal we config mode reason lease now files = (r, seen)"
    "we_TempName we \<noteq> ac_StatePath config" "\<And>state. lease_state config mode reason lease now = Inr state \<Longrightarrow> reads_back marshal jr state"
    "0 < now" "now \<le> later_time"
  shows "(\<forall>s \<in> set seen. s (ac_StatePath config) = files (ac_StatePath config) \<or>
       (\<exists>state bytes. lease_state config mode reason lease now = Inr state \<and> marshal state = Inr bytes \<and>
          s (ac_StatePath config) = Some \<lparr>sf_bytes = bytes @ [10], sf_mode = 384, sf_uid = we_Euid we\<rparr>)) \<and>
    (r = Inr state \<longrightarrow>
       (mode = ModeClosed \<longrightarrow>
          EvaluateState (access_of (last seen) (we_Euid we)) jr config later_time = refuse ''ADMISSION_CLOSED'' state) \<and>
       (mode = ModeOpen \<longrightarrow>
          (dn_Open (EvaluateState (access_of (last seen) (we_Euid we)) jr config later_time) \<longleftrightarrow> later_time < now + lease) \<and>
          0 < lease \<and> lease \<le> 30 * second))"
proof (intro conjI)
  show "\<forall>s \<in> set seen. s (ac_StatePath config) = files (ac_StatePath config) \<or>
       (\<exists>state bytes. lease_state config mode reason lease now = Inr state \<and> marshal state = Inr bytes \<and>
          s (ac_StatePath config) = Some \<lparr>sf_bytes = bytes @ [10], sf_mode = 384, sf_uid = we_Euid we\<rparr>)"
    using assms(1) replace_file_atomic [OF _ assms(2)] unfolding WriteState_def
    by (fastforce simp: and_then_Inl_iff split: sum.splits prod.splits option.splits)
next
  have ok: "readState (access_of (last seen) (we_Euid we)) jr (ac_StatePath config) = Inr state"
      "lease_state config mode reason lease now = Inr state" if r: "r = Inr state"
  proof -
    obtain payload where p: "lease_state config mode reason lease now = Inr state" "marshal state = Inr payload"
        "replace_file we 384 (ac_StatePath config) (payload @ [10]) files = (None, seen)"
      using assms(1) r unfolding WriteState_def
      by (auto split: sum.splits prod.splits option.splits)
    have "as_SchemaVersion state = ''gar.admission-state.v1''"
      using p(1) by (auto simp: lease_state_def new_state_def Let_def split: Mode.splits if_splits)
    with p show "readState (access_of (last seen) (we_Euid we)) jr (ac_StatePath config) = Inr state"
      using stored_readState [where marshal = marshal and files = "last seen", OF replace_file_done [OF p(3) assms(2)] p(2) assms(3) [OF p(1)]] by blast
    show "lease_state config mode reason lease now = Inr state" by (rule p(1))
  qed
  show "r = Inr state \<longrightarrow>
       (mode = ModeClosed \<longrightarrow>
          EvaluateState (access_of (last seen) (we_Euid we)) jr config later_time = refuse ''ADMISSION_CLOSED'' state) \<and>
       (mode = ModeOpen \<longrightarrow>
          (dn_Open (EvaluateState (access_of (last seen) (we_Euid we)) jr config later_time) \<longleftrightarrow> later_time < now + lease) \<and>
          0 < lease \<and> lease \<le> 30 * second)"
  proof (intro impI conjI)
    assume r: "r = Inr state" and "mode = ModeClosed"
    then have "state = new_state config ModeClosed reason now" "length reason \<le> 256"
      using ok(2) [OF r] by (auto simp: lease_state_Inr)
    with ok(1) [OF r] assms(4,5)
    show "EvaluateState (access_of (last seen) (we_Euid we)) jr config later_time = refuse ''ADMISSION_CLOSED'' state"
      by (simp add: EvaluateState_def new_state_def go_time)
  next
    assume r: "r = Inr state" and "mode = ModeOpen"
    then have s: "state = (new_state config ModeOpen reason now)\<lparr>as_ExpiresAt := now + lease\<rparr>" "length reason \<le> 256"
        "0 < lease" "lease \<le> 30 * second"
      using ok(2) [OF r] by (auto simp: lease_state_Inr)
    show "dn_Open (EvaluateState (access_of (last seen) (we_Euid we)) jr config later_time) \<longleftrightarrow> later_time < now + lease"
      unfolding EvaluateState_open_iff using ok(1) [OF r] s assms(4,5) by (simp add: new_state_def duration_units)
    show "0 < lease" "lease \<le> 30 * second" by (rule s)+
  qed
qed

definition sample_write :: write_env where
  "sample_write =
     \<lparr>we_Directory = (\<lambda>_. Inr \<lparr>st_mode = push_bit 31 1 OR 448, st_uid = 7, st_size = 0, st_dev = 1, st_ino = 3\<rparr>),
      we_Euid = 7, we_TempName = ''/srv/gar/.gar-admission-1.tmp'', we_CreateTemp = None, we_Chmod = None,
      we_Write = None, we_Sync = None, we_Close = None, we_Rename = None, we_OpenDir = None, we_SyncDir = None\<rparr>"

definition sample_written :: "AdmissionState result \<times> files list" where
  "sample_written = WriteState (\<lambda>_. Inr [123, 125]) sample_write sample_admission ModeOpen ''drill'' (20 * second) (100 * second) (\<lambda>_. None)"

lemma sample_lease_state: "lease_state sample_admission ModeOpen ''drill'' (20 * second) (100 * second) = Inr sample_lease"
  by (simp add: lease_state_def sample_lease_def Let_def MaxOpenLease_def duration_units Add_def)

lemma sample_directory: "validateOwnerDirectory (directory_access sample_write) path = Inr ()"
proof -
  have "(push_bit 31 1 OR 448 :: file_mode) AND ModeSymlink = 0" "IsDir (push_bit 31 1 OR 448)"
      "Perm (push_bit 31 1 OR 448) AND mask 6 = 0"
    by code_simp+
  then show ?thesis by (simp add: validateOwnerDirectory_def directory_access_def sample_write_def del: push_bit_numeral_minus_1)
qed

lemma sample_written_ok: "fst sample_written = Inr sample_lease"
  by (simp add: sample_written_def WriteState_def sample_lease_state sample_directory)
     (simp add: replace_file_def sample_write_def Let_def)

theorem write_state_atomic_roundtrip_witness:
  "dn_Open (EvaluateState (access_of (last (snd sample_written)) 7) (sample_reader sample_lease) sample_admission (119 * second)) \<and>
   \<not> dn_Open (EvaluateState (access_of (last (snd sample_written)) 7) (sample_reader sample_lease) sample_admission (120 * second))"
proof -
  have reads: "reads_back (\<lambda>_. Inr [123, 125]) (sample_reader sample_lease) sample_lease"
    unfolding reads_back_def by (intro exI [of _ "[123, 125]"] exI [of _ "JObject []"]) simp
  have w: "WriteState (\<lambda>_. Inr [123, 125]) sample_write sample_admission ModeOpen ''drill'' (20 * second) (100 * second) (\<lambda>_. None)
      = (Inr sample_lease, snd sample_written)"
    using sample_written_ok unfolding sample_written_def by (metis prod.collapse)
  have until: "dn_Open (EvaluateState (access_of (last (snd sample_written)) 7) (sample_reader sample_lease) sample_admission t)
      \<longleftrightarrow> t < 100 * second + 20 * second" if "100 * second \<le> t" for t
    using write_state_atomic_roundtrip [OF w, where jr = "sample_reader sample_lease" and later_time = t and state = sample_lease]
      reads that sample_lease_state
    by (auto simp: sample_write_def sample_admission_def duration_units)
  show ?thesis using until [of "119 * second"] until [of "120 * second"] by (simp add: duration_units)
qed

end
