(* ===== verification/Admission_Gate.thy ===== *)
theory Admission_Gate
  imports Admission_State
begin

text \<open>
  The TCP gate, \<open>src/internal/admission/gate.go\<close>. The operations under the mutex are functions on
  the record \<open>Gate\<close>; the goroutines (one per connection, the monitor, the shutdown) are a step
  relation that interleaves them. A connection is a number; \<open>gs_state\<close> of a client says where its
  goroutine stands in \<open>handle\<close>. \<open>gt_moment\<close> is what the next evaluation of the admission files
  would see, the files and the time, and may change between any two steps. \<open>closeAll\<close> takes the
  connections under the mutex and closes them one by one without it.
\<close>

type_synonym conn = nat
type_synonym moment = "file_access \<times> gotime"

datatype handler =
  Unknown_Client
| Arrived
| Registered
| Admitted moment
| Dialed moment conn
| Relaying moment conn
| Closing conn
| Leaving
| Gone

record Gate =
  gt_connections :: "conn list"
  gt_activeSessions :: int
  gt_handlers :: "conn \<Rightarrow> handler"
  gt_used :: "conn list"
  gt_closing :: "conn list"
  gt_closed :: "conn list"
  gt_moment :: moment

record gate_config =
  gc_config :: AdmissionConfig
  gc_state_reader :: "AdmissionState json_reader"
  gc_runtime_reader :: "runtime_snapshot json_reader"

definition gate_open :: "gate_config \<Rightarrow> moment \<Rightarrow> bool" where
  "gate_open gc m = dn_Open (EvaluateAccess (fst m) (gc_state_reader gc) (gc_runtime_reader gc) (gc_config gc) (snd m))"

definition NewGate :: "gate_config \<Rightarrow> moment \<Rightarrow> Gate result" where
  "NewGate gc m =
     and_then (validate_admission (gc_config gc)) (\<lambda>_.
     Inr \<lparr>gt_connections = [], gt_activeSessions = 0, gt_handlers = (\<lambda>_. Unknown_Client), gt_used = [],
          gt_closing = [], gt_closed = [], gt_moment = m\<rparr>)"

section \<open>Operations under the mutex\<close>

definition track :: "conn \<Rightarrow> Gate \<Rightarrow> Gate" where
  "track c g = g\<lparr>gt_connections := (if c \<in> set (gt_connections g) then gt_connections g else c # gt_connections g)\<rparr>"

definition untrack :: "conn \<Rightarrow> Gate \<Rightarrow> Gate" where
  "untrack c g = g\<lparr>gt_connections := filter (\<lambda>x. x \<noteq> c) (gt_connections g)\<rparr>"

definition startSession :: "gate_config \<Rightarrow> conn \<Rightarrow> Gate \<Rightarrow> bool \<times> Gate" where
  "startSession gc c g =
     (if ac_MaxConnections (gc_config gc) \<le> gt_activeSessions g then (False, g)
      else (True, track c (g\<lparr>gt_activeSessions := gt_activeSessions g + 1\<rparr>)))"

definition close_conn :: "conn \<Rightarrow> Gate \<Rightarrow> Gate" where
  "close_conn c g = g\<lparr>gt_closed := c # gt_closed g\<rparr>"

definition endSession :: "conn \<Rightarrow> Gate \<Rightarrow> Gate" where
  "endSession c g = close_conn c ((untrack c g)\<lparr>gt_activeSessions := gt_activeSessions g - 1\<rparr>)"

definition closeAll :: "Gate \<Rightarrow> Gate" where
  "closeAll g = g\<lparr>gt_closing := gt_closing g @ gt_connections g\<rparr>"

definition at :: "conn \<Rightarrow> handler \<Rightarrow> Gate \<Rightarrow> Gate" where
  "at c h g = g\<lparr>gt_handlers := (gt_handlers g)(c := h)\<rparr>"

section \<open>Goroutines\<close>

inductive gate_step :: "gate_config \<Rightarrow> Gate \<Rightarrow> Gate \<Rightarrow> bool" for gc where
  environment: "gate_step gc g (g\<lparr>gt_moment := m\<rparr>)"
| accept: "c \<notin> set (gt_used g) \<Longrightarrow> gate_step gc g (at c Arrived (g\<lparr>gt_used := c # gt_used g\<rparr>))"
| full: "gt_handlers g c = Arrived \<Longrightarrow> startSession gc c g = (False, g') \<Longrightarrow>
    gate_step gc g (at c Gone (close_conn c g'))"
| begin_session: "gt_handlers g c = Arrived \<Longrightarrow> startSession gc c g = (True, g') \<Longrightarrow>
    gate_step gc g (at c Registered g')"
| refused: "gt_handlers g c = Registered \<Longrightarrow> \<not> gate_open gc (gt_moment g) \<Longrightarrow> gate_step gc g (at c Leaving g)"
| admitted: "gt_handlers g c = Registered \<Longrightarrow> gate_open gc (gt_moment g) \<Longrightarrow>
    gate_step gc g (at c (Admitted (gt_moment g)) g)"
| dial_failed: "gt_handlers g c = Admitted m \<Longrightarrow> gate_step gc g (at c Leaving g)"
| dial: "gt_handlers g c = Admitted m \<Longrightarrow> u \<notin> set (gt_used g) \<Longrightarrow>
    gate_step gc g (at c (Dialed m u) (g\<lparr>gt_used := u # gt_used g\<rparr>))"
| track_upstream: "gt_handlers g c = Dialed m u \<Longrightarrow> gate_step gc g (at c (Relaying m u) (track u g))"
| relay_ends: "gt_handlers g c = Relaying m u \<Longrightarrow>
    gate_step gc g (at c (Closing u) (close_conn u (close_conn c g)))"
| untrack_upstream: "gt_handlers g c = Closing u \<Longrightarrow> gate_step gc g (at c Leaving (untrack u g))"
| leave: "gt_handlers g c = Leaving \<Longrightarrow> gate_step gc g (at c Gone (endSession c g))"
| monitor: "\<not> gate_open gc (gt_moment g) \<Longrightarrow> gate_step gc g (closeAll g)"
| shutdown: "gate_step gc g (closeAll g)"
| close_one: "gt_closing g = c # rest \<Longrightarrow> gate_step gc g (close_conn c (g\<lparr>gt_closing := rest\<rparr>))"

lemmas gate_defs = track_def untrack_def startSession_def close_conn_def endSession_def closeAll_def at_def

section \<open>Invariant\<close>

definition in_session :: "handler \<Rightarrow> bool" where
  "in_session h \<longleftrightarrow> h \<notin> {Unknown_Client, Arrived, Gone}"

fun upstream :: "handler \<Rightarrow> conn option" where
  "upstream (Relaying m u) = Some u"
| "upstream (Closing u) = Some u"
| "upstream _ = None"

fun upstream_made :: "handler \<Rightarrow> conn option" where
  "upstream_made (Dialed m u) = Some u"
| "upstream_made h = upstream h"

fun admitted_at :: "handler \<Rightarrow> moment option" where
  "admitted_at (Admitted m) = Some m"
| "admitted_at (Dialed m u) = Some m"
| "admitted_at (Relaying m u) = Some m"
| "admitted_at _ = None"

definition sessions :: "Gate \<Rightarrow> conn set" where
  "sessions g = {c. in_session (gt_handlers g c)}"

definition upstreams :: "Gate \<Rightarrow> conn set" where
  "upstreams g = {u. \<exists>c. upstream (gt_handlers g c) = Some u}"

definition handlers_ok :: "gate_config \<Rightarrow> (conn \<Rightarrow> handler) \<Rightarrow> conn list \<Rightarrow> bool" where
  "handlers_ok gc hs used \<longleftrightarrow>
     (\<forall>c. hs c \<noteq> Unknown_Client \<longrightarrow> c \<in> set used) \<and>
     (\<forall>c u. upstream_made (hs c) = Some u \<longrightarrow> u \<in> set used \<and> hs u = Unknown_Client) \<and>
     (\<forall>c c' u. upstream_made (hs c) = Some u \<longrightarrow> upstream_made (hs c') = Some u \<longrightarrow> c = c') \<and>
     (\<forall>c m. admitted_at (hs c) = Some m \<longrightarrow> gate_open gc m)"

definition counts_ok :: "gate_config \<Rightarrow> Gate \<Rightarrow> bool" where
  "counts_ok gc g \<longleftrightarrow> finite (sessions g) \<and> gt_activeSessions g = int (card (sessions g)) \<and>
     gt_activeSessions g \<le> ac_MaxConnections (gc_config gc) \<and>
     distinct (gt_connections g) \<and> set (gt_connections g) = sessions g \<union> upstreams g"

definition gate_ok :: "gate_config \<Rightarrow> Gate \<Rightarrow> bool" where
  "gate_ok gc g \<longleftrightarrow> counts_ok gc g \<and> handlers_ok gc (gt_handlers g) (gt_used g)"

lemma at_simps [simp]:
  "gt_handlers (at c h g) = (gt_handlers g)(c := h)" "gt_connections (at c h g) = gt_connections g"
  "gt_activeSessions (at c h g) = gt_activeSessions g" "gt_used (at c h g) = gt_used g"
  "gt_closing (at c h g) = gt_closing g" "gt_closed (at c h g) = gt_closed g" "gt_moment (at c h g) = gt_moment g"
  by (simp_all add: at_def)

lemma sessions_simps [simp]:
  "sessions (at c h g) = (if in_session h then insert c (sessions g) else sessions g - {c})"
  "sessions (g\<lparr>gt_used := x\<rparr>) = sessions g" "sessions (g\<lparr>gt_moment := m\<rparr>) = sessions g"
  "sessions (g\<lparr>gt_closing := x\<rparr>) = sessions g" "sessions (g\<lparr>gt_closed := x\<rparr>) = sessions g"
  "sessions (g\<lparr>gt_connections := x\<rparr>) = sessions g" "sessions (g\<lparr>gt_activeSessions := n\<rparr>) = sessions g"
  by (auto simp: sessions_def at_def)

lemma upstreams_simps [simp]:
  "upstreams (g\<lparr>gt_used := x\<rparr>) = upstreams g" "upstreams (g\<lparr>gt_moment := m\<rparr>) = upstreams g"
  "upstreams (g\<lparr>gt_closing := x\<rparr>) = upstreams g" "upstreams (g\<lparr>gt_closed := x\<rparr>) = upstreams g"
  "upstreams (g\<lparr>gt_connections := x\<rparr>) = upstreams g" "upstreams (g\<lparr>gt_activeSessions := n\<rparr>) = upstreams g"
  by (auto simp: upstreams_def)

lemma upstreams_same: "upstream h = upstream (gt_handlers g c) \<Longrightarrow> upstreams (at c h g) = upstreams g"
  unfolding upstreams_def at_def by (auto split: if_splits)

lemma upstreams_new: "upstream h = Some u \<Longrightarrow> upstream (gt_handlers g c) = None \<Longrightarrow> upstreams (at c h g) = insert u (upstreams g)"
  unfolding upstreams_def at_def by (auto split: if_splits) (metis option.distinct(1))

lemma upstream_made: "upstream h = Some u \<Longrightarrow> upstream_made h = Some u"
  by (cases h) auto

lemma handlers_okD:
  assumes "handlers_ok gc hs used"
  shows "hs c \<noteq> Unknown_Client \<Longrightarrow> c \<in> set used"
    "upstream_made (hs c) = Some u \<Longrightarrow> u \<in> set used" "upstream_made (hs c) = Some u \<Longrightarrow> hs u = Unknown_Client"
    "upstream_made (hs c) = Some u \<Longrightarrow> upstream_made (hs c') = Some u \<Longrightarrow> c = c'"
    "admitted_at (hs c) = Some m \<Longrightarrow> gate_open gc m"
  using assms unfolding handlers_ok_def by blast+

lemma handlers_ok_upd:
  assumes ok: "handlers_ok gc hs used" and h: "hs c \<noteq> Unknown_Client" "h \<noteq> Unknown_Client"
    "upstream_made h = upstream_made (hs c) \<or> upstream_made h = None"
    "\<And>m. admitted_at h = Some m \<Longrightarrow> gate_open gc m"
  shows "handlers_ok gc (hs(c := h)) used"
proof -
  have made: "upstream_made ((hs(c := h)) x) = Some u \<Longrightarrow> upstream_made (hs x) = Some u" for x u
    using h(3) by (auto split: if_splits)
  have free: "upstream_made (hs x) = Some u \<Longrightarrow> (hs(c := h)) u = Unknown_Client" for x u
    using handlers_okD(3) [OF ok] h(1) by fastforce
  show ?thesis
    unfolding handlers_ok_def
  proof (intro conjI allI impI)
    fix x assume "(hs(c := h)) x \<noteq> Unknown_Client"
    then show "x \<in> set used" using handlers_okD(1) [OF ok] h(1) by (cases "x = c") auto
  next
    fix x u assume "upstream_made ((hs(c := h)) x) = Some u"
    then show "u \<in> set used" "(hs(c := h)) u = Unknown_Client"
      using made handlers_okD(2) [OF ok] free by blast+
  next
    fix x y u assume "upstream_made ((hs(c := h)) x) = Some u" "upstream_made ((hs(c := h)) y) = Some u"
    then show "x = y" using made handlers_okD(4) [OF ok] by blast
  next
    fix x m assume "admitted_at ((hs(c := h)) x) = Some m"
    then show "gate_open gc m" using handlers_okD(5) [OF ok] h(4) by (cases "x = c") auto
  qed
qed

lemma handlers_ok_client:
  assumes ok: "handlers_ok gc hs used" and c: "c \<notin> set used"
  shows "handlers_ok gc (hs(c := Arrived)) (c # used)"
proof -
  have "hs c = Unknown_Client" using handlers_okD(1) [OF ok] c by blast
  have made: "upstream_made ((hs(c := Arrived)) x) = Some u \<Longrightarrow> upstream_made (hs x) = Some u \<and> u \<noteq> c" for x u
    using handlers_okD(2) [OF ok] c by (cases "x = c") auto
  show ?thesis
    unfolding handlers_ok_def
  proof (intro conjI allI impI)
    fix x u assume "upstream_made ((hs(c := Arrived)) x) = Some u"
    then have "upstream_made (hs x) = Some u" "u \<noteq> c" using made by blast+
    then show "u \<in> set (c # used)" "(hs(c := Arrived)) u = Unknown_Client"
      using handlers_okD(2,3) [OF ok, of x u] by simp_all
  next
    fix x y u assume "upstream_made ((hs(c := Arrived)) x) = Some u" "upstream_made ((hs(c := Arrived)) y) = Some u"
    then show "x = y" using made handlers_okD(4) [OF ok] by blast
  next
    fix x m assume "admitted_at ((hs(c := Arrived)) x) = Some m"
    then show "gate_open gc m" using handlers_okD(5) [OF ok] by (cases "x = c") auto
  qed (use handlers_okD(1) [OF ok] in \<open>auto split: if_splits\<close>)
qed

lemma handlers_ok_dial:
  assumes ok: "handlers_ok gc hs used" and u: "u \<notin> set used" "hs c = Admitted m"
  shows "handlers_ok gc (hs(c := Dialed m u)) (u # used)"
proof -
  have new: "hs u = Unknown_Client" "u \<noteq> c" using handlers_okD(1) [OF ok] u by auto
  have made: "upstream_made ((hs(c := Dialed m u)) x) = Some v \<Longrightarrow> x = c \<and> v = u \<or> x \<noteq> c \<and> upstream_made (hs x) = Some v" for x v
    by (cases "x = c") auto
  have old: "upstream_made (hs x) = Some v \<Longrightarrow> v \<noteq> u \<and> v \<noteq> c" for x v
    using handlers_okD(2,3) [OF ok] u by fastforce
  show ?thesis
    unfolding handlers_ok_def
  proof (intro conjI allI impI)
    fix x v assume "upstream_made ((hs(c := Dialed m u)) x) = Some v"
    then show "v \<in> set (u # used)" "(hs(c := Dialed m u)) v = Unknown_Client"
      using made old new handlers_okD(2,3) [OF ok] by fastforce+
  next
    fix x y v assume "upstream_made ((hs(c := Dialed m u)) x) = Some v" "upstream_made ((hs(c := Dialed m u)) y) = Some v"
    then show "x = y" using made old handlers_okD(4) [OF ok] by blast
  next
    fix x m' assume "admitted_at ((hs(c := Dialed m u)) x) = Some m'"
    then show "gate_open gc m'"
      using handlers_okD(5) [OF ok, of x] handlers_okD(5) [OF ok, of c] u(2) by (cases "x = c") auto
  qed (use handlers_okD(1) [OF ok] u(2) in \<open>auto split: if_splits\<close>)
qed

lemma upstreams_drop:
  assumes "handlers_ok gc (gt_handlers g) used" "upstream h = None" "upstream (gt_handlers g c) = Some u"
  shows "upstreams (at c h g) = upstreams g - {u}"
proof -
  have "c' = c" if "upstream (gt_handlers g c') = Some u" for c'
    using handlers_okD(4) [OF assms(1)] upstream_made assms(3) that by blast
  then have "(\<exists>x. upstream (((gt_handlers g)(c := h)) x) = Some v) \<longleftrightarrow>
      (\<exists>x. upstream (gt_handlers g x) = Some v) \<and> v \<noteq> u" for v
    using assms(2,3) by (cases "v = u") (metis fun_upd_apply option.distinct(1) option.inject)+
  then show ?thesis unfolding upstreams_def by auto
qed

text \<open>A step that moves one handler without touching the gate's bookkeeping.\<close>

lemma gate_ok_at:
  assumes ok: "gate_ok gc g" and h: "gt_handlers g c \<noteq> Unknown_Client" "h \<noteq> Unknown_Client"
    "in_session h = in_session (gt_handlers g c)" "upstream h = upstream (gt_handlers g c)"
    "upstream_made h = upstream_made (gt_handlers g c) \<or> upstream_made h = None"
    "\<And>m. admitted_at h = Some m \<Longrightarrow> gate_open gc m"
  shows "gate_ok gc (at c h g)"
proof -
  have "sessions (at c h g) = sessions g" using h(3) by (auto simp: sessions_def at_def split: if_splits)
  then show ?thesis
    using ok handlers_ok_upd [of gc "gt_handlers g" "gt_used g" c h] h(1,2,5,6) upstreams_same [OF h(4)]
    by (simp add: gate_ok_def counts_ok_def)
qed

lemma gate_ok_frame:
  "gate_ok gc (g\<lparr>gt_closing := x\<rparr>) \<longleftrightarrow> gate_ok gc g" "gate_ok gc (g\<lparr>gt_moment := m\<rparr>) \<longleftrightarrow> gate_ok gc g"
  "gate_ok gc (close_conn c g) \<longleftrightarrow> gate_ok gc g" "gate_ok gc (closeAll g) \<longleftrightarrow> gate_ok gc g"
  by (simp_all add: gate_ok_def counts_ok_def close_conn_def closeAll_def)

lemma at_close: "at c h (close_conn d g) = close_conn d (at c h g)"
  by (simp add: at_def close_conn_def)

lemma at_used: "at c h (g\<lparr>gt_used := x\<rparr>) = (at c h g)\<lparr>gt_used := x\<rparr>"
  by (simp add: at_def)

lemma gate_ok_accept:
  assumes "gate_ok gc g" "c \<notin> set (gt_used g)"
  shows "gate_ok gc (at c Arrived (g\<lparr>gt_used := c # gt_used g\<rparr>))"
proof -
  have ok: "handlers_ok gc (gt_handlers g) (gt_used g)" using assms(1) by (simp add: gate_ok_def)
  then have c: "gt_handlers g c = Unknown_Client" using handlers_okD(1) assms(2) by blast
  then have "sessions (at c Arrived g) = sessions g" "upstreams (at c Arrived g) = upstreams g"
    using upstreams_same [of Arrived g c] by (auto simp: sessions_def in_session_def)
  then show ?thesis
    using assms(1) handlers_ok_client [OF ok assms(2)] unfolding at_used by (simp add: gate_ok_def counts_ok_def)
qed

lemma gate_ok_dial:
  assumes "gate_ok gc g" "gt_handlers g c = Admitted m" "u \<notin> set (gt_used g)"
  shows "gate_ok gc (at c (Dialed m u) (g\<lparr>gt_used := u # gt_used g\<rparr>))"
proof -
  have "sessions (at c (Dialed m u) g) = sessions g" "upstreams (at c (Dialed m u) g) = upstreams g"
    using assms(2) upstreams_same [of "Dialed m u" g c] by (auto simp: sessions_def in_session_def)
  then show ?thesis
    using assms handlers_ok_dial [of gc "gt_handlers g" "gt_used g" u c m]
    unfolding at_used by (simp add: gate_ok_def counts_ok_def)
qed

lemma not_upstream:
  assumes "gate_ok gc g" "gt_handlers g c \<noteq> Unknown_Client"
  shows "c \<notin> upstreams g"
  using assms handlers_okD(3) upstream_made unfolding gate_ok_def upstreams_def by fastforce

lemma gate_ok_begin:
  assumes "gate_ok gc g" "gt_handlers g c = Arrived" "startSession gc c g = (True, g')"
  shows "gate_ok gc (at c Registered g')"
proof -
  have c: "c \<notin> sessions g" "c \<notin> upstreams g"
    using assms(2) not_upstream [OF assms(1)] by (auto simp: sessions_def in_session_def)
  have g': "at c Registered g' = (at c Registered g)\<lparr>gt_connections := c # gt_connections g,
      gt_activeSessions := gt_activeSessions g + 1\<rparr>" "gt_activeSessions g < ac_MaxConnections (gc_config gc)"
    using assms c by (auto simp: startSession_def track_def at_def gate_ok_def counts_ok_def split: if_splits)
  have "upstreams (at c Registered g) = upstreams g" using assms(2) by (intro upstreams_same) simp
  moreover have "sessions (at c Registered g) = insert c (sessions g)" by (simp add: in_session_def)
  moreover have "handlers_ok gc ((gt_handlers g)(c := Registered)) (gt_used g)"
    using assms by (intro handlers_ok_upd) (simp_all add: gate_ok_def)
  ultimately show ?thesis
    using assms(1) c g'(2) unfolding g'(1) gate_ok_def counts_ok_def by auto
qed

lemma gate_ok_track:
  assumes "gate_ok gc g" "gt_handlers g c = Dialed m u"
  shows "gate_ok gc (at c (Relaying m u) (track u g))"
proof -
  have ok: "handlers_ok gc (gt_handlers g) (gt_used g)" using assms(1) by (simp add: gate_ok_def)
  have "gt_handlers g u = Unknown_Client" using handlers_okD(3) [OF ok, of c u] assms(2) by simp
  moreover have "u \<notin> upstreams g"
  proof
    assume "u \<in> upstreams g"
    then obtain c' where c': "upstream (gt_handlers g c') = Some u" by (auto simp: upstreams_def)
    then have "c' = c" using handlers_okD(4) [OF ok, of c' u c] upstream_made assms(2) by simp
    with c' assms(2) show False by simp
  qed
  ultimately have u: "u \<notin> sessions g \<union> upstreams g" by (auto simp: sessions_def in_session_def)
  then have t: "at c (Relaying m u) (track u g) = (at c (Relaying m u) g)\<lparr>gt_connections := u # gt_connections g\<rparr>"
    using assms(1) by (auto simp: track_def at_def gate_ok_def counts_ok_def)
  have "upstreams (at c (Relaying m u) g) = insert u (upstreams g)"
    using assms(2) by (intro upstreams_new) simp_all
  moreover have "sessions (at c (Relaying m u) g) = sessions g"
    using assms(2) by (auto simp: sessions_def in_session_def)
  moreover have "handlers_ok gc ((gt_handlers g)(c := Relaying m u)) (gt_used g)"
    using assms(2) handlers_okD(5) [OF ok, of c m] by (intro handlers_ok_upd ok) auto
  ultimately show ?thesis
    using assms(1) u unfolding t gate_ok_def counts_ok_def by auto
qed

lemma gate_ok_untrack:
  assumes "gate_ok gc g" "gt_handlers g c = Closing u"
  shows "gate_ok gc (at c Leaving (untrack u g))"
proof -
  have ok: "handlers_ok gc (gt_handlers g) (gt_used g)" using assms(1) by (simp add: gate_ok_def)
  have "gt_handlers g u = Unknown_Client" using handlers_okD(3) [OF ok, of c u] assms(2) by simp
  then have u: "u \<notin> sessions g" by (auto simp: sessions_def in_session_def)
  have t: "at c Leaving (untrack u g) = (at c Leaving g)\<lparr>gt_connections := filter (\<lambda>x. x \<noteq> u) (gt_connections g)\<rparr>"
    by (simp add: at_def untrack_def)
  have "upstreams (at c Leaving g) = upstreams g - {u}"
    using assms(2) by (intro upstreams_drop [OF ok]) simp_all
  moreover have "sessions (at c Leaving g) = sessions g" using assms(2) by (auto simp: sessions_def in_session_def)
  moreover have "handlers_ok gc ((gt_handlers g)(c := Leaving)) (gt_used g)"
    using assms(2) by (intro handlers_ok_upd ok) auto
  ultimately show ?thesis
    using assms(1) u unfolding t gate_ok_def counts_ok_def by auto
qed

lemma gate_ok_leave:
  assumes "gate_ok gc g" "gt_handlers g c = Leaving"
  shows "gate_ok gc (at c Gone (endSession c g))"
proof -
  have ok: "handlers_ok gc (gt_handlers g) (gt_used g)" using assms(1) by (simp add: gate_ok_def)
  have c: "c \<in> sessions g" "c \<notin> upstreams g"
    using assms(2) not_upstream [OF assms(1)] by (auto simp: sessions_def in_session_def)
  have t: "at c Gone (endSession c g) = close_conn c ((at c Gone g)\<lparr>gt_connections := filter (\<lambda>x. x \<noteq> c) (gt_connections g),
      gt_activeSessions := gt_activeSessions g - 1\<rparr>)"
    by (simp add: at_def untrack_def endSession_def close_conn_def)
  have "upstreams (at c Gone g) = upstreams g" using assms(2) by (intro upstreams_same) simp
  moreover have "sessions (at c Gone g) = sessions g - {c}" by (simp add: in_session_def)
  moreover have "handlers_ok gc ((gt_handlers g)(c := Gone)) (gt_used g)"
    using assms(2) by (intro handlers_ok_upd ok) auto
  moreover have "int (card (sessions g - {c})) = gt_activeSessions g - 1"
    using assms(1) c(1) card_Suc_Diff1 [of "sessions g" c] by (simp add: gate_ok_def counts_ok_def)
  moreover have "set (filter (\<lambda>x. x \<noteq> c) (gt_connections g)) = (sessions g - {c}) \<union> upstreams g"
      "distinct (gt_connections g)" "finite (sessions g)" "gt_activeSessions g \<le> ac_MaxConnections (gc_config gc)"
    using assms(1) c(2) unfolding gate_ok_def counts_ok_def by auto
  ultimately show ?thesis
    unfolding t gate_ok_frame unfolding gate_ok_def counts_ok_def by (simp add: in_session_def)
qed

lemma gate_ok_step: "gate_step gc g g' \<Longrightarrow> gate_ok gc g \<Longrightarrow> gate_ok gc g'"
proof (induction rule: gate_step.induct)
  case (full g c g')
  then have "g' = g" by (simp add: startSession_def split: if_splits)
  with full show ?case unfolding at_close gate_ok_frame by (intro gate_ok_at) (auto simp: in_session_def)
next
  case (relay_ends g c m u)
  then show ?case unfolding at_close gate_ok_frame by (intro gate_ok_at) (auto simp: in_session_def)
next
  case (refused g c)
  then show ?case by (intro gate_ok_at) (auto simp: in_session_def)
next
  case (admitted g c)
  then show ?case by (intro gate_ok_at) (auto simp: in_session_def)
next
  case (dial_failed g c m)
  then show ?case by (intro gate_ok_at) (auto simp: in_session_def)
qed (simp_all add: gate_ok_frame gate_ok_accept gate_ok_begin gate_ok_dial gate_ok_track gate_ok_untrack gate_ok_leave)

definition starts :: "gate_config \<Rightarrow> Gate \<Rightarrow> bool" where
  "starts gc g \<longleftrightarrow> (\<exists>m. NewGate gc m = Inr g)"

lemma starts_ok: "starts gc g \<Longrightarrow> gate_ok gc g"
  unfolding starts_def NewGate_def
  by (auto simp: gate_ok_def counts_ok_def handlers_ok_def sessions_def upstreams_def in_session_def
      validate_admission_def)

interpretation gate: guarded_system "starts gc" "gate_step gc" "gate_ok gc" for gc
  by unfold_locales (auto intro: starts_ok gate_ok_step)


section \<open>Properties\<close>

lemma upstreams_le: "finite (sessions g) \<Longrightarrow> card (upstreams g) \<le> card (sessions g)"
proof (rule surj_card_le)
  show "upstreams g \<subseteq> (\<lambda>c. the (upstream (gt_handlers g c))) ` sessions g"
  proof
    fix u assume "u \<in> upstreams g"
    then obtain c where c: "upstream (gt_handlers g c) = Some u" by (auto simp: upstreams_def)
    then have "c \<in> sessions g" by (cases "gt_handlers g c") (auto simp: sessions_def in_session_def)
    with c show "u \<in> (\<lambda>c. the (upstream (gt_handlers g c))) ` sessions g" by force
  qed
qed

text \<open>
  C31. The gate's bookkeeping is exact and bounded: in every interleaving of its goroutines the session
  counter equals the number of clients between \<open>startSession\<close> and \<open>endSession\<close>, never exceeds
  \<open>max_connections\<close> (at most 4096) and is never negative, and the tracked connections are exactly these
  clients and their upstreams, at most two per session.
\<close>

theorem gate_sessions_bounded:
  assumes "starts gc g0" "reachable_by (gate_step gc) g0 g"
  shows "gt_activeSessions g = int (card {c. in_session (gt_handlers g c)}) \<and>
    gt_activeSessions g \<le> ac_MaxConnections (gc_config gc) \<and> gt_activeSessions g \<le> 4096 \<and>
    set (gt_connections g) = {c. in_session (gt_handlers g c)} \<union> {u. \<exists>c. upstream (gt_handlers g c) = Some u} \<and>
    int (length (gt_connections g)) \<le> 2 * ac_MaxConnections (gc_config gc)"
proof -
  have ok: "counts_ok gc g" using gate.inv_reachable [OF assms] by (simp add: gate_ok_def)
  have max: "ac_MaxConnections (gc_config gc) \<le> 4096"
    using assms(1) by (auto simp: starts_def NewGate_def validate_admission_def)
  have "length (gt_connections g) = card (sessions g \<union> upstreams g)"
    using ok unfolding counts_ok_def by (metis distinct_card)
  also have "\<dots> \<le> card (sessions g) + card (upstreams g)" by (rule card_Un_le)
  also have "\<dots> \<le> 2 * card (sessions g)" using upstreams_le [of g] ok by (simp add: counts_ok_def)
  finally have "length (gt_connections g) \<le> 2 * card (sessions g)" .
  with ok max show ?thesis by (simp add: counts_ok_def sessions_def upstreams_def)
qed

text \<open>What a call of \<open>closeAll\<close> has taken is closed or still to be closed, whatever happens.\<close>

definition marked :: "conn set \<Rightarrow> Gate \<Rightarrow> bool" where
  "marked taken g \<longleftrightarrow> taken \<subseteq> set (gt_closed g) \<union> set (gt_closing g)"

lemma marked_step: "gate_step gc g g' \<Longrightarrow> marked taken g \<Longrightarrow> marked taken g'"
  by (induction rule: gate_step.induct)
     (auto simp: marked_def gate_defs split: if_splits)

interpretation shut: guarded_system "marked taken" "gate_step gc" "marked taken" for taken gc
  by unfold_locales (auto intro: marked_step)

text \<open>
  C32. The gate fails closed: in every interleaving a client's bytes are relayed only if the admission
  files granted access after its session was registered; and once the gate has found admission closed
  (or is shut down), every connection it had then is closed as soon as that sweep is through.
\<close>

theorem gate_fails_closed:
  assumes "starts gc g0" "reachable_by (gate_step gc) g0 g"
  shows "(\<forall>c m u. gt_handlers g c = Relaying m u \<longrightarrow> gate_open gc m) \<and>
    (\<forall>g'. reachable_by (gate_step gc) (closeAll g) g' \<longrightarrow> gt_closing g' = [] \<longrightarrow>
       (\<forall>c. in_session (gt_handlers g c) \<longrightarrow> c \<in> set (gt_closed g')) \<and>
       (\<forall>c m u. gt_handlers g c = Relaying m u \<longrightarrow> u \<in> set (gt_closed g')))"
proof (intro conjI allI impI)
  fix c m u
  assume "gt_handlers g c = Relaying m u"
  then show "gate_open gc m"
    using gate.inv_reachable [OF assms] handlers_okD(5) [of gc "gt_handlers g" "gt_used g" c m] by (simp add: gate_ok_def)
next
  fix g'
  assume g': "reachable_by (gate_step gc) (closeAll g) g'" "gt_closing g' = []"
  have set: "set (gt_connections g) = sessions g \<union> upstreams g"
    using gate.inv_reachable [OF assms] by (simp add: gate_ok_def counts_ok_def)
  have "marked (set (gt_connections g)) (closeAll g)" by (auto simp: marked_def closeAll_def)
  from shut.inv_from [OF g'(1) this] have closed: "sessions g \<union> upstreams g \<subseteq> set (gt_closed g')"
    using g'(2) set by (simp add: marked_def)
  show "c \<in> set (gt_closed g')" if "in_session (gt_handlers g c)" for c
    using closed that by (auto simp: sessions_def)
  show "u \<in> set (gt_closed g')" if "gt_handlers g c = Relaying m u" for c m u
  proof -
    have "upstream (gt_handlers g c) = Some u" using that by simp
    then have "u \<in> upstreams g" unfolding upstreams_def by blast
    with closed show ?thesis by blast
  qed
qed


section \<open>A concrete run\<close>

definition sample_gate_config :: gate_config where
  "sample_gate_config = \<lparr>gc_config = sample_admission, gc_state_reader = sample_reader sample_lease,
     gc_runtime_reader = sample_reader sample_runtime\<rparr>"

definition sample_gate :: Gate where
  "sample_gate = \<lparr>gt_connections = [], gt_activeSessions = 0, gt_handlers = (\<lambda>_. Unknown_Client), gt_used = [],
     gt_closing = [], gt_closed = [], gt_moment = (sample_access, 110 * second)\<rparr>"

definition sample_relay :: Gate where
  "sample_relay = \<lparr>gt_connections = [2, 1], gt_activeSessions = 1,
     gt_handlers = (\<lambda>_. Unknown_Client)(1 := Relaying (sample_access, 110 * second) 2), gt_used = [2, 1],
     gt_closing = [], gt_closed = [], gt_moment = (sample_access, 110 * second)\<rparr>"

lemma sample_admission_valid: "validate_admission sample_admission = Inr ()"
  by code_simp

lemma sample_starts: "starts sample_gate_config sample_gate"
  by (auto simp: starts_def NewGate_def sample_gate_config_def sample_gate_def sample_admission_valid)

lemma sample_relay_reachable: "reachable_by (gate_step sample_gate_config) sample_gate sample_relay"
proof -
  let ?m = "(sample_access, 110 * second)"
  have o: "gate_open sample_gate_config ?m" using sample_open by (simp add: gate_open_def sample_gate_config_def)
  have max: "ac_MaxConnections (gc_config sample_gate_config) = 2"
    by (simp add: sample_gate_config_def sample_admission_def)
  let ?g = "\<lambda>cs n h us. sample_gate\<lparr>gt_connections := cs, gt_activeSessions := n,
      gt_handlers := (\<lambda>_. Unknown_Client)(1 := h), gt_used := us\<rparr>"
  have "gate_step sample_gate_config sample_gate (?g [] 0 Arrived [1])"
    using gate_step.accept [of 1 sample_gate sample_gate_config] by (simp add: at_def sample_gate_def)
  moreover have "gate_step sample_gate_config (?g [] 0 Arrived [1]) (?g [1] 1 Registered [1])"
    using gate_step.begin_session [of "?g [] 0 Arrived [1]" 1 sample_gate_config "?g [1] 1 Arrived [1]"]
    by (simp add: startSession_def track_def max at_def sample_gate_def)
  moreover have "gate_step sample_gate_config (?g [1] 1 Registered [1]) (?g [1] 1 (Admitted ?m) [1])"
    using gate_step.admitted [of "?g [1] 1 Registered [1]" 1 sample_gate_config] o
    by (simp add: at_def sample_gate_def)
  moreover have "gate_step sample_gate_config (?g [1] 1 (Admitted ?m) [1]) (?g [1] 1 (Dialed ?m 2) [2, 1])"
    using gate_step.dial [of "?g [1] 1 (Admitted ?m) [1]" 1 ?m 2 sample_gate_config] by (simp add: at_def sample_gate_def)
  moreover have "gate_step sample_gate_config (?g [1] 1 (Dialed ?m 2) [2, 1]) sample_relay"
    using gate_step.track_upstream [of "?g [1] 1 (Dialed ?m 2) [2, 1]" 1 ?m 2 sample_gate_config]
    by (simp add: at_def track_def sample_gate_def sample_relay_def)
  ultimately show ?thesis by (meson reachable_by.intros)
qed

theorem gate_sessions_bounded_witness:
  "gt_activeSessions sample_relay = int (card {c. in_session (gt_handlers sample_relay c)}) \<and> gt_activeSessions sample_relay = 1"
  using gate_sessions_bounded [OF sample_starts sample_relay_reachable] by (simp add: sample_relay_def)

theorem gate_fails_closed_witness:
  "gt_handlers sample_relay 1 = Relaying (sample_access, 110 * second) 2 \<and>
   gate_open sample_gate_config (sample_access, 110 * second)"
  using gate_fails_closed [OF sample_starts sample_relay_reachable] by (simp add: sample_relay_def)

end
