(* ===== verification/Paper_Snapshot.thy ===== *)
theory Paper_Snapshot
  imports Complex_Main Agent_Service Local_Files
begin

text \<open>
  The Paper runtime adapter, \<open>src/internal/adapters/paper/snapshot.go\<close>: it reads the bounded snapshot
  that GARGuard publishes, validates it and answers observations and read tools from it.

  \<open>observer_env\<close> is what a read sees: the files, the clock (\<open>oe_clock k\<close> is its reading number \<open>k\<close> within
  one call), the digest functions and \<open>strings.ToLower\<close> on names that need not be ASCII. A
  \<open>float64\<close> of JSON is its text with its value; the code compares it with bounds only.
\<close>

section \<open>Snapshots\<close>

record float64 =
  fl_text :: string
  fl_value :: "rat option"

record PluginObservation =
  po_Name :: string
  po_Version :: string
  po_Enabled :: bool
  po_SourceAttribution :: string

record PaperSnapshot =
  pn_SchemaVersion :: string
  pn_PairingID :: string
  pn_BootID :: string
  pn_ObservedAt :: gotime
  pn_Ready :: bool
  pn_AdmissionState :: string
  pn_PlayerCount :: int
  pn_TPS :: "float64 list"
  pn_MSPT :: float64
  pn_HeapUsedBytes :: int
  pn_HeapMaxBytes :: int
  pn_Plugins :: "PluginObservation list"

record 'a observer_env =
  oe_access :: file_access
  oe_reader :: "'a json_reader"
  oe_clock :: "nat \<Rightarrow> gotime"
  oe_crypto :: crypto
  oe_ToLower :: "string \<Rightarrow> string"

record PaperTarget =
  pt_path :: string
  pt_enrollment :: Enrollment

definition NewPaperTarget :: "string \<Rightarrow> Enrollment \<Rightarrow> PaperTarget result" where
  "NewPaperTarget path enrollment =
     and_then (check (clean_absolute path)
       (OtherError ''Paper runtime snapshot path must be a clean absolute path'')) (\<lambda>_.
     and_then (check (en_RuntimeGuardPairing enrollment \<noteq> '''')
       (OtherError ''enrollment runtime_guard_pairing is required'')) (\<lambda>_.
     Inr \<lparr>pt_path = path, pt_enrollment = enrollment\<rparr>))"

definition finiteBetween :: "float64 \<Rightarrow> rat \<Rightarrow> rat \<Rightarrow> bool" where
  "finiteBetween v minimum maximum =
     (case fl_value v of None \<Rightarrow> False | Some x \<Rightarrow> minimum \<le> x \<and> x \<le> maximum)"

fun validate_plugins :: "(string \<Rightarrow> string) \<Rightarrow> string list \<Rightarrow> PluginObservation list \<Rightarrow> unit result" where
  "validate_plugins lower seen [] = Inr ()"
| "validate_plugins lower seen (p # ps) =
     (if po_Name p = '''' \<or> 128 < length (po_Name p) \<or> 128 < length (po_Version p) \<or>
         po_SourceAttribution p \<noteq> ''UNAVAILABLE''
      then Inl (OtherError ''Paper runtime plugin observation is invalid'')
      else if lower (po_Name p) \<in> set seen
      then Inl (OtherError ''Paper runtime plugin names conflict'')
      else validate_plugins lower (lower (po_Name p) # seen) ps)"

definition validate_paper :: "(string \<Rightarrow> string) \<Rightarrow> PaperSnapshot \<Rightarrow> string \<Rightarrow> gotime \<Rightarrow> unit result" where
  "validate_paper lower s expectedPairing now =
     and_then (check (pn_SchemaVersion s = ''gar.paper-runtime-observation.v1'')
       (OtherError ''unsupported Paper runtime snapshot schema'')) (\<lambda>_.
     and_then (check (pn_PairingID s = expectedPairing)
       (OtherError ''Paper runtime guard pairing mismatch'')) (\<lambda>_.
     and_then (check (\<not> (length (pn_BootID s) < 16 \<or> 128 < length (pn_BootID s)))
       (OtherError ''Paper runtime boot ID is invalid'')) (\<lambda>_.
     and_then (check (\<not> (IsZero (pn_ObservedAt s) \<or> After (pn_ObservedAt s) (Add now (2 * second))))
       (OtherError ''Paper runtime observation timestamp is invalid'')) (\<lambda>_.
     and_then (check (pn_AdmissionState s = ''OPEN_READ_ONLY_ALPHA'' \<or> pn_AdmissionState s = ''MAINTENANCE'')
       (OtherError ''Paper runtime admission state is unknown'')) (\<lambda>_.
     and_then (check (\<not> (pn_PlayerCount s < 0 \<or> 200000 < pn_PlayerCount s))
       (OtherError ''Paper runtime player count is outside bounds'')) (\<lambda>_.
     and_then (check (length (pn_TPS s) = 3)
       (OtherError ''Paper runtime TPS must contain 1m, 5m, and 15m values'')) (\<lambda>_.
     and_then (check (list_all (\<lambda>v. finiteBetween v 0 100) (pn_TPS s))
       (OtherError ''Paper runtime TPS is outside bounds'')) (\<lambda>_.
     and_then (check (finiteBetween (pn_MSPT s) 0 60000)
       (OtherError ''Paper runtime MSPT is outside bounds'')) (\<lambda>_.
     and_then (check (\<not> (pn_HeapUsedBytes s < 0 \<or> pn_HeapMaxBytes s < 1 \<or> pn_HeapMaxBytes s < pn_HeapUsedBytes s))
       (OtherError ''Paper runtime heap observation is invalid'')) (\<lambda>_.
     and_then (check (length (pn_Plugins s) \<le> 512)
       (OtherError ''Paper runtime plugin inventory exceeds 512 entries'')) (\<lambda>_.
     validate_plugins lower [] (pn_Plugins s))))))))))))"

definition maxSnapshotBytes :: nat where "maxSnapshotBytes = 256 * 1024"

definition read_paper_file :: "file_access \<Rightarrow> string \<Rightarrow> nat list result" where
  "read_paper_file fa path =
     and_then (wrap ''Paper runtime snapshot unavailable: '' (fa_EvalSymlinks fa path)) (\<lambda>resolved.
     and_then (check (resolved = path) (OtherError ''Paper runtime snapshot path traverses a symlink'')) (\<lambda>_.
     and_then (wrap ''open Paper runtime snapshot: '' (fa_OpenNoFollow fa path)) (\<lambda>_.
     and_then (case fa_Fstat fa path of
         Inl _ \<Rightarrow> Inl (OtherError ''Paper runtime snapshot must be a regular file'')
       | Inr info \<Rightarrow> and_then (check (IsRegular (st_mode info))
           (OtherError ''Paper runtime snapshot must be a regular file'')) (\<lambda>_. Inr info)) (\<lambda>info.
     and_then (check (\<not> (st_size info < 1 \<or> int maxSnapshotBytes < st_size info))
       (OtherError ''Paper runtime snapshot size is outside 1..256 KiB'')) (\<lambda>_.
     and_then (wrap ''read bounded Paper runtime snapshot: '' (fa_ReadFile fa path)) (\<lambda>content.
     let payload = take (maxSnapshotBytes + 1) content in
     and_then (check (length payload \<le> maxSnapshotBytes)
       (OtherError ''Paper runtime snapshot exceeds 256 KiB'')) (\<lambda>_. Inr payload)))))))"

text \<open>
  \<open>read\<close>: the snapshot, its digest and whether it is fresh. The availability that the code returns
  beside an error is not used by any caller and not modelled.
\<close>

definition ReadSnapshot ::
  "PaperSnapshot observer_env \<Rightarrow> PaperTarget \<Rightarrow> (PaperSnapshot \<times> string \<times> Availability) result" where
  "ReadSnapshot oe target =
     and_then (read_paper_file (oe_access oe) (pt_path target)) (\<lambda>payload.
     and_then (reject_duplicates (jr_lexemes (oe_reader oe) payload)) (\<lambda>_.
     and_then (wrap ''decode Paper runtime snapshot: '' (jr_Decode (oe_reader oe) payload)) (\<lambda>snapshot.
     and_then (check (\<not> jr_trailing (oe_reader oe) payload)
       (OtherError ''Paper runtime snapshot contains trailing JSON'')) (\<lambda>_.
     and_then (validate_paper (oe_ToLower oe) snapshot
       (en_RuntimeGuardPairing (pt_enrollment target)) (oe_clock oe 0)) (\<lambda>_.
     Inr (snapshot, hex_encode (sum256 (oe_crypto oe) payload),
       if 5 * second < Sub (oe_clock oe 1) (pn_ObservedAt snapshot) then Stale else Available))))))"

section \<open>Observations and read tools\<close>

definition paper_reading :: "Availability \<Rightarrow> gvalue \<Rightarrow> string \<Rightarrow> PaperSnapshot \<Rightarrow> ObservationValue" where
  "paper_reading quality v unit_name s =
     \<lparr>ov_Availability = quality, ov_Value = v, ov_Unit = unit_name, ov_Reason = '''', ov_Source = ''paper-guard'',
      ov_ObservedAt = pn_ObservedAt s, ov_BootID = pn_BootID s\<rparr>"

definition paper_Observe :: "PaperSnapshot observer_env \<Rightarrow> PaperTarget \<Rightarrow> Enrollment \<Rightarrow> ObservationBundle result" where
  "paper_Observe oe target enrollment =
     and_then (check (en_EnrollmentID enrollment = en_EnrollmentID (pt_enrollment target) \<and>
         en_DeploymentGeneration enrollment = en_DeploymentGeneration (pt_enrollment target))
       (OtherError ''requested enrollment does not match runtime adapter'')) (\<lambda>_.
     and_then (ReadSnapshot oe target) (\<lambda>(snapshot, digest, quality).
     Inr \<lparr>ob_BundleID = ''runtime_'' @ digest, ob_EnrollmentID = en_EnrollmentID enrollment,
          ob_DeploymentGeneration = en_DeploymentGeneration enrollment, ob_ContainerID = en_ContainerID enrollment,
          ob_BootID = pn_BootID snapshot, ob_InventoryDigest = '''', ob_ConfigDigest = '''', ob_ActiveArtifacts = [],
          ob_Readings = [(''players'', paper_reading quality (GInt (pn_PlayerCount snapshot)) ''count'' snapshot),
                         (''guard_ready'', paper_reading quality (GBool (pn_Ready snapshot)) '''' snapshot)],
          ob_CreatedAt = pn_ObservedAt snapshot\<rparr>))"

definition unavailable_metric :: "string \<Rightarrow> gvalue" where
  "unavailable_metric reason =
     GMap [(''availability'', GString (availability_text Unavailable)), (''reason_code'', GString reason)]"

definition observation_metric :: "Availability \<Rightarrow> gvalue \<Rightarrow> string \<Rightarrow> gvalue" where
  "observation_metric quality v unit_name =
     GMap [(''availability'', GString (availability_text quality)), (''value'', v), (''unit'', GString unit_name)]"

definition paper_unavailable :: "string \<Rightarrow> string \<Rightarrow> gotime \<Rightarrow> gvalue" where
  "paper_unavailable tool_name reason observedAt = GMap
     [(''availability'', GString (availability_text Unavailable)), (''source'', GString ''paper-guard''),
      (''observed_at'', GTime observedAt), (''reason_code'', GString reason), (''tool'', GString tool_name)]"

definition paper_plugin :: "PluginObservation \<Rightarrow> gvalue" where
  "paper_plugin p = GMap
     [(''name'', GString (po_Name p)), (''version'', GString (po_Version p)), (''enabled'', GBool (po_Enabled p)),
      (''source_attribution'', GString (po_SourceAttribution p))]"

definition paper_ReadTool :: "PaperSnapshot observer_env \<Rightarrow> PaperTarget \<Rightarrow> string \<Rightarrow> arguments \<Rightarrow> gvalue result" where
  "paper_ReadTool oe target name args =
     (case ReadSnapshot oe target of
        Inl _ \<Rightarrow> Inr (paper_unavailable name ''PAPER_SNAPSHOT_UNAVAILABLE'' (oe_clock oe 2))
      | Inr (s, digest, quality) \<Rightarrow>
          let base = [(''availability'', GString (availability_text quality)), (''source'', GString ''paper-guard''),
                      (''observed_at'', GTime (pn_ObservedAt s)), (''boot_id'', GString (pn_BootID s)),
                      (''evidence_id'', GString (''runtime_'' @ digest))]
          in if name = ''get_health'' then Inr (GMap (base @
               [(''runtime_ready'', GBool (pn_Ready s)), (''admission_state'', GString (pn_AdmissionState s)),
                (''process'', unavailable_metric ''HOST_OBSERVER_REQUIRED'')]))
             else if name = ''get_players'' then Inr (GMap (base @
               [(''player_count'', GInt (pn_PlayerCount s)), (''unit'', GString ''count'')]))
             else if name = ''get_performance'' then Inr (GMap (base @
               [(''tps'', observation_metric quality (GSlice (map (\<lambda>v. GFloat (fl_text v)) (pn_TPS s))) ''ticks_per_second''),
                (''mspt'', observation_metric quality (GFloat (fl_text (pn_MSPT s))) ''milliseconds''),
                (''heap_used_bytes'', observation_metric quality (GInt (pn_HeapUsedBytes s)) ''bytes''),
                (''heap_max_bytes'', observation_metric quality (GInt (pn_HeapMaxBytes s)) ''bytes''),
                (''host_cpu'', unavailable_metric ''HOST_OBSERVER_REQUIRED''),
                (''host_disk'', unavailable_metric ''HOST_OBSERVER_REQUIRED'')]))
             else if name = ''list_plugins'' then Inr (GMap (base @
               [(''plugins'', GSlice (map paper_plugin (pn_Plugins s))), (''artifact_hashes_available'', GBool False)]))
             else if name = ''get_recent_errors''
             then Inr (paper_unavailable name ''PAPER_LOGS_NOT_OBSERVED'' (oe_clock oe 2))
             else if name = ''get_recent_changes'' then Inr (GMap
               [(''availability'', GString (availability_text Unavailable)), (''changes'', GSlice []),
                (''reason_code'', GString ''HOST_CHANGE_JOURNAL_NOT_IMPLEMENTED''), (''source'', GString ''gar''),
                (''observed_at'', GTime (oe_clock oe 2))])
             else if name = ''get_backup_status''
             then Inr (paper_unavailable name ''HOST_BACKUP_ADAPTER_NOT_IMPLEMENTED'' (oe_clock oe 2))
             else Inl (NewError ErrInvalidRequest ''unsupported Paper read tool''))"

definition paper_target :: "PaperSnapshot observer_env \<Rightarrow> PaperTarget \<Rightarrow> target_reader" where
  "paper_target oe target = \<lparr>tr_Observe = paper_Observe oe target, tr_ReadTool = paper_ReadTool oe target\<rparr>"

section \<open>What a snapshot that is read satisfies\<close>

lemma validate_plugins_distinct:
  "validate_plugins lower seen ps = Inr u \<Longrightarrow>
   distinct (map (lower \<circ> po_Name) ps) \<and> set seen \<inter> set (map (lower \<circ> po_Name) ps) = {}"
  by (induction lower seen ps rule: validate_plugins.induct) (auto split: if_splits)

lemma ReadSnapshot_Inr:
  assumes "ReadSnapshot oe target = Inr (s, digest, quality)"
  shows "pn_PairingID s = en_RuntimeGuardPairing (pt_enrollment target)"
    "16 \<le> length (pn_BootID s)" "pn_ObservedAt s \<noteq> 0" "pn_ObservedAt s \<le> oe_clock oe 0 + 2 * second"
    "0 \<le> pn_PlayerCount s" "pn_PlayerCount s \<le> 200000" "length (pn_Plugins s) \<le> 512"
    "distinct (map (oe_ToLower oe \<circ> po_Name) (pn_Plugins s))"
    "quality = Available \<longleftrightarrow> oe_clock oe 1 - pn_ObservedAt s \<le> 5 * second" "quality \<in> {Available, Stale}"
proof -
  have v: "validate_paper (oe_ToLower oe) s (en_RuntimeGuardPairing (pt_enrollment target)) (oe_clock oe 0) = Inr ()"
      "quality = (if 5 * second < Sub (oe_clock oe 1) (pn_ObservedAt s) then Stale else Available)"
    using assms by (auto simp: ReadSnapshot_def)
  from v(1) have "pn_PairingID s = en_RuntimeGuardPairing (pt_enrollment target) \<and> 16 \<le> length (pn_BootID s) \<and>
      pn_ObservedAt s \<noteq> 0 \<and> pn_ObservedAt s \<le> oe_clock oe 0 + 2 * second \<and> 0 \<le> pn_PlayerCount s \<and>
      pn_PlayerCount s \<le> 200000 \<and> length (pn_Plugins s) \<le> 512 \<and>
      validate_plugins (oe_ToLower oe) [] (pn_Plugins s) = Inr ()"
    unfolding validate_paper_def by (auto simp: go_time)
  then show "pn_PairingID s = en_RuntimeGuardPairing (pt_enrollment target)"
    "16 \<le> length (pn_BootID s)" "pn_ObservedAt s \<noteq> 0" "pn_ObservedAt s \<le> oe_clock oe 0 + 2 * second"
    "0 \<le> pn_PlayerCount s" "pn_PlayerCount s \<le> 200000" "length (pn_Plugins s) \<le> 512"
    "distinct (map (oe_ToLower oe \<circ> po_Name) (pn_Plugins s))"
    using validate_plugins_distinct by blast+
  have "5 * second < Sub (oe_clock oe 1) (pn_ObservedAt s) \<longleftrightarrow> 5 * second < oe_clock oe 1 - pn_ObservedAt s"
    by (rule Sub_gt_iff) (simp_all add: go_time)
  with v(2) show "quality = Available \<longleftrightarrow> oe_clock oe 1 - pn_ObservedAt s \<le> 5 * second" "quality \<in> {Available, Stale}"
    by auto
qed

end
