(* ===== verification/Host_Snapshot.thy ===== *)
theory Host_Snapshot
  imports Paper_Snapshot
begin

text \<open>
  The host adapter of the agent's frontend, \<open>src/internal/adapters/host/snapshot.go\<close>: it reads the
  snapshot that the host observer publishes, checks it against the enrollment and answers from it.
\<close>

record PluginArtifact =
  pa_PluginID :: string
  pa_SHA256 :: string
  pa_Size :: int

record PublishedBinding =
  pb_HostIP :: string
  pb_HostPort :: int
  pb_ContainerPort :: int
  pb_Protocol :: string

record HostSnapshot =
  hs_SchemaVersion :: string
  hs_Availability :: Availability
  hs_ReasonCode :: string
  hs_ObservedAt :: gotime
  hs_EnrollmentID :: string
  hs_DeploymentGeneration :: int
  hs_ContainerID :: string
  hs_ImageID :: string
  hs_ContainerStatus :: string
  hs_Running :: bool
  hs_HealthStatus :: string
  hs_RestartPolicy :: string
  hs_DataRootIdentity :: string
  hs_BootstrapFingerprint :: string
  hs_InventoryDigest :: string
  hs_PluginArtifacts :: "PluginArtifact list"
  hs_CompetingStartupWriters :: "string list"
  hs_DiskFreeBytes :: int
  hs_RecentErrorsAvailability :: Availability
  hs_RecentErrorsReasonCode :: string
  hs_ErrorCursor :: string
  hs_RecentErrors :: "string list"
  hs_AdmissionBarrierAvailability :: Availability
  hs_AdmissionBarrierReasonCode :: string
  hs_AdmissionOpen :: bool
  hs_AdmissionGateContainerID :: string
  hs_AdmissionPublishedBindings :: "PublishedBinding list"

record HostTarget =
  ht_path :: string
  ht_enrollment :: Enrollment
  ht_registered :: "(string \<times> string) list"

definition artifact_key :: "string \<Rightarrow> string \<Rightarrow> string" where
  "artifact_key pluginID sha256 = pluginID @ [CHR 0x00] @ sha256"

fun register_artifacts ::
  "(string \<times> ArtifactRecord) list \<Rightarrow> (string \<times> string) list \<Rightarrow> (string \<times> string) list result" where
  "register_artifacts [] registered = Inr registered"
| "register_artifacts ((artifactID, a) # rest) registered =
     (let key = artifact_key (ar_PluginID a) (ar_SHA256 a) in
      case map_of registered key of
        Some existing \<Rightarrow>
          if existing \<noteq> artifactID
          then Inl (OtherError ''artifact registry ambiguously maps one plugin SHA-256'')
          else register_artifacts rest (map_put registered key artifactID)
      | None \<Rightarrow> register_artifacts rest (map_put registered key artifactID))"

definition NewHostTarget :: "string \<Rightarrow> Enrollment \<Rightarrow> (string \<times> ArtifactRecord) list \<Rightarrow> HostTarget result" where
  "NewHostTarget path enrollment artifacts =
     and_then (check (clean_absolute path) (OtherError ''host snapshot path must be a clean absolute path'')) (\<lambda>_.
     and_then (register_artifacts artifacts []) (\<lambda>registered.
     Inr \<lparr>ht_path = path, ht_enrollment = enrollment, ht_registered = registered\<rparr>))"

section \<open>Validation\<close>

definition known_reasons :: "string list" where
  "known_reasons =
     [''DOCKER_INSPECT_UNAVAILABLE'', ''CONTAINER_ID_MISMATCH'', ''CONTAINER_NOT_RUNNING'',
      ''CONTAINER_UNHEALTHY'', ''RESTART_POLICY_MISMATCH'', ''DATA_ROOT_UNAVAILABLE'',
      ''BOOTSTRAP_FINGERPRINT_UNAVAILABLE'', ''COMPETING_STARTUP_WRITERS'', ''IMAGE_ID_MISMATCH'',
      ''DATA_ROOT_IDENTITY_MISMATCH'', ''BOOTSTRAP_FINGERPRINT_MISMATCH'', ''DATA_MOUNT_MISMATCH'',
      ''PLUGIN_ATTRIBUTION_UNAVAILABLE'', ''INVENTORY_DIGEST_UNAVAILABLE'', ''DISK_OBSERVATION_UNAVAILABLE'',
      ''ADMISSION_BARRIER_UNAVAILABLE'']"

definition knownUnavailableReason :: "string \<Rightarrow> bool" where
  "knownUnavailableReason reason = contains known_reasons reason"

fun validate_artifacts :: "string list \<Rightarrow> PluginArtifact list \<Rightarrow> unit result" where
  "validate_artifacts seen [] = Inr ()"
| "validate_artifacts seen (p # ps) =
     (if pa_PluginID p = '''' \<or> 128 < length (pa_PluginID p) \<or> \<not> validSHA256 (pa_SHA256 p) \<or>
         pa_Size p < 1 \<or> 100 * 2 ^ 20 < pa_Size p
      then Inl (OtherError ''host plugin artifact evidence is invalid'')
      else if pa_PluginID p \<in> set seen then Inl (OtherError ''host plugin artifact IDs conflict'')
      else validate_artifacts (pa_PluginID p # seen) ps)"

definition validate_barrier :: "HostSnapshot \<Rightarrow> unit result" where
  "validate_barrier s =
     and_then (check (hs_AdmissionBarrierAvailability s = Available \<or> hs_AdmissionBarrierAvailability s = Unavailable)
       (OtherError ''host admission barrier availability is invalid'')) (\<lambda>_.
     if hs_AdmissionBarrierAvailability s = Available
     then check (\<not> (length (hs_AdmissionGateContainerID s) \<noteq> 64 \<or> hs_AdmissionBarrierReasonCode s = '''' \<or>
            length (hs_AdmissionPublishedBindings s) < 1))
       (OtherError ''available admission barrier evidence is incomplete'')
     else check (hs_AdmissionBarrierReasonCode s = ''ADMISSION_BARRIER_NOT_CONFIGURED'')
       (OtherError ''unavailable admission barrier evidence lacks a stable reason''))"

definition validate_errors :: "HostSnapshot \<Rightarrow> unit result" where
  "validate_errors s =
     and_then (check (hs_RecentErrorsAvailability s = Available \<or> hs_RecentErrorsAvailability s = Unavailable)
       (OtherError ''host recent-error availability is invalid'')) (\<lambda>_.
     if hs_RecentErrorsAvailability s = Available
     then check (\<not> (\<not> validSHA256 (hs_ErrorCursor s) \<or> hs_RecentErrorsReasonCode s \<noteq> ''''))
       (OtherError ''available host recent-error evidence is malformed'')
     else check (\<not> (hs_RecentErrorsReasonCode s \<noteq> ''PAPER_LOG_UNAVAILABLE'' \<and>
            hs_RecentErrorsReasonCode s \<noteq> ''PAPER_LOG_IDENTITY_UNAVAILABLE''))
       (OtherError ''unavailable host recent-error evidence lacks a stable reason''))"

definition validate_available :: "HostSnapshot \<Rightarrow> Enrollment \<Rightarrow> unit result" where
  "validate_available s en =
     and_then (check (\<not> (hs_ContainerID s \<noteq> en_ContainerID en \<or> hs_ImageID s \<noteq> en_ImageDigest en \<or>
         hs_DataRootIdentity s \<noteq> en_DataRootIdentity en))
       (OtherError ''host snapshot fixed target identity mismatch'')) (\<lambda>_.
     and_then (check (hs_BootstrapFingerprint s = en_BootstrapFingerprint en)
       (OtherError ''host snapshot bootstrap fingerprint mismatch'')) (\<lambda>_.
     and_then (check (hs_RestartPolicy s = ''no'')
       (OtherError (''host snapshot restart policy is not '' @ [CHR 39] @ ''no'' @ [CHR 39]))) (\<lambda>_.
     and_then (check (hs_Running s \<and> hs_ContainerStatus s = ''running'')
       (OtherError ''host snapshot container is not running'')) (\<lambda>_.
     and_then (check (hs_HealthStatus s \<noteq> ''unhealthy'')
       (OtherError ''host snapshot container is unhealthy'')) (\<lambda>_.
     and_then (check (hs_CompetingStartupWriters s = [])
       (OtherError ''host snapshot reports competing startup writers'')) (\<lambda>_.
     and_then (validate_barrier s) (\<lambda>_.
     and_then (check (\<not> (512 < length (hs_PluginArtifacts s) \<or> 200 < length (hs_RecentErrors s)))
       (OtherError ''host snapshot evidence exceeds bounded collections'')) (\<lambda>_.
     and_then (validate_errors s) (\<lambda>_.
     validate_artifacts [] (hs_PluginArtifacts s))))))))))"

definition validate_host :: "HostSnapshot \<Rightarrow> Enrollment \<Rightarrow> gotime \<Rightarrow> unit result" where
  "validate_host s en now =
     and_then (check (hs_SchemaVersion s = ''gar.host-observation.v1'')
       (OtherError ''unsupported host snapshot schema'')) (\<lambda>_.
     and_then (check (hs_Availability s = Available \<or> hs_Availability s = Unavailable)
       (OtherError ''host snapshot availability is invalid'')) (\<lambda>_.
     and_then (check (\<not> (IsZero (hs_ObservedAt s) \<or> After (hs_ObservedAt s) (Add now (2 * second)) \<or>
         5 * second < Sub now (hs_ObservedAt s)))
       (OtherError ''host snapshot is stale or has an invalid timestamp'')) (\<lambda>_.
     and_then (check (hs_EnrollmentID s = en_EnrollmentID en \<and>
         hs_DeploymentGeneration s = en_DeploymentGeneration en)
       (OtherError ''host snapshot enrollment identity mismatch'')) (\<lambda>_.
     if hs_Availability s \<noteq> Available
     then check (knownUnavailableReason (hs_ReasonCode s))
       (OtherError ''unavailable host snapshot requires a known reason code'')
     else validate_available s en))))"

section \<open>Reading\<close>

definition read_host_file :: "file_access \<Rightarrow> string \<Rightarrow> nat list result" where
  "read_host_file fa path =
     and_then (check (fa_EvalSymlinks fa path = Inr path)
       (OtherError ''host snapshot path is unavailable or traverses a symlink'')) (\<lambda>_.
     and_then (fa_OpenNoFollow fa path) (\<lambda>_.
     and_then (check (case fa_Fstat fa path of Inl _ \<Rightarrow> False
         | Inr info \<Rightarrow> IsRegular (st_mode info) \<and> \<not> (st_size info < 1 \<or> int maxSnapshotBytes < st_size info))
       (OtherError ''host snapshot must be a bounded regular file'')) (\<lambda>_.
     case fa_ReadFile fa path of
       Inl _ \<Rightarrow> Inl (OtherError ''read bounded host snapshot failed'')
     | Inr content \<Rightarrow>
         let payload = take (maxSnapshotBytes + 1) content in
         and_then (check (length payload \<le> maxSnapshotBytes)
           (OtherError ''read bounded host snapshot failed'')) (\<lambda>_. Inr payload))))"

definition read_host :: "HostSnapshot observer_env \<Rightarrow> HostTarget \<Rightarrow> (HostSnapshot \<times> string) result" where
  "read_host oe target =
     and_then (read_host_file (oe_access oe) (ht_path target)) (\<lambda>payload.
     and_then (wrap ''invalid host snapshot JSON: '' (reject_duplicates (jr_lexemes (oe_reader oe) payload))) (\<lambda>_.
     and_then (wrap ''decode host snapshot: '' (jr_Decode (oe_reader oe) payload)) (\<lambda>snapshot.
     and_then (check (\<not> jr_trailing (oe_reader oe) payload)
       (OtherError ''host snapshot contains trailing JSON'')) (\<lambda>_.
     and_then (validate_host snapshot (ht_enrollment target) (oe_clock oe 0)) (\<lambda>_.
     Inr (snapshot, hex_encode (sum256 (oe_crypto oe) payload)))))))"

fun active_artifacts :: "(string \<times> string) list \<Rightarrow> PluginArtifact list \<Rightarrow> (string \<times> string) list \<Rightarrow> (string \<times> string) list" where
  "active_artifacts registered [] m = m"
| "active_artifacts registered (p # ps) m =
     active_artifacts registered ps (map_put m (pa_PluginID p)
       (case map_of registered (artifact_key (pa_PluginID p) (pa_SHA256 p)) of
          Some artifactID \<Rightarrow> artifactID
        | None \<Rightarrow> ''unregistered_sha256:'' @ pa_SHA256 p))"

definition host_Observe :: "HostSnapshot observer_env \<Rightarrow> HostTarget \<Rightarrow> Enrollment \<Rightarrow> ObservationBundle result" where
  "host_Observe oe target enrollment =
     and_then (read_host oe target) (\<lambda>(s, digest).
     and_then (check (hs_Availability s = Available)
       (OtherError (''host observation unavailable: '' @ hs_ReasonCode s))) (\<lambda>_.
     and_then (check (en_EnrollmentID enrollment = hs_EnrollmentID s \<and>
         en_DeploymentGeneration enrollment = hs_DeploymentGeneration s)
       (OtherError ''host observation enrollment identity mismatch'')) (\<lambda>_.
     Inr \<lparr>ob_BundleID = ''host_'' @ digest, ob_EnrollmentID = hs_EnrollmentID s,
          ob_DeploymentGeneration = hs_DeploymentGeneration s, ob_ContainerID = hs_ContainerID s, ob_BootID = '''',
          ob_InventoryDigest = hs_InventoryDigest s, ob_ConfigDigest = hs_BootstrapFingerprint s,
          ob_ActiveArtifacts = active_artifacts (ht_registered target) (hs_PluginArtifacts s) [],
          ob_Readings = [(''process'',
            \<lparr>ov_Availability = Available, ov_Value = GString (hs_ContainerStatus s), ov_Unit = '''', ov_Reason = '''',
             ov_Source = ''gar-host'', ov_ObservedAt = hs_ObservedAt s, ov_BootID = ''''\<rparr>)],
          ob_CreatedAt = hs_ObservedAt s\<rparr>)))"

section \<open>Read tools\<close>

definition host_unavailable :: "string \<Rightarrow> string \<Rightarrow> gotime \<Rightarrow> gvalue" where
  "host_unavailable tool_name reason observedAt = GMap
     [(''availability'', GString (availability_text Unavailable)), (''reason_code'', GString reason),
      (''source'', GString ''gar-host''), (''observed_at'', GTime observedAt), (''tool'', GString tool_name)]"

definition reflect_binding :: "PublishedBinding \<Rightarrow> gvalue" where
  "reflect_binding b = GStruct
     [(''host_ip'', True, GString (pb_HostIP b)), (''host_port'', True, GInt (pb_HostPort b)),
      (''container_port'', True, GInt (pb_ContainerPort b)), (''protocol'', True, GString (pb_Protocol b))]"

definition host_plugin :: "PluginArtifact \<Rightarrow> gvalue" where
  "host_plugin p = GMap
     [(''plugin_id'', GString (pa_PluginID p)), (''sha256'', GString (pa_SHA256 p)), (''size'', GInt (pa_Size p))]"

text \<open>
  The last \<open>limit\<close> errors. A negative limit, which the service refuses before it calls the
  target, would be a slice bound out of range.
\<close>

definition recent_errors :: "HostSnapshot \<Rightarrow> arguments \<Rightarrow> string list result" where
  "recent_errors s args =
     (let raw = (case map_of args ''limit'' of Some (GInt n) \<Rightarrow> n | _ \<Rightarrow> 50);
          count = int (length (hs_RecentErrors s));
          limit = (if count < raw then count else raw)
      in if limit < 0 then Inl (OtherError ''panic: slice bounds out of range'')
         else Inr (drop (nat (count - limit)) (hs_RecentErrors s)))"

definition host_ReadTool :: "HostSnapshot observer_env \<Rightarrow> HostTarget \<Rightarrow> string \<Rightarrow> arguments \<Rightarrow> gvalue result" where
  "host_ReadTool oe target name args =
     (case read_host oe target of
        Inl _ \<Rightarrow> Inr (host_unavailable name ''HOST_SNAPSHOT_UNAVAILABLE'' (oe_clock oe 1))
      | Inr (s, digest) \<Rightarrow>
          let base = [(''availability'', GString (availability_text (hs_Availability s))),
                      (''reason_code'', GString (hs_ReasonCode s)), (''source'', GString ''gar-host''),
                      (''observed_at'', GTime (hs_ObservedAt s)), (''evidence_id'', GString (''host_'' @ digest))]
          in if name = ''get_health'' then Inr (GMap (base @
               [(''container_status'', GString (hs_ContainerStatus s)), (''running'', GBool (hs_Running s)),
                (''health_status'', GString (hs_HealthStatus s)), (''restart_policy'', GString (hs_RestartPolicy s)),
                (''competing_startup_writers'', GSlice (map GString (hs_CompetingStartupWriters s))),
                (''admission_barrier'', GMap
                  [(''availability'', GString (availability_text (hs_AdmissionBarrierAvailability s))),
                   (''reason_code'', GString (hs_AdmissionBarrierReasonCode s)), (''open'', GBool (hs_AdmissionOpen s)),
                   (''gate_container_id'', GString (hs_AdmissionGateContainerID s)),
                   (''published_bindings'', GSlice (map reflect_binding (hs_AdmissionPublishedBindings s)))])]))
             else if name = ''get_performance'' then Inr (GMap (base @
               [(''disk_free'', observation_metric (hs_Availability s) (GInt (hs_DiskFreeBytes s)) ''bytes''),
                (''container_cpu'', unavailable_metric ''DOCKER_STATS_NOT_IMPLEMENTED''),
                (''container_memory'', unavailable_metric ''DOCKER_STATS_NOT_IMPLEMENTED'')]))
             else if name = ''list_plugins''
             then Inr (GMap (base @ [(''plugin_artifacts'', GSlice (map host_plugin (hs_PluginArtifacts s)))]))
             else if name = ''get_recent_errors'' then and_then (recent_errors s args) (\<lambda>errors.
               let cursor = (case map_of args ''cursor'' of Some (GString c) \<Rightarrow> c | _ \<Rightarrow> '''') in
               Inr (GMap (map_put (map_put base ''availability'' (GString (availability_text (hs_RecentErrorsAvailability s))))
                 ''reason_code'' (GString (hs_RecentErrorsReasonCode s)) @
                 [(''errors'', GSlice (map GString errors)), (''untrusted'', GBool True),
                  (''next_cursor'', GString (hs_ErrorCursor s))] @
                 (if cursor \<noteq> '''' \<and> cursor \<noteq> hs_ErrorCursor s then [(''cursor_reset'', GBool True)] else []))))
             else if name = ''get_recent_changes''
             then Inr (host_unavailable name ''HOST_CHANGE_JOURNAL_NOT_IMPLEMENTED'' (oe_clock oe 1))
             else if name = ''get_backup_status''
             then Inr (host_unavailable name ''HOST_BACKUP_ADAPTER_NOT_IMPLEMENTED'' (oe_clock oe 1))
             else if name = ''get_players''
             then Inr (host_unavailable name ''PAPER_RUNTIME_REQUIRED'' (oe_clock oe 1))
             else Inl (NewError ErrInvalidRequest ''unsupported host read tool''))"

definition host_target :: "HostSnapshot observer_env \<Rightarrow> HostTarget \<Rightarrow> target_reader" where
  "host_target oe target = \<lparr>tr_Observe = host_Observe oe target, tr_ReadTool = host_ReadTool oe target\<rparr>"

section \<open>What a snapshot that is read satisfies\<close>

lemma read_host_Inr:
  assumes "read_host oe target = Inr (s, digest)"
  shows "hs_EnrollmentID s = en_EnrollmentID (ht_enrollment target)"
    "hs_DeploymentGeneration s = en_DeploymentGeneration (ht_enrollment target)"
    "hs_ObservedAt s \<le> oe_clock oe 0 + 2 * second" "oe_clock oe 0 - hs_ObservedAt s \<le> 5 * second"
    "hs_Availability s = Available \<Longrightarrow> hs_ContainerID s = en_ContainerID (ht_enrollment target) \<and>
       hs_ImageID s = en_ImageDigest (ht_enrollment target) \<and> hs_Running s \<and> hs_CompetingStartupWriters s = [] \<and>
       length (hs_RecentErrors s) \<le> 200"
proof -
  have v: "validate_host s (ht_enrollment target) (oe_clock oe 0) = Inr ()"
    using assms by (auto simp: read_host_def)
  have "5 * second < Sub (oe_clock oe 0) (hs_ObservedAt s) \<longleftrightarrow> 5 * second < oe_clock oe 0 - hs_ObservedAt s"
    by (rule Sub_gt_iff) (simp_all add: go_time)
  with v show "hs_EnrollmentID s = en_EnrollmentID (ht_enrollment target)"
    "hs_DeploymentGeneration s = en_DeploymentGeneration (ht_enrollment target)"
    "hs_ObservedAt s \<le> oe_clock oe 0 + 2 * second" "oe_clock oe 0 - hs_ObservedAt s \<le> 5 * second"
    by (auto simp: validate_host_def IsZero_def After_def Add_def)
  assume "hs_Availability s = Available"
  with v have "validate_available s (ht_enrollment target) = Inr ()" by (auto simp: validate_host_def)
  then show "hs_ContainerID s = en_ContainerID (ht_enrollment target) \<and>
       hs_ImageID s = en_ImageDigest (ht_enrollment target) \<and> hs_Running s \<and> hs_CompetingStartupWriters s = [] \<and>
       length (hs_RecentErrors s) \<le> 200"
    by (auto simp: validate_available_def)
qed

end
