(* ===== verification/Composite_Target.thy ===== *)
theory Composite_Target
  imports Host_Snapshot Admission_State
begin

text \<open>
  The composite target, \<open>src/internal/adapters/composite/target.go\<close>: host evidence and Paper runtime evidence
  of one deployment, merged into one observation when they agree on the deployment, are close in time and
  the runtime is ready.

  The locale \<open>observed_target\<close> is the contract of the interface \<open>workflow.TargetReader\<close> that the agent service
  relies on: an observation names the enrollment that was asked for. The Paper, host and composite adapters
  are its interpretations.

  A Go map is the association list of its entries with unique keys, as \<open>map_put\<close> keeps them.
\<close>

section \<open>Merging\<close>

record CompositeTarget =
  cp_Host :: target_reader
  cp_Runtime :: target_reader

definition NewComposite :: "target_reader option \<Rightarrow> target_reader option \<Rightarrow> CompositeTarget result" where
  "NewComposite host runtime =
     (case (host, runtime) of
        (Some h, Some r) \<Rightarrow> Inr \<lparr>cp_Host = h, cp_Runtime = r\<rparr>
      | _ \<Rightarrow> Inl (OtherError ''composite target requires host and Paper runtime adapters''))"

definition maxObservationSkew :: duration where "maxObservationSkew = 5 * second"

text \<open>The negation of an \<open>int64\<close> wraps: the smallest duration is its own negation.\<close>

definition absoluteDuration :: "duration \<Rightarrow> duration" where
  "absoluteDuration v = (if v < 0 then (- v + 2 ^ 63) mod 2 ^ 64 - 2 ^ 63 else v)"

definition map_copy :: "(string \<times> 'a) list \<Rightarrow> (string \<times> 'a) list \<Rightarrow> (string \<times> 'a) list" where
  "map_copy entries m = fold (\<lambda>(k, v) m. map_put m k v) entries m"

definition cloneArtifacts :: "(string \<times> string) list \<Rightarrow> (string \<times> string) list" where
  "cloneArtifacts source = map_copy source []"

definition runtime_ready :: "ObservationBundle \<Rightarrow> unit result" where
  "runtime_ready runtime =
     (case (map_get (ob_Readings runtime) ''guard_ready'', map_get (ob_Readings runtime) ''players'') of
        (Some guard, Some players) \<Rightarrow>
          if ov_Availability guard \<noteq> Available \<or> ov_Value guard \<noteq> GBool True \<or> ov_Availability players \<noteq> Available
          then Inl (OtherError ''Paper runtime is stale or not ready'')
          else if ob_BootID runtime = '''' \<or> ov_BootID guard \<noteq> ob_BootID runtime \<or> ov_BootID players \<noteq> ob_BootID runtime
          then Inl (OtherError ''Paper runtime boot identity is inconsistent'')
          else Inr ()
      | _ \<Rightarrow> Inl (OtherError ''Paper runtime is stale or not ready''))"

definition names_enrollment :: "ObservationBundle \<Rightarrow> Enrollment \<Rightarrow> bool" where
  "names_enrollment b enrollment \<longleftrightarrow> ob_EnrollmentID b = en_EnrollmentID enrollment \<and>
     ob_DeploymentGeneration b = en_DeploymentGeneration enrollment \<and> ob_ContainerID b = en_ContainerID enrollment"

definition composite_Observe :: "crypto \<Rightarrow> CompositeTarget \<Rightarrow> Enrollment \<Rightarrow> ObservationBundle result" where
  "composite_Observe cr target enrollment =
     and_then (wrap ''host observation is not executable: '' (tr_Observe (cp_Host target) enrollment)) (\<lambda>host.
     and_then (wrap ''Paper runtime observation is not executable: '' (tr_Observe (cp_Runtime target) enrollment)) (\<lambda>runtime.
     and_then (check (names_enrollment host enrollment \<and> names_enrollment runtime enrollment)
       (OtherError ''composite observation identity mismatch'')) (\<lambda>_.
     and_then (check (\<not> maxObservationSkew < absoluteDuration (Sub (ob_CreatedAt host) (ob_CreatedAt runtime)))
       (OtherError ''host and Paper observations exceed maximum time skew'')) (\<lambda>_.
     and_then (runtime_ready runtime) (\<lambda>_.
     and_then (Digest cr (GSlice [GString (ob_BundleID host), GString (ob_BundleID runtime)])) (\<lambda>digest.
     Inr \<lparr>ob_BundleID = ''composite_'' @ digest, ob_EnrollmentID = en_EnrollmentID enrollment,
          ob_DeploymentGeneration = en_DeploymentGeneration enrollment, ob_ContainerID = en_ContainerID enrollment,
          ob_BootID = ob_BootID runtime, ob_InventoryDigest = ob_InventoryDigest host,
          ob_ConfigDigest = ob_ConfigDigest host, ob_ActiveArtifacts = cloneArtifacts (ob_ActiveArtifacts host),
          ob_Readings = map_copy (ob_Readings runtime) (map_copy (ob_Readings host) []),
          ob_CreatedAt = (if Before (ob_CreatedAt runtime) (ob_CreatedAt host) then ob_CreatedAt runtime
                          else ob_CreatedAt host)\<rparr>))))))"

text \<open>
  The entry \<open>availability\<close> of the adapters' answers holds a \<open>domain.Availability\<close>; an answer without it
  counts as unavailable.
\<close>

definition combinedAvailability :: "gvalue list \<Rightarrow> Availability" where
  "combinedAvailability values =
     (if list_all (\<lambda>v. case v of GMap m \<Rightarrow> map_of m ''availability'' = Some (GString (availability_text Available)) | _ \<Rightarrow> False) values
      then Available else Unavailable)"

definition composite_ReadTool :: "CompositeTarget \<Rightarrow> string \<Rightarrow> arguments \<Rightarrow> gvalue result" where
  "composite_ReadTool target name args =
     (if name = ''get_players'' then tr_ReadTool (cp_Runtime target) name args
      else if name \<in> {''get_recent_errors'', ''get_recent_changes'', ''get_backup_status''}
      then tr_ReadTool (cp_Host target) name args
      else if name \<in> {''get_health'', ''get_performance'', ''list_plugins''}
      then and_then (tr_ReadTool (cp_Host target) name args) (\<lambda>host.
           and_then (tr_ReadTool (cp_Runtime target) name args) (\<lambda>runtime.
           Inr (GMap [(''availability'', GString (availability_text (combinedAvailability [host, runtime]))),
                      (''source'', GString ''gar-composite''), (''host'', host), (''runtime'', runtime)])))
      else Inl (NewError ErrInvalidRequest ''unsupported composite read tool''))"

definition composite_target :: "crypto \<Rightarrow> CompositeTarget \<Rightarrow> target_reader" where
  "composite_target cr target = \<lparr>tr_Observe = composite_Observe cr target, tr_ReadTool = composite_ReadTool target\<rparr>"

section \<open>Facts\<close>

lemma absoluteDuration_abs: "min_duration < v \<Longrightarrow> v \<le> max_duration \<Longrightarrow> absoluteDuration v = \<bar>v\<bar>"
  by (auto simp: absoluteDuration_def min_duration_def max_duration_def)

lemma absoluteDuration_min: "absoluteDuration min_duration = min_duration"
  by (simp add: absoluteDuration_def min_duration_def)

text \<open>Up to about 292 years between the two observations the skew test is the test it means to be.\<close>

lemma skew_exact:
  assumes "\<bar>t - u\<bar> < 2 ^ 63"
  shows "\<not> maxObservationSkew < absoluteDuration (Sub t u) \<longleftrightarrow> \<bar>t - u\<bar> \<le> 5 * second"
proof -
  have "Sub t u = t - u" "min_duration < t - u" "t - u \<le> max_duration"
    using assms by (auto simp: Sub_def min_duration_def max_duration_def)
  then show ?thesis using absoluteDuration_abs by (simp add: maxObservationSkew_def not_less)
qed

lemma map_put_of [simp]: "map_of (map_put m k v) = (map_of m)(k \<mapsto> v)"
  by (induction m k v rule: map_put.induct) auto

lemma map_copy_of:
  assumes "distinct (map fst entries)"
  shows "map_of (map_copy entries m) = map_of m ++ map_of entries"
  using assms
proof (induction entries arbitrary: m)
  case (Cons e es)
  obtain k v where e: "e = (k, v)" by fastforce
  have "map_of es k = None" using Cons.prems e by (simp add: map_of_eq_None_iff)
  moreover have "map_of (map_copy es (map_put m k v)) = (map_of m)(k \<mapsto> v) ++ map_of es"
    using Cons by simp
  ultimately show ?case
    by (auto simp: e map_copy_def map_add_def fun_eq_iff split: option.splits)
qed (simp add: map_copy_def)


section \<open>The contract of a target reader\<close>

locale observed_target =
  fixes reader :: target_reader and enrollment :: Enrollment
  assumes identity: "tr_Observe reader enrollment = Inr b \<Longrightarrow> names_enrollment b enrollment"
begin

text \<open>The service never finds an observation of the target stale by its identity.\<close>

lemma identity_passes:
  assumes "tr_Observe reader enrollment = Inr b" "rg_Enrollment (sv_Registry sv) = enrollment"
    and "validateObservation sv b now p = Some err"
  shows "err \<noteq> NewError ErrIntentStale ''authoritative target identity differs from enrollment''"
  using identity [OF assms(1)] assms(2,3)
  by (auto simp: validateObservation_def names_enrollment_def NewError_def RequireAvailable_def split: if_splits option.splits)

end

lemma paper_Observe_Inr:
  assumes "paper_Observe oe t en = Inr b"
  obtains s digest quality where "ReadSnapshot oe t = Inr (s, digest, quality)"
    "names_enrollment b en" "ob_CreatedAt b = pn_ObservedAt s" "ob_BootID b = pn_BootID s"
    "ob_Readings b = [(''players'', paper_reading quality (GInt (pn_PlayerCount s)) ''count'' s),
                      (''guard_ready'', paper_reading quality (GBool (pn_Ready s)) '''' s)]"
  using assms by (auto simp: paper_Observe_def names_enrollment_def)

lemma host_Observe_Inr:
  assumes "host_Observe oe t en = Inr b"
  obtains s digest where "read_host oe t = Inr (s, digest)" "hs_Availability s = Available"
    "ob_EnrollmentID b = en_EnrollmentID en" "ob_DeploymentGeneration b = en_DeploymentGeneration en"
    "ob_ContainerID b = hs_ContainerID s" "ob_CreatedAt b = hs_ObservedAt s"
    "ob_InventoryDigest b = hs_InventoryDigest s" "ob_ConfigDigest b = hs_BootstrapFingerprint s"
    "ob_ActiveArtifacts b = active_artifacts (ht_registered t) (hs_PluginArtifacts s) []"
    "map fst (ob_Readings b) = [''process'']"
  using assms by (auto simp: host_Observe_def)

interpretation paper_reader: observed_target "paper_target oe t" en for oe t en
  by unfold_locales (auto simp: paper_target_def elim: paper_Observe_Inr)

interpretation host_reader: observed_target "host_target oe t" "ht_enrollment t" for oe t
proof unfold_locales
  fix b
  assume "tr_Observe (host_target oe t) (ht_enrollment t) = Inr b"
  then have "host_Observe oe t (ht_enrollment t) = Inr b" by (simp add: host_target_def)
  then show "names_enrollment b (ht_enrollment t)"
    by (rule host_Observe_Inr) (simp add: names_enrollment_def read_host_Inr(5))
qed

interpretation composite_reader: observed_target "composite_target cr c" en for cr c en
  by unfold_locales (auto simp: composite_target_def composite_Observe_def names_enrollment_def)

section \<open>What a composite observation attests\<close>

lemma composite_Observe_Inr:
  assumes "composite_Observe cr c en = Inr b"
  obtains host runtime where
    "tr_Observe (cp_Host c) en = Inr host" "tr_Observe (cp_Runtime c) en = Inr runtime"
    "names_enrollment host en" "names_enrollment runtime en" "runtime_ready runtime = Inr ()"
    "\<not> maxObservationSkew < absoluteDuration (Sub (ob_CreatedAt host) (ob_CreatedAt runtime))"
    "ob_BootID b = ob_BootID runtime" "ob_InventoryDigest b = ob_InventoryDigest host"
    "ob_ConfigDigest b = ob_ConfigDigest host" "ob_ActiveArtifacts b = cloneArtifacts (ob_ActiveArtifacts host)"
    "ob_Readings b = map_copy (ob_Readings runtime) (map_copy (ob_Readings host) [])"
    "ob_CreatedAt b = min (ob_CreatedAt host) (ob_CreatedAt runtime)"
  using assms by (auto simp: composite_Observe_def wrap_def Before_def min_def split: sum.splits)

lemma validate_artifacts_distinct:
  "validate_artifacts seen ps = Inr u \<Longrightarrow> distinct (map pa_PluginID ps) \<and> set seen \<inter> pa_PluginID ` set ps = {}"
  by (induction seen ps rule: validate_artifacts.induct) (auto split: if_splits)

lemma read_host_artifacts:
  assumes "read_host oe t = Inr (s, digest)" "hs_Availability s = Available"
  shows "distinct (map pa_PluginID (hs_PluginArtifacts s))"
proof -
  have "validate_available s (ht_enrollment t) = Inr ()" using assms by (auto simp: read_host_def validate_host_def)
  then have "validate_artifacts [] (hs_PluginArtifacts s) = Inr ()" by (auto simp: validate_available_def)
  then show ?thesis using validate_artifacts_distinct by blast
qed

lemma map_put_keys: "fst ` set (map_put m k v) = insert k (fst ` set m)"
  by (induction m k v rule: map_put.induct) auto

lemma map_put_distinct: "distinct (map fst m) \<Longrightarrow> distinct (map fst (map_put m k v))"
  by (induction m k v rule: map_put.induct) (auto simp: map_put_keys)

lemma active_artifacts_distinct:
  "distinct (map fst m) \<Longrightarrow> distinct (map fst (active_artifacts registered ps m))"
  by (induction registered ps m rule: active_artifacts.induct) (simp_all add: map_put_distinct)

lemma active_artifacts_of:
  "distinct (map pa_PluginID ps) \<Longrightarrow> p \<in> set ps \<Longrightarrow>
   map_of (active_artifacts registered ps m) (pa_PluginID p) =
     Some (case map_of registered (artifact_key (pa_PluginID p) (pa_SHA256 p)) of
             Some artifactID \<Rightarrow> artifactID | None \<Rightarrow> ''unregistered_sha256:'' @ pa_SHA256 p)"
proof (induction registered ps m rule: active_artifacts.induct)
  case (2 registered q ps m)
  have other: "map_of (active_artifacts registered qs n) k = map_of n k" if "k \<notin> pa_PluginID ` set qs" for qs n k
    using that by (induction registered qs n rule: active_artifacts.induct) auto
  show ?case
  proof (cases "p = q")
    case True
    show ?thesis unfolding True using "2.prems" other [of "pa_PluginID q" ps] by simp
  next
    case False
    then show ?thesis using 2 by auto
  qed
qed simp

lemma runtime_ready_paper:
  assumes "runtime_ready b = Inr ()"
    and "ob_Readings b = [(''players'', paper_reading quality (GInt (pn_PlayerCount s)) ''count'' s),
                          (''guard_ready'', paper_reading quality (GBool (pn_Ready s)) '''' s)]"
  shows "quality = Available" "pn_Ready s"
  using assms by (auto simp: runtime_ready_def map_get_def paper_reading_def split: if_splits)

text \<open>
  C34. The composite of the two real adapters attests one deployment: when it returns an observation, the
  host snapshot and the runtime snapshot it read both name the enrollment, the container runs with the
  enrolled image and no competing writer, the runtime is paired, ready and fresh, the two were observed at most
  five seconds apart (wall clocks less than 146 years apart), and the observation carries the boot identity and
  the player count of the runtime, the digests of the host, each plugin's registered artifact and the earlier of the two times.
\<close>

theorem composite_observation_attests:
  assumes "composite_Observe cr \<lparr>cp_Host = host_target eh th, cp_Runtime = paper_target ep tp\<rparr> en = Inr b"
    and clocks: "\<bar>oe_clock eh 0 - oe_clock ep 1\<bar> \<le> 2 ^ 62" "oe_clock ep 0 \<le> oe_clock ep 1"
  shows "\<exists>h dh r dr. read_host eh th = Inr (h, dh) \<and> ReadSnapshot ep tp = Inr (r, dr, Available) \<and> names_enrollment b en \<and>
    hs_EnrollmentID h = en_EnrollmentID en \<and> hs_ContainerID h = en_ContainerID en \<and>
    hs_ImageID h = en_ImageDigest (ht_enrollment th) \<and> hs_Running h \<and> hs_CompetingStartupWriters h = [] \<and>
    pn_PairingID r = en_RuntimeGuardPairing (pt_enrollment tp) \<and> pn_Ready r \<and>
    \<bar>hs_ObservedAt h - pn_ObservedAt r\<bar> \<le> 5 * second \<and>
    ob_CreatedAt b = min (hs_ObservedAt h) (pn_ObservedAt r) \<and> ob_BootID b = pn_BootID r \<and>
    ob_InventoryDigest b = hs_InventoryDigest h \<and> ob_ConfigDigest b = hs_BootstrapFingerprint h \<and>
    map_get (ob_Readings b) ''players'' = Some (paper_reading Available (GInt (pn_PlayerCount r)) ''count'' r) \<and>
    (\<forall>p \<in> set (hs_PluginArtifacts h). str_get (ob_ActiveArtifacts b) (pa_PluginID p) =
       (case map_of (ht_registered th) (artifact_key (pa_PluginID p) (pa_SHA256 p)) of
          Some artifactID \<Rightarrow> artifactID | None \<Rightarrow> ''unregistered_sha256:'' @ pa_SHA256 p))"
proof -
  obtain ho ro where o: "host_Observe eh th en = Inr ho" "paper_Observe ep tp en = Inr ro"
      "names_enrollment ho en" "runtime_ready ro = Inr ()"
      "\<not> maxObservationSkew < absoluteDuration (Sub (ob_CreatedAt ho) (ob_CreatedAt ro))"
    and b: "ob_BootID b = ob_BootID ro" "ob_InventoryDigest b = ob_InventoryDigest ho"
      "ob_ConfigDigest b = ob_ConfigDigest ho" "ob_ActiveArtifacts b = cloneArtifacts (ob_ActiveArtifacts ho)"
      "ob_Readings b = map_copy (ob_Readings ro) (map_copy (ob_Readings ho) [])"
      "ob_CreatedAt b = min (ob_CreatedAt ho) (ob_CreatedAt ro)"
    by (rule composite_Observe_Inr [OF assms(1)]) (simp add: host_target_def paper_target_def)
  obtain h dh where h: "read_host eh th = Inr (h, dh)" "hs_Availability h = Available"
      "ob_EnrollmentID ho = en_EnrollmentID en" "ob_ContainerID ho = hs_ContainerID h" "ob_CreatedAt ho = hs_ObservedAt h"
      "ob_InventoryDigest ho = hs_InventoryDigest h" "ob_ConfigDigest ho = hs_BootstrapFingerprint h"
      "ob_ActiveArtifacts ho = active_artifacts (ht_registered th) (hs_PluginArtifacts h) []"
      "map fst (ob_Readings ho) = [''process'']"
    by (rule host_Observe_Inr [OF o(1)])
  obtain r dr quality where r: "ReadSnapshot ep tp = Inr (r, dr, quality)" "ob_CreatedAt ro = pn_ObservedAt r"
      "ob_BootID ro = pn_BootID r"
      "ob_Readings ro = [(''players'', paper_reading quality (GInt (pn_PlayerCount r)) ''count'' r),
                         (''guard_ready'', paper_reading quality (GBool (pn_Ready r)) '''' r)]"
    by (rule paper_Observe_Inr [OF o(2)])
  note q = runtime_ready_paper [OF o(4) r(4)]
  have "\<bar>hs_ObservedAt h - pn_ObservedAt r\<bar> < 2 ^ 63"
    using read_host_Inr(3,4) [OF h(1)] ReadSnapshot_Inr(4,9) [OF r(1)] q(1) clocks by (simp add: second_def abs_if split: if_splits)
  then have skew: "\<bar>hs_ObservedAt h - pn_ObservedAt r\<bar> \<le> 5 * second"
    using o(5) skew_exact h(5) r(2) by simp
  have players: "map_get (ob_Readings b) ''players'' = Some (paper_reading Available (GInt (pn_PlayerCount r)) ''count'' r)"
    unfolding b(5) map_get_def using q(1) r(4) by (simp add: map_copy_of)
  have dist: "distinct (map pa_PluginID (hs_PluginArtifacts h))"
    using read_host_artifacts [OF h(1,2)] .
  have "str_get (ob_ActiveArtifacts b) (pa_PluginID p) =
       (case map_of (ht_registered th) (artifact_key (pa_PluginID p) (pa_SHA256 p)) of
          Some artifactID \<Rightarrow> artifactID | None \<Rightarrow> ''unregistered_sha256:'' @ pa_SHA256 p)"
    if "p \<in> set (hs_PluginArtifacts h)" for p
    unfolding str_get_def b(4) h(8) cloneArtifacts_def
    by (simp add: map_copy_of active_artifacts_distinct active_artifacts_of [OF dist that])
  moreover have "names_enrollment b en"
    using composite_reader.identity [of cr "\<lparr>cp_Host = host_target eh th, cp_Runtime = paper_target ep tp\<rparr>" en b] assms(1)
    by (simp add: composite_target_def)
  moreover have "hs_EnrollmentID h = en_EnrollmentID en" "hs_ContainerID h = en_ContainerID en"
    using o(1,3) h by (auto simp: names_enrollment_def host_Observe_def)
  ultimately show ?thesis
    using h r(1-3) q skew players b(1-3,6) read_host_Inr(5) [OF h(1,2)] ReadSnapshot_Inr(1) [OF r(1)]
    by (intro exI [of _ h] exI [of _ dh] exI [of _ r] exI [of _ dr]) simp
qed


section \<open>A concrete deployment\<close>

definition sample_env_of :: "'a \<Rightarrow> 'a observer_env" where
  "sample_env_of x = \<lparr>oe_access = sample_access, oe_reader = sample_reader x, oe_clock = (\<lambda>_. 100 * second),
     oe_crypto = sample_crypto, oe_ToLower = (\<lambda>s. s)\<rparr>"

definition sample_paper :: PaperSnapshot where
  "sample_paper =
     \<lparr>pn_SchemaVersion = ''gar.paper-runtime-observation.v1'', pn_PairingID = ''pair'', pn_BootID = ''boot-0123456789a'',
      pn_ObservedAt = 99 * second, pn_Ready = True, pn_AdmissionState = ''MAINTENANCE'', pn_PlayerCount = 0,
      pn_TPS = replicate 3 \<lparr>fl_text = ''20'', fl_value = Some 20\<rparr>, pn_MSPT = \<lparr>fl_text = ''9'', fl_value = Some 9\<rparr>,
      pn_HeapUsedBytes = 1, pn_HeapMaxBytes = 2, pn_Plugins = []\<rparr>"

definition sample_host :: HostSnapshot where
  "sample_host =
     \<lparr>hs_SchemaVersion = ''gar.host-observation.v1'', hs_Availability = Available, hs_ReasonCode = '''',
      hs_ObservedAt = 98 * second, hs_EnrollmentID = ''enr'', hs_DeploymentGeneration = 1, hs_ContainerID = ''ctr'',
      hs_ImageID = ''img'', hs_ContainerStatus = ''running'', hs_Running = True, hs_HealthStatus = ''healthy'',
      hs_RestartPolicy = ''no'', hs_DataRootIdentity = ''dev:1/inode:2'', hs_BootstrapFingerprint = ''boot'',
      hs_InventoryDigest = ''inv'', hs_PluginArtifacts = [], hs_CompetingStartupWriters = [],
      hs_DiskFreeBytes = 1000, hs_RecentErrorsAvailability = Unavailable,
      hs_RecentErrorsReasonCode = ''PAPER_LOG_UNAVAILABLE'', hs_ErrorCursor = '''', hs_RecentErrors = [],
      hs_AdmissionBarrierAvailability = Unavailable, hs_AdmissionBarrierReasonCode = ''ADMISSION_BARRIER_NOT_CONFIGURED'',
      hs_AdmissionOpen = False, hs_AdmissionGateContainerID = '''', hs_AdmissionPublishedBindings = []\<rparr>"

definition sample_composite :: CompositeTarget where
  "sample_composite =
     \<lparr>cp_Host = host_target (sample_env_of sample_host)
        \<lparr>ht_path = ''/srv/gar/host'', ht_enrollment = sample_enrollment, ht_registered = []\<rparr>,
      cp_Runtime = paper_target (sample_env_of sample_paper)
        \<lparr>pt_path = ''/srv/gar/runtime'', pt_enrollment = sample_enrollment\<rparr>\<rparr>"

lemma sample_host_read:
  "read_host (sample_env_of sample_host) \<lparr>ht_path = p, ht_enrollment = sample_enrollment, ht_registered = r\<rparr> =
     Inr (sample_host, hex_encode [123, 125, 10])"
  by (simp add: read_host_def read_host_file_def sample_env_of_def sample_access_def sample_mode maxSnapshotBytes_def
      sample_crypto_def) (simp add: sample_host_def sample_enrollment_def validate_host_def validate_available_def
      validate_barrier_def validate_errors_def go_time)

lemma sample_paper_read:
  "ReadSnapshot (sample_env_of sample_paper) \<lparr>pt_path = p, pt_enrollment = sample_enrollment\<rparr> =
     Inr (sample_paper, hex_encode [123, 125, 10], Available)"
  by (simp add: ReadSnapshot_def read_paper_file_def sample_env_of_def sample_access_def sample_mode maxSnapshotBytes_def
      sample_crypto_def) (simp add: sample_paper_def sample_enrollment_def validate_paper_def finiteBetween_def
      numeral_3_eq_3 go_time)

lemma sample_composite_observes: "\<exists>b. composite_Observe sample_crypto sample_composite sample_enrollment = Inr b"
  by (simp add: composite_Observe_def sample_composite_def host_target_def paper_target_def host_Observe_def
      paper_Observe_def sample_host_read sample_paper_read)
     (simp add: sample_host_def sample_paper_def sample_enrollment_def names_enrollment_def runtime_ready_def map_get_def
      paper_reading_def absoluteDuration_def maxObservationSkew_def Digest_def CanonicalJSON_def sample_crypto_def go_time)

theorem composite_observation_attests_witness:
  "\<exists>b. composite_Observe sample_crypto sample_composite sample_enrollment = Inr b \<and> names_enrollment b sample_enrollment \<and>
     ob_CreatedAt b = 98 * second \<and> ob_BootID b = ''boot-0123456789a''"
proof -
  obtain b where b: "composite_Observe sample_crypto sample_composite sample_enrollment = Inr b"
    using sample_composite_observes by blast
  have clocks: "\<bar>oe_clock (sample_env_of sample_host) 0 - oe_clock (sample_env_of sample_paper) 1\<bar> \<le> 2 ^ 62"
      "oe_clock (sample_env_of sample_paper) 0 \<le> oe_clock (sample_env_of sample_paper) 1"
    by (simp_all add: sample_env_of_def)
  have "names_enrollment b sample_enrollment \<and> ob_CreatedAt b = min (hs_ObservedAt sample_host) (pn_ObservedAt sample_paper) \<and>
      ob_BootID b = pn_BootID sample_paper"
    using composite_observation_attests [OF b [unfolded sample_composite_def] clocks]
    unfolding sample_host_read sample_paper_read by auto
  with b show ?thesis by (auto simp: sample_host_def sample_paper_def go_time)
qed

end
