(* ===== verification/Host_Config.thy ===== *)
theory Host_Config
  imports Host_Snapshot Admission_State
begin

text \<open>
  The configuration of the host observer, the first part of \<open>src/internal/adapters/host/observer.go\<close>: the fixed
  target, its pins, the managed plugin slots and the admission barrier, with the checks that are made once
  when the observer is built.

  \<open>oc_ManagedPluginSlots\<close> lists the entries of a Go map, with unique keys, in the order of its iteration.
\<close>

section \<open>Identifiers\<close>

definition validImageID :: "string \<Rightarrow> bool" where
  "validImageID v \<longleftrightarrow> HasPrefix v ''sha256:'' \<and> validSHA256 (TrimPrefix v ''sha256:'')"

definition safeBaseName :: "string \<Rightarrow> bool" where
  "safeBaseName name \<longleftrightarrow> name \<noteq> '''' \<and> length name \<le> 128 \<and> Base name = name \<and> name \<noteq> ''.'' \<and> name \<noteq> ''..'' \<and>
     CHR ''/'' \<notin> set name"

definition container_id :: "string \<Rightarrow> bool" where
  "container_id s \<longleftrightarrow> hex_decode s \<noteq> None \<and> s = to_lower s"

definition bindingKey :: "PublishedBinding \<Rightarrow> string" where
  "bindingKey b = pb_HostIP b @ '':'' @ format_int (pb_HostPort b) @ ''->'' @ format_int (pb_ContainerPort b) @
     ''/'' @ pb_Protocol b"

section \<open>Configuration\<close>

record AdmissionBarrierConfig =
  bc_GateContainerID :: string
  bc_ExpectedGateImageID :: string
  bc_GateBinaryPath :: string
  bc_ExpectedGateBinarySHA256 :: string
  bc_AdmissionConfigPath :: string
  bc_PublishedBindings :: "PublishedBinding list"

record ObserverConfig =
  oc_SchemaVersion :: string
  oc_EnrollmentID :: string
  oc_DeploymentGeneration :: int
  oc_ContainerID :: string
  oc_ExpectedImageID :: string
  oc_DataRootPath :: string
  oc_ExpectedDataRootIdentity :: string
  oc_ExpectedBootstrapFingerprint :: string
  oc_ManagedPluginSlots :: "(string \<times> string) list"
  oc_DockerSocketPath :: string
  oc_SnapshotPath :: string
  oc_IntervalSeconds :: int
  oc_AdmissionBarrier :: "AdmissionBarrierConfig option"

definition loopback_binding :: "PublishedBinding \<Rightarrow> bool" where
  "loopback_binding b \<longleftrightarrow> (case ParseIP (pb_HostIP b) of None \<Rightarrow> False | Some ip \<Rightarrow> IsLoopback ip) \<and>
     \<not> (pb_HostPort b < 1 \<or> 65535 < pb_HostPort b \<or> pb_ContainerPort b < 1 \<or> 65535 < pb_ContainerPort b \<or>
        pb_Protocol b \<noteq> ''tcp'')"

fun validate_bindings :: "string list \<Rightarrow> PublishedBinding list \<Rightarrow> unit result" where
  "validate_bindings seen [] = Inr ()"
| "validate_bindings seen (b # bs) =
     (if \<not> loopback_binding b
      then Inl (OtherError ''admission published bindings must be fixed loopback TCP ports'')
      else if bindingKey b \<in> set seen then Inl (OtherError ''duplicate admission published binding'')
      else validate_bindings (bindingKey b # seen) bs)"

definition validate_barrier_config :: "string \<Rightarrow> AdmissionBarrierConfig \<Rightarrow> unit result" where
  "validate_barrier_config containerID b =
     and_then (check (\<not> (length (bc_GateContainerID b) \<noteq> 64 \<or> bc_GateContainerID b = containerID))
       (OtherError ''admission barrier requires a distinct full gate container ID'')) (\<lambda>_.
     and_then (check (container_id (bc_GateContainerID b) \<and> validImageID (bc_ExpectedGateImageID b))
       (OtherError ''admission barrier container and image identities are invalid'')) (\<lambda>_.
     and_then (check (clean_absolute (bc_GateBinaryPath b) \<and> validSHA256 (bc_ExpectedGateBinarySHA256 b))
       (OtherError ''admission barrier binary path and digest are invalid'')) (\<lambda>_.
     and_then (check (clean_absolute (bc_AdmissionConfigPath b))
       (OtherError ''admission barrier config path must be clean and absolute'')) (\<lambda>_.
     and_then (check (\<not> (length (bc_PublishedBindings b) < 1 \<or> 8 < length (bc_PublishedBindings b)))
       (OtherError ''admission barrier requires one through eight fixed published bindings'')) (\<lambda>_.
     validate_bindings [] (bc_PublishedBindings b))))))"

definition validate_pins :: "bool \<Rightarrow> ObserverConfig \<Rightarrow> unit result" where
  "validate_pins requirePins c =
     and_then (check (\<not> (requirePins \<and> \<not> validImageID (oc_ExpectedImageID c)))
       (OtherError ''host observer expected_image_id must be a full sha256 image ID'')) (\<lambda>_.
     and_then (check (\<not> (\<not> requirePins \<and> oc_ExpectedImageID c \<noteq> '''' \<and> \<not> validImageID (oc_ExpectedImageID c)))
       (OtherError ''host observer expected_image_id must be empty or a full sha256 image ID'')) (\<lambda>_.
     and_then (check (\<not> (requirePins \<and> oc_ExpectedDataRootIdentity c = ''''))
       (OtherError ''host observer expected_data_root_identity is required'')) (\<lambda>_.
     and_then (check (\<not> (requirePins \<and> \<not> validSHA256 (oc_ExpectedBootstrapFingerprint c)))
       (OtherError ''host observer expected_bootstrap_fingerprint must be a full SHA-256'')) (\<lambda>_.
     check (\<not> (\<not> requirePins \<and> oc_ExpectedBootstrapFingerprint c \<noteq> '''' \<and>
         \<not> validSHA256 (oc_ExpectedBootstrapFingerprint c)))
       (OtherError ''host observer expected_bootstrap_fingerprint must be empty or a full SHA-256'')))))"

definition validate_observer :: "bool \<Rightarrow> ObserverConfig \<Rightarrow> unit result" where
  "validate_observer requirePins c =
     and_then (check (\<not> (oc_SchemaVersion c \<noteq> ''gar.host-observer-config.v1'' \<or> oc_EnrollmentID c = '''' \<or>
         oc_DeploymentGeneration c < 1))
       (OtherError ''host observer schema and enrollment identity are required'')) (\<lambda>_.
     and_then (check (length (oc_ContainerID c) = 64)
       (OtherError ''host observer requires a full 64-character container ID'')) (\<lambda>_.
     and_then (check (container_id (oc_ContainerID c))
       (OtherError ''host observer container ID must be lowercase hexadecimal'')) (\<lambda>_.
     and_then (validate_pins requirePins c) (\<lambda>_.
     and_then (check (list_all clean_absolute [oc_DataRootPath c, oc_DockerSocketPath c, oc_SnapshotPath c])
       (OtherError ''host observer paths must be clean and absolute'')) (\<lambda>_.
     and_then (check (\<not> path_within (oc_SnapshotPath c) (oc_DataRootPath c))
       (OtherError ''host snapshot must be outside the Paper data root'')) (\<lambda>_.
     and_then (check (\<not> (oc_IntervalSeconds c < 1 \<or> 5 < oc_IntervalSeconds c))
       (OtherError ''host observer interval_seconds must be from 1 through 5'')) (\<lambda>_.
     and_then (check (list_all (\<lambda>(pluginID, fileName). \<not> (pluginID = '''' \<or> 128 < length pluginID \<or> \<not> safeBaseName fileName))
         (oc_ManagedPluginSlots c))
       (OtherError ''managed plugin slots require bounded IDs and basenames'')) (\<lambda>_.
     and_then (case oc_AdmissionBarrier c of None \<Rightarrow> Inr () | Some b \<Rightarrow> validate_barrier_config (oc_ContainerID c) b) (\<lambda>_.
     check (distinct (map snd (oc_ManagedPluginSlots c)))
       (OtherError ''managed plugin filenames must be unique''))))))))))"

definition load_observer :: "file_access \<Rightarrow> ObserverConfig json_reader \<Rightarrow> bool \<Rightarrow> string \<Rightarrow> ObserverConfig result" where
  "load_observer fa jr requirePins path =
     and_then (wrap ''host observer config security check: '' (ValidateOwnerOnlyRegular fa path)) (\<lambda>_.
     and_then (case fa_ReadFile fa path of
         Inl err \<Rightarrow> Inl err
       | Inr content \<Rightarrow> and_then (check (length (take (MiB + 1) content) \<le> MiB)
           (OtherError ''host observer config exceeds 1 MiB'')) (\<lambda>_. Inr (take (MiB + 1) content))) (\<lambda>payload.
     and_then (decode_payload ''host observer config'' jr payload) (\<lambda>config.
     and_then (validate_observer requirePins config) (\<lambda>_. Inr config))))"

section \<open>Construction\<close>

definition validateDockerSocket :: "file_access \<Rightarrow> string \<Rightarrow> unit result" where
  "validateDockerSocket fa path =
     (case fa_Lstat fa path of
        Inl _ \<Rightarrow> Inl (OtherError ''Docker endpoint must be a fixed non-symlink Unix socket'')
      | Inr info \<Rightarrow> check (\<not> (st_mode info AND ModeSymlink \<noteq> 0 \<or> st_mode info AND ModeSocket = 0))
          (OtherError ''Docker endpoint must be a fixed non-symlink Unix socket''))"

definition validateOutputDirectory :: "file_access \<Rightarrow> string \<Rightarrow> unit result" where
  "validateOutputDirectory fa path =
     and_then (check (fa_EvalSymlinks fa path = Inr path)
       (OtherError ''host snapshot directory must exist and contain no symlink traversal'')) (\<lambda>_.
     case fa_Stat fa path of
       Inl _ \<Rightarrow> Inl (OtherError ''host snapshot directory must be an existing directory'')
     | Inr info \<Rightarrow> check (IsDir (st_mode info))
         (OtherError ''host snapshot directory must be an existing directory''))"

record Observer =
  ob_config :: ObserverConfig
  ob_admission :: "AdmissionConfig option"

definition newObserver :: "file_access \<Rightarrow> AdmissionConfig json_reader \<Rightarrow> bool \<Rightarrow> ObserverConfig \<Rightarrow> Observer result" where
  "newObserver fa jr requirePins c =
     and_then (validate_observer requirePins c) (\<lambda>_.
     and_then (validateDockerSocket fa (oc_DockerSocketPath c)) (\<lambda>_.
     and_then (validateOutputDirectory fa (Dir (oc_SnapshotPath c))) (\<lambda>_.
     case oc_AdmissionBarrier c of
       None \<Rightarrow> Inr \<lparr>ob_config = c, ob_admission = None\<rparr>
     | Some b \<Rightarrow>
         and_then (wrap ''load admission barrier config: '' (load_admission fa jr (bc_AdmissionConfigPath b))) (\<lambda>loaded.
         and_then (check (ac_DeploymentGeneration loaded = oc_DeploymentGeneration c)
           (OtherError ''admission barrier deployment generation mismatch'')) (\<lambda>_.
         Inr \<lparr>ob_config = c, ob_admission = Some loaded\<rparr>)))))"

section \<open>Binding keys\<close>

text \<open>
  A key is read back from the arrow outwards: the host port ends at the arrow and begins after the last colon
  before it, the container port ends at the first slash after it.
\<close>

lemma decimal_digits: "c \<in> set (decimal n) \<Longrightarrow> ascii_digit c"
proof (induction n rule: decimal.induct)
  case (1 n)
  have "ascii_digit (char_of (48 + k))" if "k < 10" for k :: nat
    using that by (simp add: ascii_digit_def char_range_def less_eq_char_def)
  with 1 show ?case by (subst (asm) decimal.simps) (auto split: if_splits)
qed

lemma decimal_nonempty: "decimal n \<noteq> []"
  by (subst decimal.simps) simp

lemma format_int_chars: "c \<in> set (format_int n) \<Longrightarrow> ascii_digit c \<or> c = CHR ''-''"
  by (auto simp: format_int_def dest: decimal_digits split: if_splits)


lemma digits_value_snoc: "digits_value (s @ [c]) = 10 * digits_value s + digit_value c"
  by (simp add: digits_value_def)

lemma digits_value_decimal: "digits_value (decimal n) = int n"
proof (induction n rule: decimal.induct)
  case (1 n)
  have digit: "digit_value (char_of (48 + k)) = int k" if "k < 10" for k :: nat
    using that by (simp add: digit_value_def)
  show ?case
  proof (cases "n < 10")
    case True
    then show ?thesis by (subst decimal.simps) (simp add: digits_value_def digit)
  next
    case False
    then have "digits_value (decimal n) = 10 * digits_value (decimal (n div 10)) + digit_value (char_of (48 + n mod 10))"
      by (subst decimal.simps) (simp add: digits_value_snoc)
    also have "\<dots> = 10 * int (n div 10) + int (n mod 10)" using 1 False digit [of "n mod 10"] by simp
    finally show ?thesis by presburger
  qed
qed

lemma format_int_inj: "format_int m = format_int n \<Longrightarrow> m = n"
proof -
  assume eq: "format_int m = format_int n"
  have sign: "hd (format_int k) = CHR ''-'' \<longleftrightarrow> k < 0" for k
    using decimal_digits [of "hd (decimal (nat k))" "nat k"] decimal_nonempty [of "nat k"]
    by (auto simp: format_int_def ascii_digit_def char_range_def less_eq_char_def)
  have val: "\<bar>k\<bar> = digits_value (if k < 0 then tl (format_int k) else format_int k)" for k
    by (simp add: format_int_def digits_value_decimal)
  have "m < 0 \<longleftrightarrow> n < 0" using sign [of m] sign [of n] eq by simp
  with val [of m] val [of n] eq show "m = n" by (simp split: if_splits)
qed

lemma first_split: "x \<notin> set xs \<Longrightarrow> x \<notin> set ys \<Longrightarrow> xs @ x # as = ys @ x # bs \<Longrightarrow> xs = ys \<and> as = bs"
proof (induction xs arbitrary: ys)
  case Nil
  then show ?case by (cases ys) auto
next
  case (Cons a xs)
  then show ?case by (cases ys) auto
qed

lemma last_split: "x \<notin> set as \<Longrightarrow> x \<notin> set bs \<Longrightarrow> xs @ x # as = ys @ x # bs \<Longrightarrow> xs = ys \<and> as = bs"
  using first_split [of x "rev as" "rev bs" "rev xs" "rev ys"]
  by (metis append_assoc append_Cons append_Nil rev.simps(2) rev_append rev_rev_ident set_rev)

lemma format_int_free:
  "CHR '':'' \<notin> set (format_int n)" "CHR ''>'' \<notin> set (format_int n)" "CHR ''/'' \<notin> set (format_int n)"
  by (auto dest!: format_int_chars simp: ascii_digit_def char_range_def less_eq_char_def)

lemma bindingKey_inj:
  assumes key: "bindingKey a = bindingKey b"
    and free: "CHR ''>'' \<notin> set (pb_HostIP b)" "CHR ''>'' \<notin> set (pb_Protocol b)"
  shows "a = b"
proof -
  define left where "left = (\<lambda>b :: PublishedBinding. pb_HostIP b @ CHR '':'' # format_int (pb_HostPort b) @ ''-'')"
  define right where "right = (\<lambda>b :: PublishedBinding. format_int (pb_ContainerPort b) @ CHR ''/'' # pb_Protocol b)"
  have split: "bindingKey x = left x @ CHR ''>'' # right x" for x
    by (simp add: bindingKey_def left_def right_def)
  have "CHR ''>'' \<notin> set (left b)" "CHR ''>'' \<notin> set (right b)"
    using free by (auto simp: left_def right_def format_int_free)
  then have "left a = left b \<and> right a = right b"
    using key append_Cons_eq_iff [of "CHR ''>''" "left b" "right b" "left a" "right a"] by (simp add: split)
  then have l: "pb_HostIP a @ CHR '':'' # format_int (pb_HostPort a) = pb_HostIP b @ CHR '':'' # format_int (pb_HostPort b)"
    and r: "right a = right b"
    by (simp_all add: left_def)
  have "pb_HostIP a = pb_HostIP b \<and> format_int (pb_HostPort a) = format_int (pb_HostPort b)"
    by (rule last_split [OF _ _ l]) (simp_all add: format_int_free)
  moreover have "format_int (pb_ContainerPort a) = format_int (pb_ContainerPort b) \<and> pb_Protocol a = pb_Protocol b"
    by (rule first_split [OF _ _ r [unfolded right_def]]) (simp_all add: format_int_free)
  ultimately show ?thesis by (simp add: format_int_inj)
qed


section \<open>Characters of an address\<close>

definition address_char :: "char \<Rightarrow> bool" where
  "address_char c \<longleftrightarrow> hex_value c \<noteq> None \<or> c = CHR ''.'' \<or> c = CHR '':''"

lemma digit_address_char: "ascii_digit c \<Longrightarrow> address_char c"
  by (auto simp: address_char_def ascii_digit_def char_range_def less_eq_char_def hex_value_def Let_def)

lemma set_split_on: "c \<in> set s \<Longrightarrow> c = sep \<or> (\<exists>w \<in> set (split_on sep s). c \<in> set w)"
proof (induction sep s rule: split_on.induct)
  case (2 sep x xs)
  then show ?case by (cases "split_on sep xs") (auto split: if_splits)
qed simp

lemma parse_ipv4_chars:
  assumes "parse_ipv4 s = Some ip" "c \<in> set s"
  shows "address_char c"
proof -
  have octets: "\<forall>w \<in> set (split_on CHR ''.'' s). octet w \<noteq> None"
    using assms(1) by (auto simp: parse_ipv4_def Let_def image_iff split: if_splits) (metis not_None_eq)
  show ?thesis
    using set_split_on [OF assms(2), of "CHR ''.''"]
  proof
    assume "\<exists>w \<in> set (split_on CHR ''.'' s). c \<in> set w"
    then obtain w where "w \<in> set (split_on CHR ''.'' s)" "c \<in> set w" by blast
    with octets have "ascii_digit c" by (auto simp: octet_def list_all_iff split: if_splits)
    then show ?thesis by (rule digit_address_char)
  qed (simp add: address_char_def)
qed

lemma ipv6_loop_round:
  assumes "ipv6_loop (Suc k) ip e s = Some res"
  obtains h rest where "s = h @ rest" "\<forall>c \<in> set h. address_char c"
    "parse_ipv4 s \<noteq> None \<or> rest = '''' \<or> rest = ''::'' \<or>
     (\<exists>ip' e' u. (rest = '':'' @ u \<or> rest = ''::'' @ u) \<and> ipv6_loop k ip' e' u = Some res)"
proof -
  define h where "h = takeWhile (\<lambda>c. hex_value c \<noteq> None) s"
  define rest where "rest = drop (length h) s"
  have "h = take (length h) s" unfolding h_def by (rule takeWhile_eq_take)
  then have s: "s = h @ rest" unfolding rest_def by (metis append_take_drop_id)
  have h: "\<forall>c \<in> set h. address_char c"
    using set_takeWhileD unfolding h_def address_char_def by fast
  note loop = assms [unfolded ipv6_loop.simps Let_def, folded h_def, folded rest_def]
  consider "rest = []" | t where "rest = CHR ''.'' # t" | x where "rest = [x]" "x \<noteq> CHR ''.''"
    | x y u where "rest = x # y # u" "x \<noteq> CHR ''.''"
    by (cases rest rule: remdups_adj.cases) auto
  then have "parse_ipv4 s \<noteq> None \<or> rest = '''' \<or> rest = ''::'' \<or>
     (\<exists>ip' e' u. (rest = '':'' @ u \<or> rest = ''::'' @ u) \<and> ipv6_loop k ip' e' u = Some res)"
  proof cases
    case 2
    then show ?thesis using loop by (auto split: if_splits)
  next
    case 3
    then show ?thesis using loop by (simp split: if_splits)
  next
    case 4
    then show ?thesis using loop by (simp split: if_splits) blast+
  qed simp
  with s h that show thesis by blast
qed

lemma ipv6_loop_chars:
  "ipv6_loop k ip e s = Some (ip', e', '''') \<Longrightarrow> c \<in> set s \<Longrightarrow> address_char c"
proof (induction k arbitrary: ip e s)
  case (Suc k)
  obtain h rest where hr: "s = h @ rest" "\<forall>c \<in> set h. address_char c"
    and cases: "parse_ipv4 s \<noteq> None \<or> rest = '''' \<or> rest = ''::'' \<or>
     (\<exists>ip2 e2 u. (rest = '':'' @ u \<or> rest = ''::'' @ u) \<and> ipv6_loop k ip2 e2 u = Some (ip', e', ''''))"
    by (rule ipv6_loop_round [OF Suc.prems(1)])
  have colon: "address_char CHR '':''" by (simp add: address_char_def)
  from cases show ?case
    using hr Suc.prems(2) Suc.IH colon parse_ipv4_chars [of s _ c] by (elim disjE) auto
qed simp

lemma ParseIP_chars:
  assumes "ParseIP s = Some ip" "c \<in> set s"
  shows "address_char c"
proof -
  have colon: "address_char CHR '':''" by (simp add: address_char_def)
  have "address_char c" if "parse_ipv6 s = Some ip"
    using that assms(2) colon ipv6_loop_chars
    by (fastforce simp: parse_ipv6_def HasPrefix_iff split: if_splits option.splits prod.splits)
  then show ?thesis
    using assms parse_ipv4_chars by (auto simp: ParseIP_def split: if_splits option.splits)
qed

lemma loopback_binding_key:
  assumes "loopback_binding b" "bindingKey a = bindingKey b"
  shows "a = b"
proof (rule bindingKey_inj [OF assms(2)])
  have "\<not> address_char CHR ''>''" by (simp add: address_char_def hex_value_def)
  then show "CHR ''>'' \<notin> set (pb_HostIP b)"
    using assms(1) ParseIP_chars by (auto simp: loopback_binding_def split: option.splits)
  show "CHR ''>'' \<notin> set (pb_Protocol b)" using assms(1) by (auto simp: loopback_binding_def)
qed

lemma validate_bindings_Inr:
  "validate_bindings seen bs = Inr u \<Longrightarrow>
   list_all loopback_binding bs \<and> distinct (map bindingKey bs) \<and> set seen \<inter> bindingKey ` set bs = {}"
  by (induction seen bs rule: validate_bindings.induct) (auto split: if_splits)


section \<open>Digests in text\<close>

lemma validSHA256_hex: "length bs = 32 \<Longrightarrow> \<forall>b \<in> set bs. b < 256 \<Longrightarrow> validSHA256 (hex_encode bs)"
  by (simp add: validSHA256_def hex_roundtrip hex_encode_lower)

end
