(* ===== verification/Host_Docker.thy ===== *)
theory Host_Docker
  imports Host_Config
begin

text \<open>
  What the host observer reads from Docker and decides about it, the middle part of
  \<open>src/internal/adapters/host/observer.go\<close>: container inspections, the topology of the admission barrier, the
  bootstrap fingerprint and the environment variables that would start a competing writer.

  \<open>di_Ports\<close> and \<open>di_Labels\<close> list the entries of Go maps in the order of iteration; a slice or map that may be
  nil is an option. \<open>strings.ToUpper\<close>, which depends on the Unicode tables outside ASCII, is an argument.
\<close>

section \<open>Inspections\<close>

record dockerMount =
  dm_Type :: string
  dm_Source :: string
  dm_Destination :: string
  dm_RW :: bool

record dockerInspection =
  di_ID :: string
  di_Image :: string
  di_ConfigImage :: string
  di_Env :: "string list"
  di_Cmd :: "string list option"
  di_Entrypoint :: "string list option"
  di_Labels :: "(string \<times> string) list option"
  di_Status :: string
  di_Running :: bool
  di_OOMKilled :: bool
  di_ExitCode :: int
  di_StartedAt :: string
  di_FinishedAt :: string
  di_Health :: "string option"
  di_RestartPolicy :: string
  di_NetworkMode :: string
  di_ReadonlyRootfs :: bool
  di_CapDrop :: "string list"
  di_SecurityOpt :: "string list"
  di_Ports :: "(string \<times> (string \<times> string) list) list"
  di_Mounts :: "dockerMount list"

section \<open>Mounts\<close>

definition slice :: "'a list option \<Rightarrow> 'a list" where
  "slice s = (case s of None \<Rightarrow> [] | Some xs \<Rightarrow> xs)"

fun equal_from :: "string list \<Rightarrow> string list \<Rightarrow> bool" where
  "equal_from (l # ls) (r # rs) = (if l \<noteq> r then False else equal_from ls rs)"
| "equal_from _ _ = True"

definition equalStrings :: "string list \<Rightarrow> string list \<Rightarrow> bool" where
  "equalStrings xs ys = (if length xs \<noteq> length ys then False else equal_from xs ys)"

definition hasExactReadonlyBind :: "dockerMount list \<Rightarrow> string \<Rightarrow> string \<Rightarrow> bool" where
  "hasExactReadonlyBind mounts source destination =
     list_ex (\<lambda>m. dm_Type m = ''bind'' \<and> dm_Source m = source \<and> dm_Destination m = destination \<and> \<not> dm_RW m) mounts"

definition hasReadonlyMirroredMount :: "dockerMount list \<Rightarrow> string \<Rightarrow> bool" where
  "hasReadonlyMirroredMount mounts path =
     list_ex (\<lambda>m. \<not> (dm_Type m \<noteq> ''bind'' \<or> dm_RW m \<or> dm_Source m \<noteq> dm_Destination m) \<and>
       path_within path (dm_Source m)) mounts"

definition hasExpectedDataMount :: "dockerMount list \<Rightarrow> string \<Rightarrow> bool" where
  "hasExpectedDataMount mounts dataRoot =
     list_ex (\<lambda>m. dm_Destination m = ''/data'' \<and> dm_RW m \<and> Clean (dm_Source m) = dataRoot) mounts"

definition pluginMountName :: "string \<Rightarrow> string \<times> bool" where
  "pluginMountName destination =
     (if \<not> HasPrefix destination ''/data/plugins/'' then ('''', False)
      else let name = TrimPrefix destination ''/data/plugins/'' in (name, safeBaseName name))"

section \<open>Published ports\<close>

fun host_bindings :: "int \<Rightarrow> string \<Rightarrow> (string \<times> string) list \<Rightarrow> PublishedBinding list result" where
  "host_bindings containerPort protocol [] = Inr []"
| "host_bindings containerPort protocol ((ip, p) # rest) =
     (case Atoi p of
        None \<Rightarrow> Inl (OtherError ''invalid Docker host port'')
      | Some hostPort \<Rightarrow>
          and_then (host_bindings containerPort protocol rest) (\<lambda>bs.
          Inr (\<lparr>pb_HostIP = ip, pb_HostPort = hostPort, pb_ContainerPort = containerPort, pb_Protocol = protocol\<rparr> # bs)))"

fun published_bindings :: "(string \<times> (string \<times> string) list) list \<Rightarrow> PublishedBinding list result" where
  "published_bindings [] = Inr []"
| "published_bindings ((containerPort, bindings) # rest) =
     (case Cut containerPort CHR ''/'' of
        (p, protocol, found) \<Rightarrow>
          if \<not> found then Inl (OtherError ''invalid Docker published port'')
          else case Atoi p of
              None \<Rightarrow> Inl (OtherError ''invalid Docker container port'')
            | Some n \<Rightarrow>
                and_then (host_bindings n protocol bindings) (\<lambda>bs.
                and_then (published_bindings rest) (\<lambda>more. Inr (bs @ more))))"

definition validate_published :: "dockerInspection \<Rightarrow> PublishedBinding list \<Rightarrow> unit result" where
  "validate_published paper expected =
     and_then (published_bindings (di_Ports paper)) (\<lambda>bs.
     let actual = remdups (map bindingKey bs) in
     and_then (check (length actual = length expected)
       (OtherError ''Paper published port set does not match admission enrollment'')) (\<lambda>_.
     check (list_all (\<lambda>b. bindingKey b \<in> set actual) expected)
       (OtherError ''Paper published binding does not match admission enrollment'')))"

section \<open>The admission barrier\<close>

definition hashBoundedPlugin :: "file_access \<Rightarrow> crypto \<Rightarrow> string \<Rightarrow> (string \<times> int) result" where
  "hashBoundedPlugin fa cr file =
     (case fa_Fstat fa file of
        Inl _ \<Rightarrow> Inl (OtherError ''managed plugin artifact is missing, non-regular, or oversized'')
      | Inr info \<Rightarrow>
          and_then (check (\<not> (\<not> IsRegular (st_mode info) \<or> st_size info < 1 \<or> 100 * 2 ^ 20 < st_size info))
            (OtherError ''managed plugin artifact is missing, non-regular, or oversized'')) (\<lambda>_.
          and_then (fa_ReadFile fa file) (\<lambda>content.
          Inr (hex_encode (sum256 cr (take (100 * 2 ^ 20 + 1) content)), st_size info))))"

definition hashGateBinary :: "file_access \<Rightarrow> crypto \<Rightarrow> string \<Rightarrow> string result" where
  "hashGateBinary fa cr path =
     and_then (fa_OpenNoFollow fa path) (\<lambda>_.
     and_then (hashBoundedPlugin fa cr path) (\<lambda>(digest, size). Inr digest))"

definition validateAdmissionBarrier ::
  "file_access \<Rightarrow> crypto \<Rightarrow> dockerInspection \<Rightarrow> dockerInspection \<Rightarrow> AdmissionBarrierConfig \<Rightarrow> AdmissionConfig \<Rightarrow> unit result"
where
  "validateAdmissionBarrier fa cr paper gate config admission =
     and_then (check (\<not> (di_ID gate \<noteq> bc_GateContainerID config \<or> di_Image gate \<noteq> bc_ExpectedGateImageID config \<or>
         \<not> di_Running gate \<or> di_Status gate \<noteq> ''running'' \<or> di_RestartPolicy gate \<noteq> ''no''))
       (OtherError ''admission gate lifecycle or identity mismatch'')) (\<lambda>_.
     and_then (check (\<not> (di_NetworkMode gate \<noteq> ''container:'' @ di_ID paper \<or> \<not> di_ReadonlyRootfs gate \<or>
         \<not> contains (di_CapDrop gate) ''ALL''))
       (OtherError ''admission gate isolation mismatch'')) (\<lambda>_.
     and_then (check (\<not> (\<not> contains (di_SecurityOpt gate) ''no-new-privileges:true'' \<or>
         \<not> equalStrings (slice (di_Entrypoint gate)) [''/gar-gate''] \<or>
         \<not> equalStrings (slice (di_Cmd gate)) [''serve'', ''--config'', bc_AdmissionConfigPath config]))
       (OtherError ''admission gate command or security options mismatch'')) (\<lambda>_.
     and_then (check (\<not> list_ex (\<lambda>m. dm_Destination m = ''/var/run/docker.sock'' \<or> dm_Destination m = ''/run/docker.sock'')
         (di_Mounts gate))
       (OtherError ''admission gate must not receive Docker socket'')) (\<lambda>_.
     and_then (check (hashGateBinary fa cr (bc_GateBinaryPath config) = Inr (bc_ExpectedGateBinarySHA256 config))
       (OtherError ''admission gate binary attribution mismatch'')) (\<lambda>_.
     and_then (check (hasExactReadonlyBind (di_Mounts gate) (bc_GateBinaryPath config) ''/gar-gate'')
       (OtherError ''admission gate binary mount mismatch'')) (\<lambda>_.
     and_then (check (list_all (hasReadonlyMirroredMount (di_Mounts gate))
         [bc_AdmissionConfigPath config, ac_StatePath admission, ac_RuntimeSnapshotPath admission])
       (OtherError ''admission gate evidence mount mismatch'')) (\<lambda>_.
     validate_published paper (bc_PublishedBindings config))))))))"

section \<open>Competing writers\<close>

definition blocked_keys :: "string list" where
  "blocked_keys = [''PLUGINS'', ''PLUGINS_FILE'', ''COPY_PLUGINS_SRC'', ''MODRINTH_PROJECTS'', ''SPIGET_RESOURCES'',
     ''CURSEFORGE_FILES'', ''CF_SERVER_MOD'', ''PACKWIZ_URL'', ''AUTO_CURSEFORGE'', ''REMOVE_OLD_MODS'', ''RESTART_ON_CRASH'']"

text \<open>One round of the loop: the keys found so far and whether the default policy is pinned.\<close>

definition writer_entry :: "(string \<Rightarrow> string) \<Rightarrow> string \<Rightarrow> string list \<times> bool \<Rightarrow> string list \<times> bool" where
  "writer_entry upper entry state =
     (case (Cut entry CHR ''='', state) of
        ((key, val, _), found, pinned) \<Rightarrow>
          let found = (if key \<in> set blocked_keys then found @ [key] else found);
              found = (if (key = ''ENABLE_AUTOPAUSE'' \<or> key = ''ENABLE_AUTOSTOP'') \<and> \<not> HasSuffix (upper entry) ''=FALSE''
                       then found @ [key] else found)
          in if key = ''SKIP_DOWNLOAD_DEFAULTS''
             then (if val = ''TRUE'' then found else found @ [key], val = ''TRUE'')
             else (found, pinned))"

text \<open>
  \<open>compactStrings\<close> works in place: \<open>result\<close> is the first \<open>m\<close> elements of the array it reads, and an appended element
  overwrites the position after them.
\<close>

fun compact_loop :: "nat \<Rightarrow> nat \<Rightarrow> nat \<Rightarrow> string list \<Rightarrow> string list" where
  "compact_loop 0 i m vs = take m vs"
| "compact_loop (Suc k) i m vs =
     (if vs ! i \<noteq> vs ! (m - 1) then compact_loop k (Suc i) (Suc m) (vs[m := vs ! i])
      else compact_loop k (Suc i) m vs)"

definition compactStrings :: "string list \<Rightarrow> string list" where
  "compactStrings vs = (if length vs < 2 then vs else compact_loop (length vs - 1) 1 1 vs)"

definition competingWriters :: "(string \<Rightarrow> string) \<Rightarrow> string list \<Rightarrow> string list" where
  "competingWriters upper environment =
     (case fold (writer_entry upper) environment ([], False) of
        (found, pinned) \<Rightarrow> compactStrings (sort (if pinned then found else found @ [''SKIP_DOWNLOAD_DEFAULTS''])))"

section \<open>The bootstrap fingerprint\<close>

definition reflect_strings :: "string list option \<Rightarrow> gvalue" where
  "reflect_strings s = (case s of None \<Rightarrow> GNil | Some xs \<Rightarrow> GSlice (map GString xs))"

definition reflect_mount :: "dockerMount \<Rightarrow> gvalue" where
  "reflect_mount m = GStruct
     [(''Type'', True, GString (dm_Type m)), (''Source'', True, GString (dm_Source m)),
      (''Destination'', True, GString (dm_Destination m)), (''RW'', True, GBool (dm_RW m))]"

text \<open>
  Copying an empty slice onto a nil one leaves nil. \<open>sort.Slice\<close> is not stable; the mounts of a container have
  different destinations, so their order is determined.
\<close>

definition copied :: "'a list \<Rightarrow> 'a list option" where
  "copied xs = (if xs = [] then None else Some xs)"

definition bootstrap_payload :: "dockerInspection \<Rightarrow> gvalue" where
  "bootstrap_payload di = GStruct
     [(''image_id'', True, GString (di_Image di)), (''image_ref'', True, GString (di_ConfigImage di)),
      (''environment'', True, reflect_strings (copied (sort (di_Env di)))), (''command'', True, reflect_strings (di_Cmd di)),
      (''entrypoint'', True, reflect_strings (di_Entrypoint di)),
      (''labels'', True, case di_Labels di of None \<Rightarrow> GNil | Some m \<Rightarrow> GMap (map (\<lambda>(k, v). (k, GString v)) m)),
      (''restart_policy'', True, GString (di_RestartPolicy di)),
      (''mounts'', True, case copied (sort_key dm_Destination (di_Mounts di)) of
          None \<Rightarrow> GNil | Some ms \<Rightarrow> GSlice (map reflect_mount ms))]"

definition bootstrapFingerprint ::
  "crypto \<Rightarrow> (string \<Rightarrow> string) \<Rightarrow> dockerInspection \<Rightarrow> (string \<times> string list) result" where
  "bootstrapFingerprint cr upper di =
     and_then (Digest cr (bootstrap_payload di)) (\<lambda>digest.
     Inr (digest, competingWriters upper (sort (di_Env di))))"

section \<open>Facts\<close>

lemma equal_from_iff: "length xs = length ys \<Longrightarrow> equal_from xs ys \<longleftrightarrow> xs = ys"
  by (induction xs ys rule: equal_from.induct) auto

lemma equalStrings_iff [simp]: "equalStrings xs ys \<longleftrightarrow> xs = ys"
  by (auto simp: equalStrings_def equal_from_iff)

text \<open>The in-place loop computes \<open>remdups_adj\<close>: what it overwrites it has read already.\<close>

lemma remdups_adj_snoc:
  "xs \<noteq> [] \<Longrightarrow> remdups_adj (xs @ [x]) = (if x = last xs then remdups_adj xs else remdups_adj xs @ [x])"
proof -
  assume "xs \<noteq> []"
  then obtain ys y where "xs = ys @ [y]" by (metis append_butlast_last_id)
  then show ?thesis using remdups_adj_append_two [of ys y x] by simp
qed

lemma compact_loop_invariant:
  assumes "i + k = length vs" "0 < m" "m \<le> i" "take m vs = remdups_adj pre" "pre \<noteq> []"
    "last (remdups_adj pre) = vs ! (m - 1)"
  shows "compact_loop k i m vs = remdups_adj (pre @ drop i vs)"
  using assms
proof (induction k arbitrary: i m pre vs)
  case (Suc k)
  define x where "x = vs ! i"
  have i: "i < length vs" using Suc.prems by simp
  have rest: "pre @ drop i vs = (pre @ [x]) @ drop (Suc i) vs"
    using i by (simp add: Cons_nth_drop_Suc x_def)
  have lastp: "last pre = vs ! (m - 1)" using Suc.prems(5,6) by simp
  show ?case
  proof (cases "x = vs ! (m - 1)")
    case True
    then have "compact_loop (Suc k) i m vs = compact_loop k (Suc i) m vs" by (simp add: x_def)
    also have "\<dots> = remdups_adj ((pre @ [x]) @ drop (Suc i) vs)"
      using Suc.prems True lastp by (intro Suc.IH) (auto simp: remdups_adj_snoc)
    finally show ?thesis by (simp add: rest)
  next
    case False
    have taken: "take (Suc m) (vs[m := x]) = remdups_adj (pre @ [x])"
      using Suc.prems i False lastp by (simp add: take_Suc_conv_app_nth remdups_adj_snoc)
    have "compact_loop (Suc k) i m vs = compact_loop k (Suc i) (Suc m) (vs[m := x])"
      using False by (simp add: x_def)
    also have "\<dots> = remdups_adj ((pre @ [x]) @ drop (Suc i) (vs[m := x]))"
      using Suc.prems taken i by (intro Suc.IH) auto
    finally show ?thesis using Suc.prems by (simp add: rest)
  qed
qed simp

lemma compactStrings_remdups_adj: "compactStrings vs = remdups_adj vs"
proof (cases "length vs < 2")
  case True
  then show ?thesis by (cases vs rule: remdups_adj.cases) (auto simp: compactStrings_def)
next
  case False
  then obtain x xs where v: "vs = x # xs" by (cases vs) auto
  have "compact_loop (length vs - 1) 1 1 vs = remdups_adj ([x] @ drop 1 vs)"
    using False by (intro compact_loop_invariant) (auto simp: v)
  with False show ?thesis by (simp add: compactStrings_def v)
qed

text \<open>What the published ports of the container are when the barrier is accepted.\<close>

lemma published_exact:
  assumes barrier: "validate_bindings [] expected = Inr ()"
    and ok: "validate_published paper expected = Inr ()"
  obtains bs where "published_bindings (di_Ports paper) = Inr bs" "set bs = set expected" "list_all loopback_binding bs"
proof -
  obtain bs where bs: "published_bindings (di_Ports paper) = Inr bs"
      "length (remdups (map bindingKey bs)) = length expected" "bindingKey ` set expected \<subseteq> bindingKey ` set bs"
    using ok by (auto simp: validate_published_def list_all_iff)
  have e: "list_all loopback_binding expected" "distinct (map bindingKey expected)"
    using validate_bindings_Inr [OF barrier] by auto
  have "card (bindingKey ` set bs) = card (bindingKey ` set expected)"
    using bs(2) distinct_card [OF e(2)] by (simp add: length_remdups_card_conv)
  then have keys: "bindingKey ` set expected = bindingKey ` set bs"
    using bs(3) by (intro card_subset_eq) auto
  have "b \<in> set expected" if "b \<in> set bs" for b
  proof -
    have "bindingKey b \<in> bindingKey ` set expected" unfolding keys using that by (rule imageI)
    then obtain x where x: "x \<in> set expected" "bindingKey b = bindingKey x" by blast
    then have "loopback_binding x" using e(1) by (simp add: list_all_iff)
    from loopback_binding_key [OF this x(2)] x(1) show ?thesis by simp
  qed
  moreover have "x \<in> set bs" if "x \<in> set expected" for x
  proof -
    have "bindingKey x \<in> bindingKey ` set bs" unfolding keys [symmetric] using that by (rule imageI)
    then obtain b where b: "b \<in> set bs" "bindingKey b = bindingKey x" by fastforce
    have "loopback_binding x" using e(1) that by (simp add: list_all_iff)
    from loopback_binding_key [OF this b(2)] b(1) show ?thesis by simp
  qed
  ultimately have "set bs = set expected" by blast
  with bs(1) e(1) that show thesis by (simp add: list_all_iff)
qed


text \<open>An environment entry that makes the container a competing writer, whatever comes before or after it.\<close>

definition offending :: "(string \<Rightarrow> string) \<Rightarrow> string \<Rightarrow> bool" where
  "offending upper entry \<longleftrightarrow>
     (case Cut entry CHR ''='' of (key, val, _) \<Rightarrow>
        key \<in> set blocked_keys \<or>
        (key \<in> {''ENABLE_AUTOPAUSE'', ''ENABLE_AUTOSTOP''} \<and> \<not> HasSuffix (upper entry) ''=FALSE'') \<or>
        (key = ''SKIP_DOWNLOAD_DEFAULTS'' \<and> val \<noteq> ''TRUE''))"

definition names_policy :: "string \<Rightarrow> bool" where
  "names_policy entry \<longleftrightarrow> fst (Cut entry CHR ''='') = ''SKIP_DOWNLOAD_DEFAULTS''"

lemma writer_entry_found:
  "fst (writer_entry upper entry st) = [] \<longleftrightarrow> fst st = [] \<and> \<not> offending upper entry"
  unfolding writer_entry_def offending_def Let_def
  by (cases "Cut entry CHR ''=''"; cases st) (auto split: if_splits)

lemma writer_entry_pinned:
  "\<not> offending upper entry \<Longrightarrow> snd (writer_entry upper entry st) = (snd st \<or> names_policy entry)"
  unfolding writer_entry_def offending_def names_policy_def Let_def
  by (cases "Cut entry CHR ''=''"; cases st) (simp split: if_splits)

lemma writers_found:
  "fst (fold (writer_entry upper) env st) = [] \<longleftrightarrow> fst st = [] \<and> list_all (\<lambda>e. \<not> offending upper e) env"
  by (induction env arbitrary: st) (auto simp: writer_entry_found)

lemma writers_pinned:
  "list_all (\<lambda>e. \<not> offending upper e) env \<Longrightarrow>
   snd (fold (writer_entry upper) env st) = (snd st \<or> list_ex names_policy env)"
  by (induction env arbitrary: st) (auto simp: writer_entry_pinned)

lemma competingWriters_nil_iff:
  "competingWriters upper env = [] \<longleftrightarrow>
   list_all (\<lambda>e. \<not> offending upper e) env \<and> list_ex names_policy env"
proof -
  obtain found pinned where f: "fold (writer_entry upper) env ([], False) = (found, pinned)" by fastforce
  have found: "found = [] \<longleftrightarrow> list_all (\<lambda>e. \<not> offending upper e) env"
    using writers_found [of upper env "([], False)"] by (simp add: f)
  have pinned: "pinned \<longleftrightarrow> list_ex names_policy env" if "found = []"
    using writers_pinned [of upper env "([], False)"] that found by (simp add: f)
  have nil: "sort xs = [] \<longleftrightarrow> xs = []" for xs :: "string list"
    by (metis length_0_conv length_sort)
  show ?thesis
    using found pinned by (auto simp: competingWriters_def f compactStrings_remdups_adj nil)
qed

lemma competingWriters_sorted: "sorted_wrt (<) (competingWriters upper env)"
proof -
  have "distinct (remdups_adj xs)" if "sorted xs" for xs :: "string list"
    using that by (induction xs rule: remdups_adj.induct) (auto dest: order.antisym)
  then have "sorted_wrt (<) (remdups_adj (sort xs))" for xs :: "string list"
    by (simp add: strict_sorted_iff)
  then show ?thesis by (simp add: competingWriters_def compactStrings_remdups_adj split: prod.splits)
qed


section \<open>The barrier\<close>



section \<open>A concrete deployment\<close>

definition sample_ids :: "nat \<Rightarrow> string" where
  "sample_ids n = hex_encode (replicate 32 n)"

definition sample_binding :: PublishedBinding where
  "sample_binding = \<lparr>pb_HostIP = ''127.0.0.1'', pb_HostPort = 25565, pb_ContainerPort = 25565, pb_Protocol = ''tcp''\<rparr>"

definition sample_barrier :: AdmissionBarrierConfig where
  "sample_barrier =
     \<lparr>bc_GateContainerID = sample_ids 2, bc_ExpectedGateImageID = ''sha256:'' @ sample_ids 3, bc_GateBinaryPath = ''/opt/gar-gate'',
      bc_ExpectedGateBinarySHA256 = sample_ids 5, bc_AdmissionConfigPath = ''/srv/gar/admission.json'',
      bc_PublishedBindings = [sample_binding]\<rparr>"

definition sample_inspection :: "string \<Rightarrow> dockerInspection" where
  "sample_inspection ident =
     \<lparr>di_ID = ident, di_Image = ''sha256:'' @ sample_ids 3, di_ConfigImage = ''itzg'', di_Env = [''SKIP_DOWNLOAD_DEFAULTS=TRUE''],
      di_Cmd = Some [''serve'', ''--config'', ''/srv/gar/admission.json''], di_Entrypoint = Some [''/gar-gate''], di_Labels = None,
      di_Status = ''running'', di_Running = True, di_OOMKilled = False, di_ExitCode = 0, di_StartedAt = '''', di_FinishedAt = '''',
      di_Health = None, di_RestartPolicy = ''no'', di_NetworkMode = ''container:'' @ sample_ids 1, di_ReadonlyRootfs = True,
      di_CapDrop = [''ALL''], di_SecurityOpt = [''no-new-privileges:true''],
      di_Ports = [(''25565/tcp'', [(''127.0.0.1'', ''25565'')])],
      di_Mounts = [\<lparr>dm_Type = ''bind'', dm_Source = ''/opt/gar-gate'', dm_Destination = ''/gar-gate'', dm_RW = False\<rparr>,
        \<lparr>dm_Type = ''bind'', dm_Source = ''/srv/gar'', dm_Destination = ''/srv/gar'', dm_RW = False\<rparr>,
        \<lparr>dm_Type = ''bind'', dm_Source = ''/srv/data'', dm_Destination = ''/data'', dm_RW = True\<rparr>]\<rparr>"

definition sample_binary :: file_access where
  "sample_binary = sample_access\<lparr>fa_ReadFile := (\<lambda>_. Inr (replicate 32 5))\<rparr>"

lemma sample_ids_valid: "n < 256 \<Longrightarrow> validSHA256 (sample_ids n) \<and> container_id (sample_ids n) \<and> length (sample_ids n) = 64"
  by (simp add: sample_ids_def validSHA256_hex container_id_def hex_roundtrip hex_encode_lower)

lemma sample_ids_eq: "m < 256 \<Longrightarrow> n < 256 \<Longrightarrow> sample_ids m = sample_ids n \<longleftrightarrow> m = n"
proof -
  assume "m < 256" "n < 256"
  then have "hex_decode (sample_ids m) = Some (replicate 32 m)" "hex_decode (sample_ids n) = Some (replicate 32 n)"
    by (simp_all only: sample_ids_def) (rule hex_roundtrip; simp)+
  then have "replicate 32 m = replicate 32 n" if "sample_ids m = sample_ids n" using that by (metis option.inject)
  then show ?thesis by (metis replicate_eq_replicate zero_neq_numeral)
qed

lemma sample_barrier_paths:
  "clean_absolute ''/opt/gar-gate''" "clean_absolute ''/srv/gar/admission.json''" "loopback_binding sample_binding"
proof -
  show "clean_absolute ''/opt/gar-gate''" "clean_absolute ''/srv/gar/admission.json''" by code_simp+
  show "loopback_binding sample_binding"
    by (simp add: loopback_binding_def sample_binding_def address_examples) (simp add: IsLoopback_def To4_def)
qed

lemma sample_barrier_valid: "validate_barrier_config (sample_ids 1) sample_barrier = Inr ()"
  by (simp add: validate_barrier_config_def sample_barrier_def sample_ids_valid sample_ids_eq sample_barrier_paths
      validImageID_def HasPrefix_def TrimPrefix_def)

lemma sample_gate_hash: "hashGateBinary sample_binary sample_crypto p = Inr (sample_ids 5)"
  by (simp add: hashGateBinary_def hashBoundedPlugin_def sample_binary_def sample_access_def sample_mode sample_crypto_def
      sample_ids_def take_replicate)

lemma sample_ports: "published_bindings [(''25565/tcp'', [(''127.0.0.1'', ''25565'')])] = Inr [sample_binding]"
proof -
  have "Cut ''25565/tcp'' CHR ''/'' = (''25565'', ''tcp'', True)" "Atoi ''25565'' = Some 25565" by code_simp+
  then show ?thesis by (simp add: sample_binding_def)
qed

lemma sample_published: "validate_published (sample_inspection x) [sample_binding] = Inr ()"
  by (simp add: validate_published_def sample_inspection_def sample_ports del: published_bindings.simps)

lemma sample_evidence:
  "list_all (hasReadonlyMirroredMount (di_Mounts (sample_inspection x)))
     [''/srv/gar/admission.json'', ''/srv/gar/state'', ''/srv/gar/runtime'']"
  by (simp only: sample_inspection_def dockerInspection.simps) code_simp

lemma sample_barrier_accepted:
  "validateAdmissionBarrier sample_binary sample_crypto (sample_inspection (sample_ids 1)) (sample_inspection (sample_ids 2))
     sample_barrier sample_admission = Inr ()"
  using sample_published [of "sample_ids 1"] sample_evidence [of "sample_ids 2"]
  by (simp add: validateAdmissionBarrier_def sample_gate_hash sample_barrier_def sample_admission_def)
     (simp add: sample_inspection_def slice_def hasExactReadonlyBind_def)


end
