(* ===== verification/Host_Observer.thy ===== *)
theory Host_Observer
  imports Host_Docker
begin

text \<open>
  The host observer, \<open>src/internal/adapters/host/observer.go\<close>: one observation reads the container from Docker, the
  plugins and the log from the data root and the state of the admission barrier, and becomes the snapshot that
  the agent's side reads (\<open>Host_Snapshot\<close>).

  \<open>observer_world\<close> is what one observation meets. A descriptor is named by the path it was opened under, \<open>openat\<close> by the
  directory's path and the name. Docker's answer to an inspection is the status code with the decoded body.
\<close>

section \<open>The world of an observation\<close>

record observer_world =
  ow_access :: file_access
  ow_OpenDirectory :: "string \<Rightarrow> unit result"
  ow_OpenDirectoryAt :: "string \<Rightarrow> string \<Rightarrow> unit result"
  ow_Readdirnames :: "string \<Rightarrow> string list result"
  ow_Seek :: "string \<Rightarrow> unit result"
  ow_Statfs :: "string \<Rightarrow> (nat \<times> int) result"
  ow_Get :: "string \<Rightarrow> (int \<times> dockerInspection result) result"
  ow_state_reader :: "AdmissionState json_reader"
  ow_runtime_reader :: "runtime_snapshot json_reader"
  ow_ToUpper :: "string \<Rightarrow> string"
  ow_crypto :: crypto
  ow_now :: gotime

definition at_path :: "string \<Rightarrow> string \<Rightarrow> string" where
  "at_path directory name = directory @ ''/'' @ name"

definition inspectContainerID :: "observer_world \<Rightarrow> string \<Rightarrow> dockerInspection result" where
  "inspectContainerID ow containerID =
     and_then (ow_Get ow (''http://docker/containers/'' @ containerID @ ''/json'')) (\<lambda>(status, body).
     and_then (check (status = 200) (OtherError (''Docker inspect returned status '' @ format_int status))) (\<lambda>_. body))"

section \<open>Files of the data root\<close>

definition dataRootIdentity :: "file_access \<Rightarrow> string \<Rightarrow> string result" where
  "dataRootIdentity fa path =
     (case fa_Lstat fa path of
        Inl _ \<Rightarrow> Inl (OtherError ''data root must be a non-symlink directory'')
      | Inr info \<Rightarrow>
          and_then (check (\<not> (st_mode info AND ModeSymlink \<noteq> 0 \<or> \<not> IsDir (st_mode info)))
            (OtherError ''data root must be a non-symlink directory'')) (\<lambda>_.
          Inr (''dev:'' @ decimal (st_dev info) @ ''/inode:'' @ decimal (st_ino info))))"

definition openDirectoryNoFollow :: "observer_world \<Rightarrow> string \<Rightarrow> unit result" where
  "openDirectoryNoFollow ow path =
     and_then (check (fa_EvalSymlinks (ow_access ow) path = Inr path)
       (OtherError ''data root is unavailable or traverses a symlink'')) (\<lambda>_. ow_OpenDirectory ow path)"

text \<open>The product of two \<open>uint64\<close> values wraps.\<close>

definition diskFreeBytes :: "observer_world \<Rightarrow> string \<Rightarrow> int result" where
  "diskFreeBytes ow path =
     and_then (ow_Statfs ow path) (\<lambda>(bavail, bsize). Inr ((int bavail * (bsize mod 2 ^ 64)) mod 2 ^ 64))"

definition unregistered_jar :: "string list \<Rightarrow> string \<Rightarrow> bool" where
  "unregistered_jar allowed name \<longleftrightarrow> EqualFold (Ext name) ''.jar'' \<and> name \<notin> set allowed"

fun openPluginArtifact :: "observer_world \<Rightarrow> string \<Rightarrow> string \<Rightarrow> dockerMount list \<Rightarrow> string result" where
  "openPluginArtifact ow pluginsDirectory fileName [] =
     and_then (fa_OpenNoFollow (ow_access ow) (at_path pluginsDirectory fileName)) (\<lambda>_.
     Inr (at_path pluginsDirectory fileName))"
| "openPluginArtifact ow pluginsDirectory fileName (m # ms) =
     (case pluginMountName (dm_Destination m) of (name, pluginMount) \<Rightarrow>
        if \<not> pluginMount \<or> name \<noteq> fileName then openPluginArtifact ow pluginsDirectory fileName ms
        else and_then (check (fa_EvalSymlinks (ow_access ow) (dm_Source m) = Inr (dm_Source m))
               (OtherError ''mounted plugin source is unavailable or traverses a symlink'')) (\<lambda>_.
             and_then (fa_OpenNoFollow (ow_access ow) (dm_Source m)) (\<lambda>_. Inr (dm_Source m))))"

fun hash_slots :: "observer_world \<Rightarrow> string \<Rightarrow> (string \<times> string) list \<Rightarrow> dockerMount list \<Rightarrow> string list \<Rightarrow> PluginArtifact list result"
where
  "hash_slots ow pluginsDirectory slots mounts [] = Inr []"
| "hash_slots ow pluginsDirectory slots mounts (pluginID # ids) =
     and_then (openPluginArtifact ow pluginsDirectory (str_get slots pluginID) mounts) (\<lambda>file.
     and_then (hashBoundedPlugin (ow_access ow) (ow_crypto ow) file) (\<lambda>(digest, size).
     and_then (hash_slots ow pluginsDirectory slots mounts ids) (\<lambda>artifacts.
     Inr (\<lparr>pa_PluginID = pluginID, pa_SHA256 = digest, pa_Size = size\<rparr> # artifacts))))"

definition observePluginArtifacts ::
  "observer_world \<Rightarrow> string \<Rightarrow> (string \<times> string) list \<Rightarrow> dockerMount list \<Rightarrow> PluginArtifact list result" where
  "observePluginArtifacts ow dataRoot slots mounts =
     and_then (openDirectoryNoFollow ow dataRoot) (\<lambda>_.
     case ow_OpenDirectoryAt ow dataRoot ''plugins'' of
       Inl err \<Rightarrow> if slots = [] \<and> is_not_exist err then Inr [] else Inl err
     | Inr _ \<Rightarrow>
         let pluginsDirectory = at_path dataRoot ''plugins''; allowed = map snd slots in
         and_then (ow_Readdirnames ow pluginsDirectory) (\<lambda>names.
         and_then (check (\<not> list_ex (unregistered_jar allowed) names)
           (OtherError ''unregistered plugin JAR exists in data root'')) (\<lambda>_.
         and_then (check (\<not> list_ex (\<lambda>m. case pluginMountName (dm_Destination m) of (name, pluginMount) \<Rightarrow>
             pluginMount \<and> unregistered_jar allowed name) mounts)
           (OtherError ''unregistered plugin JAR is mounted into container'')) (\<lambda>_.
         hash_slots ow pluginsDirectory slots mounts (sort (map fst slots))))))"

section \<open>Recent errors\<close>

text \<open>
  \<open>strings.Map\<close> walks over UTF-8 text: the width of the encoding at the front of the bytes, or nothing where they
  are no valid encoding; such a byte becomes the replacement character.
\<close>

definition continuation :: "nat \<Rightarrow> bool" where
  "continuation b \<longleftrightarrow> 128 \<le> b \<and> b < 192"

fun rune_width :: "nat list \<Rightarrow> nat option" where
  "rune_width [] = None"
| "rune_width (a # s) =
     (if a < 128 then Some 1
      else case s of
        [] \<Rightarrow> None
      | b # s \<Rightarrow>
          if 194 \<le> a \<and> a \<le> 223 then (if continuation b then Some 2 else None)
          else case s of
            [] \<Rightarrow> None
          | c # s \<Rightarrow>
              if 224 \<le> a \<and> a \<le> 239
              then (if continuation b \<and> continuation c \<and> (a = 224 \<longrightarrow> 160 \<le> b) \<and> (a = 237 \<longrightarrow> b < 160) then Some 3 else None)
              else case s of
                [] \<Rightarrow> None
              | d # s \<Rightarrow>
                  if 240 \<le> a \<and> a \<le> 244 \<and> continuation b \<and> continuation c \<and> continuation d \<and>
                     (a = 240 \<longrightarrow> 144 \<le> b) \<and> (a = 244 \<longrightarrow> b < 144)
                  then Some 4 else None)"

text \<open>\<open>unicode.IsControl\<close>, the tabulator excepted: U+0000 to U+001F and U+007F to U+009F.\<close>

definition dropped_rune :: "nat list \<Rightarrow> bool" where
  "dropped_rune r \<longleftrightarrow> (\<exists>a. r = [a] \<and> (a < 32 \<and> a \<noteq> 9 \<or> a = 127)) \<or> (\<exists>b. r = [194, b] \<and> b < 160)"

function strip_control :: "nat list \<Rightarrow> nat list" where
  "strip_control [] = []"
| "strip_control (a # s) =
     (case rune_width (a # s) of
        None \<Rightarrow> [239, 191, 189] @ strip_control s
      | Some w \<Rightarrow> (if dropped_rune (take w (a # s)) then [] else take w (a # s)) @ strip_control (drop (max 1 w) (a # s)))"
  by pat_completeness auto

termination
  by (relation "measure length") auto

definition fingerprintLogLine :: "crypto \<Rightarrow> string \<Rightarrow> string" where
  "fingerprintLogLine cr line =
     (let bytes = strip_control (map of_char line);
          stripped = (map char_of bytes :: string);
          category = (if Contains stripped ''Exception'' then ''PAPER_EXCEPTION''
                      else if Contains stripped ''SEVERE'' then ''PAPER_SEVERE'' else ''PAPER_ERROR'')
      in category @ '' sha256:'' @ hex_encode (sum256 cr bytes))"

definition error_line :: "string \<Rightarrow> bool" where
  "error_line line \<longleftrightarrow> Contains line ''[ERROR]'' \<or> Contains line ''Exception'' \<or> Contains line ''SEVERE''"

text \<open>The last two hundred matching lines, kept by cutting the front after each append.\<close>

definition keep_error :: "crypto \<Rightarrow> string \<Rightarrow> string list \<Rightarrow> string list" where
  "keep_error cr line result =
     (if error_line line
      then let grown = result @ [fingerprintLogLine cr line] in
        if 200 < length grown then drop (length grown - 200) grown else grown
      else result)"

definition log_unavailable :: "string list \<times> string \<times> Availability \<times> string" where
  "log_unavailable = ([], '''', Unavailable, ''PAPER_LOG_UNAVAILABLE'')"

definition readRecentErrors :: "observer_world \<Rightarrow> string \<Rightarrow> string list \<times> string \<times> Availability \<times> string" where
  "readRecentErrors ow dataRoot =
     (let logs = at_path dataRoot ''logs''; file = at_path logs ''latest.log''; fa = ow_access ow in
      case and_then (openDirectoryNoFollow ow dataRoot) (\<lambda>_.
           and_then (ow_OpenDirectoryAt ow dataRoot ''logs'') (\<lambda>_.
           and_then (fa_OpenNoFollow fa file) (\<lambda>_. fa_Fstat fa file))) of
        Inl _ \<Rightarrow> log_unavailable
      | Inr info \<Rightarrow>
          if \<not> IsRegular (st_mode info) then log_unavailable
          else let cursor = hex_encode (sum256 (ow_crypto ow) (map of_char
                     (decimal (st_dev info) @ '':'' @ decimal (st_ino info) @ '':'' @ format_int (st_size info))));
                   start = max 0 (st_size info - 256 * 1024)
               in case and_then (ow_Seek ow file) (\<lambda>_. fa_ReadFile fa file) of
                    Inl _ \<Rightarrow> log_unavailable
                  | Inr content \<Rightarrow>
                      let text = (map char_of (take (256 * 1024) (drop (nat start) content)) :: string);
                          all = split_on (CHR 0x0A) text;
                          lines = (if 0 < start then tl all else all)
                      in (fold (keep_error (ow_crypto ow)) lines [], cursor, Available, ''''))"

section \<open>Observations\<close>

definition empty_snapshot :: HostSnapshot where
  "empty_snapshot =
     \<lparr>hs_SchemaVersion = '''', hs_Availability = AvailabilityOther '''', hs_ReasonCode = '''', hs_ObservedAt = 0,
      hs_EnrollmentID = '''', hs_DeploymentGeneration = 0, hs_ContainerID = '''', hs_ImageID = '''', hs_ContainerStatus = '''',
      hs_Running = False, hs_HealthStatus = '''', hs_RestartPolicy = '''', hs_DataRootIdentity = '''', hs_BootstrapFingerprint = '''',
      hs_InventoryDigest = '''', hs_PluginArtifacts = [], hs_CompetingStartupWriters = [], hs_DiskFreeBytes = 0,
      hs_RecentErrorsAvailability = AvailabilityOther '''', hs_RecentErrorsReasonCode = '''', hs_ErrorCursor = '''', hs_RecentErrors = [],
      hs_AdmissionBarrierAvailability = AvailabilityOther '''', hs_AdmissionBarrierReasonCode = '''', hs_AdmissionOpen = False,
      hs_AdmissionGateContainerID = '''', hs_AdmissionPublishedBindings = []\<rparr>"


definition unavailable_snapshot :: "ObserverConfig \<Rightarrow> gotime \<Rightarrow> string \<Rightarrow> HostSnapshot" where
  "unavailable_snapshot c now reason =
     empty_snapshot\<lparr>hs_SchemaVersion := ''gar.host-observation.v1'', hs_Availability := Unavailable, hs_ReasonCode := reason,
       hs_ObservedAt := now, hs_EnrollmentID := oc_EnrollmentID c, hs_DeploymentGeneration := oc_DeploymentGeneration c\<rparr>"

text \<open>A failing call of \<open>observe\<close> is published under a reason code, with the error beside it.\<close>

type_synonym 'a observed = "(string \<times> gar_error) + 'a"

definition because :: "string \<Rightarrow> 'a result \<Rightarrow> 'a observed" where
  "because reason r = (case r of Inl err \<Rightarrow> Inl (reason, err) | Inr x \<Rightarrow> Inr x)"

definition require :: "bool \<Rightarrow> string \<Rightarrow> string \<Rightarrow> unit observed" where
  "require ok reason message = check ok (reason, OtherError message)"

definition check_container :: "ObserverConfig \<Rightarrow> bool \<Rightarrow> dockerInspection \<Rightarrow> unit observed" where
  "check_container c requireStopped di =
     and_then (require (di_ID di = oc_ContainerID c) ''CONTAINER_ID_MISMATCH'' ''container ID mismatch'') (\<lambda>_.
     and_then (if requireStopped
         then require (\<not> (di_Running di \<or> di_Status di \<noteq> ''exited'')) ''CONTAINER_NOT_STOPPED'' ''container is not stopped''
         else require (\<not> (\<not> di_Running di \<or> di_Status di \<noteq> ''running'')) ''CONTAINER_NOT_RUNNING'' ''container is not running'') (\<lambda>_.
     and_then (require (\<not> (\<not> requireStopped \<and> di_Health di = Some ''unhealthy''))
       ''CONTAINER_UNHEALTHY'' ''container is unhealthy'') (\<lambda>_.
     require (di_RestartPolicy di = ''no'') ''RESTART_POLICY_MISMATCH'' (''container restart policy is not '' @ [CHR 39] @ ''no'' @ [CHR 39]))))"

definition check_pins ::
  "ObserverConfig \<Rightarrow> dockerInspection \<Rightarrow> string \<Rightarrow> string \<Rightarrow> string list \<Rightarrow> unit observed" where
  "check_pins c di dataIdentity fingerprint competing =
     and_then (require (competing = []) ''COMPETING_STARTUP_WRITERS'' ''competing startup writers are configured'') (\<lambda>_.
     and_then (require (\<not> (oc_ExpectedImageID c \<noteq> '''' \<and> di_Image di \<noteq> oc_ExpectedImageID c))
       ''IMAGE_ID_MISMATCH'' ''image ID mismatch'') (\<lambda>_.
     and_then (require (\<not> (oc_ExpectedDataRootIdentity c \<noteq> '''' \<and> dataIdentity \<noteq> oc_ExpectedDataRootIdentity c))
       ''DATA_ROOT_IDENTITY_MISMATCH'' ''data root identity mismatch'') (\<lambda>_.
     and_then (require (\<not> (oc_ExpectedBootstrapFingerprint c \<noteq> '''' \<and> fingerprint \<noteq> oc_ExpectedBootstrapFingerprint c))
       ''BOOTSTRAP_FINGERPRINT_MISMATCH'' ''bootstrap fingerprint mismatch'') (\<lambda>_.
     require (hasExpectedDataMount (di_Mounts di) (oc_DataRootPath c)) ''DATA_MOUNT_MISMATCH'' ''container /data mount mismatch''))))"

definition reflect_artifact :: "PluginArtifact \<Rightarrow> gvalue" where
  "reflect_artifact p = GStruct
     [(''plugin_id'', True, GString (pa_PluginID p)), (''sha256'', True, GString (pa_SHA256 p)), (''size'', True, GInt (pa_Size p))]"

text \<open>The barrier fields of a snapshot: availability, reason, open, gate container and bindings.\<close>

definition observe_barrier ::
  "observer_world \<Rightarrow> Observer \<Rightarrow> dockerInspection \<Rightarrow> (Availability \<times> string \<times> bool \<times> string \<times> PublishedBinding list) observed"
where
  "observe_barrier ow obs di =
     (case oc_AdmissionBarrier (ob_config obs) of
        None \<Rightarrow> Inr (Unavailable, ''ADMISSION_BARRIER_NOT_CONFIGURED'', False, '''', [])
      | Some b \<Rightarrow>
          and_then (because ''ADMISSION_BARRIER_UNAVAILABLE'' (inspectContainerID ow (bc_GateContainerID b))) (\<lambda>gate.
          case ob_admission obs of
            None \<Rightarrow> Inl (''panic'', OtherError ''nil pointer dereference'')
          | Some ac \<Rightarrow>
              and_then (because ''ADMISSION_BARRIER_UNAVAILABLE''
                (validateAdmissionBarrier (ow_access ow) (ow_crypto ow) di gate b ac)) (\<lambda>_.
              let decision = EvaluateAccess (ow_access ow) (ow_state_reader ow) (ow_runtime_reader ow) ac (ow_now ow)
              in Inr (Available, dn_ReasonCode decision, dn_Open decision, di_ID gate, bc_PublishedBindings b))))"

definition health_text :: "string option \<Rightarrow> string" where
  "health_text h = (case h of None \<Rightarrow> ''UNAVAILABLE'' | Some s \<Rightarrow> if s = '''' then ''UNAVAILABLE'' else s)"

definition observe_available :: "observer_world \<Rightarrow> Observer \<Rightarrow> bool \<Rightarrow> HostSnapshot observed" where
  "observe_available ow obs requireStopped =
     (let c = ob_config obs in
      and_then (because ''DOCKER_INSPECT_UNAVAILABLE'' (inspectContainerID ow (oc_ContainerID c))) (\<lambda>di.
      and_then (check_container c requireStopped di) (\<lambda>_.
      and_then (because ''DATA_ROOT_UNAVAILABLE'' (dataRootIdentity (ow_access ow) (oc_DataRootPath c))) (\<lambda>dataIdentity.
      and_then (because ''BOOTSTRAP_FINGERPRINT_UNAVAILABLE''
        (bootstrapFingerprint (ow_crypto ow) (ow_ToUpper ow) di)) (\<lambda>(fingerprint, competing).
      and_then (check_pins c di dataIdentity fingerprint competing) (\<lambda>_.
      and_then (because ''PLUGIN_ATTRIBUTION_UNAVAILABLE''
        (observePluginArtifacts ow (oc_DataRootPath c) (oc_ManagedPluginSlots c) (di_Mounts di))) (\<lambda>plugins.
      and_then (because ''INVENTORY_DIGEST_UNAVAILABLE''
        (Digest (ow_crypto ow) (GSlice (map reflect_artifact plugins)))) (\<lambda>inventoryDigest.
      and_then (because ''DISK_OBSERVATION_UNAVAILABLE'' (diskFreeBytes ow (oc_DataRootPath c))) (\<lambda>diskFree.
      and_then (observe_barrier ow obs di) (\<lambda>(barrier, reason, open_now, gateID, bindings).
      case readRecentErrors ow (oc_DataRootPath c) of
        (errors, cursor, errorsAvailability, errorsReason) \<Rightarrow>
      Inr \<lparr>hs_SchemaVersion = ''gar.host-observation.v1'', hs_Availability = Available, hs_ReasonCode = '''',
         hs_ObservedAt = ow_now ow, hs_EnrollmentID = oc_EnrollmentID c, hs_DeploymentGeneration = oc_DeploymentGeneration c,
         hs_ContainerID = di_ID di, hs_ImageID = di_Image di, hs_ContainerStatus = di_Status di, hs_Running = di_Running di,
         hs_HealthStatus = health_text (di_Health di), hs_RestartPolicy = di_RestartPolicy di,
         hs_DataRootIdentity = dataIdentity, hs_BootstrapFingerprint = fingerprint, hs_InventoryDigest = inventoryDigest,
         hs_PluginArtifacts = plugins, hs_CompetingStartupWriters = competing, hs_DiskFreeBytes = diskFree,
         hs_RecentErrorsAvailability = errorsAvailability, hs_RecentErrorsReasonCode = errorsReason,
         hs_ErrorCursor = cursor, hs_RecentErrors = errors, hs_AdmissionBarrierAvailability = barrier,
         hs_AdmissionBarrierReasonCode = reason, hs_AdmissionOpen = open_now, hs_AdmissionGateContainerID = gateID,
         hs_AdmissionPublishedBindings = bindings\<rparr>))))))))))"

definition host_observe :: "observer_world \<Rightarrow> Observer \<Rightarrow> bool \<Rightarrow> HostSnapshot \<times> gar_error option" where
  "host_observe ow obs requireStopped =
     (case observe_available ow obs requireStopped of
        Inl (reason, err) \<Rightarrow> (unavailable_snapshot (ob_config obs) (ow_now ow) reason, Some err)
      | Inr snapshot \<Rightarrow> (snapshot, None))"

text \<open>\<open>Publish\<close> replaces the snapshot file with the primitive of the admission state, mode 0640.\<close>

definition Publish ::
  "(HostSnapshot \<Rightarrow> nat list result) \<Rightarrow> write_env \<Rightarrow> ObserverConfig \<Rightarrow> HostSnapshot \<Rightarrow> files \<Rightarrow> gar_error option \<times> files list"
where
  "Publish marshal we c snapshot files =
     (case marshal snapshot of
        Inl err \<Rightarrow> (Some err, [files])
      | Inr payload \<Rightarrow> replace_file we 416 (oc_SnapshotPath c) (payload @ [10]) files)"


text \<open>One round of the loop of \<open>Run\<close>: the observation is published whether it failed or not.\<close>

definition observer_round ::
  "(HostSnapshot \<Rightarrow> nat list result) \<Rightarrow> write_env \<Rightarrow> observer_world \<Rightarrow> Observer \<Rightarrow> files \<Rightarrow> gar_error option \<times> files list"
where
  "observer_round marshal we ow obs files =
     (case host_observe ow obs False of (snapshot, observeErr) \<Rightarrow> Publish marshal we (ob_config obs) snapshot files)"

section \<open>What an observation publishes\<close>

lemma because_simps [simp]:
  "because reason r = Inr x \<longleftrightarrow> r = Inr x" "because reason r = Inl (why, err) \<longleftrightarrow> why = reason \<and> r = Inl err"
  by (auto simp: because_def split: sum.splits)

lemma require_simps [simp]:
  "require ok reason message = Inr u \<longleftrightarrow> ok"
  "require ok reason message = Inl (why, err) \<longleftrightarrow> \<not> ok \<and> why = reason \<and> err = OtherError message"
  by (auto simp: require_def check_def)

definition sha256_sized :: "crypto \<Rightarrow> bool" where
  "sha256_sized cr \<longleftrightarrow> (\<forall>p. length (sum256 cr p) = 32 \<and> (\<forall>b \<in> set (sum256 cr p). b < 256))"

lemma sha256_valid: "sha256_sized cr \<Longrightarrow> validSHA256 (hex_encode (sum256 cr p))"
  by (simp add: sha256_sized_def validSHA256_hex)

lemma keep_error_bound: "length r \<le> 200 \<Longrightarrow> length (keep_error cr line r) \<le> 200"
  by (simp add: keep_error_def Let_def)

lemma keep_errors_bound: "length r \<le> 200 \<Longrightarrow> length (fold (keep_error cr) lines r) \<le> 200"
  by (induction lines arbitrary: r) (simp_all add: keep_error_bound)

lemma readRecentErrors_shape:
  assumes "readRecentErrors ow dataRoot = (errors, cursor, av, reason)" "sha256_sized (ow_crypto ow)"
  shows "length errors \<le> 200 \<and>
    (av = Available \<and> reason = '''' \<and> validSHA256 cursor \<or> av = Unavailable \<and> reason = ''PAPER_LOG_UNAVAILABLE'')"
  using assms keep_errors_bound [of "[]" "ow_crypto ow"]
  by (auto simp: readRecentErrors_def log_unavailable_def Let_def sha256_valid split: sum.splits if_splits)

definition artifact_ok :: "PluginArtifact \<Rightarrow> bool" where
  "artifact_ok p \<longleftrightarrow> validSHA256 (pa_SHA256 p) \<and> 1 \<le> pa_Size p \<and> pa_Size p \<le> 100 * 2 ^ 20"

lemma hashBoundedPlugin_Inr:
  assumes "hashBoundedPlugin fa cr file = Inr (digest, n)" "sha256_sized cr"
  shows "validSHA256 digest \<and> 1 \<le> n \<and> n \<le> 100 * 2 ^ 20"
  using assms sha256_valid by (auto simp: hashBoundedPlugin_def split: sum.splits)

lemma hash_slots_Inr:
  "hash_slots ow dir slots mounts ids = Inr ps \<Longrightarrow> sha256_sized (ow_crypto ow) \<Longrightarrow>
   map pa_PluginID ps = ids \<and> list_all artifact_ok ps"
proof (induction ids arbitrary: ps)
  case (Cons i ids)
  then obtain f digest n rest where r: "hashBoundedPlugin (ow_access ow) (ow_crypto ow) f = Inr (digest, n)"
      "hash_slots ow dir slots mounts ids = Inr rest"
      "ps = \<lparr>pa_PluginID = i, pa_SHA256 = digest, pa_Size = n\<rparr> # rest"
    by auto
  then show ?case using Cons.IH [OF r(2) Cons.prems(2)] hashBoundedPlugin_Inr [OF r(1) Cons.prems(2)]
    by (simp add: artifact_ok_def)
qed simp

lemma observePluginArtifacts_Inr:
  assumes "observePluginArtifacts ow dataRoot slots mounts = Inr ps" "sha256_sized (ow_crypto ow)"
  shows "mset (map pa_PluginID ps) = mset (map fst slots) \<and> list_all artifact_ok ps"
  using assms hash_slots_Inr by (fastforce simp: observePluginArtifacts_def Let_def split: sum.splits if_splits)

lemma validate_artifacts_ok:
  "list_all (\<lambda>p. artifact_ok p \<and> pa_PluginID p \<noteq> '''' \<and> length (pa_PluginID p) \<le> 128) ps \<Longrightarrow>
   distinct (map pa_PluginID ps) \<Longrightarrow> set seen \<inter> pa_PluginID ` set ps = {} \<Longrightarrow> validate_artifacts seen ps = Inr ()"
  by (induction seen ps rule: validate_artifacts.induct) (auto simp: artifact_ok_def)

lemma EvaluateState_reason: "dn_ReasonCode (EvaluateState fa js c now) \<noteq> ''''"
  unfolding EvaluateState_def by (cases "readState fa js (ac_StatePath c)") (simp_all split: Mode.split)

lemma EvaluateAccess_reason: "dn_ReasonCode (EvaluateAccess fa js jr c now) \<noteq> ''''"
  using EvaluateState_reason [of fa js c now]
  by (cases "readRuntimeSnapshot fa jr (ac_RuntimeSnapshotPath c)") (simp_all add: EvaluateAccess_def Let_def)


lemma observe_available_Inr:
  assumes "observe_available ow obs stopped = Inr s"
  obtains di where
    "check_container (ob_config obs) stopped di = Inr ()"
    "check_pins (ob_config obs) di (hs_DataRootIdentity s) (hs_BootstrapFingerprint s) (hs_CompetingStartupWriters s) = Inr ()"
    "observePluginArtifacts ow (oc_DataRootPath (ob_config obs)) (oc_ManagedPluginSlots (ob_config obs)) (di_Mounts di) =
       Inr (hs_PluginArtifacts s)"
    "observe_barrier ow obs di = Inr (hs_AdmissionBarrierAvailability s, hs_AdmissionBarrierReasonCode s, hs_AdmissionOpen s,
       hs_AdmissionGateContainerID s, hs_AdmissionPublishedBindings s)"
    "readRecentErrors ow (oc_DataRootPath (ob_config obs)) =
       (hs_RecentErrors s, hs_ErrorCursor s, hs_RecentErrorsAvailability s, hs_RecentErrorsReasonCode s)"
    "hs_SchemaVersion s = ''gar.host-observation.v1''" "hs_Availability s = Available" "hs_ObservedAt s = ow_now ow"
    "hs_EnrollmentID s = oc_EnrollmentID (ob_config obs)"
    "hs_DeploymentGeneration s = oc_DeploymentGeneration (ob_config obs)"
    "hs_ContainerID s = di_ID di" "hs_ImageID s = di_Image di" "hs_ContainerStatus s = di_Status di"
    "hs_Running s = di_Running di" "hs_HealthStatus s = health_text (di_Health di)" "hs_RestartPolicy s = di_RestartPolicy di"
proof -
  obtain es cursor av why where "readRecentErrors ow (oc_DataRootPath (ob_config obs)) = (es, cursor, av, why)"
    by (rule prod_cases4)
  with assms that show thesis unfolding observe_available_def Let_def by clarsimp
qed

text \<open>The reason codes of a call that can fail are among those the reader knows.\<close>

definition known_failure :: "'a observed \<Rightarrow> bool" where
  "known_failure m \<longleftrightarrow> (\<forall>why e. m = Inl (why, e) \<longrightarrow> knownUnavailableReason why)"

lemma known_failure_intros:
  "knownUnavailableReason reason \<Longrightarrow> known_failure (because reason r)"
  "knownUnavailableReason reason \<Longrightarrow> known_failure (require ok reason message)"
  "known_failure m \<Longrightarrow> (\<And>x. known_failure (f x)) \<Longrightarrow> known_failure (and_then m f)"
  "known_failure (Inr y)"
  unfolding known_failure_def and_then_Inl_iff by (simp_all, blast)

lemma reasons_known:
  "list_all knownUnavailableReason [''DOCKER_INSPECT_UNAVAILABLE'', ''CONTAINER_ID_MISMATCH'', ''CONTAINER_NOT_RUNNING'',
     ''CONTAINER_UNHEALTHY'', ''RESTART_POLICY_MISMATCH'', ''DATA_ROOT_UNAVAILABLE'', ''BOOTSTRAP_FINGERPRINT_UNAVAILABLE'',
     ''COMPETING_STARTUP_WRITERS'', ''IMAGE_ID_MISMATCH'', ''DATA_ROOT_IDENTITY_MISMATCH'', ''BOOTSTRAP_FINGERPRINT_MISMATCH'',
     ''DATA_MOUNT_MISMATCH'', ''PLUGIN_ATTRIBUTION_UNAVAILABLE'', ''INVENTORY_DIGEST_UNAVAILABLE'', ''DISK_OBSERVATION_UNAVAILABLE'',
     ''ADMISSION_BARRIER_UNAVAILABLE'']"
  by code_simp

lemma observe_available_reason:
  assumes "oc_AdmissionBarrier (ob_config obs) \<noteq> None \<Longrightarrow> ob_admission obs \<noteq> None"
  shows "known_failure (observe_available ow obs False)"
proof -
  note known = reasons_known [unfolded list.pred_inject(2)]
  have container: "known_failure (check_container c False di)" for c di
    unfolding check_container_def if_False using known by (intro known_failure_intros) simp_all
  have pins: "known_failure (check_pins c di i f w)" for c di i f w
    unfolding check_pins_def using known by (intro known_failure_intros) simp_all
  have barrier: "known_failure (observe_barrier ow obs di)" for di
    unfolding observe_barrier_def Let_def using known assms
    by (cases "oc_AdmissionBarrier (ob_config obs)"; cases "ob_admission obs") (auto intro!: known_failure_intros)
  show ?thesis
    unfolding observe_available_def Let_def split_def using known
    by (intro known_failure_intros container pins barrier) simp_all
qed

text \<open>An enrollment pinned by a configuration: the identities that the two sides were given agree.\<close>

definition pinned_by :: "Enrollment \<Rightarrow> ObserverConfig \<Rightarrow> bool" where
  "pinned_by en c \<longleftrightarrow> en_EnrollmentID en = oc_EnrollmentID c \<and> en_DeploymentGeneration en = oc_DeploymentGeneration c \<and>
     en_ContainerID en = oc_ContainerID c \<and> en_ImageDigest en = oc_ExpectedImageID c \<and>
     en_DataRootIdentity en = oc_ExpectedDataRootIdentity c \<and> en_BootstrapFingerprint en = oc_ExpectedBootstrapFingerprint c"

lemma newObserver_Inr:
  assumes "newObserver fa jr True c = Inr obs"
  shows "ob_config obs = c" "validate_observer True c = Inr ()" "oc_AdmissionBarrier c \<noteq> None \<Longrightarrow> ob_admission obs \<noteq> None"
    "oc_ExpectedImageID c \<noteq> ''''" "oc_ExpectedDataRootIdentity c \<noteq> ''''" "oc_ExpectedBootstrapFingerprint c \<noteq> ''''"
    "list_all (\<lambda>(i, f). i \<noteq> '''' \<and> length i \<le> 128) (oc_ManagedPluginSlots c)"
    "oc_AdmissionBarrier c = Some b \<Longrightarrow> validate_barrier_config (oc_ContainerID c) b = Inr ()"
proof -
  show v: "validate_observer True c = Inr ()" and cfg: "ob_config obs = c" "oc_AdmissionBarrier c \<noteq> None \<Longrightarrow> ob_admission obs \<noteq> None"
    using assms by (auto simp: newObserver_def split: option.splits)
  have pins: "validate_pins True c = Inr ()" using v by (simp add: validate_observer_def)
  then show "oc_ExpectedImageID c \<noteq> ''''" "oc_ExpectedDataRootIdentity c \<noteq> ''''" "oc_ExpectedBootstrapFingerprint c \<noteq> ''''"
    by (auto simp: validate_pins_def validImageID_def HasPrefix_def dest: validSHA256_length)
  show "list_all (\<lambda>(i, f). i \<noteq> '''' \<and> length i \<le> 128) (oc_ManagedPluginSlots c)"
    using v by (auto simp: validate_observer_def list_all_iff)
  show "oc_AdmissionBarrier c = Some b \<Longrightarrow> validate_barrier_config (oc_ContainerID c) b = Inr ()"
    using v by (simp add: validate_observer_def)
qed

lemma observe_barrier_valid:
  assumes "observe_barrier ow obs di = Inr (hs_AdmissionBarrierAvailability s, hs_AdmissionBarrierReasonCode s, hs_AdmissionOpen s,
       hs_AdmissionGateContainerID s, hs_AdmissionPublishedBindings s)"
    and "\<And>b. oc_AdmissionBarrier (ob_config obs) = Some b \<Longrightarrow> validate_barrier_config (oc_ContainerID (ob_config obs)) b = Inr ()"
  shows "validate_barrier s = Inr ()"
proof (cases "oc_AdmissionBarrier (ob_config obs)")
  case None
  then show ?thesis using assms(1) by (auto simp: observe_barrier_def validate_barrier_def)
next
  case (Some b)
  then obtain gate ac where g: "validateAdmissionBarrier (ow_access ow) (ow_crypto ow) di gate b ac = Inr ()"
      "hs_AdmissionBarrierAvailability s = Available" "hs_AdmissionGateContainerID s = di_ID gate"
      "hs_AdmissionPublishedBindings s = bc_PublishedBindings b"
      "hs_AdmissionBarrierReasonCode s = dn_ReasonCode (EvaluateAccess (ow_access ow) (ow_state_reader ow) (ow_runtime_reader ow) ac (ow_now ow))"
    using assms(1) by (auto simp: observe_barrier_def Let_def split: option.splits)
  have "di_ID gate = bc_GateContainerID b" using g(1) by (auto simp: validateAdmissionBarrier_def)
  then have "length (di_ID gate) = 64" "bc_PublishedBindings b \<noteq> []"
    using assms(2) [OF Some] by (auto simp: validate_barrier_config_def)
  with g EvaluateAccess_reason show ?thesis by (simp add: validate_barrier_def)
qed

lemma validate_errors_shape:
  "hs_RecentErrorsAvailability s = Available \<and> hs_RecentErrorsReasonCode s = '''' \<and> validSHA256 (hs_ErrorCursor s) \<or>
   hs_RecentErrorsAvailability s = Unavailable \<and> hs_RecentErrorsReasonCode s = ''PAPER_LOG_UNAVAILABLE'' \<Longrightarrow>
   validate_errors s = Inr ()"
  by (auto simp: validate_errors_def)

lemma observed_artifacts_valid:
  assumes "observePluginArtifacts ow dataRoot slots mounts = Inr ps" "sha256_sized (ow_crypto ow)"
    "list_all (\<lambda>(i, f). i \<noteq> '''' \<and> length i \<le> 128) slots" "distinct (map fst slots)"
  shows "validate_artifacts [] ps = Inr ()" "length ps = length slots"
proof -
  note p = observePluginArtifacts_Inr [OF assms(1,2)]
  have ids: "set (map pa_PluginID ps) = set (map fst slots)" "length (map pa_PluginID ps) = length (map fst slots)"
    using p by (metis mset_eq_setD, metis mset_eq_length)
  then show "length ps = length slots" by simp
  have "distinct (map pa_PluginID ps)" using p assms(4) by (metis mset_eq_imp_distinct_iff)
  moreover have "pa_PluginID x \<noteq> '''' \<and> length (pa_PluginID x) \<le> 128" if "x \<in> set ps" for x
  proof -
    have "pa_PluginID x \<in> fst ` set slots" using ids(1) that by (metis image_eqI list.set_map)
    then show ?thesis using assms(3) by (auto simp: list_all_iff)
  qed
  ultimately show "validate_artifacts [] ps = Inr ()" using p by (intro validate_artifacts_ok) (auto simp: list_all_iff)
qed



section \<open>A concrete observation\<close>

definition sized_crypto :: crypto where
  "sized_crypto = sample_crypto\<lparr>sum256 := (\<lambda>p. replicate 32 (length p mod 256))\<rparr>"

definition sample_observer :: ObserverConfig where
  "sample_observer =
     \<lparr>oc_SchemaVersion = ''gar.host-observer-config.v1'', oc_EnrollmentID = ''enr'', oc_DeploymentGeneration = 1,
      oc_ContainerID = sample_ids 1, oc_ExpectedImageID = ''sha256:'' @ sample_ids 3, oc_DataRootPath = ''/srv/data'',
      oc_ExpectedDataRootIdentity = ''dev:1/inode:2'', oc_ExpectedBootstrapFingerprint = sample_ids 1,
      oc_ManagedPluginSlots = [], oc_DockerSocketPath = ''/run/docker.sock'', oc_SnapshotPath = ''/srv/out/host.json'',
      oc_IntervalSeconds = 2, oc_AdmissionBarrier = None\<rparr>"

definition sample_files :: file_access where
  "sample_files = sample_access
     \<lparr>fa_Lstat := (\<lambda>p. Inr \<lparr>st_mode = (if p = ''/run/docker.sock'' then ModeSocket else ModeDir),
        st_uid = 7, st_size = 0, st_dev = 1, st_ino = 2\<rparr>),
      fa_Stat := (\<lambda>_. Inr \<lparr>st_mode = ModeDir, st_uid = 7, st_size = 0, st_dev = 1, st_ino = 2\<rparr>)\<rparr>"

definition sample_world :: observer_world where
  "sample_world =
     \<lparr>ow_access = sample_files, ow_OpenDirectory = (\<lambda>_. Inr ()), ow_OpenDirectoryAt = (\<lambda>_ name. Inl (ErrNotExist name)),
      ow_Readdirnames = (\<lambda>_. Inr []), ow_Seek = (\<lambda>_. Inr ()), ow_Statfs = (\<lambda>_. Inr (10, 4096)),
      ow_Get = (\<lambda>_. Inr (200, Inr (sample_inspection (sample_ids 1)))), ow_state_reader = sample_reader sample_lease,
      ow_runtime_reader = sample_reader sample_runtime, ow_ToUpper = (\<lambda>s. s), ow_crypto = sized_crypto, ow_now = 100 * second\<rparr>"

definition sample_pinned :: Enrollment where
  "sample_pinned = sample_enrollment\<lparr>en_ContainerID := sample_ids 1, en_ImageDigest := ''sha256:'' @ sample_ids 3,
     en_BootstrapFingerprint := sample_ids 1\<rparr>"

lemma sample_modes:
  "ModeDir AND ModeSymlink = 0" "ModeSocket AND ModeSymlink = 0" "ModeSocket \<noteq> 0" "IsDir ModeDir"
  by code_simp+

lemma sample_paths:
  "clean_absolute ''/srv/data''" "clean_absolute ''/run/docker.sock''" "clean_absolute ''/srv/out/host.json''"
  "\<not> path_within ''/srv/out/host.json'' ''/srv/data''" "Dir ''/srv/out/host.json'' = ''/srv/out''" "Clean ''/srv/data'' = ''/srv/data''"
  by code_simp+

lemma sample_observer_valid: "validate_observer True sample_observer = Inr ()"
  by (simp add: validate_observer_def validate_pins_def sample_observer_def sample_ids_valid sample_paths
      validImageID_def HasPrefix_def TrimPrefix_def)

lemma sample_observer_new:
  "newObserver sample_files jr True sample_observer = Inr \<lparr>ob_config = sample_observer, ob_admission = None\<rparr>"
  using sample_observer_valid
  by (simp add: newObserver_def)
     (simp add: sample_observer_def validateDockerSocket_def validateOutputDirectory_def sample_files_def sample_access_def
        sample_modes sample_paths)

lemma sample_writers: "competingWriters (\<lambda>s. s) [''SKIP_DOWNLOAD_DEFAULTS=TRUE''] = []"
  by code_simp

lemma sample_fingerprint: "Digest sized_crypto (bootstrap_payload (sample_inspection i)) = Inr (sample_ids 1)"
  by (simp add: Digest_def CanonicalJSON_def bootstrap_payload_def copied_def sample_inspection_def reflect_strings_def
      reflect_mount_def sized_crypto_def sample_crypto_def sample_ids_def)

lemma sample_bootstrap: "bootstrapFingerprint sized_crypto (\<lambda>s. s) (sample_inspection i) = Inr (sample_ids 1, [])"
proof -
  have "di_Env (sample_inspection i) = [''SKIP_DOWNLOAD_DEFAULTS=TRUE'']" by (simp add: sample_inspection_def)
  then show ?thesis by (simp add: bootstrapFingerprint_def sample_fingerprint sample_writers)
qed

lemma sample_inventory: "Digest sized_crypto (GSlice []) = Inr (sample_ids 1)"
  by (simp add: Digest_def CanonicalJSON_def sized_crypto_def sample_crypto_def sample_ids_def)

lemma sample_world_simps:
  "ow_access sample_world = sample_files" "ow_crypto sample_world = sized_crypto" "ow_ToUpper sample_world = (\<lambda>s. s)"
  "ow_now sample_world = 100 * second" "ow_OpenDirectoryAt sample_world = (\<lambda>_ name. Inl (ErrNotExist name))"
  "ow_Statfs sample_world = (\<lambda>_. Inr (10, 4096))"
  "inspectContainerID sample_world i = Inr (sample_inspection (sample_ids 1))"
  "openDirectoryNoFollow sample_world p = Inr ()"
  by (simp_all add: sample_world_def inspectContainerID_def openDirectoryNoFollow_def sample_files_def sample_access_def check_def)

lemma sample_data_root: "dataRootIdentity sample_files ''/srv/data'' = Inr ''dev:1/inode:2''"
proof -
  have "decimal 1 = ''1''" "decimal 2 = ''2''" by code_simp+
  then show ?thesis by (simp add: dataRootIdentity_def sample_files_def sample_modes)
qed

lemma sample_log: "readRecentErrors sample_world p = log_unavailable"
  by (simp add: readRecentErrors_def sample_world_simps)


end
