(* ===== verification/Host_Lifecycle.thy ===== *)
theory Host_Lifecycle
  imports Host_Observer
begin

text \<open>
  The lifecycle half of the host adapter, \<open>src/internal/adapters/host/lifecycle.go\<close>: what Docker reports of the one
  enrolled container, the request to stop it, and the evidence of a graceful stop in its logs.

  \<open>time.Parse\<close> with the layout RFC3339Nano is the argument \<open>parse\<close>. A response to the stop request is its status
  code, a response to the log request the status code with the result of reading the bounded body. Lengths fit an
  \<open>int\<close> of 64 bits, so the frame size read from four bytes is never negative.
\<close>

section \<open>Lifecycle\<close>

record LifecycleEvidence =
  le_ContainerID :: string
  le_Status :: string
  le_Running :: bool
  le_OOMKilled :: bool
  le_ExitCode :: int
  le_StartedAt :: gotime
  le_FinishedAt :: gotime
  le_ObservedAt :: gotime

definition parseDockerTime :: "(string \<Rightarrow> gotime result) \<Rightarrow> string \<Rightarrow> gotime result" where
  "parseDockerTime parse v = (if v = '''' \<or> HasPrefix v ''0001-01-01'' then Inr 0 else parse v)"

definition ObserveLifecycle :: "(string \<Rightarrow> gotime result) \<Rightarrow> observer_world \<Rightarrow> Observer \<Rightarrow> LifecycleEvidence result" where
  "ObserveLifecycle parse ow obs =
     and_then (inspectContainerID ow (oc_ContainerID (ob_config obs))) (\<lambda>di.
     and_then (check (di_ID di = oc_ContainerID (ob_config obs)) (OtherError ''container ID mismatch'')) (\<lambda>_.
     and_then (wrap ''invalid container start time: '' (parseDockerTime parse (di_StartedAt di))) (\<lambda>started.
     and_then (wrap ''invalid container finish time: '' (parseDockerTime parse (di_FinishedAt di))) (\<lambda>finished.
     Inr \<lparr>le_ContainerID = di_ID di, le_Status = di_Status di, le_Running = di_Running di, le_OOMKilled = di_OOMKilled di,
          le_ExitCode = di_ExitCode di, le_StartedAt = started, le_FinishedAt = finished, le_ObservedAt = ow_now ow\<rparr>))))"

text \<open>\<open>Duration.Round\<close> to a second: half a second goes away from zero; the result saturates.\<close>

definition round_second :: "duration \<Rightarrow> duration" where
  "round_second d =
     (let r = \<bar>d\<bar> mod second;
          up = (if 2 * r < second then \<bar>d\<bar> - r else \<bar>d\<bar> + second - r)
      in if 0 \<le> d then min max_duration up else max min_duration (- up))"

definition stop_seconds :: "duration \<Rightarrow> int" where
  "stop_seconds timeout = (if 0 \<le> timeout then round_second timeout div second else - ((- round_second timeout) div second))"

definition StopContainer :: "(string \<Rightarrow> 'w \<Rightarrow> int result \<times> 'w) \<Rightarrow> Observer \<Rightarrow> duration \<Rightarrow> 'w \<Rightarrow> unit result \<times> 'w" where
  "StopContainer post obs timeout w =
     (let seconds = stop_seconds timeout in
      if seconds < 1 \<or> 120 < seconds then (Inl (OtherError ''stop timeout must be from 1 through 120 seconds''), w)
      else case post (''http://docker/containers/'' @ oc_ContainerID (ob_config obs) @ ''/stop?t='' @ format_int seconds) w of
          (Inl err, w) \<Rightarrow> (Inl err, w)
        | (Inr status, w) \<Rightarrow>
            (check (status = 204) (OtherError (''Docker stop returned status '' @ format_int status)), w))"

section \<open>Log frames\<close>

definition frame_size :: "nat list \<Rightarrow> nat" where
  "frame_size p = ((p ! 4 * 256 + p ! 5) * 256 + p ! 6) * 256 + p ! 7"

function docker_frames :: "nat list \<Rightarrow> nat list result" where
  "docker_frames p =
     (if p = [] then Inr []
      else if length p < 8 \<or> p ! 1 \<noteq> 0 \<or> p ! 2 \<noteq> 0 \<or> p ! 3 \<noteq> 0
      then Inl (OtherError ''invalid Docker log stream framing'')
      else if length p - 8 < frame_size p then Inl (OtherError ''invalid Docker log frame size'')
      else and_then (docker_frames (drop (8 + frame_size p) p)) (\<lambda>rest. Inr (take (frame_size p) (drop 8 p) @ rest)))"
  by auto

termination
  by (relation "measure length") auto

declare docker_frames.simps [simp del]

definition dockerLogText :: "nat list \<Rightarrow> nat list result" where
  "dockerLogText payload =
     (if payload = [] \<or> (payload ! 0 \<noteq> 1 \<and> payload ! 0 \<noteq> 2) then Inr payload else docker_frames payload)"

section \<open>Shutdown markers\<close>

text \<open>
  \<open>bufio.Scanner\<close> with a buffer of at most 1 MiB: the lines without their line ends, an error when a line does not
  fit the buffer. Text after the last line end is a line unless it is empty.
\<close>

definition drop_cr :: "string \<Rightarrow> string" where
  "drop_cr line = (if line \<noteq> '''' \<and> last line = CHR 0x0D then butlast line else line)"

definition scan_lines :: "string \<Rightarrow> string list result" where
  "scan_lines t =
     (let parts = split_on (CHR 0x0A) t in
      if list_ex (\<lambda>l. MiB \<le> length l) parts then Inl (OtherError ''bufio.Scanner: token too long'')
      else Inr (map drop_cr (if last parts = '''' then butlast parts else parts)))"

definition markers :: "(string \<times> string) list" where
  "markers = [(''paper-stop'', ''Stopping server''), (''worlds-saved'', ''All dimensions are saved''),
     (''runner-done'', ''mc-server-runner'' @ [CHR 0x09] @ ''Done'')]"

text \<open>The text of a line that carries a time not before \<open>since\<close>.\<close>

definition dated_text :: "(string \<Rightarrow> gotime result) \<Rightarrow> gotime \<Rightarrow> string \<Rightarrow> string option" where
  "dated_text parse since line =
     (case IndexByte line CHR '' '' of
        None \<Rightarrow> None
      | Some separator \<Rightarrow>
          if separator < 1 then None
          else case parse (take separator line) of
              Inl _ \<Rightarrow> None
            | Inr observedAt \<Rightarrow> if Before observedAt since then None else Some (drop (separator + 1) line))"

definition line_markers :: "(string \<Rightarrow> gotime result) \<Rightarrow> gotime \<Rightarrow> string \<Rightarrow> string list" where
  "line_markers parse since line =
     (case dated_text parse since line of
        None \<Rightarrow> []
      | Some t \<Rightarrow> map fst (filter (\<lambda>(name, match). Contains t match) markers))"

fun collect_references :: "string list \<Rightarrow> (string \<times> string) list \<Rightarrow> string list result" where
  "collect_references found [] = Inr []"
| "collect_references found ((name, match) # ms) =
     (if name \<notin> set found then Inl (OtherError (''shutdown log marker '' @ [CHR 0x22] @ name @ [CHR 0x22] @ '' unavailable''))
      else and_then (collect_references found ms) (\<lambda>rs. Inr ((''docker-log:'' @ name) # rs)))"

definition gracefulStopReferences :: "(string \<Rightarrow> gotime result) \<Rightarrow> nat list \<Rightarrow> gotime \<Rightarrow> string list result" where
  "gracefulStopReferences parse payload since =
     and_then (dockerLogText payload) (\<lambda>bytes.
     and_then (wrap ''scan bounded shutdown logs: '' (scan_lines (map char_of bytes))) (\<lambda>lines.
     collect_references (concat (map (line_markers parse since) lines)) markers))"

definition log_url :: "Observer \<Rightarrow> gotime \<Rightarrow> string" where
  "log_url obs since = ''http://docker/containers/'' @ oc_ContainerID (ob_config obs) @ ''/logs?since='' @
     format_int ((since - unix_epoch) div second) @ ''&stderr=1&stdout=1&tail=1000&timestamps=1''"

definition GracefulStopLogEvidence ::
  "(string \<Rightarrow> gotime result) \<Rightarrow> (string \<Rightarrow> 'w \<Rightarrow> (int \<times> nat list result) result \<times> 'w) \<Rightarrow> Observer \<Rightarrow> gotime \<Rightarrow> 'w \<Rightarrow>
   string list result \<times> 'w"
where
  "GracefulStopLogEvidence parse get_logs obs since w =
     (case get_logs (log_url obs since) w of
        (Inl err, w) \<Rightarrow> (Inl err, w)
      | (Inr (status, reply), w) \<Rightarrow>
          (and_then (check (status = 200) (OtherError (''Docker logs returned status '' @ format_int status))) (\<lambda>_.
           case reply of
             Inl _ \<Rightarrow> Inl (OtherError ''bounded shutdown logs unavailable'')
           | Inr content \<Rightarrow>
               and_then (check (length (take (MiB + 1) content) \<le> MiB) (OtherError ''bounded shutdown logs unavailable'')) (\<lambda>_.
               gracefulStopReferences parse (take (MiB + 1) content) since)), w))"

section \<open>Managed plugins\<close>

fun mounted_plugin :: "file_access \<Rightarrow> string \<Rightarrow> dockerMount list \<Rightarrow> string option result" where
  "mounted_plugin fa fileName [] = Inr None"
| "mounted_plugin fa fileName (m # ms) =
     (if dm_Destination m \<noteq> ''/data/plugins/'' @ fileName then mounted_plugin fa fileName ms
      else and_then (check (\<not> (dm_Type m \<noteq> ''bind'' \<or> dm_RW m))
             (OtherError ''managed plugin mount is not a read-only bind'')) (\<lambda>_.
           and_then (check (fa_EvalSymlinks fa (dm_Source m) = Inr (dm_Source m))
             (OtherError ''managed plugin source is unavailable or traverses a symlink'')) (\<lambda>_.
           Inr (Some (dm_Source m)))))"

text \<open>A slot's file name is a base name, so that joining it to a directory needs no cleaning.\<close>

definition ManagedPluginSource :: "observer_world \<Rightarrow> Observer \<Rightarrow> string \<Rightarrow> (string \<times> string) result" where
  "ManagedPluginSource ow obs pluginID =
     (case map_of (oc_ManagedPluginSlots (ob_config obs)) pluginID of
        None \<Rightarrow> Inl (OtherError ''plugin is not in the enrolled managed slots'')
      | Some fileName \<Rightarrow>
          and_then (inspectContainerID ow (oc_ContainerID (ob_config obs))) (\<lambda>di.
          and_then (check (di_ID di = oc_ContainerID (ob_config obs)) (OtherError ''container ID mismatch'')) (\<lambda>_.
          let logicalPath = Clean (''plugins/'' @ fileName) in
          and_then (mounted_plugin (ow_access ow) fileName (di_Mounts di)) (\<lambda>source.
          Inr (logicalPath, case source of
              Some path \<Rightarrow> path
            | None \<Rightarrow> Clean (oc_DataRootPath (ob_config obs) @ ''/'' @ logicalPath))))))"


section \<open>Frames and their text\<close>

text \<open>What Docker's \<open>stdcopy\<close> writes: a stream number, three zero bytes, the size in four bytes, the text.\<close>

definition frame :: "nat \<times> nat list \<Rightarrow> nat list" where
  "frame f = [fst f, 0, 0, 0, length (snd f) div 2 ^ 24, length (snd f) div 2 ^ 16 mod 256, length (snd f) div 2 ^ 8 mod 256,
     length (snd f) mod 256] @ snd f"

definition framed :: "(nat \<times> nat list) list \<Rightarrow> nat list" where
  "framed fs = concat (map frame fs)"

definition frames_ok :: "(nat \<times> nat list) list \<Rightarrow> bool" where
  "frames_ok fs \<longleftrightarrow> (\<forall>f \<in> set fs. length (snd f) < 2 ^ 32)"

lemma size_bytes:
  fixes n :: nat
  shows "((n div 2 ^ 24 * 256 + n div 2 ^ 16 mod 256) * 256 + n div 2 ^ 8 mod 256) * 256 + n mod 256 = n"
proof -
  have "n div 2 ^ 24 * 256 + n div 2 ^ 16 mod 256 = n div 2 ^ 16"
    using div_mult_mod_eq [of "n div 2 ^ 16" 256] by (simp add: div_mult2_eq [symmetric])
  moreover have "n div 2 ^ 16 * 256 + n div 2 ^ 8 mod 256 = n div 2 ^ 8"
    using div_mult_mod_eq [of "n div 2 ^ 8" 256] by (simp add: div_mult2_eq [symmetric])
  ultimately show ?thesis using div_mult_mod_eq [of n 256] by simp
qed

lemma frame_size_frame: "frame_size (frame f @ rest) = length (snd f)"
  using size_bytes [of "length (snd f)"] by (simp add: frame_size_def frame_def nth_append)

lemma framed_Cons: "framed (f # fs) = frame f @ framed fs" "length (frame f) = 8 + length (snd f)"
  by (simp_all add: framed_def frame_def)

lemma docker_frames_framed: "docker_frames (framed fs) = Inr (concat (map snd fs))"
proof (induction fs)
  case (Cons f fs)
  define p where "p = frame f @ framed fs"
  have "drop (8 + length (snd f)) p = framed fs" using framed_Cons(2) [of f] by (simp add: p_def)
  moreover have "p \<noteq> []" "take (length (snd f)) (drop 8 p) = snd f" "\<not> length p - 8 < length (snd f)"
    "\<not> (length p < 8 \<or> p ! 1 \<noteq> 0 \<or> p ! 2 \<noteq> 0 \<or> p ! 3 \<noteq> 0)"
    using framed_Cons(2) [of f] by (simp_all add: p_def frame_def)
  moreover have "frame_size p = length (snd f)" by (simp add: p_def frame_size_frame)
  ultimately show ?case using Cons
    unfolding framed_Cons(1) p_def [symmetric] by (subst docker_frames.simps) simp
qed (simp add: framed_def docker_frames.simps)

lemma bytes_of_size:
  fixes a b c d :: nat
  assumes "b < 256" "c < 256" "d < 256" and n: "n = ((a * 256 + b) * 256 + c) * 256 + d"
  shows "n div 2 ^ 24 = a" "n div 2 ^ 16 mod 256 = b" "n div 2 ^ 8 mod 256 = c" "n mod 256 = d"
proof -
  have 1: "n div 2 ^ 8 = (a * 256 + b) * 256 + c" using assms by simp
  then have 2: "n div 2 ^ 16 = a * 256 + b" using assms(1,2) div_mult2_eq [of n "2 ^ 8" "2 ^ 8"] by simp
  then have 3: "n div 2 ^ 24 = a" using assms(1) div_mult2_eq [of n "2 ^ 16" "2 ^ 8"] by simp
  have m: "(x * 256 + y) mod 256 = y" if "y < 256" for x y :: nat using that by simp
  show "n div 2 ^ 24 = a" by (rule 3)
  show "n div 2 ^ 16 mod 256 = b" unfolding 2 by (rule m [OF assms(1)])
  show "n div 2 ^ 8 mod 256 = c" unfolding 1 by (rule m [OF assms(2)])
  show "n mod 256 = d" unfolding n by (rule m [OF assms(3)])
qed

lemma docker_frames_Inr:
  assumes "docker_frames p = Inr t" "\<forall>b \<in> set p. b < 256"
  shows "\<exists>fs. p = framed fs \<and> t = concat (map snd fs) \<and> frames_ok fs"
  using assms
proof (induction p arbitrary: t rule: docker_frames.induct)
  case (1 p)
  show ?case
  proof (cases "p = []")
    case True
    then show ?thesis using 1 by (intro exI [of _ "[]"]) (simp add: docker_frames.simps framed_def frames_ok_def)
  next
    case False
    then obtain rest where g: "8 \<le> length p" "p ! 1 = 0" "p ! 2 = 0" "p ! 3 = 0" "frame_size p \<le> length p - 8"
        "docker_frames (drop (8 + frame_size p) p) = Inr rest" "t = take (frame_size p) (drop 8 p) @ rest"
      using 1(2) by (subst (asm) docker_frames.simps) (auto simp: not_less split: if_splits)
    define body_bytes where "body_bytes = take (frame_size p) (drop 8 p)"
    have len: "length body_bytes = frame_size p" using g(5) by (simp add: body_bytes_def)
    have byte: "p ! i < 256" if "i < 8" for i using 1(3) g(1) that by (meson less_le_trans nth_mem)
    have "p = take 8 p @ body_bytes @ drop (8 + frame_size p) p"
      using append_take_drop_id [of 8 p] append_take_drop_id [of "frame_size p" "drop 8 p"]
      by (simp add: body_bytes_def add.commute)
    moreover have "take 8 p = [p ! 0, 0, 0, 0, p ! 4, p ! 5, p ! 6, p ! 7]"
      using g(1-4) by (simp add: list_eq_iff_nth_eq less_Suc_eq numeral_eq_Suc)
    moreover note bytes_of_size [OF byte byte byte frame_size_def [of p]]
    ultimately have p: "p = frame (p ! 0, body_bytes) @ drop (8 + frame_size p) p"
      by (simp add: frame_def len)
    have "\<forall>b \<in> set (drop (8 + frame_size p) p). b < 256" using 1(3) by (meson in_set_dropD)
    then obtain fs where fs: "drop (8 + frame_size p) p = framed fs" "rest = concat (map snd fs)" "frames_ok fs"
      using 1(1) False g by (fastforce simp: not_less)
    have "frame_size p < 2 ^ 32"
      using byte [of 4] byte [of 5] byte [of 6] byte [of 7] by (simp add: frame_size_def)
    then show ?thesis using p fs g(7) len
      by (intro exI [of _ "(p ! 0, body_bytes) # fs"]) (simp add: framed_Cons(1) frames_ok_def body_bytes_def)
  qed
qed


text \<open>
  C37. Log frames are read exactly: a payload that begins with the stream number 1 or 2 is accepted if and only if
  it is a sequence of complete frames, and the text is then the frames' contents in order; no byte of it comes
  from a header, and a payload of another first byte is the text itself.
\<close>

theorem docker_log_exact:
  assumes bytes: "\<forall>b \<in> set payload. b < 256" and first: "payload \<noteq> []" "payload ! 0 = 1 \<or> payload ! 0 = 2"
  shows "dockerLogText payload = Inr t \<longleftrightarrow> (\<exists>fs. frames_ok fs \<and> payload = framed fs \<and> t = concat (map snd fs))"
  using docker_frames_Inr [OF _ bytes] docker_frames_framed first by (auto simp: dockerLogText_def)

theorem docker_log_exact_witness:
  "dockerLogText [2, 0, 0, 0, 0, 0, 0, 3, 104, 105, 10, 1, 0, 0, 0, 0, 0, 0, 1, 33] = Inr [104, 105, 10, 33]"
proof -
  have "frames_ok [(2, [104, 105, 10]), (1, [33])] \<and>
      [2, 0, 0, 0, 0, 0, 0, 3, 104, 105, 10, 1, 0, 0, 0, 0, 0, 0, 1, 33] = framed [(2, [104, 105, 10]), (1, [33])] \<and>
      [104, 105, 10, 33] = concat (map snd [(2 :: nat, [104, 105, 10 :: nat]), (1, [33])])"
    by (simp add: frames_ok_def framed_def frame_def)
  then have "\<exists>fs. frames_ok fs \<and> [2, 0, 0, 0, 0, 0, 0, 3, 104, 105, 10, 1, 0, 0, 0, 0, 0, 0, 1, 33] = framed fs \<and>
      [104, 105, 10, 33] = concat (map snd fs)"
    by blast
  then show ?thesis
    by (subst docker_log_exact) simp_all
qed

lemma collect_references_Inr:
  "collect_references found ms = Inr rs \<Longrightarrow> set (map fst ms) \<subseteq> set found \<and> rs = map (\<lambda>m. ''docker-log:'' @ fst m) ms"
  by (induction found ms arbitrary: rs rule: collect_references.induct) (auto split: if_splits)

text \<open>Each marker was seen on a line of the log that is not older than the request.\<close>

lemma gracefulStopReferences_Inr:
  assumes "gracefulStopReferences parse payload since = Inr rs" "(name, match) \<in> set markers"
  shows "\<exists>bytes lines line t. dockerLogText payload = Inr bytes \<and> scan_lines (map char_of bytes) = Inr lines \<and>
    line \<in> set lines \<and> dated_text parse since line = Some t \<and> Contains t match"
proof -
  obtain bytes lines where b: "dockerLogText payload = Inr bytes" "scan_lines (map char_of bytes) = Inr lines"
      "collect_references (concat (map (line_markers parse since) lines)) markers = Inr rs"
    using assms(1) by (auto simp: gracefulStopReferences_def)
  have "name \<in> set (concat (map (line_markers parse since) lines))"
    using collect_references_Inr [OF b(3)] assms(2) by force
  then obtain line where line: "line \<in> set lines" "name \<in> set (line_markers parse since line)" by auto
  then obtain t m where l: "dated_text parse since line = Some t" "(name, m) \<in> set markers" "Contains t m"
    by (cases "dated_text parse since line") (auto simp: line_markers_def)
  have "distinct (map fst markers)" by (simp add: markers_def)
  then have "m = match" using l(2) assms(2) by (metis eq_key_imp_eq_value)
  with b l line(1) show ?thesis by blast
qed

end
