(* ===== verification/Paper_Operations.thy ===== *)
theory Paper_Operations
  imports Composite_Target Host_Lifecycle Foundation_Properties
begin

text \<open>
  The owner's operations on the Paper server, \<open>src/internal/adapters/paperops/target.go\<close>: the implementation of the
  interface \<open>FoundationTarget\<close> that the executor drives. It observes the safety of the server from the host and runtime
  evidence, closes admission by writing the admission state, asks Docker to stop the enrolled container, and
  gathers the evidence of the stop.

  \<open>ops_env\<close> is what each call asks of the outside: the host as an observation meets it, the runtime snapshot's files, the
  clock, the admission files, the write of the state, and Docker's answers to the stop and log requests. The
  only state of the target itself is the stop request that Docker acknowledged.
\<close>

section \<open>Target\<close>

record 'w ops_env =
  pe_observer :: "'w \<Rightarrow> observer_world \<times> 'w"
  pe_runtime :: "'w \<Rightarrow> PaperSnapshot observer_env \<times> 'w"
  pe_now :: "'w \<Rightarrow> gotime \<times> 'w"
  pe_admission :: "'w \<Rightarrow> file_access \<times> 'w"
  pe_state_reader :: "AdmissionState json_reader"
  pe_marshal :: "AdmissionState \<Rightarrow> nat list result"
  pe_write :: "'w \<Rightarrow> (write_env \<times> files) \<times> 'w"
  pe_written :: "files list \<Rightarrow> 'w \<Rightarrow> 'w"
  pe_post :: "string \<Rightarrow> 'w \<Rightarrow> int result \<times> 'w"
  pe_logs :: "string \<Rightarrow> 'w \<Rightarrow> (int \<times> nat list result) result \<times> 'w"
  pe_parse :: "string \<Rightarrow> gotime result"

record PaperOps =
  px_host :: Observer
  px_runtime :: PaperTarget
  px_admission :: AdmissionConfig
  px_enrollment :: Enrollment
  px_pluginID :: string
  px_artifacts :: "(string \<times> string) list"

record 'w ops_world =
  pw_outer :: 'w
  pw_acknowledged :: "StopRequest option"

fun register_plugin ::
  "string \<Rightarrow> (string \<times> string) list \<Rightarrow> (string \<times> ArtifactRecord) list \<Rightarrow> (string \<times> string) list result" where
  "register_plugin pluginID registered [] = Inr registered"
| "register_plugin pluginID registered ((ident, artifact) # rest) =
     (if ar_PluginID artifact \<noteq> pluginID then register_plugin pluginID registered rest
      else if (case map_of registered (ar_SHA256 artifact) of Some existing \<Rightarrow> existing \<noteq> ident | None \<Rightarrow> False)
      then Inl (OtherError ''artifact registry ambiguously maps the active plugin digest'')
      else register_plugin pluginID (map_put registered (ar_SHA256 artifact) ident) rest)"

definition NewPaperOps ::
  "Observer option \<Rightarrow> PaperTarget option \<Rightarrow> AdmissionConfig \<Rightarrow> Enrollment \<Rightarrow> (string \<times> ArtifactRecord) list \<Rightarrow> string \<Rightarrow> PaperOps result"
where
  "NewPaperOps host runtime admission enrollment artifacts pluginID =
     (case (host, runtime) of
        (Some h, Some r) \<Rightarrow>
          and_then (check (pluginID \<noteq> '''')
            (OtherError ''Paper operations require fixed host, runtime and plugin evidence'')) (\<lambda>_.
          and_then (register_plugin pluginID [] artifacts) (\<lambda>registered.
          and_then (check (registered \<noteq> []) (OtherError ''active plugin has no owner registry entry'')) (\<lambda>_.
          Inr \<lparr>px_host = h, px_runtime = r, px_admission = admission, px_enrollment = enrollment, px_pluginID = pluginID,
               px_artifacts = registered\<rparr>)))
      | _ \<Rightarrow> Inl (OtherError ''Paper operations require fixed host, runtime and plugin evidence''))"

section \<open>Calls\<close>

type_synonym ('w, 'a) ops = "'w ops_world \<Rightarrow> 'a result \<times> 'w ops_world"

definition ops_then :: "('w, 'a) ops \<Rightarrow> ('a \<Rightarrow> ('w, 'b) ops) \<Rightarrow> ('w, 'b) ops" where
  "ops_then m f w = (case m w of (Inl err, w) \<Rightarrow> (Inl err, w) | (Inr x, w) \<Rightarrow> f x w)"

definition ops_result :: "'a result \<Rightarrow> ('w, 'a) ops" where
  "ops_result r w = (r, w)"

definition ops_ask :: "('w \<Rightarrow> 'a \<times> 'w) \<Rightarrow> ('w, 'a) ops" where
  "ops_ask g w = (case g (pw_outer w) of (x, outer) \<Rightarrow> (Inr x, w\<lparr>pw_outer := outer\<rparr>))"

definition ops_check :: "bool \<Rightarrow> string \<Rightarrow> ('w, unit) ops" where
  "ops_check ok message = ops_result (check ok (OtherError message))"

definition ops_lifecycle :: "'w ops_env \<Rightarrow> PaperOps \<Rightarrow> ('w, LifecycleEvidence) ops" where
  "ops_lifecycle pe t =
     ops_then (ops_ask (pe_observer pe)) (\<lambda>ow. ops_result (ObserveLifecycle (pe_parse pe) ow (px_host t)))"

section \<open>Safety\<close>

fun active_artifact :: "PaperOps \<Rightarrow> PluginArtifact list \<Rightarrow> (string \<times> string) result" where
  "active_artifact t [] = Inl (OtherError ''active plugin is absent from host evidence'')"
| "active_artifact t (a # as) =
     (if pa_PluginID a \<noteq> px_pluginID t then active_artifact t as
      else case map_of (px_artifacts t) (pa_SHA256 a) of
          None \<Rightarrow> Inl (OtherError ''active plugin digest is absent from the owner registry'')
        | Some ident \<Rightarrow> Inr (ident, pa_SHA256 a))"

definition terminal_runtime :: "LifecycleEvidence \<Rightarrow> PaperSnapshot \<Rightarrow> bool" where
  "terminal_runtime le rs \<longleftrightarrow> \<not> (le_Running le \<or> le_Status le \<noteq> ''exited'' \<or> le_OOMKilled le \<or> le_ExitCode le \<noteq> 0 \<or>
     pn_Ready rs \<or> Before (pn_ObservedAt rs) (le_StartedAt le) \<or> After (pn_ObservedAt rs) (le_FinishedAt le))"

definition ops_runtime :: "'w ops_env \<Rightarrow> PaperOps \<Rightarrow> bool \<Rightarrow> ('w, PaperSnapshot \<times> string) ops" where
  "ops_runtime pe t stopped =
     ops_then (ops_ask (pe_runtime pe)) (\<lambda>oe.
     ops_then (ops_result (ReadSnapshot oe (px_runtime t))) (\<lambda>(rs, digest, quality).
     ops_then (ops_check (pn_BootID rs \<noteq> '''') ''Paper runtime boot identity unavailable'') (\<lambda>_.
     ops_then (ops_check (\<not> (\<not> stopped \<and> quality \<noteq> Available)) ''Paper runtime observation is not fresh'') (\<lambda>_.
     ops_then (if stopped
         then ops_then (ops_lifecycle pe t) (\<lambda>le.
              ops_check (terminal_runtime le rs) ''terminal Paper runtime evidence does not match the stopped container'')
         else ops_check (pn_Ready rs) ''Paper runtime is not ready'') (\<lambda>_.
     ops_result (Inr (rs, digest)))))))"

definition ops_ObserveSafety :: "'w ops_env \<Rightarrow> PaperOps \<Rightarrow> bool \<Rightarrow> ('w, SafetyObservation) ops" where
  "ops_ObserveSafety pe t stopped =
     ops_then (ops_ask (pe_observer pe)) (\<lambda>ow.
     ops_then (ops_result (case host_observe ow (px_host t) stopped of
         (hs, Some err) \<Rightarrow> Inl err | (hs, None) \<Rightarrow> Inr hs)) (\<lambda>hs.
     ops_then (ops_runtime pe t stopped) (\<lambda>(rs, runtimeDigest).
     ops_then (ops_result (active_artifact t (hs_PluginArtifacts hs))) (\<lambda>(artifactID, artifactSHA).
     ops_then (ops_ask (pe_now pe)) (\<lambda>decided.
     ops_then (ops_ask (pe_admission pe)) (\<lambda>fa.
     let decision = EvaluateState fa (pe_state_reader pe) (px_admission t) decided in
     ops_then (ops_ask (pe_now pe)) (\<lambda>observed.
     ops_result (Inr
       \<lparr>so_Available = True, so_ObservedAt = observed, so_Enrollment = px_enrollment t, so_BootID = pn_BootID rs,
        so_InventoryDigest = hs_InventoryDigest hs, so_ConfigDigest = hs_BootstrapFingerprint hs,
        so_SourceArtifactID = artifactID, so_SourceSHA256 = artifactSHA,
        so_AdmissionClosed = (\<not> dn_Open decision \<and> dn_ReasonCode decision = ''ADMISSION_CLOSED''),
        so_Maintenance = (pn_AdmissionState rs = ''MAINTENANCE''), so_Players = pn_PlayerCount rs,
        so_ProcessStopped = stopped,
        so_FilesystemRootExists = (hs_DataRootIdentity hs = en_DataRootIdentity (px_enrollment t)),
        so_NoConflictingWriter = (hs_CompetingStartupWriters hs = []),
        so_References = [''host-observation:'' @ format_time (hs_ObservedAt hs), ''paper-runtime:sha256:'' @ runtimeDigest,
          ''admission:'' @ dn_ReasonCode decision]\<rparr>))))))))"

section \<open>Closing admission and stopping\<close>

definition ops_CloseAdmission :: "'w ops_env \<Rightarrow> PaperOps \<Rightarrow> string \<Rightarrow> string \<Rightarrow> ('w, MaintenanceReceipt) ops" where
  "ops_CloseAdmission pe t operationID stepID =
     ops_then (ops_ask (pe_now pe)) (\<lambda>closedAt.
     ops_then (ops_ask (pe_write pe)) (\<lambda>(we, files).
     case WriteState (pe_marshal pe) we (px_admission t) ModeClosed
            (''GAR G-03 operation '' @ operationID @ '' step '' @ stepID) 0 closedAt files of
       (written, seen) \<Rightarrow>
         ops_then (ops_ask (\<lambda>outer. ((), pe_written pe seen outer))) (\<lambda>_.
         ops_then (ops_result written) (\<lambda>state.
         ops_result (Inr \<lparr>mr_OperationID = operationID, mr_StepID = stepID, mr_ClosedAt = as_IssuedAt state,
           mr_References = [''admission-state:CLOSED'', ''pairing:'' @ as_PairingID state]\<rparr>)))))"

definition ops_DispatchGracefulStop :: "'w ops_env \<Rightarrow> PaperOps \<Rightarrow> StopRequest \<Rightarrow> ('w, unit) ops" where
  "ops_DispatchGracefulStop pe t r =
     ops_then (ops_check (\<not> (sr_ContainerID r \<noteq> en_ContainerID (px_enrollment t) \<or> sr_OperationID r = '''' \<or>
         sr_StepID r = '''' \<or> sr_BootID r = '''')) ''stop request does not match the fixed enrollment'') (\<lambda>_.
     ops_then (\<lambda>w. case StopContainer (pe_post pe) (px_host t) (120 * second) (pw_outer w) of
         (answer, outer) \<Rightarrow> (answer, w\<lparr>pw_outer := outer\<rparr>)) (\<lambda>_.
     \<lambda>w. (Inr (), w\<lparr>pw_acknowledged := Some r\<rparr>)))"

definition no_stop_evidence :: StopEvidence where
  "no_stop_evidence =
     \<lparr>se_State = StopUnset, se_OperationID = '''', se_StepID = '''', se_ContainerID = '''', se_BootID = '''', se_RequestedAt = 0,
      se_ObservedAt = 0, se_FinishedAt = 0, se_LifecycleAvailable = False, se_Running = False, se_ExitCode = 0,
      se_OOMKilled = False, se_RuntimeTerminal = False, se_GracefulTermination = False,
      se_Attribution = AttributionUnattributed, se_References = []\<rparr>"

definition stop_evidence :: "StopRequest \<Rightarrow> LifecycleEvidence \<Rightarrow> StopEvidence" where
  "stop_evidence r le =
     \<lparr>se_State = StopUnset, se_OperationID = sr_OperationID r, se_StepID = sr_StepID r, se_ContainerID = le_ContainerID le,
      se_BootID = sr_BootID r, se_RequestedAt = sr_RequestedAt r, se_ObservedAt = le_ObservedAt le,
      se_FinishedAt = le_FinishedAt le, se_LifecycleAvailable = True, se_Running = le_Running le, se_ExitCode = le_ExitCode le,
      se_OOMKilled = le_OOMKilled le, se_RuntimeTerminal = False, se_GracefulTermination = False,
      se_Attribution = AttributionUnattributed, se_References = [''docker-lifecycle:'' @ le_Status le]\<rparr>"

definition terminal_snapshot :: "StopRequest \<Rightarrow> LifecycleEvidence \<Rightarrow> PaperSnapshot \<Rightarrow> bool" where
  "terminal_snapshot r le rs \<longleftrightarrow> \<not> pn_Ready rs \<and> pn_BootID rs = sr_BootID r \<and>
     \<not> Before (pn_ObservedAt rs) (sr_RequestedAt r) \<and> \<not> After (pn_ObservedAt rs) (le_FinishedAt le)"

definition with_runtime :: "StopRequest \<Rightarrow> LifecycleEvidence \<Rightarrow> (PaperSnapshot \<times> string \<times> Availability) result \<Rightarrow> StopEvidence \<Rightarrow> StopEvidence"
where
  "with_runtime r le reading e =
     (case reading of
        Inl _ \<Rightarrow> e
      | Inr (rs, digest, _) \<Rightarrow>
          if terminal_snapshot r le rs
          then e\<lparr>se_RuntimeTerminal := True, se_References := se_References e @ [''paper-terminal:sha256:'' @ digest]\<rparr>
          else e)"

definition with_logs :: "string list result \<Rightarrow> StopEvidence \<Rightarrow> StopEvidence" where
  "with_logs logs e =
     (case logs of
        Inl _ \<Rightarrow> e
      | Inr refs \<Rightarrow>
          if se_RuntimeTerminal e then e\<lparr>se_GracefulTermination := True, se_References := se_References e @ refs\<rparr> else e)"

text \<open>Errors of the runtime snapshot and of the logs are not returned: the evidence then lacks them.\<close>

definition stop_after_lifecycle ::
  "'w ops_env \<Rightarrow> PaperOps \<Rightarrow> StopRequest \<Rightarrow> LifecycleEvidence \<Rightarrow> ('w, StopEvidence) ops" where
  "stop_after_lifecycle pe t r le =
    (let e = stop_evidence r le in
     if le_Running le then ops_result (Inr (e\<lparr>se_State := StopStopping\<rparr>))
     else ops_then (ops_ask (pe_runtime pe)) (\<lambda>oe.
          let e = with_runtime r le (ReadSnapshot oe (px_runtime t)) e in
          ops_then (ops_ask (GracefulStopLogEvidence (pe_parse pe) (pe_logs pe) (px_host t) (sr_RequestedAt r))) (\<lambda>logs.
          let e = with_logs logs e in
          (\<lambda>w. (Inr (if pw_acknowledged w = Some r \<and> \<not> Before (le_FinishedAt le) (sr_RequestedAt r)
                     then e\<lparr>se_Attribution := AttributionCorrelated\<rparr> else e), w)))))"

definition ops_ObserveStop :: "'w ops_env \<Rightarrow> PaperOps \<Rightarrow> StopRequest \<Rightarrow> ('w, StopEvidence) ops" where
  "ops_ObserveStop pe t r = ops_then (ops_lifecycle pe t) (stop_after_lifecycle pe t r)"

definition paper_operations :: "'w ops_env \<Rightarrow> PaperOps \<Rightarrow> 'w ops_world FoundationTarget" where
  "paper_operations pe t =
     \<lparr>ft_ObserveSafety = ops_ObserveSafety pe t,
      ft_CloseAdmission = ops_CloseAdmission pe t,
      ft_DispatchGracefulStop = ops_DispatchGracefulStop pe t,
      ft_ObserveStop = (\<lambda>r w. case ops_ObserveStop pe t r w of
         (Inl err, w) \<Rightarrow> ((no_stop_evidence, Some err), w) | (Inr e, w) \<Rightarrow> ((e, None), w))\<rparr>"


section \<open>A confirmed stop\<close>

lemma ops_then_Inr:
  "ops_then m f w = (Inr y, w') \<longleftrightarrow> (\<exists>x w1. m w = (Inr x, w1) \<and> f x w1 = (Inr y, w'))"
  by (auto simp: ops_then_def split: prod.splits sum.splits)

lemma ops_ask_Inr: "ops_ask g w = (Inr x, w') \<longleftrightarrow> (\<exists>outer. g (pw_outer w) = (x, outer) \<and> w' = w\<lparr>pw_outer := outer\<rparr>)"
  by (auto simp: ops_ask_def split: prod.splits)

lemma ops_result_Inr: "ops_result r w = (Inr x, w') \<longleftrightarrow> r = Inr x \<and> w' = w"
  by (auto simp: ops_result_def)

lemmas ops_simps = ops_then_Inr ops_ask_Inr ops_result_Inr

lemma with_runtime_simps [simp]:
  "se_Running (with_runtime r le x e) = se_Running e" "se_OOMKilled (with_runtime r le x e) = se_OOMKilled e"
  "se_ExitCode (with_runtime r le x e) = se_ExitCode e" "se_FinishedAt (with_runtime r le x e) = se_FinishedAt e"
  "se_RequestedAt (with_runtime r le x e) = se_RequestedAt e" "se_Attribution (with_runtime r le x e) = se_Attribution e"
  "se_GracefulTermination (with_runtime r le x e) = se_GracefulTermination e"
  by (auto simp: with_runtime_def split: sum.splits prod.splits)

lemma with_logs_simps [simp]:
  "se_Running (with_logs x e) = se_Running e" "se_OOMKilled (with_logs x e) = se_OOMKilled e"
  "se_ExitCode (with_logs x e) = se_ExitCode e" "se_FinishedAt (with_logs x e) = se_FinishedAt e"
  "se_RequestedAt (with_logs x e) = se_RequestedAt e" "se_Attribution (with_logs x e) = se_Attribution e"
  "se_RuntimeTerminal (with_logs x e) = se_RuntimeTerminal e"
  by (auto simp: with_logs_def split: sum.splits)

lemma with_runtime_terminal:
  "se_RuntimeTerminal (with_runtime r le x e) \<Longrightarrow> \<not> se_RuntimeTerminal e \<Longrightarrow>
   \<exists>rs digest quality. x = Inr (rs, digest, quality) \<and> terminal_snapshot r le rs"
  by (auto simp: with_runtime_def split: sum.splits prod.splits if_splits)

lemma with_logs_graceful:
  "se_GracefulTermination (with_logs x e) \<Longrightarrow> \<not> se_GracefulTermination e \<Longrightarrow> \<exists>refs. x = Inr refs"
  by (auto simp: with_logs_def split: sum.splits)

lemma GracefulStopLogEvidence_Inr:
  assumes "GracefulStopLogEvidence parse get_logs obs since w = (Inr refs, w')"
  shows "\<exists>content. get_logs (log_url obs since) w = (Inr (200, Inr content), w') \<and> length content \<le> MiB \<and>
    gracefulStopReferences parse content since = Inr refs"
  using assms by (auto simp: GracefulStopLogEvidence_def min_def split: prod.splits sum.splits if_splits)

lemma ClassifyStop_confirmed:
  assumes "ClassifyStop dispatch e at_time = StopConfirmed"
  shows "\<not> se_Running e" "\<not> se_OOMKilled e" "se_ExitCode e = 0" "se_RuntimeTerminal e" "se_GracefulTermination e"
    "se_Attribution e = AttributionCorrelated"
  using assms by (auto simp: ClassifyStop_def split: if_splits)

text \<open>What the calls answered when an observation of a stopped container returns.\<close>

lemma ops_ObserveStop_stopped:
  assumes "ops_ObserveStop pe t r w = (Inr e, w')" "\<not> se_Running e"
  shows "\<exists>ow w1 le oe w2 logs w3. pe_observer pe (pw_outer w) = (ow, w1) \<and> ObserveLifecycle (pe_parse pe) ow (px_host t) = Inr le \<and>
    \<not> le_Running le \<and> pe_runtime pe w1 = (oe, w2) \<and>
    GracefulStopLogEvidence (pe_parse pe) (pe_logs pe) (px_host t) (sr_RequestedAt r) w2 = (logs, w3) \<and>
    e = (let e = with_logs logs (with_runtime r le (ReadSnapshot oe (px_runtime t)) (stop_evidence r le)) in
        if pw_acknowledged w = Some r \<and> \<not> Before (le_FinishedAt le) (sr_RequestedAt r)
        then e\<lparr>se_Attribution := AttributionCorrelated\<rparr> else e)"
proof -
  obtain le w1 where l: "ops_lifecycle pe t w = (Inr le, w1)" and rest: "stop_after_lifecycle pe t r le w1 = (Inr e, w')"
    using assms(1) unfolding ops_ObserveStop_def by (auto simp: ops_then_Inr)
  obtain ow outer where le: "pe_observer pe (pw_outer w) = (ow, outer)" "ObserveLifecycle (pe_parse pe) ow (px_host t) = Inr le"
      "w1 = w\<lparr>pw_outer := outer\<rparr>"
    using l by (auto simp: ops_lifecycle_def ops_simps)
  have running: "\<not> le_Running le"
    using rest assms(2) by (auto simp: stop_after_lifecycle_def ops_result_def stop_evidence_def)
  obtain oe outer1 logs outer2 where "pe_runtime pe outer = (oe, outer1)"
      "GracefulStopLogEvidence (pe_parse pe) (pe_logs pe) (px_host t) (sr_RequestedAt r) outer1 = (logs, outer2)"
      "e = (let e = with_logs logs (with_runtime r le (ReadSnapshot oe (px_runtime t)) (stop_evidence r le)) in
        if pw_acknowledged w = Some r \<and> \<not> Before (le_FinishedAt le) (sr_RequestedAt r)
        then e\<lparr>se_Attribution := AttributionCorrelated\<rparr> else e)"
    using rest running unfolding stop_after_lifecycle_def Let_def le(3)
    by (clarsimp simp: ops_simps)
  then show ?thesis using le(1,2) running by blast
qed


section \<open>A concrete stop\<close>

definition sample_exited :: dockerInspection where
  "sample_exited = (sample_inspection (sample_ids 1))
     \<lparr>di_Status := ''exited'', di_Running := False, di_ExitCode := 0, di_OOMKilled := False, di_FinishedAt := ''t''\<rparr>"

definition sample_log_text :: string where
  "sample_log_text = ''t Stopping server'' @ [CHR 0x0A] @ ''t All dimensions are saved'' @ [CHR 0x0A] @
     ''t mc-server-runner'' @ [CHR 0x09] @ ''Done'' @ [CHR 0x0A]"

definition sample_log_bytes :: "nat list" where
  "sample_log_bytes = map of_char sample_log_text"

definition sample_ops_env :: "unit ops_env" where
  "sample_ops_env =
     \<lparr>pe_observer = (\<lambda>u. (sample_world\<lparr>ow_Get := (\<lambda>_. Inr (200, Inr sample_exited))\<rparr>, u)),
      pe_runtime = (\<lambda>u. (sample_env_of (sample_paper\<lparr>pn_Ready := False\<rparr>), u)), pe_now = (\<lambda>u. (100 * second, u)),
      pe_admission = (\<lambda>u. (sample_access, u)), pe_state_reader = sample_reader sample_lease,
      pe_marshal = (\<lambda>_. Inr []), pe_write = (\<lambda>u. ((sample_write, (\<lambda>_. None)), u)), pe_written = (\<lambda>_ u. u), pe_post = (\<lambda>_ u. (Inr 204, u)),
      pe_logs = (\<lambda>_ u. (Inr (200, Inr sample_log_bytes), u)), pe_parse = (\<lambda>_. Inr (99 * second))\<rparr>"

definition sample_ops :: PaperOps where
  "sample_ops =
     \<lparr>px_host = \<lparr>ob_config = sample_observer, ob_admission = None\<rparr>,
      px_runtime = \<lparr>pt_path = ''/srv/gar/runtime'', pt_enrollment = sample_enrollment\<rparr>,
      px_admission = sample_admission, px_enrollment = sample_pinned, px_pluginID = ''p'', px_artifacts = [(''s'', ''a'')]\<rparr>"

definition sample_stop :: StopRequest where
  "sample_stop = \<lparr>sr_OperationID = ''op'', sr_StepID = ''S05'', sr_ContainerID = sample_ids 1,
     sr_BootID = ''boot-0123456789a'', sr_RequestedAt = 98 * second\<rparr>"


lemma sample_log_lines:
  "split_on (CHR 0x0A) sample_log_text =
     [''t Stopping server'', ''t All dimensions are saved'', ''t mc-server-runner'' @ [CHR 0x09] @ ''Done'', '''']"
  by code_simp

lemma sample_log_markers:
  "map fst (filter (\<lambda>(name, match). Contains ''Stopping server'' match) markers) = [''paper-stop'']"
  "map fst (filter (\<lambda>(name, match). Contains ''All dimensions are saved'' match) markers) = [''worlds-saved'']"
  "map fst (filter (\<lambda>(name, match). Contains (''mc-server-runner'' @ [CHR 0x09] @ ''Done'') match) markers) = [''runner-done'']"
  by code_simp+

lemma sample_log_found:
  "gracefulStopReferences (\<lambda>_. Inr (99 * second)) sample_log_bytes (98 * second) =
     Inr [''docker-log:paper-stop'', ''docker-log:worlds-saved'', ''docker-log:runner-done'']"
proof -
  let ?third = "''mc-server-runner'' @ [CHR 0x09] @ ''Done''"
  have "dockerLogText sample_log_bytes = Inr sample_log_bytes"
    by (simp add: dockerLogText_def sample_log_bytes_def sample_log_text_def)
  moreover have "map char_of sample_log_bytes = sample_log_text" by (simp add: sample_log_bytes_def comp_def)
  moreover have "scan_lines sample_log_text = Inr [''t Stopping server'', ''t All dimensions are saved'', ''t '' @ ?third]"
    by (simp add: scan_lines_def sample_log_lines drop_cr_def MiB_def)
  moreover have "dated_text (\<lambda>_. Inr (99 * second)) (98 * second) (''t '' @ rest) = Some rest" for rest
    by (simp add: dated_text_def IndexByte_def go_time)
  then have "line_markers (\<lambda>_. Inr (99 * second)) (98 * second) (''t '' @ rest) =
      map fst (filter (\<lambda>(name, match). Contains rest match) markers)" for rest
    by (simp add: line_markers_def)
  from this [of "''Stopping server''"] this [of "''All dimensions are saved''"] this [of ?third]
  have "concat (map (line_markers (\<lambda>_. Inr (99 * second)) (98 * second))
      [''t Stopping server'', ''t All dimensions are saved'', ''t '' @ ?third]) = [''paper-stop'', ''worlds-saved'', ''runner-done'']"
    unfolding sample_log_markers by simp
  ultimately show ?thesis
    by (simp only: gracefulStopReferences_def and_then.simps wrap_def sum.case) (simp add: markers_def)
qed

lemma sample_stop_observed:
  "\<exists>e. ft_ObserveStop (paper_operations sample_ops_env sample_ops) sample_stop \<lparr>pw_outer = (), pw_acknowledged = Some sample_stop\<rparr> =
     ((e, None), \<lparr>pw_outer = (), pw_acknowledged = Some sample_stop\<rparr>) \<and> ClassifyStop Acknowledged e (100 * second) = StopConfirmed"
proof -
  let ?refs = "[''docker-log:paper-stop'', ''docker-log:worlds-saved'', ''docker-log:runner-done'']"
  let ?le = "\<lparr>le_ContainerID = sample_ids 1, le_Status = ''exited'', le_Running = False, le_OOMKilled = False, le_ExitCode = 0,
        le_StartedAt = 0, le_FinishedAt = 99 * second, le_ObservedAt = 100 * second\<rparr>"
  have read: "ReadSnapshot (sample_env_of (sample_paper\<lparr>pn_Ready := False\<rparr>)) (px_runtime sample_ops) =
      Inr (sample_paper\<lparr>pn_Ready := False\<rparr>, hex_encode [123, 125, 10], Available)"
    by (simp add: ReadSnapshot_def read_paper_file_def sample_env_of_def sample_access_def sample_mode maxSnapshotBytes_def
      sample_crypto_def sample_ops_def) (simp add: sample_paper_def sample_enrollment_def validate_paper_def finiteBetween_def
      numeral_3_eq_3 go_time)
  have life: "ObserveLifecycle (\<lambda>_. Inr (99 * second)) (sample_world\<lparr>ow_Get := (\<lambda>_. Inr (200, Inr sample_exited))\<rparr>) (px_host sample_ops) =
      Inr ?le"
    by (simp add: ObserveLifecycle_def inspectContainerID_def sample_exited_def sample_inspection_def sample_ops_def
        sample_observer_def sample_world_def parseDockerTime_def check_def HasPrefix_def)
  have logs: "GracefulStopLogEvidence (\<lambda>_. Inr (99 * second)) (\<lambda>_ u. (Inr (200, Inr sample_log_bytes), u)) obs (98 * second) () =
      (Inr ?refs, ())" for obs
  proof -
    have "length sample_log_bytes \<le> MiB" by (simp add: sample_log_bytes_def sample_log_text_def MiB_def)
    then show ?thesis by (simp add: GracefulStopLogEvidence_def sample_log_found check_def)
  qed
  have "sample_ids 1 \<noteq> ''''" using sample_ids_valid [of 1] by force
  moreover have requested: "sr_RequestedAt sample_stop = 98 * second" "\<not> Before (99 * second) (98 * second)"
    by (simp_all add: sample_stop_def go_time)
  have "ft_ObserveStop (paper_operations sample_ops_env sample_ops) sample_stop
      \<lparr>pw_outer = (), pw_acknowledged = Some sample_stop\<rparr> = ((with_logs (Inr ?refs) (with_runtime sample_stop ?le
        (Inr (sample_paper\<lparr>pn_Ready := False\<rparr>, hex_encode [123, 125, 10], Available)) (stop_evidence sample_stop ?le))
      \<lparr>se_Attribution := AttributionCorrelated\<rparr>, None), \<lparr>pw_outer = (), pw_acknowledged = Some sample_stop\<rparr>)"
    by (simp add: paper_operations_def ops_ObserveStop_def ops_lifecycle_def stop_after_lifecycle_def ops_then_def ops_ask_def
        ops_result_def sample_ops_env_def life read logs requested Let_def del: One_nat_def)
  ultimately show ?thesis
    by (simp add: sample_stop_def stop_evidence_def with_runtime_def with_logs_def terminal_snapshot_def ClassifyStop_def
        FreshEvidence_def sample_paper_def go_time)
qed


end
