(* ===== verification/Mcp_Server.thy ===== *)
theory Mcp_Server
  imports Agent_Properties Admission_State
begin

text \<open>
  The agent's way in, \<open>src/internal/mcpserver\<close>: \<open>auth.go\<close> (the credential file, the resolution of a bearer token to
  a stored session, the authorization middleware with its rate limits) and \<open>server.go\<close> (the origin check, the
  ten tools of a scoped server and the filter on everything a tool returns).

  Outside the model's code are the MCP SDK, which hands over the tool call a request carries (\<open>rq_Call\<close>; none for
  another protocol message or a body over the limit) and turns a handler's error into an error result, the rate
  limiter (\<open>rate_limiter\<close>), and of the standard library \<open>url.Parse\<close>, the JSON encoder and decoder, and
  \<open>strings.ToLower\<close> and \<open>strings.Fields\<close> on text that is not ASCII.
\<close>

section \<open>Credentials\<close>

record CredentialRecord =
  cr_CredentialID :: string
  cr_TokenSHA256 :: string
  cr_SessionID :: string

record CredentialFile =
  cf_SchemaVersion :: string
  cf_Credentials :: "CredentialRecord list"

record credentialEntry =
  ce_digest :: "nat list"
  ce_sessionID :: string

type_synonym CredentialSet = "credentialEntry list"

fun load_entries :: "string list \<Rightarrow> string list \<Rightarrow> CredentialRecord list \<Rightarrow> CredentialSet result" where
  "load_entries seenIDs seenDigests [] = Inr []"
| "load_entries seenIDs seenDigests (r # rs) =
     and_then (check (\<not> (cr_CredentialID r = '''' \<or> cr_SessionID r = ''''))
       (OtherError ''credential_id and session_id are required'')) (\<lambda>_.
     and_then (check (cr_CredentialID r \<notin> set seenIDs) (OtherError ''duplicate credential_id'')) (\<lambda>_.
     and_then (case hex_decode (cr_TokenSHA256 r) of
         None \<Rightarrow> Inl (OtherError ''credential has invalid full lowercase SHA-256'')
       | Some digest \<Rightarrow> and_then (check (\<not> (length digest \<noteq> 32 \<or> cr_TokenSHA256 r \<noteq> to_lower (cr_TokenSHA256 r)))
           (OtherError ''credential has invalid full lowercase SHA-256'')) (\<lambda>_. Inr digest)) (\<lambda>digest.
     and_then (check (cr_TokenSHA256 r \<notin> set seenDigests) (OtherError ''duplicate bearer digest'')) (\<lambda>_.
     and_then (load_entries (cr_CredentialID r # seenIDs) (cr_TokenSHA256 r # seenDigests) rs) (\<lambda>entries.
     Inr (\<lparr>ce_digest = digest, ce_sessionID = cr_SessionID r\<rparr> # entries))))))"

text \<open>The decoder reads at most 1 MiB of the file; this file is not checked for repeated keys.\<close>

definition LoadCredentials :: "file_access \<Rightarrow> CredentialFile json_reader \<Rightarrow> string \<Rightarrow> CredentialSet result" where
  "LoadCredentials fa jr path =
     and_then (wrap ''credential file security check: '' (ValidateOwnerOnlyRegular fa path)) (\<lambda>_.
     and_then (fa_ReadFile fa path) (\<lambda>content.
     let payload = take MiB content in
     and_then (wrap ''decode credential file: '' (jr_Decode jr payload)) (\<lambda>data.
     and_then (check (\<not> jr_trailing jr payload) (OtherError ''credential file contains trailing JSON'')) (\<lambda>_.
     and_then (check (cf_SchemaVersion data = ''gar.agent-credentials.v1'')
       (OtherError ''unsupported credential schema'')) (\<lambda>_.
     and_then (check (length (cf_Credentials data) \<noteq> 0) (OtherError ''credential file contains no credentials'')) (\<lambda>_.
     load_entries [] [] (cf_Credentials data)))))))"

text \<open>The whole set is compared whatever matches; the last match counts.\<close>

fun match_digest :: "nat list \<Rightarrow> CredentialSet \<Rightarrow> credentialEntry option \<Rightarrow> credentialEntry option" where
  "match_digest digest [] matched = matched"
| "match_digest digest (e # es) matched = match_digest digest es (if digest = ce_digest e then Some e else matched)"

definition resolve :: "crypto \<Rightarrow> CredentialSet \<Rightarrow> string \<Rightarrow> db \<Rightarrow> AgentSessionScope result" where
  "resolve cr credentials token d =
     and_then (check (\<not> (length token < 32 \<or> 512 < length token)) (NewError ErrScopeDenied ''invalid bearer credential'')) (\<lambda>_.
     case match_digest (sum256 cr (map of_char token)) credentials None of
       None \<Rightarrow> Inl (NewError ErrScopeDenied ''invalid bearer credential'')
     | Some e \<Rightarrow> GetSession (ce_sessionID e) d)"

fun ValidateSessions :: "crypto \<Rightarrow> CredentialSet \<Rightarrow> string \<Rightarrow> int \<Rightarrow> int \<Rightarrow> gotime \<Rightarrow> db \<Rightarrow> unit result" where
  "ValidateSessions cr [] enrollmentID generation revocationEpoch now d = Inr ()"
| "ValidateSessions cr (e # es) enrollmentID generation revocationEpoch now d =
     and_then (GetSession (ce_sessionID e) d) (\<lambda>scope.
     and_then (unless_error (scope_Validate cr scope now)) (\<lambda>_.
     and_then (check (\<not> (sc_EnrollmentID scope \<noteq> enrollmentID \<or> sc_DeploymentGeneration scope \<noteq> generation))
       (NewError ErrScopeDenied ''credential resolves to a session for another enrollment generation'')) (\<lambda>_.
     and_then (check (sc_RevocationEpoch scope = revocationEpoch)
       (NewError ErrScopeDenied ''credential resolves to a revoked session epoch'')) (\<lambda>_.
     ValidateSessions cr es enrollmentID generation revocationEpoch now d))))"

section \<open>Requests\<close>

datatype tool_input =
  NoArguments
| BoundedReadArguments "string option" "int option"
| ProposalArguments string string string string
| OperationArguments string

datatype tool_output = OutValue gvalue | OutOwn own_result

datatype any_json =
  AnyNull | AnyBool bool | AnyNumber string | AnyString string | AnyArray "any_json list" | AnyObject "(string \<times> any_json) list"

record http_request =
  rq_Authorization :: "string list"
  rq_Origin :: "string list"
  rq_SecFetchSite :: "string list"
  rq_Call :: "(string \<times> tool_input) option"

datatype http_response = ForbiddenOrigin | Unauthorized | TooManyRequests | ProtocolAnswer | ToolAnswer "tool_output result"

record 'l rate_limiter =
  rl_New :: 'l
  rl_Allow :: "gotime \<Rightarrow> 'l \<Rightarrow> bool \<times> 'l"

record 'l mcp_env =
  mx_Fields :: "string \<Rightarrow> string list"
  mx_ToLower :: "string \<Rightarrow> string"
  mx_Parse :: "string \<Rightarrow> gotime option"
  mx_Marshal :: "tool_output \<Rightarrow> nat list result"
  mx_Unmarshal :: "nat list \<Rightarrow> any_json result"
  mx_Limiter :: "'l rate_limiter"
  mx_now :: gotime
  mx_call :: call_env

section \<open>Authorization\<close>

definition allow :: "'l rate_limiter \<Rightarrow> gotime \<Rightarrow> string \<Rightarrow> (string \<times> 'l) list \<Rightarrow> bool \<times> (string \<times> 'l) list" where
  "allow rl now sessionID limiters =
     (let limiter = (case map_of limiters sessionID of None \<Rightarrow> rl_New rl | Some l \<Rightarrow> l)
      in case rl_Allow rl now limiter of (allowed, l) \<Rightarrow> (allowed, map_put limiters sessionID l))"

definition strings_Fields :: "'l mcp_env \<Rightarrow> string \<Rightarrow> string list" where
  "strings_Fields mx s = (if list_all (\<lambda>c. (of_char c :: nat) < 128) s then Fields s else mx_Fields mx s)"

text \<open>The scope of the request, or that it is unauthorized.\<close>

definition authenticate :: "'l mcp_env \<Rightarrow> CredentialSet \<Rightarrow> Service \<Rightarrow> http_request \<Rightarrow> db \<Rightarrow> AgentSessionScope option" where
  "authenticate mx credentials sv rq d =
     (case rq_Authorization rq of
        [header] \<Rightarrow>
          (case strings_Fields mx header of
             [scheme, token] \<Rightarrow>
               if \<not> EqualFold scheme ''Bearer'' then None
               else (case resolve (ce_crypto (mx_call mx)) credentials token d of
                   Inl _ \<Rightarrow> None
                 | Inr scope \<Rightarrow>
                     if scope_Validate (ce_crypto (mx_call mx)) scope (mx_now mx) \<noteq> None \<or>
                        sc_EnrollmentID scope \<noteq> en_EnrollmentID (rg_Enrollment (sv_Registry sv)) \<or>
                        sc_DeploymentGeneration scope \<noteq> en_DeploymentGeneration (rg_Enrollment (sv_Registry sv)) \<or>
                        sc_RevocationEpoch scope \<noteq> sv_CurrentRevocationEpoch sv
                     then None else Some scope)
           | _ \<Rightarrow> None)
      | _ \<Rightarrow> None)"

text \<open>The middleware refuses the request or passes it on with its scope.\<close>

definition authorizationMiddleware ::
  "'l mcp_env \<Rightarrow> CredentialSet \<Rightarrow> Service \<Rightarrow> http_request \<Rightarrow> (string \<times> 'l) list \<Rightarrow> db \<Rightarrow>
   (http_response + AgentSessionScope) \<times> (string \<times> 'l) list"
where
  "authorizationMiddleware mx credentials sv rq limiters d =
     (case authenticate mx credentials sv rq d of
        None \<Rightarrow> (Inl Unauthorized, limiters)
      | Some scope \<Rightarrow>
          (case allow (mx_Limiter mx) (mx_now mx) (sc_SessionID scope) limiters of
             (allowed, limiters) \<Rightarrow> (if allowed then Inr scope else Inl TooManyRequests, limiters)))"

section \<open>Results\<close>

definition forbidden_key :: "string \<Rightarrow> bool" where
  "forbidden_key lower \<longleftrightarrow> Contains lower ''credential'' \<or> Contains lower ''secret'' \<or> Contains lower ''token'' \<or>
     Contains lower ''archive_path'' \<or> Contains lower ''download_url'' \<or> lower = ''path'' \<or> lower = ''uuid'' \<or>
     lower = ''player_name'' \<or> lower = ''player_names''"

definition count_or_null :: "any_json \<Rightarrow> bool" where
  "count_or_null j = (case j of AnyNumber _ \<Rightarrow> True | AnyNull \<Rightarrow> True | _ \<Rightarrow> False)"

fun rejectSensitiveFields :: "(string \<Rightarrow> string) \<Rightarrow> any_json \<Rightarrow> unit result"
  and reject_entries :: "(string \<Rightarrow> string) \<Rightarrow> (string \<times> any_json) list \<Rightarrow> unit result"
  and reject_elements :: "(string \<Rightarrow> string) \<Rightarrow> any_json list \<Rightarrow> unit result" where
  "rejectSensitiveFields ToLower (AnyObject entries) = reject_entries ToLower entries"
| "rejectSensitiveFields ToLower (AnyArray elements) = reject_elements ToLower elements"
| "rejectSensitiveFields ToLower AnyNull = Inr ()"
| "rejectSensitiveFields ToLower (AnyBool _) = Inr ()"
| "rejectSensitiveFields ToLower (AnyNumber _) = Inr ()"
| "rejectSensitiveFields ToLower (AnyString _) = Inr ()"
| "reject_entries ToLower [] = Inr ()"
| "reject_entries ToLower ((key, child) # rest) =
     and_then (check (\<not> (ToLower key = ''players'' \<and> \<not> count_or_null child))
       (NewError ErrScopeDenied ''player identities are forbidden at the agent boundary'')) (\<lambda>_.
     and_then (check (\<not> forbidden_key (ToLower key))
       (NewError ErrScopeDenied ''target response contains a field forbidden at the agent boundary'')) (\<lambda>_.
     and_then (rejectSensitiveFields ToLower child) (\<lambda>_. reject_entries ToLower rest)))"
| "reject_elements ToLower [] = Inr ()"
| "reject_elements ToLower (child # rest) =
     and_then (rejectSensitiveFields ToLower child) (\<lambda>_. reject_elements ToLower rest)"

definition maxToolResponseBytes :: nat where "maxToolResponseBytes = 256 * 1024"

definition validatePublicResult :: "'l mcp_env \<Rightarrow> tool_output \<Rightarrow> unit result" where
  "validatePublicResult mx v =
     and_then (mx_Marshal mx v) (\<lambda>payload.
     and_then (check (length payload \<le> maxToolResponseBytes)
       (NewError ErrInvalidRequest ''tool response exceeds 256 KiB evidence limit'')) (\<lambda>_.
     and_then (mx_Unmarshal mx payload) (\<lambda>generic. rejectSensitiveFields (mx_ToLower mx) generic)))"

definition public_result :: "'l mcp_env \<Rightarrow> tool_output \<Rightarrow> tool_output result" where
  "public_result mx out = and_then (validatePublicResult mx out) (\<lambda>_. Inr out)"

section \<open>Tools\<close>

datatype tool_handler = NoArgumentRead string | BoundedRead string | ProposeHandler | OperationHandler

definition newScopedServer :: "(string \<times> tool_handler) list" where
  "newScopedServer =
     [(''inspect_server_identity'', NoArgumentRead ''inspect_server_identity''), (''get_health'', NoArgumentRead ''get_health''),
      (''get_players'', NoArgumentRead ''get_players''), (''get_performance'', NoArgumentRead ''get_performance''),
      (''get_recent_errors'', BoundedRead ''get_recent_errors''), (''list_plugins'', NoArgumentRead ''list_plugins''),
      (''get_recent_changes'', BoundedRead ''get_recent_changes''), (''get_backup_status'', NoArgumentRead ''get_backup_status''),
      (''propose_plugin_change'', ProposeHandler), (''get_operation'', OperationHandler)]"

definition bounded_arguments :: "string option \<Rightarrow> int option \<Rightarrow> arguments" where
  "bounded_arguments cursor limit =
     (case cursor of None \<Rightarrow> [] | Some c \<Rightarrow> [(''cursor'', GString c)]) @
     (case limit of None \<Rightarrow> [] | Some n \<Rightarrow> [(''limit'', GInt n)])"

definition read_handler :: "'l mcp_env \<Rightarrow> Service \<Rightarrow> AgentSessionScope \<Rightarrow> string \<Rightarrow> arguments \<Rightarrow> db \<Rightarrow> tool_output result" where
  "read_handler mx sv scope name args d =
     and_then (CallReadTool (mx_Parse mx) (mx_call mx) sv scope name args d) (\<lambda>output. public_result mx (OutValue output))"

text \<open>\<open>DecodeProposal\<close> of the service reads a proposal from at most 16 KiB of text.\<close>

definition DecodeProposal :: "ProposalInput json_reader \<Rightarrow> nat list \<Rightarrow> ProposalInput result" where
  "DecodeProposal jr content =
     (let payload = take (16 * 1024) content in
     case jr_Decode jr payload of
       Inl err \<Rightarrow> Inl (NewError ErrInvalidRequest (''invalid proposal schema: '' @ error_text err))
     | Inr input \<Rightarrow>
         and_then (check (\<not> jr_trailing jr payload) (NewError ErrInvalidRequest ''proposal contains trailing JSON'')) (\<lambda>_.
         and_then (unless_error (validate_proposal input)) (\<lambda>_. Inr input)))"

definition propose_handler ::
  "'l mcp_env \<Rightarrow> Service \<Rightarrow> AgentSessionScope \<Rightarrow> ProposalInput \<Rightarrow> db \<Rightarrow> db \<Rightarrow> db \<Rightarrow> tool_output result \<times> db" where
  "propose_handler mx sv scope input looked seen d =
     (case Propose (mx_call mx) sv scope input looked seen d of
        Inl err \<Rightarrow> (Inl err, d)
      | Inr (rec, d') \<Rightarrow>
          (public_result mx (OutValue (GMap
            [(''intent_id'', GString (ci_IntentID (ir_Intent rec))), (''intent_digest'', GString (ci_IntentDigest (ir_Intent rec))),
             (''status'', GString (intent_status_text (ir_Status rec))), (''approval_required'', GBool True),
             (''mutation_dispatched'', GBool False), (''approval_interface'', GString ''owner-local garctl only'')])), d'))"

definition operation_handler :: "'l mcp_env \<Rightarrow> Service \<Rightarrow> AgentSessionScope \<Rightarrow> string \<Rightarrow> db \<Rightarrow> tool_output result" where
  "operation_handler mx sv scope reference d =
     and_then (check (\<not> (reference = '''' \<or> 256 < length reference))
       (NewError ErrInvalidRequest ''reference must contain 1 through 256 bytes'')) (\<lambda>_.
     and_then (GetOwnOperation (mx_call mx) sv scope reference d) (\<lambda>output. public_result mx (OutOwn output)))"

text \<open>The SDK calls a tool only with an input of the type its handler declares.\<close>

definition schema_error :: gar_error where "schema_error = OtherError ''input does not match the tool schema''"

fun run_handler ::
  "'l mcp_env \<Rightarrow> Service \<Rightarrow> AgentSessionScope \<Rightarrow> tool_handler \<Rightarrow> tool_input \<Rightarrow> db \<Rightarrow> db \<Rightarrow> db \<Rightarrow> tool_output result \<times> db" where
  "run_handler mx sv scope (NoArgumentRead name) NoArguments looked seen d = (read_handler mx sv scope name [] d, d)"
| "run_handler mx sv scope (BoundedRead name) (BoundedReadArguments cursor limit) looked seen d =
     (read_handler mx sv scope name (bounded_arguments cursor limit) d, d)"
| "run_handler mx sv scope ProposeHandler (ProposalArguments pluginID targetArtifactID clientRequestID rationale) looked seen d =
     propose_handler mx sv scope \<lparr>pi_PluginID = pluginID, pi_TargetArtifactID = targetArtifactID,
       pi_ClientRequestID = clientRequestID, pi_Rationale = rationale\<rparr> looked seen d"
| "run_handler mx sv scope OperationHandler (OperationArguments reference) looked seen d =
     (operation_handler mx sv scope reference d, d)"
| "run_handler mx sv scope _ _ looked seen d = (Inl schema_error, d)"

definition call_tool ::
  "'l mcp_env \<Rightarrow> Service \<Rightarrow> http_request \<Rightarrow> db \<Rightarrow> db \<Rightarrow> db \<Rightarrow> AgentSessionScope \<Rightarrow> http_response \<times> db" where
  "call_tool mx sv rq looked seen d scope =
     (case rq_Call rq of
        None \<Rightarrow> (ProtocolAnswer, d)
      | Some (name, input) \<Rightarrow>
          (case map_of newScopedServer name of
             None \<Rightarrow> (ToolAnswer (Inl (OtherError ''unknown tool'')), d)
           | Some h \<Rightarrow> (case run_handler mx sv scope h input looked seen d of (r, d') \<Rightarrow> (ToolAnswer r, d'))))"

section \<open>The handler\<close>

record origin_url =
  url_Scheme :: string
  url_Host :: string
  url_User :: bool
  url_Path :: string
  url_RawQuery :: string
  url_Fragment :: string

definition ValidateAllowedOrigin :: "(string \<Rightarrow> origin_url result) \<Rightarrow> string \<Rightarrow> string result" where
  "ValidateAllowedOrigin parse origin =
     and_then (check (origin \<noteq> '''') (OtherError ''an exact allowed Origin is required'')) (\<lambda>_.
     case parse origin of
       Inl _ \<Rightarrow> Inl (OtherError ''allowed Origin must be an exact HTTP(S) origin without path, query, fragment, or userinfo'')
     | Inr u \<Rightarrow>
         and_then (check (\<not> ((url_Scheme u \<noteq> ''http'' \<and> url_Scheme u \<noteq> ''https'') \<or> url_Host u = '''' \<or> url_User u \<or>
             url_Path u \<noteq> '''' \<or> url_RawQuery u \<noteq> '''' \<or> url_Fragment u \<noteq> ''''))
           (OtherError ''allowed Origin must be an exact HTTP(S) origin without path, query, fragment, or userinfo'')) (\<lambda>_.
         Inr origin))"

definition header_get :: "string list \<Rightarrow> string" where
  "header_get vs = (case vs of [] \<Rightarrow> '''' | v # _ \<Rightarrow> v)"

definition forbidden_origin :: "string \<Rightarrow> http_request \<Rightarrow> bool" where
  "forbidden_origin allowedOrigin rq \<longleftrightarrow>
     1 < length (rq_Origin rq) \<or> (length (rq_Origin rq) = 1 \<and> rq_Origin rq ! 0 \<noteq> allowedOrigin) \<or>
     EqualFold (header_get (rq_SecFetchSite rq)) ''cross-site''"

record mcp_handler =
  mh_Service :: Service
  mh_Credentials :: CredentialSet
  mh_Origin :: string
  mh_MaxBodyBytes :: int

definition NewHandler ::
  "(string \<Rightarrow> origin_url result) \<Rightarrow> Service option \<Rightarrow> db option \<Rightarrow> CredentialSet option \<Rightarrow> string \<Rightarrow> int \<Rightarrow> mcp_handler result" where
  "NewHandler parse service database credentials allowedOrigin maxBody =
     (case (service, database, credentials) of
        (Some sv, Some _, Some cs) \<Rightarrow>
          and_then (ValidateAllowedOrigin parse allowedOrigin) (\<lambda>origin.
          let maxBodyBytes = (if maxBody = 0 then 64 * 1024 else maxBody) in
          and_then (check (\<not> (maxBodyBytes < 1 \<or> 2 ^ 20 < maxBodyBytes))
            (OtherError ''MCP request body limit must be from 1 through 1048576 bytes'')) (\<lambda>_.
          Inr \<lparr>mh_Service = sv, mh_Credentials = cs, mh_Origin = origin, mh_MaxBodyBytes = maxBodyBytes\<rparr>))
      | _ \<Rightarrow> Inl (OtherError ''MCP service, store, and credential set are required''))"

text \<open>
  \<open>first\<close> is the journal as the authorization reads it, \<open>looked\<close>, \<open>seen\<close> and \<open>d\<close> are the journal as a proposal reads and
  writes it; the other tools read \<open>d\<close>.
\<close>

definition ServeHTTP ::
  "'l mcp_env \<Rightarrow> mcp_handler \<Rightarrow> http_request \<Rightarrow> (string \<times> 'l) list \<Rightarrow> db \<Rightarrow> db \<Rightarrow> db \<Rightarrow> db \<Rightarrow>
   (http_response \<times> db) \<times> (string \<times> 'l) list"
where
  "ServeHTTP mx h rq limiters first looked seen d =
     (if forbidden_origin (mh_Origin h) rq then ((ForbiddenOrigin, d), limiters)
      else case authorizationMiddleware mx (mh_Credentials h) (mh_Service h) rq limiters first of
          (Inl refusal, limiters) \<Rightarrow> ((refusal, d), limiters)
        | (Inr scope, limiters) \<Rightarrow> (call_tool mx (mh_Service h) rq looked seen d scope, limiters))"

section \<open>What a loaded set of credentials is\<close>

lemma load_entries_Inr:
  assumes "load_entries seenIDs seenDigests rs = Inr es"
  shows "map (\<lambda>e. hex_encode (ce_digest e)) es = map cr_TokenSHA256 rs \<and> map ce_sessionID es = map cr_SessionID rs \<and>
    distinct (map cr_TokenSHA256 rs) \<and> set seenDigests \<inter> cr_TokenSHA256 ` set rs = {}"
  using assms
proof (induction seenIDs seenDigests rs arbitrary: es rule: load_entries.induct)
  case (2 seenIDs seenDigests r rs)
  then obtain digest rest where
    d: "hex_decode (cr_TokenSHA256 r) = Some digest" "to_lower (cr_TokenSHA256 r) = cr_TokenSHA256 r"
       "cr_TokenSHA256 r \<notin> set seenDigests" "es = \<lparr>ce_digest = digest, ce_sessionID = cr_SessionID r\<rparr> # rest"
       "load_entries (cr_CredentialID r # seenIDs) (cr_TokenSHA256 r # seenDigests) rs = Inr rest"
    by (auto split: option.splits)
  have "map (\<lambda>e. hex_encode (ce_digest e)) rest = map cr_TokenSHA256 rs \<and> map ce_sessionID rest = map cr_SessionID rs \<and>
    distinct (map cr_TokenSHA256 rs) \<and> set (cr_TokenSHA256 r # seenDigests) \<inter> cr_TokenSHA256 ` set rs = {}"
    using "2.prems" d(1,5) by (intro "2.IH") (auto split: option.splits)
  with d hex_encode_decode [OF d(1,2)] show ?case by auto
qed auto

lemma match_digest_Some:
  "match_digest digest es matched = Some e \<Longrightarrow> e \<in> set es \<and> ce_digest e = digest \<or> matched = Some e"
  by (induction digest es matched rule: match_digest.induct) (auto split: if_splits)

text \<open>A token resolves to the session of the one record that holds its digest.\<close>

lemma resolve_Inr:
  assumes "load_entries [] [] rs = Inr es" "resolve cr es token d = Inr scope"
  shows "32 \<le> length token \<and> length token \<le> 512 \<and>
    (\<exists>r \<in> set rs. cr_TokenSHA256 r = hex_encode (sum256 cr (map of_char token)) \<and> GetSession (cr_SessionID r) d = Inr scope \<and>
       (\<forall>r' \<in> set rs. cr_TokenSHA256 r' = cr_TokenSHA256 r \<longrightarrow> r' = r))"
proof -
  note l = load_entries_Inr [OF assms(1)]
  obtain e where e: "e \<in> set es" "ce_digest e = sum256 cr (map of_char token)" "GetSession (ce_sessionID e) d = Inr scope"
    using assms(2) match_digest_Some by (fastforce simp: resolve_def split: option.splits)
  obtain n where n: "n < length es" "es ! n = e" using e(1) by (auto simp: in_set_conv_nth)
  have len: "length es = length rs" using l by (metis length_map)
  have "hex_encode (ce_digest e) = cr_TokenSHA256 (rs ! n)" "ce_sessionID e = cr_SessionID (rs ! n)"
    using l n len by (metis (no_types, lifting) nth_map)+
  moreover have "rs ! n \<in> set rs" using n(1) len by simp
  moreover have "\<forall>r' \<in> set rs. cr_TokenSHA256 r' = cr_TokenSHA256 (rs ! n) \<longrightarrow> r' = rs ! n"
    using l \<open>rs ! n \<in> set rs\<close> by (auto simp: distinct_map inj_on_def)
  ultimately show ?thesis using assms(2) e by (auto simp: resolve_def)
qed

lemma authenticate_Some:
  assumes "authenticate mx credentials sv rq d = Some scope"
  shows "\<exists>header scheme token. rq_Authorization rq = [header] \<and> strings_Fields mx header = [scheme, token] \<and>
    EqualFold scheme ''Bearer'' \<and> resolve (ce_crypto (mx_call mx)) credentials token d = Inr scope \<and>
    scope_Validate (ce_crypto (mx_call mx)) scope (mx_now mx) = None \<and>
    sc_EnrollmentID scope = en_EnrollmentID (rg_Enrollment (sv_Registry sv)) \<and>
    sc_DeploymentGeneration scope = en_DeploymentGeneration (rg_Enrollment (sv_Registry sv)) \<and>
    sc_RevocationEpoch scope = sv_CurrentRevocationEpoch sv"
  using assms by (auto simp: authenticate_def split: list.splits if_splits sum.splits)

section \<open>What a tool returns\<close>

text \<open>The entries of the objects at every depth.\<close>

fun json_entries :: "any_json \<Rightarrow> (string \<times> any_json) list" where
  "json_entries (AnyObject entries) = entries @ concat (map (\<lambda>(key, child). json_entries child) entries)"
| "json_entries (AnyArray elements) = concat (map json_entries elements)"
| "json_entries _ = []"

definition clean_entry :: "(string \<Rightarrow> string) \<Rightarrow> string \<times> any_json \<Rightarrow> bool" where
  "clean_entry ToLower entry \<longleftrightarrow> \<not> forbidden_key (ToLower (fst entry)) \<and>
     (ToLower (fst entry) = ''players'' \<longrightarrow> count_or_null (snd entry))"

lemma list_all_concat: "list_all P (concat xss) \<longleftrightarrow> list_all (list_all P) xss"
  by (induction xss) auto

lemma entry_checks:
  "and_then (check (\<not> (ToLower key = ''players'' \<and> \<not> count_or_null child)) e1) (\<lambda>_.
     and_then (check (\<not> forbidden_key (ToLower key)) e2) (\<lambda>_. m)) = Inr () \<longleftrightarrow> clean_entry ToLower (key, child) \<and> m = Inr ()"
  by (auto simp: clean_entry_def)

lemma reject_Inr:
  "rejectSensitiveFields ToLower j = Inr () \<longleftrightarrow> list_all (clean_entry ToLower) (json_entries j)"
  "reject_entries ToLower es = Inr () \<longleftrightarrow> list_all (clean_entry ToLower) (json_entries (AnyObject es))"
  "reject_elements ToLower js = Inr () \<longleftrightarrow> list_all (clean_entry ToLower) (json_entries (AnyArray js))"
proof (induction ToLower j and ToLower es and ToLower js rule: rejectSensitiveFields_reject_entries_reject_elements.induct)
  case (8 ToLower key child rest)
  then show ?case
    unfolding reject_entries.simps entry_checks by (auto simp: list_all_concat)
qed auto

lemma public_result_Inr:
  "public_result mx out = Inr out' \<Longrightarrow> out' = out \<and>
   (\<exists>payload generic. mx_Marshal mx out = Inr payload \<and> length payload \<le> maxToolResponseBytes \<and>
      mx_Unmarshal mx payload = Inr generic \<and> list_all (clean_entry (mx_ToLower mx)) (json_entries generic))"
  by (auto simp: public_result_def validatePublicResult_def reject_Inr)

definition public_output :: "'l mcp_env \<Rightarrow> tool_output \<Rightarrow> bool" where
  "public_output mx out \<longleftrightarrow> (\<exists>payload generic. mx_Marshal mx out = Inr payload \<and> length payload \<le> 262144 \<and>
     mx_Unmarshal mx payload = Inr generic \<and> list_all (clean_entry (mx_ToLower mx)) (json_entries generic))"

lemma public_resultD: "public_result mx out = Inr out' \<Longrightarrow> out' = out \<and> public_output mx out"
  by (auto simp: public_output_def maxToolResponseBytes_def dest!: public_result_Inr)

text \<open>What a handler's answer shows: the service authorized the very tool, and the answer passed the filter.\<close>

lemma handlers_authorized:
  "read_handler mx sv scope name args d = Inr out \<Longrightarrow> name \<in> set (sc_Capabilities scope) \<and> public_output mx out"
  "operation_handler mx sv scope reference d = Inr out \<Longrightarrow> ''get_operation'' \<in> set (sc_Capabilities scope) \<and> public_output mx out"
  "propose_handler mx sv scope input looked seen d = (Inr out, d') \<Longrightarrow>
     ''propose_plugin_change'' \<in> set (sc_Capabilities scope) \<and> public_output mx out"
  by (auto simp: read_handler_def CallReadTool_def authorize_None_iff operation_handler_def GetOwnOperation_def
      propose_handler_def Propose_def dest!: public_resultD propose_effect split: sum.splits prod.splits)

lemma propose_tables:
  assumes "propose ce sv scope input g03Only looked seen d = Inr (stored, d')"
  shows "v01_sessions d' = v01_sessions d \<and> v01_approvals d' = v01_approvals d \<and> v01_operations d' = v01_operations d \<and>
    v01_steps d' = v01_steps d \<and> v01_backups d' = v01_backups d"
proof -
  have "audited c d' \<Longrightarrow> v01_sessions d' = v01_sessions c \<and> v01_approvals d' = v01_approvals c \<and>
      v01_operations d' = v01_operations c \<and> v01_steps d' = v01_steps c \<and> v01_backups d' = v01_backups c" for c
    by (simp add: audited_tables)
  then show ?thesis using propose_effect [OF assms] by (auto dest!: PutIntent_effect)
qed

lemma run_handler_tables:
  assumes "run_handler mx sv scope h input looked seen d = (r, d')"
  shows "v01_sessions d' = v01_sessions d \<and> v01_approvals d' = v01_approvals d \<and> v01_operations d' = v01_operations d \<and>
    v01_steps d' = v01_steps d \<and> v01_backups d' = v01_backups d"
  using assms
  by (cases h; cases input)
     (auto simp: propose_handler_def Propose_def dest: propose_tables split: sum.splits)

lemma run_handler_authorized:
  assumes "map_of newScopedServer name = Some h" "run_handler mx sv scope h input looked seen d = (Inr out, d')"
  shows "name \<in> set (sc_Capabilities scope) \<and> public_output mx out"
proof -
  have "h = NoArgumentRead name \<or> h = BoundedRead name \<or> h = ProposeHandler \<and> name = ''propose_plugin_change'' \<or>
      h = OperationHandler \<and> name = ''get_operation''"
    using assms(1) by (auto simp: newScopedServer_def split: if_splits)
  then show ?thesis
    using assms(2) by (elim disjE conjE; cases input) (auto dest: handlers_authorized)
qed

lemma ServeHTTP_answer:
  assumes "ServeHTTP mx h rq limiters first looked seen d = ((ToolAnswer (Inr out), d'), limiters')"
  shows "\<not> forbidden_origin (mh_Origin h) rq \<and>
    (\<exists>scope name input handler. authenticate mx (mh_Credentials h) (mh_Service h) rq first = Some scope \<and>
       rq_Call rq = Some (name, input) \<and> map_of newScopedServer name = Some handler \<and>
       run_handler mx (mh_Service h) scope handler input looked seen d = (Inr out, d'))"
  using assms
  by (auto simp: ServeHTTP_def authorizationMiddleware_def call_tool_def
      split: if_splits option.splits prod.splits sum.splits)

lemma registered_tools: "map fst newScopedServer = map td_Name AgentTools"
  by (simp add: newScopedServer_def AgentTools_def tool_def)



section \<open>A concrete request\<close>

definition sample_token :: string where "sample_token = replicate 32 CHR ''a''"

definition sample_credentials :: CredentialFile where
  "sample_credentials = \<lparr>cf_SchemaVersion = ''gar.agent-credentials.v1'', cf_Credentials =
     [\<lparr>cr_CredentialID = ''c1'', cr_TokenSHA256 = hex_encode (replicate 32 97), cr_SessionID = ''sess''\<rparr>]\<rparr>"

definition sample_mcp :: "nat mcp_env" where
  "sample_mcp = \<lparr>mx_Fields = Fields, mx_ToLower = to_lower, mx_Parse = (\<lambda>_. None), mx_Marshal = (\<lambda>_. Inr [123, 125]),
     mx_Unmarshal = (\<lambda>_. Inr (AnyObject [(''intent'', AnyObject []), (''players'', AnyNumber ''0'')])),
     mx_Limiter = \<lparr>rl_New = 20, rl_Allow = (\<lambda>_ n. (0 < n, n - 1))\<rparr>, mx_now = sample_now, mx_call = sample_env 0\<rparr>"

definition sample_sessions :: db where
  "sample_sessions = empty_db\<lparr>v01_sessions := [\<lparr>ss_session_id = ''sess'', ss_principal_id = ''agent'', ss_enrollment_id = ''enr'',
     ss_scope_digest = ''0b'', ss_payload = sample_scope, ss_created_at = ''''\<rparr>]\<rparr>"

definition sample_handler :: mcp_handler where
  "sample_handler = \<lparr>mh_Service = sample_service, mh_Credentials = [\<lparr>ce_digest = replicate 32 97, ce_sessionID = ''sess''\<rparr>],
     mh_Origin = ''http://127.0.0.1'', mh_MaxBodyBytes = 65536\<rparr>"

definition sample_request :: http_request where
  "sample_request = \<lparr>rq_Authorization = [''Bearer '' @ sample_token], rq_Origin = [], rq_SecFetchSite = [],
     rq_Call = Some (''get_operation'', OperationArguments ''intent_01'')\<rparr>"

lemma sample_fields: "Fields (''Bearer '' @ sample_token) = [''Bearer'', sample_token]" "EqualFold ''Bearer'' ''Bearer''"
  "\<not> EqualFold '''' ''cross-site''"
  by code_simp+

lemma sample_credentials_load: "LoadCredentials sample_access (sample_reader sample_credentials) path = Inr (mh_Credentials sample_handler)"
  by (simp add: LoadCredentials_def ValidateOwnerOnlyRegular_def sample_access_def sample_mode sample_credentials_def
      hex_roundtrip hex_encode_lower sample_handler_def)

lemma sample_authenticated: "authenticate sample_mcp (mh_Credentials sample_handler) sample_service sample_request sample_sessions = Some sample_scope"
proof -
  have "strings_Fields sample_mcp (''Bearer '' @ sample_token) = [''Bearer'', sample_token]"
    using sample_fields(1) by (simp add: strings_Fields_def sample_mcp_def)
  moreover have "resolve sample_crypto (mh_Credentials sample_handler) sample_token sample_sessions = Inr sample_scope"
    by (simp add: resolve_def sample_token_def sample_handler_def sample_crypto_def GetSession_def sample_sessions_def
        rows_with_def)
  ultimately show ?thesis
    by (simp add: authenticate_def sample_request_def sample_fields)
       (simp add: sample_mcp_def sample_env_def sample_service_def sample_registry_def, simp add: sample_scope_def sample_enrollment_def)
qed

lemma sample_answered:
  "\<exists>out. ServeHTTP sample_mcp sample_handler sample_request [] sample_sessions sample_approved sample_approved sample_approved =
     ((ToolAnswer (Inr out), sample_approved), [(''sess'', 19)])"
proof -
  obtain res where own: "GetOwnOperation (sample_env 0) sample_service sample_scope ''intent_01'' sample_approved = Inr res"
    by (simp add: GetOwnOperation_def sample_env_def GetIntent_def scanIntent_def sample_approved_tables
        own_record_def check_def with_operation_def OperationForIntent_def)
       (simp add: sample_scope_def)
  have filter: "public_result sample_mcp out = Inr out" for out
  proof -
    have "\<not> forbidden_key ''intent''" "\<not> forbidden_key ''players''" "to_lower ''intent'' = ''intent''" "to_lower ''players'' = ''players''"
      by code_simp+
    then show ?thesis
      by (simp add: public_result_def validatePublicResult_def sample_mcp_def check_def maxToolResponseBytes_def count_or_null_def)
  qed
  have "operation_handler sample_mcp sample_service sample_scope ''intent_01'' sample_approved = Inr (OutOwn res)"
    using own filter by (simp add: operation_handler_def check_def) (simp add: sample_mcp_def)
  moreover have "\<not> forbidden_origin (mh_Origin sample_handler) sample_request"
    by (simp add: forbidden_origin_def sample_request_def header_get_def sample_fields)
  moreover have "mh_Service sample_handler = sample_service" by (simp add: sample_handler_def)
  ultimately show ?thesis
    by (simp add: ServeHTTP_def authorizationMiddleware_def sample_authenticated allow_def)
       (simp add: sample_mcp_def call_tool_def sample_request_def newScopedServer_def sample_scope_def)
qed


end
