(* ===== verification/Runtime_Config.thy ===== *)
theory Runtime_Config
  imports Mcp_Server Backup_Engine
begin

text \<open>
  The owner's configuration files: \<open>src/internal/runtimeconfig/config.go\<close> (the enrollment and the registry the agent's
  service works with), \<open>src/internal/g03/config.go\<close> (the acceptance run of the stop and backup boundary) and the
  construction of the archive engine from its paths in \<open>src/internal/backup/offline.go\<close>.

  A Go map is an association list in the order of its iteration; the decoder is the argument \<open>jr\<close>.
\<close>

section \<open>Server configuration\<close>

record ServerConfig =
  rc_SchemaVersion :: string
  rc_Enrollment :: Enrollment
  rc_Artifacts :: "(string \<times> ArtifactRecord) list"
  rc_Profiles :: "(string \<times> TransitionProfile) list"
  rc_Support :: SupportProfile
  rc_CurrentRevocationEpoch :: int
  rc_PaperRuntime :: "string option"
  rc_HostObservation :: "string option"

fun validate_allowed :: "string list \<Rightarrow> string list \<Rightarrow> unit result" where
  "validate_allowed seen [] = Inr ()"
| "validate_allowed seen (pluginID # rest) =
     and_then (check (pluginID \<noteq> '''') (OtherError ''allowed plugin IDs must not be empty'')) (\<lambda>_.
     and_then (check (pluginID \<notin> set seen) (OtherError ''duplicate allowed plugin ID'')) (\<lambda>_.
     validate_allowed (pluginID # seen) rest))"

fun validate_artifacts :: "string list \<Rightarrow> (string \<times> ArtifactRecord) list \<Rightarrow> unit result" where
  "validate_artifacts allowed [] = Inr ()"
| "validate_artifacts allowed ((ident, artifact) # rest) =
     and_then (check (\<not> (ident = '''' \<or> ar_ArtifactID artifact \<noteq> ident \<or> ar_PluginID artifact = ''''))
       (OtherError ''artifact registry key and artifact_id must match'')) (\<lambda>_.
     and_then (check (ar_PluginID artifact \<in> set allowed)
       (OtherError ''artifact belongs to a plugin outside the enrollment'')) (\<lambda>_.
     and_then (check (validSHA256 (ar_SHA256 artifact)) (OtherError ''artifact requires a full SHA-256'')) (\<lambda>_.
     validate_artifacts allowed rest)))"

definition catalog_artifact :: "(string \<times> ArtifactRecord) list \<Rightarrow> string \<Rightarrow> string \<Rightarrow> bool" where
  "catalog_artifact artifacts ident pluginID =
     (case map_of artifacts ident of None \<Rightarrow> False | Some artifact \<Rightarrow> ar_PluginID artifact = pluginID)"

fun validate_profiles :: "string \<Rightarrow> (string \<times> ArtifactRecord) list \<Rightarrow> (string \<times> TransitionProfile) list \<Rightarrow> unit result" where
  "validate_profiles paperTuple artifacts [] = Inr ()"
| "validate_profiles paperTuple artifacts ((ident, profile) # rest) =
     and_then (check (\<not> (ident = '''' \<or> tp_ProfileID profile \<noteq> ident \<or> tp_PluginID profile = ''''))
       (OtherError ''profile registry key and profile_id must match'')) (\<lambda>_.
     and_then (check (tp_PaperTuple profile = paperTuple)
       (OtherError ''profile Paper tuple does not match enrollment'')) (\<lambda>_.
     and_then (check (catalog_artifact artifacts (tp_FromArtifactID profile) (tp_PluginID profile) \<and>
         catalog_artifact artifacts (tp_ToArtifactID profile) (tp_PluginID profile))
       (OtherError ''profile must reference two catalog artifacts for its plugin'')) (\<lambda>_.
     validate_profiles paperTuple artifacts rest)))"

definition validate_server :: "ServerConfig \<Rightarrow> unit result" where
  "validate_server c =
    (let e = rc_Enrollment c in
     and_then (check (rc_SchemaVersion c = ''gar.server-config.v1'') (OtherError ''unsupported runtime config schema'')) (\<lambda>_.
     and_then (check (\<not> (en_EnrollmentID e = '''' \<or> en_TargetID e = '''' \<or> en_DeploymentGeneration e < 1))
       (OtherError ''runtime config requires a fixed enrollment identity'')) (\<lambda>_.
     and_then (check (\<not> rc_CurrentRevocationEpoch c < 1) (OtherError ''current_revocation_epoch must be at least 1'')) (\<lambda>_.
     and_then (check (case rc_PaperRuntime c of None \<Rightarrow> True | Some path \<Rightarrow> clean_absolute path)
       (OtherError ''paper_runtime.snapshot_path must be a clean absolute path'')) (\<lambda>_.
     and_then (check (case rc_HostObservation c of None \<Rightarrow> True | Some path \<Rightarrow> clean_absolute path)
       (OtherError ''host_observation.snapshot_path must be a clean absolute path'')) (\<lambda>_.
     and_then (check (sp_ProfileID (rc_Support c) \<noteq> '''') (OtherError ''support_profile.profile_id is required'')) (\<lambda>_.
     and_then (check (sp_ProfileID (rc_Support c) = en_SupportProfileID e)
       (OtherError ''support profile does not match enrollment'')) (\<lambda>_.
     and_then (validate_allowed [] (en_AllowedPlugins e)) (\<lambda>_.
     and_then (validate_artifacts (en_AllowedPlugins e) (rc_Artifacts c)) (\<lambda>_.
     validate_profiles (en_PaperTuple e) (rc_Artifacts c) (rc_Profiles c)))))))))))"

text \<open>
  Both loaders read at most one byte more than 1 MiB and refuse a longer file. \<open>fa_ReadFile\<close> is the opening and the reading in
  one; the code reports a failing read as it reports a file that is too long, and a failing opening as the error itself.
\<close>

definition read_config :: "string \<Rightarrow> file_access \<Rightarrow> 'a json_reader \<Rightarrow> string \<Rightarrow> 'a result" where
  "read_config name fa jr path =
     and_then (wrap (name @ '' security check: '') (ValidateOwnerOnlyRegular fa path)) (\<lambda>_.
     and_then (case fa_ReadFile fa path of
         Inl _ \<Rightarrow> Inl (OtherError (name @ '' exceeds 1 MiB''))
       | Inr content \<Rightarrow> and_then (check (length (take (MiB + 1) content) \<le> MiB) (OtherError (name @ '' exceeds 1 MiB''))) (\<lambda>_.
           Inr (take (MiB + 1) content))) (\<lambda>payload.
     decode_payload name jr payload))"

definition load_server :: "file_access \<Rightarrow> ServerConfig json_reader \<Rightarrow> string \<Rightarrow> ServerConfig result" where
  "load_server fa jr path =
     and_then (read_config ''runtime config'' fa jr path) (\<lambda>config.
     and_then (validate_server config) (\<lambda>_. Inr config))"

definition config_Registry :: "ServerConfig \<Rightarrow> Registry" where
  "config_Registry c = \<lparr>rg_Enrollment = rc_Enrollment c, rg_Artifacts = rc_Artifacts c, rg_Profiles = rc_Profiles c\<rparr>"

section \<open>Acceptance of the backup boundary\<close>

record G03Config =
  gc_SchemaVersion :: string
  gc_RuntimeConfigPath :: string
  gc_HostObserverConfigPath :: string
  gc_DatabasePath :: string
  gc_BackupDirectory :: string
  gc_EvidencePath :: string
  gc_PluginID :: string
  gc_TargetArtifactID :: string
  gc_ProfileID :: string
  gc_PrincipalID :: string
  gc_ClientRequestID :: string
  gc_StopTimeoutSeconds :: int
  gc_MaxBackupBytes :: int
  gc_MaxBackupFiles :: int

definition validate_g03 :: "G03Config \<Rightarrow> unit result" where
  "validate_g03 c =
     and_then (check (gc_SchemaVersion c = ''gar.g03-acceptance-config.v1'') (OtherError ''unsupported G-03 config schema'')) (\<lambda>_.
     and_then (check (list_all clean_absolute [gc_RuntimeConfigPath c, gc_HostObserverConfigPath c, gc_DatabasePath c,
         gc_BackupDirectory c, gc_EvidencePath c]) (OtherError ''G-03 paths must be clean owner-controlled absolute paths'')) (\<lambda>_.
     and_then (check (\<not> (gc_PluginID c = '''' \<or> gc_TargetArtifactID c = '''' \<or> gc_ProfileID c = '''' \<or>
         gc_PrincipalID c = '''' \<or> 128 < length (gc_PrincipalID c) \<or> gc_ClientRequestID c = '''' \<or>
         128 < length (gc_ClientRequestID c))) (OtherError ''G-03 proposal identifiers are required and bounded'')) (\<lambda>_.
     and_then (check (\<not> (gc_StopTimeoutSeconds c < 5 \<or> 120 < gc_StopTimeoutSeconds c))
       (OtherError ''stop_timeout_seconds must be from 5 through 120'')) (\<lambda>_.
     and_then (check (\<not> (gc_MaxBackupBytes c < 2 ^ 20 \<or> 2 ^ 40 < gc_MaxBackupBytes c \<or>
         gc_MaxBackupFiles c < 1 \<or> 1000000 < gc_MaxBackupFiles c)) (OtherError ''G-03 backup resource limits are invalid'')) (\<lambda>_.
     check (Dir (gc_EvidencePath c) \<noteq> gc_BackupDirectory c)
       (OtherError ''evidence metadata must be outside the backup artifact directory''))))))"

definition load_g03 :: "file_access \<Rightarrow> G03Config json_reader \<Rightarrow> string \<Rightarrow> G03Config result" where
  "load_g03 fa jr path =
     and_then (read_config ''G-03 config'' fa jr path) (\<lambda>config.
     and_then (validate_g03 config) (\<lambda>_. Inr config))"

definition StopTimeout :: "G03Config \<Rightarrow> duration" where
  "StopTimeout c = gc_StopTimeoutSeconds c * second"

section \<open>Construction of the engine\<close>

definition excluded_top :: "string \<Rightarrow> bool" where
  "excluded_top path \<longleftrightarrow> hd (split_on CHR ''/'' path) \<in> {''logs'', ''cache'', ''temporary-sockets''}"

definition check_source :: "file_access \<Rightarrow> string \<Rightarrow> unit result" where
  "check_source fa path =
     (if path = '''' then Inr ()
      else and_then (check (IsAbs path \<and> Clean path = path) (OtherError ''mounted source artifact must be a clean absolute path'')) (\<lambda>_.
           and_then (check (fa_EvalSymlinks fa path = Inr path) (OtherError ''mounted source artifact must exist without symlinks'')) (\<lambda>_.
           check (case fa_Stat fa path of Inl _ \<Rightarrow> False | Inr info \<Rightarrow> IsRegular (st_mode info) \<and> \<not> st_size info < 1)
             (OtherError ''mounted source artifact must be a non-empty regular file''))))"

fun check_roots :: "file_access \<Rightarrow> string list \<Rightarrow> unit result" where
  "check_roots fa [] = Inr ()"
| "check_roots fa (p # ps) =
     and_then (check (IsAbs p \<and> Clean p = p) (OtherError ''backup roots must be clean owner-controlled absolute paths'')) (\<lambda>_.
     and_then (check (fa_EvalSymlinks fa p = Inr p) (OtherError ''backup roots must exist without symlinks'')) (\<lambda>_.
     check_roots fa ps))"

text \<open>\<open>info_of\<close> is the same status as the engine compares it later.\<close>

definition NewEngine ::
  "(string \<Rightarrow> bool) \<Rightarrow> file_access \<Rightarrow> (file_status \<Rightarrow> file_info) \<Rightarrow> Config \<Rightarrow> bool \<Rightarrow> Engine result" where
  "NewEngine valid_utf8 fa info_of c database =
     and_then (check (\<not> (\<not> ValidPath valid_utf8 (cf_SourceArtifactPath c) \<or> cf_SourceArtifactPath c = ''.'' \<or>
         Contains (cf_SourceArtifactPath c) [CHR 0x5C])) (OtherError ''fixed source artifact path is required'')) (\<lambda>_.
     and_then (check_source fa (cf_SourceArtifactFile c)) (\<lambda>_.
     and_then (check (\<not> excluded_top (cf_SourceArtifactPath c))
       (OtherError ''source artifact cannot be excluded by the approved recipe'')) (\<lambda>_.
     and_then (check_roots fa [cf_DataRoot c, cf_Destination c]) (\<lambda>_.
     and_then (check (\<not> (path_within (cf_DataRoot c) (cf_Destination c) \<or> path_within (cf_Destination c) (cf_DataRoot c)))
       (OtherError ''backup destination and source must be disjoint'')) (\<lambda>_.
     and_then (case fa_Stat fa (cf_Destination c) of
         Inl _ \<Rightarrow> Inl (OtherError ''backup destination must be an owner-only directory'')
       | Inr info \<Rightarrow> and_then (check (\<not> (\<not> IsDir (st_mode info) \<or> Perm (st_mode info) \<noteq> 448))
           (OtherError ''backup destination must be an owner-only directory'')) (\<lambda>_. Inr info)) (\<lambda>info.
     and_then (check (st_uid info = fa_Geteuid fa mod 2 ^ 32) (OtherError ''backup destination ownership mismatch'')) (\<lambda>_.
     and_then (check (\<not> (\<not> database \<or> cf_MaxBytes c \<le> 0 \<or> 2 ^ 40 < cf_MaxBytes c \<or> cf_MaxFiles c \<le> 0 \<or> 1000000 < cf_MaxFiles c))
       (OtherError ''backup requires a durable store and bounded resource limits'')) (\<lambda>_.
     and_then (check (en_DataRootIdentity (cf_Enrollment c) \<noteq> '''') (OtherError ''backup data root must be enrolled'')) (\<lambda>_.
     Inr \<lparr>eg_config = c, eg_destinationIdentity = info_of info\<rparr>)))))))))"


section \<open>A loaded registry\<close>

lemma validate_allowed_Inr:
  "validate_allowed seen ps = Inr u \<Longrightarrow> distinct ps \<and> '''' \<notin> set ps \<and> set seen \<inter> set ps = {}"
  by (induction seen ps rule: validate_allowed.induct) auto

lemma validate_artifacts_Inr:
  "validate_artifacts allowed as = Inr u \<Longrightarrow> (ident, a) \<in> set as \<Longrightarrow>
   ar_ArtifactID a = ident \<and> ar_PluginID a \<in> set allowed \<and> validSHA256 (ar_SHA256 a)"
  by (induction allowed as rule: validate_artifacts.induct) auto

lemma validate_profiles_Inr:
  "validate_profiles tuple as ps = Inr u \<Longrightarrow> (ident, p) \<in> set ps \<Longrightarrow>
   tp_ProfileID p = ident \<and> tp_PaperTuple p = tuple \<and> catalog_artifact as (tp_FromArtifactID p) (tp_PluginID p) \<and>
   catalog_artifact as (tp_ToArtifactID p) (tp_PluginID p)"
  by (induction tuple as ps rule: validate_profiles.induct) auto

lemma read_config_Inr: "read_config name fa jr path = Inr c \<Longrightarrow> owner_file fa jr path c"
  by (auto simp: read_config_def owner_file_def decode_payload_Inr ValidateOwnerOnlyRegular_iff min_def
      split: sum.splits if_splits)

definition catalogued :: "ServerConfig \<Rightarrow> string \<Rightarrow> string \<Rightarrow> ArtifactRecord \<Rightarrow> bool" where
  "catalogued c ident pluginID a \<longleftrightarrow> map_of (rc_Artifacts c) ident = Some a \<and> ar_ArtifactID a = ident \<and> ar_PluginID a = pluginID \<and>
     pluginID \<in> set (en_AllowedPlugins (rc_Enrollment c)) \<and> validSHA256 (ar_SHA256 a)"

lemma catalog_artifact_catalogued:
  assumes "validate_artifacts (en_AllowedPlugins (rc_Enrollment c)) (rc_Artifacts c) = Inr u"
    "catalog_artifact (rc_Artifacts c) ident pluginID"
  shows "\<exists>a. catalogued c ident pluginID a"
proof -
  obtain a where a: "map_of (rc_Artifacts c) ident = Some a" "ar_PluginID a = pluginID"
    using assms(2) by (auto simp: catalog_artifact_def split: option.splits)
  then show ?thesis using validate_artifacts_Inr [OF assms(1) map_of_SomeD [OF a(1)]] by (auto simp: catalogued_def)
qed

text \<open>
  C38. The registry a server starts with is closed: the file was the owner's own and unambiguous, and every profile that
  \<open>ProfileFor\<close> or its acceptance variant can choose is of the enrolled Paper tuple and joins two artifacts of the catalogue, found
  under their own IDs, both of the requested plugin, which the enrollment allows, and both with a full digest; the second is the requested one.
\<close>

theorem loaded_registry_closed:
  assumes "load_server fa jr path = Inr c"
    and "ProfileFor (config_Registry c) pluginID target = Inr p \<or> ProfileForG03Acceptance (config_Registry c) pluginID target = Inr p"
  shows "owner_file fa jr path c \<and> map_of (rc_Profiles c) (tp_ProfileID p) \<noteq> None \<and>
    tp_PaperTuple p = en_PaperTuple (rc_Enrollment c) \<and> tp_ToArtifactID p = target \<and>
    (\<exists>source a. catalogued c (tp_FromArtifactID p) pluginID source \<and> catalogued c target pluginID a) \<and>
    distinct (en_AllowedPlugins (rc_Enrollment c)) \<and> sp_ProfileID (rc_Support c) = en_SupportProfileID (rc_Enrollment c)"
proof -
  have l: "owner_file fa jr path c" "validate_server c = Inr ()"
    using assms(1) read_config_Inr by (auto simp: load_server_def)
  then have v: "distinct (en_AllowedPlugins (rc_Enrollment c))" "sp_ProfileID (rc_Support c) = en_SupportProfileID (rc_Enrollment c)"
      "validate_artifacts (en_AllowedPlugins (rc_Enrollment c)) (rc_Artifacts c) = Inr ()"
      "validate_profiles (en_PaperTuple (rc_Enrollment c)) (rc_Artifacts c) (rc_Profiles c) = Inr ()"
    using validate_allowed_Inr by (auto simp: validate_server_def Let_def)
  obtain ident where i: "(ident, p) \<in> set (rc_Profiles c)" "tp_PluginID p = pluginID" "tp_ToArtifactID p = target"
    using assms(2)
    by (auto simp: ProfileFor_def ProfileForG03Acceptance_def config_Registry_def dest!: profile_for_SomeD split: option.splits)
  note p = validate_profiles_Inr [OF v(4) i(1)]
  have "map_of (rc_Profiles c) (tp_ProfileID p) \<noteq> None" using weak_map_of_SomeI [OF i(1)] p by auto
  moreover have "\<exists>a. catalogued c (tp_FromArtifactID p) pluginID a" "\<exists>a. catalogued c target pluginID a"
    using p i catalog_artifact_catalogued [OF v(3)] by auto
  ultimately show ?thesis using l(1) v(1,2) p i(3) by blast
qed

definition sample_digest :: string where "sample_digest = hex_encode (replicate 32 3)"

definition sample_server :: ServerConfig where
  "sample_server =
     \<lparr>rc_SchemaVersion = ''gar.server-config.v1'',
      rc_Enrollment = sample_enrollment\<lparr>en_AllowedPlugins := [''plug''], en_SupportProfileID := ''m1''\<rparr>,
      rc_Artifacts = [(''a'', (sample_artifact ''a'')\<lparr>ar_SHA256 := sample_digest\<rparr>), (''b'', (sample_artifact ''b'')\<lparr>ar_SHA256 := sample_digest\<rparr>)],
      rc_Profiles = [(''prof'', sample_profile ''prof'' ''a'')], rc_Support = DefaultM1Profile\<lparr>sp_ProfileID := ''m1''\<rparr>,
      rc_CurrentRevocationEpoch = 1, rc_PaperRuntime = None, rc_HostObservation = None\<rparr>"

lemma sample_server_loaded: "load_server sample_access (sample_reader sample_server) path = Inr sample_server"
proof -
  have "validSHA256 sample_digest" by (simp add: validSHA256_def sample_digest_def hex_roundtrip hex_encode_lower)
  then have "validate_server sample_server = Inr ()"
    by (simp add: validate_server_def sample_server_def sample_enrollment_def sample_artifact_def sample_profile_def
        catalog_artifact_def check_def)
  moreover have "reject_duplicates [LBraceOpen, LBraceClose] = Inr ()"
    unfolding reject_duplicates_iff by (intro exI [of _ "JObject []"]) simp
  ultimately show ?thesis
    by (simp add: load_server_def read_config_def decode_payload_def ValidateOwnerOnlyRegular_def sample_access_def sample_mode
        MiB_def check_def wrap_def)
qed

theorem loaded_registry_closed_witness:
  "\<exists>source a. catalogued sample_server ''a'' ''plug'' source \<and> catalogued sample_server ''b'' ''plug'' a"
proof -
  have "ProfileFor (config_Registry sample_server) ''plug'' ''b'' = Inr (sample_profile ''prof'' ''a'')"
    by (simp add: ProfileFor_def config_Registry_def sample_server_def sample_profile_def)
  then show ?thesis
    using loaded_registry_closed [OF sample_server_loaded disjI1] by (fastforce simp: sample_profile_def)
qed

section \<open>The roots of an engine\<close>

lemma check_roots_Inr: "check_roots fa ps = Inr u \<Longrightarrow> p \<in> set ps \<Longrightarrow> clean_absolute p \<and> fa_EvalSymlinks fa p = Inr p"
  by (induction fa ps rule: check_roots.induct) (auto simp: clean_absolute_def IsAbs_def HasPrefix_def)

text \<open>
  C39. An engine reads and writes in disjoint places: once it is constructed, no clean absolute path lies in both the data root and the
  destination, both roots are clean, absolute and free of symbolic links, the destination is a directory of the owner that nobody
  else can enter, the artifact is a path below the data root outside the excluded directories, and the limits are positive and bounded.
\<close>

theorem engine_roots_disjoint:
  assumes "NewEngine valid_utf8 fa info_of c database = Inr e" "clean_absolute p"
  shows "\<not> (path_within p (cf_DataRoot c) \<and> path_within p (cf_Destination c)) \<and>
    fa_EvalSymlinks fa (cf_DataRoot c) = Inr (cf_DataRoot c) \<and> fa_EvalSymlinks fa (cf_Destination c) = Inr (cf_Destination c) \<and>
    (\<exists>info. fa_Stat fa (cf_Destination c) = Inr info \<and> IsDir (st_mode info) \<and> Perm (st_mode info) = 448 \<and>
       st_uid info = fa_Geteuid fa mod 2 ^ 32 \<and> eg_destinationIdentity e = info_of info) \<and>
    ''..'' \<notin> set (split_on CHR ''/'' (cf_SourceArtifactPath c)) \<and>
    hd (split_on CHR ''/'' (cf_SourceArtifactPath c)) \<notin> {'''', ''logs'', ''cache'', ''temporary-sockets''} \<and>
    0 < cf_MaxBytes c \<and> cf_MaxBytes c \<le> 2 ^ 40 \<and> 0 < cf_MaxFiles c \<and> cf_MaxFiles c \<le> 1000000"
proof -
  obtain info where e: "ValidPath valid_utf8 (cf_SourceArtifactPath c)" "cf_SourceArtifactPath c \<noteq> ''.''"
      "\<not> excluded_top (cf_SourceArtifactPath c)" "check_roots fa [cf_DataRoot c, cf_Destination c] = Inr ()"
      "\<not> path_within (cf_DataRoot c) (cf_Destination c)" "\<not> path_within (cf_Destination c) (cf_DataRoot c)"
      "fa_Stat fa (cf_Destination c) = Inr info" "IsDir (st_mode info)" "Perm (st_mode info) = 448"
      "st_uid info = fa_Geteuid fa mod 2 ^ 32" "eg_destinationIdentity e = info_of info"
      "0 < cf_MaxBytes c" "cf_MaxBytes c \<le> 2 ^ 40" "0 < cf_MaxFiles c" "cf_MaxFiles c \<le> 1000000"
    using assms(1) by (auto simp: NewEngine_def not_less not_le split: sum.splits)
  have r: "clean_absolute (cf_DataRoot c)" "clean_absolute (cf_Destination c)" "fa_EvalSymlinks fa (cf_DataRoot c) = Inr (cf_DataRoot c)"
      "fa_EvalSymlinks fa (cf_Destination c) = Inr (cf_Destination c)"
    using check_roots_Inr [OF e(4)] by simp_all
  have "\<not> (path_within p (cf_DataRoot c) \<and> path_within p (cf_Destination c))"
  proof
    assume "path_within p (cf_DataRoot c) \<and> path_within p (cf_Destination c)"
    then obtain xs ys where "elems (cf_DataRoot c) @ xs = elems (cf_Destination c) @ ys"
      using within_iff_prefix assms(2) r(1,2) by metis
    then show False
      using e(5,6) within_iff_prefix [OF r(1,2)] within_iff_prefix [OF r(2,1)] by (simp add: append_eq_append_conv2) metis
  qed
  moreover have "''..'' \<notin> set (split_on CHR ''/'' (cf_SourceArtifactPath c))" "hd (split_on CHR ''/'' (cf_SourceArtifactPath c)) \<noteq> ''''"
    using e(1,2) hd_in_set [OF split_on_ne] by (auto simp: ValidPath_def)
  ultimately show ?thesis using r e by (simp add: excluded_top_def)
qed


definition sample_roots :: file_access where
  "sample_roots = sample_access\<lparr>fa_Stat := (\<lambda>_. Inr \<lparr>st_mode = push_bit 31 1 OR 448, st_uid = 7, st_size = 0, st_dev = 1, st_ino = 2\<rparr>)\<rparr>"

definition sample_backup :: Config where
  "sample_backup = \<lparr>cf_DataRoot = ''/srv/data'', cf_Destination = ''/srv/out'', cf_SourceArtifactPath = ''plugins/p.jar'',
     cf_SourceArtifactFile = '''', cf_Enrollment = sample_enrollment, cf_MaxBytes = 100, cf_MaxFiles = 10\<rparr>"

definition sample_info :: "file_status \<Rightarrow> file_info" where
  "sample_info s = \<lparr>fi_kind = DirectoryFile, fi_dev = st_dev s, fi_ino = st_ino s, fi_nlink = 2, fi_size = st_size s, fi_mtime = 0\<rparr>"

lemma sample_engine: "\<exists>e. NewEngine (\<lambda>_. True) sample_roots sample_info sample_backup True = Inr e"
proof -
  have p: "IsAbs ''/srv/data'' \<and> Clean ''/srv/data'' = ''/srv/data''" "IsAbs ''/srv/out'' \<and> Clean ''/srv/out'' = ''/srv/out''"
      "\<not> path_within ''/srv/data'' ''/srv/out''" "\<not> path_within ''/srv/out'' ''/srv/data''"
      "split_on CHR ''/'' ''plugins/p.jar'' = [''plugins'', ''p.jar'']" "\<not> Contains ''plugins/p.jar'' [CHR 0x5C]"
    by code_simp+
  have m: "IsDir (push_bit 31 1 OR 448)" "Perm (push_bit 31 1 OR 448) = 448" by code_simp+
  show ?thesis
    using p m
    by (simp add: NewEngine_def sample_backup_def sample_roots_def sample_access_def ValidPath_def excluded_top_def check_source_def
        sample_enrollment_def del: push_bit_numeral_minus_1 One_nat_def)
qed

theorem engine_roots_disjoint_witness:
  "\<not> (path_within ''/srv/data/world'' ''/srv/data'' \<and> path_within ''/srv/data/world'' ''/srv/out'')"
proof -
  obtain e where "NewEngine (\<lambda>_. True) sample_roots sample_info sample_backup True = Inr e" using sample_engine by blast
  moreover have "clean_absolute ''/srv/data/world''" by code_simp
  ultimately show ?thesis using engine_roots_disjoint by (fastforce simp: sample_backup_def)
qed

end
