(* ===== verification/Minecraft_Protocol.thy ===== *)
theory Minecraft_Protocol
  imports "HOL-Library.Word" Go_Net Local_Files
begin

unbundle bit_operations_syntax

text \<open>
  The Minecraft client of the acceptance probes, \<open>src/internal/acceptance/g02/protocol.go\<close>: variable-length integers, length-prefixed
  strings and packets, the status exchange that discovers the protocol of a server and the beginning of a login.

  An \<open>int32\<close> is a \<open>32 word\<close>, read with \<open>sint\<close> where the code compares it. A reader is the bytes it still delivers with the error
  that follows them, which is \<open>io.EOF\<close> for a reader over a slice.
\<close>

section \<open>Encoding\<close>

definition maxMinecraftPacket :: int where "maxMinecraftPacket = 2 ^ 20"

function varint_bytes :: "32 word \<Rightarrow> nat list" where
  "varint_bytes remaining =
     (let current = remaining AND 0x7F; rest = drop_bit 7 remaining in
      if rest \<noteq> 0 then unat (current OR 0x80) # varint_bytes rest else [unat current])"
  by auto

termination
proof (relation "measure unat")
  fix remaining current rest :: "32 word"
  assume "rest = drop_bit 7 remaining" "rest \<noteq> 0"
  then have "unat rest \<noteq> 0" "unat rest = unat remaining div 128"
    by (simp add: unat_eq_0, simp add: drop_bit_eq_div unat_div_distrib)
  then show "(rest, remaining) \<in> measure unat" by simp
qed simp

declare varint_bytes.simps [simp del]

definition appendVarInt :: "nat list \<Rightarrow> 32 word \<Rightarrow> nat list" where
  "appendVarInt destination v = destination @ varint_bytes v"

definition appendString :: "nat list \<Rightarrow> nat list \<Rightarrow> nat list" where
  "appendString destination v = appendVarInt destination (word_of_nat (length v)) @ v"

definition packet :: "32 word \<Rightarrow> nat list \<Rightarrow> nat list" where
  "packet packetID payload =
     (let body = appendVarInt [] packetID @ payload in appendVarInt [] (word_of_nat (length body)) @ body)"

section \<open>Decoding\<close>

type_synonym reader = "nat list \<times> gar_error"

definition unexpected_EOF :: gar_error where "unexpected_EOF = OtherError ''unexpected EOF''"

fun read_varint :: "nat \<Rightarrow> 32 word \<Rightarrow> gar_error \<Rightarrow> nat list \<Rightarrow> (32 word \<times> nat list) result" where
  "read_varint position v err [] =
     (if position < 5 then Inl err else Inl (OtherError ''Minecraft VarInt exceeds five bytes''))"
| "read_varint position v err (current # rest) =
     (if position < 5 then
        (let v' = v OR push_bit (7 * position) (word_of_nat (current AND 0x7F)) in
         if current AND 0x80 = 0 then Inr (v', rest) else read_varint (position + 1) v' err rest)
      else Inl (OtherError ''Minecraft VarInt exceeds five bytes''))"

definition readVarInt :: "reader \<Rightarrow> (32 word \<times> reader) result" where
  "readVarInt r = and_then (read_varint 0 0 (snd r) (fst r)) (\<lambda>(v, rest). Inr (v, (rest, snd r)))"

text \<open>\<open>io.ReadFull\<close>: fewer bytes are an error, and the end of the input within them an unexpected one.\<close>

definition ReadFull :: "reader \<Rightarrow> nat \<Rightarrow> (nat list \<times> reader) result" where
  "ReadFull r n =
     (if n \<le> length (fst r) then Inr (take n (fst r), (drop n (fst r), snd r))
      else Inl (if snd r = io_EOF \<and> fst r \<noteq> [] then unexpected_EOF else snd r))"

definition readPacket :: "reader \<Rightarrow> ((32 word \<times> nat list) \<times> reader) result" where
  "readPacket r =
     and_then (readVarInt r) (\<lambda>(len, r).
     and_then (check (\<not> (sint len < 1 \<or> maxMinecraftPacket < sint len)) (OtherError ''invalid Minecraft packet length'')) (\<lambda>_.
     and_then (ReadFull r (nat (sint len))) (\<lambda>(payload, r).
     and_then (readVarInt (payload, io_EOF)) (\<lambda>(packetID, buffer).
     Inr ((packetID, fst buffer), r)))))"

definition consumeString :: "nat list \<Rightarrow> (nat list \<times> nat list) result" where
  "consumeString payload =
     and_then (readVarInt (payload, io_EOF)) (\<lambda>(len, r).
     and_then (check (\<not> (sint len < 0 \<or> maxMinecraftPacket < sint len \<or> int (length (fst r)) < sint len))
       (OtherError ''invalid Minecraft string length'')) (\<lambda>_.
     and_then (ReadFull r (nat (sint len))) (\<lambda>(v, r). Inr (v, fst r))))"

section \<open>Exchanges\<close>

text \<open>
  A connection is a number in the world \<open>'w\<close> of the network: \<open>mn_Dial\<close> with the network, the address and the timeout opens it,
  \<open>mn_Deadline\<close> sets its deadline after the given time (\<open>None\<close> clears it), and \<open>mn_Stream\<close> is what it delivers until its deadline or its end.
  \<open>mn_Status\<close> is the decoding of the status document, first strictly and then of its version object alone.
\<close>

record 'w minecraft_net =
  mn_Dial :: "string \<Rightarrow> string \<Rightarrow> duration \<Rightarrow> 'w \<Rightarrow> nat result \<times> 'w"
  mn_Deadline :: "nat \<Rightarrow> duration option \<Rightarrow> 'w \<Rightarrow> unit result \<times> 'w"
  mn_Write :: "nat \<Rightarrow> nat list \<Rightarrow> 'w \<Rightarrow> unit result \<times> 'w"
  mn_Stream :: "nat \<Rightarrow> 'w \<Rightarrow> reader \<times> 'w"
  mn_Close :: "nat \<Rightarrow> 'w \<Rightarrow> 'w"
  mn_Status :: "nat list \<Rightarrow> (int \<times> string) result"

definition net_then :: "('w \<Rightarrow> 'a result \<times> 'w) \<Rightarrow> ('a \<Rightarrow> 'w \<Rightarrow> 'b result \<times> 'w) \<Rightarrow> 'w \<Rightarrow> 'b result \<times> 'w" where
  "net_then m f w = (case m w of (Inl err, w) \<Rightarrow> (Inl err, w) | (Inr x, w) \<Rightarrow> f x w)"

definition net_result :: "'a result \<Rightarrow> 'w \<Rightarrow> 'a result \<times> 'w" where
  "net_result r w = (r, w)"

text \<open>\<open>strconv.ParseUint\<close> in base 10 with 16 bits.\<close>

definition ParseUint16 :: "string \<Rightarrow> int result" where
  "ParseUint16 s =
     (if s = '''' \<or> \<not> list_all ascii_digit s then Inl (OtherError ''invalid syntax'')
      else if 65535 < digits_value s then Inl (OtherError ''value out of range'') else Inr (digits_value s))"

definition handshake :: "32 word \<Rightarrow> string \<Rightarrow> int \<Rightarrow> 32 word \<Rightarrow> nat list" where
  "handshake protocol host port next_state =
     appendVarInt (appendString (appendVarInt [] protocol) (map of_char host) @ [nat (port div 256), nat (port mod 256)]) next_state"

definition address_parts :: "string \<Rightarrow> (string \<times> int) result" where
  "address_parts address =
     and_then (SplitHostPort address) (\<lambda>(host, portText). and_then (ParseUint16 portText) (\<lambda>port. Inr (host, port)))"

definition writePacket :: "'w minecraft_net \<Rightarrow> nat \<Rightarrow> 32 word \<Rightarrow> nat list \<Rightarrow> 'w \<Rightarrow> unit result \<times> 'w" where
  "writePacket mn connection packetID payload = mn_Write mn connection (packet packetID payload)"

definition status_exchange :: "'w minecraft_net \<Rightarrow> string \<Rightarrow> duration \<Rightarrow> nat \<Rightarrow> 'w \<Rightarrow> (int \<times> string) result \<times> 'w" where
  "status_exchange mn address timeout connection =
     net_then (mn_Deadline mn connection (Some timeout)) (\<lambda>_.
     net_then (net_result (address_parts address)) (\<lambda>(host, port).
     net_then (writePacket mn connection 0 (handshake (- 1) host port 1)) (\<lambda>_.
     net_then (writePacket mn connection 0 []) (\<lambda>_ w.
     case mn_Stream mn connection w of (stream, w) \<Rightarrow>
       (and_then (readPacket stream) (\<lambda>((packetID, payload), _).
        and_then (check (packetID = 0) (OtherError ''unexpected Minecraft status packet ID'')) (\<lambda>_.
        and_then (case consumeString payload of
            Inl err \<Rightarrow> Inl (wrap_error ''decode Minecraft status response: '' err)
          | Inr (statusJSON, remaining) \<Rightarrow> and_then (check (remaining = []) (OtherError ''decode Minecraft status response: '')) (\<lambda>_.
              Inr statusJSON)) (\<lambda>statusJSON.
        and_then (mn_Status mn statusJSON) (\<lambda>(protocol, name).
        and_then (check (\<not> (protocol \<le> 0 \<or> name = '''')) (OtherError ''Minecraft status omitted a valid protocol tuple'')) (\<lambda>_.
        Inr (protocol, name)))))), w)))))"

definition discoverProtocol :: "'w minecraft_net \<Rightarrow> string \<Rightarrow> duration \<Rightarrow> 'w \<Rightarrow> (int \<times> string) result \<times> 'w" where
  "discoverProtocol mn address timeout =
     net_then (mn_Dial mn (networkFor address) address timeout) (\<lambda>connection w.
     case status_exchange mn address timeout connection w of (r, w) \<Rightarrow> (r, mn_Close mn connection w))"

definition login_start :: "nat list" where
  "login_start = appendString [] (map of_char ''GARG02Probe'') @ [0x47, 0x41, 0x52, 0x02, 0, 0, 0, 0, 0, 0, 0, 0, 0, 0, 0, 2]"

definition login_exchange :: "'w minecraft_net \<Rightarrow> string \<Rightarrow> int \<Rightarrow> duration \<Rightarrow> nat \<Rightarrow> 'w \<Rightarrow> unit result \<times> 'w" where
  "login_exchange mn address protocol timeout connection =
     net_then (mn_Deadline mn connection (Some timeout)) (\<lambda>_.
     net_then (net_result (address_parts address)) (\<lambda>(host, port).
     net_then (writePacket mn connection 0 (handshake (word_of_int protocol) host port 2)) (\<lambda>_.
     net_then (writePacket mn connection 0 login_start) (\<lambda>_.
     mn_Deadline mn connection None))))"

text \<open>A login that fails is closed; one that succeeds stays open and is returned.\<close>

definition beginLogin :: "'w minecraft_net \<Rightarrow> string \<Rightarrow> int \<Rightarrow> duration \<Rightarrow> 'w \<Rightarrow> nat result \<times> 'w" where
  "beginLogin mn address protocol timeout =
     net_then (mn_Dial mn (networkFor address) address timeout) (\<lambda>connection w.
     case login_exchange mn address protocol timeout connection w of
       (Inl err, w) \<Rightarrow> (Inl err, mn_Close mn connection w)
     | (Inr _, w) \<Rightarrow> (Inr connection, w))"

section \<open>Round trips\<close>

lemma masks: "(127 :: 32 word) = mask 7" "(127 :: nat) = mask 7"
  by (simp_all add: mask_eq_exp_minus_1)

lemma continuation_bit: "bit (128 :: 32 word) n \<longleftrightarrow> n = 7" "bit (128 :: nat) n \<longleftrightarrow> n = 7" "bit (128 :: int) n \<longleftrightarrow> n = 7"
  using bit_exp_iff [of 7 n, where 'a = "32 word"] bit_exp_iff [of 7 n, where 'a = nat] bit_exp_iff [of 7 n, where 'a = int]
  by auto

lemma split_septet:
  fixes v :: "32 word"
  shows "take_bit n v OR push_bit n (drop_bit n v AND 0x7F) = take_bit (n + 7) v"
  unfolding masks by (intro bit_word_eqI) (auto simp: bit_simps continuation_bit)

lemma septet_byte:
  fixes r :: "32 word"
  shows "word_of_nat (unat (r AND 0x7F) AND 0x7F) = r AND 0x7F" "word_of_nat (unat (r AND 0x7F OR 0x80) AND 0x7F) = r AND 0x7F"
    "unat (r AND 0x7F) AND 0x80 = 0" "unat (r AND 0x7F OR 0x80) AND 0x80 \<noteq> 0"
proof -
  show "word_of_nat (unat (r AND 0x7F) AND 0x7F) = r AND 0x7F"
    unfolding masks by (intro bit_word_eqI) (auto simp: bit_simps continuation_bit)
  show "word_of_nat (unat (r AND 0x7F OR 0x80) AND 0x7F) = r AND 0x7F"
    unfolding masks by (intro bit_word_eqI) (auto simp: bit_simps continuation_bit)
  show "unat (r AND 0x7F) AND 0x80 = 0"
    unfolding masks by (intro bit_eqI) (auto simp: bit_simps continuation_bit)
  have "bit (unat (r AND 0x7F OR 0x80) AND 0x80) 7"
    unfolding masks by (auto simp: bit_simps continuation_bit)
  then show "unat (r AND 0x7F OR 0x80) AND 0x80 \<noteq> 0" by (metis bit_0_eq bot_apply bot_bool_def)
qed

lemma read_varint_bytes:
  fixes v :: "32 word"
  assumes "n < 5" "r = drop_bit (7 * n) v"
  shows "read_varint n (take_bit (7 * n) v) err (varint_bytes r @ rest) = Inr (v, rest)"
  using assms
proof (induction r arbitrary: n rule: varint_bytes.induct)
  case (1 r)
  have part: "take_bit (7 * n) v OR push_bit (7 * n) (r AND 0x7F) = take_bit (7 * (n + 1)) v"
    using split_septet [of "7 * n" v] "1.prems"(2) by (simp add: algebra_simps)
  have next_part: "drop_bit 7 r = drop_bit (7 * (n + 1)) v"
    using "1.prems"(2) by (simp add: drop_bit_drop_bit algebra_simps)
  show ?case
  proof (cases "drop_bit 7 r = 0")
    case True
    then have "drop_bit (7 * (n + 1)) v = 0" using next_part by metis
    then have "take_bit (7 * (n + 1)) v = v"
      using bits_ident [of "7 * (n + 1)" v] by simp
    then show ?thesis using True "1.prems"(1) part
      by (subst varint_bytes.simps) (simp add: Let_def septet_byte)
  next
    case False
    have "n \<noteq> 4"
    proof
      assume "n = 4"
      then have "drop_bit 7 r = 0" unfolding next_part by (intro bit_word_eqI) (auto simp: bit_simps)
      with False show False ..
    qed
    then have "read_varint (n + 1) (take_bit (7 * (n + 1)) v) err (varint_bytes (drop_bit 7 r) @ rest) = Inr (v, rest)"
      using "1.prems"(1) False next_part by (intro "1.IH") auto
    then show ?thesis using False "1.prems"(1) part
      by (subst varint_bytes.simps) (simp add: Let_def septet_byte)
  qed
qed

lemma readVarInt_append: "readVarInt (varint_bytes v @ rest, err) = Inr (v, (rest, err))"
  using read_varint_bytes [of 0 v v err rest] by (simp add: readVarInt_def)

lemma varint_length_below: "unat v < 2 ^ (7 * Suc k) \<Longrightarrow> 1 \<le> length (varint_bytes v) \<and> length (varint_bytes v) \<le> Suc k"
proof (induction v arbitrary: k rule: varint_bytes.induct)
  case (1 v)
  show ?case
  proof (cases "drop_bit 7 v = 0")
    case False
    then have small: "unat (drop_bit 7 v) = unat v div 128" "unat (drop_bit 7 v) \<noteq> 0"
      by (simp add: drop_bit_eq_div unat_div_distrib, simp add: unat_eq_0)
    then obtain j where j: "k = Suc j" using "1.prems" by (cases k) auto
    have "unat v div 128 < 2 ^ (7 * Suc j)"
      using "1.prems" j by (simp add: less_mult_imp_div_less power_add mult.commute)
    then show ?thesis using 1(1) False small j by (subst (1 2) varint_bytes.simps) (auto simp: Let_def)
  qed (subst (1 2) varint_bytes.simps, simp add: Let_def)
qed

lemma unat_32: "unat (v :: 32 word) < 2 ^ 32"
  using unsigned_less [of v] by simp

lemma varint_length: "1 \<le> length (varint_bytes v)" "length (varint_bytes v) \<le> 5"
  using varint_length_below [of v 4] unat_32 [of v] by auto

lemma sint_length: "n < 2 ^ 31 \<Longrightarrow> sint (word_of_nat n :: 32 word) = int n"
  by (simp add: sint_uint unat_of_nat signed_take_bit_int_eq_self uint_nat)

lemma readPacket_frame:
  assumes "1 \<le> length b" "length b \<le> 2 ^ 20"
  shows "readPacket (varint_bytes (word_of_nat (length b)) @ b @ rest, err) =
    and_then (readVarInt (b, io_EOF)) (\<lambda>(packetID, buffer). Inr ((packetID, fst buffer), (rest, err)))"
proof -
  have "sint (word_of_nat (length b) :: 32 word) = int (length b)" using assms by (intro sint_length) simp
  moreover have "b \<noteq> []" using assms(1) by auto
  ultimately show ?thesis using assms
    by (simp add: readPacket_def readVarInt_append maxMinecraftPacket_def check_def ReadFull_def)
qed

text \<open>
  C40. Packets survive the wire: whatever follows it in the stream, a packet whose body is at most 1 MiB is read back as its number and
  payload with the stream left at its end, a number takes one to five bytes, and a string that was appended is consumed
  with the bytes after it left over.
\<close>

theorem minecraft_packet_roundtrip:
  assumes "length payload \<le> 2 ^ 20 - 5" "length s \<le> 2 ^ 20"
  shows "readPacket (packet packetID payload @ rest, err) = Inr ((packetID, payload), (rest, err)) \<and>
    consumeString (appendString [] s @ rest) = Inr (s, rest) \<and>
    readVarInt (appendVarInt [] packetID @ rest, err) = Inr (packetID, (rest, err)) \<and>
    length (appendVarInt [] packetID) \<in> {1..5}"
proof -
  let ?body = "varint_bytes packetID @ payload"
  have len: "1 \<le> length ?body" "length ?body \<le> 2 ^ 20"
    using varint_length [of packetID] assms(1) by auto
  have "packet packetID payload @ rest = varint_bytes (word_of_nat (length ?body)) @ ?body @ rest"
    by (simp add: packet_def appendVarInt_def Let_def)
  then have "readPacket (packet packetID payload @ rest, err) = Inr ((packetID, payload), (rest, err))"
    using readPacket_frame [OF len] by (simp add: readVarInt_append)
  moreover have "sint (word_of_nat (length s) :: 32 word) = int (length s)" using assms(2) by (intro sint_length) simp
  then have "consumeString (appendString [] s @ rest) = Inr (s, rest)"
    using assms(2)
    by (simp add: consumeString_def appendString_def appendVarInt_def readVarInt_append maxMinecraftPacket_def check_def ReadFull_def)
  ultimately show ?thesis using varint_length [of packetID] by (simp add: appendVarInt_def readVarInt_append)
qed

theorem minecraft_packet_roundtrip_witness:
  "readPacket (packet 0 [104, 105] @ [7], io_EOF) = Inr ((0, [104, 105]), ([7], io_EOF)) \<and>
   consumeString (appendString [] [104, 105] @ [7]) = Inr ([104, 105], [7])"
  using minecraft_packet_roundtrip [of "[104, 105]" "[104, 105]" 0 "[7]" io_EOF] by simp

end
