(* ===== verification/G02_Evidence.thy ===== *)
theory G02_Evidence
  imports Runtime_Config Minecraft_Protocol
begin

text \<open>
  Configuration and evidence of the acceptance run of the admission barrier, \<open>config.go\<close> and \<open>evidence.go\<close> of
  \<open>src/internal/acceptance/g02\<close>. \<open>trim\<close> is \<open>strings.TrimSpace\<close>; the values the code ranges over in a Go map are checked in the order in which
  they are written.
\<close>

section \<open>Configuration\<close>

record G02Config =
  ga_SchemaVersion :: string
  ga_AdmissionConfigPath :: string
  ga_ServerConfigPath :: string
  ga_EvidencePath :: string
  ga_MinecraftAddresses :: "string list"
  ga_EnrollmentID :: string
  ga_ContainerIdentity :: string
  ga_DataRootIdentity :: string
  ga_PaperTuple :: string
  ga_ConnectionDeadlineMS :: int
  ga_RuntimeSettleTimeoutMS :: int

fun validate_addresses :: "string list \<Rightarrow> string list \<Rightarrow> unit result" where
  "validate_addresses seen [] = Inr ()"
| "validate_addresses seen (address # rest) =
     (case SplitHostPort address of
        Inl err \<Rightarrow> Inl (wrap_error ''minecraft_addresses: '' err)
      | Inr (host, port) \<Rightarrow>
          and_then (check (\<not> ((case ParseIP host of None \<Rightarrow> True | Some ip \<Rightarrow> \<not> IsLoopback ip) \<or> port = '''' \<or> port = ''0''))
            (OtherError ''minecraft_addresses must use literal loopback addresses and non-zero ports'')) (\<lambda>_.
          and_then (check (address \<notin> set seen) (OtherError ''duplicate minecraft address'')) (\<lambda>_.
          validate_addresses (address # seen) rest)))"

definition validate_g02 :: "(string \<Rightarrow> string) \<Rightarrow> G02Config \<Rightarrow> unit result" where
  "validate_g02 trim c =
     and_then (check (ga_SchemaVersion c = ''gar.g02-acceptance-config.v2'') (OtherError ''unsupported G-02 acceptance config schema'')) (\<lambda>_.
     and_then (check (list_all clean_absolute [ga_AdmissionConfigPath c, ga_ServerConfigPath c, ga_EvidencePath c])
       (OtherError ''path must be a clean absolute path'')) (\<lambda>_.
     and_then (check (\<not> (ga_AdmissionConfigPath c = ga_EvidencePath c \<or> ga_ServerConfigPath c = ga_EvidencePath c \<or>
         ga_AdmissionConfigPath c = ga_ServerConfigPath c)) (OtherError ''admission, server, and evidence paths must be distinct'')) (\<lambda>_.
     and_then (check (\<not> (length (ga_MinecraftAddresses c) < 1 \<or> 4 < length (ga_MinecraftAddresses c)))
       (OtherError ''minecraft_addresses must contain one through four fixed bindings'')) (\<lambda>_.
     and_then (validate_addresses [] (ga_MinecraftAddresses c)) (\<lambda>_.
     and_then (check (list_all (\<lambda>v. \<not> (trim v \<noteq> v \<or> v = '''' \<or> 512 < length v))
         [ga_EnrollmentID c, ga_ContainerIdentity c, ga_DataRootIdentity c, ga_PaperTuple c])
       (OtherError ''value must be non-empty, trimmed, and at most 512 bytes'')) (\<lambda>_.
     and_then (check (\<not> (ga_ConnectionDeadlineMS c < 250 \<or> 10000 < ga_ConnectionDeadlineMS c))
       (OtherError ''connection_deadline_milliseconds must be 250 through 10000'')) (\<lambda>_.
     check (\<not> (ga_RuntimeSettleTimeoutMS c < 1000 \<or> 30000 < ga_RuntimeSettleTimeoutMS c))
       (OtherError ''runtime_settle_timeout_milliseconds must be 1000 through 30000''))))))))"

definition load_g02 :: "(string \<Rightarrow> string) \<Rightarrow> file_access \<Rightarrow> G02Config json_reader \<Rightarrow> string \<Rightarrow> G02Config result" where
  "load_g02 trim fa jr path =
     and_then (ValidateOwnerOnlyRegular fa path) (\<lambda>_.
     and_then (fa_ReadFile fa path) (\<lambda>payload.
     and_then (check (length payload \<le> MiB) (OtherError ''G-02 acceptance config exceeds 1 MiB'')) (\<lambda>_.
     and_then (reject_duplicates (jr_lexemes jr payload)) (\<lambda>_.
     and_then (wrap ''decode G-02 acceptance config: '' (jr_Decode jr payload)) (\<lambda>config.
     and_then (check (\<not> jr_trailing jr payload) (OtherError ''G-02 acceptance config contains trailing JSON'')) (\<lambda>_.
     and_then (validate_g02 trim config) (\<lambda>_. Inr config)))))))"

definition ConnectionDeadline :: "G02Config \<Rightarrow> duration" where
  "ConnectionDeadline c = ga_ConnectionDeadlineMS c * millisecond"

definition RuntimeSettleTimeout :: "G02Config \<Rightarrow> duration" where
  "RuntimeSettleTimeout c = ga_RuntimeSettleTimeoutMS c * millisecond"

section \<open>Evidence\<close>

record MinecraftLoginEvidence =
  me_EvidenceLevel :: string
  me_MinecraftAddress :: string
  me_ObservedAt :: gotime
  me_ProtocolVersion :: int
  me_ProtocolName :: string
  me_PlayerCountBefore :: int
  me_PlayerCountAfter :: int
  me_StatusProbePassed :: bool
  me_LoginHandshakeSent :: bool
  me_LoginStartSent :: bool
  me_ConnectionAliveBeforeClose :: bool
  me_CloseIssuedAt :: gotime
  me_ConnectionClosedAt :: gotime
  me_CloseLatencyMilliseconds :: int
  me_FinalAdmissionReason :: string
  me_Result :: string
  me_Failure :: string

record HostRebootEvidence =
  hr_EvidenceLevel :: string
  hr_PreparedAt :: gotime
  hr_VerifiedAt :: gotime
  hr_PreRebootBootID :: string
  hr_PostRebootBootID :: string
  hr_PreAdmissionReason :: string
  hr_PostAdmissionReason :: string
  hr_EndpointClosedBefore :: bool
  hr_EndpointClosedAfter :: bool
  hr_Result :: string
  hr_Failure :: string

record Evidence =
  ev_SchemaVersion :: string
  ev_EnrollmentID :: string
  ev_DeploymentGeneration :: int
  ev_ContainerIdentity :: string
  ev_DataRootIdentity :: string
  ev_PaperTuple :: string
  ev_PairingID :: string
  ev_MinecraftAddresses :: "string list"
  ev_UpdatedAt :: gotime
  ev_MinecraftLogins :: "MinecraftLoginEvidence list"
  ev_HostReboot :: "HostRebootEvidence option"

definition EvidenceSchemaVersion :: string where "EvidenceSchemaVersion = ''gar.g02-acceptance-evidence.v2''"

definition newEvidence :: "G02Config \<Rightarrow> int \<Rightarrow> string \<Rightarrow> gotime \<Rightarrow> Evidence" where
  "newEvidence c deploymentGeneration pairingID at_time =
     \<lparr>ev_SchemaVersion = EvidenceSchemaVersion, ev_EnrollmentID = ga_EnrollmentID c, ev_DeploymentGeneration = deploymentGeneration,
      ev_ContainerIdentity = ga_ContainerIdentity c, ev_DataRootIdentity = ga_DataRootIdentity c, ev_PaperTuple = ga_PaperTuple c,
      ev_PairingID = pairingID, ev_MinecraftAddresses = ga_MinecraftAddresses c, ev_UpdatedAt = at_time, ev_MinecraftLogins = [],
      ev_HostReboot = None\<rparr>"

definition loadEvidence :: "file_access \<Rightarrow> Evidence json_reader \<Rightarrow> string \<Rightarrow> Evidence result" where
  "loadEvidence fa jr path =
     and_then (ValidateOwnerOnlyRegular fa path) (\<lambda>_.
     and_then (fa_ReadFile fa path) (\<lambda>payload.
     and_then (check (length payload \<le> MiB) (OtherError ''G-02 evidence exceeds 1 MiB'')) (\<lambda>_.
     and_then (reject_duplicates (jr_lexemes jr payload)) (\<lambda>_.
     and_then (jr_Decode jr payload) (\<lambda>evidence.
     and_then (check (\<not> (jr_trailing jr payload \<or> ev_SchemaVersion evidence \<noteq> EvidenceSchemaVersion))
       (OtherError ''invalid G-02 evidence schema or trailing JSON'')) (\<lambda>_.
     Inr evidence))))))"

text \<open>The file is replaced by the same sequence of calls as the admission state.\<close>

definition writeEvidence ::
  "(Evidence \<Rightarrow> nat list result) \<Rightarrow> write_env \<Rightarrow> string \<Rightarrow> Evidence \<Rightarrow> files \<Rightarrow> unit result \<times> files list" where
  "writeEvidence marshal we path evidence files =
     (case and_then (validateOwnerDirectory (directory_access we) (Dir path)) (\<lambda>_. marshal evidence) of
        Inl err \<Rightarrow> (Inl err, [files])
      | Inr payload \<Rightarrow>
          (case replace_file we 384 path (payload @ [10]) files of
             (Some err, seen) \<Rightarrow> (Inl err, seen)
           | (None, seen) \<Rightarrow> (Inr (), seen)))"

end
