(* ===== verification/G02_Runner.thy ===== *)
theory G02_Runner
  imports G02_Evidence Host_Snapshot
begin

text \<open>
  The acceptance run of the admission barrier, \<open>src/internal/acceptance/g02/runner.go\<close>: it opens the gate for a Minecraft login that is
  in flight and closes it again, or checks before and after a reboot of the host that the deployment came back closed, and records what it saw.

  \<open>probe_env\<close> is what the run asks of the outside: the clock, the files as one read meets them, the host's snapshot, the directory that a file is
  replaced in, and the network. The runner's own state is the slice of results it fills and the connections it holds; \<open>gw_writes\<close> records each attempt
  to write the admission state with its outcome. A waiting loop gets the number of times its timer fires before the context ends (\<open>ge_ticks\<close>).
\<close>

section \<open>The runner\<close>

record probe_snapshot =
  ps_SchemaVersion :: string
  ps_PairingID :: string
  ps_BootID :: string
  ps_ObservedAt :: gotime
  ps_Ready :: bool
  ps_AdmissionState :: string
  ps_PlayerCount :: int
  ps_TPS :: "nat list list"
  ps_MSPT :: "nat list"
  ps_HeapUsedBytes :: int
  ps_HeapMaxBytes :: int
  ps_Plugins :: "nat list list"

record 'w probe_env =
  ge_now :: "'w \<Rightarrow> gotime \<times> 'w"
  ge_files :: "'w \<Rightarrow> file_access \<times> 'w"
  ge_host :: "'w \<Rightarrow> HostSnapshot observer_env \<times> 'w"
  ge_write :: "'w \<Rightarrow> (write_env \<times> files) \<times> 'w"
  ge_written :: "files list \<Rightarrow> 'w \<Rightarrow> 'w"
  ge_bootfile :: "'w \<Rightarrow> string result \<times> 'w"
  ge_ticks :: "'w \<Rightarrow> nat \<times> 'w"
  ge_ctx_err :: gar_error
  ge_net :: "'w minecraft_net"
  ge_ReadDeadline :: "nat \<Rightarrow> duration option \<Rightarrow> 'w \<Rightarrow> unit result \<times> 'w"
  ge_Is :: "gar_error \<Rightarrow> string \<Rightarrow> bool"
  ge_Timeout :: "gar_error \<Rightarrow> bool"
  ge_state_reader :: "AdmissionState json_reader"
  ge_runtime_reader :: "runtime_snapshot json_reader"
  ge_probe_reader :: "probe_snapshot json_reader"
  ge_evidence_reader :: "Evidence json_reader"
  ge_marshal_state :: "AdmissionState \<Rightarrow> nat list result"
  ge_marshal_evidence :: "Evidence \<Rightarrow> nat list result"
  ge_trim :: "string \<Rightarrow> string"

record G02Runner =
  gr_config :: G02Config
  gr_admission :: AdmissionConfig
  gr_server :: ServerConfig
  gr_host :: HostTarget

record 'w probe_world =
  gw_outer :: 'w
  gw_writes :: "(Mode \<times> AdmissionState result) list"
  gw_results :: "MinecraftLoginEvidence list"
  gw_connections :: "nat list"

type_synonym ('w, 'a) probe = "'w probe_world \<Rightarrow> 'a result \<times> 'w probe_world"

definition IsUnspecified :: "nat list \<Rightarrow> bool" where
  "IsUnspecified ip \<longleftrightarrow> To4 ip = Some [0, 0, 0, 0] \<or> ip = replicate 16 0"

definition matchesAdmissionListener :: "string \<Rightarrow> string list \<Rightarrow> bool" where
  "matchesAdmissionListener address listeners =
     (case SplitHostPort address of
        Inl _ \<Rightarrow> False
      | Inr (host, port) \<Rightarrow>
          list_ex (\<lambda>listener. case SplitHostPort listener of
              Inl _ \<Rightarrow> False
            | Inr (listenerHost, listenerPort) \<Rightarrow> listenerPort = port \<and>
                (case (ParseIP listenerHost, ParseIP host) of
                   (Some listenerIP, Some targetIP) \<Rightarrow> (To4 listenerIP = None) = (To4 targetIP = None) \<and>
                     (IsUnspecified listenerIP \<or> listenerIP = targetIP)
                 | _ \<Rightarrow> False)) listeners)"

fun all_listen :: "string list \<Rightarrow> string list \<Rightarrow> unit result" where
  "all_listen listeners [] = Inr ()"
| "all_listen listeners (address # rest) =
     and_then (check (matchesAdmissionListener address listeners)
       (OtherError (''minecraft address '' @ address @ '' does not match a configured admission listener''))) (\<lambda>_. all_listen listeners rest)"

definition same_identity_config :: "G02Config \<Rightarrow> AdmissionConfig \<Rightarrow> Enrollment \<Rightarrow> bool" where
  "same_identity_config c ac e \<longleftrightarrow> \<not> (en_EnrollmentID e \<noteq> ga_EnrollmentID c \<or> en_ContainerID e \<noteq> ga_ContainerIdentity c \<or>
     en_DataRootIdentity e \<noteq> ga_DataRootIdentity c \<or> en_PaperTuple e \<noteq> ga_PaperTuple c \<or>
     en_DeploymentGeneration e \<noteq> ac_DeploymentGeneration ac \<or> en_RuntimeGuardPairing e \<noteq> ac_PairingID ac)"

definition NewRunner ::
  "(string \<Rightarrow> string) \<Rightarrow> file_access \<Rightarrow> AdmissionConfig json_reader \<Rightarrow> ServerConfig json_reader \<Rightarrow> G02Config \<Rightarrow> G02Runner result" where
  "NewRunner trim fa jr_admission jr_server c =
     and_then (validate_g02 trim c) (\<lambda>_.
     and_then (load_admission fa jr_admission (ga_AdmissionConfigPath c)) (\<lambda>ac.
     and_then (all_listen (ac_ListenAddresses ac) (ga_MinecraftAddresses c)) (\<lambda>_.
     and_then (load_server fa jr_server (ga_ServerConfigPath c)) (\<lambda>sc.
     and_then (check (same_identity_config c ac (rc_Enrollment sc))
       (OtherError ''G-02 config identity does not match the owner-controlled GAR enrollment'')) (\<lambda>_.
     and_then (case rc_HostObservation sc of
         None \<Rightarrow> Inl (OtherError ''G-02 requires an owner-controlled host observation source'')
       | Some path \<Rightarrow> Inr path) (\<lambda>hostPath.
     and_then (check (rc_PaperRuntime sc = Some (ac_RuntimeSnapshotPath ac))
       (OtherError ''G-02 Paper runtime source does not match the admission runtime snapshot'')) (\<lambda>_.
     and_then (NewHostTarget hostPath (rc_Enrollment sc) (rc_Artifacts sc)) (\<lambda>host.
     Inr \<lparr>gr_config = c, gr_admission = ac, gr_server = sc, gr_host = host\<rparr>))))))))"

section \<open>Calls\<close>

definition probe_ask :: "('w \<Rightarrow> 'a \<times> 'w) \<Rightarrow> ('w, 'a) probe" where
  "probe_ask g w = (case g (gw_outer w) of (x, outer) \<Rightarrow> (Inr x, w\<lparr>gw_outer := outer\<rparr>))"

definition probe_call :: "('w \<Rightarrow> 'a result \<times> 'w) \<Rightarrow> ('w, 'a) probe" where
  "probe_call g w = (case g (gw_outer w) of (r, outer) \<Rightarrow> (r, w\<lparr>gw_outer := outer\<rparr>))"

definition probe_check :: "bool \<Rightarrow> string \<Rightarrow> ('w, unit) probe" where
  "probe_check ok message = net_result (check ok (OtherError message))"

definition probe_wrap :: "string \<Rightarrow> ('w, 'a) probe \<Rightarrow> ('w, 'a) probe" where
  "probe_wrap context m w = (case m w of (r, w) \<Rightarrow> (wrap context r, w))"

definition put_results :: "(MinecraftLoginEvidence list \<Rightarrow> MinecraftLoginEvidence list) \<Rightarrow> ('w, unit) probe" where
  "put_results f w = (Inr (), w\<lparr>gw_results := f (gw_results w)\<rparr>)"

definition evaluate :: "'w probe_env \<Rightarrow> G02Runner \<Rightarrow> gotime \<Rightarrow> ('w, Decision) probe" where
  "evaluate ge r at_time =
     net_then (probe_ask (ge_files ge)) (\<lambda>fa.
     net_result (Inr (EvaluateAccess fa (ge_state_reader ge) (ge_runtime_reader ge) (gr_admission r) at_time)))"

definition closed_decision :: "Decision \<Rightarrow> bool" where
  "closed_decision decision \<longleftrightarrow> \<not> (dn_Open decision \<or> dn_ReasonCode decision \<noteq> ''ADMISSION_CLOSED'')"

definition write_state :: "'w probe_env \<Rightarrow> G02Runner \<Rightarrow> Mode \<Rightarrow> string \<Rightarrow> duration \<Rightarrow> gotime \<Rightarrow> ('w, unit) probe" where
  "write_state ge r mode reason lease at_time w =
     (case ge_write ge (gw_outer w) of ((we, files), outer) \<Rightarrow>
        (case WriteState (ge_marshal_state ge) we (gr_admission r) mode reason lease at_time files of
           (written, seen) \<Rightarrow>
             (and_then written (\<lambda>_. Inr ()),
              w\<lparr>gw_outer := ge_written ge seen outer, gw_writes := gw_writes w @ [(mode, written)]\<rparr>)))"

definition write_evidence :: "'w probe_env \<Rightarrow> G02Runner \<Rightarrow> Evidence \<Rightarrow> ('w, unit) probe" where
  "write_evidence ge r evidence w =
     (case ge_write ge (gw_outer w) of ((we, files), outer) \<Rightarrow>
        (case writeEvidence (ge_marshal_evidence ge) we (ga_EvidencePath (gr_config r)) evidence files of
           (written, seen) \<Rightarrow> (written, w\<lparr>gw_outer := ge_written ge seen outer\<rparr>)))"

section \<open>Evidence of earlier runs\<close>

definition sameAddressSet :: "string list \<Rightarrow> string list \<Rightarrow> bool" where
  "sameAddressSet ls rs \<longleftrightarrow> length ls = length rs \<and> list_all (\<lambda>v. v \<in> set ls) rs"

definition evidence_matches :: "G02Runner \<Rightarrow> Evidence \<Rightarrow> bool" where
  "evidence_matches r e \<longleftrightarrow> \<not> (ev_SchemaVersion e \<noteq> EvidenceSchemaVersion \<or> ev_EnrollmentID e \<noteq> ga_EnrollmentID (gr_config r) \<or>
     ev_DeploymentGeneration e \<noteq> ac_DeploymentGeneration (gr_admission r) \<or>
     ev_ContainerIdentity e \<noteq> ga_ContainerIdentity (gr_config r) \<or>
     ev_DataRootIdentity e \<noteq> ga_DataRootIdentity (gr_config r) \<or> ev_PaperTuple e \<noteq> ga_PaperTuple (gr_config r) \<or>
     ev_PairingID e \<noteq> ac_PairingID (gr_admission r) \<or>
     \<not> sameAddressSet (ev_MinecraftAddresses e) (ga_MinecraftAddresses (gr_config r)))"

definition baseEvidence :: "'w probe_env \<Rightarrow> G02Runner \<Rightarrow> gotime \<Rightarrow> ('w, Evidence) probe" where
  "baseEvidence ge r at_time =
     net_then (probe_ask (ge_files ge)) (\<lambda>fa.
     let evidence = newEvidence (gr_config r) (ac_DeploymentGeneration (gr_admission r)) (ac_PairingID (gr_admission r)) at_time in
     net_result (Inr (case loadEvidence fa (ge_evidence_reader ge) (ga_EvidencePath (gr_config r)) of
         Inl _ \<Rightarrow> evidence
       | Inr existing \<Rightarrow>
           if evidence_matches r existing
           then evidence\<lparr>ev_MinecraftLogins := ev_MinecraftLogins existing, ev_HostReboot := ev_HostReboot existing\<rparr>
           else evidence)))"

section \<open>Observations\<close>

definition g02_readNoFollow :: "file_access \<Rightarrow> string \<Rightarrow> nat \<Rightarrow> nat list result" where
  "g02_readNoFollow fa path maximum =
     and_then (fa_OpenNoFollow fa path) (\<lambda>_.
     and_then (fa_Fstat fa path) (\<lambda>stat.
     and_then (check (IsRegular (st_mode stat)) (OtherError (path @ '' is not a regular file''))) (\<lambda>_.
     and_then (fa_ReadFile fa path) (\<lambda>content.
     and_then (check (length (take (maximum + 1) content) \<le> maximum) (OtherError (path @ '' exceeds the limit''))) (\<lambda>_.
     Inr (take (maximum + 1) content))))))"

definition read_probe :: "'w probe_env \<Rightarrow> G02Runner \<Rightarrow> file_access \<Rightarrow> gotime \<Rightarrow> probe_snapshot result" where
  "read_probe ge r fa at_time =
     (let jr = ge_probe_reader ge in
     and_then (g02_readNoFollow fa (ac_RuntimeSnapshotPath (gr_admission r)) (256 * 1024)) (\<lambda>payload.
     and_then (reject_duplicates (jr_lexemes jr payload)) (\<lambda>_.
     and_then (jr_Decode jr payload) (\<lambda>snapshot.
     and_then (check (\<not> jr_trailing jr payload) (OtherError ''runtime snapshot contains trailing JSON'')) (\<lambda>_.
     and_then (check (\<not> (ps_SchemaVersion snapshot \<noteq> ''gar.paper-runtime-observation.v1'' \<or>
         ps_PairingID snapshot \<noteq> ac_PairingID (gr_admission r) \<or> ps_BootID snapshot = '''' \<or> \<not> ps_Ready snapshot \<or>
         IsZero (ps_ObservedAt snapshot) \<or> After (ps_ObservedAt snapshot) (Add at_time (2 * second)) \<or>
         3 * second < Sub at_time (ps_ObservedAt snapshot) \<or> ps_PlayerCount snapshot < 0))
       (OtherError ''runtime snapshot is stale, unavailable, or belongs to another pairing'')) (\<lambda>_.
     Inr snapshot))))))"

definition readRuntime :: "'w probe_env \<Rightarrow> G02Runner \<Rightarrow> gotime \<Rightarrow> ('w, probe_snapshot) probe" where
  "readRuntime ge r at_time = net_then (probe_ask (ge_files ge)) (\<lambda>fa. net_result (read_probe ge r fa at_time))"

definition readBootID :: "'w probe_env \<Rightarrow> ('w, string) probe" where
  "readBootID ge =
     net_then (probe_call (ge_bootfile ge)) (\<lambda>payload.
     let bootID = ge_trim ge payload in
     net_then (probe_check (\<not> (length bootID < 16 \<or> 128 < length bootID)) ''kernel boot ID is invalid'') (\<lambda>_. net_result (Inr bootID)))"

definition JoinHostPort :: "string \<Rightarrow> string \<Rightarrow> string" where
  "JoinHostPort host port = (if CHR '':'' \<in> set host then ''['' @ host @ '']:'' @ port else host @ '':'' @ port)"

definition samePublishedBindings :: "PublishedBinding list \<Rightarrow> string list \<Rightarrow> bool" where
  "samePublishedBindings bindings addresses \<longleftrightarrow> length bindings = length addresses \<and>
     list_all (\<lambda>b. \<not> (pb_Protocol b \<noteq> ''tcp'' \<or> pb_HostPort b < 1 \<or> 65535 < pb_HostPort b \<or> pb_ContainerPort b \<noteq> pb_HostPort b)) bindings \<and>
     list_all (\<lambda>a. a \<in> set (map (\<lambda>b. JoinHostPort (pb_HostIP b) (format_int (pb_HostPort b))) bindings)) addresses"

text \<open>The type assertion to \<open>[]hostadapter.PublishedBinding\<close>.\<close>

definition as_binding :: "gvalue \<Rightarrow> PublishedBinding option" where
  "as_binding v =
     (case v of
        GStruct [(_, _, hostIP), (_, _, hostPort), (_, _, containerPort), (_, _, protocol)] \<Rightarrow>
          (case (hostIP, protocol) of
             (GString ip, GString name) \<Rightarrow>
               (case (hostPort, containerPort) of
                  (GInt h, GInt c) \<Rightarrow> Some \<lparr>pb_HostIP = ip, pb_HostPort = h, pb_ContainerPort = c, pb_Protocol = name\<rparr>
                | _ \<Rightarrow> None)
           | _ \<Rightarrow> None)
      | _ \<Rightarrow> None)"

definition as_bindings :: "gvalue option \<Rightarrow> PublishedBinding list option" where
  "as_bindings v = (case v of Some (GSlice vs) \<Rightarrow> those (map as_binding vs) | _ \<Rightarrow> None)"

definition healthy_target :: "(string \<times> gvalue) list \<Rightarrow> bool" where
  "healthy_target health \<longleftrightarrow> map_of health ''availability'' = Some (GString (availability_text Available)) \<and>
     map_of health ''running'' = Some (GBool True) \<and> map_of health ''container_status'' = Some (GString ''running'') \<and>
     map_of health ''health_status'' \<noteq> Some (GString ''unhealthy'')"

definition closed_barrier :: "(string \<times> gvalue) list \<Rightarrow> bool" where
  "closed_barrier barrier \<longleftrightarrow> map_of barrier ''availability'' = Some (GString (availability_text Available)) \<and>
     map_of barrier ''open'' = Some (GBool False) \<and> map_of barrier ''gate_container_id'' \<noteq> Some (GString '''')"

definition check_health :: "G02Runner \<Rightarrow> gvalue \<Rightarrow> unit result" where
  "check_health r v =
     (case v of
        GMap health \<Rightarrow>
          and_then (check (healthy_target health) (OtherError ''Paper container did not recover as an available running target'')) (\<lambda>_.
          case map_of health ''admission_barrier'' of
            Some (GMap barrier) \<Rightarrow>
              and_then (check (closed_barrier barrier) (OtherError ''admission barrier topology is unavailable or open'')) (\<lambda>_.
              check (case as_bindings (map_of barrier ''published_bindings'') of
                  None \<Rightarrow> False | Some bindings \<Rightarrow> samePublishedBindings bindings (ga_MinecraftAddresses (gr_config r)))
                (OtherError ''admission published bindings do not match every enrolled Minecraft address''))
          | _ \<Rightarrow> Inl (OtherError ''admission barrier topology is unavailable or open''))
      | _ \<Rightarrow> Inl (OtherError ''Paper container did not recover as an available running target''))"

section \<open>Probes\<close>

definition isPeerClose :: "'w probe_env \<Rightarrow> gar_error \<Rightarrow> bool" where
  "isPeerClose ge err \<longleftrightarrow> ge_Is ge err ''EOF'' \<or> ge_Is ge err ''ECONNRESET'' \<or> ge_Is ge err ''EPIPE''"

text \<open>A write to a closed gate may already fail, which is the expected end.\<close>

definition probe_write :: "'w probe_env \<Rightarrow> string \<Rightarrow> nat \<Rightarrow> nat list \<Rightarrow> 'w \<Rightarrow> bool result \<times> 'w" where
  "probe_write ge context connection payload w =
     (case writePacket (ge_net ge) connection 0 payload w of
        (Inr _, w) \<Rightarrow> (Inr False, w)
      | (Inl err, w) \<Rightarrow> (if isPeerClose ge err then Inr True else Inl (wrap_error context err), w))"

definition probe_read :: "'w probe_env \<Rightarrow> nat \<Rightarrow> 'w \<Rightarrow> unit result \<times> 'w" where
  "probe_read ge connection w =
     (case mn_Stream (ge_net ge) connection w of ((bytes, err), w) \<Rightarrow>
        (if bytes \<noteq> [] then Inl (OtherError ''closed gate returned Minecraft protocol data'')
         else if isPeerClose ge err then Inr ()
         else if ge_Timeout ge err then Inl (OtherError ''closed gate did not terminate the probe before deadline'')
         else Inl (wrap_error ''closed gate returned an unexpected read error: '' err), w))"

definition probe_exchange :: "'w probe_env \<Rightarrow> string \<Rightarrow> duration \<Rightarrow> nat \<Rightarrow> 'w \<Rightarrow> unit result \<times> 'w" where
  "probe_exchange ge address limit connection =
     net_then (mn_Deadline (ge_net ge) connection (Some limit)) (\<lambda>_.
     net_then (net_result (address_parts address)) (\<lambda>(host, port).
     net_then (probe_write ge ''write status handshake: '' connection (handshake (- 1) host port 1)) (\<lambda>closed.
     if closed then net_result (Inr ())
     else net_then (probe_write ge ''write status request: '' connection []) (\<lambda>closed.
          if closed then net_result (Inr ()) else probe_read ge connection))))"

definition probeClosedGate :: "'w probe_env \<Rightarrow> string \<Rightarrow> duration \<Rightarrow> 'w \<Rightarrow> unit result \<times> 'w" where
  "probeClosedGate ge address limit w =
     (case mn_Dial (ge_net ge) (networkFor address) address limit w of
        (Inl err, w) \<Rightarrow> (Inl (wrap_error ''gate is not reachable: '' err), w)
      | (Inr connection, w) \<Rightarrow>
          (case probe_exchange ge address limit connection w of (r, w) \<Rightarrow> (r, mn_Close (ge_net ge) connection w)))"

fun probe_gates :: "'w probe_env \<Rightarrow> duration \<Rightarrow> string list \<Rightarrow> ('w, unit) probe" where
  "probe_gates ge limit [] = net_result (Inr ())"
| "probe_gates ge limit (address # rest) =
     net_then (probe_wrap (''closed-gate probe for '' @ address @ '' failed: '') (probe_call (probeClosedGate ge address limit))) (\<lambda>_.
     probe_gates ge limit rest)"

definition verifyRecoveredClosed :: "'w probe_env \<Rightarrow> G02Runner \<Rightarrow> gotime \<Rightarrow> gotime \<Rightarrow> ('w, unit) probe" where
  "verifyRecoveredClosed ge r at_time observedAfter =
     net_then (evaluate ge r at_time) (\<lambda>decision.
     net_then (probe_check (closed_decision decision) (''admission state is not explicitly closed: '' @ dn_ReasonCode decision)) (\<lambda>_.
     net_then (probe_ask (ge_host ge)) (\<lambda>oe.
     net_then (net_result (wrap ''fresh host observation unavailable: '' (host_Observe oe (gr_host r) (rc_Enrollment (gr_server r))))) (\<lambda>bundle.
     net_then (probe_check (\<not> (ob_EnrollmentID bundle \<noteq> ga_EnrollmentID (gr_config r) \<or>
         ob_DeploymentGeneration bundle \<noteq> ac_DeploymentGeneration (gr_admission r) \<or>
         ob_ContainerID bundle \<noteq> ga_ContainerIdentity (gr_config r))) ''fresh host observation identity mismatch'') (\<lambda>_.
     net_then (probe_check (\<not> (\<not> IsZero observedAfter \<and> \<not> After (ob_CreatedAt bundle) observedAfter))
       ''host observation was not refreshed after the reboot checkpoint'') (\<lambda>_.
     net_then (probe_ask (ge_host ge)) (\<lambda>oe.
     net_then (net_result (wrap ''read fresh host health: '' (host_ReadTool oe (gr_host r) ''get_health'' []))) (\<lambda>health.
     net_then (net_result (check_health r health)) (\<lambda>_.
     net_then (probe_wrap ''fresh Paper runtime unavailable: '' (readRuntime ge r at_time)) (\<lambda>runtime.
     net_then (probe_check (\<not> (ps_AdmissionState runtime \<noteq> ''MAINTENANCE'' \<or> ps_PlayerCount runtime \<noteq> 0))
       ''Paper runtime is not in zero-player MAINTENANCE'') (\<lambda>_.
     net_then (probe_check (\<not> (\<not> IsZero observedAfter \<and> \<not> After (ps_ObservedAt runtime) observedAfter))
       ''Paper runtime observation was not refreshed after the reboot checkpoint'') (\<lambda>_.
     probe_gates ge (ConnectionDeadline (gr_config r)) (ga_MinecraftAddresses (gr_config r))))))))))))))"

section \<open>Waiting\<close>

fun wait_decision :: "'w probe_env \<Rightarrow> G02Runner \<Rightarrow> bool \<Rightarrow> gotime \<Rightarrow> nat \<Rightarrow> ('w, unit) probe" where
  "wait_decision ge r expectedOpen deadline ticks =
     net_then (probe_ask (ge_now ge)) (\<lambda>t.
     net_then (evaluate ge r t) (\<lambda>decision.
     if dn_Open decision = expectedOpen then net_result (Inr ())
     else net_then (probe_ask (ge_now ge)) (\<lambda>t.
          if \<not> Before t deadline
          then net_result (Inl (OtherError (''admission did not reach the expected state before deadline; last reason='' @ dn_ReasonCode decision)))
          else case ticks of
              0 \<Rightarrow> net_result (Inl (ge_ctx_err ge))
            | Suc n \<Rightarrow> wait_decision ge r expectedOpen deadline n)))"

definition waitForDecision :: "'w probe_env \<Rightarrow> G02Runner \<Rightarrow> bool \<Rightarrow> ('w, unit) probe" where
  "waitForDecision ge r expectedOpen =
     net_then (probe_ask (ge_now ge)) (\<lambda>t.
     net_then (probe_ask (ge_ticks ge)) (\<lambda>ticks.
     wait_decision ge r expectedOpen (Add t (RuntimeSettleTimeout (gr_config r))) ticks))"

definition acknowledged_closed :: "Decision \<Rightarrow> probe_snapshot result \<Rightarrow> probe_snapshot option" where
  "acknowledged_closed decision reading =
     (case reading of
        Inl _ \<Rightarrow> None
      | Inr runtime \<Rightarrow> if closed_decision decision \<and> ps_AdmissionState runtime = ''MAINTENANCE'' then Some runtime else None)"

fun wait_closed :: "'w probe_env \<Rightarrow> G02Runner \<Rightarrow> gotime \<Rightarrow> nat \<Rightarrow> ('w, Decision \<times> probe_snapshot) probe" where
  "wait_closed ge r deadline ticks =
     net_then (probe_ask (ge_now ge)) (\<lambda>t.
     net_then (evaluate ge r t) (\<lambda>decision.
     net_then (probe_ask (ge_files ge)) (\<lambda>fa.
     case acknowledged_closed decision (read_probe ge r fa t) of
       Some runtime \<Rightarrow> net_result (Inr (decision, runtime))
     | None \<Rightarrow>
         net_then (probe_ask (ge_now ge)) (\<lambda>t.
         if \<not> Before t deadline then net_result (Inl (OtherError ''closed runtime acknowledgment unavailable before deadline''))
         else case ticks of
             0 \<Rightarrow> net_result (Inl (ge_ctx_err ge))
           | Suc n \<Rightarrow> wait_closed ge r deadline n))))"

declare wait_decision.simps [simp del] wait_closed.simps [simp del]

definition waitForClosedRuntime :: "'w probe_env \<Rightarrow> G02Runner \<Rightarrow> ('w, Decision \<times> probe_snapshot) probe" where
  "waitForClosedRuntime ge r =
     net_then (probe_ask (ge_now ge)) (\<lambda>t.
     net_then (probe_ask (ge_ticks ge)) (\<lambda>ticks.
     wait_closed ge r (Add t (RuntimeSettleTimeout (gr_config r))) ticks))"

text \<open>Both loops read the connection until its read deadline or its end.\<close>

definition proveConnectionAlive :: "'w probe_env \<Rightarrow> nat \<Rightarrow> duration \<Rightarrow> 'w \<Rightarrow> unit result \<times> 'w" where
  "proveConnectionAlive ge connection duration =
     net_then (ge_ReadDeadline ge connection (Some duration)) (\<lambda>_ w.
     case mn_Stream (ge_net ge) connection w of ((_, err), w) \<Rightarrow>
       if ge_Timeout ge err then ge_ReadDeadline ge connection None w else (Inl err, w))"

definition waitForConnectionClose :: "'w probe_env \<Rightarrow> nat \<Rightarrow> duration \<Rightarrow> 'w \<Rightarrow> gotime result \<times> 'w" where
  "waitForConnectionClose ge connection limit =
     net_then (ge_ReadDeadline ge connection (Some limit)) (\<lambda>_ w.
     case mn_Stream (ge_net ge) connection w of ((_, err), w) \<Rightarrow>
       if ge_Timeout ge err then (Inl (OtherError ''in-flight Minecraft login was not closed before deadline''), w)
       else case ge_now ge w of (t, w) \<Rightarrow> (Inr t, w))"

section \<open>The login that is in flight\<close>

definition new_result :: "gotime \<Rightarrow> string \<Rightarrow> MinecraftLoginEvidence" where
  "new_result at_time address =
     \<lparr>me_EvidenceLevel = ''LOCAL_PAPER'', me_MinecraftAddress = address, me_ObservedAt = at_time, me_ProtocolVersion = 0,
      me_ProtocolName = '''', me_PlayerCountBefore = 0, me_PlayerCountAfter = 0, me_StatusProbePassed = False,
      me_LoginHandshakeSent = False, me_LoginStartSent = False, me_ConnectionAliveBeforeClose = False, me_CloseIssuedAt = 0,
      me_ConnectionClosedAt = 0, me_CloseLatencyMilliseconds = 0, me_FinalAdmissionReason = '''', me_Result = ''FAIL'',
      me_Failure = ''''\<rparr>"

definition put_result :: "nat \<Rightarrow> (MinecraftLoginEvidence \<Rightarrow> MinecraftLoginEvidence) \<Rightarrow> ('w, unit) probe" where
  "put_result i f = put_results (\<lambda>rs. rs[i := f (rs ! i)])"

definition probe_login :: "'w probe_env \<Rightarrow> G02Runner \<Rightarrow> nat \<Rightarrow> string \<Rightarrow> ('w, unit) probe" where
  "probe_login ge r i address =
    (let limit = ConnectionDeadline (gr_config r) in
     net_then (probe_wrap (''Minecraft status probe for '' @ address @ '': '') (probe_call (discoverProtocol (ge_net ge) address limit))) (\<lambda>(protocol, name).
     net_then (put_result i (\<lambda>e. e\<lparr>me_StatusProbePassed := True, me_ProtocolVersion := protocol, me_ProtocolName := name\<rparr>)) (\<lambda>_.
     net_then (probe_wrap (''begin Minecraft login for '' @ address @ '': '') (probe_call (beginLogin (ge_net ge) address protocol limit))) (\<lambda>connection.
     net_then (\<lambda>w. (Inr (), w\<lparr>gw_connections := gw_connections w @ [connection]\<rparr>)) (\<lambda>_.
     net_then (put_result i (\<lambda>e. e\<lparr>me_LoginHandshakeSent := True, me_LoginStartSent := True\<rparr>)) (\<lambda>_.
     net_then (probe_wrap (''login connection for '' @ address @ '' did not remain in flight before close: '')
         (probe_call (proveConnectionAlive ge connection (50 * millisecond)))) (\<lambda>_.
     put_result i (\<lambda>e. e\<lparr>me_ConnectionAliveBeforeClose := True\<rparr>))))))))"

fun probe_logins :: "'w probe_env \<Rightarrow> G02Runner \<Rightarrow> nat \<Rightarrow> string list \<Rightarrow> ('w, unit) probe" where
  "probe_logins ge r i [] = net_result (Inr ())"
| "probe_logins ge r i (address # rest) = net_then (probe_login ge r i address) (\<lambda>_. probe_logins ge r (Suc i) rest)"

definition Milliseconds :: "duration \<Rightarrow> int" where
  "Milliseconds d = (if 0 \<le> d then d div millisecond else - ((- d) div millisecond))"

fun await_closes :: "'w probe_env \<Rightarrow> G02Runner \<Rightarrow> gotime \<Rightarrow> nat \<Rightarrow> nat list \<Rightarrow> ('w, unit) probe" where
  "await_closes ge r closeIssuedAt i [] = net_result (Inr ())"
| "await_closes ge r closeIssuedAt i (connection # rest) =
     net_then (\<lambda>w. probe_wrap (''wait for Minecraft close on '' @ me_MinecraftAddress (gw_results w ! i) @ '': '')
         (probe_call (waitForConnectionClose ge connection (ConnectionDeadline (gr_config r)))) w) (\<lambda>closedAt.
     net_then (put_result i (\<lambda>e. e\<lparr>me_ConnectionClosedAt := closedAt,
       me_CloseLatencyMilliseconds := Milliseconds (Sub closedAt closeIssuedAt)\<rparr>)) (\<lambda>_.
     await_closes ge r closeIssuedAt (Suc i) rest))"

definition close_in_flight :: "'w probe_env \<Rightarrow> G02Runner \<Rightarrow> ('w, unit) probe" where
  "close_in_flight ge r =
     net_then (probe_logins ge r 0 (ga_MinecraftAddresses (gr_config r))) (\<lambda>_.
     net_then (probe_ask (ge_now ge)) (\<lambda>closeIssuedAt.
     net_then (put_results (map (\<lambda>e. e\<lparr>me_CloseIssuedAt := closeIssuedAt\<rparr>))) (\<lambda>_.
     net_then (write_state ge r ModeClosed ''g02-minecraft-login-close'' 0 closeIssuedAt) (\<lambda>_.
     net_then (\<lambda>w. await_closes ge r closeIssuedAt 0 (gw_connections w) w) (\<lambda>_.
     net_then (waitForClosedRuntime ge r) (\<lambda>(finalDecision, runtime).
     net_then (probe_check (ps_PlayerCount runtime = 0) ''probe player became active after close'') (\<lambda>_.
     put_results (map (\<lambda>e. e\<lparr>me_FinalAdmissionReason := dn_ReasonCode finalDecision, me_PlayerCountAfter := ps_PlayerCount runtime,
       me_Result := ''PASS''\<rparr>)))))))))"

definition close_connections :: "'w probe_env \<Rightarrow> 'w probe_world \<Rightarrow> 'w probe_world" where
  "close_connections ge w = w\<lparr>gw_outer := fold (mn_Close (ge_net ge)) (gw_connections w) (gw_outer w)\<rparr>"

text \<open>The deferred calls run last to first: the connections are closed, then admission is closed once more.\<close>

definition with_open_gate :: "'w probe_env \<Rightarrow> G02Runner \<Rightarrow> ('w, unit) probe" where
  "with_open_gate ge r w =
     (case net_then (waitForDecision ge r True) (\<lambda>_. \<lambda>w. case close_in_flight ge r w of (x, w) \<Rightarrow> (x, close_connections ge w)) w of
        (x, w) \<Rightarrow>
          (case net_then (probe_ask (ge_now ge)) (write_state ge r ModeClosed ''g02-probe-cleanup'' 0) w of (_, w) \<Rightarrow> (x, w)))"

definition login_close :: "'w probe_env \<Rightarrow> G02Runner \<Rightarrow> gotime \<Rightarrow> ('w, unit) probe" where
  "login_close ge r at_time =
     net_then (evaluate ge r at_time) (\<lambda>decision.
     net_then (probe_check (closed_decision decision) (''precondition requires explicit CLOSED admission, got '' @ dn_ReasonCode decision)) (\<lambda>_.
     net_then (probe_wrap ''precondition requires the enrolled closed topology: '' (verifyRecoveredClosed ge r at_time 0)) (\<lambda>_.
     net_then (readRuntime ge r at_time) (\<lambda>earlier.
     net_then (probe_check (ps_PlayerCount earlier = 0) ''precondition requires zero players'') (\<lambda>_.
     net_then (put_results (map (\<lambda>e. e\<lparr>me_PlayerCountBefore := ps_PlayerCount earlier\<rparr>))) (\<lambda>_.
     net_then (write_state ge r ModeOpen ''g02-minecraft-login-probe'' (20 * second) at_time) (\<lambda>_.
     with_open_gate ge r)))))))"

definition note_failure :: "gar_error \<Rightarrow> MinecraftLoginEvidence \<Rightarrow> MinecraftLoginEvidence" where
  "note_failure err e = (if me_Result e \<noteq> ''PASS'' \<and> me_Failure e = '''' then e\<lparr>me_Failure := error_text err\<rparr> else e)"

text \<open>The evidence with the error of the run, which is also what is written to the evidence file.\<close>

definition MinecraftLoginClose :: "'w probe_env \<Rightarrow> G02Runner \<Rightarrow> ('w, Evidence \<times> gar_error option) probe" where
  "MinecraftLoginClose ge r =
     net_then (probe_ask (ge_now ge)) (\<lambda>t.
     net_then (baseEvidence ge r t) (\<lambda>base.
     net_then (\<lambda>w. (Inr (), w\<lparr>gw_results := map (new_result t) (ga_MinecraftAddresses (gr_config r)), gw_connections := []\<rparr>)) (\<lambda>_ w.
     case login_close ge r t w of (ending, w) \<Rightarrow>
       net_then (probe_ask (ge_now ge)) (\<lambda>updated w.
         let results = (case ending of Inl err \<Rightarrow> map (note_failure err) (gw_results w) | Inr _ \<Rightarrow> gw_results w);
             evidence = base\<lparr>ev_UpdatedAt := updated, ev_MinecraftLogins := results\<rparr>
         in case write_evidence ge r evidence w of (written, w) \<Rightarrow>
              (Inr (evidence, case ending of Inl err \<Rightarrow> Some err | Inr _ \<Rightarrow> (case written of Inl err \<Rightarrow> Some err | Inr _ \<Rightarrow> None)), w)) w)))"

section \<open>The reboot of the host\<close>

definition PrepareHostReboot :: "'w probe_env \<Rightarrow> G02Runner \<Rightarrow> ('w, Evidence) probe" where
  "PrepareHostReboot ge r =
     net_then (probe_ask (ge_now ge)) (\<lambda>t.
     net_then (baseEvidence ge r t) (\<lambda>base.
     net_then (evaluate ge r t) (\<lambda>decision.
     net_then (probe_check (closed_decision decision) (''host reboot checkpoint requires explicit CLOSED admission, got '' @ dn_ReasonCode decision)) (\<lambda>_.
     net_then (verifyRecoveredClosed ge r t 0) (\<lambda>_.
     net_then (readBootID ge) (\<lambda>bootID.
     let evidence = base\<lparr>ev_HostReboot := Some
           \<lparr>hr_EvidenceLevel = ''HOST_RECOVERY'', hr_PreparedAt = t, hr_VerifiedAt = 0, hr_PreRebootBootID = bootID, hr_PostRebootBootID = '''',
            hr_PreAdmissionReason = dn_ReasonCode decision, hr_PostAdmissionReason = '''', hr_EndpointClosedBefore = True,
            hr_EndpointClosedAfter = False, hr_Result = ''PREPARED'', hr_Failure = ''''\<rparr>, ev_UpdatedAt := t\<rparr> in
     net_then (write_evidence ge r evidence) (\<lambda>_. net_result (Inr evidence))))))))"

definition prepared_reboot :: "G02Runner \<Rightarrow> Evidence \<Rightarrow> HostRebootEvidence result" where
  "prepared_reboot r e =
     and_then (check (evidence_matches r e) (OtherError ''G-02 evidence belongs to another target or generation'')) (\<lambda>_.
     case ev_HostReboot e of
       None \<Rightarrow> Inl (OtherError ''host reboot evidence is not in PREPARED state'')
     | Some h \<Rightarrow> and_then (check (hr_Result h = ''PREPARED'') (OtherError ''host reboot evidence is not in PREPARED state'')) (\<lambda>_. Inr h))"

text \<open>A failed verification is recorded before its error is returned; the outcome of that write is ignored.\<close>

definition record_failure :: "'w probe_env \<Rightarrow> G02Runner \<Rightarrow> Evidence \<Rightarrow> HostRebootEvidence \<Rightarrow> string \<Rightarrow> gotime \<Rightarrow> string \<Rightarrow> ('w, 'a) probe" where
  "record_failure ge r e h failure at_time message w =
     (case write_evidence ge r (e\<lparr>ev_HostReboot := Some (h\<lparr>hr_Failure := failure\<rparr>), ev_UpdatedAt := at_time\<rparr>) w of
        (_, w) \<Rightarrow> (Inl (OtherError message), w))"

definition VerifyHostReboot :: "'w probe_env \<Rightarrow> G02Runner \<Rightarrow> ('w, Evidence) probe" where
  "VerifyHostReboot ge r =
     net_then (probe_ask (ge_files ge)) (\<lambda>fa.
     net_then (net_result (loadEvidence fa (ge_evidence_reader ge) (ga_EvidencePath (gr_config r)))) (\<lambda>e.
     net_then (net_result (prepared_reboot r e)) (\<lambda>h.
     net_then (probe_ask (ge_now ge)) (\<lambda>t.
     net_then (readBootID ge) (\<lambda>currentBootID.
     let h = h\<lparr>hr_VerifiedAt := t, hr_PostRebootBootID := currentBootID, hr_Result := ''FAIL''\<rparr> in
     if currentBootID = hr_PreRebootBootID h
     then record_failure ge r e h ''kernel boot ID did not change'' t ''host reboot not observed: kernel boot ID is unchanged''
     else net_then (evaluate ge r t) (\<lambda>decision w.
       case verifyRecoveredClosed ge r t (hr_PreparedAt h) w of (verified, w) \<Rightarrow>
         let h = h\<lparr>hr_PostAdmissionReason := dn_ReasonCode decision, hr_EndpointClosedAfter := \<not> isl verified\<rparr> in
         (case verified of
            Inl err \<Rightarrow> record_failure ge r e h (error_text err) t (''admission did not recover fail-closed after host reboot: '' @ error_text err) w
          | Inr _ \<Rightarrow>
              if \<not> closed_decision decision
              then record_failure ge r e h ''admission topology did not recover fail-closed after host reboot'' t
                     ''admission did not recover fail-closed after host reboot: %!w(<nil>)'' w
              else let e = e\<lparr>ev_HostReboot := Some (h\<lparr>hr_Result := ''PASS'', hr_Failure := ''''\<rparr>), ev_UpdatedAt := t\<rparr> in
                   net_then (write_evidence ge r e) (\<lambda>_. net_result (Inr e)) w)))))))"


section \<open>Calls that leave the run's own state alone\<close>

definition mute :: "('w, 'a) probe \<Rightarrow> bool" where
  "mute m \<longleftrightarrow> (\<forall>w. \<exists>outer. snd (m w) = w\<lparr>gw_outer := outer\<rparr>)"

definition writes_only :: "(Mode \<times> AdmissionState result \<Rightarrow> bool) \<Rightarrow> ('w, 'a) probe \<Rightarrow> bool" where
  "writes_only P m \<longleftrightarrow> (\<forall>w. \<exists>ws. gw_writes (snd (m w)) = gw_writes w @ ws \<and> list_all P ws)"

named_theorems quiet and traced

lemma net_then_Inr:
  "net_then m f w = (Inr y, w') \<longleftrightarrow> (\<exists>x w1. m w = (Inr x, w1) \<and> f x w1 = (Inr y, w'))"
  by (simp add: net_then_def split: prod.splits sum.splits)

lemma pair_run: "case_prod f p = y \<longleftrightarrow> (\<exists>a b. p = (a, b) \<and> f a b = y)"
  by (cases p) simp

lemma no_error_unit: "(\<forall>err. a \<noteq> Inl err) \<longleftrightarrow> a = Inr ()"
  by (cases a) auto

lemma snd_net_then:
  "snd (net_then m f w) = (case m w of (Inl _, w1) \<Rightarrow> w1 | (Inr x, w1) \<Rightarrow> snd (f x w1))"
  by (simp add: net_then_def split: prod.splits sum.splits)

lemma muteD: "mute m \<Longrightarrow> m w = (x, w') \<Longrightarrow> \<exists>outer. w' = w\<lparr>gw_outer := outer\<rparr>"
  unfolding mute_def by (metis snd_conv)

lemma mute_call [quiet]:
  "mute (probe_ask g)" "mute (probe_call h)" "mute (net_result x)" "mute (probe_check b message)"
  by (auto simp: mute_def probe_ask_def probe_call_def net_result_def probe_check_def split: prod.splits)
     (metis probe_world.surjective probe_world.update_convs(1))+

lemma mute_then [quiet]:
  assumes "mute m" "\<And>x. mute (f x)"
  shows "mute (net_then m f)"
  unfolding mute_def
proof
  fix w :: "'a probe_world"
  obtain x w1 where m: "m w = (x, w1)" by fastforce
  with assms(1) obtain o1 where "w1 = w\<lparr>gw_outer := o1\<rparr>" by (metis muteD)
  moreover have "\<exists>o2. snd (f y w1) = w1\<lparr>gw_outer := o2\<rparr>" for y using assms(2) by (auto simp: mute_def)
  ultimately show "\<exists>outer. snd (net_then m f w) = w\<lparr>gw_outer := outer\<rparr>"
    using m by (auto simp: snd_net_then split: sum.splits)
qed

lemma mute_wrap [quiet]: "mute m \<Longrightarrow> mute (probe_wrap context m)"
  by (auto simp: mute_def probe_wrap_def split: prod.splits) (metis snd_conv)

lemma mute_cases [quiet]:
  "(b \<Longrightarrow> mute m) \<Longrightarrow> (\<not> b \<Longrightarrow> mute m') \<Longrightarrow> mute (if b then m else m')"
  "mute m \<Longrightarrow> (\<And>x. mute (f x)) \<Longrightarrow> mute (case v of None \<Rightarrow> m | Some x \<Rightarrow> f x)"
  by (auto split: option.splits)

lemma mute_evaluate [quiet]: "mute (evaluate ge r t)" "mute (readRuntime ge r t)" "mute (baseEvidence ge r t)"
  by (auto simp: evaluate_def readRuntime_def baseEvidence_def Let_def intro!: quiet)

lemma mute_gates [quiet]: "mute (probe_gates ge limit addresses)"
  by (induction addresses) (auto intro!: quiet)

lemma mute_verify [quiet]: "mute (verifyRecoveredClosed ge r t after_time)"
  unfolding verifyRecoveredClosed_def by (intro quiet)

lemma mute_wait_decision [quiet]: "mute (wait_decision ge r b deadline ticks)"
  by (induction ticks) (subst wait_decision.simps, auto intro!: quiet)+

lemma mute_wait_closed [quiet]: "mute (wait_closed ge r deadline ticks)"
  by (induction ticks) (subst wait_closed.simps, auto intro!: quiet)+

lemma mute_waits [quiet]: "mute (waitForDecision ge r b)" "mute (waitForClosedRuntime ge r)"
  unfolding waitForDecision_def waitForClosedRuntime_def by (intro quiet)+

lemma mute_write_evidence [quiet]: "mute (write_evidence ge r e)"
  by (auto simp: mute_def write_evidence_def split: prod.splits)


section \<open>What is written to the admission state\<close>

abbreviation closing :: "Mode \<times> AdmissionState result \<Rightarrow> bool" where
  "closing entry \<equiv> fst entry = ModeClosed"

lemma traced_silent: "mute m \<Longrightarrow> writes_only P m"
proof -
  assume quiet: "mute m"
  show "writes_only P m"
    unfolding writes_only_def
  proof
    fix w
    obtain outer where "snd (m w) = w\<lparr>gw_outer := outer\<rparr>" using quiet by (auto simp: mute_def)
    then show "\<exists>ws. gw_writes (snd (m w)) = gw_writes w @ ws \<and> list_all P ws" by (intro exI [of _ "[]"]) simp
  qed
qed

lemma traced_then [traced]:
  assumes "writes_only P m" "\<And>x. writes_only P (f x)"
  shows "writes_only P (net_then m f)"
  unfolding writes_only_def
proof
  fix w
  obtain x w1 where m: "m w = (x, w1)" by fastforce
  with assms(1) obtain ws where ws: "gw_writes w1 = gw_writes w @ ws" "list_all P ws"
    unfolding writes_only_def by (metis snd_conv)
  have "\<exists>us. gw_writes (snd (f y w1)) = gw_writes w @ us \<and> list_all P us" for y
  proof -
    obtain vs where "gw_writes (snd (f y w1)) = gw_writes w1 @ vs" "list_all P vs"
      using assms(2) unfolding writes_only_def by blast
    with ws show ?thesis by (intro exI [of _ "ws @ vs"]) simp
  qed
  with ws m show "\<exists>ws. gw_writes (snd (net_then m f w)) = gw_writes w @ ws \<and> list_all P ws"
    by (auto simp: snd_net_then split: sum.splits)
qed

lemma traced_put [traced]: "writes_only P (put_results f)" "writes_only P (put_result i g)"
  by (auto simp: writes_only_def put_results_def put_result_def intro: exI [of _ "[]"])

lemma traced_write [traced]: "writes_only closing (write_state ge r ModeClosed reason lease t)"
  by (auto simp: writes_only_def write_state_def split: prod.splits)

lemma traced_login [traced]: "writes_only P (probe_login ge r i address)"
proof -
  have "writes_only P (\<lambda>w. (Inr (), w\<lparr>gw_connections := gw_connections w @ [c]\<rparr>))" for c
    by (auto simp: writes_only_def)
  then show ?thesis
    unfolding probe_login_def Let_def by (auto intro!: traced intro: traced_silent quiet)
qed

lemma traced_logins [traced]: "writes_only P (probe_logins ge r i addresses)"
  by (induction addresses arbitrary: i) (auto intro!: traced intro: traced_silent quiet)

lemma traced_await [traced]: "writes_only P (await_closes ge r t i connections)"
proof (induction connections arbitrary: i)
  case Nil
  then show ?case by (auto intro!: traced intro: traced_silent quiet)
next
  case (Cons c cs)
  have "mute (\<lambda>w. probe_wrap (''wait for Minecraft close on '' @ me_MinecraftAddress (gw_results w ! i) @ '': '')
      (probe_call (waitForConnectionClose ge c (ConnectionDeadline (gr_config r)))) w)"
    using mute_wrap [OF mute_call(2)] unfolding mute_def by blast
  with Cons show ?case by (auto intro!: traced intro: traced_silent)
qed

lemma traced_close [traced]: "writes_only closing (close_in_flight ge r)"
proof -
  have "writes_only closing (\<lambda>w. await_closes ge r t 0 (gw_connections w) w)" for t
    using traced_await unfolding writes_only_def by blast
  then show ?thesis
    unfolding close_in_flight_def by (auto intro!: traced intro: traced_silent quiet)
qed

lemma open_gate_trace:
  "\<exists>mid final. gw_writes (snd (with_open_gate ge r w)) = gw_writes w @ mid @ [(ModeClosed, final)] \<and> list_all closing mid"
proof -
  let ?run = "\<lambda>w. case close_in_flight ge r w of (x, w) \<Rightarrow> (x, close_connections ge w)"
  have "writes_only closing ?run"
    using traced_close [of ge r] by (simp add: writes_only_def close_connections_def split_beta)
  then have "writes_only closing (net_then (waitForDecision ge r True) (\<lambda>_. ?run))" by (auto intro!: traced intro: traced_silent quiet)
  then obtain x w1 mid where run: "net_then (waitForDecision ge r True) (\<lambda>_. ?run) w = (x, w1)"
      and mid: "gw_writes w1 = gw_writes w @ mid" "list_all closing mid"
    unfolding writes_only_def by (metis prod.collapse)
  have "\<exists>final. gw_writes (snd (net_then (probe_ask (ge_now ge)) (write_state ge r ModeClosed reason 0) w1)) =
      gw_writes w1 @ [(ModeClosed, final)]" for reason
    by (auto simp: net_then_def probe_ask_def write_state_def split: prod.splits)
  then obtain final where "gw_writes (snd (net_then (probe_ask (ge_now ge)) (write_state ge r ModeClosed ''g02-probe-cleanup'' 0) w1)) =
      gw_writes w @ mid @ [(ModeClosed, final)]"
    using mid(1) by (metis append_assoc)
  moreover have "snd (with_open_gate ge r w) =
      snd (net_then (probe_ask (ge_now ge)) (write_state ge r ModeClosed ''g02-probe-cleanup'' 0) w1)"
    using run by (simp add: with_open_gate_def split_beta)
  ultimately show ?thesis using mid(2) by metis
qed

text \<open>The writes of one login probe.\<close>

definition leased :: "(Mode \<times> AdmissionState result) list \<Rightarrow> bool" where
  "leased ws \<longleftrightarrow> ws = [] \<or> (\<exists>err. ws = [(ModeOpen, Inl err)]) \<or>
     (\<exists>s mid final. ws = (ModeOpen, Inr s) # mid @ [(ModeClosed, final)] \<and> list_all closing mid \<and>
        as_ExpiresAt s = as_IssuedAt s + 20 * second)"

definition leases :: "('w, 'a) probe \<Rightarrow> bool" where
  "leases m \<longleftrightarrow> (\<forall>w. \<exists>ws. gw_writes (snd (m w)) = gw_writes w @ ws \<and> leased ws)"

lemma leases_then:
  assumes "writes_only (\<lambda>_. False) m" "\<And>x. leases (f x)"
  shows "leases (net_then m f)"
  unfolding leases_def
proof
  fix w
  obtain x w1 where m: "m w = (x, w1)" by fastforce
  with assms(1) obtain us where "gw_writes w1 = gw_writes w @ us" "list_all (\<lambda>_. False) us" unfolding writes_only_def by (metis snd_conv)
  then have "gw_writes w1 = gw_writes w" by (cases us) simp_all
  moreover have "\<exists>ws. gw_writes (snd (f y w1)) = gw_writes w1 @ ws \<and> leased ws" for y
    using assms(2) unfolding leases_def by blast
  moreover have "leased []" by (simp add: leased_def)
  ultimately show "\<exists>ws. gw_writes (snd (net_then m f w)) = gw_writes w @ ws \<and> leased ws"
    using m by (auto simp: snd_net_then split: sum.splits)
qed

lemma WriteState_lease:
  assumes "WriteState marshal we config ModeOpen reason lease t files = (Inr s, seen)"
  shows "as_ExpiresAt s = as_IssuedAt s + lease"
proof -
  have "lease_state config ModeOpen reason lease t = Inr s"
    using assms by (auto simp: WriteState_def split: sum.splits prod.splits option.splits)
  then show ?thesis by (auto simp: lease_state_Inr new_state_def)
qed

lemma leases_open: "leases (net_then (write_state ge r ModeOpen reason (20 * second) t) (\<lambda>_. with_open_gate ge r))"
  unfolding leases_def
proof
  fix w :: "'a probe_world"
  obtain we files outer where env: "ge_write ge (gw_outer w) = ((we, files), outer)" by (metis prod.collapse)
  obtain written seen where written: "WriteState (ge_marshal_state ge) we (gr_admission r) ModeOpen reason (20 * second) t files = (written, seen)"
    by fastforce
  define w1 where "w1 = w\<lparr>gw_outer := ge_written ge seen outer, gw_writes := gw_writes w @ [(ModeOpen, written)]\<rparr>"
  have step: "write_state ge r ModeOpen reason (20 * second) t w = (and_then written (\<lambda>_. Inr ()), w1)"
    by (simp add: write_state_def env written w1_def)
  have w1: "gw_writes w1 = gw_writes w @ [(ModeOpen, written)]" by (simp add: w1_def)
  show "\<exists>ws. gw_writes (snd (net_then (write_state ge r ModeOpen reason (20 * second) t) (\<lambda>_. with_open_gate ge r) w)) =
      gw_writes w @ ws \<and> leased ws"
  proof (cases written)
    case (Inl err)
    with step w1 have "gw_writes (snd (net_then (write_state ge r ModeOpen reason (20 * second) t) (\<lambda>_. with_open_gate ge r) w)) =
        gw_writes w @ [(ModeOpen, Inl err)]" by (simp add: snd_net_then)
    moreover have "leased [(ModeOpen, Inl err)]" by (simp add: leased_def)
    ultimately show ?thesis by blast
  next
    case (Inr s)
    obtain mid final where trace: "gw_writes (snd (with_open_gate ge r w1)) = gw_writes w1 @ mid @ [(ModeClosed, final)]"
        and mid: "list_all closing mid"
      using open_gate_trace by blast
    have "as_ExpiresAt s = as_IssuedAt s + 20 * second" using written unfolding Inr by (rule WriteState_lease)
    with mid have "leased ((ModeOpen, Inr s) # mid @ [(ModeClosed, final)])" by (auto simp: leased_def)
    moreover have "gw_writes (snd (net_then (write_state ge r ModeOpen reason (20 * second) t) (\<lambda>_. with_open_gate ge r) w)) =
        gw_writes w @ (ModeOpen, Inr s) # mid @ [(ModeClosed, final)]"
      using step trace w1 Inr by (simp add: snd_net_then)
    ultimately show ?thesis by blast
  qed
qed

lemma leases_login_close: "leases (login_close ge r t)"
  unfolding login_close_def by (intro leases_then leases_open) (auto intro!: traced intro: traced_silent quiet)

text \<open>Whatever the outside answers, the states that a login probe writes have this shape.\<close>

lemma login_probe_recloses:
  "\<exists>ws. gw_writes (snd (MinecraftLoginClose ge r w)) = gw_writes w @ ws \<and>
     (ws = [] \<or> (\<exists>err. ws = [(ModeOpen, Inl err)]) \<or>
      (\<exists>s mid final. ws = (ModeOpen, Inr s) # mid @ [(ModeClosed, final)] \<and> list_all closing mid \<and>
         as_ExpiresAt s = as_IssuedAt s + 20 * second))"
proof -
  have ended: "leases (\<lambda>w. case login_close ge r t w of (ending, w) \<Rightarrow> net_then (probe_ask (ge_now ge)) (f ending) w)"
    if "\<And>ending x. mute (f ending x)" for t and f :: "unit result \<Rightarrow> gotime \<Rightarrow> ('a, Evidence \<times> gar_error option) probe"
    unfolding leases_def
  proof
    fix w
    obtain x w1 where x: "login_close ge r t w = (x, w1)" by fastforce
    with leases_login_close [of ge r t] obtain ws where "gw_writes w1 = gw_writes w @ ws" "leased ws" by (metis leases_def snd_conv)
    moreover have "mute (net_then (probe_ask (ge_now ge)) (f x))" by (intro quiet that)
    then obtain outer where "snd (net_then (probe_ask (ge_now ge)) (f x) w1) = w1\<lparr>gw_outer := outer\<rparr>" by (auto simp: mute_def)
    ultimately show "\<exists>ws. gw_writes (snd (case login_close ge r t w of (ending, w) \<Rightarrow>
        net_then (probe_ask (ge_now ge)) (f ending) w)) = gw_writes w @ ws \<and> leased ws" using x by auto
  qed
  have recorded: "mute (\<lambda>w. let results = g (gw_results w); evidence = h results in
      case write_evidence ge r evidence w of (written, w) \<Rightarrow> (Inr (evidence, k written), w))"
    for g h and k :: "unit result \<Rightarrow> gar_error option"
    using mute_write_evidence [of ge r] unfolding mute_def Let_def by (simp add: split_beta)
  have "leases (MinecraftLoginClose ge r)"
    unfolding MinecraftLoginClose_def
    by (intro leases_then ended recorded) (auto simp: writes_only_def intro!: traced_silent [unfolded writes_only_def] quiet)
  then show ?thesis by (simp add: leases_def leased_def)
qed


section \<open>What a passed login records\<close>

definition same_login :: "MinecraftLoginEvidence \<Rightarrow> MinecraftLoginEvidence \<Rightarrow> bool" where
  "same_login e e0 \<longleftrightarrow> me_MinecraftAddress e = me_MinecraftAddress e0 \<and> me_PlayerCountBefore e = me_PlayerCountBefore e0"

definition logged_in :: "MinecraftLoginEvidence \<Rightarrow> bool" where
  "logged_in e \<longleftrightarrow> me_StatusProbePassed e \<and> me_LoginHandshakeSent e \<and> me_LoginStartSent e \<and> me_ConnectionAliveBeforeClose e"

definition latency_noted :: "gotime \<Rightarrow> MinecraftLoginEvidence \<Rightarrow> bool" where
  "latency_noted issued e \<longleftrightarrow> me_CloseIssuedAt e = issued \<and>
     me_CloseLatencyMilliseconds e = Milliseconds (Sub (me_ConnectionClosedAt e) issued)"

text \<open>A loop over the results has treated the first \<open>i\<close> of them.\<close>

definition treated ::
  "(MinecraftLoginEvidence \<Rightarrow> MinecraftLoginEvidence \<Rightarrow> bool) \<Rightarrow> (MinecraftLoginEvidence \<Rightarrow> bool) \<Rightarrow> nat \<Rightarrow>
   MinecraftLoginEvidence list \<Rightarrow> MinecraftLoginEvidence list \<Rightarrow> bool" where
  "treated R P i rs0 rs \<longleftrightarrow> list_all2 R rs rs0 \<and> list_all P (take i rs)"

lemma treated_update:
  assumes "treated R P i rs0 rs" "i < length rs" "P e" "R (rs ! i) (rs0 ! i) \<Longrightarrow> R e (rs0 ! i)"
  shows "treated R P (Suc i) rs0 (rs[i := e])"
proof -
  have "list_all2 R (rs[i := e]) (rs0[i := rs0 ! i])"
    using assms list_all2_lengthD by (intro list_all2_update_cong) (auto simp: treated_def list_all2_nthD)
  moreover have "list_all P (take (Suc i) (rs[i := e]))"
    using assms by (simp add: treated_def take_Suc_conv_app_nth)
  ultimately show ?thesis using assms by (simp add: treated_def)
qed

lemma put_result_Inr: "put_result i f w = (x, w') \<longleftrightarrow> x = Inr () \<and> w' = w\<lparr>gw_results := (gw_results w)[i := f (gw_results w ! i)]\<rparr>"
  by (auto simp: put_result_def put_results_def)

lemma probe_login_result:
  assumes run: "probe_login ge r i address w = (Inr (), w')"
  shows "\<exists>e. gw_results w' = (gw_results w)[i := e] \<and> (i < length (gw_results w) \<longrightarrow> logged_in e \<and> same_login e (gw_results w ! i))"
    and "length (gw_connections w') = Suc (length (gw_connections w))"
  using run
  by (auto simp: probe_login_def Let_def net_then_Inr put_result_Inr logged_in_def same_login_def
      dest!: muteD [OF mute_wrap [OF mute_call(2)]])


lemma probe_logins_treated:
  assumes "probe_logins ge r i addresses w = (Inr (), w')" "treated same_login logged_in i rs0 (gw_results w)"
    "i + length addresses \<le> length (gw_results w)"
  shows "treated same_login logged_in (i + length addresses) rs0 (gw_results w') \<and>
    length (gw_connections w') = length (gw_connections w) + length addresses"
  using assms
proof (induction addresses arbitrary: i w)
  case Nil
  then show ?case by (simp add: net_result_def)
next
  case (Cons address rest)
  then obtain w1 where one: "probe_login ge r i address w = (Inr (), w1)" and more: "probe_logins ge r (Suc i) rest w1 = (Inr (), w')"
    by (auto simp: net_then_Inr)
  obtain e where e: "gw_results w1 = (gw_results w)[i := e]" "logged_in e" "same_login e (gw_results w ! i)"
    using probe_login_result(1) [OF one] Cons.prems(3) by auto
  then have "treated same_login logged_in (Suc i) rs0 (gw_results w1)"
    using Cons.prems by (auto intro!: treated_update) (simp add: same_login_def)
  with Cons.IH [OF more] probe_login_result(2) [OF one] e Cons.prems show ?case by simp
qed

lemma await_closes_treated:
  assumes "await_closes ge r issued i connections w = (Inr (), w')"
    "treated (\<lambda>e e0. same_login e e0 \<and> logged_in e \<and> me_CloseIssuedAt e = issued) (latency_noted issued) i rs0 (gw_results w)"
    "i + length connections \<le> length (gw_results w)"
  shows "treated (\<lambda>e e0. same_login e e0 \<and> logged_in e \<and> me_CloseIssuedAt e = issued) (latency_noted issued)
    (i + length connections) rs0 (gw_results w')"
  using assms
proof (induction connections arbitrary: i w)
  case Nil
  then show ?case by (simp add: net_result_def)
next
  case (Cons connection rest)
  then obtain w1 outer closedAt where w1: "w1 = w\<lparr>gw_outer := outer, gw_results := (gw_results w)[i :=
        (gw_results w ! i)\<lparr>me_ConnectionClosedAt := closedAt, me_CloseLatencyMilliseconds := Milliseconds (Sub closedAt issued)\<rparr>]\<rparr>"
      and more: "await_closes ge r issued (Suc i) rest w1 = (Inr (), w')"
    by (auto simp: net_then_Inr put_result_Inr dest!: muteD [OF mute_wrap [OF mute_call(2)]])
  have "me_CloseIssuedAt (gw_results w ! i) = issued"
    using Cons.prems by (auto simp: treated_def list_all2_conv_all_nth)
  then have "treated (\<lambda>e e0. same_login e e0 \<and> logged_in e \<and> me_CloseIssuedAt e = issued) (latency_noted issued) (Suc i) rs0 (gw_results w1)"
    using treated_update [OF Cons.prems(2)] Cons.prems(3)
    by (simp add: w1) (simp add: same_login_def logged_in_def latency_noted_def)
  with Cons.IH [OF more] Cons.prems(3) show ?case by (simp add: w1)
qed

lemma acknowledged_closed_Some:
  "acknowledged_closed decision reading = Some runtime \<longleftrightarrow>
     reading = Inr runtime \<and> closed_decision decision \<and> ps_AdmissionState runtime = ''MAINTENANCE''"
  by (auto simp: acknowledged_closed_def split: sum.splits)

lemma wait_closed_Inr:
  assumes "wait_closed ge r deadline ticks w = (Inr (decision, runtime), w')"
  shows "closed_decision decision \<and> ps_AdmissionState runtime = ''MAINTENANCE''"
  using assms
proof (induction ticks arbitrary: w)
  case 0
  then show ?case
    by (subst (asm) wait_closed.simps)
       (auto simp: net_then_Inr net_result_def acknowledged_closed_Some split: if_splits option.splits)
next
  case (Suc ticks)
  from Suc.prems show ?case
    by (subst (asm) wait_closed.simps)
       (auto simp: net_then_Inr net_result_def acknowledged_closed_Some dest: Suc.IH split: if_splits option.splits)
qed

lemma waitForClosedRuntime_Inr:
  assumes "waitForClosedRuntime ge r w = (Inr (decision, runtime), w')"
  shows "dn_ReasonCode decision = ''ADMISSION_CLOSED'' \<and> (\<exists>outer. w' = w\<lparr>gw_outer := outer\<rparr>)"
  using assms muteD [OF mute_waits(2) assms]
  by (auto simp: waitForClosedRuntime_def net_then_Inr closed_decision_def dest!: wait_closed_Inr)

definition passed_login :: "MinecraftLoginEvidence \<Rightarrow> bool" where
  "passed_login e \<longleftrightarrow> me_Result e = ''PASS'' \<and> logged_in e \<and> latency_noted (me_CloseIssuedAt e) e \<and>
     me_PlayerCountAfter e = 0 \<and> me_FinalAdmissionReason e = ''ADMISSION_CLOSED''"

lemma list_all2_map_intro: "list_all2 R xs ys \<Longrightarrow> (\<And>x y. R x y \<Longrightarrow> S (f x) y) \<Longrightarrow> list_all2 S (map f xs) ys"
  by (auto simp: list_all2_conv_all_nth)

lemma close_in_flight_passed:
  assumes run: "close_in_flight ge r w = (Inr (), w')"
    and start: "gw_connections w = []" "length (gw_results w) = length (ga_MinecraftAddresses (gr_config r))"
  shows "list_all2 same_login (gw_results w') (gw_results w)" "list_all passed_login (gw_results w')"
    "\<exists>s. (ModeClosed, Inr s) \<in> set (gw_writes w')"
proof -
  obtain w1 o1 issued w2 w3 w4 decision runtime
    where logins: "probe_logins ge r 0 (ga_MinecraftAddresses (gr_config r)) w = (Inr (), w1)"
      and closed: "write_state ge r ModeClosed ''g02-minecraft-login-close'' 0 issued
          (w1\<lparr>gw_outer := o1, gw_results := map (\<lambda>e. e\<lparr>me_CloseIssuedAt := issued\<rparr>) (gw_results w1)\<rparr>) = (Inr (), w2)"
      and ended: "await_closes ge r issued 0 (gw_connections w2) w2 = (Inr (), w3)"
      and settled: "waitForClosedRuntime ge r w3 = (Inr (decision, runtime), w4)"
      and w4: "w' = w4\<lparr>gw_results := map (\<lambda>e. e\<lparr>me_FinalAdmissionReason := dn_ReasonCode decision,
          me_PlayerCountAfter := 0, me_Result := ''PASS''\<rparr>) (gw_results w4)\<rparr>"
    using run
    by (auto simp: close_in_flight_def net_then_Inr put_results_def probe_check_def net_result_def
        dest!: muteD [OF mute_call(1)])
  from waitForClosedRuntime_Inr [OF settled] w4 obtain o2
    where reason: "dn_ReasonCode decision = ''ADMISSION_CLOSED''"
      and w': "w' = w3\<lparr>gw_outer := o2, gw_results := map (\<lambda>e. e\<lparr>me_FinalAdmissionReason := dn_ReasonCode decision,
          me_PlayerCountAfter := 0, me_Result := ''PASS''\<rparr>) (gw_results w3)\<rparr>"
    by auto
  obtain s where w2: "gw_results w2 = map (\<lambda>e. e\<lparr>me_CloseIssuedAt := issued\<rparr>) (gw_results w1)"
      "gw_connections w2 = gw_connections w1" "gw_writes w2 = gw_writes w1 @ [(ModeClosed, Inr s)]"
    using closed by (auto simp: write_state_def split: prod.splits)
  let ?R = "\<lambda>e e0. same_login e e0 \<and> logged_in e \<and> me_CloseIssuedAt e = issued"
  have "treated same_login logged_in 0 (gw_results w) (gw_results w)"
    by (auto simp: treated_def same_login_def list_all2_same)
  from probe_logins_treated [OF logins this] start
  have one: "list_all2 same_login (gw_results w1) (gw_results w)" "list_all logged_in (gw_results w1)"
      "length (gw_connections w1) = length (gw_results w1)"
    by (auto simp: treated_def dest: list_all2_lengthD)
  then have "treated ?R (latency_noted issued) 0 (gw_results w) (gw_results w2)"
    by (auto simp: treated_def w2 list_all2_conv_all_nth same_login_def logged_in_def list_all_length)
  from await_closes_treated [OF ended this] one w2
  have two: "list_all2 ?R (gw_results w3) (gw_results w)" "list_all (latency_noted issued) (take (length (gw_results w1)) (gw_results w3))"
    by (simp_all add: treated_def)
  moreover have "length (gw_results w3) = length (gw_results w1)"
    using two(1) one(1) by (simp add: list_all2_lengthD)
  ultimately have three: "list_all (latency_noted issued) (gw_results w3)" by simp
  show "list_all2 same_login (gw_results w') (gw_results w)"
    unfolding w' by (simp, rule list_all2_map_intro [OF two(1)]) (simp add: same_login_def)
  show "list_all passed_login (gw_results w')"
    using two(1) three reason unfolding w'
    by (auto simp: list_all_length list_all2_conv_all_nth passed_login_def latency_noted_def logged_in_def)
  have "writes_only (\<lambda>_. True) (await_closes ge r issued 0 (gw_connections w2))" by (rule traced)
  then obtain ws where "gw_writes w3 = gw_writes w2 @ ws" unfolding writes_only_def using ended by (metis snd_conv)
  with w2 w' show "\<exists>s. (ModeClosed, Inr s) \<in> set (gw_writes w')" by auto
qed


lemma with_open_gate_passed:
  assumes "with_open_gate ge r w = (Inr (), w')"
    "gw_connections w = []" "length (gw_results w) = length (ga_MinecraftAddresses (gr_config r))"
  shows "list_all2 same_login (gw_results w') (gw_results w)" "list_all passed_login (gw_results w')"
    "\<exists>s. (ModeClosed, Inr s) \<in> set (gw_writes w')"
proof -
  obtain w1 w2 where wait: "waitForDecision ge r True w = (Inr (), w1)" and run: "close_in_flight ge r w1 = (Inr (), w2)"
      and cleanup: "w' = snd (net_then (probe_ask (ge_now ge)) (write_state ge r ModeClosed ''g02-probe-cleanup'' 0) (close_connections ge w2))"
    using assms(1) by (auto simp: with_open_gate_def net_then_Inr pair_run)
  from muteD [OF mute_waits(1) wait] assms(2,3)
  have "gw_connections w1 = []" "length (gw_results w1) = length (ga_MinecraftAddresses (gr_config r))" "gw_results w1 = gw_results w" by auto
  note passed = close_in_flight_passed [OF run this(1,2), unfolded this(3)]
  have "gw_results w' = gw_results w2 \<and> (\<exists>ws. gw_writes w' = gw_writes w2 @ ws)"
    by (auto simp: cleanup net_then_def probe_ask_def write_state_def close_connections_def split: prod.splits)
  with passed show "list_all2 same_login (gw_results w') (gw_results w)" "list_all passed_login (gw_results w')"
    "\<exists>s. (ModeClosed, Inr s) \<in> set (gw_writes w')" by auto
qed

lemma login_close_passed:
  assumes "login_close ge r t w = (Inr (), w')"
    "gw_connections w = []" "gw_results w = map (new_result t) (ga_MinecraftAddresses (gr_config r))"
  shows "map me_MinecraftAddress (gw_results w') = ga_MinecraftAddresses (gr_config r)"
    "list_all (\<lambda>e. passed_login e \<and> me_PlayerCountBefore e = 0) (gw_results w')"
    "\<exists>s. (ModeClosed, Inr s) \<in> set (gw_writes w')"
proof -
  obtain w1 outer ws where gate: "with_open_gate ge r w1 = (Inr (), w')"
      and w1: "gw_connections w1 = []" "gw_results w1 = map (\<lambda>e. e\<lparr>me_PlayerCountBefore := 0\<rparr>) (gw_results w)"
    using assms(1,2)
    by (auto simp: login_close_def net_then_Inr put_results_def probe_check_def net_result_def write_state_def pair_run
        dest!: muteD [OF mute_evaluate(1)] muteD [OF mute_evaluate(2)] muteD [OF mute_wrap [OF mute_verify]])
  have "length (gw_results w1) = length (ga_MinecraftAddresses (gr_config r))" by (simp add: w1 assms(3))
  note passed = with_open_gate_passed [OF gate w1(1) this]
  show "map me_MinecraftAddress (gw_results w') = ga_MinecraftAddresses (gr_config r)"
    "list_all (\<lambda>e. passed_login e \<and> me_PlayerCountBefore e = 0) (gw_results w')"
    using passed(1,2) unfolding w1 assms(3)
    by (auto simp: list_all2_conv_all_nth list_all_length same_login_def new_result_def intro: nth_equalityI)
  show "\<exists>s. (ModeClosed, Inr s) \<in> set (gw_writes w')" by (rule passed)
qed

lemma passed_login_is_grounded:
  assumes "MinecraftLoginClose ge r w = (Inr (e, None), w')"
  shows "map me_MinecraftAddress (ev_MinecraftLogins e) = ga_MinecraftAddresses (gr_config r) \<and>
    list_all (\<lambda>l. me_Result l = ''PASS'' \<and> me_StatusProbePassed l \<and> me_LoginStartSent l \<and> me_ConnectionAliveBeforeClose l \<and>
      me_PlayerCountBefore l = 0 \<and> me_PlayerCountAfter l = 0 \<and> me_FinalAdmissionReason l = ''ADMISSION_CLOSED'' \<and>
      me_CloseLatencyMilliseconds l = Milliseconds (Sub (me_ConnectionClosedAt l) (me_CloseIssuedAt l))) (ev_MinecraftLogins e) \<and>
    (\<exists>s. (ModeClosed, Inr s) \<in> set (gw_writes w'))"
proof -
  obtain t w1 w2 where run: "login_close ge r t w1 = (Inr (), w2)"
      and w1: "gw_connections w1 = []" "gw_results w1 = map (new_result t) (ga_MinecraftAddresses (gr_config r))"
      and e: "ev_MinecraftLogins e = gw_results w2" and w': "gw_writes w' = gw_writes w2"
    using assms(1)
    by (auto simp: MinecraftLoginClose_def net_then_Inr Let_def pair_run no_error_unit split: sum.split_asm
        dest!: muteD [OF mute_call(1)] muteD [OF mute_write_evidence])
  from login_close_passed [OF run w1] show ?thesis
    unfolding e w' by (auto simp: list_all_length passed_login_def logged_in_def latency_noted_def)
qed



section \<open>What a passed reboot means\<close>

lemma as_bindings_reflect: "as_bindings (Some (GSlice (map reflect_binding bs))) = Some bs"
proof -
  have "as_binding (reflect_binding b) = Some b" for b by (simp add: as_binding_def reflect_binding_def)
  then show ?thesis by (induction bs) (simp_all add: as_bindings_def)
qed

lemma check_health_snapshot:
  assumes "host_ReadTool oe target ''get_health'' [] = Inr v" "check_health r v = Inr ()"
  shows "\<exists>s digest. read_host oe target = Inr (s, digest) \<and> hs_Availability s = Available \<and> hs_Running s \<and> \<not> hs_AdmissionOpen s \<and>
    samePublishedBindings (hs_AdmissionPublishedBindings s) (ga_MinecraftAddresses (gr_config r))"
proof (cases "read_host oe target")
  case (Inl err)
  with assms show ?thesis
    by (auto simp: host_ReadTool_def host_unavailable_def check_health_def healthy_target_def)
next
  case (Inr p)
  then obtain s digest where s: "read_host oe target = Inr (s, digest)" by (cases p) auto
  with assms have "availability_text (hs_Availability s) = availability_text Available \<and> hs_Running s \<and> \<not> hs_AdmissionOpen s \<and>
      samePublishedBindings (hs_AdmissionPublishedBindings s) (ga_MinecraftAddresses (gr_config r))"
    by (auto simp: host_ReadTool_def check_health_def healthy_target_def closed_barrier_def as_bindings_reflect Let_def)
  moreover have "hs_Availability s = Available \<or> hs_Availability s = Unavailable"
    using s by (auto simp: read_host_def validate_host_def)
  ultimately show ?thesis using s by auto
qed


text \<open>What the outside answered when the enrolled closed topology was verified at \<open>t\<close>, beginning in the outer state \<open>begun\<close>.\<close>

definition recovered_closed :: "'w probe_env \<Rightarrow> G02Runner \<Rightarrow> gotime \<Rightarrow> gotime \<Rightarrow> 'w \<Rightarrow> bool" where
  "recovered_closed ge r t after_time begun \<longleftrightarrow>
     (\<exists>fa o1 oe o2 seen oe' o3 s digest fa' o4 runtime.
        ge_files ge begun = (fa, o1) \<and>
        closed_decision (EvaluateAccess fa (ge_state_reader ge) (ge_runtime_reader ge) (gr_admission r) t) \<and>
        ge_host ge o1 = (oe, o2) \<and> host_Observe oe (gr_host r) (rc_Enrollment (gr_server r)) = Inr seen \<and>
        ob_EnrollmentID seen = ga_EnrollmentID (gr_config r) \<and> ob_ContainerID seen = ga_ContainerIdentity (gr_config r) \<and>
        (after_time = 0 \<or> after_time < ob_CreatedAt seen) \<and>
        ge_host ge o2 = (oe', o3) \<and> read_host oe' (gr_host r) = Inr (s, digest) \<and> hs_Availability s = Available \<and> hs_Running s \<and>
        \<not> hs_AdmissionOpen s \<and> samePublishedBindings (hs_AdmissionPublishedBindings s) (ga_MinecraftAddresses (gr_config r)) \<and>
        ge_files ge o3 = (fa', o4) \<and> read_probe ge r fa' t = Inr runtime \<and> ps_AdmissionState runtime = ''MAINTENANCE'' \<and>
        ps_PlayerCount runtime = 0 \<and> (after_time = 0 \<or> after_time < ps_ObservedAt runtime))"

lemma probe_ask_Inr: "probe_ask g w = (Inr x, w') \<longleftrightarrow> (\<exists>outer. g (gw_outer w) = (x, outer) \<and> w' = w\<lparr>gw_outer := outer\<rparr>)"
  by (auto simp: probe_ask_def split: prod.splits)

lemma probe_call_Inr: "probe_call g w = (Inr x, w') \<longleftrightarrow> (\<exists>outer. g (gw_outer w) = (Inr x, outer) \<and> w' = w\<lparr>gw_outer := outer\<rparr>)"
  by (auto simp: probe_call_def split: prod.splits)

lemma evaluate_Inr: "evaluate ge r t w = (Inr decision, w') \<longleftrightarrow> (\<exists>fa outer. ge_files ge (gw_outer w) = (fa, outer) \<and>
    decision = EvaluateAccess fa (ge_state_reader ge) (ge_runtime_reader ge) (gr_admission r) t \<and> w' = w\<lparr>gw_outer := outer\<rparr>)"
  by (auto simp: evaluate_def net_then_Inr probe_ask_Inr net_result_def)

lemma verifyRecoveredClosed_Inr:
  assumes "verifyRecoveredClosed ge r t after_time w = (Inr (), w')"
  shows "recovered_closed ge r t after_time (gw_outer w)"
proof -
  obtain fa o1 oe o2 seen oe' o3 v fa' o4 runtime
    where d: "ge_files ge (gw_outer w) = (fa, o1)"
        "closed_decision (EvaluateAccess fa (ge_state_reader ge) (ge_runtime_reader ge) (gr_admission r) t)"
      and b: "ge_host ge o1 = (oe, o2)" "host_Observe oe (gr_host r) (rc_Enrollment (gr_server r)) = Inr seen"
        "ob_EnrollmentID seen = ga_EnrollmentID (gr_config r)" "ob_ContainerID seen = ga_ContainerIdentity (gr_config r)"
        "IsZero after_time \<or> After (ob_CreatedAt seen) after_time"
      and h: "ge_host ge o2 = (oe', o3)" "host_ReadTool oe' (gr_host r) ''get_health'' [] = Inr v" "check_health r v = Inr ()"
      and p: "ge_files ge o3 = (fa', o4)" "read_probe ge r fa' t = Inr runtime"
        "ps_AdmissionState runtime = ''MAINTENANCE''" "ps_PlayerCount runtime = 0"
        "IsZero after_time \<or> After (ps_ObservedAt runtime) after_time"
    using assms
    by (auto simp: verifyRecoveredClosed_def net_then_Inr evaluate_Inr readRuntime_def probe_check_def probe_wrap_def net_result_def pair_run
        probe_ask_Inr)
  from check_health_snapshot [OF h(2,3)] obtain s digest where "read_host oe' (gr_host r) = Inr (s, digest)" "hs_Availability s = Available"
      "hs_Running s" "\<not> hs_AdmissionOpen s" "samePublishedBindings (hs_AdmissionPublishedBindings s) (ga_MinecraftAddresses (gr_config r))"
    by blast
  with d b h(1) p show ?thesis
    unfolding recovered_closed_def IsZero_def After_def by blast
qed

text \<open>
  C10. A reboot check that passes saw the host restart and the deployment come back closed: the stored evidence that it read was a PREPARED
  checkpoint of the same target, the kernel boot ID that it read differs from the checkpoint's, and at the recorded time the admission
  decision was an explicit close, the host observation and the Paper runtime were newer than the checkpoint and of this target, the
  container ran behind a closed barrier that publishes the configured addresses, and Paper was in maintenance with no players.
\<close>

theorem reboot_pass_means_recovered:
  assumes "VerifyHostReboot ge r w = (Inr e, w')"
  shows "\<exists>h fa o1 e0 h0 o2 o3 boot fa' o4.
    ev_HostReboot e = Some h \<and> hr_Result h = ''PASS'' \<and> hr_PostRebootBootID h \<noteq> hr_PreRebootBootID h \<and>
    hr_PostAdmissionReason h = ''ADMISSION_CLOSED'' \<and> evidence_matches r e \<and>
    ge_files ge (gw_outer w) = (fa, o1) \<and> loadEvidence fa (ge_evidence_reader ge) (ga_EvidencePath (gr_config r)) = Inr e0 \<and>
    ev_HostReboot e0 = Some h0 \<and> hr_Result h0 = ''PREPARED'' \<and>
    hr_PreRebootBootID h = hr_PreRebootBootID h0 \<and> hr_PreparedAt h = hr_PreparedAt h0 \<and>
    ge_now ge o1 = (hr_VerifiedAt h, o2) \<and> ge_bootfile ge o2 = (Inr boot, o3) \<and> hr_PostRebootBootID h = ge_trim ge boot \<and>
    ge_files ge o3 = (fa', o4) \<and> recovered_closed ge r (hr_VerifiedAt h) (hr_PreparedAt h) o4"
proof -
  obtain fa o1 e0 h0 t o2 boot o3 fa' o4 decision w1 w2 where
      load: "ge_files ge (gw_outer w) = (fa, o1)" "loadEvidence fa (ge_evidence_reader ge) (ga_EvidencePath (gr_config r)) = Inr e0"
      and prepared: "prepared_reboot r e0 = Inr h0" and at: "ge_now ge o1 = (t, o2)"
      and boot: "ge_bootfile ge o2 = (Inr boot, o3)" "ge_trim ge boot \<noteq> hr_PreRebootBootID h0"
      and read: "ge_files ge o3 = (fa', o4)"
      and verified: "verifyRecoveredClosed ge r t (hr_PreparedAt h0) w1 = (Inr (), w2)" "gw_outer w1 = o4" and closed: "closed_decision decision"
      and e: "e = e0\<lparr>ev_HostReboot := Some (h0\<lparr>hr_VerifiedAt := t, hr_PostRebootBootID := ge_trim ge boot, hr_Result := ''PASS'',
        hr_PostAdmissionReason := dn_ReasonCode decision, hr_EndpointClosedAfter := True, hr_Failure := ''''\<rparr>), ev_UpdatedAt := t\<rparr>"
    using assms
    by (auto simp: VerifyHostReboot_def readBootID_def net_then_Inr net_result_def pair_run Let_def record_failure_def probe_ask_Inr probe_call_Inr
        probe_check_def evaluate_Inr split: if_split_asm sum.split_asm)
  have "evidence_matches r e0" "ev_HostReboot e0 = Some h0" "hr_Result h0 = ''PREPARED''"
    using prepared by (auto simp: prepared_reboot_def split: option.split_asm)
  with load at boot read closed verifyRecoveredClosed_Inr [OF verified(1)] verified(2) show ?thesis
    by (auto simp: e closed_decision_def evidence_matches_def)
qed

end
