(* ===== verification/G02_Samples.thy ===== *)
theory G02_Samples
  imports G02_Runner Composite_Target
begin

text \<open>
  A deployment on which both acceptance runs of \<open>src/internal/acceptance/g02/runner.go\<close> pass. The outside is one bit, whether the stored admission
  state is open: reads, decisions and connections follow it, and a write of the state file changes it.
\<close>

definition probe_state :: "Mode \<Rightarrow> AdmissionState" where
  "probe_state mode = (new_state sample_admission mode ''probe'' (100 * second))
     \<lparr>as_ExpiresAt := (if mode = ModeOpen then 120 * second else 0)\<rparr>"

definition probe_runtime :: probe_snapshot where
  "probe_runtime = \<lparr>ps_SchemaVersion = ''gar.paper-runtime-observation.v1'', ps_PairingID = ''pair'', ps_BootID = ''boot'',
     ps_ObservedAt = 99 * second, ps_Ready = True, ps_AdmissionState = ''MAINTENANCE'', ps_PlayerCount = 0, ps_TPS = [], ps_MSPT = [], ps_HeapUsedBytes = 0,
     ps_HeapMaxBytes = 1, ps_Plugins = []\<rparr>"

definition probe_host :: HostSnapshot where
  "probe_host = sample_host\<lparr>hs_AdmissionBarrierAvailability := Available, hs_AdmissionBarrierReasonCode := ''ADMISSION_CLOSED'',
     hs_AdmissionGateContainerID := replicate 64 (CHR ''a''), hs_AdmissionPublishedBindings :=
       [\<lparr>pb_HostIP = ''127.0.0.1'', pb_HostPort = 25565, pb_ContainerPort = 25565, pb_Protocol = ''tcp''\<rparr>]\<rparr>"

definition probe_config :: G02Config where
  "probe_config = \<lparr>ga_SchemaVersion = ''gar.g02-acceptance-config.v2'', ga_AdmissionConfigPath = ''/srv/gar/admission'',
     ga_ServerConfigPath = ''/srv/gar/server'', ga_EvidencePath = ''/srv/gar/evidence'', ga_MinecraftAddresses = [''127.0.0.1:25565''],
     ga_EnrollmentID = ''enr'', ga_ContainerIdentity = ''ctr'', ga_DataRootIdentity = ''dev:1/inode:2'', ga_PaperTuple = ''paper'',
     ga_ConnectionDeadlineMS = 500, ga_RuntimeSettleTimeoutMS = 1000\<rparr>"

definition probe_runner :: G02Runner where
  "probe_runner = \<lparr>gr_config = probe_config, gr_admission = sample_admission, gr_server = sample_server,
     gr_host = \<lparr>ht_path = ''/srv/gar/host'', ht_enrollment = sample_enrollment, ht_registered = []\<rparr>\<rparr>"

definition probe_prepared :: Evidence where
  "probe_prepared = (newEvidence probe_config 1 ''pair'' (90 * second))\<lparr>ev_HostReboot := Some
     \<lparr>hr_EvidenceLevel = ''HOST_RECOVERY'', hr_PreparedAt = 90 * second, hr_VerifiedAt = 0, hr_PreRebootBootID = ''boot-before-01234'',
      hr_PostRebootBootID = [], hr_PreAdmissionReason = ''ADMISSION_CLOSED'', hr_PostAdmissionReason = [], hr_EndpointClosedBefore = True,
      hr_EndpointClosedAfter = False, hr_Result = ''PREPARED'', hr_Failure = []\<rparr>\<rparr>"

definition probe_net :: "bool minecraft_net" where
  "probe_net = \<lparr>mn_Dial = (\<lambda>_ _ _ opened. (Inr 0, opened)), mn_Deadline = (\<lambda>_ _ opened. (Inr (), opened)),
     mn_Write = (\<lambda>_ _ opened. (Inr (), opened)),
     mn_Stream = (\<lambda>_ opened. (if opened then (packet 0 (appendString [] [123, 125]), OtherError ''timeout'') else ([], OtherError ''EOF''), opened)),
     mn_Close = (\<lambda>_ opened. opened), mn_Status = (\<lambda>_. Inr (767, ''Paper''))\<rparr>"

definition probe_files :: "bool \<Rightarrow> file_access" where
  "probe_files opened = sample_access\<lparr>fa_ReadFile := (\<lambda>_. Inr [if opened then 49 else 48])\<rparr>"

definition probe_sample :: "bool probe_env" where
  "probe_sample = \<lparr>ge_now = (\<lambda>opened. (100 * second, opened)),
     ge_files = (\<lambda>opened. (probe_files opened, opened)),
     ge_host = (\<lambda>opened. (sample_env_of probe_host, opened)), ge_write = (\<lambda>opened. ((sample_write, \<lambda>_. None), opened)),
     ge_written = (\<lambda>seen opened. case last seen ''/srv/gar/state'' of None \<Rightarrow> opened | Some f \<Rightarrow> sf_bytes f = [49, 10]),
     ge_bootfile = (\<lambda>opened. (Inr ''boot-after-012345'', opened)), ge_ticks = (\<lambda>opened. (0, opened)), ge_ctx_err = OtherError ''context canceled'',
     ge_net = probe_net, ge_ReadDeadline = (\<lambda>_ _ opened. (Inr (), opened)), ge_Is = (\<lambda>err name. err = OtherError name),
     ge_Timeout = (\<lambda>err. err = OtherError ''timeout''),
     ge_state_reader = (sample_reader no_state)\<lparr>jr_Decode := (\<lambda>payload. Inr (probe_state (if payload = [49] then ModeOpen else ModeClosed)))\<rparr>,
     ge_runtime_reader = sample_reader (sample_runtime\<lparr>ra_ObservedAt := 99 * second\<rparr>), ge_probe_reader = sample_reader probe_runtime,
     ge_evidence_reader = sample_reader probe_prepared,
     ge_marshal_state = (\<lambda>s. Inr [if as_Mode s = ModeOpen then 49 else 48]), ge_marshal_evidence = (\<lambda>_. Inr [123, 125]), ge_trim = (\<lambda>s. s)\<rparr>"

definition probe_start :: "bool probe_world" where
  "probe_start = \<lparr>gw_outer = False, gw_writes = [], gw_results = [], gw_connections = []\<rparr>"

abbreviation probe_at :: "bool \<Rightarrow> (Mode \<times> AdmissionState result) list \<Rightarrow> MinecraftLoginEvidence list \<Rightarrow> nat list \<Rightarrow> bool probe_world" where
  "probe_at opened ws rs cs \<equiv> \<lparr>gw_outer = opened, gw_writes = ws, gw_results = rs, gw_connections = cs\<rparr>"

lemma probe_sample_simps:
  "ge_now probe_sample opened = (100 * second, opened)" "ge_host probe_sample opened = (sample_env_of probe_host, opened)"
  "ge_files probe_sample opened = (probe_files opened, opened)"
  "ge_write probe_sample opened = ((sample_write, \<lambda>_. None), opened)" "ge_ticks probe_sample opened = (0, opened)"
  "ge_bootfile probe_sample opened = (Inr ''boot-after-012345'', opened)" "ge_net probe_sample = probe_net" "ge_trim probe_sample s = s"
  "ge_evidence_reader probe_sample = sample_reader probe_prepared" "ge_probe_reader probe_sample = sample_reader probe_runtime"
  "ge_ReadDeadline probe_sample c d opened = (Inr (), opened)"
  "ge_runtime_reader probe_sample = sample_reader (sample_runtime\<lparr>ra_ObservedAt := 99 * second\<rparr>)"
  by (simp_all add: probe_sample_def)

lemma probe_files_simps:
  "fa_ReadFile (probe_files opened) path = Inr [if opened then 49 else 48]" "fa_OpenNoFollow (probe_files opened) path = Inr ()"
  "fa_Fstat (probe_files opened) path = fa_Fstat sample_access path" "fa_Lstat (probe_files opened) path = fa_Lstat sample_access path"
  "fa_Stat (probe_files opened) path = fa_Stat sample_access path" "fa_EvalSymlinks (probe_files opened) path = Inr path"
  "fa_Geteuid (probe_files opened) = fa_Geteuid sample_access"
  by (simp_all add: probe_files_def sample_access_def)

lemma probe_runner_simps:
  "gr_config probe_runner = probe_config" "gr_admission probe_runner = sample_admission" "gr_server probe_runner = sample_server"
  "gr_host probe_runner = \<lparr>ht_path = ''/srv/gar/host'', ht_enrollment = sample_enrollment, ht_registered = []\<rparr>"
  by (simp_all add: probe_runner_def)

lemma probe_state_read: "readState (probe_files opened) (ge_state_reader probe_sample) path = Inr (probe_state (if opened then ModeOpen else ModeClosed))"
proof -
  have "ValidateOwnerOnlyRegular (probe_files opened) path = Inr ()"
    by (simp add: ValidateOwnerOnlyRegular_def probe_files_simps sample_access_def sample_mode)
  then show ?thesis
    by (simp add: readState_def probe_files_simps probe_sample_def) (simp add: probe_state_def new_state_def)
qed

lemma probe_bytes:
  assumes "3 \<le> maximum"
  shows "readNoFollow (probe_files opened) path maximum = Inr [if opened then 49 else 48]"
    "g02_readNoFollow (probe_files opened) path maximum = Inr [if opened then 49 else 48]"
proof -
  have stat: "fa_Fstat (probe_files opened) path = Inr \<lparr>st_mode = 384, st_uid = 7, st_size = 3, st_dev = 1, st_ino = 2\<rparr>"
    by (simp add: probe_files_simps sample_access_def)
  have short: "take (maximum + 1) [x] = [x]" for x :: nat using assms by simp
  show "readNoFollow (probe_files opened) path maximum = Inr [if opened then 49 else 48]"
    using assms unfolding readNoFollow_def stat probe_files_simps(1,2) short by (simp add: sample_mode)
  show "g02_readNoFollow (probe_files opened) path maximum = Inr [if opened then 49 else 48]"
    using assms unfolding g02_readNoFollow_def stat probe_files_simps(1,2) short by (simp add: sample_mode)
qed

lemma probe_state_simps:
  "as_PairingID (probe_state mode) = ac_PairingID sample_admission"
  "as_DeploymentGeneration (probe_state mode) = ac_DeploymentGeneration sample_admission"
  "as_IssuedAt (probe_state mode) = 100 * second" "as_Reason (probe_state mode) = ''probe''" "as_Mode (probe_state mode) = mode"
  "as_ExpiresAt (probe_state ModeOpen) = 120 * second"
  by (simp_all add: probe_state_def new_state_def)

lemma probe_state_decision:
  "EvaluateState (probe_files opened) (ge_state_reader probe_sample) sample_admission (100 * second) =
   (if opened then \<lparr>dn_Open = True, dn_ReasonCode = ''ADMISSION_OPEN'', dn_State = probe_state ModeOpen\<rparr>
    else refuse ''ADMISSION_CLOSED'' (probe_state ModeClosed))"
  by (cases opened) (simp_all add: EvaluateState_def probe_state_read probe_state_simps MaxOpenLease_def go_time)

lemma probe_decision:
  "EvaluateAccess (probe_files opened) (ge_state_reader probe_sample) (ge_runtime_reader probe_sample) sample_admission (100 * second) =
   (if opened then \<lparr>dn_Open = True, dn_ReasonCode = ''ADMISSION_OPEN_GUARD_CONFIRMED'', dn_State = probe_state ModeOpen\<rparr>
    else refuse ''ADMISSION_CLOSED'' (probe_state ModeClosed))"
proof -
  have read: "readRuntimeSnapshot (probe_files opened) (ge_runtime_reader probe_sample) path =
      Inr (sample_runtime\<lparr>ra_ObservedAt := 99 * second\<rparr>)" for path
    by (simp add: readRuntimeSnapshot_def probe_bytes probe_sample_simps)
  show ?thesis
    unfolding EvaluateAccess_def probe_state_decision read Let_def
    by (cases opened) (simp_all add: sample_runtime_def sample_admission_def go_time)
qed

lemma probe_evaluate:
  "evaluate probe_sample probe_runner (100 * second) (probe_at opened ws rs cs) =
     (Inr (if opened then \<lparr>dn_Open = True, dn_ReasonCode = ''ADMISSION_OPEN_GUARD_CONFIRMED'', dn_State = probe_state ModeOpen\<rparr>
        else refuse ''ADMISSION_CLOSED'' (probe_state ModeClosed)), probe_at opened ws rs cs)"
  using probe_decision [of opened]
  by (simp add: evaluate_def net_then_def probe_ask_def net_result_def probe_sample_simps(1-6) probe_runner_simps)

lemma probe_reads_runtime: "read_probe probe_sample probe_runner (probe_files opened) (100 * second) = Inr probe_runtime"
proof -
  have "ps_SchemaVersion probe_runtime = ''gar.paper-runtime-observation.v1'' \<and> ps_PairingID probe_runtime = ac_PairingID sample_admission \<and>
      ps_BootID probe_runtime \<noteq> [] \<and> ps_Ready probe_runtime \<and> \<not> IsZero (ps_ObservedAt probe_runtime) \<and>
      \<not> After (ps_ObservedAt probe_runtime) (Add (100 * second) (2 * second)) \<and>
      \<not> 3 * second < Sub (100 * second) (ps_ObservedAt probe_runtime) \<and> \<not> ps_PlayerCount probe_runtime < 0"
    by (simp add: probe_runtime_def sample_admission_def go_time)
  then show ?thesis
    by (simp add: read_probe_def probe_runner_simps probe_bytes probe_sample_simps Let_def)
qed

lemma probe_host_read: "read_host (sample_env_of probe_host) (gr_host probe_runner) = Inr (probe_host, hex_encode (sum256 sample_crypto [123, 125, 10]))"
  by (simp add: read_host_def read_host_file_def sample_env_of_def sample_access_def sample_mode maxSnapshotBytes_def probe_runner_simps)
     (simp add: probe_host_def sample_host_def sample_enrollment_def validate_host_def validate_available_def
      validate_barrier_def validate_errors_def go_time)


lemma probe_observes:
  "\<exists>seen. host_Observe (sample_env_of probe_host) (gr_host probe_runner) (rc_Enrollment sample_server) = Inr seen \<and>
     ob_EnrollmentID seen = ''enr'' \<and> ob_DeploymentGeneration seen = 1 \<and> ob_ContainerID seen = ''ctr'' \<and> ob_CreatedAt seen = 98 * second"
  by (simp add: host_Observe_def probe_host_read)
     (simp add: probe_host_def sample_host_def sample_server_def sample_enrollment_def)

lemma probe_healthy:
  "\<exists>v. host_ReadTool (sample_env_of probe_host) (gr_host probe_runner) ''get_health'' [] = Inr v \<and> check_health probe_runner v = Inr ()"
proof -
  have "format_int 25565 = ''25565''"
    by (simp add: format_int_def decimal.simps) code_simp
  then have "samePublishedBindings (hs_AdmissionPublishedBindings probe_host) (ga_MinecraftAddresses probe_config)"
    by (simp add: samePublishedBindings_def probe_host_def probe_config_def JoinHostPort_def)
  then show ?thesis
    by (simp add: host_ReadTool_def probe_host_read check_health_def healthy_target_def closed_barrier_def as_bindings_reflect Let_def
        probe_runner_simps(1)) (simp add: probe_host_def sample_host_def)
qed

lemma probe_address: "address_parts ''127.0.0.1:25565'' = Inr (''127.0.0.1'', 25565)"
  by code_simp

lemma probe_gate: "probeClosedGate probe_sample ''127.0.0.1:25565'' limit False = (Inr (), False)"
  by (simp add: probeClosedGate_def probe_exchange_def probe_write_def probe_read_def net_then_def net_result_def probe_address writePacket_def
      isPeerClose_def probe_sample_def probe_net_def)

lemma probe_verified:
  assumes "after_time < 98 * second"
  shows "verifyRecoveredClosed probe_sample probe_runner (100 * second) after_time (probe_at False ws rs cs) = (Inr (), probe_at False ws rs cs)"
proof -
  obtain seen v where seen: "host_Observe (sample_env_of probe_host) (gr_host probe_runner) (rc_Enrollment sample_server) = Inr seen"
      "ob_EnrollmentID seen = ''enr''" "ob_DeploymentGeneration seen = 1" "ob_ContainerID seen = ''ctr''" "ob_CreatedAt seen = 98 * second"
      and v: "host_ReadTool (sample_env_of probe_host) (gr_host probe_runner) ''get_health'' [] = Inr v" "check_health probe_runner v = Inr ()"
    using probe_observes probe_healthy by blast
  have identity: "ga_EnrollmentID probe_config = ''enr''" "ac_DeploymentGeneration sample_admission = 1" "ga_ContainerIdentity probe_config = ''ctr''"
      "ga_MinecraftAddresses probe_config = [''127.0.0.1:25565'']"
    by (simp_all add: probe_config_def sample_admission_def)
  have fresh: "After (98 * second) after_time" "After (ps_ObservedAt probe_runtime) after_time"
      "ps_AdmissionState probe_runtime = ''MAINTENANCE''" "ps_PlayerCount probe_runtime = 0"
    using assms by (simp_all add: probe_runtime_def After_def second_def)
  show ?thesis
    by (simp add: verifyRecoveredClosed_def net_then_def net_result_def probe_ask_def probe_call_def probe_check_def probe_wrap_def wrap_def check_def
        probe_evaluate closed_decision_def probe_sample_simps(1,2,3) seen v readRuntime_def probe_reads_runtime identity fresh probe_gate
        probe_runner_simps(1-3))
qed


lemma probe_owner_only: "ValidateOwnerOnlyRegular (probe_files opened) path = Inr ()"
  by (simp add: ValidateOwnerOnlyRegular_def probe_files_simps sample_access_def sample_mode)

lemma probe_evidence: "loadEvidence (probe_files opened) (sample_reader probe_prepared) path = Inr probe_prepared"
proof -
  have "ev_SchemaVersion probe_prepared = EvidenceSchemaVersion" by (simp add: probe_prepared_def newEvidence_def)
  then show ?thesis by (simp add: loadEvidence_def probe_owner_only probe_files_simps MiB_def)
qed

lemma probe_matches: "evidence_matches probe_runner probe_prepared"
  by (simp add: evidence_matches_def probe_prepared_def newEvidence_def probe_runner_simps sample_admission_def sameAddressSet_def
      list_all_iff)

lemma probe_write_evidence:
  "write_evidence probe_sample probe_runner e (probe_at opened ws rs cs) = (Inr (), probe_at opened ws rs cs)"
proof -
  have m: "ge_marshal_evidence probe_sample e = Inr [123, 125]" by (simp add: probe_sample_def)
  have "writeEvidence (ge_marshal_evidence probe_sample) sample_write ''/srv/gar/evidence'' e (\<lambda>_. None) =
      (Inr (), snd (replace_file sample_write 384 ''/srv/gar/evidence'' [123, 125, 10] (\<lambda>_. None)))"
    by (simp add: writeEvidence_def sample_directory m) (simp add: replace_file_def sample_write_def Let_def)
  moreover have "last (snd (replace_file sample_write 384 ''/srv/gar/evidence'' [123, 125, 10] (\<lambda>_. None))) ''/srv/gar/state'' = None"
    by (simp add: replace_file_def sample_write_def Let_def)
  ultimately show ?thesis
    by (simp add: write_evidence_def probe_sample_simps(4) probe_runner_simps(1) probe_config_def) (simp add: probe_sample_def)
qed

lemma probe_write_state:
  assumes "mode = ModeOpen \<and> lease = 20 * second \<or> mode = ModeClosed \<and> lease = 0" "length reason \<le> 256"
  shows "\<exists>s. write_state probe_sample probe_runner mode reason lease (100 * second) (probe_at opened ws rs cs) =
    (Inr (), probe_at (mode = ModeOpen) (ws @ [(mode, Inr s)]) rs cs)"
proof -
  obtain s where s: "lease_state sample_admission mode reason lease (100 * second) = Inr s" "as_Mode s = mode"
    using assms by (auto simp: lease_state_def Let_def MaxOpenLease_def new_state_def second_def)
  define b :: nat where "b = (if mode = ModeOpen then 49 else 48)"
  then have b: "b = 49 \<longleftrightarrow> mode = ModeOpen" by simp
  have m: "ge_marshal_state probe_sample s = Inr [b]" using s by (simp add: probe_sample_def b_def)
  have path: "ac_StatePath sample_admission = ''/srv/gar/state''" by (simp add: sample_admission_def)
  have "WriteState (ge_marshal_state probe_sample) sample_write sample_admission mode reason lease (100 * second) (\<lambda>_. None) =
      (Inr s, snd (replace_file sample_write 384 ''/srv/gar/state'' [b, 10] (\<lambda>_. None)))"
    by (simp add: WriteState_def s m path sample_directory) (simp add: replace_file_def sample_write_def Let_def)
  moreover have "last (snd (replace_file sample_write 384 ''/srv/gar/state'' [b, 10] (\<lambda>_. None))) ''/srv/gar/state'' =
      Some \<lparr>sf_bytes = [b, 10], sf_mode = 384, sf_uid = 7\<rparr>"
    by (simp add: replace_file_def sample_write_def Let_def)
  ultimately have "write_state probe_sample probe_runner mode reason lease (100 * second) (probe_at opened ws rs cs) =
      (Inr (), probe_at (mode = ModeOpen) (ws @ [(mode, Inr s)]) rs cs)"
    by (simp add: write_state_def probe_sample_simps(4) probe_runner_simps(2)) (simp add: probe_sample_def b)
  then show ?thesis by blast
qed


lemmas probe_steps = net_then_def net_result_def probe_ask_def probe_call_def probe_check_def probe_wrap_def wrap_def check_def put_results_def
  put_result_def

lemma reboot_passes:
  "\<exists>e w'. VerifyHostReboot probe_sample probe_runner probe_start = (Inr e, w')"
proof -
  obtain h where h: "prepared_reboot probe_runner probe_prepared = Inr h" "hr_PreparedAt h < 98 * second"
      "hr_PreRebootBootID h = ''boot-before-01234''"
    by (simp add: prepared_reboot_def probe_matches) (simp add: probe_prepared_def second_def)
  note verified = probe_verified [OF h(2)]
  show ?thesis
    by (simp add: VerifyHostReboot_def probe_start_def probe_steps Let_def readBootID_def probe_sample_simps(1-9) probe_runner_simps(1) probe_evidence
        h(1,3) probe_evaluate verified closed_decision_def probe_write_evidence)
qed

theorem reboot_pass_means_recovered_witness:
  "\<exists>e w' h begun. VerifyHostReboot probe_sample probe_runner probe_start = (Inr e, w') \<and> ev_HostReboot e = Some h \<and> hr_Result h = ''PASS'' \<and>
     hr_PostRebootBootID h = ''boot-after-012345'' \<and> recovered_closed probe_sample probe_runner (hr_VerifiedAt h) (hr_PreparedAt h) begun"
proof -
  obtain e w' where run: "VerifyHostReboot probe_sample probe_runner probe_start = (Inr e, w')" using reboot_passes by blast
  from reboot_pass_means_recovered [OF run] obtain h o2 boot o3 o4 where
    "ev_HostReboot e = Some h" "hr_Result h = ''PASS''" "ge_bootfile probe_sample o2 = (Inr boot, o3)" "hr_PostRebootBootID h = ge_trim probe_sample boot"
    "recovered_closed probe_sample probe_runner (hr_VerifiedAt h) (hr_PreparedAt h) o4" by blast
  with run show ?thesis by (auto simp: probe_sample_simps(6,8))
qed

lemma probe_status:
  "readPacket (packet 0 (appendString [] [123, 125]), OtherError ''timeout'') = Inr ((0, appendString [] [123, 125]), ([], OtherError ''timeout''))"
  "consumeString (appendString [] [123, 125]) = Inr ([123, 125], [])"
  by code_simp+

lemma probe_connections:
  "discoverProtocol probe_net ''127.0.0.1:25565'' limit True = (Inr (767, ''Paper''), True)"
  "beginLogin probe_net ''127.0.0.1:25565'' protocol limit True = (Inr 0, True)"
  "proveConnectionAlive probe_sample c limit True = (Inr (), True)"
  "waitForConnectionClose probe_sample c limit False = (Inr (100 * second), False)"
  by (simp_all add: discoverProtocol_def status_exchange_def beginLogin_def login_exchange_def net_then_def net_result_def probe_address writePacket_def
      probe_status proveConnectionAlive_def waitForConnectionClose_def probe_sample_simps(1,11))
     (simp_all add: probe_net_def probe_status probe_sample_def net_then_def net_result_def check_def)

lemma probe_waits:
  "waitForDecision probe_sample probe_runner True (probe_at True ws rs cs) = (Inr (), probe_at True ws rs cs)"
  "waitForClosedRuntime probe_sample probe_runner (probe_at False ws rs cs) =
     (Inr (refuse ''ADMISSION_CLOSED'' (probe_state ModeClosed), probe_runtime), probe_at False ws rs cs)"
proof -
  have "acknowledged_closed (refuse ''ADMISSION_CLOSED'' (probe_state ModeClosed)) (Inr probe_runtime) = Some probe_runtime"
    by (simp add: acknowledged_closed_Some closed_decision_def probe_runtime_def)
  then show "waitForDecision probe_sample probe_runner True (probe_at True ws rs cs) = (Inr (), probe_at True ws rs cs)"
    "waitForClosedRuntime probe_sample probe_runner (probe_at False ws rs cs) =
     (Inr (refuse ''ADMISSION_CLOSED'' (probe_state ModeClosed), probe_runtime), probe_at False ws rs cs)"
    by (simp_all add: waitForDecision_def waitForClosedRuntime_def wait_decision.simps wait_closed.simps probe_steps probe_sample_simps(1,3,5)
        probe_evaluate probe_reads_runtime)
qed


lemma probe_closes:
  "\<exists>rs' s. close_in_flight probe_sample probe_runner (probe_at True ws rs []) = (Inr (), probe_at False (ws @ [(ModeClosed, Inr s)]) rs' [0])"
proof -
  have closed: "\<exists>s. write_state probe_sample probe_runner ModeClosed ''g02-minecraft-login-close'' 0 (100 * second) (probe_at True ws rs cs) =
      (Inr (), probe_at False (ws @ [(ModeClosed, Inr s)]) rs cs)" for rs cs
    using probe_write_state [of ModeClosed 0 "''g02-minecraft-login-close''" True ws rs cs] by simp
  have [simp]: "ga_MinecraftAddresses probe_config = [''127.0.0.1:25565'']" by (simp add: probe_config_def)
  have none: "ps_PlayerCount probe_runtime = 0" by (simp add: probe_runtime_def)
  obtain rs1 where logins: "probe_logins probe_sample probe_runner 0 [''127.0.0.1:25565''] (probe_at True ws rs []) = (Inr (), probe_at True ws rs1 [0])"
    by (simp add: probe_login_def Let_def probe_steps probe_sample_simps(7) probe_runner_simps(1) probe_connections)
  obtain s where written: "write_state probe_sample probe_runner ModeClosed ''g02-minecraft-login-close'' 0 (100 * second)
      (probe_at True ws (map (\<lambda>e. e\<lparr>me_CloseIssuedAt := 100 * second\<rparr>) rs1) [0]) =
      (Inr (), probe_at False (ws @ [(ModeClosed, Inr s)]) (map (\<lambda>e. e\<lparr>me_CloseIssuedAt := 100 * second\<rparr>) rs1) [0])"
    using closed by blast
  show ?thesis
    by (simp add: close_in_flight_def probe_steps probe_runner_simps(1) probe_sample_simps(1) logins written probe_connections probe_waits none
        del: probe_logins.simps)
qed

lemma probe_opens:
  "\<exists>rs' ws'. with_open_gate probe_sample probe_runner (probe_at True ws rs []) = (Inr (), probe_at False ws' rs' [0])"
proof -
  obtain rs1 s where closed: "close_in_flight probe_sample probe_runner (probe_at True ws rs []) =
      (Inr (), probe_at False (ws @ [(ModeClosed, Inr s)]) rs1 [0])" using probe_closes by blast
  have ended: "close_connections probe_sample (probe_at False ws' rs1 [0]) = probe_at False ws' rs1 [0]" for ws'
    by (simp add: close_connections_def probe_sample_simps(7) probe_net_def)
  obtain s' where "write_state probe_sample probe_runner ModeClosed ''g02-probe-cleanup'' 0 (100 * second)
      (probe_at False (ws @ [(ModeClosed, Inr s)]) rs1 [0]) = (Inr (), probe_at False ((ws @ [(ModeClosed, Inr s)]) @ [(ModeClosed, Inr s')]) rs1 [0])"
    using probe_write_state [of ModeClosed 0 "''g02-probe-cleanup''" False "ws @ [(ModeClosed, Inr s)]" rs1 "[0]"] by auto
  then show ?thesis
    by (simp add: with_open_gate_def probe_steps probe_waits closed ended probe_sample_simps(1))
qed

lemma probe_passes: "\<exists>e w'. MinecraftLoginClose probe_sample probe_runner probe_start = (Inr (e, None), w')"
proof -
  let ?rs = "map (new_result (100 * second)) (ga_MinecraftAddresses probe_config)"
  have none: "ps_PlayerCount probe_runtime = 0" by (simp add: probe_runtime_def)
  obtain s where opened: "write_state probe_sample probe_runner ModeOpen ''g02-minecraft-login-probe'' (20 * second) (100 * second)
      (probe_at False [] (map (\<lambda>e. e\<lparr>me_PlayerCountBefore := 0\<rparr>) ?rs) []) =
      (Inr (), probe_at True [(ModeOpen, Inr s)] (map (\<lambda>e. e\<lparr>me_PlayerCountBefore := 0\<rparr>) ?rs) [])"
    using probe_write_state [of ModeOpen "20 * second" "''g02-minecraft-login-probe''" False "[]" "map (\<lambda>e. e\<lparr>me_PlayerCountBefore := 0\<rparr>) ?rs" "[]"]
    by auto
  obtain rs ws where gate: "with_open_gate probe_sample probe_runner
      (probe_at True [(ModeOpen, Inr s)] (map (\<lambda>e. e\<lparr>me_PlayerCountBefore := 0\<rparr>) ?rs) []) = (Inr (), probe_at False ws rs [0])"
    using probe_opens by blast
  have verified: "verifyRecoveredClosed probe_sample probe_runner (100 * second) 0 (probe_at False ws rs cs) = (Inr (), probe_at False ws rs cs)" for ws rs cs
    by (rule probe_verified) (simp add: second_def)
  have "login_close probe_sample probe_runner (100 * second) (probe_at False [] ?rs []) = (Inr (), probe_at False ws rs [0])"
    using opened gate
    by (simp add: login_close_def probe_steps probe_evaluate closed_decision_def verified readRuntime_def probe_sample_simps(3) probe_reads_runtime none
        del: map_map)
  then show ?thesis
    by (simp add: MinecraftLoginClose_def probe_start_def probe_steps probe_sample_simps(1,3,9) baseEvidence_def probe_runner_simps(1) probe_evidence
        probe_matches Let_def probe_write_evidence)
qed


end
