(* ===== verification/Command_Line.thy ===== *)
theory Command_Line
  imports Runtime_Config Run_Actions Admission_State
begin

text \<open>
  What the programs under \<open>src/cmd\<close> share: the flags of Go's package \<open>flag\<close>, the exits of \<open>fatal\<close>, \<open>must\<close> and \<open>usage\<close>, and the opening of the
  database by \<open>Open\<close> of \<open>src/internal/store/store.go\<close>. A command is a state transformer that ends with a value or with an exit. Its state is the
  run of the process on the journal and the files it creates itself; whatever it only reads is asked of the outside. The files a command
  creates are not touched by others while it runs.
\<close>

section \<open>Flags\<close>

datatype flag_value = StringFlag string | DurationFlag duration

datatype command_exit = ExitFatal string | ExitUsage | ExitFlags string | ExitPanic string | ExitHelp

fun exit_code :: "command_exit \<Rightarrow> nat" where
  "exit_code (ExitFatal message) = 1"
| "exit_code ExitUsage = 2"
| "exit_code (ExitFlags message) = 2"
| "exit_code (ExitPanic message) = 2"
| "exit_code ExitHelp = 0"

type_synonym flag_values = "(string \<times> flag_value) list"

fun set_flag :: "(string \<Rightarrow> duration option) \<Rightarrow> flag_value \<Rightarrow> string \<Rightarrow> flag_value option" where
  "set_flag ParseDuration (StringFlag _) text = Some (StringFlag text)"
| "set_flag ParseDuration (DurationFlag _) text = map_option DurationFlag (ParseDuration text)"

definition update_flag :: "string \<Rightarrow> flag_value \<Rightarrow> flag_values \<Rightarrow> flag_values" where
  "update_flag name v values = map (\<lambda>(n, old). if n = name then (n, v) else (n, old)) values"

definition flag_name :: "string \<Rightarrow> string" where
  "flag_name s = drop (if s ! 1 = CHR ''-'' then 2 else 1) s"

definition assign_flag ::
  "(string \<Rightarrow> duration option) \<Rightarrow> string \<Rightarrow> flag_value \<Rightarrow> string \<Rightarrow> flag_values \<Rightarrow> command_exit + flag_values" where
  "assign_flag ParseDuration name old text values =
     (case set_flag ParseDuration old text of
        None \<Rightarrow> Inl (ExitFlags (''invalid value for flag -'' @ name))
      | Some v \<Rightarrow> Inr (update_flag name v values))"

text \<open>
  \<open>FlagSet.Parse\<close> with \<open>ExitOnError\<close>, for flags that are not boolean: \<open>-name value\<close>, \<open>-name=value\<close> and the same with two dashes, up to the
  first argument that is not a flag or to \<open>--\<close>.
\<close>

fun parse_flags :: "(string \<Rightarrow> duration option) \<Rightarrow> flag_values \<Rightarrow> string list \<Rightarrow> command_exit + flag_values \<times> string list" where
  "parse_flags ParseDuration values [] = Inr (values, [])"
| "parse_flags ParseDuration values (s # args) =
     (if length s < 2 \<or> hd s \<noteq> CHR ''-'' then Inr (values, s # args)
      else if s = ''--'' then Inr (values, args)
      else if flag_name s = '''' \<or> hd (flag_name s) = CHR ''-'' \<or> hd (flag_name s) = CHR ''=''
      then Inl (ExitFlags (''bad flag syntax: '' @ s))
      else let name = takeWhile (\<lambda>c. c \<noteq> CHR ''='') (flag_name s); rest = dropWhile (\<lambda>c. c \<noteq> CHR ''='') (flag_name s) in
        case map_of values name of
          None \<Rightarrow> Inl (if name = ''help'' \<or> name = ''h'' then ExitHelp else ExitFlags (''flag provided but not defined: -'' @ name))
        | Some old \<Rightarrow>
            if rest \<noteq> ''''
            then (case assign_flag ParseDuration name old (tl rest) values of
                Inl e \<Rightarrow> Inl e | Inr values' \<Rightarrow> parse_flags ParseDuration values' args)
            else (case args of
                [] \<Rightarrow> Inl (ExitFlags (''flag needs an argument: -'' @ name))
              | text # args' \<Rightarrow> (case assign_flag ParseDuration name old text values of
                    Inl e \<Rightarrow> Inl e | Inr values' \<Rightarrow> parse_flags ParseDuration values' args')))"

definition flag_string :: "flag_values \<Rightarrow> string \<Rightarrow> string" where
  "flag_string values name = (case map_of values name of Some (StringFlag s) \<Rightarrow> s | _ \<Rightarrow> '''')"

definition flag_duration :: "flag_values \<Rightarrow> string \<Rightarrow> duration" where
  "flag_duration values name = (case map_of values name of Some (DurationFlag d) \<Rightarrow> d | _ \<Rightarrow> 0)"

definition envOr :: "(string \<Rightarrow> string) \<Rightarrow> string \<Rightarrow> string \<Rightarrow> string" where
  "envOr getenv name fallback = (if getenv name \<noteq> '''' then getenv name else fallback)"

section \<open>Commands\<close>

record 'w cli =
  cl_run :: "'w run"
  cl_files :: files

type_synonym ('w, 'a) command = "'w cli \<Rightarrow> (command_exit + 'a) \<times> 'w cli"

definition cmd_return :: "'a \<Rightarrow> ('w, 'a) command" where
  "cmd_return x s = (Inr x, s)"

definition cmd_exit :: "command_exit \<Rightarrow> ('w, 'a) command" where
  "cmd_exit e s = (Inl e, s)"

definition fatal :: "string \<Rightarrow> ('w, 'a) command" where
  "fatal message = cmd_exit (ExitFatal message)"

definition usage :: "('w, 'a) command" where
  "usage = cmd_exit ExitUsage"

definition cmd_then :: "('w, 'a) command \<Rightarrow> ('a \<Rightarrow> ('w, 'b) command) \<Rightarrow> ('w, 'b) command" where
  "cmd_then m f s = (case m s of (Inl e, s) \<Rightarrow> (Inl e, s) | (Inr x, s) \<Rightarrow> f x s)"

definition cmd_check :: "bool \<Rightarrow> ('w, unit) command \<Rightarrow> ('w, unit) command" where
  "cmd_check ok otherwise = (if ok then cmd_return () else otherwise)"

text \<open>A call whose error ends the program.\<close>

definition must :: "('w, 'a) action \<Rightarrow> ('w, 'a) command" where
  "must m s = (case m (cl_run s) of (r, run) \<Rightarrow>
     (case r of Inl err \<Rightarrow> Inl (ExitFatal (error_text err)) | Inr x \<Rightarrow> Inr x, s\<lparr>cl_run := run\<rparr>))"

definition must_result :: "'a result \<Rightarrow> ('w, 'a) command" where
  "must_result r = must (run_result r)"

text \<open>A call whose error the program looks at.\<close>

definition attempt :: "('w, 'a) action \<Rightarrow> ('w, 'a result) command" where
  "attempt m s = (case m (cl_run s) of (r, run) \<Rightarrow> (Inr r, s\<lparr>cl_run := run\<rparr>))"

definition cmd_flags :: "(string \<Rightarrow> duration option) \<Rightarrow> flag_values \<Rightarrow> string list \<Rightarrow> ('w, flag_values \<times> string list) command" where
  "cmd_flags ParseDuration defaults arguments s = (parse_flags ParseDuration defaults arguments, s)"

section \<open>Opening the database\<close>

record JournalSettings =
  js_JournalMode :: string
  js_Synchronous :: int
  js_ForeignKeys :: int

record 'w store_env =
  so_access :: "'w \<Rightarrow> file_access \<times> 'w"
  so_OpenFile :: "string \<Rightarrow> 'w \<Rightarrow> unit result \<times> 'w"
  so_Close :: "string \<Rightarrow> 'w \<Rightarrow> unit result \<times> 'w"
  so_Abs :: "string \<Rightarrow> string result"
  so_PathEscape :: "string \<Rightarrow> string"
  so_sql :: "string \<Rightarrow> 'w \<Rightarrow> unit result \<times> 'w"
  so_schema :: "'w \<Rightarrow> unit result \<times> 'w"
  so_text_pragma :: "string \<Rightarrow> 'w \<Rightarrow> string result \<times> 'w"
  so_int_pragma :: "string \<Rightarrow> 'w \<Rightarrow> int result \<times> 'w"

definition journal_unavailable :: "'a result \<Rightarrow> 'a result" where
  "journal_unavailable r = (case r of Inl err \<Rightarrow> Inl (NewError ErrJournalUnavailable (error_text err)) | Inr x \<Rightarrow> Inr x)"

definition owner_only_now :: "'w store_env \<Rightarrow> string \<Rightarrow> ('w, unit) action" where
  "owner_only_now se path =
     run_then (outside_call (so_access se)) (\<lambda>fa. run_result (journal_unavailable (ValidateOwnerOnlyRegular fa path)))"

definition create_database_file :: "'w store_env \<Rightarrow> string \<Rightarrow> ('w, unit) action" where
  "create_database_file se path =
     run_then (outside_try (\<lambda>w. case so_OpenFile se path w of (r, w) \<Rightarrow> (journal_unavailable r, w))) (\<lambda>_.
     run_then (outside_try (\<lambda>w. case so_Close se path w of (r, w) \<Rightarrow> (journal_unavailable r, w))) (\<lambda>_.
     owner_only_now se path))"

definition secureDatabaseFile :: "'w store_env \<Rightarrow> string \<Rightarrow> ('w, unit) action" where
  "secureDatabaseFile se path =
     run_then (outside_call (so_access se)) (\<lambda>fa.
     case fa_Lstat fa path of
       Inr _ \<Rightarrow> owner_only_now se path
     | Inl err \<Rightarrow> if \<not> is_not_exist err then run_raise err else create_database_file se path)"

definition sqliteDSN :: "'w store_env \<Rightarrow> string \<Rightarrow> string" where
  "sqliteDSN se path =
     (if path = '':memory:'' then ''file:gar-m1?mode=memory&cache=shared&_pragma=foreign_keys(1)&_pragma=synchronous(FULL)''
      else ''file:'' @ so_PathEscape se (case so_Abs se path of Inl _ \<Rightarrow> path | Inr absolute \<Rightarrow> absolute) @
        ''?_pragma=journal_mode(WAL)&_pragma=synchronous(FULL)&_pragma=foreign_keys(1)&_pragma=busy_timeout(5000)&_txlock=immediate'')"

definition journal_settings :: "'w store_env \<Rightarrow> ('w, JournalSettings) action" where
  "journal_settings se =
     run_then (outside_try (so_text_pragma se ''journal_mode'')) (\<lambda>mode.
     run_then (outside_try (so_int_pragma se ''synchronous'')) (\<lambda>synchronous.
     run_then (outside_try (so_int_pragma se ''foreign_keys'')) (\<lambda>foreignKeys.
     run_then (run_check (\<not> (synchronous \<noteq> 2 \<or> foreignKeys \<noteq> 1))
       (NewError ErrJournalUnavailable ''SQLite FULL synchronous or foreign_keys was not applied'')) (\<lambda>_.
     run_return \<lparr>js_JournalMode = mode, js_Synchronous = synchronous, js_ForeignKeys = foreignKeys\<rparr>))))"

text \<open>\<open>so_schema\<close> executes the statements that create the tables where they are missing.\<close>

definition initialize_store :: "'w store_env \<Rightarrow> ('w, unit) action" where
  "initialize_store se =
     run_then (outside_try (\<lambda>w. case so_schema se w of (r, w) \<Rightarrow> (wrap ''initialize M1 store: '' r, w))) (\<lambda>_.
     run_then (journal_settings se) (\<lambda>_. run_return ()))"

definition Open :: "'w store_env \<Rightarrow> string \<Rightarrow> ('w, unit) action" where
  "Open se path =
     run_then (if path \<noteq> '':memory:'' then secureDatabaseFile se path else run_return ()) (\<lambda>_.
     run_then (outside_try (so_sql se (sqliteDSN se path))) (\<lambda>_.
     initialize_store se))"

section \<open>Composition\<close>

lemma cmd_then_Inr: "cmd_then m f s = (Inr y, s') \<longleftrightarrow> (\<exists>x s1. m s = (Inr x, s1) \<and> f x s1 = (Inr y, s'))"
  by (simp add: cmd_then_def split: prod.splits sum.splits)

lemma cmd_return_Inr [simp]: "cmd_return x s = (Inr y, s') \<longleftrightarrow> y = x \<and> s' = s"
  by (auto simp: cmd_return_def)

lemma cmd_exit_Inr [simp]: "cmd_exit e s \<noteq> (Inr y, s')" "fatal message s \<noteq> (Inr y, s')" "usage s \<noteq> (Inr y, s')"
  by (simp_all add: fatal_def usage_def cmd_exit_def)

lemma must_Inr: "must m s = (Inr x, s') \<longleftrightarrow> (\<exists>run. m (cl_run s) = (Inr x, run) \<and> s' = s\<lparr>cl_run := run\<rparr>)"
  by (auto simp: must_def split: prod.splits sum.splits)

lemma must_result_Inr [simp]: "must_result r s = (Inr x, s') \<longleftrightarrow> r = Inr x \<and> s' = s"
  by (auto simp: must_result_def must_Inr run_result_def)

lemma cmd_check_Inr: "cmd_check ok otherwise s = (Inr u, s') \<longleftrightarrow> ok \<and> s' = s \<or> \<not> ok \<and> otherwise s = (Inr u, s')"
  by (auto simp: cmd_check_def)

lemma case_sum_run:
  "(case r of Inl e \<Rightarrow> f e | Inr x \<Rightarrow> g x) s = t \<longleftrightarrow> (\<exists>e. r = Inl e \<and> f e s = t) \<or> (\<exists>x. r = Inr x \<and> g x s = t)"
  by (cases r) simp_all

text \<open>A database that was opened by its path was an owner-only regular file when it was checked.\<close>

lemma opened_database_owner_only:
  assumes "Open se path s = (Inr (), s')" "path \<noteq> '':memory:''"
  shows "\<exists>before fa later. so_access se before = (fa, later) \<and> ValidateOwnerOnlyRegular fa path = Inr ()"
proof -
  have checked: "\<exists>before fa later. so_access se before = (fa, later) \<and> ValidateOwnerOnlyRegular fa path = Inr ()"
    if "owner_only_now se path s1 = (Inr (), s2)" for s1 s2
    using that by (auto simp: owner_only_now_def run_then_Inr outside_call_def run_result_def journal_unavailable_def
        split: prod.split_asm sum.split_asm)
  obtain s1 where "secureDatabaseFile se path s = (Inr (), s1)" using assms by (auto simp: Open_def run_then_Inr)
  then obtain fa :: file_access and s0 where found: "(case fa_Lstat fa path of Inr _ \<Rightarrow> owner_only_now se path
      | Inl err \<Rightarrow> if \<not> is_not_exist err then run_raise err else create_database_file se path) s0 = (Inr (), s1)"
    unfolding secureDatabaseFile_def run_then_Inr by blast
  then have "\<exists>s2. owner_only_now se path s2 = (Inr (), s1)"
    by (cases "fa_Lstat fa path") (auto simp: run_then_Inr run_raise_def create_database_file_def split: if_split_asm)
  then show ?thesis using checked by blast
qed

end
