(* ===== verification/Owner_Commands.thy ===== *)
theory Owner_Commands
  imports Command_Line Mcp_Server Host_Observer
begin

text \<open>
  The owner's program, \<open>src/cmd/garctl/main.go\<close>: the report of \<open>doctor\<close>, the issue of an agent's credential, and the commands that show an
  intent, an operation or a backup and that approve, reject or revoke an intent. Each command returns what it prints.

  \<open>ctl_env\<close> is what the commands ask of the outside. \<open>ct_marshal\<close> is the JSON encoder with its final newline, \<open>ct_ParseDuration\<close> is
  \<open>time.ParseDuration\<close>, \<open>ct_parse_url\<close> is \<open>url.Parse\<close>.
\<close>

section \<open>The outside\<close>

record new_file_env =
  nf_Open :: "gar_error option"
  nf_Write :: "(gar_error \<times> nat) option"
  nf_Sync :: "gar_error option"
  nf_Close :: "gar_error option"
  nf_Removes :: bool

record 'w ctl_env =
  ct_outside :: "'w outside"
  ct_store :: "'w store_env"
  ct_getenv :: "string \<Rightarrow> string"
  ct_ParseDuration :: "string \<Rightarrow> duration option"
  ct_euid :: int
  ct_access :: "'w \<Rightarrow> file_access \<times> 'w"
  ct_user :: "'w \<Rightarrow> (string \<times> string) result \<times> 'w"
  ct_random :: "nat \<Rightarrow> 'w \<Rightarrow> nat list result \<times> 'w"
  ct_new_file :: "'w \<Rightarrow> new_file_env \<times> 'w"
  ct_marshal :: "CredentialFile \<Rightarrow> nat list result"
  ct_config :: "ServerConfig json_reader"
  ct_credentials :: "CredentialFile json_reader"
  ct_host :: "'w \<Rightarrow> HostSnapshot observer_env \<times> 'w"
  ct_paper :: "'w \<Rightarrow> PaperSnapshot observer_env \<times> 'w"
  ct_socket :: "'w \<Rightarrow> (unit result \<times> unit result) \<times> 'w"
  ct_parse_url :: "string \<Rightarrow> origin_url result"

abbreviation ct_crypto :: "'w ctl_env \<Rightarrow> crypto" where
  "ct_crypto env \<equiv> ou_crypto (ct_outside env)"

definition defaultDB :: "'w ctl_env \<Rightarrow> string" where
  "defaultDB env = envOr (ct_getenv env) ''GAR_DB'' ''./gar-v01.db''"

definition mustOpen :: "'w ctl_env \<Rightarrow> string \<Rightarrow> ('w, unit) command" where
  "mustOpen env path = must (Open (ct_store env) path)"

text \<open>The text of the error of \<open>strconv.Atoi\<close> is shortened to its reason.\<close>

definition localIdentity :: "'w ctl_env \<Rightarrow> ('w, string \<times> int) command" where
  "localIdentity env =
     cmd_then (must (outside_try (ct_user env))) (\<lambda>(name, uid).
     case Atoi uid of None \<Rightarrow> fatal ''invalid syntax'' | Some n \<Rightarrow> cmd_return (name, n))"

definition load_runtime :: "'w ctl_env \<Rightarrow> string \<Rightarrow> ('w, ServerConfig) action" where
  "load_runtime env path = run_then (outside_call (ct_access env)) (\<lambda>fa. run_result (load_server fa (ct_config env) path))"

definition load_credentials :: "'w ctl_env \<Rightarrow> string \<Rightarrow> ('w, CredentialSet) action" where
  "load_credentials env path = run_then (outside_call (ct_access env)) (\<lambda>fa. run_result (LoadCredentials fa (ct_credentials env) path))"

text \<open>\<open>domain.NewID\<close> panics when the system has no randomness.\<close>

definition new_id :: "'w ctl_env \<Rightarrow> string \<Rightarrow> ('w, string) command" where
  "new_id env pfx =
     cmd_then (attempt (outside_try (ct_random env 16))) (\<lambda>r.
     case r of Inl err \<Rightarrow> cmd_exit (ExitPanic (''secure id generation failed: '' @ error_text err)) | Inr random \<Rightarrow> cmd_return (NewID pfx random))"

section \<open>New files\<close>

text \<open>
  A file that must not exist yet: whatever fails while it is written or synced removes it again, as far as the removal works; only a failing close
  leaves it.
\<close>

definition write_new :: "new_file_env \<Rightarrow> int \<Rightarrow> string \<Rightarrow> nat list result \<Rightarrow> files \<Rightarrow> gar_error option \<times> files" where
  "write_new nf euid path payload files =
     (if files path \<noteq> None then (Some (OtherError (''open '' @ path @ '': file exists'')), files)
      else case nf_Open nf of
          Some err \<Rightarrow> (Some err, files)
        | None \<Rightarrow>
            let created = (\<lambda>bytes. files(path \<mapsto> \<lparr>sf_bytes = bytes, sf_mode = 384, sf_uid = euid\<rparr>));
                undone = (\<lambda>bytes. if nf_Removes nf then files else created bytes)
            in case payload of
                 Inl err \<Rightarrow> (Some err, undone [])
               | Inr bytes \<Rightarrow>
                   (case nf_Write nf of
                      Some (err, n) \<Rightarrow> (Some err, undone (take n bytes))
                    | None \<Rightarrow>
                        (case nf_Sync nf of
                           Some err \<Rightarrow> (Some err, undone bytes)
                         | None \<Rightarrow> (nf_Close nf, created bytes))))"

definition new_file :: "'w ctl_env \<Rightarrow> string \<Rightarrow> nat list result \<Rightarrow> ('w, gar_error option) command" where
  "new_file env path payload s =
     (case ct_new_file env (rn_world (cl_run s)) of (nf, w) \<Rightarrow>
        (case write_new nf (ct_euid env) path payload (cl_files s) of
           (err, files) \<Rightarrow> (Inr err, s\<lparr>cl_run := (cl_run s)\<lparr>rn_world := w\<rparr>, cl_files := files\<rparr>)))"

definition writeNewFile :: "'w ctl_env \<Rightarrow> string \<Rightarrow> CredentialFile \<Rightarrow> ('w, gar_error option) command" where
  "writeNewFile env path value = new_file env path (ct_marshal env value)"

definition writeNewTokenFile :: "'w ctl_env \<Rightarrow> string \<Rightarrow> string \<Rightarrow> ('w, gar_error option) command" where
  "writeNewTokenFile env path token = new_file env path (Inr (map of_char token @ [10]))"

definition remove_file :: "'w ctl_env \<Rightarrow> string \<Rightarrow> ('w, unit) command" where
  "remove_file env path s =
     (case ct_new_file env (rn_world (cl_run s)) of (nf, w) \<Rightarrow>
        (Inr (), s\<lparr>cl_run := (cl_run s)\<lparr>rn_world := w\<rparr>,
           cl_files := if nf_Removes nf then (cl_files s)(path := None) else cl_files s\<rparr>))"

section \<open>Issuing a credential\<close>

definition base64_char :: "nat \<Rightarrow> char" where
  "base64_char n = (if n < 26 then char_of (65 + n) else if n < 52 then char_of (71 + n) else if n < 62 then char_of (n - 4)
     else if n = 62 then CHR ''-'' else CHR ''_'')"

text \<open>\<open>base64.RawURLEncoding\<close>.\<close>

fun base64_raw_url :: "nat list \<Rightarrow> string" where
  "base64_raw_url [] = ''''"
| "base64_raw_url [a] = map base64_char [a div 4, a mod 4 * 16]"
| "base64_raw_url [a, b] = map base64_char [a div 4, a mod 4 * 16 + b div 16, b mod 16 * 4]"
| "base64_raw_url (a # b # c # rest) =
     map base64_char [a div 4, a mod 4 * 16 + b div 16, b mod 16 * 4 + c div 64, c mod 64] @ base64_raw_url rest"

definition toolNames :: "string list" where
  "toolNames = map td_Name AgentTools"

text \<open>The profiles come in the order of a Go map; the seal of the scope sorts them.\<close>

definition issued_profiles :: "ServerConfig \<Rightarrow> string list" where
  "issued_profiles c = map (tp_ProfileID \<circ> snd) (filter (\<lambda>(_, p). tp_Eligibility p = ''VERIFIED_TRANSITION'' \<and>
     contains (en_AllowedPlugins (rc_Enrollment c)) (tp_PluginID p)) (rc_Profiles c))"

definition issued_scope :: "ServerConfig \<Rightarrow> string \<Rightarrow> string \<Rightarrow> gotime \<Rightarrow> duration \<Rightarrow> AgentSessionScope" where
  "issued_scope c principalID sessionID at_time ttl =
     \<lparr>sc_SchemaVersion = ''gar.agent-scope.v1'', sc_PrincipalID = principalID, sc_SessionID = sessionID,
      sc_EnrollmentID = en_EnrollmentID (rc_Enrollment c), sc_DeploymentGeneration = en_DeploymentGeneration (rc_Enrollment c),
      sc_Capabilities = toolNames, sc_PluginIDs = en_AllowedPlugins (rc_Enrollment c), sc_ArtifactProfileIDs = issued_profiles c,
      sc_IssuedAt = at_time, sc_ExpiresAt = Add at_time ttl, sc_RevocationEpoch = rc_CurrentRevocationEpoch c, sc_ScopeDigest = ''''\<rparr>"

fun refuse_existing :: "'w ctl_env \<Rightarrow> string list \<Rightarrow> ('w, unit) command" where
  "refuse_existing env [] = cmd_return ()"
| "refuse_existing env (path # rest) =
     cmd_then (must (outside_call (ct_access env))) (\<lambda>fa.
     case fa_Lstat fa path of
       Inr _ \<Rightarrow> fatal (''refusing to overwrite existing output file: '' @ path)
     | Inl err \<Rightarrow> if is_not_exist err then refuse_existing env rest else fatal (error_text err))"

definition agent_flags :: "'w ctl_env \<Rightarrow> flag_values" where
  "agent_flags env =
     [(''db'', StringFlag (defaultDB env)), (''config'', StringFlag ''''), (''credentials-out'', StringFlag ''''), (''token-out'', StringFlag ''''),
      (''principal'', StringFlag ''''), (''ttl'', DurationFlag (60 * minute))]"

definition check_issue :: "flag_values \<Rightarrow> ('w, unit) command" where
  "check_issue values =
    (let credentialOutput = flag_string values ''credentials-out''; tokenOutput = flag_string values ''token-out'';
         principalID = flag_string values ''principal''; ttl = flag_duration values ''ttl'' in
     cmd_then (cmd_check (\<not> (flag_string values ''config'' = '''' \<or> credentialOutput = '''' \<or> tokenOutput = '''' \<or> principalID = ''''))
       (fatal ''--config, --credentials-out, --token-out, and --principal are required'')) (\<lambda>_.
     cmd_then (cmd_check (credentialOutput \<noteq> tokenOutput) (fatal ''--credentials-out and --token-out must be different files'')) (\<lambda>_.
     cmd_then (cmd_check (length principalID \<le> 128) (fatal ''--principal exceeds 128 bytes'')) (\<lambda>_.
     cmd_check (\<not> (ttl < 5 * minute \<or> 1440 * minute < ttl)) (fatal ''--ttl must be from 5m through 24h'')))))"

definition issue_record :: "crypto \<Rightarrow> string \<Rightarrow> string \<Rightarrow> string \<Rightarrow> CredentialFile" where
  "issue_record cr credentialID token sessionID =
     \<lparr>cf_SchemaVersion = ''gar.agent-credentials.v1'', cf_Credentials =
       [\<lparr>cr_CredentialID = credentialID, cr_TokenSHA256 = hex_encode (sum256 cr (map of_char token)), cr_SessionID = sessionID\<rparr>]\<rparr>"

text \<open>The session is saved before the files are written; a token file that cannot be written takes the credential file with it.\<close>

definition store_issue :: "'w ctl_env \<Rightarrow> flag_values \<Rightarrow> AgentSessionScope \<Rightarrow> string \<Rightarrow> string \<Rightarrow> ('w, unit) command" where
  "store_issue env values scope credentialID token =
     cmd_then (mustOpen env (flag_string values ''db'')) (\<lambda>_.
     cmd_then (must (journal_do (ct_outside env) (\<lambda>ce. SaveSession ce scope))) (\<lambda>_.
     cmd_then (writeNewFile env (flag_string values ''credentials-out'') (issue_record (ct_crypto env) credentialID token (sc_SessionID scope))) (\<lambda>err.
     case err of
       Some e \<Rightarrow> fatal (error_text e)
     | None \<Rightarrow>
         cmd_then (writeNewTokenFile env (flag_string values ''token-out'') token) (\<lambda>err.
         case err of
           Some e \<Rightarrow> cmd_then (remove_file env (flag_string values ''credentials-out'')) (\<lambda>_. fatal (error_text e))
         | None \<Rightarrow> cmd_return ()))))"

definition agentIssue :: "'w ctl_env \<Rightarrow> string list \<Rightarrow> ('w, gvalue) command" where
  "agentIssue env arguments =
     cmd_then (cmd_flags (ct_ParseDuration env) (agent_flags env) arguments) (\<lambda>(values, _).
     cmd_then (check_issue values) (\<lambda>_.
     cmd_then (refuse_existing env [flag_string values ''credentials-out'', flag_string values ''token-out'']) (\<lambda>_.
     cmd_then (must (load_runtime env (flag_string values ''config''))) (\<lambda>config.
     cmd_then (must (now (ct_outside env))) (\<lambda>at_time.
     cmd_then (new_id env ''session'') (\<lambda>sessionID.
     cmd_then (must_result (scope_Seal (ct_crypto env)
       (issued_scope config (flag_string values ''principal'') sessionID at_time (flag_duration values ''ttl'')))) (\<lambda>scope.
     cmd_then (must (outside_try (ct_random env 32))) (\<lambda>tokenBytes.
     let token = base64_raw_url tokenBytes in
     cmd_then (new_id env ''credential'') (\<lambda>credentialID.
     cmd_then (store_issue env values scope credentialID token) (\<lambda>_.
     cmd_return (GMap
       [(''principal_id'', GString (sc_PrincipalID scope)), (''session_id'', GString (sc_SessionID scope)),
        (''scope_digest'', GString (sc_ScopeDigest scope)), (''expires_at'', GTime (sc_ExpiresAt scope)),
        (''credentials_file_created'', GString (flag_string values ''credentials-out'')),
        (''token_file_created'', GString (flag_string values ''token-out'')),
        (''note'', GString ''the raw bearer exists only in token-out; approval remains owner-local'')])))))))))))"


section \<open>The report\<close>

record doctorCheck =
  dc_Status :: string
  dc_Detail :: string

definition checkError :: "unit result \<Rightarrow> string \<Rightarrow> doctorCheck" where
  "checkError r passDetail =
     (case r of Inl err \<Rightarrow> \<lparr>dc_Status = ''FAIL'', dc_Detail = error_text err\<rparr> | Inr _ \<Rightarrow> \<lparr>dc_Status = ''PASS'', dc_Detail = passDetail\<rparr>)"

definition not_configured :: "string \<Rightarrow> doctorCheck" where
  "not_configured detail = \<lparr>dc_Status = ''NOT_CONFIGURED'', dc_Detail = detail\<rparr>"

definition checkOrigin :: "'w ctl_env \<Rightarrow> string \<Rightarrow> doctorCheck" where
  "checkOrigin env origin =
     (if origin = '''' then not_configured ''an exact allowed Origin is required''
      else checkError (and_then (ValidateAllowedOrigin (ct_parse_url env) origin) (\<lambda>_. Inr ())) ''exact HTTP(S) Origin is configured'')"

definition dockerSocketCheck :: "unit result \<times> unit result \<Rightarrow> doctorCheck" where
  "dockerSocketCheck answer =
     (case answer of (lstat, access) \<Rightarrow>
        if (case lstat of Inl err \<Rightarrow> is_not_exist err | Inr _ \<Rightarrow> False)
        then \<lparr>dc_Status = ''PASS'', dc_Detail = ''default Docker socket is absent''\<rparr>
        else if \<not> isl access
        then \<lparr>dc_Status = ''FAIL'', dc_Detail = ''current GAR user can access /var/run/docker.sock; use an isolated service identity''\<rparr>
        else \<lparr>dc_Status = ''PASS'', dc_Detail = ''current GAR user cannot read or write the default Docker socket''\<rparr>)"

definition docker_host_check :: "'w ctl_env \<Rightarrow> doctorCheck" where
  "docker_host_check env =
     (if ct_getenv env ''DOCKER_HOST'' \<noteq> ''''
      then \<lparr>dc_Status = ''FAIL'', dc_Detail = ''DOCKER_HOST is present; run GAR under a service identity without Docker authority''\<rparr>
      else \<lparr>dc_Status = ''PASS'', dc_Detail = ''DOCKER_HOST is absent''\<rparr>)"

definition host_ready :: "'w ctl_env \<Rightarrow> ServerConfig \<Rightarrow> string \<Rightarrow> ('w, unit) action" where
  "host_ready env c path =
     run_then (run_result (NewHostTarget path (rc_Enrollment c) (rc_Artifacts c))) (\<lambda>target.
     run_then (outside_call (ct_host env)) (\<lambda>oe.
     run_then (run_result (host_Observe oe target (rc_Enrollment c))) (\<lambda>b.
     run_check (\<not> (ob_InventoryDigest b = '''' \<or> ob_ConfigDigest b = ''''))
       (OtherError ''host observation lacks fixed inventory or bootstrap evidence''))))"

definition guard_ready :: "ObservationBundle \<Rightarrow> bool" where
  "guard_ready b \<longleftrightarrow>
     (case (map_get (ob_Readings b) ''players'', map_get (ob_Readings b) ''guard_ready'') of
        (Some players, Some guard) \<Rightarrow> ov_Availability players = Available \<and> ov_Availability guard = Available \<and> ov_Value guard = GBool True
      | _ \<Rightarrow> False)"

definition paper_ready :: "'w ctl_env \<Rightarrow> ServerConfig \<Rightarrow> string \<Rightarrow> ('w, unit) action" where
  "paper_ready env c path =
     run_then (run_result (NewPaperTarget path (rc_Enrollment c))) (\<lambda>target.
     run_then (outside_call (ct_paper env)) (\<lambda>oe.
     run_then (run_result (paper_Observe oe target (rc_Enrollment c))) (\<lambda>b.
     run_check (guard_ready b) (OtherError ''Paper guard observation is stale or not ready''))))"

text \<open>\<open>None\<close> is a source that is not configured.\<close>

definition attempt_source :: "('a \<Rightarrow> ('w, unit) action) \<Rightarrow> 'a option \<Rightarrow> ('w, unit result option) command" where
  "attempt_source m source = (case source of None \<Rightarrow> cmd_return None | Some x \<Rightarrow> cmd_then (attempt (m x)) (\<lambda>r. cmd_return (Some r)))"

definition check_source_result :: "unit result option \<Rightarrow> string \<Rightarrow> string \<Rightarrow> doctorCheck" where
  "check_source_result r missing passDetail = (case r of None \<Rightarrow> not_configured missing | Some r \<Rightarrow> checkError r passDetail)"

definition ready :: "unit result option \<Rightarrow> bool" where
  "ready r \<longleftrightarrow> r = Some (Inr ())"

definition config_checks :: "'w ctl_env \<Rightarrow> string \<Rightarrow> ('w, (ServerConfig result option) \<times> (unit result option) \<times> (unit result option)) command" where
  "config_checks env path =
     (if path = '''' then cmd_return (None, None, None)
      else cmd_then (attempt (load_runtime env path)) (\<lambda>loaded.
        case loaded of
          Inl err \<Rightarrow> cmd_return (Some (Inl err), None, None)
        | Inr c \<Rightarrow>
            cmd_then (attempt_source (host_ready env c) (rc_HostObservation c)) (\<lambda>host.
            cmd_then (attempt_source (paper_ready env c) (rc_PaperRuntime c)) (\<lambda>paper.
            cmd_return (Some (Inr c), host, paper)))))"

text \<open>The credentials are loaded a second time for their number; an error there counts none.\<close>

definition credential_checks :: "'w ctl_env \<Rightarrow> string \<Rightarrow> ServerConfig option \<Rightarrow> ('w, (unit result option) \<times> nat) command" where
  "credential_checks env path config =
     (if path = '''' then cmd_return (None, 0)
      else cmd_then (attempt (load_credentials env path)) (\<lambda>loaded.
        cmd_then (case (loaded, config) of
            (Inr credentials, Some c) \<Rightarrow>
              cmd_then (must (now (ct_outside env))) (\<lambda>t.
              attempt (journal_read (ct_outside env) (ValidateSessions (ct_crypto env) credentials (en_EnrollmentID (rc_Enrollment c))
                (en_DeploymentGeneration (rc_Enrollment c)) (rc_CurrentRevocationEpoch c) t)))
          | _ \<Rightarrow> cmd_return (and_then loaded (\<lambda>_. Inr ()))) (\<lambda>valid.
        case valid of
          Inl err \<Rightarrow> cmd_return (Some (Inl err), 0)
        | Inr _ \<Rightarrow>
            cmd_then (attempt (load_credentials env path)) (\<lambda>again.
            cmd_return (Some (Inr ()), case again of Inl _ \<Rightarrow> 0 | Inr credentials \<Rightarrow> length credentials)))))"

record doctor_report =
  dr_User :: "string \<times> int"
  dr_Journal :: JournalSettings
  dr_Checks :: "(string \<times> doctorCheck) list"
  dr_CredentialCount :: nat
  dr_McpReady :: bool
  dr_PaperReady :: bool
  dr_HostReady :: bool
  dr_Support :: SupportProfile
  dr_MutationEnabled :: bool

definition doctor_flags :: "'w ctl_env \<Rightarrow> flag_values" where
  "doctor_flags env =
     [(''db'', StringFlag (defaultDB env)), (''config'', StringFlag (ct_getenv env ''GAR_CONFIG'')),
      (''credentials'', StringFlag (ct_getenv env ''GAR_CREDENTIALS'')),
      (''listen'', StringFlag (envOr (ct_getenv env) ''GAR_LISTEN'' ''127.0.0.1:8787'')),
      (''allowed-origin'', StringFlag (ct_getenv env ''GAR_ALLOWED_ORIGIN''))]"

definition required_checks :: "string list" where
  "required_checks = [''database_owner_only'', ''loopback_listener'', ''origin_validation'', ''docker_host_env'', ''docker_socket'']"

definition all_pass :: "(string \<times> doctorCheck) list \<Rightarrow> bool" where
  "all_pass checks = list_all (\<lambda>name. case map_of checks name of None \<Rightarrow> False | Some c \<Rightarrow> dc_Status c = ''PASS'') required_checks"

definition doctor :: "'w ctl_env \<Rightarrow> string list \<Rightarrow> ('w, doctor_report) command" where
  "doctor env arguments =
     cmd_then (cmd_flags (ct_ParseDuration env) (doctor_flags env) arguments) (\<lambda>(values, _).
     cmd_then (mustOpen env (flag_string values ''db'')) (\<lambda>_.
     cmd_then (must (journal_settings (ct_store env))) (\<lambda>settings.
     cmd_then (localIdentity env) (\<lambda>user.
     cmd_then (must (outside_call (ct_access env))) (\<lambda>fa.
     cmd_then (must (outside_call (ct_socket env))) (\<lambda>socket.
     cmd_then (config_checks env (flag_string values ''config'')) (\<lambda>(loaded, host, paper).
     let config = (case loaded of Some (Inr c) \<Rightarrow> Some c | _ \<Rightarrow> None) in
     cmd_then (credential_checks env (flag_string values ''credentials'') config) (\<lambda>(credentials, count).
     let checks =
       [(''database_owner_only'', checkError (ValidateOwnerOnlyRegular fa (flag_string values ''db''))
          ''database is regular, non-symlink, owner-only, and owned by current user''),
        (''loopback_listener'', checkError (ValidateListenAddress (flag_string values ''listen'')) ''listener uses a literal loopback IP''),
        (''origin_validation'', checkOrigin env (flag_string values ''allowed-origin'')),
        (''runtime_config'', check_source_result (map_option (\<lambda>r. and_then r (\<lambda>_. Inr ())) loaded) ''--config is required for MCP serving''
          ''runtime config is strict, owner-only, and fixed to one enrollment''),
        (''paper_runtime'', check_source_result paper ''paper_runtime.snapshot_path is not configured''
          ''fresh paired Paper guard snapshot is available''),
        (''host_observation'', check_source_result host ''host_observation.snapshot_path is not configured''
          ''fresh fixed-target host snapshot is available''),
        (''agent_credentials'', check_source_result credentials ''--credentials is required for MCP serving''
          ''all hashed bearer mappings resolve to current fixed session scopes''),
        (''docker_host_env'', docker_host_check env), (''docker_socket'', dockerSocketCheck socket)] in
     cmd_return \<lparr>dr_User = user, dr_Journal = settings, dr_Checks = checks, dr_CredentialCount = count,
       dr_McpReady = (config \<noteq> None \<and> ready credentials \<and> ready host \<and> ready paper \<and> all_pass checks),
       dr_PaperReady = ready paper, dr_HostReady = ready host,
       dr_Support = (case config of None \<Rightarrow> DefaultM1Profile | Some c \<Rightarrow> rc_Support c), dr_MutationEnabled = False\<rparr>))))))))"

section \<open>Intents, operations and backups\<close>

datatype ctl_output =
  ShownIntent IntentRecord
| ShownApproval "Approval \<times> Operation"
| ShownRejection Approval
| ShownRevocation string
| ShownOperation Operation
| ShownBackup BackupRecord
| ShownIssue gvalue
| ShownReport doctor_report

definition id_flags :: "'w ctl_env \<Rightarrow> flag_values" where
  "id_flags env = [(''db'', StringFlag (defaultDB env)), (''id'', StringFlag '''')]"

definition digest_flags :: "'w ctl_env \<Rightarrow> flag_values" where
  "digest_flags env = id_flags env @ [(''digest'', StringFlag '''')]"

definition intentShow :: "'w ctl_env \<Rightarrow> string list \<Rightarrow> ('w, ctl_output) command" where
  "intentShow env arguments =
     cmd_then (cmd_flags (ct_ParseDuration env) (id_flags env) arguments) (\<lambda>(values, _).
     cmd_then (cmd_check (flag_string values ''id'' \<noteq> '''') (fatal ''--id is required'')) (\<lambda>_.
     cmd_then (mustOpen env (flag_string values ''db'')) (\<lambda>_.
     cmd_then (must (journal_read (ct_outside env) (GetIntent (flag_string values ''id'')))) (\<lambda>rec.
     cmd_return (ShownIntent rec)))))"

text \<open>The part that the three decisions share: the exact intent and digest, the database, the local identity and the time.\<close>

definition decide ::
  "'w ctl_env \<Rightarrow> string list \<Rightarrow> (string \<Rightarrow> string \<Rightarrow> string \<Rightarrow> int \<Rightarrow> gotime \<Rightarrow> ('w, ctl_output) action) \<Rightarrow> ('w, ctl_output) command" where
  "decide env arguments decision =
     cmd_then (cmd_flags (ct_ParseDuration env) (digest_flags env) arguments) (\<lambda>(values, _).
     cmd_then (cmd_check (\<not> (flag_string values ''id'' = '''' \<or> flag_string values ''digest'' = '''')) (fatal ''--id and --digest are required'')) (\<lambda>_.
     cmd_then (mustOpen env (flag_string values ''db'')) (\<lambda>_.
     cmd_then (localIdentity env) (\<lambda>(name, uid).
     cmd_then (must (now (ct_outside env))) (\<lambda>t.
     must (decision (flag_string values ''id'') (flag_string values ''digest'') name uid t))))))"

definition intentApprove :: "'w ctl_env \<Rightarrow> string list \<Rightarrow> ('w, ctl_output) command" where
  "intentApprove env arguments = decide env arguments (\<lambda>intentID digest name uid t.
     run_then (journal_tx (ct_outside env) (\<lambda>ce. operator_Approve ce intentID digest name uid t))
       (\<lambda>r. run_return (ShownApproval r)))"

definition intentReject :: "'w ctl_env \<Rightarrow> string list \<Rightarrow> ('w, ctl_output) command" where
  "intentReject env arguments = decide env arguments (\<lambda>intentID digest name uid t.
     run_then (journal_tx (ct_outside env) (\<lambda>ce. operator_Reject ce intentID digest name uid t)) (\<lambda>r. run_return (ShownRejection r)))"

definition intentRevoke :: "'w ctl_env \<Rightarrow> string list \<Rightarrow> ('w, ctl_output) command" where
  "intentRevoke env arguments = decide env arguments (\<lambda>intentID digest name uid t.
     run_then (journal_do (ct_outside env) (\<lambda>ce. operator_Revoke ce intentID digest name uid t)) (\<lambda>_. run_return (ShownRevocation intentID)))"

definition operationShow :: "'w ctl_env \<Rightarrow> string list \<Rightarrow> ('w, ctl_output) command" where
  "operationShow env arguments =
     cmd_then (cmd_flags (ct_ParseDuration env) (id_flags env) arguments) (\<lambda>(values, _).
     cmd_then (cmd_check (flag_string values ''id'' \<noteq> '''') (fatal ''--id is required'')) (\<lambda>_.
     cmd_then (mustOpen env (flag_string values ''db'')) (\<lambda>_.
     cmd_then (must (journal_read (ct_outside env) (GetOperation (flag_string values ''id'')))) (\<lambda>op.
     cmd_return (ShownOperation op)))))"

definition backupShow :: "'w ctl_env \<Rightarrow> string list \<Rightarrow> ('w, ctl_output) command" where
  "backupShow env arguments =
     cmd_then (cmd_flags (ct_ParseDuration env) (id_flags env) arguments) (\<lambda>(values, rest).
     cmd_then (cmd_check (\<not> (flag_string values ''id'' = '''' \<or> rest \<noteq> []))
       (fatal ''--id is required; no paths or extra arguments are accepted'')) (\<lambda>_.
     cmd_then (mustOpen env (flag_string values ''db'')) (\<lambda>_.
     cmd_then (must (journal_read (ct_outside env) (GetBackup (flag_string values ''id'')))) (\<lambda>rec.
     cmd_return (ShownBackup rec)))))"

section \<open>The program\<close>

definition grouped :: "('w, ctl_output) command \<Rightarrow> string \<Rightarrow> string list \<Rightarrow> (string list \<Rightarrow> ('w, ctl_output) command) \<Rightarrow> ('w, ctl_output) command" where
  "grouped otherwise name arguments run =
     (case arguments of sub # rest \<Rightarrow> if sub = name then run rest else otherwise | [] \<Rightarrow> otherwise)"

definition issue_output :: "'w ctl_env \<Rightarrow> string list \<Rightarrow> ('w, ctl_output) command" where
  "issue_output env arguments = cmd_then (agentIssue env arguments) (\<lambda>v. cmd_return (ShownIssue v))"

definition intent_command :: "'w ctl_env \<Rightarrow> string list \<Rightarrow> ('w, ctl_output) command" where
  "intent_command env arguments =
     grouped (grouped (grouped (grouped usage ''revoke'' arguments (intentRevoke env)) ''reject'' arguments (intentReject env))
       ''approve'' arguments (intentApprove env)) ''show'' arguments (intentShow env)"

definition garctl :: "'w ctl_env \<Rightarrow> string list \<Rightarrow> ('w, ctl_output) command" where
  "garctl env arguments =
     (case arguments of
        [] \<Rightarrow> usage
      | name # rest \<Rightarrow>
          if name = ''doctor'' then cmd_then (doctor env rest) (\<lambda>r. cmd_return (ShownReport r))
          else if name = ''backup'' then grouped usage ''show'' rest (backupShow env)
          else if name = ''agent'' then grouped usage ''issue'' rest (issue_output env)
          else if name = ''intent'' then intent_command env rest
          else if name = ''operation'' then grouped usage ''show'' rest (operationShow env)
          else if name = ''intent-show'' then intentShow env rest
          else if name = ''intent-approve'' then intentApprove env rest
          else if name = ''intent-reject'' then intentReject env rest
          else if name = ''intent-revoke'' then intentRevoke env rest
          else if name = ''operation-show'' then operationShow env rest
          else usage)"

section \<open>What an issue leaves\<close>

lemma base64_length: "length (base64_raw_url xs) = (4 * length xs + 2) div 3"
  by (induction xs rule: base64_raw_url.induct) simp_all

lemma new_file_done:
  assumes "new_file env path payload s = (Inr None, s')"
  shows "cl_files s path = None" "rn_db (cl_run s') = rn_db (cl_run s)"
    "\<exists>bytes. payload = Inr bytes \<and> cl_files s' = (cl_files s)(path \<mapsto> \<lparr>sf_bytes = bytes, sf_mode = 384, sf_uid = ct_euid env\<rparr>)"
  using assms
  by (auto simp: new_file_def write_new_def Let_def split: prod.split_asm if_split_asm option.split_asm sum.split_asm)

lemma SaveSession_stored:
  assumes "SaveSession ce scope d = Inr d'"
  shows "GetSession (sc_SessionID scope) d' = Inr scope" "scope_Validate (ce_crypto ce) scope (ce_clock ce 0) = None"
  using assms
  by (auto simp: SaveSession_def insert_session_def translateWriteError_def GetSession_def appendAuditTx_def new_session_row_def rows_with_append
      split: sum.split_asm)

text \<open>
  The documented behaviour of what the issue calls: \<open>rand.Read\<close> fills the buffer with bytes, and a credential file with one short record of
  letters, digits and underscores that was encoded is decoded again and is smaller than 1 MiB.
\<close>

definition fills_buffers :: "'w ctl_env \<Rightarrow> bool" where
  "fills_buffers env \<longleftrightarrow> (\<forall>n w random w'. ct_random env n w = (Inr random, w') \<longrightarrow> length random = n)"

definition plain_text :: "string \<Rightarrow> bool" where
  "plain_text s \<longleftrightarrow> length s \<le> 64 \<and> set s \<subseteq> set ''0123456789abcdefghijklmnopqrstuvwxyz_''"

definition plain_record :: "CredentialFile \<Rightarrow> bool" where
  "plain_record f \<longleftrightarrow> (\<exists>credentialID digest sessionID. plain_text credentialID \<and> plain_text digest \<and> plain_text sessionID \<and>
     f = \<lparr>cf_SchemaVersion = ''gar.agent-credentials.v1'', cf_Credentials =
       [\<lparr>cr_CredentialID = credentialID, cr_TokenSHA256 = digest, cr_SessionID = sessionID\<rparr>]\<rparr>)"

definition codec_roundtrip :: "'w ctl_env \<Rightarrow> bool" where
  "codec_roundtrip env \<longleftrightarrow> (\<forall>f bytes. plain_record f \<and> ct_marshal env f = Inr bytes \<longrightarrow>
     length bytes \<le> MiB \<and> jr_Decode (ct_credentials env) bytes = Inr f \<and> \<not> jr_trailing (ct_credentials env) bytes)"

lemma hex_encode_plain: "set (hex_encode bs) \<subseteq> set ''0123456789abcdefghijklmnopqrstuvwxyz_''"
proof -
  have "hex_digit n \<in> set ''0123456789abcdef''" for n unfolding hex_digit_def by (rule nth_mem) simp
  then show ?thesis by (auto simp: hex_encode_def)
qed

lemma NewID_plain:
  assumes "length random = 16" "set pfx \<subseteq> set ''0123456789abcdefghijklmnopqrstuvwxyz_''" "length pfx < 32"
  shows "plain_text (NewID pfx random)" "NewID pfx random \<noteq> ''''"
  using assms hex_encode_plain [of random] by (auto simp: plain_text_def NewID_def)

lemma issued_id_plain:
  assumes "fills_buffers env" "\<exists>w random w'. ct_random env 16 w = (Inr random, w') \<and> ident = NewID pfx random"
    and "set pfx \<subseteq> set ''0123456789abcdefghijklmnopqrstuvwxyz_''" "length pfx < 32"
  shows "plain_text ident" "ident \<noteq> ''''"
proof -
  obtain w random w' where "ct_random env 16 w = (Inr random, w')" and ident: "ident = NewID pfx random" using assms(2) by blast
  then have "length random = 16" using assms(1) by (auto simp: fills_buffers_def)
  from NewID_plain [OF this assms(3,4)] show "plain_text ident" "ident \<noteq> ''''" by (simp_all add: ident)
qed

lemma issued_file_loads:
  assumes stored: "files path = Some \<lparr>sf_bytes = bytes, sf_mode = 384, sf_uid = ct_euid env\<rparr>"
    and bytes: "ct_marshal env (issue_record cr credentialID token sessionID) = Inr bytes"
    and codec: "codec_roundtrip env" and sized: "sha256_sized cr" and plain: "plain_text credentialID" "plain_text sessionID"
    and ids: "credentialID \<noteq> ''''" "sessionID \<noteq> ''''"
  shows "LoadCredentials (access_of files (ct_euid env)) (ct_credentials env) path =
    Inr [\<lparr>ce_digest = sum256 cr (map of_char token), ce_sessionID = sessionID\<rparr>]"
proof -
  have single: "plain_record (issue_record cr credentialID token sessionID)"
    using plain hex_encode_plain sized by (auto simp: issue_record_def plain_record_def plain_text_def sha256_sized_def)
  have read: "length bytes \<le> MiB" "jr_Decode (ct_credentials env) bytes = Inr (issue_record cr credentialID token sessionID)"
      "\<not> jr_trailing (ct_credentials env) bytes"
    using codec bytes single unfolding codec_roundtrip_def by blast+
  have owner: "ValidateOwnerOnlyRegular (access_of files (ct_euid env)) path = Inr ()"
    using stored by (simp add: ValidateOwnerOnlyRegular_def access_of_def on_file_def status_of_def sample_mode)
  have digest: "hex_decode (hex_encode (sum256 cr (map of_char token))) = Some (sum256 cr (map of_char token))"
      "length (sum256 cr (map of_char token)) = 32"
    using sized by (auto simp: sha256_sized_def intro!: hex_roundtrip)
  have "fa_ReadFile (access_of files (ct_euid env)) path = Inr bytes" using stored by (simp add: access_of_def on_file_def)
  with owner read digest ids show ?thesis
    by (simp add: LoadCredentials_def wrap_def Let_def issue_record_def hex_encode_lower)
qed

lemma store_issue_done:
  assumes run: "store_issue env values scope credentialID token s = (Inr (), s')"
    and differ: "flag_string values ''credentials-out'' \<noteq> flag_string values ''token-out''"
  shows "\<exists>bytes. ct_marshal env (issue_record (ct_crypto env) credentialID token (sc_SessionID scope)) = Inr bytes \<and>
      cl_files s' = (cl_files s)(flag_string values ''credentials-out'' \<mapsto> \<lparr>sf_bytes = bytes, sf_mode = 384, sf_uid = ct_euid env\<rparr>,
        flag_string values ''token-out'' \<mapsto> \<lparr>sf_bytes = map of_char token @ [10], sf_mode = 384, sf_uid = ct_euid env\<rparr>)"
    "cl_files s (flag_string values ''credentials-out'') = None" "cl_files s (flag_string values ''token-out'') = None"
    "GetSession (sc_SessionID scope) (rn_db (cl_run s')) = Inr scope"
proof -
  obtain s1 s2 s3 where opened: "mustOpen env (flag_string values ''db'') s = (Inr (), s1)"
      and saved: "must (journal_do (ct_outside env) (\<lambda>ce. SaveSession ce scope)) s1 = (Inr (), s2)"
      and cred: "new_file env (flag_string values ''credentials-out'')
        (ct_marshal env (issue_record (ct_crypto env) credentialID token (sc_SessionID scope))) s2 = (Inr None, s3)"
      and tok: "new_file env (flag_string values ''token-out'') (Inr (map of_char token @ [10])) s3 = (Inr None, s')"
    using run
    by (auto simp: store_issue_def cmd_then_Inr writeNewFile_def writeNewTokenFile_def split: option.split_asm)
  have files: "cl_files s1 = cl_files s" "cl_files s2 = cl_files s" using opened saved by (auto simp: mustOpen_def must_Inr)
  have "GetSession (sc_SessionID scope) (rn_db (cl_run s2)) = Inr scope"
    using saved SaveSession_stored(1)
    by (auto simp: must_Inr journal_do_def journal_tx_def Let_def split: prod.split_asm journal_fault.split_asm sum.split_asm)
  with new_file_done [OF cred] new_file_done [OF tok] files differ
  show "\<exists>bytes. ct_marshal env (issue_record (ct_crypto env) credentialID token (sc_SessionID scope)) = Inr bytes \<and>
      cl_files s' = (cl_files s)(flag_string values ''credentials-out'' \<mapsto> \<lparr>sf_bytes = bytes, sf_mode = 384, sf_uid = ct_euid env\<rparr>,
        flag_string values ''token-out'' \<mapsto> \<lparr>sf_bytes = map of_char token @ [10], sf_mode = 384, sf_uid = ct_euid env\<rparr>)"
    "cl_files s (flag_string values ''credentials-out'') = None" "cl_files s (flag_string values ''token-out'') = None"
    "GetSession (sc_SessionID scope) (rn_db (cl_run s')) = Inr scope"
    by auto
qed

lemma cmd_flags_Inr [simp]: "cmd_flags pd defaults arguments s = (Inr r, s') \<longleftrightarrow> parse_flags pd defaults arguments = Inr r \<and> s' = s"
  by (auto simp: cmd_flags_def)

lemma must_files: "must m s = (Inr x, s') \<Longrightarrow> cl_files s' = cl_files s"
  by (auto simp: must_Inr)

lemma attempt_Inr: "attempt m s = (Inr r, s') \<longleftrightarrow> (\<exists>run. m (cl_run s) = (r, run) \<and> s' = s\<lparr>cl_run := run\<rparr>)"
  by (auto simp: attempt_def split: prod.splits)

lemma new_id_done:
  assumes "new_id env pfx s = (Inr ident, s')"
  shows "cl_files s' = cl_files s" "\<exists>w random w'. ct_random env 16 w = (Inr random, w') \<and> ident = NewID pfx random"
  using assms
  by (auto simp: new_id_def cmd_then_Inr attempt_Inr outside_try_def case_sum_run split: prod.split_asm)

lemma refuse_existing_files: "refuse_existing env paths s = (Inr (), s') \<Longrightarrow> cl_files s' = cl_files s"
  by (induction paths arbitrary: s) (fastforce simp: cmd_then_Inr case_sum_run split: if_split_asm dest!: must_files)+

lemma check_issue_Inr:
  "check_issue values s = (Inr (), s') \<Longrightarrow> s' = s \<and> flag_string values ''credentials-out'' \<noteq> flag_string values ''token-out'' \<and>
     flag_string values ''principal'' \<noteq> '''' \<and> 5 * minute \<le> flag_duration values ''ttl'' \<and> flag_duration values ''ttl'' \<le> 1440 * minute"
  by (auto simp: check_issue_def Let_def cmd_then_Inr cmd_check_Inr not_less)

lemma load_runtime_done:
  assumes "must (load_runtime env path) s = (Inr c, s')"
  shows "\<exists>w fa w'. ct_access env w = (fa, w') \<and> load_server fa (ct_config env) path = Inr c"
  using assms by (auto simp: must_Inr load_runtime_def run_then_Inr outside_call_def run_result_def split: prod.split_asm)

lemma agentIssue_done:
  assumes "agentIssue env arguments s = (Inr out, s')"
  obtains vs rest s1 config t sessionID scope token tokenBytes credentialID w fa w' where
    "parse_flags (ct_ParseDuration env) (agent_flags env) arguments = Inr (vs, rest)"
    "flag_string vs ''credentials-out'' \<noteq> flag_string vs ''token-out''" "flag_string vs ''principal'' \<noteq> ''''"
    "5 * minute \<le> flag_duration vs ''ttl''" "flag_duration vs ''ttl'' \<le> 1440 * minute"
    "ct_access env w = (fa, w')" "load_server fa (ct_config env) (flag_string vs ''config'') = Inr config"
    "scope_Seal (ct_crypto env) (issued_scope config (flag_string vs ''principal'') sessionID t (flag_duration vs ''ttl'')) = Inr scope"
    "\<exists>w random w'. ct_random env 16 w = (Inr random, w') \<and> sessionID = NewID ''session'' random"
    "\<exists>w random w'. ct_random env 16 w = (Inr random, w') \<and> credentialID = NewID ''credential'' random"
    "\<exists>w w'. ct_random env 32 w = (Inr tokenBytes, w')" "token = base64_raw_url tokenBytes"
    "cl_files s1 = cl_files s" "store_issue env vs scope credentialID token s1 = (Inr (), s')"
proof -
  obtain vs rest s0 s2 s3 s4 s5 s6 s7 config t sessionID scope tokenBytes credentialID where
      flags: "parse_flags (ct_ParseDuration env) (agent_flags env) arguments = Inr (vs, rest)"
      and checked: "check_issue vs s = (Inr (), s0)"
      and fresh: "refuse_existing env [flag_string vs ''credentials-out'', flag_string vs ''token-out''] s0 = (Inr (), s2)"
      and config: "must (load_runtime env (flag_string vs ''config'')) s2 = (Inr config, s3)"
      and time: "must (now (ct_outside env)) s3 = (Inr t, s4)" and session: "new_id env ''session'' s4 = (Inr sessionID, s5)"
      and seal: "scope_Seal (ct_crypto env)
        (issued_scope config (flag_string vs ''principal'') sessionID t (flag_duration vs ''ttl'')) = Inr scope"
      and random: "must (outside_try (ct_random env 32)) s5 = (Inr tokenBytes, s6)"
      and credential: "new_id env ''credential'' s6 = (Inr credentialID, s7)"
      and stored: "store_issue env vs scope credentialID (base64_raw_url tokenBytes) s7 = (Inr (), s')"
    using assms unfolding agentIssue_def by (fastforce simp: cmd_then_Inr Let_def)
  have "cl_files s7 = cl_files s"
    using check_issue_Inr [OF checked] refuse_existing_files [OF fresh] must_files [OF config] must_files [OF time] must_files [OF random]
      new_id_done(1) [OF session] new_id_done(1) [OF credential] by simp
  moreover have "\<exists>w w'. ct_random env 32 w = (Inr tokenBytes, w')"
    using random by (auto simp: must_Inr outside_try_def split: prod.split_asm)
  ultimately show thesis
    using that flags check_issue_Inr [OF checked] load_runtime_done [OF config] seal new_id_done(2) [OF session] new_id_done(2) [OF credential]
      stored by blast
qed

text \<open>
  C12. A credential that the owner issues is usable at once and is no more than it says: when the issue succeeds, the token file holds a token
  of 43 characters, the credential file that the agent service loads resolves this token, and no text with another digest, to the session that
  the journal now holds. The session has the principal of the flags, exactly the enrollment and plugins of the configuration that was
  loaded, a valid seal, and an end 5 minutes to 24 hours after its issue. Both files are new, only their owner can open them, and no other file
  is touched.
\<close>

theorem issued_token_resolves:
  assumes run: "agentIssue env arguments s = (Inr out, s')" and sized: "sha256_sized (ct_crypto env)" and fills: "fills_buffers env"
    and codec: "codec_roundtrip env"
  shows "\<exists>vs rest token scope credentials config w fa w' bytes.
    parse_flags (ct_ParseDuration env) (agent_flags env) arguments = Inr (vs, rest) \<and>
    cl_files s (flag_string vs ''credentials-out'') = None \<and> cl_files s (flag_string vs ''token-out'') = None \<and>
    cl_files s' = (cl_files s)(flag_string vs ''credentials-out'' \<mapsto> \<lparr>sf_bytes = bytes, sf_mode = 384, sf_uid = ct_euid env\<rparr>,
      flag_string vs ''token-out'' \<mapsto> \<lparr>sf_bytes = map of_char token @ [10], sf_mode = 384, sf_uid = ct_euid env\<rparr>) \<and>
    length token = 43 \<and>
    LoadCredentials (access_of (cl_files s') (ct_euid env)) (ct_credentials env) (flag_string vs ''credentials-out'') = Inr credentials \<and>
    resolve (ct_crypto env) credentials token (rn_db (cl_run s')) = Inr scope \<and>
    (\<forall>other scope'. resolve (ct_crypto env) credentials other (rn_db (cl_run s')) = Inr scope' \<longrightarrow>
       scope' = scope \<and> sum256 (ct_crypto env) (map of_char other) = sum256 (ct_crypto env) (map of_char token)) \<and>
    ct_access env w = (fa, w') \<and> load_server fa (ct_config env) (flag_string vs ''config'') = Inr config \<and>
    sealed_scope (ct_crypto env) scope \<and> sc_PrincipalID scope = flag_string vs ''principal'' \<and>
    sc_EnrollmentID scope = en_EnrollmentID (rc_Enrollment config) \<and> sc_PluginIDs scope = en_AllowedPlugins (rc_Enrollment config) \<and>
    sc_RevocationEpoch scope = rc_CurrentRevocationEpoch config \<and> set (sc_Capabilities scope) = td_Name ` set AgentTools \<and>
    sc_ExpiresAt scope = Add (sc_IssuedAt scope) (flag_duration vs ''ttl'') \<and>
    5 * minute \<le> flag_duration vs ''ttl'' \<and> flag_duration vs ''ttl'' \<le> 1440 * minute"
  using run
proof (rule agentIssue_done)
  fix vs rest s1 config t sessionID scope token tokenBytes credentialID w fa w'
  assume flags: "parse_flags (ct_ParseDuration env) (agent_flags env) arguments = Inr (vs, rest)"
    and differ: "flag_string vs ''credentials-out'' \<noteq> flag_string vs ''token-out''"
    and ttl: "5 * minute \<le> flag_duration vs ''ttl''" "flag_duration vs ''ttl'' \<le> 1440 * minute"
    and config: "ct_access env w = (fa, w')" "load_server fa (ct_config env) (flag_string vs ''config'') = Inr config"
    and seal: "scope_Seal (ct_crypto env)
      (issued_scope config (flag_string vs ''principal'') sessionID t (flag_duration vs ''ttl'')) = Inr scope"
    and ids: "\<exists>w random w'. ct_random env 16 w = (Inr random, w') \<and> sessionID = NewID ''session'' random"
      "\<exists>w random w'. ct_random env 16 w = (Inr random, w') \<and> credentialID = NewID ''credential'' random"
    and random: "\<exists>w w'. ct_random env 32 w = (Inr tokenBytes, w')" and token: "token = base64_raw_url tokenBytes"
    and files: "cl_files s1 = cl_files s" and stored: "store_issue env vs scope credentialID token s1 = (Inr (), s')"
  have plain: "plain_text sessionID" "sessionID \<noteq> ''''" "plain_text credentialID" "credentialID \<noteq> ''''"
    using issued_id_plain [OF fills ids(1)] issued_id_plain [OF fills ids(2)] by simp_all
  have "length tokenBytes = 32" using random fills unfolding fills_buffers_def by metis
  then have length: "length token = 43" by (simp add: token base64_length)
  have scope: "sealed_scope (ct_crypto env) scope" "sc_SessionID scope = sessionID"
      "sc_PrincipalID scope = flag_string vs ''principal''"
      "sc_EnrollmentID scope = en_EnrollmentID (rc_Enrollment config)" "sc_PluginIDs scope = en_AllowedPlugins (rc_Enrollment config)"
      "sc_RevocationEpoch scope = rc_CurrentRevocationEpoch config" "sc_Capabilities scope = toolNames"
      "sc_ExpiresAt scope = Add (sc_IssuedAt scope) (flag_duration vs ''ttl'')"
    using seal by (auto simp: scope_Seal_def issued_scope_def sealed_scope_def scope_digestPayload_def split: sum.split_asm)
  note kept = store_issue_done [OF stored differ, unfolded files scope(2)]
  obtain bytes where bytes: "ct_marshal env (issue_record (ct_crypto env) credentialID token sessionID) = Inr bytes"
      and after: "cl_files s' = (cl_files s)(flag_string vs ''credentials-out'' \<mapsto> \<lparr>sf_bytes = bytes, sf_mode = 384, sf_uid = ct_euid env\<rparr>,
        flag_string vs ''token-out'' \<mapsto> \<lparr>sf_bytes = map of_char token @ [10], sf_mode = 384, sf_uid = ct_euid env\<rparr>)"
    using kept(1) by blast
  have "cl_files s' (flag_string vs ''credentials-out'') = Some \<lparr>sf_bytes = bytes, sf_mode = 384, sf_uid = ct_euid env\<rparr>"
    using after differ by simp
  note loaded = issued_file_loads [where files = "cl_files s'" and path = "flag_string vs ''credentials-out''", OF this bytes codec sized plain(3,1,4,2)]
  let ?credentials = "[\<lparr>ce_digest = sum256 (ct_crypto env) (map of_char token), ce_sessionID = sessionID\<rparr>]"
  have resolved: "resolve (ct_crypto env) ?credentials token (rn_db (cl_run s')) = Inr scope"
      "\<forall>other scope'. resolve (ct_crypto env) ?credentials other (rn_db (cl_run s')) = Inr scope' \<longrightarrow>
         scope' = scope \<and> sum256 (ct_crypto env) (map of_char other) = sum256 (ct_crypto env) (map of_char token)"
    using kept(4) length by (auto simp: resolve_def split: if_split_asm)
  have tools: "set (sc_Capabilities scope) = td_Name ` set AgentTools" by (simp add: scope toolNames_def)
  show ?thesis
    by (intro exI conjI) (rule flags kept(2,3) after length loaded resolved config scope(1,3-6) tools scope(8) ttl)+
qed

section \<open>A concrete issue\<close>

definition sample_marshal :: "CredentialFile \<Rightarrow> nat list result" where
  "sample_marshal f = (case cf_Credentials f of
     [r] \<Rightarrow> Inr (map of_char (cr_CredentialID r) @ 0 # map of_char (cr_TokenSHA256 r) @ 0 # map of_char (cr_SessionID r))
   | _ \<Rightarrow> Inl (OtherError ''one record''))"

definition sample_unmarshal :: "nat list \<Rightarrow> CredentialFile result" where
  "sample_unmarshal bs =
    (let field = takeWhile (\<lambda>b. b \<noteq> 0); rest = (\<lambda>bs. tl (dropWhile (\<lambda>b. b \<noteq> 0) bs)) in
     Inr \<lparr>cf_SchemaVersion = ''gar.agent-credentials.v1'', cf_Credentials =
       [\<lparr>cr_CredentialID = map char_of (field bs), cr_TokenSHA256 = map char_of (field (rest bs)),
         cr_SessionID = map char_of (rest (rest bs))\<rparr>]\<rparr>)"

definition sample_issue_access :: file_access where
  "sample_issue_access = sample_access\<lparr>fa_Lstat := (\<lambda>p. if p = ''/srv/c'' then fa_Lstat sample_access p else Inl (ErrNotExist p))\<rparr>"

definition no_snapshot :: "'a observer_env" where
  "no_snapshot = \<lparr>oe_access = sample_issue_access,
     oe_reader = \<lparr>jr_lexemes = (\<lambda>_. []), jr_Decode = (\<lambda>_. Inl (OtherError ''unexpected end'')), jr_trailing = (\<lambda>_. False)\<rparr>,
     oe_clock = (\<lambda>_. sample_now), oe_crypto = sized_crypto, oe_ToLower = to_lower\<rparr>"

definition sample_ctl :: "unit ctl_env" where
  "sample_ctl =
     \<lparr>ct_outside = \<lparr>ou_crypto = sized_crypto, ou_now = (\<lambda>w. (sample_now, w)), ou_readings = (\<lambda>w. ((\<lambda>_. sample_now, \<lambda>_. []), w)),
        ou_others = (\<lambda>w d. (d, w)), ou_fault = (\<lambda>w. (Works, w)), ou_deadline = (\<lambda>_ w. ((), w)), ou_ticks = (\<lambda>_ w. (0, w)),
        ou_ctx_err = (\<lambda>w. (OtherError ''deadline'', w))\<rparr>,
      ct_store = \<lparr>so_access = (\<lambda>w. (sample_access, w)), so_OpenFile = (\<lambda>_ w. (Inr (), w)), so_Close = (\<lambda>_ w. (Inr (), w)), so_Abs = Inr,
        so_PathEscape = (\<lambda>p. p), so_sql = (\<lambda>_ w. (Inr (), w)), so_schema = (\<lambda>w. (Inr (), w)), so_text_pragma = (\<lambda>_ w. (Inr ''wal'', w)),
        so_int_pragma = (\<lambda>name w. (Inr (if name = ''synchronous'' then 2 else 1), w))\<rparr>,
      ct_getenv = (\<lambda>_. ''''), ct_ParseDuration = (\<lambda>_. None), ct_euid = 7, ct_access = (\<lambda>w. (sample_issue_access, w)),
      ct_user = (\<lambda>w. (Inr (''owner'', ''7''), w)), ct_random = (\<lambda>n w. (Inr (replicate n 5), w)),
      ct_new_file = (\<lambda>w. (\<lparr>nf_Open = None, nf_Write = None, nf_Sync = None, nf_Close = None, nf_Removes = True\<rparr>, w)),
      ct_marshal = sample_marshal, ct_config = sample_reader sample_server,
      ct_credentials = \<lparr>jr_lexemes = (\<lambda>_. []), jr_Decode = sample_unmarshal, jr_trailing = (\<lambda>_. False)\<rparr>,
      ct_host = (\<lambda>w. (no_snapshot, w)), ct_paper = (\<lambda>w. (no_snapshot, w)), ct_socket = (\<lambda>w. ((Inr (), Inr ()), w)),
      ct_parse_url = (\<lambda>_. Inl (OtherError ''no address''))\<rparr>"

definition sample_arguments :: "string list" where
  "sample_arguments = [''--config'', ''/srv/c'', ''-credentials-out=/srv/k'', ''--token-out'', ''/srv/t'', ''-principal'', ''agent'']"

definition sample_cli :: "unit cli" where
  "sample_cli = \<lparr>cl_run = \<lparr>rn_db = empty_db, rn_world = (), rn_calls = []\<rparr>, cl_files = (\<lambda>_. None)\<rparr>"

lemma sample_codec: "codec_roundtrip sample_ctl"
proof -
  have "\<forall>c \<in> set ''0123456789abcdefghijklmnopqrstuvwxyz_''. of_char c \<noteq> (0 :: nat)" by simp
  then have clear: "of_char c \<noteq> (0 :: nat)" if "plain_text x" "c \<in> set x" for x and c :: char
    using that unfolding plain_text_def by blast
  have field: "takeWhile (\<lambda>b. b \<noteq> 0) (map of_char x @ 0 # rest) = map of_char x" "dropWhile (\<lambda>b. b \<noteq> 0) (map of_char x @ 0 # rest) = 0 # rest"
    if "plain_text x" for x and rest :: "nat list"
    using clear [OF that] by (subst takeWhile_append2 dropWhile_append2; auto)+
  have "sample_unmarshal (map of_char a @ 0 # map of_char b @ 0 # map of_char c) = Inr \<lparr>cf_SchemaVersion = ''gar.agent-credentials.v1'',
      cf_Credentials = [\<lparr>cr_CredentialID = a, cr_TokenSHA256 = b, cr_SessionID = c\<rparr>]\<rparr>"
    if "plain_text a" "plain_text b" for a b c
    unfolding sample_unmarshal_def Let_def field [OF that(1)] list.sel field [OF that(2)] by (simp add: comp_def)
  then show ?thesis
    by (auto simp: codec_roundtrip_def plain_record_def sample_ctl_def sample_marshal_def plain_text_def MiB_def)
qed

lemma sample_flags:
  "parse_flags (\<lambda>_. None) (agent_flags sample_ctl) sample_arguments = Inr
    ([(''db'', StringFlag ''./gar-v01.db''), (''config'', StringFlag ''/srv/c''), (''credentials-out'', StringFlag ''/srv/k''),
      (''token-out'', StringFlag ''/srv/t''), (''principal'', StringFlag ''agent''), (''ttl'', DurationFlag (60 * minute))], [])"
  by (simp add: agent_flags_def defaultDB_def envOr_def sample_arguments_def sample_ctl_def flag_name_def assign_flag_def update_flag_def)

lemma sample_issued: "\<exists>out s'. agentIssue sample_ctl sample_arguments sample_cli = (Inr out, s')"
proof -
  have load: "load_server sample_issue_access (sample_reader sample_server) ''/srv/c'' = Inr sample_server"
    using sample_server_loaded [of "''/srv/c''"]
    by (simp add: load_server_def read_config_def ValidateOwnerOnlyRegular_def sample_issue_access_def)
  have env: "ct_ParseDuration sample_ctl = (\<lambda>_. None)" "ct_access sample_ctl = (\<lambda>w. (sample_issue_access, w))" "ct_euid sample_ctl = 7"
      "ct_random sample_ctl = (\<lambda>n w. (Inr (replicate n 5), w))" "ct_marshal sample_ctl = sample_marshal"
      "ct_config sample_ctl = sample_reader sample_server" "ct_crypto sample_ctl = sized_crypto"
    by (simp_all add: sample_ctl_def)
  have absent: "fa_Lstat sample_issue_access ''/srv/k'' = Inl (ErrNotExist ''/srv/k'')" 
      "fa_Lstat sample_issue_access ''/srv/t'' = Inl (ErrNotExist ''/srv/t'')" by (simp_all add: sample_issue_access_def)
  let ?vs = "[(''db'', StringFlag ''./gar-v01.db''), (''config'', StringFlag ''/srv/c''), (''credentials-out'', StringFlag ''/srv/k''),
      (''token-out'', StringFlag ''/srv/t''), (''principal'', StringFlag ''agent''), (''ttl'', DurationFlag (60 * minute))]"
  have flags: "flag_string ?vs ''db'' = ''./gar-v01.db''" "flag_string ?vs ''config'' = ''/srv/c''"
      "flag_string ?vs ''credentials-out'' = ''/srv/k''" "flag_string ?vs ''token-out'' = ''/srv/t''"
      "flag_string ?vs ''principal'' = ''agent''" "flag_duration ?vs ''ttl'' = 60 * minute"
    by (simp_all add: flag_string_def flag_duration_def)
  have kept: "must (outside_call (\<lambda>w. (x, w))) sample_cli = (Inr x, sample_cli)"
      "must (outside_try (\<lambda>w. (Inr x, w))) sample_cli = (Inr x, sample_cli)"
      "attempt (outside_try (\<lambda>w. (Inr x, w))) sample_cli = (Inr (Inr x), sample_cli)" for x :: 'b
    by (simp_all add: must_def attempt_def outside_call_def outside_try_def sample_cli_def)
  have steps: "check_issue ?vs sample_cli = (Inr (), sample_cli)"
      "refuse_existing sample_ctl [''/srv/k'', ''/srv/t''] sample_cli = (Inr (), sample_cli)"
      "must (load_runtime sample_ctl ''/srv/c'') sample_cli = (Inr sample_server, sample_cli)"
      "must (now (ct_outside sample_ctl)) sample_cli = (Inr sample_now, sample_cli)"
      "new_id sample_ctl pfx sample_cli = (Inr (NewID pfx (replicate 16 5)), sample_cli)" for pfx
    by (simp_all only: check_issue_def flags)
       (simp_all add: Let_def cmd_check_def cmd_then_def cmd_return_def minute_def second_def kept absent env is_not_exist_def now_def new_id_def,
        simp_all add: must_def load_runtime_def run_then_def outside_call_def env run_result_def load sample_ctl_def sample_cli_def)
  have sealing: "must_result (Inr x) sample_cli = (Inr x, sample_cli)" for x :: 'b by simp
  let ?scope = "issued_scope sample_server ''agent'' (NewID ''session'' (replicate 16 5)) sample_now (60 * minute)"
  have "rejectFloats (scope_digestPayload ?scope) = None" by (simp add: rejectFloats_iff scope_digestPayload_def del: rejectFloats.simps)
  then obtain scope where seal: "scope_Seal sized_crypto ?scope = Inr scope"
    by (simp add: scope_Seal_def Digest_def CanonicalJSON_def sized_crypto_def sample_crypto_def)
  then have sealed: "sealed_scope sized_crypto scope" "sc_ExpiresAt scope = Add sample_now (60 * minute)"
    by (auto simp: scope_Seal_def issued_scope_def sealed_scope_def scope_digestPayload_def split: sum.split_asm)
  then have valid: "scope_Validate sized_crypto scope sample_now = None"
    by (simp add: scope_Validate_None_iff Before_def sample_now_def Add_def duration_units)
  obtain s' where "store_issue sample_ctl ?vs scope (NewID ''credential'' (replicate 16 5)) (base64_raw_url (replicate 32 5)) sample_cli
      = (Inr (), s')"
    using valid
    by (simp add: store_issue_def cmd_then_def flags mustOpen_def must_def Open_def secureDatabaseFile_def sample_ctl_def sample_cli_def
        sample_access_def run_then_def outside_call_def outside_try_def owner_only_now_def run_result_def journal_unavailable_def
        ValidateOwnerOnlyRegular_def sample_mode journal_do_def journal_tx_def SaveSession_def insert_session_def with_unit_def
        translateWriteError_def writeNewFile_def writeNewTokenFile_def new_file_def write_new_def sample_marshal_def issue_record_def
        Let_def cmd_return_def empty_db_def check_def unless_error_def initialize_store_def
        journal_settings_def run_check_def run_return_def wrap_def)
  with steps seal show ?thesis
    by (simp add: agentIssue_def cmd_then_def cmd_flags_def env sample_flags flags Let_def kept sealing cmd_return_def del: refuse_existing.simps)
qed

theorem issued_token_resolves_witness:
  "\<exists>token scope credentials s' out. agentIssue sample_ctl sample_arguments sample_cli = (Inr out, s') \<and> length token = 43 \<and>
     cl_files s' ''/srv/t'' = Some \<lparr>sf_bytes = map of_char token @ [10], sf_mode = 384, sf_uid = 7\<rparr> \<and>
     resolve (ct_crypto sample_ctl) credentials token (rn_db (cl_run s')) = Inr scope \<and> sc_PrincipalID scope = ''agent'' \<and>
     sc_EnrollmentID scope = en_EnrollmentID sample_enrollment"
proof -
  obtain out s' where run: "agentIssue sample_ctl sample_arguments sample_cli = (Inr out, s')" using sample_issued by blast
  have env: "sha256_sized (ct_crypto sample_ctl)" "fills_buffers sample_ctl" "ct_ParseDuration sample_ctl = (\<lambda>_. None)" "ct_euid sample_ctl = 7"
    by (simp_all add: sha256_sized_def fills_buffers_def sample_ctl_def sized_crypto_def)
  have config: "c = sample_server" if "load_server fa (ct_config sample_ctl) path = Inr c" for fa path c
    using that unfolding load_server_def by (auto simp: sample_ctl_def read_config_def decode_payload_def)
  obtain vs rest token c fa bytes credentials scope where flags: "parse_flags (\<lambda>_. None) (agent_flags sample_ctl) sample_arguments = Inr (vs, rest)"
      and files: "cl_files s' = (cl_files sample_cli)(flag_string vs ''credentials-out'' \<mapsto> \<lparr>sf_bytes = bytes, sf_mode = 384, sf_uid = 7\<rparr>,
        flag_string vs ''token-out'' \<mapsto> \<lparr>sf_bytes = map of_char token @ [10], sf_mode = 384, sf_uid = 7\<rparr>)"
      and token: "length token = 43" and resolved: "resolve (ct_crypto sample_ctl) credentials token (rn_db (cl_run s')) = Inr scope"
      and loaded: "load_server fa (ct_config sample_ctl) (flag_string vs ''config'') = Inr c"
      and scope: "sc_PrincipalID scope = flag_string vs ''principal''" "sc_EnrollmentID scope = en_EnrollmentID (rc_Enrollment c)"
    using issued_token_resolves [OF run env(1,2) sample_codec, unfolded env(3,4)] by (elim exE conjE) (rule that, assumption+)
  have "cl_files s' ''/srv/t'' = Some \<lparr>sf_bytes = map of_char token @ [10], sf_mode = 384, sf_uid = 7\<rparr>" "sc_PrincipalID scope = ''agent''"
    using flags unfolding sample_flags by (auto simp: files scope(1) flag_string_def)
  moreover have "sc_EnrollmentID scope = en_EnrollmentID sample_enrollment" by (simp add: scope(2) config [OF loaded] sample_server_def)
  ultimately show ?thesis using run token resolved by blast
qed

end
