(* ===== verification/Service_Commands.thy ===== *)
theory Service_Commands
  imports Owner_Commands Composite_Target Admission_Gate G02_Runner
begin

text \<open>
  The programs that serve: \<open>src/cmd/gar/main.go\<close> wires the agent service to its transport, \<open>src/cmd/gar-gate/main.go\<close> opens, closes and runs the
  admission gate, \<open>src/cmd/gar-host/main.go\<close> observes the host, \<open>src/cmd/gar-g02-verify/main.go\<close> runs the acceptance of the barrier.

  \<open>program_env\<close> adds to what \<open>garctl\<close> asks of the outside: the directory that a file is replaced in, the observer's world, the network. A file that a
  program replaces is in \<open>cl_files\<close>, of which only the last state is kept; what it reads comes from \<open>ct_access\<close>.
\<close>

section \<open>The outside\<close>

record 'w program_env =
  pv_ctl :: "'w ctl_env"
  pv_write :: "'w \<Rightarrow> write_env \<times> 'w"
  pv_admission :: "AdmissionConfig json_reader"
  pv_state :: "AdmissionState json_reader"
  pv_runtime :: "runtime_snapshot json_reader"
  pv_marshal_state :: "AdmissionState \<Rightarrow> nat list result"
  pv_observer :: "ObserverConfig json_reader"
  pv_world :: "'w \<Rightarrow> observer_world \<times> 'w"
  pv_marshal_host :: "HostSnapshot \<Rightarrow> nat list result"
  pv_Listen :: "string \<Rightarrow> string \<Rightarrow> 'w \<Rightarrow> unit result \<times> 'w"
  pv_CloseListener :: "string \<Rightarrow> 'w \<Rightarrow> 'w"
  pv_Serve :: "'w \<Rightarrow> unit result \<times> 'w"

text \<open>What the reads of one request meet.\<close>

record request_env =
  re_Host :: "HostSnapshot observer_env"
  re_Paper :: "PaperSnapshot observer_env"
  re_Wall :: gotime

abbreviation pv_outside :: "'w program_env \<Rightarrow> 'w outside" where
  "pv_outside env \<equiv> ct_outside (pv_ctl env)"

definition read_file :: "'w program_env \<Rightarrow> (file_access \<Rightarrow> 'a result) \<Rightarrow> ('w, 'a) command" where
  "read_file env g = must (run_then (outside_call (ct_access (pv_ctl env))) (\<lambda>fa. run_result (g fa)))"

text \<open>A file is replaced in the directory as \<open>pv_write\<close> finds it; an error ends the program.\<close>

definition replacing :: "'w program_env \<Rightarrow> (write_env \<Rightarrow> files \<Rightarrow> 'a result \<times> files list) \<Rightarrow> ('w, 'a result) command" where
  "replacing env g s =
     (case pv_write env (rn_world (cl_run s)) of (we, w) \<Rightarrow>
        (case g we (cl_files s) of
           (r, seen) \<Rightarrow> (Inr r, s\<lparr>cl_run := (cl_run s)\<lparr>rn_world := w\<rparr>, cl_files := last seen\<rparr>)))"

definition accept :: "'a result \<Rightarrow> ('w, 'a) command" where
  "accept r = (case r of Inl err \<Rightarrow> fatal (error_text err) | Inr x \<Rightarrow> cmd_return x)"

lemma accept_Inr [simp]: "accept r s = (Inr x, s') \<longleftrightarrow> r = Inr x \<and> s' = s"
  by (auto simp: accept_def split: sum.split)

lemma replacing_Inr: "replacing env g s = (Inr r, s') \<longleftrightarrow> (\<exists>we w seen. pv_write env (rn_world (cl_run s)) = (we, w) \<and>
    g we (cl_files s) = (r, seen) \<and> s' = s\<lparr>cl_run := (cl_run s)\<lparr>rn_world := w\<rparr>, cl_files := last seen\<rparr>)"
  by (auto simp: replacing_def split: prod.split)

section \<open>gar\<close>

definition reflect_tool :: "ToolDefinition \<Rightarrow> gvalue" where
  "reflect_tool t = GStruct [(''name'', True, GString (td_Name t)), (''permission'', True, GString (td_Permission t))]"

definition gar_status :: gvalue where
  "gar_status = GMap
     [(''product'', GString ''Guarded Agent Runner for Paper''), (''specification'', GString ''GAR-PCS-001@v0.1-r1''),
      (''milestone'', GString ''M2_MCP_TRANSPORT_READ_ONLY_ALPHA''), (''mutation_enabled'', GBool (MutationAllowed DefaultM1Profile)),
      (''agent_tools'', GSlice (map reflect_tool AgentTools)), (''mcp_transport'', GString ''LOCAL_VERIFIED_CONFIG_REQUIRED''),
      (''paper_observations'', GString ''CONFIG_REQUIRED; LOCAL_PAPER_READ_ONLY_TUPLE_RECORDED''),
      (''real_paper_evidence'', GString ''LOCAL_PAPER_READ_ONLY'')]"

definition host_source :: "ServerConfig \<Rightarrow> HostTarget option result" where
  "host_source c =
     (case rc_HostObservation c of
        None \<Rightarrow> Inr None
      | Some path \<Rightarrow> and_then (NewHostTarget path (rc_Enrollment c) (rc_Artifacts c)) (\<lambda>target. Inr (Some target)))"

definition paper_source :: "ServerConfig \<Rightarrow> PaperTarget option result" where
  "paper_source c =
     (case rc_PaperRuntime c of
        None \<Rightarrow> Inr None
      | Some path \<Rightarrow> and_then (NewPaperTarget path (rc_Enrollment c)) (\<lambda>target. Inr (Some target)))"

definition served_target :: "crypto \<Rightarrow> request_env \<Rightarrow> HostTarget option \<Rightarrow> PaperTarget option \<Rightarrow> target_reader result" where
  "served_target cr re host paper =
     (let hostTarget = map_option (host_target (re_Host re)) host; paperTarget = map_option (paper_target (re_Paper re)) paper in
      case (hostTarget, paperTarget) of
        (Some h, Some p) \<Rightarrow> and_then (NewComposite hostTarget paperTarget) (\<lambda>both. Inr (composite_target cr both))
      | (Some h, None) \<Rightarrow> Inr h
      | (None, Some p) \<Rightarrow> Inr p
      | (None, None) \<Rightarrow> Inr (UnavailableTarget
          ''host and Paper observations are not configured; MCP transport has no live target evidence'' (re_Wall re)))"

definition served_service :: "ServerConfig \<Rightarrow> target_reader \<Rightarrow> Service" where
  "served_service c target =
     \<lparr>sv_Registry = config_Registry c, sv_Target = target, sv_Support = rc_Support c,
      sv_CurrentRevocationEpoch = rc_CurrentRevocationEpoch c, sv_MutationExecutorEnabled = False\<rparr>"

definition serve_flags :: "'w program_env \<Rightarrow> flag_values" where
  "serve_flags env =
     [(''db'', StringFlag (envOr (ct_getenv (pv_ctl env)) ''GAR_DB'' ''./gar-v01.db'')),
      (''config'', StringFlag (ct_getenv (pv_ctl env) ''GAR_CONFIG'')), (''credentials'', StringFlag (ct_getenv (pv_ctl env) ''GAR_CREDENTIALS'')),
      (''listen'', StringFlag (envOr (ct_getenv (pv_ctl env)) ''GAR_LISTEN'' ''127.0.0.1:8787'')),
      (''allowed-origin'', StringFlag (ct_getenv (pv_ctl env) ''GAR_ALLOWED_ORIGIN''))]"

text \<open>The credentials must resolve to current sessions before anything is served.\<close>

definition check_sessions :: "'w program_env \<Rightarrow> ServerConfig \<Rightarrow> CredentialSet \<Rightarrow> ('w, gotime) command" where
  "check_sessions env c credentials =
     cmd_then (must (now (pv_outside env))) (\<lambda>t.
     cmd_then (must (journal_read (pv_outside env) (ValidateSessions (ct_crypto (pv_ctl env)) credentials (en_EnrollmentID (rc_Enrollment c))
       (en_DeploymentGeneration (rc_Enrollment c)) (rc_CurrentRevocationEpoch c) t))) (\<lambda>_.
     cmd_return t))"

definition held_store :: "('w, db) command" where
  "held_store s = (Inr (rn_db (cl_run s)), s)"

text \<open>The handler as one request meets it, with the address it listens on.\<close>

definition open_service :: "'w program_env \<Rightarrow> request_env \<Rightarrow> string list \<Rightarrow> ('w, mcp_handler \<times> string) command" where
  "open_service env re arguments =
     cmd_then (cmd_flags (ct_ParseDuration (pv_ctl env)) (serve_flags env) arguments) (\<lambda>(vs, _).
     cmd_then (cmd_check (\<not> (flag_string vs ''config'' = '''' \<or> flag_string vs ''credentials'' = '''' \<or> flag_string vs ''allowed-origin'' = ''''))
       (fatal ''--config, --credentials, and --allowed-origin are required'')) (\<lambda>_.
     cmd_then (must_result (ValidateListenAddress (flag_string vs ''listen''))) (\<lambda>_.
     cmd_then (must (load_runtime (pv_ctl env) (flag_string vs ''config''))) (\<lambda>config.
     cmd_then (must (load_credentials (pv_ctl env) (flag_string vs ''credentials''))) (\<lambda>credentials.
     cmd_then (mustOpen (pv_ctl env) (flag_string vs ''db'')) (\<lambda>_.
     cmd_then (check_sessions env config credentials) (\<lambda>_.
     cmd_then (must_result (host_source config)) (\<lambda>host.
     cmd_then (must_result (paper_source config)) (\<lambda>paper.
     cmd_then (must_result (served_target (ct_crypto (pv_ctl env)) re host paper)) (\<lambda>target.
     cmd_then held_store (\<lambda>database.
     cmd_then (must_result (NewHandler (ct_parse_url (pv_ctl env)) (Some (served_service config target)) (Some database) (Some credentials)
       (flag_string vs ''allowed-origin'') 0)) (\<lambda>handler.
     cmd_then (must (outside_try (pv_Listen env ''tcp'' (flag_string vs ''listen'')))) (\<lambda>_.
     cmd_return (handler, flag_string vs ''listen''))))))))))))))"

text \<open>\<open>pv_Serve\<close> ends without an error when the server was shut down.\<close>

definition gar_serve :: "'w program_env \<Rightarrow> request_env \<Rightarrow> string list \<Rightarrow> ('w, unit) command" where
  "gar_serve env re arguments = cmd_then (open_service env re arguments) (\<lambda>_. must (outside_try (pv_Serve env)))"

definition gar :: "'w program_env \<Rightarrow> request_env \<Rightarrow> string list \<Rightarrow> ('w, gvalue option) command" where
  "gar env re arguments =
     (case arguments of
        [] \<Rightarrow> cmd_return (Some gar_status)
      | name # rest \<Rightarrow>
          if name = ''status'' then cmd_return (Some gar_status)
          else if name = ''serve'' then cmd_then (gar_serve env re rest) (\<lambda>_. cmd_return None)
          else usage)"

section \<open>gar-gate\<close>

datatype gate_output = ShownState AdmissionState | ShownDecision Decision | ShownGate Gate

definition gate_flags :: "'w program_env \<Rightarrow> flag_values" where
  "gate_flags env = [(''config'', StringFlag (ct_getenv (pv_ctl env) ''GAR_ADMISSION_CONFIG''))]"

text \<open>Flags, no further arguments, and the configuration they name.\<close>

definition load_named ::
  "'w program_env \<Rightarrow> flag_values \<Rightarrow> (file_access \<Rightarrow> string \<Rightarrow> 'a result) \<Rightarrow> string list \<Rightarrow> ('w, flag_values \<times> 'a) command" where
  "load_named env defaults load arguments =
     cmd_then (cmd_flags (ct_ParseDuration (pv_ctl env)) defaults arguments) (\<lambda>(vs, rest).
     cmd_then (cmd_check (\<not> (flag_string vs ''config'' = '''' \<or> rest \<noteq> [])) usage) (\<lambda>_.
     cmd_then (read_file env (\<lambda>fa. load fa (flag_string vs ''config''))) (\<lambda>config.
     cmd_return (vs, config))))"

definition gate_load :: "'w program_env \<Rightarrow> flag_values \<Rightarrow> string list \<Rightarrow> ('w, flag_values \<times> AdmissionConfig) command" where
  "gate_load env defaults arguments = load_named env defaults (\<lambda>fa path. load_admission fa (pv_admission env) path) arguments"

definition gate_write :: "'w program_env \<Rightarrow> AdmissionConfig \<Rightarrow> Mode \<Rightarrow> string \<Rightarrow> duration \<Rightarrow> ('w, gate_output) command" where
  "gate_write env config mode reason lease =
     cmd_then (must (now (pv_outside env))) (\<lambda>t.
     cmd_then (replacing env (\<lambda>we files. WriteState (pv_marshal_state env) we config mode reason lease t files)) (\<lambda>written.
     cmd_then (accept written) (\<lambda>state. cmd_return (ShownState state))))"

definition setOpen :: "'w program_env \<Rightarrow> string list \<Rightarrow> ('w, gate_output) command" where
  "setOpen env arguments =
     cmd_then (gate_load env (gate_flags env @ [(''lease'', DurationFlag 0), (''reason'', StringFlag ''owner-local lease'')]) arguments)
       (\<lambda>(vs, config). gate_write env config ModeOpen (flag_string vs ''reason'') (flag_duration vs ''lease''))"

definition setClosed :: "'w program_env \<Rightarrow> string list \<Rightarrow> ('w, gate_output) command" where
  "setClosed env arguments =
     cmd_then (gate_load env (gate_flags env @ [(''reason'', StringFlag ''owner-local close'')]) arguments)
       (\<lambda>(vs, config). gate_write env config ModeClosed (flag_string vs ''reason'') 0)"

definition gate_status :: "'w program_env \<Rightarrow> string list \<Rightarrow> ('w, gate_output) command" where
  "gate_status env arguments =
     cmd_then (gate_load env (gate_flags env) arguments) (\<lambda>(_, config).
     cmd_then (must (now (pv_outside env))) (\<lambda>t.
     cmd_then (read_file env (\<lambda>fa. Inr (EvaluateAccess fa (pv_state env) (pv_runtime env) config t))) (\<lambda>decision.
     cmd_return (ShownDecision decision))))"

text \<open>
  The listeners are opened one by one; when one of them fails, those that are open are closed again. \<open>gate_Run\<close> is the beginning of \<open>Run\<close>, with the
  gate it leaves to the goroutines, which are the steps of \<open>gate_step\<close>.
\<close>

fun close_listeners :: "'w program_env \<Rightarrow> string list \<Rightarrow> 'w \<Rightarrow> 'w" where
  "close_listeners env [] w = w"
| "close_listeners env (address # rest) w = close_listeners env rest (pv_CloseListener env address w)"

fun open_listeners :: "'w program_env \<Rightarrow> string list \<Rightarrow> string list \<Rightarrow> ('w, string list) action" where
  "open_listeners env opened [] = run_return opened"
| "open_listeners env opened (address # rest) =
     run_then (run_catch (outside_try (pv_Listen env (networkFor address) address))) (\<lambda>r.
     case r of
       Inr _ \<Rightarrow> open_listeners env (opened @ [address]) rest
     | Inl err \<Rightarrow>
         run_then (outside_call (\<lambda>w. ((), close_listeners env opened w))) (\<lambda>_.
         run_raise (wrap_error (''listen on fixed admission address '' @ address @ '': '') err)))"

definition gate_Run :: "'w program_env \<Rightarrow> AdmissionConfig \<Rightarrow> Gate \<Rightarrow> ('w, Gate) command" where
  "gate_Run env config gate =
     cmd_then (must (open_listeners env [] (ac_ListenAddresses config))) (\<lambda>_.
     cmd_then (must (now (pv_outside env))) (\<lambda>t.
     cmd_then (read_file env (\<lambda>fa. Inr (EvaluateAccess fa (pv_state env) (pv_runtime env) config t))) (\<lambda>decision.
     cmd_return (if dn_Open decision then gate else closeAll gate))))"

definition gate_serve :: "'w program_env \<Rightarrow> string list \<Rightarrow> ('w, gate_output) command" where
  "gate_serve env arguments =
     cmd_then (gate_load env (gate_flags env) arguments) (\<lambda>(_, config).
     cmd_then (must (now (pv_outside env))) (\<lambda>t.
     cmd_then (must (outside_call (ct_access (pv_ctl env)))) (\<lambda>fa.
     cmd_then (must_result (NewGate \<lparr>gc_config = config, gc_state_reader = pv_state env, gc_runtime_reader = pv_runtime env\<rparr> (fa, t))) (\<lambda>gate.
     cmd_then (gate_Run env config gate) (\<lambda>gate. cmd_return (ShownGate gate))))))"

definition gar_gate :: "'w program_env \<Rightarrow> string list \<Rightarrow> ('w, gate_output) command" where
  "gar_gate env arguments =
     (case arguments of
        [] \<Rightarrow> usage
      | name # rest \<Rightarrow>
          if name = ''serve'' then gate_serve env rest
          else if name = ''open'' then setOpen env rest
          else if name = ''close'' then setClosed env rest
          else if name = ''status'' then gate_status env rest
          else usage)"

section \<open>gar-host\<close>

definition host_flags :: "'w program_env \<Rightarrow> flag_values" where
  "host_flags env = [(''config'', StringFlag (ct_getenv (pv_ctl env) ''GAR_HOST_CONFIG''))]"

definition loadObserver :: "'w program_env \<Rightarrow> bool \<Rightarrow> string list \<Rightarrow> ('w, Observer) command" where
  "loadObserver env requirePins arguments =
     cmd_then (load_named env (host_flags env) (\<lambda>fa path. load_observer fa (pv_observer env) requirePins path) arguments) (\<lambda>(_, config).
     read_file env (\<lambda>fa. newObserver fa (pv_admission env) requirePins config))"

definition runEnrollmentFacts :: "'w program_env \<Rightarrow> string list \<Rightarrow> ('w, gvalue) command" where
  "runEnrollmentFacts env arguments =
     cmd_then (loadObserver env False arguments) (\<lambda>observer.
     cmd_then (must (outside_call (pv_world env))) (\<lambda>ow.
     case host_observe ow observer False of
       (snapshot, Some err) \<Rightarrow> fatal (''enrollment observation failed ('' @ hs_ReasonCode snapshot @ '')'')
     | (snapshot, None) \<Rightarrow> cmd_return (GMap
         [(''container_id'', GString (hs_ContainerID snapshot)), (''expected_image_id'', GString (hs_ImageID snapshot)),
          (''expected_data_root_identity'', GString (hs_DataRootIdentity snapshot)),
          (''expected_bootstrap_fingerprint'', GString (hs_BootstrapFingerprint snapshot)),
          (''inventory_digest'', GString (hs_InventoryDigest snapshot))])))"

definition host_publish :: "'w program_env \<Rightarrow> Observer \<Rightarrow> HostSnapshot \<Rightarrow> ('w, unit) command" where
  "host_publish env observer snapshot =
     cmd_then (replacing env (\<lambda>we files. case Publish (pv_marshal_host env) we (ob_config observer) snapshot files of
         (Some err, seen) \<Rightarrow> (Inl err, seen) | (None, seen) \<Rightarrow> (Inr (), seen))) accept"

text \<open>An observation that failed is published and shown, and then ends the program with status 1.\<close>

definition runOnce :: "'w program_env \<Rightarrow> string list \<Rightarrow> ('w, gvalue) command" where
  "runOnce env arguments =
     cmd_then (loadObserver env True arguments) (\<lambda>observer.
     cmd_then (must (outside_call (pv_world env))) (\<lambda>ow.
     case host_observe ow observer False of
       (snapshot, observeErr) \<Rightarrow>
         cmd_then (host_publish env observer snapshot) (\<lambda>_.
         if observeErr \<noteq> None then fatal ''''
         else cmd_return (GMap [(''availability'', GString (availability_text (hs_Availability snapshot))),
           (''reason_code'', GString (hs_ReasonCode snapshot)), (''observed_at'', GTime (hs_ObservedAt snapshot))]))))"

text \<open>The loop of \<open>Run\<close> with the number of ticks before the context ends.\<close>

fun observer_loop :: "'w program_env \<Rightarrow> Observer \<Rightarrow> nat \<Rightarrow> ('w, unit) command" where
  "observer_loop env observer n =
     cmd_then (must (outside_call (pv_world env))) (\<lambda>ow.
     cmd_then (host_publish env observer (fst (host_observe ow observer False))) (\<lambda>_.
     case n of 0 \<Rightarrow> cmd_return () | Suc k \<Rightarrow> observer_loop env observer k))"

definition observer_Run :: "'w program_env \<Rightarrow> Observer \<Rightarrow> ('w, unit) command" where
  "observer_Run env observer =
     cmd_then (must (outside_call (ou_ticks (pv_outside env) (oc_IntervalSeconds (ob_config observer) * second)))) (observer_loop env observer)"

definition gar_host :: "'w program_env \<Rightarrow> string list \<Rightarrow> ('w, gvalue option) command" where
  "gar_host env arguments =
     (case arguments of
        [] \<Rightarrow> usage
      | name # rest \<Rightarrow>
          if name = ''enrollment-facts'' then cmd_then (runEnrollmentFacts env rest) (\<lambda>v. cmd_return (Some v))
          else if name = ''once'' then cmd_then (runOnce env rest) (\<lambda>v. cmd_return (Some v))
          else if name = ''serve'' then cmd_then (loadObserver env True rest) (\<lambda>observer.
            cmd_then (observer_Run env observer) (\<lambda>_. cmd_return None))
          else usage)"

section \<open>gar-g02-verify\<close>

definition run_probe :: "('w, 'a) probe \<Rightarrow> ('w, 'a) action" where
  "run_probe m s =
     (case m \<lparr>gw_outer = rn_world s, gw_writes = [], gw_results = [], gw_connections = []\<rparr> of (r, w) \<Rightarrow> (r, s\<lparr>rn_world := gw_outer w\<rparr>))"

definition g02_flags :: "'w program_env \<Rightarrow> flag_values" where
  "g02_flags env = [(''config'', StringFlag (ct_getenv (pv_ctl env) ''GAR_G02_ACCEPTANCE_CONFIG''))]"

text \<open>The configuration is loaded and the runner built before an unknown command is refused.\<close>

definition g02_command :: "'w probe_env \<Rightarrow> G02Runner \<Rightarrow> string \<Rightarrow> ('w, Evidence) command" where
  "g02_command ge r name =
     (if name = ''minecraft-login-close''
      then cmd_then (must (run_probe (MinecraftLoginClose ge r))) (\<lambda>(evidence, err).
        case err of Some e \<Rightarrow> fatal (error_text e) | None \<Rightarrow> cmd_return evidence)
      else if name = ''host-reboot-prepare'' then must (run_probe (PrepareHostReboot ge r))
      else if name = ''host-reboot-verify'' then must (run_probe (VerifyHostReboot ge r))
      else usage)"

definition gar_g02_verify :: "'w program_env \<Rightarrow> 'w probe_env \<Rightarrow> G02Config json_reader \<Rightarrow> string list \<Rightarrow> ('w, Evidence) command" where
  "gar_g02_verify env ge jr arguments =
     (case arguments of
        [] \<Rightarrow> usage
      | name # rest \<Rightarrow>
          cmd_then (load_named env (g02_flags env) (\<lambda>fa path. load_g02 (ge_trim ge) fa jr path) rest) (\<lambda>(_, config).
          cmd_then (read_file env (\<lambda>fa. NewRunner (ge_trim ge) fa (pv_admission env) (ct_config (pv_ctl env)) config)) (\<lambda>runner.
          g02_command ge runner name)))"

section \<open>What is served\<close>

text \<open>The goroutines of a gate that is served begin in a state that keeps the gate's invariant.\<close>

lemma served_gate_ok:
  assumes "gate_serve env arguments s = (Inr (ShownGate gate), s')"
  shows "\<exists>config. gate_ok \<lparr>gc_config = config, gc_state_reader = pv_state env, gc_runtime_reader = pv_runtime env\<rparr> gate \<and> gt_connections gate = [] \<and>
    gt_activeSessions gate = 0"
proof -
  obtain config fa t fresh where made: "NewGate \<lparr>gc_config = config, gc_state_reader = pv_state env, gc_runtime_reader = pv_runtime env\<rparr> (fa, t) = Inr fresh"
      and gate: "gate = fresh \<or> gate = closeAll fresh"
    using assms unfolding gate_serve_def gate_Run_def by (auto simp: cmd_then_Inr split: if_split_asm)
  have "closeAll fresh = fresh" "gt_connections fresh = []" "gt_activeSessions fresh = 0"
    using made by (auto simp: NewGate_def closeAll_def)
  moreover have "gate_ok \<lparr>gc_config = config, gc_state_reader = pv_state env, gc_runtime_reader = pv_runtime env\<rparr> fresh"
    using made by (intro starts_ok) (auto simp: starts_def)
  ultimately show ?thesis using gate by auto
qed

definition current_session :: "crypto \<Rightarrow> ServerConfig \<Rightarrow> gotime \<Rightarrow> AgentSessionScope \<Rightarrow> bool" where
  "current_session cr c t scope \<longleftrightarrow> scope_Validate cr scope t = None \<and> sc_EnrollmentID scope = en_EnrollmentID (rc_Enrollment c) \<and>
     sc_DeploymentGeneration scope = en_DeploymentGeneration (rc_Enrollment c) \<and> sc_RevocationEpoch scope = rc_CurrentRevocationEpoch c"

lemma ValidateSessions_Inr:
  assumes "ValidateSessions cr es (en_EnrollmentID (rc_Enrollment c)) (en_DeploymentGeneration (rc_Enrollment c)) (rc_CurrentRevocationEpoch c) t d = Inr u"
    "e \<in> set es"
  shows "\<exists>scope. GetSession (ce_sessionID e) d = Inr scope \<and> current_session cr c t scope"
  using assms by (induction es) (auto simp: current_session_def unless_error_def split: option.split_asm)

lemma journal_read_Inr: "journal_read ou q s = (Inr x, s') \<Longrightarrow> q (rn_db s') = Inr x"
  by (auto simp: journal_read_def journal_tx_def Let_def split: prod.split_asm journal_fault.split_asm sum.split_asm)

lemma check_sessions_done:
  assumes "check_sessions env c credentials s = (Inr t, s')" "e \<in> set credentials"
  shows "\<exists>scope. GetSession (ce_sessionID e) (rn_db (cl_run s')) = Inr scope \<and> current_session (ct_crypto (pv_ctl env)) c t scope"
  using assms ValidateSessions_Inr
  by (auto simp: check_sessions_def cmd_then_Inr must_Inr dest!: journal_read_Inr)

text \<open>
  C13. What \<open>gar serve\<close> puts on the network: it listens on a literal loopback address, accepts one exact HTTP or HTTPS origin and at most 64 KiB per
  request, serves the registry of the configuration it loaded with the mutation executor off, and every credential it
  accepts resolves to a session of the journal that was valid for exactly this enrollment, generation and revocation epoch when the
  server started.
\<close>

theorem served_handler_guarded:
  assumes "open_service env re arguments s = (Inr (handler, address), s')"
  shows "\<exists>host port ip fa w w' path config origin u target t. SplitHostPort address = Inr (host, port) \<and> port \<noteq> '''' \<and> ParseIP host = Some ip \<and> IsLoopback ip \<and>
    ct_access (pv_ctl env) w = (fa, w') \<and> load_server fa (ct_config (pv_ctl env)) path = Inr config \<and>
    mh_Origin handler = origin \<and> ct_parse_url (pv_ctl env) origin = Inr u \<and> url_Scheme u \<in> {''http'', ''https''} \<and> url_Host u \<noteq> '''' \<and>
    url_Path u = '''' \<and> url_RawQuery u = '''' \<and> url_Fragment u = '''' \<and> \<not> url_User u \<and> mh_MaxBodyBytes handler = 65536 \<and>
    mh_Service handler = served_service config target \<and>
    StartMutation (mh_Service handler) intentID = NewError ErrUnsupportedEnvironment
      ''live mutation is disabled until G-01 through G-07 and the M4 executor are verified'' \<and>
    (\<forall>e \<in> set (mh_Credentials handler). \<exists>scope. GetSession (ce_sessionID e) (rn_db (cl_run s')) = Inr scope \<and>
       current_session (ct_crypto (pv_ctl env)) config t scope)"
proof -
  obtain vs s1 s2 config credentials s3 s4 t s5 target where listen: "ValidateListenAddress (flag_string vs ''listen'') = Inr ()"
      and config: "must (load_runtime (pv_ctl env) (flag_string vs ''config'')) s1 = (Inr config, s2)"
      and sessions: "check_sessions env config credentials s3 = (Inr t, s4)"
      and handler: "NewHandler (ct_parse_url (pv_ctl env)) (Some (served_service config target)) (Some (rn_db (cl_run s4))) (Some credentials)
        (flag_string vs ''allowed-origin'') 0 = Inr handler"
      and address: "must (outside_try (pv_Listen env ''tcp'' (flag_string vs ''listen''))) s4 = (Inr (), s5)" "address = flag_string vs ''listen''" "s' = s5"
    using assms unfolding open_service_def
    by (auto simp: cmd_then_Inr cmd_check_Inr held_store_def)
  obtain w fa w' where loaded: "ct_access (pv_ctl env) w = (fa, w')" "load_server fa (ct_config (pv_ctl env)) (flag_string vs ''config'') = Inr config"
    using load_runtime_done [OF config] by blast
  obtain host port ip where loop: "SplitHostPort address = Inr (host, port)" "port \<noteq> ''''" "ParseIP host = Some ip" "IsLoopback ip"
    using listen address(2) by (auto simp: ValidateListenAddress_def split: sum.split_asm option.split_asm prod.split_asm)
  have "rn_db (cl_run s') = rn_db (cl_run s4)" using address(1,3) by (auto simp: must_Inr outside_try_def split: prod.split_asm)
  then have valid: "\<forall>e \<in> set credentials. \<exists>scope. GetSession (ce_sessionID e) (rn_db (cl_run s')) = Inr scope \<and>
      current_session (ct_crypto (pv_ctl env)) config t scope"
    using check_sessions_done [OF sessions] by simp
  obtain u where origin: "ct_parse_url (pv_ctl env) (mh_Origin handler) = Inr u" "url_Scheme u \<in> {''http'', ''https''}" "url_Host u \<noteq> ''''"
      "url_Path u = ''''" "url_RawQuery u = ''''" "url_Fragment u = ''''" "\<not> url_User u"
      and made: "mh_Service handler = served_service config target" "mh_Credentials handler = credentials" "mh_MaxBodyBytes handler = 65536"
    using handler by (auto simp: NewHandler_def ValidateAllowedOrigin_def Let_def split: sum.split_asm)
  have stop: "StartMutation (mh_Service handler) intentID = NewError ErrUnsupportedEnvironment
      ''live mutation is disabled until G-01 through G-07 and the M4 executor are verified''"
    by (simp add: StartMutation_def made(1) served_service_def)
  show ?thesis
    by (intro exI conjI) (rule loop loaded refl origin made stop valid [folded made(2)])+
qed

definition sample_program :: "unit program_env" where
  "sample_program =
     \<lparr>pv_ctl = sample_ctl\<lparr>ct_outside := (ct_outside sample_ctl)\<lparr>ou_crypto := sample_crypto\<rparr>, ct_access := (\<lambda>w. (sample_access, w)),
        ct_credentials := sample_reader sample_credentials,
        ct_parse_url := (\<lambda>_. Inr \<lparr>url_Scheme = ''http'', url_Host = ''127.0.0.1'', url_User = False, url_Path = '''', url_RawQuery = '''',
          url_Fragment = ''''\<rparr>)\<rparr>,
      pv_write = (\<lambda>w. (sample_write, w)), pv_admission = sample_reader sample_admission, pv_state = sample_reader sample_lease,
      pv_runtime = sample_reader sample_runtime, pv_marshal_state = (\<lambda>_. Inr [123, 125]), pv_observer = sample_reader sample_observer,
      pv_world = (\<lambda>w. (sample_world, w)), pv_marshal_host = (\<lambda>_. Inr [123, 125]), pv_Listen = (\<lambda>_ _ w. (Inr (), w)), pv_CloseListener = (\<lambda>_ w. w), pv_Serve = (\<lambda>w. (Inr (), w))\<rparr>"

definition sample_started :: "unit cli" where
  "sample_started = \<lparr>cl_run = \<lparr>rn_db = sample_sessions, rn_world = (), rn_calls = []\<rparr>, cl_files = (\<lambda>_. None)\<rparr>"

definition sample_serve :: "string list" where
  "sample_serve = [''--config'', ''/srv/c'', ''--credentials'', ''/srv/k'', ''--allowed-origin'', ''http://127.0.0.1'']"

lemma sample_opened: "\<exists>handler s'. open_service sample_program re sample_serve sample_started = (Inr (handler, ''127.0.0.1:8787''), s')"
proof -
  let ?vs = "[(''db'', StringFlag ''./gar-v01.db''), (''config'', StringFlag ''/srv/c''), (''credentials'', StringFlag ''/srv/k''),
      (''listen'', StringFlag ''127.0.0.1:8787''), (''allowed-origin'', StringFlag ''http://127.0.0.1'')]"
  have flags: "parse_flags (ct_ParseDuration (pv_ctl sample_program)) (serve_flags sample_program) sample_serve = Inr (?vs, [])"
    by (simp add: serve_flags_def envOr_def sample_serve_def sample_program_def sample_ctl_def flag_name_def assign_flag_def update_flag_def)
  have get: "flag_string ?vs ''db'' = ''./gar-v01.db''" "flag_string ?vs ''config'' = ''/srv/c''" "flag_string ?vs ''credentials'' = ''/srv/k''"
      "flag_string ?vs ''listen'' = ''127.0.0.1:8787''" "flag_string ?vs ''allowed-origin'' = ''http://127.0.0.1''"
    by (simp_all add: flag_string_def)
  have listen: "ValidateListenAddress ''127.0.0.1:8787'' = Inr ()" by code_simp
  have loads: "must (load_runtime (pv_ctl sample_program) ''/srv/c'') sample_started = (Inr sample_server, sample_started)"
      "must (load_credentials (pv_ctl sample_program) ''/srv/k'') sample_started = (Inr (mh_Credentials sample_handler), sample_started)"
    using sample_server_loaded [of "''/srv/c''"] sample_credentials_load [of "''/srv/k''"]
    by (simp_all add: must_def load_runtime_def load_credentials_def run_then_def outside_call_def run_result_def sample_program_def
        sample_ctl_def sample_started_def)
  have opened: "mustOpen (pv_ctl sample_program) ''./gar-v01.db'' sample_started = (Inr (), sample_started)"
    by (simp add: mustOpen_def must_def Open_def secureDatabaseFile_def sample_program_def sample_ctl_def sample_started_def
        sample_access_def run_then_def outside_call_def outside_try_def owner_only_now_def run_result_def journal_unavailable_def
        ValidateOwnerOnlyRegular_def sample_mode check_def initialize_store_def journal_settings_def run_check_def run_return_def wrap_def)
  have "scope_Validate sample_crypto sample_scope sample_now = None"
    using scope_seal_roundtrip_sample by (simp add: scope_Validate_None_iff sealed_scope_def)
  then have "ValidateSessions sample_crypto (mh_Credentials sample_handler) (en_EnrollmentID (rc_Enrollment sample_server))
      (en_DeploymentGeneration (rc_Enrollment sample_server)) (rc_CurrentRevocationEpoch sample_server) sample_now sample_sessions = Inr ()"
    by (simp add: sample_handler_def GetSession_def sample_sessions_def rows_with_def unless_error_def)
       (simp add: sample_scope_def sample_server_def sample_enrollment_def check_def)
  then have sessions: "check_sessions sample_program sample_server (mh_Credentials sample_handler) sample_started = (Inr sample_now, sample_started)"
    by (simp add: check_sessions_def cmd_then_def must_def now_def outside_call_def journal_read_def journal_tx_def Let_def cmd_return_def
        sample_program_def sample_ctl_def sample_started_def)
  have sources: "host_source sample_server = Inr None" "paper_source sample_server = Inr None"
    by (simp_all add: host_source_def paper_source_def sample_server_def)
  have made: "NewHandler (ct_parse_url (pv_ctl sample_program)) (Some sv) (Some d) (Some cs) ''http://127.0.0.1'' 0 =
      Inr \<lparr>mh_Service = sv, mh_Credentials = cs, mh_Origin = ''http://127.0.0.1'', mh_MaxBodyBytes = 65536\<rparr>" for sv d cs
    by (simp add: NewHandler_def ValidateAllowedOrigin_def sample_program_def check_def)
  have result: "must_result (Inr x) sample_started = (Inr x, sample_started)" for x :: 'b by simp
  have bound: "must (outside_try (pv_Listen sample_program network address)) sample_started = (Inr (), sample_started)" for network address
    by (simp add: must_def outside_try_def sample_program_def sample_started_def)
  show ?thesis
    using flags get listen loads opened sessions sources
    by (simp add: made result bound open_service_def cmd_then_def cmd_flags_def cmd_check_def cmd_return_def served_target_def held_store_def)
qed

theorem served_handler_guarded_witness:
  "\<exists>handler s' host port ip. open_service sample_program \<lparr>re_Host = no_snapshot, re_Paper = no_snapshot, re_Wall = sample_now\<rparr> sample_serve
       sample_started = (Inr (handler, ''127.0.0.1:8787''), s') \<and>
     SplitHostPort ''127.0.0.1:8787'' = Inr (host, port) \<and> ParseIP host = Some ip \<and> IsLoopback ip \<and> mh_MaxBodyBytes handler = 65536"
proof -
  obtain handler s' where run: "open_service sample_program \<lparr>re_Host = no_snapshot, re_Paper = no_snapshot, re_Wall = sample_now\<rparr> sample_serve
       sample_started = (Inr (handler, ''127.0.0.1:8787''), s')"
    using sample_opened by blast
  show ?thesis using served_handler_guarded [OF run] run by blast
qed

end
