(* ===== verification/G03_Verify.thy ===== *)
theory G03_Verify
  imports Service_Commands Paper_Operations Foundation_Properties
begin

text \<open>
  The acceptance of the backup boundary, \<open>src/cmd/gar-g03-verify/main.go\<close>: \<open>prepare\<close> proposes the change that the owner has to approve with
  \<open>garctl\<close>, \<open>execute\<close> runs an approved operation up to the backup and records the evidence. The world of the run holds what the adapter of
  the server remembers, so it is \<open>ops_world\<close>.
\<close>

section \<open>The outside\<close>

record G03Evidence =
  gx_SchemaVersion :: string
  gx_Specification :: string
  gx_EvidenceLevel :: string
  gx_CreatedAt :: gotime
  gx_Source :: "string \<times> bool"
  gx_Intent :: ChangeIntent
  gx_Operation :: Operation
  gx_Backup :: BackupRecord
  gx_Boundary :: string
  gx_MutationEnabled :: bool

record 'w g03_env =
  gv_programs :: "'w ops_world program_env"
  gv_ops :: "'w ops_env"
  gv_filesystem :: "'w ops_world filesystem"
  gv_info :: "file_status \<Rightarrow> file_info"
  gv_codec :: evidence_codec
  gv_config :: "G03Config json_reader"
  gv_build :: "(string \<times> string) list option"
  gv_marshal :: "G03Evidence \<Rightarrow> nat list result"

abbreviation gv_ctl :: "'w g03_env \<Rightarrow> 'w ops_world ctl_env" where
  "gv_ctl env \<equiv> pv_ctl (gv_programs env)"

abbreviation gv_outside :: "'w g03_env \<Rightarrow> 'w ops_world outside" where
  "gv_outside env \<equiv> pv_outside (gv_programs env)"

type_synonym ('w, 'a) g03_command = "('w ops_world, 'a) command"

section \<open>The fixed target\<close>

definition same_fixed_target :: "ServerConfig \<Rightarrow> ObserverConfig \<Rightarrow> bool" where
  "same_fixed_target runtime hostConfig \<longleftrightarrow> \<not> (rc_PaperRuntime runtime = None \<or> oc_AdmissionBarrier hostConfig = None \<or>
     en_EnrollmentID (rc_Enrollment runtime) \<noteq> oc_EnrollmentID hostConfig \<or>
     en_DeploymentGeneration (rc_Enrollment runtime) \<noteq> oc_DeploymentGeneration hostConfig \<or>
     en_ContainerID (rc_Enrollment runtime) \<noteq> oc_ContainerID hostConfig \<or>
     en_DataRootIdentity (rc_Enrollment runtime) \<noteq> oc_ExpectedDataRootIdentity hostConfig)"

definition backup_only_profile :: "G03Config \<Rightarrow> ServerConfig \<Rightarrow> bool" where
  "backup_only_profile config runtime \<longleftrightarrow>
     (case map_get (rc_Profiles runtime) (gc_ProfileID config) of
        None \<Rightarrow> False
      | Some profile \<Rightarrow> \<not> (tp_Eligibility profile \<noteq> ''G03_BACKUP_ONLY'' \<or> tp_PluginID profile \<noteq> gc_PluginID config \<or>
          tp_ToArtifactID profile \<noteq> gc_TargetArtifactID config))"

definition frozen_gates :: "SupportProfile \<Rightarrow> bool" where
  "frozen_gates support \<longleftrightarrow> \<not> (sp_Mode support = ModeMutation \<or> map_get (sp_Gates support) ''G-01'' \<noteq> Some GatePass \<or>
     map_get (sp_Gates support) ''G-02'' \<noteq> Some GatePass \<or> map_get (sp_Gates support) ''G-03'' \<noteq> Some GateNotRun \<or>
     map_get (sp_Gates support) ''G-04'' \<noteq> Some GateFail)"

definition load_all :: "'w g03_env \<Rightarrow> string \<Rightarrow> ('w, G03Config \<times> ServerConfig \<times> ObserverConfig) g03_command" where
  "load_all env path =
     cmd_then (read_file (gv_programs env) (\<lambda>fa. load_g03 fa (gv_config env) path)) (\<lambda>config.
     cmd_then (must (load_runtime (gv_ctl env) (gc_RuntimeConfigPath config))) (\<lambda>runtime.
     cmd_then (read_file (gv_programs env) (\<lambda>fa. load_observer fa (pv_observer (gv_programs env)) True (gc_HostObserverConfigPath config))) (\<lambda>hostConfig.
     cmd_then (cmd_check (same_fixed_target runtime hostConfig)
       (fatal ''G-03 runtime and host enrollment do not identify the same fixed target'')) (\<lambda>_.
     cmd_then (cmd_check (backup_only_profile config runtime) (fatal ''G-03 config requires a G03_BACKUP_ONLY transition profile'')) (\<lambda>_.
     cmd_then (cmd_check (frozen_gates (rc_Support runtime))
       (fatal ''G-03 acceptance requires the frozen pre-run gate vector and mutation disabled'')) (\<lambda>_.
     cmd_return (config, runtime, hostConfig)))))))"

definition paper_path :: "ServerConfig \<Rightarrow> string" where
  "paper_path runtime = (case rc_PaperRuntime runtime of Some path \<Rightarrow> path | None \<Rightarrow> '''')"

definition new_observer :: "'w g03_env \<Rightarrow> ObserverConfig \<Rightarrow> ('w, Observer) g03_command" where
  "new_observer env hostConfig = read_file (gv_programs env) (\<lambda>fa. newObserver fa (pv_admission (gv_programs env)) True hostConfig)"

section \<open>prepare\<close>

datatype g03_output = AwaitsApproval IntentRecord string | Accepted IntentRecord Operation BackupRecord string

definition acceptance_scope :: "G03Config \<Rightarrow> ServerConfig \<Rightarrow> string \<Rightarrow> gotime \<Rightarrow> AgentSessionScope" where
  "acceptance_scope config runtime sessionID at_time =
     \<lparr>sc_SchemaVersion = ''gar.agent-scope.v1'', sc_PrincipalID = gc_PrincipalID config, sc_SessionID = sessionID,
      sc_EnrollmentID = en_EnrollmentID (rc_Enrollment runtime), sc_DeploymentGeneration = en_DeploymentGeneration (rc_Enrollment runtime),
      sc_Capabilities = [''propose_plugin_change''], sc_PluginIDs = [gc_PluginID config], sc_ArtifactProfileIDs = [gc_ProfileID config],
      sc_IssuedAt = at_time, sc_ExpiresAt = Add at_time (60 * minute), sc_RevocationEpoch = rc_CurrentRevocationEpoch runtime,
      sc_ScopeDigest = ''''\<rparr>"

definition acceptance_proposal :: "G03Config \<Rightarrow> ProposalInput" where
  "acceptance_proposal config =
     \<lparr>pi_PluginID = gc_PluginID config, pi_TargetArtifactID = gc_TargetArtifactID config, pi_ClientRequestID = gc_ClientRequestID config,
      pi_Rationale = ''G-03 isolated Paper graceful stop and verified offline backup acceptance; stop after S05''\<rparr>"

text \<open>The journal as the proposal's two lookups and its write meet it.\<close>

definition propose_acceptance ::
  "'w g03_env \<Rightarrow> Service \<Rightarrow> AgentSessionScope \<Rightarrow> ProposalInput \<Rightarrow> ('w, IntentRecord) g03_command" where
  "propose_acceptance env service scope input =
     cmd_then (must (journal_read (gv_outside env) Inr)) (\<lambda>looked.
     cmd_then (must (journal_read (gv_outside env) Inr)) (\<lambda>seen.
     must (journal_tx (gv_outside env) (\<lambda>ce d. ProposeG03Acceptance ce service scope input looked seen d))))"

definition observe_target :: "'w g03_env \<Rightarrow> ServerConfig \<Rightarrow> ObserverConfig \<Rightarrow> ('w, target_reader) g03_command" where
  "observe_target env runtime hostConfig =
     cmd_then (new_observer env hostConfig) (\<lambda>observer.
     cmd_then (must (outside_call (pv_world (gv_programs env)))) (\<lambda>ow.
     case host_observe ow observer False of
       (hostSnapshot, Some err) \<Rightarrow> fatal (error_text err)
     | (hostSnapshot, None) \<Rightarrow>
         cmd_then (host_publish (gv_programs env) observer hostSnapshot) (\<lambda>_.
         cmd_then (must_result (NewHostTarget (oc_SnapshotPath hostConfig) (rc_Enrollment runtime) (rc_Artifacts runtime))) (\<lambda>host.
         cmd_then (must_result (NewPaperTarget (paper_path runtime) (rc_Enrollment runtime))) (\<lambda>paper.
         cmd_then (must (outside_call (ct_host (gv_ctl env)))) (\<lambda>hostReads.
         cmd_then (must (outside_call (ct_paper (gv_ctl env)))) (\<lambda>paperReads.
         cmd_then (must_result (NewComposite (Some (host_target hostReads host)) (Some (paper_target paperReads paper)))) (\<lambda>both.
         cmd_return (composite_target (ct_crypto (gv_ctl env)) both)))))))))"

definition propose_new :: "'w g03_env \<Rightarrow> G03Config \<Rightarrow> ServerConfig \<Rightarrow> ObserverConfig \<Rightarrow> ('w, IntentRecord) g03_command" where
  "propose_new env config runtime hostConfig =
     cmd_then (observe_target env runtime hostConfig) (\<lambda>target.
     cmd_then (must (now (gv_outside env))) (\<lambda>t.
     cmd_then (new_id (gv_ctl env) ''session'') (\<lambda>sessionID.
     cmd_then (must_result (scope_Seal (ct_crypto (gv_ctl env)) (acceptance_scope config runtime sessionID t))) (\<lambda>scope.
     cmd_then (must (journal_do (gv_outside env) (\<lambda>ce. SaveSession ce scope))) (\<lambda>_.
     propose_acceptance env (served_service runtime target) scope (acceptance_proposal config))))))"

definition prepare :: "'w g03_env \<Rightarrow> string list \<Rightarrow> ('w, g03_output) g03_command" where
  "prepare env arguments =
     cmd_then (cmd_flags (ct_ParseDuration (gv_ctl env)) [(''config'', StringFlag '''')] arguments) (\<lambda>(vs, rest).
     cmd_then (cmd_check (\<not> (flag_string vs ''config'' = '''' \<or> rest \<noteq> []))
       (fatal ''--config is required; no extra arguments are accepted'')) (\<lambda>_.
     cmd_then (load_all env (flag_string vs ''config'')) (\<lambda>(config, runtime, hostConfig).
     cmd_then (mustOpen (gv_ctl env) (gc_DatabasePath config)) (\<lambda>_.
     cmd_then (attempt (journal_read (gv_outside env) (GetIntentByClientKey (gc_PrincipalID config)
       (en_EnrollmentID (rc_Enrollment runtime)) (gc_ClientRequestID config)))) (\<lambda>existing.
     case existing of
       Inr rec \<Rightarrow> cmd_return (AwaitsApproval rec (gc_DatabasePath config))
     | Inl err \<Rightarrow>
         if CodeOf (Some err) \<noteq> ErrNotFound then fatal (error_text err)
         else cmd_then (propose_new env config runtime hostConfig) (\<lambda>rec. cmd_return (AwaitsApproval rec (gc_DatabasePath config))))))))"

section \<open>execute\<close>

fun buildSource :: "(string \<times> string) list \<Rightarrow> string \<times> bool \<Rightarrow> string \<times> bool" where
  "buildSource [] source = source"
| "buildSource ((key, v) # settings) (commit, modified) =
     buildSource settings (if key = ''vcs.revision'' then (v, modified) else if key = ''vcs.modified'' then (commit, v = ''true'') else (commit, modified))"

definition build_source :: "'w g03_env \<Rightarrow> string \<times> bool" where
  "build_source env = buildSource (case gv_build env of None \<Rightarrow> [] | Some settings \<Rightarrow> settings) (''UNAVAILABLE'', True)"

text \<open>\<open>we_Directory\<close> is \<open>Lstat\<close>, of the directory and of the file.\<close>

definition check_evidence_place :: "write_env \<Rightarrow> string \<Rightarrow> unit result" where
  "check_evidence_place we path =
     and_then (case we_Directory we (Dir path) of
         Inl _ \<Rightarrow> Inl (OtherError ''evidence directory must be an owner-only non-symlink directory'')
       | Inr info \<Rightarrow> and_then (check (\<not> (\<not> IsDir (st_mode info) \<or> st_mode info AND ModeSymlink \<noteq> 0 \<or> Perm (st_mode info) \<noteq> 448))
           (OtherError ''evidence directory must be an owner-only non-symlink directory'')) (\<lambda>_. Inr info)) (\<lambda>info.
     and_then (check (st_uid info = we_Euid we mod 2 ^ 32) (OtherError ''evidence directory ownership mismatch'')) (\<lambda>_.
     case we_Directory we path of
       Inr _ \<Rightarrow> Inl (OtherError ''refusing to overwrite existing G-03 evidence'')
     | Inl err \<Rightarrow> if is_not_exist err then Inr () else Inl err))"

definition writeG03Evidence ::
  "(G03Evidence \<Rightarrow> nat list result) \<Rightarrow> write_env \<Rightarrow> string \<Rightarrow> G03Evidence \<Rightarrow> files \<Rightarrow> unit result \<times> files list" where
  "writeG03Evidence marshal we path value files =
     (case and_then (check_evidence_place we path) (\<lambda>_. marshal value) of
        Inl err \<Rightarrow> (Inl err, [files])
      | Inr payload \<Rightarrow>
          (case replace_file we 384 path (payload @ [10]) files of
             (Some err, seen) \<Rightarrow> (Inl err, seen)
           | (None, seen) \<Rightarrow> (Inr (), seen)))"

text \<open>A new adapter has acknowledged no stop.\<close>

definition forget_stop :: "('w, unit) g03_command" where
  "forget_stop s = (Inr (), s\<lparr>cl_run := (cl_run s)\<lparr>rn_world := (rn_world (cl_run s))\<lparr>pw_acknowledged := None\<rparr>\<rparr>\<rparr>)"

definition live_target :: "'w g03_env \<Rightarrow> G03Config \<Rightarrow> ServerConfig \<Rightarrow> ObserverConfig \<Rightarrow> Observer \<Rightarrow> ('w, PaperOps) g03_command" where
  "live_target env config runtime hostConfig observer =
     cmd_then (must_result (NewPaperTarget (paper_path runtime) (rc_Enrollment runtime))) (\<lambda>paper.
     cmd_then (read_file (gv_programs env) (\<lambda>fa. load_admission fa (pv_admission (gv_programs env))
       (case oc_AdmissionBarrier hostConfig of Some b \<Rightarrow> bc_AdmissionConfigPath b | None \<Rightarrow> ''''))) (\<lambda>admission.
     cmd_then (must_result (NewPaperOps (Some observer) (Some paper) admission (rc_Enrollment runtime) (rc_Artifacts runtime)
       (gc_PluginID config))) (\<lambda>target.
     cmd_then forget_stop (\<lambda>_. cmd_return target))))"

definition backup_config :: "G03Config \<Rightarrow> ServerConfig \<Rightarrow> ObserverConfig \<Rightarrow> string \<Rightarrow> string \<Rightarrow> Config" where
  "backup_config config runtime hostConfig logical source =
     \<lparr>cf_DataRoot = oc_DataRootPath hostConfig, cf_Destination = gc_BackupDirectory config, cf_SourceArtifactPath = logical,
      cf_SourceArtifactFile = source, cf_Enrollment = rc_Enrollment runtime, cf_MaxBytes = gc_MaxBackupBytes config,
      cf_MaxFiles = gc_MaxBackupFiles config\<rparr>"

definition backup_engine :: "'w g03_env \<Rightarrow> G03Config \<Rightarrow> ServerConfig \<Rightarrow> ObserverConfig \<Rightarrow> Observer \<Rightarrow> ('w, Engine) g03_command" where
  "backup_engine env config runtime hostConfig observer =
     cmd_then (must (run_then (outside_call (pv_world (gv_programs env))) (\<lambda>ow. run_result (ManagedPluginSource ow observer (gc_PluginID config)))))
       (\<lambda>(logical, source).
     read_file (gv_programs env) (\<lambda>fa. NewEngine (fs_valid_utf8 (gv_filesystem env)) fa (gv_info env)
       (backup_config config runtime hostConfig logical source) True))"

definition acceptance_foundation :: "'w g03_env \<Rightarrow> G03Config \<Rightarrow> ServerConfig \<Rightarrow> PaperOps \<Rightarrow> Engine \<Rightarrow> 'w ops_world Foundation" where
  "acceptance_foundation env config runtime target engine =
     \<lparr>fd_Enrollment = rc_Enrollment runtime, fd_Target = Some (paper_operations (gv_ops env) target),
      fd_Backup = Some (offline_engine (gv_filesystem env) engine (gv_outside env)), fd_EvidenceLevel = ''LOCAL_PAPER'',
      fd_StopTimeout = StopTimeout config, fd_boundary = None, fd_codec = gv_codec env\<rparr>"

definition retains_writer :: "Operation \<Rightarrow> bool" where
  "retains_writer op \<longleftrightarrow> \<not> (op_Status op \<noteq> OperationExecuting \<or> op_OwnershipReleased op \<or> length (op_Attempts op) \<noteq> 6)"

definition g03_evidence :: "'w g03_env \<Rightarrow> gotime \<Rightarrow> IntentRecord \<Rightarrow> Operation \<Rightarrow> BackupRecord \<Rightarrow> G03Evidence" where
  "g03_evidence env at_time rec op backup =
     \<lparr>gx_SchemaVersion = ''gar.g03-acceptance-evidence.v1'', gx_Specification = ''GAR-PCS-001@v0.1-r1'', gx_EvidenceLevel = ''LOCAL_PAPER'',
      gx_CreatedAt = at_time, gx_Source = build_source env, gx_Intent = ir_Intent rec, gx_Operation = op, gx_Backup = backup,
      gx_Boundary = ''S05_CREATE_BACKUP_COMPLETE_S06_DISABLED'', gx_MutationEnabled = False\<rparr>"

definition run_acceptance ::
  "'w g03_env \<Rightarrow> G03Config \<Rightarrow> ServerConfig \<Rightarrow> PaperOps \<Rightarrow> Engine \<Rightarrow> IntentRecord \<Rightarrow> Operation \<Rightarrow> ('w, Operation \<times> BackupRecord) g03_command" where
  "run_acceptance env config runtime target engine rec op =
     cmd_then (must (Run (gv_outside env) (acceptance_foundation env config runtime target engine) (op_OperationID op))) (\<lambda>_.
     cmd_then (must (Inspect (gv_filesystem env) engine (gv_outside env) (ci_ReservedBackupID (ir_Intent rec)))) (\<lambda>backup.
     cmd_then (must (journal_read (gv_outside env) (GetOperation (op_OperationID op)))) (\<lambda>op'.
     cmd_then (cmd_check (retains_writer op') (fatal ''S05 completed without retaining the active writer boundary'')) (\<lambda>_.
     cmd_return (op', backup)))))"

definition record_acceptance ::
  "'w g03_env \<Rightarrow> G03Config \<Rightarrow> IntentRecord \<Rightarrow> Operation \<Rightarrow> BackupRecord \<Rightarrow> ('w, g03_output) g03_command" where
  "record_acceptance env config rec op backup =
     cmd_then (must (now (gv_outside env))) (\<lambda>t.
     cmd_then (replacing (gv_programs env) (\<lambda>we files.
       writeG03Evidence (gv_marshal env) we (gc_EvidencePath config) (g03_evidence env t rec op backup) files)) (\<lambda>written.
     cmd_then (accept written) (\<lambda>_.
     cmd_return (Accepted rec op backup (gc_EvidencePath config)))))"

definition execute :: "'w g03_env \<Rightarrow> string list \<Rightarrow> ('w, g03_output) g03_command" where
  "execute env arguments =
     cmd_then (cmd_flags (ct_ParseDuration (gv_ctl env)) [(''config'', StringFlag ''''), (''intent-id'', StringFlag '''')] arguments) (\<lambda>(vs, rest).
     cmd_then (cmd_check (\<not> (flag_string vs ''config'' = '''' \<or> flag_string vs ''intent-id'' = '''' \<or> rest \<noteq> []))
       (fatal ''--config and --intent-id are required; no extra arguments are accepted'')) (\<lambda>_.
     cmd_then (load_all env (flag_string vs ''config'')) (\<lambda>(config, runtime, hostConfig).
     cmd_then (mustOpen (gv_ctl env) (gc_DatabasePath config)) (\<lambda>_.
     cmd_then (must (journal_read (gv_outside env) (GetIntent (flag_string vs ''intent-id'')))) (\<lambda>rec.
     cmd_then (cmd_check (ir_Status rec = IntentConsumed) (fatal ''intent has not been independently approved and consumed'')) (\<lambda>_.
     cmd_then (must (journal_read (gv_outside env) (OperationForIntent (flag_string vs ''intent-id'')))) (\<lambda>op.
     cmd_then (new_observer env hostConfig) (\<lambda>observer.
     cmd_then (live_target env config runtime hostConfig observer) (\<lambda>target.
     cmd_then (backup_engine env config runtime hostConfig observer) (\<lambda>engine.
     cmd_then (run_acceptance env config runtime target engine rec op) (\<lambda>(op', backup).
     record_acceptance env config rec op' backup)))))))))))"

definition gar_g03_verify :: "'w g03_env \<Rightarrow> string list \<Rightarrow> ('w, g03_output) g03_command" where
  "gar_g03_verify env arguments =
     (case arguments of
        [] \<Rightarrow> usage
      | name # rest \<Rightarrow> if name = ''prepare'' then prepare env rest else if name = ''execute'' then execute env rest else usage)"

section \<open>Commands that leave the journal to its transactions\<close>

text \<open>A quiet command keeps every condition that observations and later transactions keep.\<close>

definition quiet_command :: "crypto \<Rightarrow> ('w, 'a) command \<Rightarrow> bool" where
  "quiet_command cr m \<longleftrightarrow> (\<forall>P s x s'. stable cr P \<longrightarrow> P (cl_run s) \<longrightarrow> m s = (Inr x, s') \<longrightarrow> P (cl_run s'))"

named_theorems quiet_command_rule

lemma quiet_commandD: "quiet_command cr m \<Longrightarrow> stable cr P \<Longrightarrow> P (cl_run s) \<Longrightarrow> m s = (Inr x, s') \<Longrightarrow> P (cl_run s')"
  unfolding quiet_command_def by blast

lemma tripleD_Inr: "triple P m Q E \<Longrightarrow> P s \<Longrightarrow> m s = (Inr x, s') \<Longrightarrow> Q x s'"
  unfolding triple_def by fastforce

lemma stable_world: "stable cr P \<Longrightarrow> P s \<Longrightarrow> P (s\<lparr>rn_world := w\<rparr>)"
  by (simp add: stable_def durable_def)

lemma quiet_command_then [quiet_command_rule]:
  "quiet_command cr m \<Longrightarrow> (\<And>x. quiet_command cr (k x)) \<Longrightarrow> quiet_command cr (cmd_then m k)"
  unfolding quiet_command_def cmd_then_Inr by blast

lemma quiet_command_basic [quiet_command_rule]:
  "quiet_command cr (cmd_return x)" "quiet_command cr (fatal message)" "quiet_command cr usage" "quiet_command cr (must_result r)"
  "quiet_command cr (cmd_flags pd defaults arguments)" "quiet_command cr (accept r)"
  by (auto simp: quiet_command_def accept_def split: sum.split_asm)

lemma quiet_command_cases [quiet_command_rule]:
  "quiet_command cr m \<Longrightarrow> quiet_command cr (cmd_check b m)"
  "(\<And>x y. quiet_command cr (k x y)) \<Longrightarrow> quiet_command cr (case v of (x, y) \<Rightarrow> k x y)"
  by (auto simp: quiet_command_def cmd_check_Inr split: prod.split_asm) blast+

lemma quiet_command_must [quiet_command_rule]: "quiet cr m \<Longrightarrow> quiet_command cr (must m)"
  unfolding quiet_command_def must_Inr using tripleD_Inr [OF quietD] by fastforce

lemma quiet_command_outside [quiet_command_rule]:
  "quiet_command cr (read_file env g)" "quiet_command cr (replacing env h)" "quiet_command cr forget_stop"
proof -
  show "quiet_command cr (read_file env g)" unfolding read_file_def by (intro quiet_command_rule quiet_rule)
  show "quiet_command cr (replacing env h)" "quiet_command cr forget_stop"
    by (auto simp: quiet_command_def replacing_def forget_stop_def stable_world split: prod.split_asm)
qed

lemma quiet_Open [quiet_rule]: "quiet cr (Open se path)"
  unfolding Open_def secureDatabaseFile_def create_database_file_def owner_only_now_def initialize_store_def journal_settings_def
  by (intro quiet_rule)

lemma quiet_loads [quiet_rule]: "quiet cr (load_runtime env path)"
  unfolding load_runtime_def by (intro quiet_rule)

lemma quiet_command_loads [quiet_command_rule]:
  "quiet_command cr (mustOpen ctl path)" "quiet_command cr (load_all env path)" "quiet_command cr (new_observer env hostConfig)"
  "quiet_command cr (live_target env config runtime hostConfig observer)"
  "quiet_command cr (backup_engine env config runtime hostConfig observer)"
  unfolding mustOpen_def load_all_def new_observer_def live_target_def backup_engine_def
  by (intro quiet_command_rule quiet_rule)+

section \<open>An accepted run\<close>

text \<open>A run of an operation whose intent is known keeps it, and only ends well on the fixed workflow.\<close>

lemma executes_unique: "executes d operationID i \<Longrightarrow> executes d operationID j \<Longrightarrow> i = j"
  by (auto simp: executes_def)

context archive_engine
begin

lemma triple_read_running:
  assumes "others_commit ou"
    "\<And>op rec. ir_Intent rec = i \<Longrightarrow>
       triple (running (ou_crypto ou) en operationID i) (m op rec) Q (running (ou_crypto ou) en operationID i)"
  shows "triple (running (ou_crypto ou) en operationID i)
    (run_then (journal_read ou (GetOperation operationID)) (\<lambda>op.
     run_then (journal_read ou (GetIntent (op_IntentID op))) (m op))) Q (running (ou_crypto ou) en operationID i)"
proof (rule triple_then [OF triple_read [OF stable_durable [OF stable_running] assms(1)]])
  fix op :: Operation
  let ?I = "running (ou_crypto ou) en operationID i"
  let ?P = "\<lambda>s. ?I s \<and> names_intent operationID (op_IntentID op) (rn_db s)"
  have durable: "durable (ou_crypto ou) ?P"
    by (intro durable_conj_db stable_durable stable_running) (rule names_intent_later)
  have "triple ?P (run_then (journal_read ou (GetIntent (op_IntentID op))) (m op)) Q ?I"
  proof (rule triple_then)
    show "triple ?P (journal_read ou (GetIntent (op_IntentID op))) (\<lambda>rec s. ?P s \<and> GetIntent (op_IntentID op) (rn_db s) = Inr rec) ?I"
      by (rule triple_error [OF triple_read [OF durable assms(1)]]) simp
    show "triple (\<lambda>s. ?P s \<and> GetIntent (op_IntentID op) (rn_db s) = Inr rec) (m op rec) Q ?I" for rec
    proof (rule triple_assume [of _ "ir_Intent rec = i"])
      fix s
      assume "?P s \<and> GetIntent (op_IntentID op) (rn_db s) = Inr rec"
      then show "ir_Intent rec = i" by (auto simp: running_def executes_def names_intent_def)
    next
      assume "ir_Intent rec = i"
      from assms(2) [OF this] show "triple (\<lambda>s. ?P s \<and> GetIntent (op_IntentID op) (rn_db s) = Inr rec) (m op rec) Q ?I"
        by (rule triple_pre) simp
    qed
  qed
  then show "triple (\<lambda>s. ?I s \<and> GetOperation operationID (rn_db s) = Inr op)
      (run_then (journal_read ou (GetIntent (op_IntentID op))) (m op)) Q ?I"
    by (rule triple_pre) (auto simp: names_intent_def)
qed

lemma run_keeps_running:
  assumes "others_commit ou" "fd_Backup f = Some (engine ou)"
  shows "triple (running (ou_crypto ou) (fd_Enrollment f) operationID i) (Run ou f operationID)
    (\<lambda>_ s. running (ou_crypto ou) (fd_Enrollment f) operationID i s \<and> ci_Steps i = FixedWorkflowSteps)
    (running (ou_crypto ou) (fd_Enrollment f) operationID i)"
proof (cases "fd_Target f")
  case None
  then show ?thesis by (simp add: Run_def triple_raise)
next
  case (Some tg)
  let ?I = "running (ou_crypto ou) (fd_Enrollment f) operationID i :: 'w run \<Rightarrow> bool"
  have admitted: "triple ?I (run_then (run_result (check_admissible (ou_crypto ou) f op rec)) (\<lambda>_. m))
      (\<lambda>_ s. ?I s \<and> ci_Steps i = FixedWorkflowSteps) ?I"
    if "ir_Intent rec = i" "triple ?I m (\<lambda>_. ?I) ?I" for op rec and m :: "('w, unit) action"
  proof (rule triple_then [OF triple_result])
    fix u
    show "triple (\<lambda>s. check_admissible (ou_crypto ou) f op rec = Inr u \<and> ?I s) m (\<lambda>_ s. ?I s \<and> ci_Steps i = FixedWorkflowSteps) ?I"
    proof (rule triple_assume [of _ "ci_Steps i = FixedWorkflowSteps"])
      fix s
      assume "check_admissible (ou_crypto ou) f op rec = Inr u \<and> ?I s"
      then show "ci_Steps i = FixedWorkflowSteps" using that(1) by (auto simp: check_admissible_def Let_def)
    next
      assume "ci_Steps i = FixedWorkflowSteps"
      then show "triple (\<lambda>s. check_admissible (ou_crypto ou) f op rec = Inr u \<and> ?I s) m (\<lambda>_ s. ?I s \<and> ci_Steps i = FixedWorkflowSteps) ?I"
        by (intro triple_pre [OF triple_post [OF that(2)]]) simp_all
    qed
  qed
  note quiet_keeps = quietD [OF _ stable_running, of "ou_crypto ou"]
  show ?thesis
    unfolding Run_def Let_def
    by (simp only: Some assms(2) prod.case option.case,
        intro triple_read_running [OF assms(1)] admitted; (assumption | simp only:)?)
       (intro triple_keep run_steps_keeps [OF assms(1)] quiet_keeps inspect_quiet quiet_rule assms(1); simp)
qed

end

text \<open>An intent that was read stays what it is.\<close>

definition known_intent :: "string \<Rightarrow> ChangeIntent \<Rightarrow> db \<Rightarrow> bool" where
  "known_intent intentID i d \<longleftrightarrow> (\<exists>rec. GetIntent intentID d = Inr rec \<and> ir_Intent rec = i)"

lemma known_intent_later:
  assumes "known_intent intentID i d" "journal_history cr d" "later cr d d'"
  shows "known_intent intentID i d'"
  using assms(1) later_intents [OF assms(3) journal_history_ok [OF assms(2)]]
  unfolding known_intent_def GetIntent_iff intent_history_def by metis

lemma known_intent_executes:
  assumes "known_intent intentID i d" "journal_history cr d" "OperationForIntent intentID d = Inr op"
  shows "executes d (op_OperationID op) i"
proof -
  obtain q where q: "rows_with or_intent_id intentID (v01_operations d) = Some q" "op = or_payload q"
    using assms(3) by (auto simp: OperationForIntent_def split: option.split_asm)
  have ok: "operations_ok (v01_operations d)" using journal_history_ok [OF assms(2)] by (simp add: journal_ok_def)
  have row: "q \<in> set (v01_operations d)" "or_intent_id q = intentID" using rows_with_SomeD [OF q(1)] by simp_all
  then have ids: "or_operation_id q = op_OperationID op" "op_IntentID op = intentID"
    using ok q(2) operation_row_okD by (auto simp: operations_ok_def)
  have "rows_with or_operation_id (op_OperationID op) (v01_operations d) = Some q"
    using ok row(1) ids(1) operations_by_id.lookup_member by (metis operations_ok_def)
  then show ?thesis using assms(1) ids(2) q(2) by (auto simp: executes_def known_intent_def GetOperation_iff)
qed

lemma execute_done:
  assumes "execute env arguments s = (Inr out, s')"
  obtains vs rest config runtime hostConfig rec op observer target engine op' backup s1 s2 s3 s4 s5 where
    "load_all env (flag_string vs ''config'') s = (Inr (config, runtime, hostConfig), s1)"
    "cmd_then (mustOpen (gv_ctl env) (gc_DatabasePath config)) (\<lambda>_. must (journal_read (gv_outside env) (GetIntent (flag_string vs ''intent-id'')))) s1
       = (Inr rec, s2)"
    "ir_Status rec = IntentConsumed"
    "must (journal_read (gv_outside env) (OperationForIntent (flag_string vs ''intent-id''))) s2 = (Inr op, s3)"
    "cmd_then (new_observer env hostConfig) (\<lambda>observer. cmd_then (live_target env config runtime hostConfig observer) (\<lambda>target.
       cmd_then (backup_engine env config runtime hostConfig observer) (\<lambda>engine. cmd_return (target, engine)))) s3 = (Inr (target, engine), s4)"
    "run_acceptance env config runtime target engine rec op s4 = (Inr (op', backup), s5)"
    "record_acceptance env config rec op' backup s5 = (Inr out, s')"
proof -
  obtain vs rest config runtime hostConfig rec op observer target engine op' backup s1 s2 s2' s3 s4 s5 s6 s7 where
      "load_all env (flag_string vs ''config'') s = (Inr (config, runtime, hostConfig), s1)"
      "mustOpen (gv_ctl env) (gc_DatabasePath config) s1 = (Inr (), s2')"
      "must (journal_read (gv_outside env) (GetIntent (flag_string vs ''intent-id''))) s2' = (Inr rec, s2)"
      "ir_Status rec = IntentConsumed"
      "must (journal_read (gv_outside env) (OperationForIntent (flag_string vs ''intent-id''))) s2 = (Inr op, s3)"
      "new_observer env hostConfig s3 = (Inr observer, s4)" "live_target env config runtime hostConfig observer s4 = (Inr target, s5)"
      "backup_engine env config runtime hostConfig observer s5 = (Inr engine, s6)"
      "run_acceptance env config runtime target engine rec op s6 = (Inr (op', backup), s7)"
      "record_acceptance env config rec op' backup s7 = (Inr out, s')"
    using assms unfolding execute_def
    by (auto simp: cmd_then_Inr cmd_check_Inr)
  then show thesis by (intro that) (auto simp: cmd_then_Inr)
qed

lemma must_read:
  assumes "must (journal_read ou q) s = (Inr x, s')" "stable (ou_crypto ou) P" "others_commit ou" "P (cl_run s)"
  shows "P (cl_run s')" "q (rn_db (cl_run s')) = Inr x"
proof -
  obtain run where run: "journal_read ou q (cl_run s) = (Inr x, run)" "cl_run s' = run" using assms(1) by (auto simp: must_Inr)
  from tripleD_Inr [OF triple_read [OF stable_durable [OF assms(2)] assms(3)] assms(4) run(1)] run(2)
  show "P (cl_run s')" "q (rn_db (cl_run s')) = Inr x" by simp_all
qed

lemma load_all_done:
  assumes "load_all env path s = (Inr (config, runtime, hostConfig), s')"
  shows "same_fixed_target runtime hostConfig" "backup_only_profile config runtime" "frozen_gates (rc_Support runtime)"
  using assms unfolding load_all_def by (auto simp: cmd_then_Inr cmd_check_Inr)

lemma replaced_file:
  assumes "replace_file we mode path bytes files = (None, seen)" "we_TempName we \<noteq> path"
  shows "last seen path = Some \<lparr>sf_bytes = bytes, sf_mode = mode, sf_uid = we_Euid we\<rparr>"
  using assms by (auto simp: replace_file_def Let_def split: option.split_asm prod.split_asm if_split_asm)

lemma record_acceptance_done:
  assumes "record_acceptance env config rec op backup s = (Inr (Accepted rec' op' backup' path), s')"
    and "\<forall>w. we_TempName (fst (pv_write (gv_programs env) w)) \<noteq> path"
  shows "rec' = rec" "op' = op" "backup' = backup" "path = gc_EvidencePath config"
    "rn_db (cl_run s') = rn_db (cl_run s)" "rn_calls (cl_run s') = rn_calls (cl_run s)"
    "\<exists>t payload uid. gv_marshal env (g03_evidence env t rec op backup) = Inr payload \<and>
       cl_files s' path = Some \<lparr>sf_bytes = payload @ [10], sf_mode = 384, sf_uid = uid\<rparr>"
proof -
  obtain t s1 r we w seen where names: "rec' = rec" "op' = op" "backup' = backup" "path = gc_EvidencePath config"
      and time: "must (now (gv_outside env)) s = (Inr t, s1)"
      and env: "pv_write (gv_programs env) (rn_world (cl_run s1)) = (we, w)"
      and written: "writeG03Evidence (gv_marshal env) we path (g03_evidence env t rec op backup) (cl_files s1) = (Inr (), seen)"
      and after: "s' = s1\<lparr>cl_run := (cl_run s1)\<lparr>rn_world := w\<rparr>, cl_files := last seen\<rparr>"
    using assms(1) unfolding record_acceptance_def
    by (auto simp: cmd_then_Inr replacing_Inr)
  show "rec' = rec" "op' = op" "backup' = backup" "path = gc_EvidencePath config" by (fact names)+
  show "rn_db (cl_run s') = rn_db (cl_run s)" "rn_calls (cl_run s') = rn_calls (cl_run s)"
    using time after by (auto simp: must_Inr now_def outside_call_def split: prod.split_asm)
  have "we_TempName we \<noteq> path" using assms(2) env by (metis fst_conv)
  then show "\<exists>t payload uid. gv_marshal env (g03_evidence env t rec op backup) = Inr payload \<and>
       cl_files s' path = Some \<lparr>sf_bytes = payload @ [10], sf_mode = 384, sf_uid = uid\<rparr>"
    using written after
    by (auto simp: writeG03Evidence_def dest!: replaced_file split: sum.split_asm prod.split_asm option.split_asm)
qed

lemma run_acceptance_done:
  assumes run: "run_acceptance env config runtime target engine rec op s = (Inr (op', backup), s')"
    and others: "others_commit (gv_outside env)"
    and before: "running (ct_crypto (gv_ctl env)) (rc_Enrollment runtime) (op_OperationID op) (ir_Intent rec) (cl_run s)"
  shows "running (ct_crypto (gv_ctl env)) (rc_Enrollment runtime) (op_OperationID op) (ir_Intent rec) (cl_run s')"
    "GetOperation (op_OperationID op) (rn_db (cl_run s')) = Inr op'" "retains_writer op'"
    "ci_Steps (ir_Intent rec) = FixedWorkflowSteps" "ValidateCompleted backup = None"
proof -
  let ?I = "running (ct_crypto (gv_ctl env)) (rc_Enrollment runtime) (op_OperationID op) (ir_Intent rec)"
  let ?f = "acceptance_foundation env config runtime target engine"
  obtain s1 s2 where ran: "must (Run (gv_outside env) ?f (op_OperationID op)) s = (Inr (), s1)"
      and inspected: "must (Inspect (gv_filesystem env) engine (gv_outside env) (ci_ReservedBackupID (ir_Intent rec))) s1 = (Inr backup, s2)"
      and read: "must (journal_read (gv_outside env) (GetOperation (op_OperationID op))) s2 = (Inr op', s')" and kept: "retains_writer op'"
    using run unfolding run_acceptance_def by (auto simp: cmd_then_Inr cmd_check_Inr)
  have f: "fd_Backup ?f = Some (offline_engine (gv_filesystem env) engine (gv_outside env))" "fd_Enrollment ?f = rc_Enrollment runtime"
    by (simp_all add: acceptance_foundation_def)
  have "triple ?I (Run (gv_outside env) ?f (op_OperationID op)) (\<lambda>_ s. ?I s \<and> ci_Steps (ir_Intent rec) = FixedWorkflowSteps) ?I"
    using offline.run_keeps_running [OF others f(1), where operationID = "op_OperationID op" and i = "ir_Intent rec"] unfolding f(2) .
  then have after: "?I (cl_run s1)" "ci_Steps (ir_Intent rec) = FixedWorkflowSteps"
    using ran before tripleD_Inr by (fastforce simp: must_Inr)+
  have "?I (cl_run s2)"
    by (rule quiet_commandD [OF quiet_command_must [OF quiet_Inspect [OF others]] stable_running after(1) inspected])
  from must_read [OF read stable_running others this]
  show "?I (cl_run s')" "GetOperation (op_OperationID op) (rn_db (cl_run s')) = Inr op'" .
  show "retains_writer op'" "ci_Steps (ir_Intent rec) = FixedWorkflowSteps" by (fact kept after)+
  show "ValidateCompleted backup = None"
    using inspected unfolding Inspect_def by (auto simp: must_Inr run_then_Inr split: option.split_asm)
qed

text \<open>
  What an accepted run stands on. The operation it shows is the journal's own: still executing, not released, with exactly the six attempts S00 to S05
  of an intent that was approved under its digest. No step was dispatched twice, each dispatch was recorded first, the backup is complete, the
  support profile keeps mutation closed, and the evidence file holds exactly this intent, operation and backup.
\<close>

theorem g03_acceptance_grounded:
  assumes run: "execute env arguments s = (Inr (Accepted rec op backup path), s')"
    and others: "others_commit (gv_outside env)" and history: "journal_history (ct_crypto (gv_ctl env)) (rn_db (cl_run s))"
    and calls: "rn_calls (cl_run s) = []" and temporary: "\<forall>w. we_TempName (fst (pv_write (gv_programs env) w)) \<noteq> path"
  shows "journal_history (ct_crypto (gv_ctl env)) (rn_db (cl_run s')) \<and> GetOperation (op_OperationID op) (rn_db (cl_run s')) = Inr op \<and>
    executes (rn_db (cl_run s')) (op_OperationID op) (ir_Intent rec) \<and> approved_by (ct_crypto (gv_ctl env)) (rn_db (cl_run s')) op \<and>
    op_Status op = OperationExecuting \<and> \<not> op_OwnershipReleased op \<and> map sa_StepKind (op_Attempts op) = take 6 FixedWorkflowSteps \<and>
    distinct (dispatch_keys (rn_calls (cl_run s'))) \<and>
    (\<forall>(operationID, stepID) \<in> set (dispatch_keys (rn_calls (cl_run s'))). dispatched (rn_db (cl_run s')) operationID stepID) \<and>
    ValidateCompleted backup = None \<and> ir_Status rec = IntentConsumed \<and>
    (\<exists>config runtime. backup_only_profile config runtime \<and> frozen_gates (rc_Support runtime) \<and> path = gc_EvidencePath config) \<and>
    (\<exists>t payload uid. gv_marshal env (g03_evidence env t rec op backup) = Inr payload \<and>
       cl_files s' path = Some \<lparr>sf_bytes = payload @ [10], sf_mode = 384, sf_uid = uid\<rparr>)"
  using run
proof (rule execute_done)
  fix vs config runtime hostConfig rec' op0 target engine op' backup' s1 s2 s3 s4 s5
  let ?cr = "ct_crypto (gv_ctl env)" and ?ou = "gv_outside env" and ?k = "flag_string vs ''intent-id''"
  assume load: "load_all env (flag_string vs ''config'') s = (Inr (config, runtime, hostConfig), s1)"
    and intent: "cmd_then (mustOpen (gv_ctl env) (gc_DatabasePath config)) (\<lambda>_. must (journal_read ?ou (GetIntent ?k))) s1 = (Inr rec', s2)"
    and consumed: "ir_Status rec' = IntentConsumed" and operation: "must (journal_read ?ou (OperationForIntent ?k)) s2 = (Inr op0, s3)"
    and built: "cmd_then (new_observer env hostConfig) (\<lambda>observer. cmd_then (live_target env config runtime hostConfig observer) (\<lambda>target.
       cmd_then (backup_engine env config runtime hostConfig observer) (\<lambda>engine. cmd_return (target, engine)))) s3 = (Inr (target, engine), s4)"
    and ran: "run_acceptance env config runtime target engine rec' op0 s4 = (Inr (op', backup'), s5)"
    and recorded: "record_acceptance env config rec' op' backup' s5 = (Inr (Accepted rec op backup path), s')"
  let ?D = "dispatches_ok ?cr (rc_Enrollment runtime)"
  let ?K = "\<lambda>s. ?D s \<and> known_intent ?k (ir_Intent rec') (rn_db s)"
  let ?I = "running ?cr (rc_Enrollment runtime) (op_OperationID op0) (ir_Intent rec')"
  have D: "stable ?cr ?D" by (rule stable_dispatches_ok)
  have K: "stable ?cr ?K" by (intro stable_conj_db D) (rule known_intent_later)
  obtain s1' where opened: "mustOpen (gv_ctl env) (gc_DatabasePath config) s1 = (Inr (), s1')"
      and read: "must (journal_read ?ou (GetIntent ?k)) s1' = (Inr rec', s2)" using intent by (auto simp: cmd_then_Inr)
  have "?D (cl_run s)" by (rule dispatches_ok_start [OF history calls])
  then have "?D (cl_run s1)" by (rule quiet_commandD [OF quiet_command_loads(2) D _ load])
  then have "?D (cl_run s1')" by (rule quiet_commandD [OF quiet_command_loads(1) D _ opened])
  note intent_read = must_read [OF read D others this]
  then have "?K (cl_run s2)" by (auto simp: known_intent_def)
  note operation_read = must_read [OF operation K others this]
  then have ready: "?I (cl_run s3)" using known_intent_executes unfolding running_def dispatches_ok_def by blast
  have "quiet_command ?cr (cmd_then (new_observer env hostConfig) (\<lambda>observer. cmd_then (live_target env config runtime hostConfig observer) (\<lambda>target.
       cmd_then (backup_engine env config runtime hostConfig observer) (\<lambda>engine. cmd_return (target, engine)))))"
    by (intro quiet_command_rule)
  from quiet_commandD [OF this stable_running ready built] have "?I (cl_run s4)" .
  note kept = run_acceptance_done [OF ran others this]
  note same = record_acceptance_done [OF recorded temporary]
  have I: "?I (cl_run s')" "GetOperation (op_OperationID op0) (rn_db (cl_run s')) = Inr op"
    using kept(1,2) same(2,5,6) by (simp_all add: running_def dispatches_ok_def)
  then have h: "journal_history ?cr (rn_db (cl_run s'))" by (simp add: running_def dispatches_ok_def)
  note approved = history_approved_by [OF h I(2)]
  have steps: "map sa_StepKind (op_Attempts op) = take 6 FixedWorkflowSteps"
  proof -
    have "executes (rn_db (cl_run s')) (op_OperationID op0) (ir_Intent rec')" using I(1) by (simp add: running_def)
    with approved(1) I(2) kept(3,4) same(2) show ?thesis
      by (auto simp: approved_by_def executes_def GetIntent_iff retains_writer_def)
  qed
  have trace: "distinct (dispatch_keys (rn_calls (cl_run s')))"
      "\<forall>(operationID, stepID) \<in> set (dispatch_keys (rn_calls (cl_run s'))). dispatched (rn_db (cl_run s')) operationID stepID"
      "executes (rn_db (cl_run s')) (op_OperationID op) (ir_Intent rec)"
    using I(1) unfolding running_def dispatches_ok_def approved(2) same(1) by simp_all
  have writer: "op_Status op = OperationExecuting" "\<not> op_OwnershipReleased op" "ValidateCompleted backup = None" "ir_Status rec = IntentConsumed"
    using kept(3,5) consumed unfolding retains_writer_def same(1-3) by simp_all
  have profile: "\<exists>config runtime. backup_only_profile config runtime \<and> frozen_gates (rc_Support runtime) \<and> path = gc_EvidencePath config"
    using load_all_done [OF load] same(4) by blast
  show ?thesis
    by (intro conjI h I(2) [folded approved(2)] trace approved(1) writer steps profile same(7) [folded same(1-3)])
qed

end
