(* ===== verification/Spec2Isabelle.thy ===== *)
theory Spec2Isabelle
  imports Agent_Properties Foundation_Properties Journal_Progress Admission_Gate Paper_Operations Runtime_Config Minecraft_Protocol G02_Samples G03_Verify
begin

text \<open>
  A verification development for the Guarded Agent Runner (GAR), the Go program under \<open>src/\<close>. GAR lets an
  agent observe one enrolled Paper server and propose changes to it, while approval and execution stay with
  the owner.

  \<^bold>\<open>The program and its parts.\<close> An agent session calls tools of the MCP server (\<open>internal/mcpserver\<close>), which
  hands them to the agent service (\<open>internal/workflow/service.go\<close>). The service authorizes a call against a sealed session
  scope, answers read tools from target adapters (\<open>internal/adapters\<close>) and freezes proposals as sealed intents in the
  durable journal (\<open>internal/store\<close>, a SQLite database). The owner approves, rejects or revokes through the
  operator service. An approved operation is executed by the foundation workflow (\<open>internal/workflow/foundation.go\<close>, steps
  S00 to S05), which marks each step in the journal before it asks the target for it, and ends with an offline
  backup (\<open>internal/backup\<close>). A TCP gate (\<open>internal/admission\<close>) keeps players out unless a short lease and a fresh
  runtime snapshot allow them in. The programs under \<open>cmd/\<close> wire these parts for the agent, the owner, the host and the two
  acceptance runs.

  \<^bold>\<open>Theories, in the order of import, with the code they translate.\<close>

  \<^item> \<open>Gar_Prelude\<close>: Go's \<open>time\<close> arithmetic (saturating \<open>Sub\<close>, wrapping \<open>UnixNano\<close>), hexadecimal text, fallible
    sequencing over the sum type (\<open>Inl\<close> is the error), row lists with unique columns (locale \<open>keyed_rows\<close>), invariants
    of a step relation (locale \<open>guarded_system\<close>), forward-only lifecycles (locale \<open>ranked_lifecycle\<close>).
  \<^item> \<open>Domain_Types\<close>, \<open>Operation_States\<close>, \<open>Canonical\<close>, \<open>Backup_Evidence\<close>: \<open>domain/types.go\<close>, \<open>errors.go\<close>, \<open>state.go\<close>,
    \<open>canonical.go\<close>, \<open>backup.go\<close> and \<open>policy/gates.go\<close>. Structs are records with the source's fields, string enumerations are
    datatypes, the canonical JSON and SHA-256 functions are the parameter \<open>crypto\<close>.
  \<^item> \<open>Journal_Store\<close>, \<open>Backup_Store\<close>, \<open>Journal_Listing\<close>: \<open>store/store.go\<close> and \<open>store/backup.go\<close>. The database is the record
    \<open>db\<close> of its tables, a transaction is a function to a result that commits a new database or leaves the old one.
  \<^item> \<open>Journal_Tables\<close>, \<open>Journal_Effects\<close>, \<open>Journal_Invariants\<close>, \<open>Backup_Invariants\<close>, \<open>Journal_Progress\<close>, \<open>Journal_Samples\<close>,
    \<open>Journal_Properties\<close>: the journal as a state machine with one rule per transaction (\<open>journal_step\<close>,
    \<open>journal_history\<close>), its invariants by rule induction, and the properties over every history.
  \<^item> \<open>Agent_Service\<close>, \<open>Agent_Properties\<close>: \<open>workflow/service.go\<close>, \<open>registry.go\<close>, \<open>operator.go\<close>.
  \<^item> \<open>Run_Actions\<close>, \<open>Foundation_Run\<close>, \<open>Foundation_Safety\<close>, \<open>Backup_Engine\<close>, \<open>Foundation_Properties\<close>: \<open>workflow/foundation.go\<close>
    and \<open>backup/offline.go\<close> as actions over the journal, the outside world and a trace of the target's calls, in which other
    processes may commit between two calls and any store call may fail. The locale \<open>archive_engine\<close> is what the executor
    needs of the interface \<open>OfflineBackup\<close>; the repository's engine is its interpretation.
  \<^item> \<open>Go_Text\<close>, \<open>Go_Net\<close>, \<open>Local_Files\<close>: the functions of \<open>strings\<close>, \<open>strconv\<close>, \<open>path/filepath\<close>, \<open>net\<close> and \<open>os\<close> that the code calls,
    with \<open>localfile/security.go\<close>. File modes are 32-bit words.
  \<^item> \<open>Strict_Json\<close>: \<open>strictjson/duplicate.go\<close> over the token automaton of \<open>encoding/json\<close>.
  \<^item> \<open>Admission_State\<close>, \<open>Admission_Gate\<close>: \<open>admission/config.go\<close>, \<open>state.go\<close>, \<open>runtime.go\<close>, \<open>gate.go\<close>. The goroutines of the
    gate are the step relation \<open>gate_step\<close>, one rule per critical section.
  \<^item> \<open>Paper_Snapshot\<close>, \<open>Host_Snapshot\<close>, \<open>Composite_Target\<close>: \<open>adapters/paper/snapshot.go\<close>, \<open>adapters/host/snapshot.go\<close>,
    \<open>adapters/composite/target.go\<close>; the locale \<open>observed_target\<close> is the contract of \<open>workflow.TargetReader\<close>.
  \<^item> \<open>Host_Config\<close>, \<open>Host_Docker\<close>, \<open>Host_Observer\<close>, \<open>Host_Lifecycle\<close>: \<open>adapters/host/observer.go\<close> and \<open>lifecycle.go\<close>. The configuration, what is
    asked of an inspected container and of its neighbours, the observation and its publication, the stop request and the log evidence.
  \<^item> \<open>Paper_Operations\<close>: \<open>adapters/paperops/target.go\<close>, the server as the executor's target; its state is the acknowledged stop.
  \<^item> \<open>Mcp_Server\<close>: \<open>mcpserver/auth.go\<close> and \<open>server.go\<close>. A request is the part of it that the middlewares read with the decoded tool call.
  \<^item> \<open>Runtime_Config\<close>: \<open>runtimeconfig/config.go\<close>, \<open>g03/config.go\<close> and the construction of the archive engine.
  \<^item> \<open>Minecraft_Protocol\<close>, \<open>G02_Evidence\<close>, \<open>G02_Runner\<close>, \<open>G02_Samples\<close>: \<open>acceptance/g02\<close>, the client of the game's protocol, the
    evidence file and the runs against the barrier; \<open>G02_Samples\<close> has a concrete deployment.
  \<^item> \<open>Command_Line\<close>, \<open>Owner_Commands\<close>, \<open>Service_Commands\<close>, \<open>G03_Verify\<close>: the six programs under \<open>cmd/\<close>. A command is a state transformer
    that ends with a value or with an exit; \<open>Owner_Commands\<close> is \<open>garctl\<close>, \<open>Service_Commands\<close> is \<open>gar\<close>, \<open>gar-gate\<close>, \<open>gar-host\<close> and
    \<open>gar-g02-verify\<close>, \<open>G03_Verify\<close> is \<open>gar-g03-verify\<close>.

  \<^bold>\<open>What the lemmas show.\<close> The journal's histories have one writer per enrollment, approve before they execute, dispatch a step at most once, never
  pass the review boundary and let an approved operation progress up to it. The executor asks the target for a step only on
  record and never repeats an interrupted one. The service lets an agent see only its own operations and write only intents, over HTTP as well as
  by direct call. The gate opens for at most thirty seconds and closes every session it admitted. An observation that is
  published is one that its reader accepts, and what the readers accept is what the enrollment pins. A confirmed stop, a passed login probe, a
  passed reboot check and an accepted backup run each stand on the evidence they claim. A credential that is issued works, and what is
  served is local, exact and unable to mutate.

  \<^bold>\<open>Interfaces.\<close> The locales are \<open>keyed_rows\<close> for tables, \<open>guarded_system\<close> for step relations, \<open>ranked_lifecycle\<close> for status axes, \<open>sealed_struct\<close>
  for sealed payloads, \<open>archive_engine\<close> and \<open>observed_target\<close>; each is interpreted on the definitions of the component that provides it.

  \<^bold>\<open>Parameters.\<close> Code outside the repository is an argument of the definitions that use it: canonical JSON and SHA-256 (\<open>crypto\<close>), the reflective
  JSON decoders (\<open>json_reader\<close>) and encoders, the operating system (\<open>file_access\<close>, \<open>write_env\<close>, \<open>filesystem\<close>), Docker's answers, the SQL driver
  (\<open>store_env\<close>), the MCP library and its rate limiter, \<open>url.Parse\<close>, \<open>time.Parse\<close>, \<open>time.ParseDuration\<close> and the functions of \<open>strings\<close> on text that is not
  ASCII. What a theorem needs of one of them is a named hypothesis, for instance \<open>sha256_sized\<close>, \<open>fills_buffers\<close>, \<open>codec_roundtrip\<close> or \<open>others_commit\<close>.

  \<^bold>\<open>Bounds and fuel.\<close> The waiting loops of the executor, of the acceptance runs and of the observer recurse over the ticks the world
  delivers before the context ends (\<open>ou_ticks\<close>, \<open>ge_ticks\<close>), so every run is finite. The frames of a Docker log are split by a recursion on the
  length, variable-length integers by one on the value. The JSON check recurses with fuel \<open>2 * length + 1\<close>, and
  \<open>strict_json_exact\<close> states its result without fuel. Times are unbounded integers of nanoseconds, durations saturate
  and wrap at 64 bits where the code's do. The IPv6 parser has the eight rounds of the code.

  \<^bold>\<open>Not modelled.\<close> The bodies of third-party packages and of the standard library beyond the functions named above, the copying of bytes
  between two sockets and the log lines of the gate, the indentation of printed JSON, signal handling, and the timeouts of the HTTP server: input
  and output around the components above. JSON decoding into structs is a parameter with the strict checks around it modelled. The mode of a new
  file is the one the code asks for; a process mask that clears bits of the owner is not considered.
\<close>

end
